(* ===== verification/Prelude.thy ===== *)
theory Prelude
  imports Main "HOL-Library.Word"
begin

text \<open>
  Shared vocabulary of the development: the fixed-width types of the C sources, byte
  buffers as lists of 8-bit words with the C library calls that fill them
  (\<open>memcpy\<close>, \<open>memset\<close>), bit strings in the big-endian order every codec of the
  program uses, and interleavers (permutations of bit positions).

  A C buffer of n bytes is a list of length n. Buffers never change their length;
  \<open>memcpy\<close> of the model overwrites in place and its lemmas carry the bound that keeps
  the write inside the buffer. A C \<open>int\<close> that counts or names something is an \<open>int\<close>
  or a \<open>nat\<close>; where a width matters the type is a word.
\<close>

unbundle bit_operations_syntax

type_synonym u8 = "8 word"
type_synonym u16 = "16 word"
type_synonym u32 = "32 word"
type_synonym u64 = "64 word"
type_synonym bytes = "8 word list"
type_synonym bits = "bool list"

named_theorems buf_simps \<open>length and lookup in buffers written by memcpy and friends\<close>
named_theorems bit_simps \<open>bytes as bit strings\<close>

section \<open>Buffers\<close>

definition memcpy :: "'a list \<Rightarrow> nat \<Rightarrow> 'a list \<Rightarrow> 'a list" where
  "memcpy dst off src = take off dst @ src @ drop (off + length src) dst"

definition memset :: "'a list \<Rightarrow> nat \<Rightarrow> 'a \<Rightarrow> nat \<Rightarrow> 'a list" where
  "memset dst off v n = memcpy dst off (replicate n v)"

definition sub_buf :: "'a list \<Rightarrow> nat \<Rightarrow> nat \<Rightarrow> 'a list" where
  "sub_buf xs off n = take n (drop off xs)"

lemma length_memcpy [buf_simps, simp]:
  "off + length src \<le> length dst \<Longrightarrow> length (memcpy dst off src) = length dst"
  by (simp add: memcpy_def)

lemma length_memset [buf_simps, simp]:
  "off + n \<le> length dst \<Longrightarrow> length (memset dst off v n) = length dst"
  by (simp add: memset_def)

lemma length_sub_buf [buf_simps, simp]:
  "off + n \<le> length xs \<Longrightarrow> length (sub_buf xs off n) = n"
  by (simp add: sub_buf_def)

lemma nth_memcpy [buf_simps]:
  "off + length src \<le> length dst \<Longrightarrow> i < length dst \<Longrightarrow>
   memcpy dst off src ! i =
     (if off \<le> i \<and> i < off + length src then src ! (i - off) else dst ! i)"
  by (auto simp: memcpy_def nth_append min_def)

lemma nth_memset [buf_simps]:
  "off + n \<le> length dst \<Longrightarrow> i < length dst \<Longrightarrow>
   memset dst off v n ! i = (if off \<le> i \<and> i < off + n then v else dst ! i)"
  by (auto simp: memset_def nth_memcpy)

lemma nth_sub_buf [buf_simps, simp]:
  "i < n \<Longrightarrow> off + n \<le> length xs \<Longrightarrow> sub_buf xs off n ! i = xs ! (off + i)"
  by (simp add: sub_buf_def)

lemma sub_buf_memcpy_same [buf_simps, simp]:
  "off + length src \<le> length dst \<Longrightarrow> n = length src \<Longrightarrow>
   sub_buf (memcpy dst off src) off n = src"
  by (simp add: sub_buf_def memcpy_def)

lemma sub_buf_memcpy_other [buf_simps]:
  assumes "off + length src \<le> length dst" "o2 + n \<le> length dst"
    and "o2 + n \<le> off \<or> off + length src \<le> o2"
  shows "sub_buf (memcpy dst off src) o2 n = sub_buf dst o2 n"
  using assms by (intro nth_equalityI) (auto simp: nth_memcpy)

lemma memcpy_whole [buf_simps, simp]:
  "length src = length dst \<Longrightarrow> memcpy dst 0 src = src"
  by (simp add: memcpy_def)

lemma memcpy_memcpy_same [buf_simps, simp]:
  "off + length s1 \<le> length dst \<Longrightarrow> length s2 = length s1 \<Longrightarrow>
   memcpy (memcpy dst off s1) off s2 = memcpy dst off s2"
  by (intro nth_equalityI) (auto simp: nth_memcpy)

lemma memcpy_sub_buf_self [buf_simps]:
  "off + n \<le> length dst \<Longrightarrow> memcpy dst off (sub_buf dst off n) = dst"
  by (intro nth_equalityI) (auto simp: nth_memcpy)

lemma memcpy_append:
  "a + length xs + length ys \<le> length d \<Longrightarrow>
   memcpy (memcpy d a xs) (a + length xs) ys = memcpy d a (xs @ ys)"
  by (simp add: memcpy_def) (simp add: ac_simps)

lemma memcpy_keep_front:
  "a + k + length ys \<le> length d \<Longrightarrow> memcpy d a (sub_buf d a k @ ys) = memcpy d (a + k) ys"
  by (rule nth_equalityI) (auto simp: nth_memcpy nth_append)

lemma memcpy_keep_back:
  "a + length ys + k \<le> length d \<Longrightarrow> memcpy d a (ys @ sub_buf d (a + length ys) k) = memcpy d a ys"
  by (rule nth_equalityI) (auto simp: nth_memcpy nth_append)

section \<open>Bytes as bit strings, most significant bit first\<close>

definition byte_bits :: "u8 \<Rightarrow> bits" where
  "byte_bits b = map (\<lambda>i. bit b (7 - i)) [0..<8]"

definition bits_of :: "bytes \<Rightarrow> bits" where
  "bits_of bs = concat (map byte_bits bs)"

definition bits_to_byte :: "bits \<Rightarrow> u8" where
  "bits_to_byte bs = horner_sum of_bool 2 (rev bs)"

lemma length_byte_bits [simp]: "length (byte_bits b) = 8"
  by (simp add: byte_bits_def)

lemma nth_byte_bits [bit_simps]: "i < 8 \<Longrightarrow> byte_bits b ! i = bit b (7 - i)"
  by (simp add: byte_bits_def)

lemma length_bits_of [simp]: "length (bits_of bs) = 8 * length bs"
  by (induction bs) (auto simp: bits_of_def)

lemma bits_of_simps [simp]: "bits_of [] = []" "bits_of (b # bs) = byte_bits b @ bits_of bs"
  by (simp_all add: bits_of_def)

lemma bits_of_append [simp]: "bits_of (xs @ ys) = bits_of xs @ bits_of ys"
  by (simp add: bits_of_def)

lemma nth_bits_of [bit_simps]:
  "i < 8 * length bs \<Longrightarrow> bits_of bs ! i = bit (bs ! (i div 8)) (7 - i mod 8)"
proof (induction bs arbitrary: i)
  case (Cons b bs)
  show ?case
  proof (cases "i < 8")
    case True
    then show ?thesis by (simp add: nth_append nth_byte_bits)
  next
    case False
    then obtain j where j: "i = 8 + j" by (metis le_Suc_ex not_less)
    with Cons show ?thesis by (simp add: nth_append div_add_self1 mod_add_self1)
  qed
qed simp

lemma bit_bits_to_byte [bit_simps]:
  "length bs = 8 \<Longrightarrow> bit (bits_to_byte bs) i \<longleftrightarrow> i < 8 \<and> bs ! (7 - i)"
  by (auto simp: bits_to_byte_def bit_horner_sum_bit_word_iff rev_nth possible_bit_def)

lemma byte_bits_to_byte [simp]: "length bs = 8 \<Longrightarrow> byte_bits (bits_to_byte bs) = bs"
  by (intro nth_equalityI) (auto simp: nth_byte_bits bit_bits_to_byte)

lemma bits_to_byte_bits [simp]: "bits_to_byte (byte_bits b) = b"
  by (rule bit_word_eqI) (auto simp: bit_bits_to_byte nth_byte_bits)

lemma bits_of_inject [simp]:
  "length xs = length ys \<Longrightarrow> bits_of xs = bits_of ys \<longleftrightarrow> xs = ys"
proof (induction xs ys rule: list_induct2)
  case (Cons x xs y ys)
  have "byte_bits x = byte_bits y \<longleftrightarrow> x = y"
    by (metis bits_to_byte_bits)
  with Cons show ?case by simp
qed simp

lemma bits_of_memcpy [bit_simps]:
  "off + length src \<le> length dst \<Longrightarrow>
   bits_of (memcpy dst off src) = memcpy (bits_of dst) (8 * off) (bits_of src)"
proof -
  assume a: "off + length src \<le> length dst"
  have t: "bits_of (take k xs) = take (8 * k) (bits_of xs)" for k and xs :: bytes
  proof (induction xs arbitrary: k)
    case (Cons x xs)
    then show ?case by (cases k) auto
  qed simp
  have d: "bits_of (drop k xs) = drop (8 * k) (bits_of xs)" for k and xs :: bytes
  proof (induction xs arbitrary: k)
    case (Cons x xs)
    then show ?case by (cases k) auto
  qed simp
  show ?thesis
    by (simp add: memcpy_def t d algebra_simps)
qed

lemma bits_of_update: "i < length out \<Longrightarrow> bits_of (out[i := x]) = memcpy (bits_of out) (8 * i) (byte_bits x)"
  using bits_of_memcpy [of i "[x]" out] by (simp add: memcpy_def upd_conv_take_nth_drop)

lemma merge_nibbles:
  "byte_bits ((x AND 0xF0) OR (b AND 0x0F)) = take 4 (byte_bits x) @ drop 4 (byte_bits b)"
  "byte_bits ((x AND 0x0F) OR (b AND 0xF0)) = take 4 (byte_bits b) @ drop 4 (byte_bits x)"
  by (simp_all add: byte_bits_def upt_rec bit_and_iff bit_or_iff bit_0 even_and_iff even_or_iff)

lemma less_8_cases:
  "(i :: nat) < 8 \<Longrightarrow> i = 0 \<or> i = 1 \<or> i = 2 \<or> i = 3 \<or> i = 4 \<or> i = 5 \<or> i = 6 \<or> i = 7"
  by arith

lemma less_16_cases:
  "(i :: nat) < 16 \<Longrightarrow>
   i = 8 \<or> i = 0 \<or> i = 9 \<or> i = 1 \<or> i = 10 \<or> i = 2 \<or> i = 11 \<or> i = 3 \<or> i = 12 \<or> i = 4
   \<or> i = 13 \<or> i = 5 \<or> i = 14 \<or> i = 6 \<or> i = 15 \<or> i = 7"
  by arith

lemma byte_eqI: "(\<And>n. n < 8 \<Longrightarrow> bit a n = bit b n) \<Longrightarrow> a = (b :: u8)"
  by (rule bit_word_eqI) simp

lemma mixed_radix_inject:
  "m * a + x = m * a' + x' \<Longrightarrow> x < m \<Longrightarrow> x' < m \<Longrightarrow> a = a' \<and> x = (x' :: nat)"
  by (metis add_left_cancel div_mult_self4 div_less add_0_right gr_implies_not0)

section \<open>Permuting positions: the interleavers\<close>

text \<open>\<open>scatter\<close> is the loop \<open>out[perm(i)] = in[i]\<close>, \<open>gather\<close> the loop \<open>out[i] = in[perm(i)]\<close>.\<close>

definition scatter :: "(nat \<Rightarrow> nat) \<Rightarrow> nat \<Rightarrow> 'a list \<Rightarrow> 'a list \<Rightarrow> 'a list" where
  "scatter perm n xs out = fold (\<lambda>i ys. ys[perm i := xs ! i]) [0..<n] out"

definition gather :: "(nat \<Rightarrow> nat) \<Rightarrow> nat \<Rightarrow> 'a list \<Rightarrow> 'a list" where
  "gather perm n xs = map (\<lambda>i. xs ! perm i) [0..<n]"

lemma length_scatter [simp]: "length (scatter perm n xs out) = length out"
  unfolding scatter_def by (induction n) auto

lemma length_gather [simp]: "length (gather perm n xs) = n"
  by (simp add: gather_def)

lemma nth_gather [simp]: "i < n \<Longrightarrow> gather perm n xs ! i = xs ! perm i"
  by (simp add: gather_def)

lemma scatter_other:
  "(\<And>i. i < n \<Longrightarrow> perm i \<noteq> j) \<Longrightarrow> scatter perm n xs out ! j = out ! j"
  unfolding scatter_def by (induction n) auto

locale interleaver =
  fixes perm :: "nat \<Rightarrow> nat" and n :: nat
  assumes perm_inj: "inj_on perm {..<n}"
    and perm_bound: "\<And>i. i < n \<Longrightarrow> perm i < n"
begin

lemma nth_scatter:
  assumes "i < n" "n \<le> length out"
  shows "scatter perm n xs out ! perm i = xs ! i"
proof -
  have "k \<le> n \<Longrightarrow> i < k \<Longrightarrow> scatter perm k xs out ! perm i = xs ! i" for k
  proof (induction k)
    case (Suc k)
    have len: "length (fold (\<lambda>i ys. ys[perm i := xs ! i]) [0..<k] out) = length out"
      using length_scatter [of perm k xs out] by (simp add: scatter_def)
    show ?case
    proof (cases "i = k")
      case True
      with Suc assms perm_bound [of k] show ?thesis
        by (simp add: scatter_def len)
    next
      case False
      with Suc have "perm i \<noteq> perm k"
        using inj_onD [OF perm_inj, of i k] by auto
      with False Suc show ?thesis by (simp add: scatter_def)
    qed
  qed simp
  with assms show ?thesis by simp
qed

lemma gather_scatter:
  "length xs = n \<Longrightarrow> n \<le> length out \<Longrightarrow> gather perm n (scatter perm n xs out) = xs"
  by (intro nth_equalityI) (auto simp: nth_scatter)

lemma perm_surj: "perm ` {..<n} = {..<n}"
  by (rule endo_inj_surj) (use perm_inj perm_bound in auto)

lemma scatter_gather:
  assumes "length xs = n" "length out = n"
  shows "scatter perm n (gather perm n xs) out = xs"
proof (rule nth_equalityI)
  fix j assume "j < length (scatter perm n (gather perm n xs) out)"
  then have "j < n" using assms by simp
  then obtain i where "i < n" "j = perm i"
    using perm_surj by (metis imageE lessThan_iff)
  then show "scatter perm n (gather perm n xs) out ! j = xs ! j"
    using assms by (simp add: nth_scatter)
qed (use assms in simp)

lemma gather_inject:
  "length xs = n \<Longrightarrow> length ys = n \<Longrightarrow> gather perm n xs = gather perm n ys \<Longrightarrow> xs = ys"
  by (metis scatter_gather)

end

text \<open>The interleaver of a table: position i goes to the i-th entry.\<close>

lemma interleaver_table:
  "distinct t \<Longrightarrow> (\<forall>x \<in> set t. x < length t) \<Longrightarrow> interleaver (\<lambda>i. t ! i) (length t)"
  by unfold_locales (auto simp: inj_on_def nth_eq_iff_index_eq)

end
