(* ===== verification/Linear_Code.thy ===== *)
theory Linear_Code
  imports Prelude
begin

text \<open>
  Linear maps over bits, as the block codes of the program use them: a word is the sum
  modulo 2 of the rows that the bits of the argument select, and a code table that lists
  these sums in the order of the argument is the span of the rows.
\<close>

section \<open>Linear combinations of rows\<close>

text \<open>The rows selected by the bits of p, least significant first, added modulo 2.\<close>

primrec xor_comb :: "'a::len word list \<Rightarrow> nat \<Rightarrow> 'a word" where
  "xor_comb [] p = 0"
| "xor_comb (r # rs) p = (if odd p then r else 0) XOR xor_comb rs (p div 2)"

definition xor_span :: "'a::len word list \<Rightarrow> 'a word list" where
  "xor_span rs = fold (\<lambda>r s. s @ map ((XOR) r) s) rs [0]"

lemma xor_comb_zero [simp]: "xor_comb rs 0 = 0"
  by (induction rs) auto

lemma nat_xor_div2: "(p XOR q) div 2 = p div 2 XOR q div (2::nat)"
  using drop_bit_xor [of 1 p q] by (simp add: drop_bit_eq_div)

lemma nat_odd_xor: "odd (p XOR q) \<longleftrightarrow> odd p \<noteq> odd (q::nat)"
  by (auto simp: even_xor_iff)

lemma xor_comb_xor: "xor_comb rs (p XOR q) = xor_comb rs p XOR xor_comb rs q"
proof (induction rs arbitrary: p q)
  case (Cons r rs)
  then show ?case
    by (simp add: nat_xor_div2 nat_odd_xor xor.assoc xor.left_commute [of r])
qed simp

lemma xor_comb_num [simp]:
  "xor_comb (r # rs) 1 = r"
  "xor_comb (r # rs) (numeral num.One) = r"
  "xor_comb (r # rs) (numeral (num.Bit0 n)) = xor_comb rs (numeral n)"
  "xor_comb (r # rs) (numeral (num.Bit1 n)) = r XOR xor_comb rs (numeral n)"
  by simp_all

lemma xor_comb_snoc:
  "xor_comb (rs @ [r]) p = xor_comb rs p XOR (if odd (p div 2 ^ length rs) then r else 0)"
  by (induction rs arbitrary: p) (auto simp: xor.assoc div_mult2_eq)

lemma xor_comb_beyond:
  "xor_comb rs (p + 2 ^ length rs * k) = xor_comb rs p"
proof (induction rs arbitrary: p)
  case (Cons r rs)
  have "(p + 2 ^ length (r # rs) * k) div 2 = p div 2 + 2 ^ length rs * k"
    by simp
  moreover have "odd (p + 2 ^ length (r # rs) * k) = odd p" by simp
  ultimately show ?case using Cons by (simp only: xor_comb.simps)
qed simp

lemma length_xor_span: "length (xor_span rs) = 2 ^ length rs"
  unfolding xor_span_def by (induction rs rule: rev_induct) auto

lemma xor_span_snoc: "xor_span (rs @ [r]) = xor_span rs @ map ((XOR) r) (xor_span rs)"
  by (simp add: xor_span_def)

lemma nth_xor_span: "i < 2 ^ length rs \<Longrightarrow> xor_span rs ! i = xor_comb rs i"
proof (induction rs arbitrary: i rule: rev_induct)
  case Nil
  then show ?case by (simp add: xor_span_def)
next
  case (snoc r rs)
  show ?case
  proof (cases "i < 2 ^ length rs")
    case True
    with snoc show ?thesis
      by (simp add: xor_span_snoc nth_append length_xor_span xor_comb_snoc)
  next
    case False
    define j where "j = i - 2 ^ length rs"
    from False snoc.prems have j: "i = j + 2 ^ length rs * 1" "j < 2 ^ length rs"
      by (auto simp: j_def)
    have "i div 2 ^ length rs = 1" using j by (simp add: div_add_self2)
    then have "xor_comb (rs @ [r]) i = xor_comb rs j XOR r"
      using xor_comb_beyond [of rs j 1] j(1) by (simp add: xor_comb_snoc)
    moreover have "xor_span (rs @ [r]) ! i = r XOR xor_comb rs j"
      using False j snoc.IH [of j] by (simp add: xor_span_snoc nth_append length_xor_span)
    ultimately show ?thesis by (simp add: xor.commute)
  qed
qed

lemma xor_span_append:
  "xor_span (lo @ hi) = concat (map (\<lambda>h. map ((XOR) h) (xor_span lo)) (xor_span hi))"
proof (induction hi rule: rev_induct)
  case Nil
  have "map ((XOR) 0) xs = xs" for xs :: "'a word list" by (simp add: map_idI)
  then show ?case by (simp add: xor_span_def)
next
  case (snoc r hi)
  have "map ((XOR) r) (concat (map (\<lambda>h. map ((XOR) h) (xor_span lo)) (xor_span hi)))
      = concat (map (\<lambda>h. map ((XOR) h) (xor_span lo)) (map ((XOR) r) (xor_span hi)))"
  proof -
    have "map ((XOR) r) (map ((XOR) h) xs) = map ((XOR) (r XOR h)) xs" for h and xs :: "'a word list"
      by (simp add: comp_def xor.assoc)
    then show ?thesis by (simp only: map_concat map_map comp_def)
  qed
  with snoc show ?case
    by (simp add: xor_span_snoc flip: append_assoc)
qed

lemma unat_xor: "unat (p XOR q) = unat p XOR unat (q :: 'a::len word)"
  by (simp add: unsigned_xor_eq)

lemma unat_xor_less: "unat p < 2 ^ k \<Longrightarrow> unat q < 2 ^ k \<Longrightarrow> unat (p XOR q :: 'a::len word) < 2 ^ k"
proof -
  assume "unat p < 2 ^ k" "unat q < 2 ^ k"
  then have "take_bit k (unat p) = unat p" "take_bit k (unat q) = unat q"
    by (simp_all add: take_bit_nat_eq_self)
  then have "take_bit k (unat (p XOR q)) = unat (p XOR q)"
    by (simp add: unat_xor take_bit_xor)
  then show ?thesis by (metis take_bit_nat_less_exp)
qed

text \<open>A map that respects addition modulo 2 acts on the rows.\<close>

lemma xor_comb_hom:
  assumes "\<And>x y. f (x XOR y) = f x XOR f y" and "f 0 = 0"
  shows "f (xor_comb rs p) = xor_comb (map f rs) p"
  by (induction rs arbitrary: p) (auto simp: assms)

lemma xor_comb_zeros: "\<forall>r \<in> set rs. r = 0 \<Longrightarrow> xor_comb rs p = 0"
  by (induction rs arbitrary: p) auto

lemma xor_comb_less:
  "\<forall>r \<in> set rs. unat r < 2 ^ k \<Longrightarrow> unat (xor_comb rs p) < 2 ^ k"
  by (induction rs arbitrary: p) (auto intro!: unat_xor_less)

lemma below_iff_drop_bit: "unat (p :: u32) < 2 ^ k \<longleftrightarrow> drop_bit k p = 0"
proof -
  have "drop_bit k p = 0 \<longleftrightarrow> unat p div 2 ^ k = 0"
    by (metis drop_bit_eq_div unat_drop_bit_eq unat_eq_0)
  then show ?thesis by (simp add: div_eq_0_iff)
qed

lemma unat_drop_bit_less: "unat c < 2 ^ (m + k) \<Longrightarrow> unat (drop_bit m c :: u32) < 2 ^ k"
  by (simp only: below_iff_drop_bit drop_bit_drop_bit add.commute)

section \<open>Three bytes of a code word\<close>

definition be24_bytes :: "u32 \<Rightarrow> bytes" where
  "be24_bytes c = [ucast (drop_bit 16 c), ucast (drop_bit 8 c), ucast c]"

lemma length_be24_bytes [simp]: "length (be24_bytes c) = 3"
  by (simp add: be24_bytes_def)

text \<open>
  The interface of a 24-bit block code: a message of the right range survives every
  tolerated error, in the three-byte form in which code words travel.
\<close>

locale block_code =
  fixes enc :: "u32 \<Rightarrow> u32" and dec :: "bytes \<Rightarrow> u32 option"
    and valid :: "u32 \<Rightarrow> bool" and tolerated :: "u32 \<Rightarrow> bool"
  assumes corrects: "valid m \<Longrightarrow> tolerated e \<Longrightarrow> dec (be24_bytes (enc m XOR e)) = Some m"
    and tolerates_none: "tolerated 0"
begin

lemma exact: "valid m \<Longrightarrow> dec (be24_bytes (enc m)) = Some m"
  using corrects [OF _ tolerates_none] by simp

lemma words_differ: "valid m \<Longrightarrow> valid n \<Longrightarrow> enc m = enc n \<Longrightarrow> m = n"
  by (metis exact option.inject)

end

end
