(* ===== verification/Golay_Tables.thy ===== *)
theory Golay_Tables
  imports Linear_Code Ysf_Tables
begin

text \<open>
  The two checks over the Golay tables of \<open>src/ysf_fich.c\<close> that need every entry: the
  encoder table is the span of twelve rows, and entry s of the error-pattern table is a
  pattern of weight at most three whose syndrome is s.
\<close>

section \<open>The encoder table is linear\<close>

definition enc_rows_low :: "u32 list" where
  "enc_rows_low = [0x18EB, 0x293E, 0x4A97, 0x8DC6, 0x10367, 0x206CD, 0x40D99]"

definition enc_rows_high :: "u32 list" where
  "enc_rows_high = [0x803DA, 0x1007B4, 0x200F68, 0x40063B, 0x800C75]"

lemmas encoding_parts_defs =
  ENCODING_TABLE_24128_00_def ENCODING_TABLE_24128_01_def
  ENCODING_TABLE_24128_02_def ENCODING_TABLE_24128_03_def
  ENCODING_TABLE_24128_04_def ENCODING_TABLE_24128_05_def
  ENCODING_TABLE_24128_06_def ENCODING_TABLE_24128_07_def
  ENCODING_TABLE_24128_08_def ENCODING_TABLE_24128_09_def
  ENCODING_TABLE_24128_10_def ENCODING_TABLE_24128_11_def
  ENCODING_TABLE_24128_12_def ENCODING_TABLE_24128_13_def
  ENCODING_TABLE_24128_14_def ENCODING_TABLE_24128_15_def
  ENCODING_TABLE_24128_16_def ENCODING_TABLE_24128_17_def
  ENCODING_TABLE_24128_18_def ENCODING_TABLE_24128_19_def
  ENCODING_TABLE_24128_20_def ENCODING_TABLE_24128_21_def
  ENCODING_TABLE_24128_22_def ENCODING_TABLE_24128_23_def
  ENCODING_TABLE_24128_24_def ENCODING_TABLE_24128_25_def
  ENCODING_TABLE_24128_26_def ENCODING_TABLE_24128_27_def
  ENCODING_TABLE_24128_28_def ENCODING_TABLE_24128_29_def
  ENCODING_TABLE_24128_30_def ENCODING_TABLE_24128_31_def

lemma encoding_low: "ENCODING_TABLE_24128_00 = xor_span enc_rows_low"
  by (simp add: ENCODING_TABLE_24128_00_def xor_span_def enc_rows_low_def)

lemma encoding_parts:
  "ENCODING_TABLE_24128_parts =
     map (\<lambda>h. map ((XOR) h) ENCODING_TABLE_24128_00) (xor_span enc_rows_high)"
  unfolding ENCODING_TABLE_24128_parts_def encoding_parts_defs
  by (simp add: xor_span_def enc_rows_high_def)

lemma encoding_table: "ENCODING_TABLE_24128 = xor_span (enc_rows_low @ enc_rows_high)"
  by (simp add: ENCODING_TABLE_24128_def encoding_parts encoding_low xor_span_append)

section \<open>Every error pattern has its index as syndrome\<close>

text \<open>Row i is the remainder of the i-th power of x modulo the generator.\<close>

definition syn_rows :: "u32 list" where
  "syn_rows = [0x1, 0x2, 0x4, 0x8, 0x10, 0x20, 0x40, 0x80, 0x100, 0x200, 0x400, 0x475, 0x49F, 0x54B, 0x6E3, 0x1B3, 0x366, 0x6CC, 0x1ED, 0x3DA, 0x7B4, 0x31D, 0x63A]"

fun popcount :: "nat \<Rightarrow> nat" where
  "popcount n = (if n = 0 then 0 else n mod 2 + popcount (n div 2))"

declare popcount.simps [simp del]

lemma popcount_num [simp]:
  "popcount 0 = 0"
  "popcount 1 = 1"
  "popcount (Suc 0) = 1"
  "popcount (numeral num.One) = 1"
  "popcount (numeral (num.Bit0 n)) = popcount (numeral n)"
  "popcount (numeral (num.Bit1 n)) = Suc (popcount (numeral n))"
  by (simp_all add: popcount.simps [of 0] popcount.simps [of 1] popcount.simps [of "Suc 0"]
      popcount.simps [of "numeral (num.Bit0 n)"] popcount.simps [of "numeral (num.Bit1 n)"])

text \<open>Checks a run of table entries whose first has index s.\<close>

definition pattern_entry :: "nat \<Rightarrow> nat \<Rightarrow> bool" where
  "pattern_entry s e \<longleftrightarrow> xor_comb syn_rows e = of_nat s \<and> e < 2 ^ 23 \<and> popcount e \<le> 3"

primrec pattern_run :: "nat \<Rightarrow> u32 list \<Rightarrow> bool" where
  "pattern_run s [] = True"
| "pattern_run s (e # es) = (pattern_entry s (unat e) \<and> pattern_run (s + 1) es)"

lemma pattern_run_nth:
  "pattern_run s es \<Longrightarrow> i < length es \<Longrightarrow> pattern_entry (s + i) (unat (es ! i))"
proof (induction es arbitrary: s i)
  case (Cons e es)
  then show ?case by (cases i) fastforce+
qed simp

lemma pattern_run_append:
  "pattern_run s (xs @ ys) \<longleftrightarrow> pattern_run s xs \<and> pattern_run (s + length xs) ys"
  by (induction xs arbitrary: s) auto

lemmas decoding_parts_defs =
  DECODING_TABLE_23127_00_def DECODING_TABLE_23127_01_def
  DECODING_TABLE_23127_02_def DECODING_TABLE_23127_03_def
  DECODING_TABLE_23127_04_def DECODING_TABLE_23127_05_def
  DECODING_TABLE_23127_06_def DECODING_TABLE_23127_07_def
  DECODING_TABLE_23127_08_def DECODING_TABLE_23127_09_def
  DECODING_TABLE_23127_10_def DECODING_TABLE_23127_11_def
  DECODING_TABLE_23127_12_def DECODING_TABLE_23127_13_def
  DECODING_TABLE_23127_14_def DECODING_TABLE_23127_15_def

text \<open>The parts are runs of 128 entries, checked one after the other.\<close>

primrec pattern_parts :: "nat \<Rightarrow> u32 list list \<Rightarrow> bool" where
  "pattern_parts s [] = True"
| "pattern_parts s (p # ps) = (length p = 128 \<and> pattern_run s p \<and> pattern_parts (s + 128) ps)"

lemma pattern_parts_run: "pattern_parts s ps \<Longrightarrow> pattern_run s (concat ps)"
  by (induction ps arbitrary: s) (auto simp: pattern_run_append)

lemma pattern_parts_length: "pattern_parts s ps \<Longrightarrow> length (concat ps) = 128 * length ps"
  by (induction ps arbitrary: s) auto

lemma decoding_parts_0:
  "pattern_parts 0
     [DECODING_TABLE_23127_00, DECODING_TABLE_23127_01,
      DECODING_TABLE_23127_02, DECODING_TABLE_23127_03]"
  unfolding decoding_parts_defs by (simp add: syn_rows_def pattern_entry_def)

lemma decoding_parts_1:
  "pattern_parts 512
     [DECODING_TABLE_23127_04, DECODING_TABLE_23127_05,
      DECODING_TABLE_23127_06, DECODING_TABLE_23127_07]"
  unfolding decoding_parts_defs by (simp add: syn_rows_def pattern_entry_def)

lemma decoding_parts_2:
  "pattern_parts 1024
     [DECODING_TABLE_23127_08, DECODING_TABLE_23127_09,
      DECODING_TABLE_23127_10, DECODING_TABLE_23127_11]"
  unfolding decoding_parts_defs by (simp add: syn_rows_def pattern_entry_def)

lemma decoding_parts_3:
  "pattern_parts 1536
     [DECODING_TABLE_23127_12, DECODING_TABLE_23127_13,
      DECODING_TABLE_23127_14, DECODING_TABLE_23127_15]"
  unfolding decoding_parts_defs by (simp add: syn_rows_def pattern_entry_def)

lemma decoding_parts: "pattern_parts 0 DECODING_TABLE_23127_parts"
  using decoding_parts_0 decoding_parts_1 decoding_parts_2 decoding_parts_3
  by (simp add: DECODING_TABLE_23127_parts_def)

lemma length_decoding: "length DECODING_TABLE_23127 = 2048"
  using pattern_parts_length [OF decoding_parts]
  by (simp add: DECODING_TABLE_23127_def DECODING_TABLE_23127_parts_def)

lemma decoding_entry:
  assumes "s < 2048"
  shows "xor_comb syn_rows (unat (DECODING_TABLE_23127 ! s)) = of_nat s"
    and "unat (DECODING_TABLE_23127 ! s) < 2 ^ 23"
    and "popcount (unat (DECODING_TABLE_23127 ! s)) \<le> 3"
  using pattern_run_nth [OF pattern_parts_run [OF decoding_parts], of s] assms length_decoding
  by (simp_all add: DECODING_TABLE_23127_def pattern_entry_def)

end
