(* ===== verification/Ysf_Golay.thy ===== *)
theory Ysf_Golay
  imports Golay_Tables
begin

text \<open>
  The Golay codes of \<open>src/ysf_fich.c\<close>: \<open>encode24128\<close> (a table), the polynomial division
  \<open>get_syndrome_23127\<close> and the table-driven correctors \<open>decode23127\<close> and
  \<open>decode24128\<close>. The division loop of the C code does not stop when a bit above bit 22 is
  set, so the model is partial; the lemmas show that it returns for every 23-bit word.

  The main fact is that the corrector undoes any three bit errors. Its proof uses that both
  tables are what they should be: the encoder table is a linear map (\<open>xor_comb\<close> of twelve
  rows) and every entry of the error table has its own index as syndrome. The second check
  and the number of patterns of weight at most three (2048, the code is perfect) give that
  the error table holds exactly those patterns.
\<close>

section \<open>The code\<close>

definition X22 :: u32 where "X22 = 0x00400000"
definition X11 :: u32 where "X11 = 0x00000800"
definition MASK12 :: u32 where "MASK12 = 0xfffff800"
definition GENPOL :: u32 where "GENPOL = 0x00000c75"

partial_function (option) syndrome_align :: "u32 \<Rightarrow> u32 \<Rightarrow> u32 option" where
  "syndrome_align aux pattern =
     (if aux AND pattern \<noteq> 0 then Some aux else syndrome_align (drop_bit 1 aux) pattern)"

partial_function (option) syndrome_reduce :: "u32 \<Rightarrow> u32 \<Rightarrow> u32 option" where
  "syndrome_reduce aux pattern =
     (if pattern AND MASK12 = 0 then Some pattern
      else Option.bind (syndrome_align aux pattern)
             (\<lambda>aux. syndrome_reduce aux (pattern XOR (aux div X11) * GENPOL)))"

definition get_syndrome_23127 :: "u32 \<Rightarrow> u32 option" where
  "get_syndrome_23127 pattern =
     (if X11 \<le> pattern then syndrome_reduce X22 pattern else Some pattern)"

definition encode24128 :: "u32 \<Rightarrow> u32" where
  "encode24128 data = ENCODING_TABLE_24128 ! unat data"

definition decode23127 :: "u32 \<Rightarrow> u32 option" where
  "decode23127 code =
     map_option (\<lambda>syndrome. drop_bit 11 (code XOR DECODING_TABLE_23127 ! unat syndrome))
       (get_syndrome_23127 code)"

definition decode24128 :: "bytes \<Rightarrow> u32 option" where
  "decode24128 b =
     (let code = (ucast (b ! 0) :: u32);
          code = push_bit 8 code OR ucast (b ! 1);
          code = push_bit 8 code OR ucast (b ! 2)
      in decode23127 (drop_bit 1 code))"

lemma encode24128_comb:
  "unat d < 4096 \<Longrightarrow> encode24128 d = xor_comb (enc_rows_low @ enc_rows_high) (unat d)"
  by (simp add: encode24128_def encoding_table nth_xor_span enc_rows_low_def enc_rows_high_def)

definition syn23 :: "u32 \<Rightarrow> u32" where
  "syn23 p = xor_comb syn_rows (unat p)"

lemma syn23_xor: "syn23 (p XOR q) = syn23 p XOR syn23 q"
  by (simp add: syn23_def unat_xor xor_comb_xor)


text \<open>The generator, shifted so that its top bit is bit k.\<close>

definition gen_at :: "nat \<Rightarrow> u32" where
  "gen_at k = (2 ^ k div X11) * GENPOL"

lemma nat_between_cases:
  "11 \<le> (k::nat) \<Longrightarrow> k \<le> 22 \<Longrightarrow>
   k = 11 \<or> k = 12 \<or> k = 13 \<or> k = 14 \<or> k = 15 \<or> k = 16 \<or> k = 17 \<or> k = 18 \<or> k = 19 \<or> k = 20
   \<or> k = 21 \<or> k = 22"
  by arith

lemma gen_at_facts:
  assumes "11 \<le> k" "k \<le> 22"
  shows "syn23 (gen_at k) = 0" and "bit (gen_at k) k"
    and "drop_bit (Suc k) (gen_at k) = 0"
  using nat_between_cases [OF assms]
  by (elim disjE; simp add: gen_at_def X11_def GENPOL_def syn23_def syn_rows_def)+

lemma top_bit_clear:
  assumes "unat (p :: u32) < 2 ^ Suc k" "\<not> bit p k" "k < 32"
  shows "unat p < 2 ^ k"
proof -
  have "unat p div 2 ^ k < 2"
    using assms(1) by (simp add: less_mult_imp_div_less mult.commute)
  moreover have "even (unat p div 2 ^ k)"
    using assms(2,3) bit_iff_odd [of "unat p" k] by (auto simp: bit_unsigned_iff possible_bit_def)
  moreover have "x = 0" if "x < 2" "even x" for x :: nat using that by presburger
  ultimately have "unat p div 2 ^ k = 0" by blast
  then show ?thesis by (simp add: div_eq_0_iff)
qed

lemma divide_step:
  assumes "unat p < 2 ^ Suc k" "bit p k" "11 \<le> k" "k \<le> 22"
  shows "unat (p XOR gen_at k) < 2 ^ k" and "syn23 (p XOR gen_at k) = syn23 p"
proof -
  have "drop_bit (Suc k) (p XOR gen_at k) = 0"
    using assms(1) gen_at_facts(3) [OF assms(3,4)]
    by (simp only: below_iff_drop_bit drop_bit_xor xor_self_eq)
  then have "unat (p XOR gen_at k) < 2 ^ Suc k" by (simp only: below_iff_drop_bit)
  moreover have "\<not> bit (p XOR gen_at k) k"
    using assms(2) gen_at_facts(2) [OF assms(3,4)] by (simp add: bit_xor_iff)
  ultimately show "unat (p XOR gen_at k) < 2 ^ k"
    using top_bit_clear [of "p XOR gen_at k" k] assms(4) by simp
  show "syn23 (p XOR gen_at k) = syn23 p"
    using gen_at_facts(1) [OF assms(3,4)] by (simp only: syn23_xor xor.right_neutral)
qed

lemma mask12_zero_iff: "p AND MASK12 = 0 \<longleftrightarrow> unat p < 2 ^ 11"
proof -
  have m: "bit MASK12 i \<longleftrightarrow> 11 \<le> i \<and> i < 32" for i
  proof -
    have "MASK12 = NOT (mask 11)" by (simp add: MASK12_def mask_eq_exp_minus_1)
    show ?thesis
      unfolding \<open>MASK12 = NOT (mask 11)\<close> bit_not_iff bit_mask_iff by (auto simp: possible_bit_def)
  qed
  have "drop_bit 11 p = 0 \<longleftrightarrow> (\<forall>i. \<not> (11 \<le> i \<and> i < 32 \<and> bit p i))"
  proof -
    have "drop_bit 11 p = 0 \<longleftrightarrow> (\<forall>n. \<not> bit p (11 + n))"
      using bit_imp_le_length [of p "11 + n" for n] by (fastforce simp: bit_eq_iff bit_drop_bit_eq)
    also have "\<dots> \<longleftrightarrow> (\<forall>i. \<not> (11 \<le> i \<and> i < 32 \<and> bit p i))"
      using bit_imp_le_length [of p] nat_le_iff_add [of 11] by auto
    finally show ?thesis .
  qed
  moreover have "p AND MASK12 = 0 \<longleftrightarrow> (\<forall>i. \<not> (11 \<le> i \<and> i < 32 \<and> bit p i))"
    by (auto simp: bit_eq_iff bit_and_iff m)
  ultimately show ?thesis by (simp only: below_iff_drop_bit)
qed

primrec pow_rows :: "nat \<Rightarrow> u32 list" where
  "pow_rows 0 = []"
| "pow_rows (Suc n) = 1 # map (push_bit 1) (pow_rows n)"

lemma xor_comb_push: "xor_comb (map (push_bit 1) rs) p = push_bit 1 (xor_comb rs p)"
  by (induction rs arbitrary: p) (auto simp: push_bit_xor)

lemma xor_comb_pow_rows: "p < 2 ^ n \<Longrightarrow> n \<le> 32 \<Longrightarrow> xor_comb (pow_rows n) p = of_nat p"
proof (induction n arbitrary: p)
  case (Suc n)
  then have "xor_comb (pow_rows n) (p div 2) = of_nat (p div 2)" by simp
  then have "xor_comb (pow_rows (Suc n)) p = (if odd p then 1 else 0) XOR push_bit 1 (of_nat (p div 2))"
    by (simp only: pow_rows.simps xor_comb.simps xor_comb_push)
  also have "\<dots> = of_nat p"
  proof (rule bit_word_eqI)
    fix j assume j: "j < LENGTH(32)"
    define x :: u32 where "x = of_nat (p div 2)"
    have x: "bit x m \<longleftrightarrow> m < 32 \<and> bit p (Suc m)" for m
      by (simp add: x_def bit_of_nat_iff possible_bit_def bit_Suc)
    have p: "bit (of_nat p :: u32) j \<longleftrightarrow> bit p j"
      using j by (simp add: bit_of_nat_iff possible_bit_def)
    have "bit (push_bit 1 x) j \<longleftrightarrow> 1 \<le> j \<and> bit p j"
      using j by (cases j) (simp_all only: bit_push_bit_iff x, simp_all)
    then show "bit ((if odd p then 1 else 0) XOR push_bit 1 x) j = bit (of_nat p :: u32) j"
      using p by (cases j) (simp_all add: bit_xor_iff bit_1_iff bit_0 even_xor_iff even_push_bit_iff)
  qed
  finally show ?case .
qed simp

lemma xor_comb_append:
  "xor_comb (rs @ qs) p = xor_comb rs p XOR xor_comb qs (p div 2 ^ length rs)"
  by (induction rs arbitrary: p) (auto simp: xor.assoc div_mult2_eq)

lemma syn23_small:
  assumes "unat p < 2 ^ 11"
  shows "syn23 p = p"
proof -
  have rows: "syn_rows = pow_rows 11 @ drop 11 syn_rows" and len: "length (pow_rows 11) = 11"
    by (simp_all add: syn_rows_def eval_nat_numeral)
  have "xor_comb syn_rows (unat p) = xor_comb (pow_rows 11) (unat p)"
    using assms by (subst rows) (simp only: xor_comb_append len, simp)
  then show ?thesis using assms by (simp add: syn23_def xor_comb_pow_rows)
qed

section \<open>The division returns the syndrome\<close>

lemma align_found: "aux AND p \<noteq> 0 \<Longrightarrow> syndrome_align aux p = Some aux"
  by (simp add: syndrome_align.simps)

lemma align_shift: "aux AND p = 0 \<Longrightarrow> syndrome_align aux p = syndrome_align (drop_bit 1 aux) p"
  by (subst syndrome_align.simps) simp

lemma single_bit_and: "k < 32 \<Longrightarrow> 2 ^ k AND (p :: u32) = 0 \<longleftrightarrow> \<not> bit p k"
  by (auto simp: bit_eq_iff [where 'a = "u32"] bit_and_iff bit_exp_iff possible_bit_def)

lemma reduce_done: "unat p < 2 ^ 11 \<Longrightarrow> syndrome_reduce aux p = Some p"
  by (simp add: syndrome_reduce.simps mask12_zero_iff)

lemma reduce_shift:
  "2 ^ Suc k AND p = 0 \<Longrightarrow> k < 31 \<Longrightarrow>
   syndrome_reduce (2 ^ Suc k) p = syndrome_reduce (2 ^ k) p"
  by (subst (1 2) syndrome_reduce.simps)
    (simp add: align_shift drop_bit_exp_eq possible_bit_def del: power_Suc)

lemma reduce_bit:
  assumes "bit p k" "11 \<le> k" "k < 32"
  shows "syndrome_reduce (2 ^ k) p = syndrome_reduce (2 ^ k) (p XOR gen_at k)"
proof -
  have "\<not> unat p < 2 ^ 11"
  proof
    assume "unat p < 2 ^ 11"
    then have "unat p < 2 ^ k" using assms(2) by (meson less_le_trans one_le_numeral power_increasing)
    then have "drop_bit k p = 0" by (simp only: below_iff_drop_bit)
    then have "\<not> bit (drop_bit k p) 0" by simp
    then show False using assms by (simp add: bit_drop_bit_eq)
  qed
  moreover have "2 ^ k AND p \<noteq> 0" using assms by (simp add: single_bit_and)
  ultimately show ?thesis
    by (subst syndrome_reduce.simps) (simp add: align_found mask12_zero_iff gen_at_def)
qed

lemma reduce_syn23:
  "k \<le> 22 \<Longrightarrow> 10 \<le> k \<Longrightarrow> unat p < 2 ^ Suc k \<Longrightarrow> syndrome_reduce (2 ^ k) p = Some (syn23 p)"
proof (induction k arbitrary: p)
  case (Suc k)
  have low: "syndrome_reduce (2 ^ Suc k) q = Some (syn23 q)" if "unat q < 2 ^ Suc k" for q
  proof (cases "k < 10 \<or> k = 10")
    case True
    then have "(2 :: nat) ^ Suc k \<le> 2 ^ 11" by (intro power_increasing) auto
    with that have "unat q < 2 ^ 11" by (rule less_le_trans)
    then show ?thesis by (simp add: reduce_done syn23_small)
  next
    case False
    have "drop_bit (Suc k) q = 0" using that by (simp only: below_iff_drop_bit)
    then have "\<not> bit (drop_bit (Suc k) q) 0" by simp
    then have "\<not> bit q (Suc k)" by (simp add: bit_drop_bit_eq)
    then have "2 ^ Suc k AND q = 0"
      using Suc.prems by (subst single_bit_and) auto
    then have "syndrome_reduce (2 ^ Suc k) q = syndrome_reduce (2 ^ k) q"
      using Suc.prems by (intro reduce_shift) auto
    then show ?thesis
      using Suc.IH [of q] Suc.prems False that by simp
  qed
  show ?case
  proof (cases "bit p (Suc k) \<and> 11 \<le> Suc k")
    case True
    then show ?thesis
      using Suc.prems divide_step [of p "Suc k"] low [of "p XOR gen_at (Suc k)"]
        reduce_bit [of p "Suc k"]
      by simp
  next
    case False
    show ?thesis
    proof (cases "Suc k = 10")
      case True
      with Suc.prems have "unat p < 2 ^ 11" by (simp only: eval_nat_numeral)
      then show ?thesis by (simp add: reduce_done syn23_small)
    next
      case no: False
      with False have "unat p < 2 ^ Suc k"
        using Suc.prems top_bit_clear [of p "Suc k"] by auto
      then show ?thesis by (rule low)
    qed
  qed
qed (simp add: reduce_done syn23_small)

lemma get_syndrome_syn23:
  assumes "unat p < 2 ^ 23"
  shows "get_syndrome_23127 p = Some (syn23 p)"
proof -
  have "X22 = 2 ^ 22" by (simp add: X22_def)
  then show ?thesis
    using assms reduce_syn23 [of 22 p] syn23_small [of p]
    by (auto simp: get_syndrome_23127_def X11_def word_le_nat_alt)
qed

section \<open>Three errors are corrected\<close>

lemma bits_step:
  "{i. bit (n :: nat) i} = (if odd n then {0} else {}) \<union> Suc ` {i. bit (n div 2) i}"
proof (rule set_eqI)
  fix i
  show "i \<in> {i. bit n i} \<longleftrightarrow> i \<in> (if odd n then {0} else {}) \<union> Suc ` {i. bit (n div 2) i}"
    by (cases i) (auto simp: bit_0 bit_Suc)
qed

lemma finite_bits: "finite {i. bit (n :: nat) i}"
proof (induction n rule: popcount.induct)
  case (1 n)
  then show ?case
    by (cases "n = 0") (simp, subst bits_step, simp)
qed

lemma popcount_card: "popcount n = card {i. bit n i}"
proof (induction n rule: popcount.induct)
  case (1 n)
  show ?case
  proof (cases "n = 0")
    case False
    have "card {i. bit n i} = n mod 2 + card {i. bit (n div 2) i}"
      by (subst bits_step) (auto simp: card_image finite_bits card_insert_if mod2_eq_if)
    with False 1 show ?thesis by (simp add: popcount.simps [of n])
  qed simp
qed

lemma few_patterns: "card {e. e < 2 ^ 23 \<and> popcount e \<le> 3} \<le> 2048"
proof -
  let ?W = "{e. e < 2 ^ 23 \<and> popcount e \<le> 3}"
  let ?S = "\<lambda>k. {A. A \<subseteq> {..<23::nat} \<and> card A = k}"
  let ?bits = "\<lambda>e :: nat. {i. bit e i}"
  have inj: "inj_on ?bits ?W"
    by (auto simp: inj_on_def bit_eq_iff)
  have sub: "?bits ` ?W \<subseteq> ?S 0 \<union> ?S 1 \<union> ?S 2 \<union> ?S 3"
  proof (intro image_subsetI)
    fix e assume e: "e \<in> ?W"
    have "i < 23" if "bit e i" for i
      using e that bit_nat_iff by (metis (no_types, lifting) bit_take_bit_iff mem_Collect_eq take_bit_nat_eq_self)
    moreover have "card (?bits e) \<le> 3" using e by (simp add: popcount_card)
    ultimately show "?bits e \<in> ?S 0 \<union> ?S 1 \<union> ?S 2 \<union> ?S 3" by auto
  qed
  have S: "card (?S k) = 23 choose k" for k
    using n_subsets [of "{..<23::nat}" k] by simp
  have fin: "finite (?S k)" for k by (rule finite_subset [of _ "Pow {..<23}"]) auto
  have "card ?W = card (?bits ` ?W)" using card_image [OF inj] by simp
  also have "\<dots> \<le> card (?S 0 \<union> ?S 1 \<union> ?S 2 \<union> ?S 3)"
    by (rule card_mono [OF _ sub]) (use fin in simp)
  also have "\<dots> \<le> card (?S 0) + card (?S 1) + card (?S 2) + card (?S 3)"
    by (meson add_mono card_Un_le le_trans order_refl)
  also have "\<dots> = 2048" by (simp only: S) (simp add: eval_nat_numeral)
  finally show ?thesis .
qed

text \<open>The error table is the inverse of the syndrome on the correctable patterns.\<close>

lemma decoding_syndrome:
  assumes "unat e < 2 ^ 23" "popcount (unat e) \<le> 3"
  shows "DECODING_TABLE_23127 ! unat (syn23 e) = e"
proof -
  let ?W = "{e. e < 2 ^ 23 \<and> popcount e \<le> 3}"
  let ?D = "\<lambda>s. unat (DECODING_TABLE_23127 ! s)"
  have syn: "xor_comb syn_rows (?D s) = of_nat s" if "s < 2048" for s
    using that by (rule decoding_entry(1))
  have unat_s: "unat (of_nat s :: u32) = s" if "s < 2048" for s
    using that by (simp add: unat_of_nat)
  have inj: "inj_on ?D {..<2048}"
    by (rule inj_onI) (metis lessThan_iff syn unat_s)
  have "?D ` {..<2048} = ?W"
  proof (rule card_seteq)
    show "?D ` {..<2048} \<subseteq> ?W" using decoding_entry(2,3) by auto
    show "card ?W \<le> card (?D ` {..<2048})"
      using few_patterns by (simp add: card_image [OF inj])
  qed simp
  with assms obtain s where s: "s < 2048" "unat e = ?D s" by (metis (mono_tags, lifting) imageE lessThan_iff mem_Collect_eq)
  then have "e = DECODING_TABLE_23127 ! s" by (simp add: word_unat_eq_iff)
  moreover have "syn23 e = of_nat s" using s syn by (simp add: syn23_def)
  ultimately show ?thesis using unat_s s by simp
qed

lemma pow_rows_12: "pow_rows 12 = [1, 2, 4, 8, 16, 32, 64, 128, 256, 512, 1024, 2048]"
  by (simp add: eval_nat_numeral)

lemma enc_rows_span:
  shows "map (drop_bit 12) (enc_rows_low @ enc_rows_high) = pow_rows 12"
    and "\<forall>r \<in> set (map (\<lambda>c. syn23 (drop_bit 1 c)) (enc_rows_low @ enc_rows_high)). r = 0"
    and "\<forall>r \<in> set (enc_rows_low @ enc_rows_high). unat r < 2 ^ 24"
proof -
  show "map (drop_bit 12) (enc_rows_low @ enc_rows_high) = pow_rows 12"
    by (simp add: pow_rows_12 enc_rows_low_def enc_rows_high_def)
  have zeros: "map (\<lambda>c. syn23 (drop_bit 1 c)) (enc_rows_low @ enc_rows_high)
      = [0, 0, 0, 0, 0, 0, 0, 0, 0, 0, 0, 0]"
    unfolding enc_rows_low_def enc_rows_high_def append.simps list.map syn23_def syn_rows_def
    by simp
  show "\<forall>r \<in> set (map (\<lambda>c. syn23 (drop_bit 1 c)) (enc_rows_low @ enc_rows_high)). r = 0"
    unfolding zeros by simp
  show "\<forall>r \<in> set (enc_rows_low @ enc_rows_high). unat r < 2 ^ 24"
    by (simp add: enc_rows_low_def enc_rows_high_def)
qed

lemma encode24128_facts:
  assumes "unat d < 4096"
  shows "drop_bit 12 (encode24128 d) = d"
    and "syn23 (drop_bit 1 (encode24128 d)) = 0"
    and "unat (encode24128 d) < 2 ^ 24"
proof -
  let ?rows = "enc_rows_low @ enc_rows_high"
  note enc = encode24128_comb [OF assms]
  have "drop_bit 12 (encode24128 d) = xor_comb (map (drop_bit 12) ?rows) (unat d)"
    unfolding enc by (rule xor_comb_hom) (simp_all add: drop_bit_xor)
  then show "drop_bit 12 (encode24128 d) = d"
    using assms by (simp only: enc_rows_span(1)) (simp add: xor_comb_pow_rows)
  have "syn23 (drop_bit 1 (encode24128 d)) = xor_comb (map (\<lambda>c. syn23 (drop_bit 1 c)) ?rows) (unat d)"
    unfolding enc by (rule xor_comb_hom) (simp_all add: drop_bit_xor syn23_xor syn23_small)
  then show "syn23 (drop_bit 1 (encode24128 d)) = 0"
    using xor_comb_zeros [OF enc_rows_span(2)] by simp
  show "unat (encode24128 d) < 2 ^ 24"
    unfolding enc by (rule xor_comb_less [OF enc_rows_span(3)])
qed

text \<open>The 24-bit word that \<open>decode24128\<close> assembles from three bytes.\<close>

lemma be24_assemble:
  assumes "unat c < 2 ^ 24"
  shows "push_bit 8 (push_bit 8 (ucast (be24_bytes c ! 0) :: u32) OR ucast (be24_bytes c ! 1))
           OR ucast (be24_bytes c ! 2) = (c :: u32)"
proof (rule bit_word_eqI)
  fix j assume "j < LENGTH(32)"
  have "drop_bit 24 c = 0" using assms by (simp only: below_iff_drop_bit)
  then have "\<not> bit (drop_bit 24 c) (j - 24)" by simp
  then have high: "24 \<le> j \<Longrightarrow> \<not> bit c j" by (simp add: bit_drop_bit_eq)
  show "bit (push_bit 8 (push_bit 8 (ucast (be24_bytes c ! 0) :: u32) OR ucast (be24_bytes c ! 1))
           OR ucast (be24_bytes c ! 2)) j = bit c j"
    using high \<open>j < LENGTH(32)\<close>
    by (cases "j < 8"; cases "j < 16"; cases "j < 24")
      (auto simp: be24_bytes_def bit_or_iff bit_push_bit_iff bit_ucast_iff bit_drop_bit_eq)
qed

lemma decode24128_assembled:
  "unat c < 2 ^ 24 \<Longrightarrow> decode24128 (be24_bytes c) = decode23127 (drop_bit 1 c)"
  by (simp only: decode24128_def Let_def be24_assemble)

definition golay_tolerated :: "u32 \<Rightarrow> bool" where
  "golay_tolerated e \<longleftrightarrow> unat e < 2 ^ 24 \<and> popcount (unat (drop_bit 1 e)) \<le> 3"

lemma golay_corrects_aux:
  assumes d: "unat d < 4096" and e: "golay_tolerated e"
  shows "decode24128 (be24_bytes (encode24128 d XOR e)) = Some d"
proof -
  let ?c = "drop_bit 1 (encode24128 d)" and ?e = "drop_bit 1 e"
  have e23: "unat ?e < 2 ^ 23"
    using e by (intro unat_drop_bit_less) (simp add: golay_tolerated_def)
  have c23: "unat ?c < 2 ^ 23"
    using encode24128_facts(3) [OF d] by (intro unat_drop_bit_less) simp
  have w: "unat (encode24128 d XOR e) < 2 ^ 24"
    using e encode24128_facts(3) [OF d] by (intro unat_xor_less) (simp_all add: golay_tolerated_def)
  have "get_syndrome_23127 (?c XOR ?e) = Some (syn23 ?e)"
    using encode24128_facts(2) [OF d] get_syndrome_syn23 [OF unat_xor_less [OF c23 e23]]
    by (simp add: syn23_xor)
  moreover have "DECODING_TABLE_23127 ! unat (syn23 ?e) = ?e"
    using e e23 by (intro decoding_syndrome) (simp_all add: golay_tolerated_def)
  ultimately have "decode23127 (?c XOR ?e) = Some (drop_bit 11 ?c)"
    by (simp add: decode23127_def xor.assoc)
  moreover have "drop_bit 11 ?c = d"
    using encode24128_facts(1) [OF d] by (simp add: drop_bit_drop_bit)
  ultimately show ?thesis
    by (simp add: decode24128_assembled [OF w] drop_bit_xor)
qed

interpretation golay: block_code encode24128 decode24128 "\<lambda>d. unat d < 4096" golay_tolerated
  by unfold_locales (auto simp: golay_corrects_aux golay_tolerated_def)

text \<open>The corrector returns on every three bytes: the division loop stops.\<close>

lemma decode24128_returns: "\<exists>d. decode24128 [a, b, c] = Some d \<and> unat d < 4096"
proof -
  define w :: u32 where "w = push_bit 8 (push_bit 8 (ucast a) OR ucast b) OR ucast c"
  have "drop_bit 24 w = 0"
    unfolding w_def by (rule bit_word_eqI)
      (auto simp: bit_drop_bit_eq bit_or_iff bit_push_bit_iff bit_ucast_iff dest: bit_imp_le_length)
  then have w: "unat w < 2 ^ 24" by (simp only: below_iff_drop_bit)
  then have p: "unat (drop_bit 1 w) < 2 ^ 23"
    by (intro unat_drop_bit_less) simp
  let ?s = "syn23 (drop_bit 1 w)"
  have "\<forall>r \<in> set syn_rows. unat r < 2 ^ 11" by (simp add: syn_rows_def)
  then have "unat ?s < 2048" using xor_comb_less [of syn_rows 11] by (simp add: syn23_def)
  then have D: "unat (DECODING_TABLE_23127 ! unat ?s) < 2 ^ 23" by (rule decoding_entry(2))
  have "unat (drop_bit 11 (drop_bit 1 w XOR DECODING_TABLE_23127 ! unat ?s)) < 2 ^ 12"
    by (rule unat_drop_bit_less [OF unat_xor_less]) (use p D in simp_all)
  moreover have "decode24128 [a, b, c] = decode23127 (drop_bit 1 w)"
    by (simp add: decode24128_def Let_def w_def)
  ultimately show ?thesis
    using get_syndrome_syn23 [OF p] by (auto simp add: decode23127_def)
qed

end
