(* ===== verification/Ysf_Conv.thy ===== *)
theory Ysf_Conv
  imports Ysf_Tables
begin

text \<open>
  The convolutional code of the FICH (\<open>src/ysf_fich.c\<close>): \<open>convolution_encode\<close>, the
  Viterbi step \<open>convolution_decode\<close> and \<open>convolution_chainback\<close>, with the bit macros
  \<open>READ_BIT1\<close> and \<open>WRITE_BIT1\<close>.

  The specification is the trellis with sixteen states: a path is a start state and a list of
  input bits, its cost against a received sequence is the Hamming distance of its output. The
  decoder is shown to return the inputs of a path of least cost among all paths that end in
  state 0, whatever was received; on the output of the encoder this is the encoded data.
\<close>

section \<open>Bits in buffers\<close>

definition READ_BIT1 :: "bytes \<Rightarrow> nat \<Rightarrow> u8" where
  "READ_BIT1 p i = p ! (i div 8) AND BIT_MASK_TABLE ! (i mod 8)"

definition WRITE_BIT1 :: "bytes \<Rightarrow> nat \<Rightarrow> bool \<Rightarrow> bytes" where
  "WRITE_BIT1 p i b =
     p[i div 8 := (if b then p ! (i div 8) OR BIT_MASK_TABLE ! (i mod 8)
                   else p ! (i div 8) AND NOT (BIT_MASK_TABLE ! (i mod 8)))]"

section \<open>The encoder\<close>

fun convolution_encode_loop ::
  "bytes \<Rightarrow> nat \<Rightarrow> nat \<Rightarrow> nat \<Rightarrow> u8 \<times> u8 \<times> u8 \<times> u8 \<Rightarrow> bytes \<Rightarrow> bytes" where
  "convolution_encode_loop inp 0 i k ds out = out"
| "convolution_encode_loop inp (Suc n) i k (d1, d2, d3, d4) out =
     (let d = (if READ_BIT1 inp i \<noteq> 0 then 1 else 0);
          g1 = (d + d3 + d4) AND 1;
          g2 = (d + d1 + d2 + d4) AND 1;
          out = WRITE_BIT1 out k (g1 \<noteq> 0); k = k + 1;
          out = WRITE_BIT1 out k (g2 \<noteq> 0); k = k + 1
      in convolution_encode_loop inp n (i + 1) k (d, d1, d2, d3) out)"

definition convolution_encode :: "bytes \<Rightarrow> bytes \<Rightarrow> nat \<Rightarrow> bytes" where
  "convolution_encode inp out nBits = convolution_encode_loop inp nBits 0 0 (0, 0, 0, 0) out"

section \<open>The Viterbi decoder\<close>

text \<open>
  The decoder's globals. The two metric pointers of the C code are swapped after every step;
  the record holds the arrays they point to. \<open>m_dp\<close> is an index into \<open>m_decisions\<close>.
\<close>

record viterbi =
  m_oldMetrics :: "u16 list"
  m_newMetrics :: "u16 list"
  m_decisions :: "u64 list"
  m_dp :: nat

abbreviation (input) NUM_OF_STATES_D2 :: nat where "NUM_OF_STATES_D2 \<equiv> 8"
abbreviation (input) NUM_OF_STATES :: nat where "NUM_OF_STATES \<equiv> 16"

definition M :: u16 where "M = 2"
definition K :: nat where "K = 5"

text \<open>One pass of the loop over the state pairs.\<close>

definition convolution_butterfly :: "u8 \<Rightarrow> u8 \<Rightarrow> nat \<Rightarrow> viterbi \<Rightarrow> viterbi" where
  "convolution_butterfly s0 s1 i v =
     (let j = i * 2;
          metric = ucast (BRANCH_TABLE1 ! i XOR s0) + ucast (BRANCH_TABLE2 ! i XOR s1);
          m0 = m_oldMetrics v ! i + metric;
          m1 = m_oldMetrics v ! (i + NUM_OF_STATES_D2) + (M - metric);
          decision0 = (if m1 \<le> m0 then 1 else 0);
          new = (m_newMetrics v)[j + 0 := (if decision0 \<noteq> 0 then m1 else m0)];
          m0 = m_oldMetrics v ! i + (M - metric);
          m1 = m_oldMetrics v ! (i + NUM_OF_STATES_D2) + metric;
          decision1 = (if m1 \<le> m0 then 1 else 0);
          new = new[j + 1 := (if decision1 \<noteq> 0 then m1 else m0)];
          d = m_decisions v ! m_dp v OR (push_bit (j + 1) decision1 OR push_bit (j + 0) (decision0 :: u64))
      in v\<lparr>m_newMetrics := new, m_decisions := (m_decisions v)[m_dp v := d]\<rparr>)"

definition convolution_decode :: "u8 \<Rightarrow> u8 \<Rightarrow> viterbi \<Rightarrow> viterbi" where
  "convolution_decode s0 s1 v =
     (let v = v\<lparr>m_decisions := (m_decisions v)[m_dp v := 0]\<rparr>;
          v = fold (convolution_butterfly s0 s1) [0..<NUM_OF_STATES_D2] v
      in v\<lparr>m_dp := m_dp v + 1, m_oldMetrics := m_newMetrics v, m_newMetrics := m_oldMetrics v\<rparr>)"

fun convolution_chainback_loop :: "nat \<Rightarrow> u32 \<Rightarrow> viterbi \<Rightarrow> bytes \<Rightarrow> viterbi \<times> bytes" where
  "convolution_chainback_loop 0 state v out = (v, out)"
| "convolution_chainback_loop (Suc nBits) state v out =
     (let v = v\<lparr>m_dp := m_dp v - 1\<rparr>;
          i = unat (drop_bit (9 - K) state);
          b = ucast (drop_bit i (m_decisions v ! m_dp v)) AND (1 :: u8);
          state = push_bit 7 (ucast b) OR drop_bit 1 state
      in convolution_chainback_loop nBits state v (WRITE_BIT1 out nBits (b \<noteq> 0)))"

definition convolution_chainback :: "viterbi \<Rightarrow> bytes \<Rightarrow> nat \<Rightarrow> viterbi \<times> bytes" where
  "convolution_chainback v out nBits = convolution_chainback_loop nBits 0 v out"

section \<open>The bit macros on bit strings\<close>

lemma mask_bit: "i < 8 \<Longrightarrow> BIT_MASK_TABLE ! i = 2 ^ (7 - i)"
  by (drule less_8_cases) (elim disjE; simp add: BIT_MASK_TABLE_def)

lemma read_bit [bit_simps]:
  assumes "i < 8 * length p"
  shows "READ_BIT1 p i \<noteq> 0 \<longleftrightarrow> bits_of p ! i"
proof -
  have "x AND 2 ^ k = 0 \<longleftrightarrow> \<not> bit x k" if "k < 8" for x :: u8 and k
    using that by (auto simp: bit_eq_iff [where 'a = u8] bit_and_iff bit_exp_iff possible_bit_def)
  moreover have "7 - i mod 8 < 8" by simp
  ultimately show ?thesis
    using assms by (simp add: READ_BIT1_def mask_bit nth_bits_of)
qed

lemma length_write_bit [simp]: "length (WRITE_BIT1 p i b) = length p"
  by (simp add: WRITE_BIT1_def)

lemma bits_of_write_bit [bit_simps]:
  assumes "i < 8 * length p"
  shows "bits_of (WRITE_BIT1 p i b) = (bits_of p)[i := b]"
proof (rule nth_equalityI)
  fix j assume "j < length (bits_of (WRITE_BIT1 p i b))"
  then have j: "j < 8 * length p" by simp
  have "7 - a = 7 - b \<longleftrightarrow> a = b" if "a < 8" "b < 8" for a b :: nat using that by arith
  moreover have "i = j \<longleftrightarrow> i div 8 = j div 8 \<and> i mod 8 = j mod 8" by (metis div_mult_mod_eq)
  ultimately have eq: "i = j \<longleftrightarrow> i div 8 = j div 8 \<and> 7 - i mod 8 = 7 - j mod 8" by simp
  show "bits_of (WRITE_BIT1 p i b) ! j = (bits_of p)[i := b] ! j"
    using assms j
    by (cases "i = j"; cases "i div 8 = j div 8")
      (auto simp: WRITE_BIT1_def nth_bits_of nth_list_update mask_bit bit_or_iff bit_and_iff
        bit_not_iff bit_exp_iff possible_bit_def eq)
qed simp

section \<open>The trellis\<close>

text \<open>A state holds the last four input bits, the newest in bit 0.\<close>

definition trellis_next :: "nat \<Rightarrow> bool \<Rightarrow> nat" where
  "trellis_next s d = (2 * s + of_bool d) mod 16"

definition out_g1 :: "nat \<Rightarrow> bool \<Rightarrow> bool" where
  "out_g1 s d \<longleftrightarrow> (d \<noteq> (bit s 2 \<noteq> bit s 3))"

definition out_g2 :: "nat \<Rightarrow> bool \<Rightarrow> bool" where
  "out_g2 s d \<longleftrightarrow> (d \<noteq> (bit s 0 \<noteq> (bit s 1 \<noteq> bit s 3)))"

fun path_out :: "nat \<Rightarrow> bool list \<Rightarrow> (bool \<times> bool) list" where
  "path_out s [] = []"
| "path_out s (d # ds) = (out_g1 s d, out_g2 s d) # path_out (trellis_next s d) ds"

definition path_end :: "nat \<Rightarrow> bool list \<Rightarrow> nat" where
  "path_end s ds = fold (\<lambda>d s. trellis_next s d) ds s"

fun branch_cost :: "nat \<Rightarrow> bool \<Rightarrow> bool \<times> bool \<Rightarrow> nat" where
  "branch_cost s d (a, b) = of_bool (out_g1 s d \<noteq> a) + of_bool (out_g2 s d \<noteq> b)"

fun path_cost :: "nat \<Rightarrow> bool list \<Rightarrow> (bool \<times> bool) list \<Rightarrow> nat" where
  "path_cost s (d # ds) (r # rs) = branch_cost s d r + path_cost (trellis_next s d) ds rs"
| "path_cost s _ _ = 0"

definition flatten_pairs :: "(bool \<times> bool) list \<Rightarrow> bits" where
  "flatten_pairs ps = concat (map (\<lambda>(a, b). [a, b]) ps)"

lemma flatten_pairs_simps [simp]:
  "flatten_pairs [] = []" "flatten_pairs ((a, b) # ps) = a # b # flatten_pairs ps"
  by (simp_all add: flatten_pairs_def)

lemma length_flatten_pairs [simp]: "length (flatten_pairs ps) = 2 * length ps"
  by (induction ps) auto

lemma nth_flatten_pairs:
  "i < length ps \<Longrightarrow> flatten_pairs ps ! (2 * i) = fst (ps ! i)"
  "i < length ps \<Longrightarrow> flatten_pairs ps ! (2 * i + 1) = snd (ps ! i)"
  by (induction ps arbitrary: i) (auto simp: nth_Cons split: nat.splits)

lemma length_path_out [simp]: "length (path_out s ds) = length ds"
  by (induction ds arbitrary: s) auto

lemma path_end_simps [simp]:
  "path_end s [] = s"
  "path_end s (d # ds) = path_end (trellis_next s d) ds"
  "path_end s (ds @ [d]) = trellis_next (path_end s ds) d"
  by (simp_all add: path_end_def)

lemma trellis_next_less [simp]: "trellis_next s d < 16"
  by (simp add: trellis_next_def)

lemma path_end_less [simp]: "s < 16 \<Longrightarrow> path_end s ds < 16"
  by (cases ds rule: rev_cases) auto

lemma trellis_next_bits:
  "bit (trellis_next s d) 0 = d"
  "k < 3 \<Longrightarrow> bit (trellis_next s d) (Suc k) = bit s k"
proof -
  have t: "trellis_next s d = take_bit 4 (2 * s + of_bool d)"
    by (simp add: trellis_next_def take_bit_eq_mod)
  show "bit (trellis_next s d) 0 = d"
    by (simp add: t bit_take_bit_iff bit_0)
  show "bit (trellis_next s d) (Suc k) = bit s k" if "k < 3"
  proof -
    have "bit (2 * s + of_bool d) (Suc k) = bit s k" by (simp add: bit_Suc)
    then show ?thesis using that by (simp only: t bit_take_bit_iff) simp
  qed
qed

lemma path_cost_snoc:
  "length ds = length rs \<Longrightarrow>
   path_cost s (ds @ [d]) (rs @ [r]) = path_cost s ds rs + branch_cost (path_end s ds) d r"
  by (induction ds rs arbitrary: s rule: list_induct2) auto

lemma path_cost_zero:
  "length ds = length rs \<Longrightarrow> path_cost s ds rs = 0 \<longleftrightarrow> path_out s ds = rs"
  by (induction ds rs arbitrary: s rule: list_induct2) auto

section \<open>The encoder walks the trellis\<close>

definition regs :: "nat \<Rightarrow> u8 \<times> u8 \<times> u8 \<times> u8" where
  "regs s = (of_bool (bit s 0), of_bool (bit s 1), of_bool (bit s 2), of_bool (bit s 3))"

lemma regs_next:
  "(of_bool d, of_bool (bit s 0), of_bool (bit s 1), of_bool (bit s 2)) = regs (trellis_next s d)"
  using trellis_next_bits(1) [of s d] trellis_next_bits(2) [of 0 s d]
    trellis_next_bits(2) [of 1 s d] trellis_next_bits(2) [of 2 s d]
  by (simp add: regs_def numeral_eq_Suc)

lemma parity3: "(of_bool a + of_bool b + of_bool c :: u8) AND 1 \<noteq> 0 \<longleftrightarrow> a \<noteq> (b \<noteq> c)"
  by (cases a; cases b; cases c) simp_all

lemma parity4: "(of_bool a + of_bool b + of_bool c + of_bool d :: u8) AND 1 \<noteq> 0 \<longleftrightarrow> a \<noteq> (b \<noteq> (c \<noteq> d))"
  by (cases a; cases b; cases c; cases d) simp_all

lemma memcpy_Cons:
  "off < length dst \<Longrightarrow> memcpy dst off (x # xs) = memcpy (dst[off := x]) (Suc off) xs"
  by (simp add: memcpy_def take_Suc_conv_app_nth)

lemma sub_buf_Suc:
  "off < length xs \<Longrightarrow> sub_buf xs off (Suc n) = xs ! off # sub_buf xs (Suc off) n"
  by (simp add: sub_buf_def Cons_nth_drop_Suc [symmetric])

lemma encode_loop_path:
  "i + n \<le> 8 * length inp \<Longrightarrow> k + 2 * n \<le> 8 * length out \<Longrightarrow>
   bits_of (convolution_encode_loop inp n i k (regs s) out)
     = memcpy (bits_of out) k (flatten_pairs (path_out s (sub_buf (bits_of inp) i n)))
   \<and> length (convolution_encode_loop inp n i k (regs s) out) = length out"
proof (induction n arbitrary: i k s out)
  case 0
  then show ?case by (simp add: sub_buf_def memcpy_def)
next
  case (Suc n)
  let ?d = "bits_of inp ! i"
  let ?out = "WRITE_BIT1 (WRITE_BIT1 out k (out_g1 s ?d)) (k + 1) (out_g2 s ?d)"
  have d: "(if READ_BIT1 inp i \<noteq> 0 then 1 else 0) = (of_bool ?d :: u8)"
    using Suc.prems by (simp add: read_bit)
  have "convolution_encode_loop inp (Suc n) i k (regs s) out
      = convolution_encode_loop inp n (i + 1) (k + 2) (regs (trellis_next s ?d)) ?out"
    unfolding regs_def [of s] convolution_encode_loop.simps d Let_def parity3 parity4 regs_next
    by (simp add: out_g1_def out_g2_def)
  moreover have "bits_of ?out = (bits_of out)[k := out_g1 s ?d, k + 1 := out_g2 s ?d]"
    using Suc.prems by (simp add: bits_of_write_bit)
  ultimately show ?case
    using Suc.prems Suc.IH [of "i + 1" "k + 2" ?out "trellis_next s ?d"]
    by (simp add: sub_buf_Suc memcpy_Cons)
qed

lemma convolution_encode_path:
  assumes "n \<le> 8 * length inp" "2 * n \<le> 8 * length out"
  shows "bits_of (convolution_encode inp out n)
      = memcpy (bits_of out) 0 (flatten_pairs (path_out 0 (take n (bits_of inp))))"
    and "length (convolution_encode inp out n) = length out"
  using encode_loop_path [of 0 n inp 0 out 0] assms
  by (simp_all add: convolution_encode_def regs_def sub_buf_def)

section \<open>One step of the decoder\<close>

text \<open>The two predecessors of state j are j div 2 and j div 2 + 8.\<close>

definition via_low :: "(nat \<Rightarrow> nat) \<Rightarrow> bool \<times> bool \<Rightarrow> nat \<Rightarrow> nat" where
  "via_low m r j = m (j div 2) + branch_cost (j div 2) (odd j) r"

definition via_high :: "(nat \<Rightarrow> nat) \<Rightarrow> bool \<times> bool \<Rightarrow> nat \<Rightarrow> nat" where
  "via_high m r j = m (j div 2 + 8) + branch_cost (j div 2 + 8) (odd j) r"

definition bit_u8 :: "bool \<Rightarrow> u8" where
  "bit_u8 b = (if b then 1 else 0)"

lemma branch_metric:
  assumes "i < 8"
  shows "(ucast (BRANCH_TABLE1 ! i XOR bit_u8 a) + ucast (BRANCH_TABLE2 ! i XOR bit_u8 b) :: u16)
           = of_nat (branch_cost i False (a, b))"
  using less_8_cases [OF assms]
  by (elim disjE; cases a; cases b)
    (simp_all add: BRANCH_TABLE1_def BRANCH_TABLE2_def bit_u8_def out_g1_def out_g2_def bit_0)

lemma branch_cost_le: "branch_cost s d r \<le> 2"
  by (cases r) auto

lemma bits_plus_8:
  assumes "i < 8"
  shows "bit (i + 8 :: nat) 0 = bit i 0 \<and> bit (i + 8) 1 = bit i 1 \<and> bit (i + 8) 2 = bit i 2
      \<and> bit (i + 8) 3 \<and> \<not> bit i 3"
  using less_8_cases [OF assms] by (elim disjE) (simp_all add: bit_0)

lemma branch_cost_flip:
  assumes "i < 8"
  shows "branch_cost i True r = 2 - branch_cost i False r"
    and "branch_cost (i + 8) False r = 2 - branch_cost i False r"
    and "branch_cost (i + 8) True r = branch_cost i False r"
proof -
  obtain a b where r: "r = (a, b)" by (cases r)
  from bits_plus_8 [OF assms] show "branch_cost i True r = 2 - branch_cost i False r"
    and "branch_cost (i + 8) False r = 2 - branch_cost i False r"
    and "branch_cost (i + 8) True r = branch_cost i False r"
    by (simp_all add: r out_g1_def out_g2_def) (cases a; cases b; auto)+
qed

text \<open>What the decoder keeps while it works through the state pairs.\<close>

definition step_partial :: "viterbi \<Rightarrow> (nat \<Rightarrow> nat) \<Rightarrow> bool \<times> bool \<Rightarrow> nat \<Rightarrow> viterbi \<Rightarrow> bool" where
  "step_partial v0 m r k v \<longleftrightarrow>
     m_oldMetrics v = m_oldMetrics v0 \<and> m_dp v = m_dp v0
     \<and> length (m_newMetrics v) = 16 \<and> length (m_decisions v) = length (m_decisions v0)
     \<and> (\<forall>t. t \<noteq> m_dp v0 \<longrightarrow> m_decisions v ! t = m_decisions v0 ! t)
     \<and> (\<forall>j < 2 * k. unat (m_newMetrics v ! j) = min (via_low m r j) (via_high m r j))
     \<and> (\<forall>j. bit (m_decisions v ! m_dp v0) j \<longleftrightarrow> j < 2 * k \<and> via_high m r j \<le> via_low m r j)"

lemma unat_metric_add:
  assumes "unat (x :: u16) \<le> B" "c \<le> 2" "B \<le> 1000"
  shows "unat (x + of_nat c) = unat x + c"
  using assms by (simp add: unat_word_ariths unat_of_nat)

lemma branch_metric_M:
  "c \<le> 2 \<Longrightarrow> M - (of_nat c :: u16) = of_nat (2 - c)"
  by (simp add: M_def of_nat_diff)

lemma metrics_at:
  assumes old: "\<And>j. j < 16 \<Longrightarrow> unat (old ! j) = m j" and bound: "\<And>j. j < 16 \<Longrightarrow> m j \<le> 1000"
    and i: "i < 8" and r: "r = (a, b)"
  defines "metric \<equiv> ucast (BRANCH_TABLE1 ! i XOR bit_u8 a) + ucast (BRANCH_TABLE2 ! i XOR bit_u8 b) :: u16"
  shows "unat (old ! i + metric) = via_low m r (2 * i)"
    and "unat (old ! (i + 8) + (M - metric)) = via_high m r (2 * i)"
    and "unat (old ! i + (M - metric)) = via_low m r (2 * i + 1)"
    and "unat (old ! (i + 8) + metric) = via_high m r (2 * i + 1)"
proof -
  let ?c = "branch_cost i False r"
  have c: "?c \<le> 2" by (rule branch_cost_le)
  have metric: "metric = of_nat ?c" using branch_metric [OF i, of a b] by (simp only: metric_def r)
  have Mm: "M - metric = of_nat (2 - ?c)" unfolding metric by (rule branch_metric_M [OF c])
  have add: "unat (old ! j + of_nat n) = m j + n" if "j < 16" "n \<le> 2" for j n
    using unat_metric_add [of "old ! j" 1000 n] old [OF that(1)] bound [OF that(1)] that(2) by simp
  note flips = branch_cost_flip [OF i, of r]
  show "unat (old ! i + metric) = via_low m r (2 * i)"
    unfolding metric using add [of i ?c] c i by (simp add: via_low_def)
  show "unat (old ! (i + 8) + (M - metric)) = via_high m r (2 * i)"
    unfolding Mm using add [of "i + 8" "2 - ?c"] i by (simp only: via_high_def) (simp add: flips)
  show "unat (old ! i + (M - metric)) = via_low m r (2 * i + 1)"
    unfolding Mm using add [of i "2 - ?c"] i by (simp only: via_low_def) (simp add: flips)
  show "unat (old ! (i + 8) + metric) = via_high m r (2 * i + 1)"
    unfolding metric using add [of "i + 8" ?c] c i by (simp only: via_high_def) (simp add: flips)
qed

lemma bit_push_bool: "n < 64 \<Longrightarrow> bit (push_bit n (of_bool d) :: u64) j \<longleftrightarrow> j = n \<and> d"
  by (cases d) (auto simp: bit_exp_iff possible_bit_def)

lemma decision_bits:
  assumes "k < 8"
  shows "bit (w OR (push_bit (2 * k + 1) (of_bool d1) OR push_bit (2 * k) (of_bool d0)) :: u64) j
     \<longleftrightarrow> bit w j \<or> (j = 2 * k + 1 \<and> d1) \<or> (j = 2 * k \<and> d0)"
proof -
  have "2 * k + 1 < 64" "2 * k < 64" using assms by simp_all
  then show ?thesis by (simp only: bit_or_iff bit_push_bool)
qed

lemma butterfly_step:
  assumes p: "step_partial v0 m r k v" and k: "k < 8" and r: "r = (a, b)"
    and old: "\<And>j. j < 16 \<Longrightarrow> unat (m_oldMetrics v0 ! j) = m j" and bound: "\<And>j. j < 16 \<Longrightarrow> m j \<le> 1000"
    and dp: "m_dp v0 < length (m_decisions v0)"
  shows "step_partial v0 m r (Suc k) (convolution_butterfly (bit_u8 a) (bit_u8 b) k v)"
proof -
  note at = metrics_at [of "m_oldMetrics v0" m k r a b, OF old bound k r]
  have sel: "unat (if y \<le> x then y else x) = min (unat x) (unat y)" for x y :: u16
    by (simp add: word_le_nat_alt)
  have same: "m_oldMetrics v = m_oldMetrics v0" "m_dp v = m_dp v0"
    using p by (simp_all add: step_partial_def)
  have oneb: "(if y \<le> x then 1 else 0) = of_bool (y \<le> x)" "((of_bool (y \<le> x) :: u64) \<noteq> 0) = (y \<le> x)"
    for x y :: u16 by simp_all
  let ?m = "ucast (BRANCH_TABLE1 ! k XOR bit_u8 a) + ucast (BRANCH_TABLE2 ! k XOR bit_u8 b) :: u16"
  let ?l0 = "m_oldMetrics v0 ! k + ?m" and ?h0 = "m_oldMetrics v0 ! (k + 8) + (M - ?m)"
  let ?l1 = "m_oldMetrics v0 ! k + (M - ?m)" and ?h1 = "m_oldMetrics v0 ! (k + 8) + ?m"
  have step: "convolution_butterfly (bit_u8 a) (bit_u8 b) k v =
     v\<lparr>m_newMetrics := (m_newMetrics v)[2 * k := if ?h0 \<le> ?l0 then ?h0 else ?l0,
                                         2 * k + 1 := if ?h1 \<le> ?l1 then ?h1 else ?l1],
       m_decisions := (m_decisions v)[m_dp v0 := m_decisions v ! m_dp v0 OR
          (push_bit (2 * k + 1) (of_bool (?h1 \<le> ?l1)) OR push_bit (2 * k) (of_bool (?h0 \<le> ?l0)))]\<rparr>"
    unfolding convolution_butterfly_def Let_def same oneb by (simp add: mult.commute)
  have dec: "?h0 \<le> ?l0 \<longleftrightarrow> via_high m r (2 * k) \<le> via_low m r (2 * k)"
      "?h1 \<le> ?l1 \<longleftrightarrow> via_high m r (2 * k + 1) \<le> via_low m r (2 * k + 1)"
    by (simp_all only: word_le_nat_alt at)
  define n0 n1 w where "n0 = (if ?h0 \<le> ?l0 then ?h0 else ?l0)"
    and "n1 = (if ?h1 \<le> ?l1 then ?h1 else ?l1)"
    and "w = m_decisions v ! m_dp v0 OR
          (push_bit (2 * k + 1) (of_bool (?h1 \<le> ?l1)) OR push_bit (2 * k) (of_bool (?h0 \<le> ?l0)))"
  have n0: "unat n0 = min (via_low m r (2 * k)) (via_high m r (2 * k))"
    unfolding n0_def by (simp only: sel at)
  have n1: "unat n1 = min (via_low m r (2 * k + 1)) (via_high m r (2 * k + 1))"
    unfolding n1_def by (simp only: sel at)
  have w: "bit w j \<longleftrightarrow> bit (m_decisions v ! m_dp v0) j
      \<or> (j = 2 * k + 1 \<and> via_high m r (2 * k + 1) \<le> via_low m r (2 * k + 1))
      \<or> (j = 2 * k \<and> via_high m r (2 * k) \<le> via_low m r (2 * k))" for j
    unfolding w_def by (simp only: decision_bits [OF k] dec)
  show ?thesis
    using p k dp unfolding step n0_def [symmetric] n1_def [symmetric] w_def [symmetric]
    by (auto simp: step_partial_def less_Suc_eq nth_list_update n0 n1 w)
qed

lemma butterflies:
  assumes r: "r = (a, b)"
    and old: "\<And>j. j < 16 \<Longrightarrow> unat (m_oldMetrics v0 ! j) = m j" and bound: "\<And>j. j < 16 \<Longrightarrow> m j \<le> 1000"
    and dp: "m_dp v0 < length (m_decisions v0)" and len: "length (m_newMetrics v0) = 16"
    and zero: "m_decisions v0 ! m_dp v0 = 0"
  shows "k \<le> 8 \<Longrightarrow> step_partial v0 m r k (fold (convolution_butterfly (bit_u8 a) (bit_u8 b)) [0..<k] v0)"
proof (induction k)
  case 0
  then show ?case using len zero by (simp add: step_partial_def)
next
  case (Suc k)
  then show ?case
    using butterfly_step [OF _ _ r old bound dp, of k] by simp
qed

lemma convolution_decode_step:
  assumes r: "r = (a, b)"
    and old: "\<And>j. j < 16 \<Longrightarrow> unat (m_oldMetrics v ! j) = m j" and bound: "\<And>j. j < 16 \<Longrightarrow> m j \<le> 1000"
    and dp: "m_dp v < length (m_decisions v)"
    and len: "length (m_newMetrics v) = 16" "length (m_oldMetrics v) = 16"
  defines "v' \<equiv> convolution_decode (bit_u8 a) (bit_u8 b) v"
  shows "m_dp v' = Suc (m_dp v)"
    and "length (m_oldMetrics v') = 16" and "length (m_newMetrics v') = 16"
    and "length (m_decisions v') = length (m_decisions v)"
    and "t \<noteq> m_dp v \<Longrightarrow> m_decisions v' ! t = m_decisions v ! t"
    and "j < 16 \<Longrightarrow> unat (m_oldMetrics v' ! j) = min (via_low m r j) (via_high m r j)"
    and "j < 16 \<Longrightarrow> bit (m_decisions v' ! m_dp v) j \<longleftrightarrow> via_high m r j \<le> via_low m r j"
proof -
  let ?v0 = "v\<lparr>m_decisions := (m_decisions v)[m_dp v := 0]\<rparr>"
  have "step_partial ?v0 m r 8 (fold (convolution_butterfly (bit_u8 a) (bit_u8 b)) [0..<8] ?v0)"
    by (rule butterflies [OF r]) (use old bound dp len in simp_all)
  then show "m_dp v' = Suc (m_dp v)"
    and "length (m_oldMetrics v') = 16" and "length (m_newMetrics v') = 16"
    and "length (m_decisions v') = length (m_decisions v)"
    and "t \<noteq> m_dp v \<Longrightarrow> m_decisions v' ! t = m_decisions v ! t"
    and "j < 16 \<Longrightarrow> unat (m_oldMetrics v' ! j) = min (via_low m r j) (via_high m r j)"
    and "j < 16 \<Longrightarrow> bit (m_decisions v' ! m_dp v) j \<longleftrightarrow> via_high m r j \<le> via_low m r j"
    using len by (simp_all add: v'_def convolution_decode_def Let_def step_partial_def del: upt_conv_Cons)
qed

section \<open>Survivor paths\<close>

text \<open>The path that the recorded decisions trace back from state s at time t.\<close>

fun survivor :: "u64 list \<Rightarrow> nat \<Rightarrow> nat \<Rightarrow> nat \<times> bool list" where
  "survivor D 0 s = (s, [])"
| "survivor D (Suc t) s =
     (let (s0, ds) = survivor D t (s div 2 + (if bit (D ! t) s then 8 else 0)) in (s0, ds @ [odd s]))"

lemma survivor_cong: "(\<And>i. i < t \<Longrightarrow> D ! i = D' ! i) \<Longrightarrow> survivor D t s = survivor D' t s"
  by (induction t arbitrary: s) auto

lemma trellis_back:
  "s < 16 \<Longrightarrow> trellis_next (s div 2 + (if c then 8 else 0)) (odd s) = s"
  by (drule less_16_cases, cases c) (elim disjE; simp add: trellis_next_def)+

lemma trellis_pred:
  assumes "trellis_next p d = s" "p < 16"
  shows "d = odd s" and "p = s div 2 \<or> p = s div 2 + 8"
proof -
  obtain q where q: "q < 8" "p = q \<or> p = q + 8"
    using assms(2) by (metis add.commute le_add_diff_inverse2 less_diff_conv2 linorder_not_less
        numeral_Bit0)
  have small: "2 * q + of_bool d < 16" using q(1) by (cases d) auto
  have "2 * p + of_bool d = 2 * q + of_bool d \<or> 2 * p + of_bool d = (2 * q + of_bool d) + 16"
    using q(2) by auto
  then have s: "s = 2 * q + of_bool d"
    using assms(1) small by (auto simp only: trellis_next_def mod_add_self2 mod_less)
  then show "d = odd s" by (cases d) simp_all
  have "s div 2 = q" using s by (cases d) simp_all
  then show "p = s div 2 \<or> p = s div 2 + 8" using q(2) by simp
qed

lemma survivor_path:
  "s < 16 \<Longrightarrow> path_end (fst (survivor D t s)) (snd (survivor D t s)) = s
     \<and> fst (survivor D t s) < 16 \<and> length (snd (survivor D t s)) = t"
proof (induction t arbitrary: s)
  case (Suc t)
  let ?p = "s div 2 + (if bit (D ! t) s then 8 else 0)"
  have "?p < 16" using Suc.prems by auto
  then show ?case
    using Suc.IH [of ?p] Suc.prems trellis_back [of s "bit (D ! t) s"]
    by (auto split: prod.splits)
qed simp

definition viterbi_inv :: "(bool \<times> bool) list \<Rightarrow> viterbi \<Rightarrow> bool" where
  "viterbi_inv rs v \<longleftrightarrow>
     m_dp v = length rs \<and> length (m_oldMetrics v) = 16 \<and> length (m_newMetrics v) = 16
     \<and> (\<forall>s < 16. unat (m_oldMetrics v ! s) \<le> 2 * length rs
          \<and> unat (m_oldMetrics v ! s)
              = path_cost (fst (survivor (m_decisions v) (length rs) s))
                  (snd (survivor (m_decisions v) (length rs) s)) rs
          \<and> (\<forall>s0 < 16. \<forall>ds. length ds = length rs \<and> path_end s0 ds = s \<longrightarrow>
               unat (m_oldMetrics v ! s) \<le> path_cost s0 ds rs))"

lemma viterbi_inv_step:
  assumes inv: "viterbi_inv rs v" and room: "length rs < length (m_decisions v)"
    and short: "length rs \<le> 400" and r: "r = (a, b)"
  shows "viterbi_inv (rs @ [r]) (convolution_decode (bit_u8 a) (bit_u8 b) v)"
proof -
  define m where "m = (\<lambda>s. unat (m_oldMetrics v ! s))"
  define v' where "v' = convolution_decode (bit_u8 a) (bit_u8 b) v"
  let ?t = "length rs"
  have dp: "m_dp v = ?t" and lens: "length (m_newMetrics v) = 16" "length (m_oldMetrics v) = 16"
    using inv by (simp_all add: viterbi_inv_def)
  have m: "m s \<le> 2 * ?t"
      "m s = path_cost (fst (survivor (m_decisions v) ?t s)) (snd (survivor (m_decisions v) ?t s)) rs"
      "s0 < 16 \<Longrightarrow> length ds = ?t \<Longrightarrow> path_end s0 ds = s \<Longrightarrow> m s \<le> path_cost s0 ds rs"
    if "s < 16" for s s0 ds
    using inv that by (auto simp: viterbi_inv_def m_def)
  note st = convolution_decode_step [of r a b v m, OF r _ _ _ lens, folded v'_def]
  have dpl: "m_dp v < length (m_decisions v)" using dp room by simp
  have bnd: "m j \<le> 1000" if "j < 16" for j using m(1) [OF that] short by simp
  have mdef: "unat (m_oldMetrics v ! j) = m j" if "j < 16" for j by (simp add: m_def)
  note st = st [OF mdef bnd dpl, simplified]
  have surv: "survivor (m_decisions v') ?t p = survivor (m_decisions v) ?t p" for p
    by (rule survivor_cong) (use st(5) dp in simp)
  have new: "unat (m_oldMetrics v' ! s) \<le> 2 * length (rs @ [r])
      \<and> unat (m_oldMetrics v' ! s) = path_cost (fst (survivor (m_decisions v') (length (rs @ [r])) s))
          (snd (survivor (m_decisions v') (length (rs @ [r])) s)) (rs @ [r])
      \<and> (\<forall>s0 < 16. \<forall>ds. length ds = length (rs @ [r]) \<and> path_end s0 ds = s \<longrightarrow>
           unat (m_oldMetrics v' ! s) \<le> path_cost s0 ds (rs @ [r]))" if s: "s < 16" for s
  proof -
    have lo: "s div 2 < 16" "s div 2 + 8 < 16" using s by auto
    let ?p = "s div 2 + (if via_high m r s \<le> via_low m r s then 8 else 0)"
    have p: "?p < 16" using lo by simp
    have dec: "bit (m_decisions v' ! ?t) s \<longleftrightarrow> via_high m r s \<le> via_low m r s"
      using st(7) [OF s] dp by simp
    obtain s0 ds where sp: "survivor (m_decisions v) ?t ?p = (s0, ds)" by (cases "survivor (m_decisions v) ?t ?p")
    have pe: "path_end s0 ds = ?p" "length ds = ?t" using survivor_path [OF p, of "m_decisions v" ?t] sp by auto
    have val: "unat (m_oldMetrics v' ! s) = m ?p + branch_cost ?p (odd s) r"
      using st(6) [OF s] by (auto simp: via_low_def via_high_def)
    have "unat (m_oldMetrics v' ! s) \<le> 2 * length (rs @ [r])"
      using val m(1) [OF p] branch_cost_le [of ?p "odd s" r] by simp
    moreover have "unat (m_oldMetrics v' ! s) = path_cost s0 (ds @ [odd s]) (rs @ [r])"
      using val m(2) [OF p] sp pe by (simp add: path_cost_snoc)
    moreover have "survivor (m_decisions v') (length (rs @ [r])) s = (s0, ds @ [odd s])"
      using sp dec surv by simp
    moreover have "unat (m_oldMetrics v' ! s) \<le> path_cost q0 es (rs @ [r])"
      if q: "q0 < 16" "length es = length (rs @ [r])" "path_end q0 es = s" for q0 es
    proof -
      from q obtain fs d where es: "es = fs @ [d]" "length fs = ?t"
        by (cases es rule: rev_cases) auto
      let ?q = "path_end q0 fs"
      have q16: "?q < 16" using q(1) by simp
      from q es have "trellis_next ?q d = s" by simp
      from trellis_pred [OF this q16] have d: "d = odd s" and pred: "?q = s div 2 \<or> ?q = s div 2 + 8" .
      have "m ?q \<le> path_cost q0 fs rs" using m(3) [OF q16 q(1) es(2)] by simp
      then have "m ?q + branch_cost ?q (odd s) r \<le> path_cost q0 es (rs @ [r])"
        using es d by (simp add: path_cost_snoc)
      moreover have "unat (m_oldMetrics v' ! s) \<le> m ?q + branch_cost ?q (odd s) r"
        using pred st(6) [OF s] by (auto simp: via_low_def via_high_def)
      ultimately show ?thesis by simp
    qed
    ultimately show ?thesis by auto
  qed
  show ?thesis
    unfolding v'_def [symmetric] viterbi_inv_def
    by (intro conjI allI [OF impI] new) (use st(1-3) dp in simp_all)
qed

section \<open>Tracing back\<close>

lemma path_end_oldest:
  "k < 4 \<Longrightarrow> k < length ds \<Longrightarrow> bit (path_end s ds) k = ds ! (length ds - 1 - k)"
proof (induction ds arbitrary: k rule: rev_induct)
  case (snoc d ds)
  show ?case
  proof (cases k)
    case 0
    then show ?thesis using trellis_next_bits(1) by (simp add: nth_append)
  next
    case (Suc i)
    have "bit (path_end s (ds @ [d])) k = bit (path_end s ds) i"
      using trellis_next_bits(2) [of i "path_end s ds" d] snoc.prems Suc by simp
    also have "\<dots> = ds ! (length ds - 1 - i)"
      using snoc Suc by simp
    finally have "bit (path_end s (ds @ [d])) k = ds ! (length ds - 1 - i)" .
    moreover have "length ds - Suc i < length ds" using snoc.prems Suc by simp
    ultimately show ?thesis using snoc.prems Suc by (simp add: nth_append)
  qed
qed simp

lemma memcpy_snoc:
  "length xs < length dst \<Longrightarrow> memcpy dst 0 (xs @ [x]) = memcpy (dst[length xs := x]) 0 xs"
  by (rule nth_equalityI) (auto simp: nth_memcpy nth_append nth_list_update)

lemma chain_bit: "(ucast (drop_bit s (w :: u64)) AND (1 :: u8)) = of_bool (bit w s)"
proof -
  have "(ucast (drop_bit s w) AND (1 :: u8)) = of_bool (odd (ucast (drop_bit s w) :: u8))"
    by (simp add: and_one_eq odd_iff_mod_2_eq_one)
  also have "odd (ucast (drop_bit s w) :: u8) \<longleftrightarrow> bit w s"
    by (simp add: bit_ucast_iff bit_drop_bit_eq flip: bit_0)
  finally show ?thesis .
qed

lemma chain_state:
  assumes "unat (drop_bit 4 st) = s" "s < 16"
  shows "unat (drop_bit 4 (push_bit 7 (ucast (of_bool c :: u8)) OR drop_bit 1 st :: u32))
     = s div 2 + (if c then 8 else 0)"
proof -
  have q: "drop_bit 4 st = of_nat s" using assms(1) by (simp flip: assms(1))
  have "drop_bit 4 (push_bit 7 (ucast (of_bool c :: u8)) OR drop_bit 1 st)
      = push_bit 3 (of_bool c) OR drop_bit 1 (drop_bit 4 st)"
    by (cases c) (simp_all add: drop_bit_or drop_bit_drop_bit)
  then show ?thesis
    unfolding q using less_16_cases [OF assms(2)]
    by (cases c) (elim disjE; simp)+
qed

lemma chainback_loop_survivor:
  "m_dp v = n + 4 \<Longrightarrow> unat (drop_bit 4 st) = s \<Longrightarrow> s < 16 \<Longrightarrow> n \<le> 8 * length out \<Longrightarrow>
   bits_of (snd (convolution_chainback_loop n st v out))
     = memcpy (bits_of out) 0 (take n (snd (survivor (m_decisions v) (n + 4) s)))
   \<and> length (snd (convolution_chainback_loop n st v out)) = length out"
proof (induction n arbitrary: v st s out)
  case 0
  then show ?case by (simp add: memcpy_def)
next
  case (Suc n)
  let ?D = "m_decisions v"
  let ?c = "bit (?D ! (n + 4)) s"
  let ?p = "s div 2 + (if ?c then 8 else 0)"
  let ?st = "push_bit 7 (ucast (of_bool ?c :: u8)) OR drop_bit 1 st :: u32"
  let ?v = "v\<lparr>m_dp := n + 4\<rparr>"
  have st: "unat (drop_bit 4 ?st) = ?p" by (rule chain_state [OF Suc.prems(2,3)])
  have p: "?p < 16" using Suc.prems(3) by auto
  have step: "convolution_chainback_loop (Suc n) st v out
      = convolution_chainback_loop n ?st ?v (WRITE_BIT1 out n ?c)"
    using Suc.prems(1,2) by (simp add: K_def Let_def chain_bit add.commute)
  obtain q0 ds where surv: "survivor ?D (n + 4) ?p = (q0, ds)" by (cases "survivor ?D (n + 4) ?p")
  have ds: "path_end q0 ds = ?p" "length ds = n + 4"
    using survivor_path [OF p, of ?D "n + 4"] surv by auto
  have sSuc: "snd (survivor ?D (Suc n + 4) s) = ds @ [odd s]"
    by (simp only: add_Suc survivor.simps Let_def surv prod.case snd_conv)
  have "bit ?p 3 \<longleftrightarrow> ?c"
    using bits_plus_8 [of "s div 2"] Suc.prems(3) by simp
  then have c: "ds ! n \<longleftrightarrow> ?c"
    using path_end_oldest [of 3 ds q0] ds by simp
  have take: "take (Suc n) (ds @ [odd s]) = take n ds @ [?c]"
    using ds(2) c by (simp add: take_Suc_conv_app_nth)
  show ?case
    using Suc.IH [of ?v ?st ?p "WRITE_BIT1 out n ?c"] Suc.prems(4) st p ds(2)
    unfolding step sSuc take by (simp add: surv bits_of_write_bit memcpy_snoc)
qed

text \<open>
  The bits that \<open>convolution_chainback\<close> writes are the first inputs of a path into state 0
  that has the least cost of all such paths: the decoder is a maximum-likelihood decoder.
\<close>

lemma chainback_least_cost:
  assumes inv: "viterbi_inv rs v" and n: "n + 4 = length rs" "n \<le> 8 * length out"
  shows "\<exists>s0 ds. s0 < 16 \<and> length ds = length rs \<and> path_end s0 ds = 0
     \<and> bits_of (snd (convolution_chainback v out n)) = memcpy (bits_of out) 0 (take n ds)
     \<and> (\<forall>q0 < 16. \<forall>es. length es = length rs \<and> path_end q0 es = 0 \<longrightarrow>
           path_cost s0 ds rs \<le> path_cost q0 es rs)"
proof -
  let ?S = "survivor (m_decisions v) (length rs) 0"
  have z: "unat (drop_bit 4 (0 :: u32)) = 0" by simp
  have "bits_of (snd (convolution_chainback v out n)) = memcpy (bits_of out) 0 (take n (snd ?S))"
    using chainback_loop_survivor [of v n 0 0 out] inv n
    by (simp add: viterbi_inv_def convolution_chainback_def)
  moreover have "path_cost (fst ?S) (snd ?S) rs \<le> path_cost q0 es rs"
    if "q0 < 16" "length es = length rs" "path_end q0 es = 0" for q0 es
    using inv that unfolding viterbi_inv_def by (metis zero_less_numeral)
  ultimately show ?thesis
    using survivor_path [of 0 "m_decisions v" "length rs"]
    by (intro exI [of _ "fst ?S"] exI [of _ "snd ?S"]) simp
qed

lemma zero_cost_unique:
  "length ds = length es \<Longrightarrow> s < 16 \<Longrightarrow> q < 16 \<Longrightarrow> path_end s ds = path_end q es \<Longrightarrow>
   path_out s ds = path_out q es \<Longrightarrow> ds = es"
proof (induction ds arbitrary: es rule: rev_induct)
  case (snoc d ds)
  then obtain fs e where es: "es = fs @ [e]" by (cases es rule: rev_cases) auto
  have app: "path_out s (xs @ [x]) = path_out s xs @ [(out_g1 (path_end s xs) x, out_g2 (path_end s xs) x)]"
    for s xs x by (induction xs arbitrary: s) auto
  let ?a = "path_end s ds" and ?b = "path_end q fs"
  have ab: "?a < 16" "?b < 16" using snoc.prems by simp_all
  have nxt: "trellis_next ?a d = trellis_next ?b e" using snoc.prems es by simp
  note A = trellis_pred [OF nxt ab(1)] and B = trellis_pred [OF refl ab(2), of e]
  have d: "d = e" using A(1) B(1) by simp
  have g: "out_g1 ?a d = out_g1 ?b e" "path_out s ds = path_out q fs"
    using snoc.prems es by (simp_all add: app)
  define i where "i = trellis_next ?b e div 2"
  have lo: "i < 8" unfolding i_def using trellis_next_less [of ?b e] by linarith
  have "?a = ?b"
  proof (rule ccontr)
    assume "?a \<noteq> ?b"
    with A(2) B(2) have "?a = i \<and> ?b = i + 8 \<or> ?a = i + 8 \<and> ?b = i"
      by (auto simp: i_def)
    then show False using bits_plus_8 [OF lo] g(1) d by (auto simp: out_g1_def)
  qed
  then show ?case using snoc.IH [of fs] snoc.prems es d g(2) by simp
qed simp

end
