(* ===== verification/C_Strings.thy ===== *)
theory C_Strings
  imports Prelude
begin

text \<open>
  C strings as byte lists. A \<open>char *\<close> argument that is only read is the list of its characters
  before the terminating zero; a \<open>char\<close> array is a buffer, whose string \<open>c_str\<close> is what lies before
  its first zero byte (the whole array when it holds none: the reads past the end that C would make
  there are not modelled). ASCII literals are written with \<open>ascii\<close>.
\<close>

definition ascii :: "string \<Rightarrow> bytes" where
  "ascii s = List.map of_char s"

definition c_str :: "bytes \<Rightarrow> bytes" where
  "c_str b = takeWhile (\<lambda>c. c \<noteq> 0) b"

text \<open>\<open>toupper\<close> in the C locale.\<close>

definition toupper :: "u8 \<Rightarrow> u8" where
  "toupper c = (if 0x61 \<le> c \<and> c \<le> 0x7A then c - 0x20 else c)"

text \<open>\<open>strncpy(dst, src, n)\<close> at the start of dst: at most n characters, then zeros up to n.\<close>

definition strncpy :: "bytes \<Rightarrow> bytes \<Rightarrow> nat \<Rightarrow> bytes" where
  "strncpy dst src n = memcpy dst 0 (take n (src @ replicate n 0))"

text \<open>\<open>memcmp(b, s, length s) == 0\<close>.\<close>

definition starts_with :: "bytes \<Rightarrow> bytes \<Rightarrow> bool" where
  "starts_with b s \<longleftrightarrow> take (length s) b = s"

text \<open>The four bytes of a 32-bit number, most significant first: \<open>(x >> 24) & 0xff\<close> and so on.\<close>

definition be_bytes :: "u32 \<Rightarrow> bytes" where
  "be_bytes x = [ucast (drop_bit 24 x AND 0xFF), ucast (drop_bit 16 x AND 0xFF),
     ucast (drop_bit 8 x AND 0xFF), ucast (drop_bit 0 x AND 0xFF)]"

lemma length_ascii [simp]: "length (ascii s) = length s"
  by (simp add: ascii_def)

lemma ascii_simps [simp]: "ascii [] = []" "ascii (c # s) = of_char c # ascii s"
  by (simp_all add: ascii_def)

lemma length_be_bytes [simp]: "length (be_bytes x) = 4"
  by (simp add: be_bytes_def)

lemma length_strncpy [simp]: "n \<le> length dst \<Longrightarrow> length (strncpy dst src n) = length dst"
  by (simp add: strncpy_def)

lemma strncpy_nth: "n \<le> i \<Longrightarrow> i < length dst \<Longrightarrow> strncpy dst src n ! i = dst ! i"
proof -
  assume "n \<le> i" "i < length dst"
  moreover have "length (take n (src @ replicate n 0)) = n" by simp
  ultimately show ?thesis unfolding strncpy_def by (subst nth_memcpy) auto
qed

lemma c_str_length: "length (c_str b) \<le> length b"
  unfolding c_str_def by (rule length_takeWhile_le)

lemma c_str_no_zero: "0 \<notin> set (c_str b)"
  unfolding c_str_def by (auto dest: set_takeWhileD)

lemma c_str_id: "0 \<notin> set b \<Longrightarrow> c_str b = b"
  unfolding c_str_def by (rule takeWhile_eq_all_conv [THEN iffD2]) blast

lemma c_str_room: "length b = Suc n \<Longrightarrow> b ! n = 0 \<Longrightarrow> length (c_str b) \<le> n"
proof (rule ccontr)
  assume a: "length b = Suc n" "b ! n = 0" "\<not> length (c_str b) \<le> n"
  then have "length (c_str b) = length b" using c_str_length [of b] by simp
  then have "c_str b = b" unfolding c_str_def by (metis takeWhile_eq_take take_all order_refl)
  then show False using a(1,2) c_str_no_zero [of b] by (metis lessI nth_mem)
qed

lemma c_str_terminated: "0 \<notin> set s \<Longrightarrow> c_str (s @ 0 # r) = s"
  unfolding c_str_def by (induction s) auto

lemma c_str_strncpy:
  assumes "length dst = Suc n" "dst ! n = 0" "0 \<notin> set src"
  shows "c_str (strncpy dst src n) = take n src"
proof -
  have d: "drop n dst = [0]" using assms(1,2) by (simp add: Cons_nth_drop_Suc [symmetric])
  show ?thesis
  proof (cases "n \<le> length src")
    case True
    have "0 \<notin> set (take n src)" using assms(3) by (meson in_set_takeD)
    then have "c_str (take n src @ [0]) = take n src" by (rule c_str_terminated)
    moreover have "take n (src @ replicate n 0) = take n src" using True by simp
    ultimately show ?thesis using True d by (simp add: strncpy_def memcpy_def min_absorb2)
  next
    case False
    then obtain k where k: "n - length src = Suc k" by (cases "n - length src") auto
    have "take n (src @ replicate n 0) = src @ 0 # replicate k 0" using k diff_le_self [of n "length src"] by (simp add: min_def)
    then have "strncpy dst src n = src @ 0 # (replicate k 0 @ [0])"
      using d k False by (simp add: strncpy_def memcpy_def) (metis Suc_diff_le add_Suc_right d le_add_diff_inverse nat_le_linear)
    then show ?thesis using False c_str_terminated [OF assms(3)] by simp
  qed
qed

lemma starts_with_memcpy [simp]:
  "length s \<le> length src \<Longrightarrow> starts_with (memcpy b 0 src) s = starts_with src s"
  by (simp add: starts_with_def memcpy_def)

end
