(* ===== verification/Ysf_Fich.thy ===== *)
theory Ysf_Fich
  imports Ysf_Golay Ysf_Conv C_Strings
begin

text \<open>
  The FICH codec of \<open>src/ysf_fich.c\<close>: the six bytes \<open>m_fich\<close> with their field setters, the
  CRC, \<open>fich_encode\<close> (CRC, four Golay words, convolution, interleaving), \<open>fich_decode\<close>
  (the way back), the DGID rewrite, field decoding and the activation burst. The globals of
  the file are one record that every operation takes and returns; a pointer into a frame is
  the rest of the frame from that offset, and what is sent is a list of events.
\<close>

section \<open>State and field setters\<close>

record fich_state =
  m_fich :: bytes
  m_vit :: viterbi

definition upd_fich :: "nat \<Rightarrow> (u8 \<Rightarrow> u8) \<Rightarrow> fich_state \<Rightarrow> fich_state" where
  "upd_fich i f g = g\<lparr>m_fich := (m_fich g)[i := f (m_fich g ! i)]\<rparr>"

abbreviation (input) YSF_FICH_DT_VD_MODE2 :: u8 where "YSF_FICH_DT_VD_MODE2 \<equiv> 2"
abbreviation (input) YSF_FICH_OFFSET_NET :: nat where "YSF_FICH_OFFSET_NET \<equiv> 35"
abbreviation (input) YSF_FICH_OFFSET_RX :: nat where "YSF_FICH_OFFSET_RX \<equiv> 40"

definition fich_set_dt :: "u8 \<Rightarrow> fich_state \<Rightarrow> fich_state" where
  "fich_set_dt dt = upd_fich 2 (\<lambda>x. (x AND 0xFC) OR (dt AND 0x03))"

definition fich_set_fi :: "u8 \<Rightarrow> fich_state \<Rightarrow> fich_state" where
  "fich_set_fi fi = upd_fich 0 (\<lambda>x. (x AND 0x3F) OR (push_bit 6 fi AND 0xC0))"

definition fich_set_cs :: "u8 \<Rightarrow> fich_state \<Rightarrow> fich_state" where
  "fich_set_cs cs = upd_fich 0 (\<lambda>x. (x AND 0xCF) OR (push_bit 4 cs AND 0x30))"

definition fich_set_cm :: "u8 \<Rightarrow> fich_state \<Rightarrow> fich_state" where
  "fich_set_cm cm = upd_fich 0 (\<lambda>x. (x AND 0xF3) OR (push_bit 2 cm AND 0x0C))"

definition fich_set_fn :: "u8 \<Rightarrow> fich_state \<Rightarrow> fich_state" where
  "fich_set_fn fn = upd_fich 1 (\<lambda>x. (x AND 0xC7) OR (push_bit 3 fn AND 0x38))"

definition fich_set_ft :: "u8 \<Rightarrow> fich_state \<Rightarrow> fich_state" where
  "fich_set_ft ft = upd_fich 1 (\<lambda>x. (x AND 0xF8) OR (ft AND 0x07))"

definition fich_set_mr :: "u8 \<Rightarrow> fich_state \<Rightarrow> fich_state" where
  "fich_set_mr mr = upd_fich 2 (\<lambda>x. (x AND 0xC7) OR (push_bit 3 mr AND 0x38))"

definition fich_set_voip :: "bool \<Rightarrow> fich_state \<Rightarrow> fich_state" where
  "fich_set_voip on = upd_fich 2 (\<lambda>x. if on then x OR 0x04 else x AND 0xFB)"

definition fich_set_sql :: "bool \<Rightarrow> fich_state \<Rightarrow> fich_state" where
  "fich_set_sql on = upd_fich 3 (\<lambda>x. if on then x OR 0x80 else x AND 0x7F)"

definition fich_set_sq :: "u8 \<Rightarrow> fich_state \<Rightarrow> fich_state" where
  "fich_set_sq sq = upd_fich 3 (\<lambda>x. (x AND 0x80) OR (sq AND 0x7F))"

definition fich_set_dgid :: "u8 \<Rightarrow> fich_state \<Rightarrow> fich_state" where
  "fich_set_dgid dgid = upd_fich 3 (\<lambda>_. if 1 \<le> dgid then dgid else 0)"

section \<open>The checksum\<close>

text \<open>The union of a 16-bit value and two bytes is little-endian: byte 0 is the low byte.\<close>

definition crc8_0 :: "u16 \<Rightarrow> u8" where "crc8_0 c = ucast c"
definition crc8_1 :: "u16 \<Rightarrow> u8" where "crc8_1 c = ucast (drop_bit 8 c)"

definition crc_update :: "u16 \<Rightarrow> u8 \<Rightarrow> u16" where
  "crc_update c x = push_bit 8 (ucast (crc8_0 c)) XOR CCITT16_TABLE2 ! unat (crc8_1 c XOR x)"

definition addCCITT162 :: "bytes \<Rightarrow> nat \<Rightarrow> bytes" where
  "addCCITT162 inp len =
     (let c = fold (\<lambda>i c. crc_update c (inp ! i)) [0..<len - 2] 0;
          c = NOT c;
          inp = inp[len - 1 := crc8_0 c]
      in inp[len - 2 := crc8_1 c])"

section \<open>Encoding and decoding\<close>

definition fich_words :: "bytes \<Rightarrow> u32 list" where
  "fich_words f =
     [(push_bit 4 (ucast (f ! 0)) AND 0xFF0) OR (drop_bit 4 (ucast (f ! 1)) AND 0x00F),
      (push_bit 8 (ucast (f ! 1)) AND 0xF00) OR (ucast (f ! 2) AND 0x0FF),
      (push_bit 4 (ucast (f ! 3)) AND 0xFF0) OR (drop_bit 4 (ucast (f ! 4)) AND 0x00F),
      (push_bit 8 (ucast (f ! 4)) AND 0xF00) OR (ucast (f ! 5) AND 0x0FF)]"

definition interleave_step :: "bytes \<Rightarrow> nat \<Rightarrow> bytes \<Rightarrow> bytes" where
  "interleave_step convolved i out =
     (let n = INTERLEAVE_TABLE ! i;
          s0 = READ_BIT1 convolved (2 * i) \<noteq> 0;
          s1 = READ_BIT1 convolved (2 * i + 1) \<noteq> 0;
          out = WRITE_BIT1 out n s0
      in WRITE_BIT1 out (n + 1) s1)"

definition fich_encode :: "bytes \<Rightarrow> fich_state \<Rightarrow> fich_state \<times> bytes" where
  "fich_encode out g =
     (let g = g\<lparr>m_fich := addCCITT162 (m_fich g) 6\<rparr>;
          conv = concat (map (\<lambda>b. be24_bytes (encode24128 b)) (fich_words (m_fich g))) @ [0];
          convolved = convolution_encode conv (replicate 25 0) 100
      in (g, fold (interleave_step convolved) [0..<100] out))"

definition viterbi_start :: "viterbi \<Rightarrow> viterbi" where
  "viterbi_start v =
     v\<lparr>m_oldMetrics := replicate NUM_OF_STATES 0, m_newMetrics := replicate NUM_OF_STATES 0, m_dp := 0\<rparr>"

definition deinterleave_step :: "bytes \<Rightarrow> nat \<Rightarrow> viterbi \<Rightarrow> viterbi" where
  "deinterleave_step inp i v =
     (let n = INTERLEAVE_TABLE ! i;
          s0 = (if READ_BIT1 inp n \<noteq> 0 then 1 else 0); n = n + 1;
          s1 = (if READ_BIT1 inp n \<noteq> 0 then 1 else 0)
      in convolution_decode s0 s1 v)"

definition fich_unpack :: "u32 \<Rightarrow> u32 \<Rightarrow> u32 \<Rightarrow> u32 \<Rightarrow> bytes" where
  "fich_unpack b0 b1 b2 b3 =
     [ucast (drop_bit 4 b0 AND 0xFF),
      ucast ((push_bit 4 b0 AND 0xF0) OR (drop_bit 8 b1 AND 0x0F)),
      ucast (b1 AND 0xFF),
      ucast (drop_bit 4 b2 AND 0xFF),
      ucast ((push_bit 4 b2 AND 0xF0) OR (drop_bit 8 b3 AND 0x0F)),
      ucast (b3 AND 0xFF)]"

definition fich_decode :: "bytes \<Rightarrow> fich_state \<Rightarrow> fich_state option" where
  "fich_decode inp g =
     (let v = fold (deinterleave_step inp) [0..<100] (viterbi_start (m_vit g));
          (v, output) = convolution_chainback v (replicate 13 0) 96
      in Option.bind (decode24128 output) (\<lambda>b0.
         Option.bind (decode24128 (drop 3 output)) (\<lambda>b1.
         Option.bind (decode24128 (drop 6 output)) (\<lambda>b2.
         Option.bind (decode24128 (drop 9 output)) (\<lambda>b3.
           Some (g\<lparr>m_fich := fich_unpack b0 b1 b2 b3, m_vit := v\<rparr>))))))"

text \<open>The same operations on a frame, at an offset.\<close>

definition fich_encode_at :: "nat \<Rightarrow> bytes \<Rightarrow> fich_state \<Rightarrow> fich_state \<times> bytes" where
  "fich_encode_at off frame g =
     (let (g, tail) = fich_encode (drop off frame) g in (g, take off frame @ tail))"

definition ysf_fich_rewrite_dgid :: "bytes \<Rightarrow> u8 \<Rightarrow> fich_state \<Rightarrow> (fich_state \<times> bytes) option" where
  "ysf_fich_rewrite_dgid frame dgid g =
     (if dgid < 1 then Some (g, frame)
      else map_option
        (\<lambda>g. fich_encode_at YSF_FICH_OFFSET_RX frame
               (fich_set_dgid dgid (fich_set_dt YSF_FICH_DT_VD_MODE2 (fich_set_voip False g))))
        (fich_decode (drop YSF_FICH_OFFSET_RX frame) g))"

definition YSF_SYNC_WORD :: bytes where
  "YSF_SYNC_WORD = [0xD4, 0x71, 0xC9, 0x63, 0x4D]"

definition ysf_fich_guess_rx_offset :: "bytes \<Rightarrow> nat" where
  "ysf_fich_guess_rx_offset frame =
     (if sub_buf frame 35 5 = YSF_SYNC_WORD then YSF_FICH_OFFSET_RX else YSF_FICH_OFFSET_NET)"

record fich_fields =
  f_fi :: u8
  f_fn :: u8
  f_ft :: u8
  f_cm :: u8
  f_dt :: u8

definition fields_of :: "bytes \<Rightarrow> fich_fields" where
  "fields_of f =
     \<lparr>f_fi = drop_bit 6 (f ! 0) AND 0x03, f_fn = drop_bit 3 (f ! 1) AND 0x07, f_ft = f ! 1 AND 0x07,
      f_cm = drop_bit 2 (f ! 0) AND 0x03, f_dt = f ! 2 AND 0x03\<rparr>"

definition ysf_fich_decode_at :: "bytes \<Rightarrow> nat \<Rightarrow> fich_state \<Rightarrow> (fich_state \<times> fich_fields) option" where
  "ysf_fich_decode_at frame off g =
     map_option (\<lambda>g. (g, fields_of (m_fich g))) (fich_decode (drop off frame) g)"

definition ysf_fich_decode_fields :: "bytes \<Rightarrow> fich_state \<Rightarrow> (fich_state \<times> fich_fields) option" where
  "ysf_fich_decode_fields frame g =
     (let off = ysf_fich_guess_rx_offset frame
      in Option.bind (ysf_fich_decode_at frame off g) (\<lambda>(g, f).
           if f_fi f \<le> 3 then Some (g, f)
           else ysf_fich_decode_at frame
                  (if off = YSF_FICH_OFFSET_RX then YSF_FICH_OFFSET_NET else YSF_FICH_OFFSET_RX) g))"

definition ysf_fich_get_dgid :: "fich_state \<Rightarrow> u8" where
  "ysf_fich_get_dgid g = m_fich g ! 3"

definition ysf_fich_encode_outbound ::
  "bytes \<Rightarrow> u8 \<Rightarrow> u8 \<Rightarrow> u8 \<Rightarrow> u8 \<Rightarrow> fich_state \<Rightarrow> fich_state \<times> bytes" where
  "ysf_fich_encode_outbound out fn_serial fi ft cm g =
     (let g = g\<lparr>m_fich := replicate 6 0\<rparr>;
          g = fich_set_fi fi g; g = fich_set_cs 2 g; g = fich_set_cm cm g;
          g = fich_set_fn fn_serial g; g = fich_set_ft ft g; g = fich_set_mr 0 g;
          g = fich_set_dt YSF_FICH_DT_VD_MODE2 g; g = fich_set_voip False g;
          g = fich_set_sql False g; g = fich_set_sq 0 g
      in fich_encode out g)"

section \<open>The activation burst\<close>

text \<open>What the burst does to the outside: datagrams to the reflector and pauses (nanoseconds).\<close>

datatype burst_event = SendTo bytes | NanoSleep nat

definition generate_voice_payload :: "bytes \<Rightarrow> nat \<Rightarrow> bytes" where
  "generate_voice_payload payload frame_num =
     (let payload = memcpy payload 0
            (map (\<lambda>i. if (frame_num + i) mod 200 < 100 then 0x55 else 0xAA) [0..<100]);
          payload = payload[0 := of_nat (frame_num div 2 ^ 8) AND 0xFF]
      in payload[1 := of_nat frame_num AND 0xFF])"

definition burst_frame :: "bytes \<Rightarrow> u8 \<Rightarrow> bytes" where
  "burst_frame callsign fn =
     (let frame = replicate 155 0;
          frame = memcpy frame 0 (ascii ''YSFD'');
          frame = memcpy frame 4 callsign;
          frame = memcpy frame 14 callsign;
          frame = memcpy frame 24 (ascii ''ALL       '');
          frame = memcpy frame 34 (ascii ''          '')
      in frame[48 := fn])"

definition burst_fich :: "u8 \<Rightarrow> u8 \<Rightarrow> u8 \<Rightarrow> u8 \<Rightarrow> u8 \<Rightarrow> fich_state \<Rightarrow> fich_state" where
  "burst_fich fi cm fn ft forced_dgid g =
     (let g = g\<lparr>m_fich := replicate 6 0\<rparr>;
          g = fich_set_fi fi g; g = fich_set_cs 2 g; g = fich_set_cm cm g;
          g = fich_set_fn (drop_bit 1 fn) g; g = fich_set_ft ft g; g = fich_set_mr 0 g;
          g = fich_set_dt YSF_FICH_DT_VD_MODE2 g; g = fich_set_voip False g
      in g\<lparr>m_fich := (m_fich g)[3 := forced_dgid]\<rparr>)"

text \<open>The bodies of the three loops; the state carries fn, the FICH and the events so far.\<close>

type_synonym burst_state = "u8 \<times> fich_state \<times> burst_event list"

definition burst_header :: "bytes \<Rightarrow> u8 \<Rightarrow> nat \<Rightarrow> burst_state \<Rightarrow> burst_state" where
  "burst_header callsign dgid i = (\<lambda>(fn, g, es).
     let frame = burst_frame callsign fn;
         (g, frame) = fich_encode_at YSF_FICH_OFFSET_RX frame (burst_fich 0 0 fn 1 dgid g)
     in (fn + 2, g, es @ [SendTo frame, NanoSleep 90000000]))"

definition burst_voice :: "bytes \<Rightarrow> u8 \<Rightarrow> nat \<Rightarrow> burst_state \<Rightarrow> burst_state" where
  "burst_voice callsign dgid i = (\<lambda>(fn, g, es).
     let frame = burst_frame callsign fn;
         (g, frame) = fich_encode_at YSF_FICH_OFFSET_RX frame (burst_fich 2 1 fn 0 dgid g);
         frame = take 55 frame @ generate_voice_payload (drop 55 frame) i
     in (fn + 2, g, es @ [SendTo frame, NanoSleep 90000000]))"

definition burst_terminator :: "bytes \<Rightarrow> u8 \<Rightarrow> nat \<Rightarrow> burst_state \<Rightarrow> burst_state" where
  "burst_terminator callsign dgid i = (\<lambda>(fn, g, es).
     let frame = burst_frame callsign fn;
         (g, frame) = fich_encode_at YSF_FICH_OFFSET_RX frame (burst_fich 2 1 fn 1 dgid g)
     in (fn + 2, g, es @ [SendTo frame] @ (if i < 2 then [NanoSleep 100000000] else [])))"

definition ysf_send_activation_burst :: "bytes \<Rightarrow> u8 \<Rightarrow> fich_state \<Rightarrow> fich_state \<times> burst_event list" where
  "ysf_send_activation_burst callsign forced_dgid g =
     (let st = (0, g, []);
          st = fold (burst_header callsign forced_dgid) [0..<5] st;
          st = fold (burst_voice callsign forced_dgid) [0..<20] st;
          st = fold (burst_terminator callsign forced_dgid) [0..<3] st
      in snd st)"

end
