(* ===== verification/Ysf_Fich_Correct.thy ===== *)
theory Ysf_Fich_Correct
  imports Ysf_Fich
begin

text \<open>
  The FICH codec is correct: the checksum is the bit-serial one, the interleaver is a
  permutation, decoding undoes encoding, decoding returns on every frame.
\<close>

section \<open>The interleaver\<close>

definition fich_perm :: "nat \<Rightarrow> nat" where
  "fich_perm k = INTERLEAVE_TABLE ! (k div 2) + k mod 2"

lemma interleave_table: "INTERLEAVE_TABLE = map (\<lambda>i. 40 * (i mod 5) + 2 * (i div 5)) [0..<100]"
  unfolding INTERLEAVE_TABLE_def by (simp add: upt_rec)

lemma fich_perm: "k < 200 \<Longrightarrow> fich_perm k = 40 * (k div 2 mod 5) + 2 * (k div 10) + k mod 2"
proof -
  assume "k < 200"
  then have "k div 2 < 100" by linarith
  then have "[0..<100] ! (k div 2) = k div 2" by (simp only: nth_upt)
  moreover have "k div 2 div 5 = k div 10" by (simp add: div_mult2_eq [symmetric])
  ultimately show ?thesis using \<open>k div 2 < 100\<close> by (simp add: fich_perm_def interleave_table)
qed

interpretation fich_il: interleaver fich_perm 200
proof
  have parts: "k = 10 * (k div 10) + 2 * (k div 2 mod 5) + k mod 2 \<and> k div 2 mod 5 < 5 \<and> k mod 2 < 2"
    for k :: nat
  proof -
    have "k = 2 * (k div 2) + k mod 2" "k div 2 = 5 * (k div 2 div 5) + k div 2 mod 5" by simp_all
    moreover have "k div 2 div 5 = k div 10" by (simp add: div_mult2_eq [symmetric])
    ultimately have "k = 10 * (k div 10) + 2 * (k div 2 mod 5) + k mod 2" by linarith
    then show ?thesis by simp
  qed
  show "fich_perm i < 200" if "i < 200" for i
    using that parts [of i] unfolding fich_perm [OF that] by linarith
  show "inj_on fich_perm {..<200}"
  proof (rule inj_onI)
    fix i j assume ij: "i \<in> {..<200}" "j \<in> {..<200}" "fich_perm i = fich_perm j"
    have split: "a = a' \<and> b = b' \<and> c = c'"
      if "40 * a + (2 * b + c) = 40 * a' + (2 * b' + c')" "b < 20" "b' < 20" "c < 2" "c' < 2"
      for a a' b b' c c' :: nat
      using mixed_radix_inject [OF that(1)] mixed_radix_inject [of 2 b c b' c'] that(2-5) by simp
    have "i div 10 < 20" "j div 10 < 20" using ij by auto
    then show "i = j"
      using split [of "i div 2 mod 5" "i div 10" "i mod 2" "j div 2 mod 5" "j div 10" "j mod 2"]
        ij parts [of i] parts [of j] fich_perm [of i] fich_perm [of j] by simp
  qed
qed

lemma interleave_loop:
  assumes "25 \<le> length out" "length convolved = 25" "k \<le> 100"
  shows "length (fold (interleave_step convolved) [0..<k] out) = length out
    \<and> bits_of (fold (interleave_step convolved) [0..<k] out)
        = scatter fich_perm (2 * k) (bits_of convolved) (bits_of out)"
  using assms(3)
proof (induction k)
  case 0
  then show ?case by (simp add: scatter_def)
next
  case (Suc k)
  let ?o = "fold (interleave_step convolved) [0..<k] out"
  have n: "INTERLEAVE_TABLE ! k = fich_perm (2 * k)" "INTERLEAVE_TABLE ! k + 1 = fich_perm (2 * k + 1)"
    by (simp_all add: fich_perm_def)
  have b: "fich_perm (2 * k) < 200" "fich_perm (2 * k + 1) < 200"
    using Suc.prems fich_il.perm_bound [of "2 * k"] fich_il.perm_bound [of "2 * k + 1"] by simp_all
  have "interleave_step convolved k ?o
      = WRITE_BIT1 (WRITE_BIT1 ?o (fich_perm (2 * k)) (bits_of convolved ! (2 * k)))
          (fich_perm (2 * k + 1)) (bits_of convolved ! (2 * k + 1))"
    using Suc.prems assms(2) unfolding interleave_step_def Let_def n(2) unfolding n(1)
    by (simp add: read_bit)
  then show ?case
    using Suc b assms(1,2)
    by (simp add: bits_of_write_bit scatter_def)
qed

section \<open>The pairs the decoder reads\<close>

definition fich_pairs :: "bits \<Rightarrow> nat \<Rightarrow> (bool \<times> bool) list" where
  "fich_pairs bs k = map (\<lambda>i. (bs ! fich_perm (2 * i), bs ! fich_perm (2 * i + 1))) [0..<k]"

lemma fich_pairs_gather: "flatten_pairs (fich_pairs bs k) = gather fich_perm (2 * k) bs"
  by (induction k) (auto simp: fich_pairs_def gather_def flatten_pairs_def)

lemma viterbi_start_inv: "viterbi_inv [] (viterbi_start v)"
  by (auto simp: viterbi_inv_def viterbi_start_def)

lemma length_decisions [simp]: "length (m_decisions (convolution_decode s0 s1 v)) = length (m_decisions v)"
proof -
  have "length (m_decisions (fold (convolution_butterfly s0 s1) is v)) = length (m_decisions v)" for "is" v
    by (induction "is" arbitrary: v) (auto simp: convolution_butterfly_def Let_def)
  then show ?thesis by (simp add: convolution_decode_def Let_def)
qed

lemma deinterleave_loop:
  assumes "25 \<le> length inp" "100 \<le> length (m_decisions v)" "k \<le> 100"
  shows "viterbi_inv (fich_pairs (bits_of inp) k) (fold (deinterleave_step inp) [0..<k] (viterbi_start v))
    \<and> length (m_decisions (fold (deinterleave_step inp) [0..<k] (viterbi_start v))) = length (m_decisions v)"
  using assms(3)
proof (induction k)
  case 0
  then show ?case using viterbi_start_inv [of v] by (simp add: fich_pairs_def viterbi_start_def)
next
  case (Suc k)
  let ?v = "fold (deinterleave_step inp) [0..<k] (viterbi_start v)"
  let ?a = "bits_of inp ! fich_perm (2 * k)" and ?b = "bits_of inp ! fich_perm (2 * k + 1)"
  have n: "INTERLEAVE_TABLE ! k = fich_perm (2 * k)" "INTERLEAVE_TABLE ! k + 1 = fich_perm (2 * k + 1)"
    by (simp_all add: fich_perm_def)
  have b: "fich_perm (2 * k) < 200" "fich_perm (2 * k + 1) < 200"
    using Suc.prems fich_il.perm_bound [of "2 * k"] fich_il.perm_bound [of "2 * k + 1"] by simp_all
  have "deinterleave_step inp k ?v = convolution_decode (bit_u8 ?a) (bit_u8 ?b) ?v"
    using b assms(1) unfolding deinterleave_step_def Let_def n(2) unfolding n(1)
    by (simp add: read_bit bit_u8_def)
  moreover have "viterbi_inv (fich_pairs (bits_of inp) k @ [(?a, ?b)]) (convolution_decode (bit_u8 ?a) (bit_u8 ?b) ?v)"
    using Suc assms(2) by (intro viterbi_inv_step) (auto simp: fich_pairs_def)
  ultimately show ?case
    using Suc by (simp add: fich_pairs_def)
qed

section \<open>Decoding undoes encoding\<close>

lemma flatten_pairs_inject: "length ps = length qs \<Longrightarrow> flatten_pairs ps = flatten_pairs qs \<longleftrightarrow> ps = qs"
  by (induction ps qs rule: list_induct2) (auto simp: flatten_pairs_def split: prod.splits)

lemma path_end_append: "path_end s (xs @ ys) = path_end (path_end s xs) ys"
  by (simp add: path_end_def)

lemma path_end_flush: "path_end s [False, False, False, False] = 0"
  by (simp add: trellis_next_def mult_mod_right mod_mod_cancel)

lemma length_chainback [simp]: "length (snd (convolution_chainback v out n)) = length out"
proof -
  have "length (snd (convolution_chainback_loop n st v out)) = length out" for st
    by (induction n arbitrary: st v out) (auto simp: Let_def)
  then show ?thesis by (simp add: convolution_chainback_def)
qed

text \<open>The twelve code bytes and the zero byte that the encoder convolves.\<close>

definition fich_code :: "bytes \<Rightarrow> bytes" where
  "fich_code f = concat (map (\<lambda>b. be24_bytes (encode24128 b)) (fich_words f))"

definition fich_path :: "bytes \<Rightarrow> bits" where
  "fich_path f = bits_of (fich_code f) @ [False, False, False, False]"

lemma length_fich_code [simp]: "length (fich_code f) = 12"
  by (simp add: fich_code_def fich_words_def)

lemma length_fich_path [simp]: "length (fich_path f) = 100"
  by (simp add: fich_path_def)

lemma bits_zero_byte: "byte_bits 0 = replicate 8 False"
  by (simp add: byte_bits_def map_replicate_const)

lemma take_fich_path: "take 100 (bits_of (fich_code f @ [0])) = fich_path f"
  by (simp add: fich_path_def byte_bits_def upt_rec)

lemma fich_encode_bits:
  assumes "25 \<le> length out"
  shows "fst (fich_encode out g) = g\<lparr>m_fich := addCCITT162 (m_fich g) 6\<rparr>"
    and "length (snd (fich_encode out g)) = length out"
    and "bits_of (snd (fich_encode out g))
      = scatter fich_perm 200 (flatten_pairs (path_out 0 (fich_path (addCCITT162 (m_fich g) 6)))) (bits_of out)"
proof -
  let ?f = "addCCITT162 (m_fich g) 6"
  define cv where "cv = convolution_encode (fich_code ?f @ [0]) (replicate 25 0) 100"
  have cv: "bits_of cv = flatten_pairs (path_out 0 (fich_path ?f))" "length cv = 25"
    using convolution_encode_path [of 100 "fich_code ?f @ [0]" "replicate 25 0"]
    unfolding cv_def take_fich_path by simp_all
  have e: "fich_encode out g = (g\<lparr>m_fich := ?f\<rparr>, fold (interleave_step cv) [0..<100] out)"
    by (simp add: fich_encode_def Let_def cv_def fich_code_def)
  show "fst (fich_encode out g) = g\<lparr>m_fich := ?f\<rparr>" by (simp add: e)
  show "length (snd (fich_encode out g)) = length out"
    using interleave_loop [OF assms cv(2), of 100] by (simp add: e)
  show "bits_of (snd (fich_encode out g))
      = scatter fich_perm 200 (flatten_pairs (path_out 0 (fich_path ?f))) (bits_of out)"
    using interleave_loop [OF assms cv(2), of 100] cv(1) by (simp add: e)
qed

lemma chainback_exact:
  assumes inv: "viterbi_inv (path_out 0 (fich_path f)) v"
  shows "snd (convolution_chainback v (replicate 13 0) 96) = fich_code f @ [0]"
proof -
  let ?rs = "path_out 0 (fich_path f)"
  obtain s0 ds where s0: "s0 < 16" "length ds = length ?rs" "path_end s0 ds = 0"
    and out: "bits_of (snd (convolution_chainback v (replicate 13 0) 96))
        = memcpy (bits_of (replicate 13 0)) 0 (take 96 ds)"
    and least: "\<And>q0 es. q0 < 16 \<Longrightarrow> length es = length ?rs \<Longrightarrow> path_end q0 es = 0 \<Longrightarrow>
        path_cost s0 ds ?rs \<le> path_cost q0 es ?rs"
    using chainback_least_cost [OF inv, of 96 "replicate 13 0"] by auto
  have e: "path_end 0 (fich_path f) = 0"
    by (simp only: fich_path_def path_end_append path_end_flush)
  have "path_cost 0 (fich_path f) ?rs = 0" by (simp add: path_cost_zero)
  then have "path_cost s0 ds ?rs = 0" using least [of 0 "fich_path f"] e by simp
  then have "path_out s0 ds = ?rs" using s0(2) by (simp add: path_cost_zero)
  then have "ds = fich_path f"
    using zero_cost_unique [of ds "fich_path f" s0 0] s0 e by simp
  have z: "bits_of (replicate 13 0) = replicate 104 False"
    by (simp add: bits_of_def bits_zero_byte numeral_eq_Suc)
  have "bits_of (snd (convolution_chainback v (replicate 13 0) 96)) = bits_of (fich_code f @ [0])"
    unfolding out z \<open>ds = fich_path f\<close>
    by (simp add: fich_path_def memcpy_def bits_zero_byte)
  then show ?thesis
    by (subst (asm) bits_of_inject) simp_all
qed

section \<open>Four Golay words\<close>

lemma fich_words_valid: "w \<in> set (fich_words f) \<Longrightarrow> unat w < 4096"
proof -
  have "unat w < 2 ^ 12 \<longleftrightarrow> drop_bit 12 w = 0" for w :: u32 by (rule below_iff_drop_bit)
  moreover assume "w \<in> set (fich_words f)"
  then have "drop_bit 12 w = 0"
    by (auto simp: fich_words_def drop_bit_or drop_bit_and)
  ultimately show ?thesis by simp
qed

lemma fich_unpack_words:
  assumes "length f = 6"
  shows "fich_unpack (fich_words f ! 0) (fich_words f ! 1) (fich_words f ! 2) (fich_words f ! 3) = f"
proof -
  have 1: "ucast (drop_bit 4 ((push_bit 4 (ucast a) AND 0xFF0) OR (drop_bit 4 (ucast b) AND 0x00F) :: u32) AND 0xFF) = a"
    and 2: "ucast ((push_bit 4 ((push_bit 4 (ucast a) AND 0xFF0) OR (drop_bit 4 (ucast b) AND 0x00F)) AND 0xF0)
        OR (drop_bit 8 ((push_bit 8 (ucast b) AND 0xF00) OR (ucast c AND 0x0FF)) AND 0x0F) :: u32) = b"
    and 3: "ucast (((push_bit 8 (ucast b) AND 0xF00) OR (ucast c AND 0x0FF) :: u32) AND 0xFF) = c"
    for a b c :: u8
    by - (rule byte_eqI; drule less_8_cases; elim disjE;
        simp only: bit_ucast_iff bit_and_iff bit_or_iff bit_drop_bit_eq bit_push_bit_iff;
        simp add: bit_ucast_iff bit_and_iff bit_or_iff bit_drop_bit_eq bit_push_bit_iff)+
  obtain a b c d e g where "f = [a, b, c, d, e, g]"
    using assms by (auto simp: numeral_eq_Suc length_Suc_conv)
  then have f: "f ! 0 = a" "f ! 1 = b" "f ! 2 = c" "f ! 3 = d" "f ! 4 = e" "f ! 5 = g" by simp_all
  have n: "[p, q, r, s] ! 0 = p" "[p, q, r, s] ! 1 = q" "[p, q, r, s] ! 2 = r" "[p, q, r, s] ! 3 = s"
    for p q r s :: u32 by simp_all
  show ?thesis
    unfolding fich_unpack_def fich_words_def n f 1 2 3 by (simp add: \<open>f = [a, b, c, d, e, g]\<close>)
qed

lemma decode24128_front: "length xs = 3 \<Longrightarrow> decode24128 (xs @ ys) = decode24128 xs"
  by (simp add: decode24128_def nth_append)

definition fich_read :: "bytes \<Rightarrow> bytes option" where
  "fich_read output =
     Option.bind (decode24128 output) (\<lambda>b0.
     Option.bind (decode24128 (drop 3 output)) (\<lambda>b1.
     Option.bind (decode24128 (drop 6 output)) (\<lambda>b2.
     Option.bind (decode24128 (drop 9 output)) (\<lambda>b3.
       Some (fich_unpack b0 b1 b2 b3)))))"

lemma fich_decode_read:
  "map_option m_fich (fich_decode inp g) =
     fich_read (snd (convolution_chainback
       (fold (deinterleave_step inp) [0..<100] (viterbi_start (m_vit g))) (replicate 13 0) 96))"
  by (simp add: fich_decode_def fich_read_def Let_def map_option_bind comp_def split: prod.split)

text \<open>Four words, each hit by an error the Golay code tolerates, give the six bytes.\<close>

lemma fich_read_corrects:
  assumes len: "length f = 6"
    and e: "golay_tolerated e0" "golay_tolerated e1" "golay_tolerated e2" "golay_tolerated e3"
  shows "fich_read (concat (map2 (\<lambda>w e. be24_bytes (encode24128 w XOR e)) (fich_words f) [e0, e1, e2, e3]) @ rest)
           = Some f"
proof -
  obtain w0 w1 w2 w3 where w: "fich_words f = [w0, w1, w2, w3]" by (simp add: fich_words_def)
  have v: "unat w0 < 4096" "unat w1 < 4096" "unat w2 < 4096" "unat w3 < 4096"
    using fich_words_valid [of _ f] by (simp_all add: w)
  show ?thesis
    using fich_unpack_words [OF len] v e
    by (simp add: fich_read_def w decode24128_front golay.corrects)
qed

lemma fich_read_code: "length f = 6 \<Longrightarrow> fich_read (fich_code f @ [0]) = Some f"
  using fich_read_corrects [of f 0 0 0 0 "[0]"] golay.tolerates_none
  by (simp add: fich_code_def fich_words_def)

lemma fich_read_returns:
  assumes "length output = 13"
  shows "\<exists>f. fich_read output = Some f \<and> length f = 6"
proof -
  have "\<exists>d. decode24128 (drop k output) = Some d" if "k \<le> 9" for k
  proof -
    have "drop k output = [output ! k, output ! (k + 1), output ! (k + 2)] @ drop (k + 3) output"
      using that assms by (simp add: Cons_nth_drop_Suc [symmetric] numeral_eq_Suc)
    then show ?thesis using decode24128_returns decode24128_front
      by (metis length_Cons list.size(3) numeral_3_eq_3)
  qed
  from this [of 0] this [of 3] this [of 6] this [of 9] show ?thesis
    by (auto simp: fich_read_def fich_unpack_def)
qed

section \<open>The codec as a whole\<close>

text \<open>The arrays of the file have their declared sizes.\<close>

definition fich_wf :: "fich_state \<Rightarrow> bool" where
  "fich_wf g \<longleftrightarrow> length (m_fich g) = 6 \<and> length (m_decisions (m_vit g)) = 180"

lemma length_addCCITT162 [simp]: "length (addCCITT162 f n) = length f"
  by (simp add: addCCITT162_def Let_def)

lemma viterbi_decode_code:
  assumes "25 \<le> length inp" "100 \<le> length (m_decisions v)"
    and "gather fich_perm 200 (bits_of inp) = flatten_pairs (path_out 0 (fich_path f))"
  shows "snd (convolution_chainback (fold (deinterleave_step inp) [0..<100] (viterbi_start v))
           (replicate 13 0) 96) = fich_code f @ [0]"
proof (rule chainback_exact)
  have "fich_pairs (bits_of inp) 100 = path_out 0 (fich_path f)"
    using assms(3) fich_pairs_gather [of "bits_of inp" 100]
    by (subst flatten_pairs_inject [symmetric]) (simp_all add: fich_pairs_def)
  then show "viterbi_inv (path_out 0 (fich_path f))
      (fold (deinterleave_step inp) [0..<100] (viterbi_start v))"
    using deinterleave_loop [OF assms(1,2), of 100] by simp
qed

lemma fich_decode_encoded:
  assumes "25 \<le> length out" "fich_wf g" "fich_wf h"
  shows "map_option m_fich (fich_decode (snd (fich_encode out g) @ rest) h) = Some (addCCITT162 (m_fich g) 6)"
proof -
  let ?f = "addCCITT162 (m_fich g) 6" and ?o = "snd (fich_encode out g)"
  note e = fich_encode_bits [OF assms(1), of g]
  have "gather fich_perm 200 (bits_of (?o @ rest)) = gather fich_perm 200 (bits_of ?o)"
  proof (rule nth_equalityI)
    fix i assume "i < length (gather fich_perm 200 (bits_of (?o @ rest)))"
    then have i: "i < 200" by simp
    then have "fich_perm i < length (bits_of ?o)" using fich_il.perm_bound [OF i] e(2) assms(1) by simp
    then show "gather fich_perm 200 (bits_of (?o @ rest)) ! i = gather fich_perm 200 (bits_of ?o) ! i"
      using i by (simp add: nth_append del: length_bits_of)
  qed simp
  also have "\<dots> = flatten_pairs (path_out 0 (fich_path ?f))"
    unfolding e(3) using assms(1) by (intro fich_il.gather_scatter) simp_all
  finally show ?thesis
    using viterbi_decode_code [of "?o @ rest" "m_vit h" ?f] assms e(2)
    by (simp add: fich_decode_read fich_wf_def fich_read_code)
qed

end
