(* ===== verification/Ysf_Fich_Errors.thy ===== *)
theory Ysf_Fich_Errors
  imports Ysf_Fich_Correct
begin

text \<open>
  How many channel errors the FICH codec corrects. A wrong path of the Viterbi decoder differs
  from the sent one by a path of the same trellis, because the code is linear. A path that ends
  in state 0 and whose output has weight at most four has no one among its inputs after the
  second: the difference sits in the first two bits of the first Golay word, which corrects it.
  So any two wrong bits among the two hundred on the air are corrected.
\<close>

section \<open>Distance between pair sequences\<close>

definition pair_dist :: "bool \<times> bool \<Rightarrow> bool \<times> bool \<Rightarrow> nat" where
  "pair_dist p r = of_bool (fst p \<noteq> fst r) + of_bool (snd p \<noteq> snd r)"

definition seq_dist :: "(bool \<times> bool) list \<Rightarrow> (bool \<times> bool) list \<Rightarrow> nat" where
  "seq_dist ps rs = sum_list (map2 pair_dist ps rs)"

definition pair_xor :: "bool \<times> bool \<Rightarrow> bool \<times> bool \<Rightarrow> bool \<times> bool" where
  "pair_xor p r = (fst p \<noteq> fst r, snd p \<noteq> snd r)"

definition bit_diff :: "bits \<Rightarrow> bits \<Rightarrow> bits" where
  "bit_diff ds es = map2 (\<lambda>d e. d = (\<not> e)) ds es"

lemma bit_diff_simps [simp]:
  "bit_diff [] es = []" "bit_diff (d # ds) (e # es) = (d = (\<not> e)) # bit_diff ds es"
  "length (bit_diff xs ys) = min (length xs) (length ys)"
  by (simp_all add: bit_diff_def)

lemma path_cost_dist: "length ds = length rs \<Longrightarrow> path_cost s ds rs = seq_dist (path_out s ds) rs"
  by (induction ds rs arbitrary: s rule: list_induct2)
    (auto simp: seq_dist_def pair_dist_def split: prod.splits)

lemma seq_dist_triangle:
  "length ps = length qs \<Longrightarrow> length qs = length rs \<Longrightarrow>
   seq_dist ps rs \<le> seq_dist ps qs + seq_dist rs qs"
  by (induction ps qs rs rule: list_induct3) (auto simp: seq_dist_def pair_dist_def)

definition path_weight :: "nat \<Rightarrow> bool list \<Rightarrow> nat" where
  "path_weight s ds = path_cost s ds (replicate (length ds) (False, False))"

lemma path_weight_simps [simp]:
  "path_weight s [] = 0"
  "path_weight s (d # ds) = branch_cost s d (False, False) + path_weight (trellis_next s d) ds"
  by (simp_all add: path_weight_def)

section \<open>The trellis is linear\<close>

lemma bit_trellis_next: "bit (trellis_next s d) n \<longleftrightarrow> n < 4 \<and> (if n = 0 then d else bit s (n - 1))"
proof (cases "n < 4")
  case True
  then show ?thesis using trellis_next_bits(1) [of s d] trellis_next_bits(2) [of "n - 1" s]
    by (cases n) auto
next
  case False
  have "trellis_next s d = take_bit 4 (2 * s + of_bool d)"
    by (simp add: trellis_next_def take_bit_eq_mod)
  with False show ?thesis by (simp add: bit_take_bit_iff)
qed

lemma trellis_next_xor: "trellis_next (s XOR q) (d = (\<not> e)) = trellis_next s d XOR trellis_next q e"
  by (rule bit_eqI) (auto simp: bit_trellis_next bit_xor_iff)

lemma path_xor:
  "length ds = length es \<Longrightarrow> s < 16 \<Longrightarrow> q < 16 \<Longrightarrow>
   path_out (s XOR q) (bit_diff ds es) = map2 pair_xor (path_out s ds) (path_out q es)
   \<and> path_end (s XOR q) (bit_diff ds es) = path_end s ds XOR path_end q es"
proof (induction ds es arbitrary: s q rule: list_induct2)
  case (Cons d ds e es)
  have "out_g1 (s XOR q) (d = (\<not> e)) = (out_g1 s d \<noteq> out_g1 q e)"
    "out_g2 (s XOR q) (d = (\<not> e)) = (out_g2 s d \<noteq> out_g2 q e)"
    by (auto simp: out_g1_def out_g2_def bit_xor_iff)
  then show ?case
    using Cons.IH [of "trellis_next s d" "trellis_next q e"] Cons.prems
    by (simp add: trellis_next_xor pair_xor_def)
qed simp

lemma dist_weight:
  assumes "length ds = length es" "s < 16" "q < 16"
  shows "path_weight (s XOR q) (bit_diff ds es) = seq_dist (path_out s ds) (path_out q es)"
proof -
  have "seq_dist (map2 pair_xor ps rs) (replicate (length ps) (False, False)) = seq_dist ps rs"
    if "length ps = length rs" for ps rs
    using that by (induction ps rs rule: list_induct2) (auto simp: seq_dist_def pair_dist_def pair_xor_def)
  from this [of "path_out s ds" "path_out q es"] show ?thesis
    using path_xor [OF assms] assms(1) by (simp add: path_weight_def path_cost_dist)
qed

section \<open>Light paths into state 0\<close>

text \<open>
  Entry w of row s: None when no path of weight at most w leads from s to 0, otherwise how many
  inputs, from the first, may be ones on such a path.
\<close>

definition light_paths :: "nat option list list" where
  "light_paths =
    [[Some 0, Some 0, Some 0, Some 0, Some 0],
     [None, None, None, None, None],
     [None, None, None, None, Some 0],
     [None, None, None, None, Some 2],
     [None, None, None, Some 0, Some 0],
     [None, None, None, None, Some 2],
     [None, None, None, None, Some 1],
     [None, None, None, None, Some 0],
     [None, None, Some 0, Some 0, Some 0],
     [None, None, None, None, None],
     [None, None, None, None, Some 0],
     [None, None, None, None, Some 1],
     [None, None, None, Some 0, Some 0],
     [None, None, None, None, Some 0],
     [None, None, None, Some 0, Some 0],
     [None, None, None, None, Some 0]]"

definition light_ok :: "nat \<Rightarrow> bool \<Rightarrow> nat \<Rightarrow> bool" where
  "light_ok s d w \<longleftrightarrow>
     (let c = branch_cost s d (False, False)
      in c \<le> w \<longrightarrow>
         (case light_paths ! trellis_next s d ! (w - c) of None \<Rightarrow> True
          | Some l \<Rightarrow> (case light_paths ! s ! w of None \<Rightarrow> False
                    | Some k \<Rightarrow> (if l = 0 then of_bool d else Suc l) \<le> k)))"

lemma light_all: "\<forall>s \<in> set [0..<16]. \<forall>w \<in> set [0..<5]. light_ok s False w \<and> light_ok s True w"
  by code_simp

lemma light_path:
  "s < 16 \<Longrightarrow> path_end s ds = 0 \<Longrightarrow> path_weight s ds \<le> w \<Longrightarrow> w < 5 \<Longrightarrow>
   \<exists>k. light_paths ! s ! w = Some k \<and> (\<forall>i < length ds. ds ! i \<longrightarrow> i < k)"
proof (induction ds arbitrary: s w)
  case Nil
  then show ?case using less_8_cases [of w] by (auto simp: light_paths_def)
next
  case (Cons d ds)
  let ?c = "branch_cost s d (False, False)" and ?t = "trellis_next s d"
  have c: "?c \<le> w" "path_weight ?t ds \<le> w - ?c" using Cons.prems(3) by simp_all
  have "path_end ?t ds = 0" "w - ?c < 5" using Cons.prems(2,4) by simp_all
  from Cons.IH [OF trellis_next_less this(1) c(2) this(2)]
  obtain l where l: "light_paths ! ?t ! (w - ?c) = Some l" "\<forall>i < length ds. ds ! i \<longrightarrow> i < l"
    by (elim exE conjE)
  have "light_ok s d w" using light_all Cons.prems by (cases d) auto
  then obtain k where "light_paths ! s ! w = Some k" "(if l = 0 then of_bool d else Suc l) \<le> k"
    using c(1) l(1) by (auto simp: light_ok_def Let_def split: option.splits)
  then show ?case using l(2) by (auto simp: nth_Cons split: nat.splits if_splits)
qed

lemma light_path_ones:
  assumes "s < 16" "path_end s ds = 0" "path_weight s ds \<le> 4" "i < length ds" "ds ! i"
  shows "i < 2"
proof -
  obtain k where "light_paths ! s ! 4 = Some k" "i < k"
    using light_path [OF assms(1-3)] assms(4,5) by auto
  moreover have "\<forall>row \<in> set light_paths. \<forall>k. row ! 4 = Some k \<longrightarrow> k \<le> 2"
    by (simp add: light_paths_def)
  moreover have "light_paths ! s \<in> set light_paths"
    using assms(1) by (intro nth_mem) (simp add: light_paths_def)
  ultimately show ?thesis by fastforce
qed

section \<open>Two errors on the air\<close>

lemma seq_dist_commute: "length ps = length qs \<Longrightarrow> seq_dist ps qs = seq_dist qs ps"
  by (induction ps qs rule: list_induct2) (auto simp: seq_dist_def pair_dist_def)

lemma bit_diff_nth: "i < length ds \<Longrightarrow> length ds = length es \<Longrightarrow> bit_diff ds es ! i \<longleftrightarrow> ds ! i \<noteq> es ! i"
  by (simp add: bit_diff_def)

lemma chainback_two_errors:
  assumes inv: "viterbi_inv rs v" and len: "length rs = 100"
    and dist: "seq_dist (path_out 0 (fich_path f)) rs \<le> 2"
  shows "\<exists>ds. length ds = 100 \<and> (\<forall>i < 100. 2 \<le> i \<longrightarrow> ds ! i = fich_path f ! i)
    \<and> bits_of (snd (convolution_chainback v (replicate 13 0) 96)) = take 96 ds @ replicate 8 False"
proof -
  let ?p = "fich_path f"
  obtain s0 ds where s0: "s0 < 16" "length ds = length rs" "path_end s0 ds = 0"
    and out: "bits_of (snd (convolution_chainback v (replicate 13 0) 96))
        = memcpy (bits_of (replicate 13 0)) 0 (take 96 ds)"
    and least: "\<And>q0 es. q0 < 16 \<Longrightarrow> length es = length rs \<Longrightarrow> path_end q0 es = 0 \<Longrightarrow>
        path_cost s0 ds rs \<le> path_cost q0 es rs"
    using chainback_least_cost [OF inv, of 96 "replicate 13 0"] len by auto
  have e: "path_end 0 ?p = 0"
    by (simp only: fich_path_def path_end_append path_end_flush)
  have "seq_dist (path_out s0 ds) rs \<le> 2"
    using least [of 0 ?p] e dist len s0(2) by (simp add: path_cost_dist)
  then have "seq_dist (path_out s0 ds) (path_out 0 ?p) \<le> 4"
    using seq_dist_triangle [of "path_out s0 ds" rs "path_out 0 ?p"] dist len s0(2) by simp
  then have w: "path_weight (s0 XOR 0) (bit_diff ds ?p) \<le> 4"
    using dist_weight [of ds ?p s0 0] s0 len by simp
  have "path_end (s0 XOR 0) (bit_diff ds ?p) = 0"
    using path_xor [of ds ?p s0 0] s0 len e by simp
  then have "i < 2" if "i < 100" "bit_diff ds ?p ! i" for i
    using light_path_ones [of s0 "bit_diff ds ?p" i] w s0 len that by simp
  then have "ds ! i = ?p ! i" if "i < 100" "2 \<le> i" for i
    using bit_diff_nth [of i ds ?p] that s0(2) len by fastforce
  moreover have "bits_of (replicate 13 0) = replicate 104 False"
    by (simp add: bits_of_def bits_zero_byte numeral_eq_Suc)
  ultimately show ?thesis using s0(2) len out by (intro exI [of _ ds]) (simp add: memcpy_def)
qed

text \<open>The two bits that may be wrong, as an error of the first code word.\<close>

definition lead_error :: "bool \<Rightarrow> bool \<Rightarrow> u32" where
  "lead_error x y = (if x then 0x800000 else 0) XOR (if y then 0x400000 else 0)"

lemma lead_error_tolerated: "golay_tolerated (lead_error x y)"
  by (cases x; cases y) (simp_all add: lead_error_def golay_tolerated_def)

lemma byte_bits_lead:
  "byte_bits (ucast (drop_bit 16 (c XOR lead_error x y))) =
     (bit c 23 \<noteq> x) # (bit c 22 \<noteq> y) # drop 2 (byte_bits (ucast (drop_bit 16 c)))"
  by (rule nth_equalityI)
    (auto simp: byte_bits_def upt_rec bit_ucast_iff bit_drop_bit_eq bit_xor_iff lead_error_def bit_0
      nth_Cons' bit_exp_iff)

lemma be24_lead:
  "bits_of (be24_bytes (c XOR lead_error x y)) =
     (bit c 23 \<noteq> x) # (bit c 22 \<noteq> y) # drop 2 (bits_of (be24_bytes c))"
proof -
  have "drop_bit 8 (lead_error x y) = push_bit 8 (drop_bit 16 (lead_error x y))"
    by (cases x; cases y; simp add: lead_error_def)
  then have "ucast (drop_bit 8 (lead_error x y)) = (0 :: u8)"
    by (simp only:) (rule byte_eqI, simp add: bit_ucast_iff bit_push_bit_iff)
  moreover have "ucast (lead_error x y) = (0 :: u8)"
    by (cases x; cases y; simp add: lead_error_def)
  moreover have "ucast (p XOR q) = (ucast p XOR ucast q :: u8)" for p q :: u32
    by (rule byte_eqI) (simp add: bit_ucast_iff bit_xor_iff)
  ultimately have "ucast (drop_bit 8 (c XOR lead_error x y)) = (ucast (drop_bit 8 c) :: u8)"
    "ucast (c XOR lead_error x y) = (ucast c :: u8)"
    by (simp_all add: drop_bit_xor)
  then show ?thesis using byte_bits_lead [of c x y] by (simp add: be24_bytes_def)
qed

lemma fich_read_lead_error:
  assumes len: "length f = 6" and out: "length output = 13"
    and ds: "length ds = 100" "\<forall>i < 100. 2 \<le> i \<longrightarrow> ds ! i = fich_path f ! i"
    and bits: "bits_of output = take 96 ds @ replicate 8 False"
  shows "fich_read output = Some f"
proof -
  obtain w0 w1 w2 w3 where w: "fich_words f = [w0, w1, w2, w3]" by (simp add: fich_words_def)
  let ?c = "encode24128 w0"
  define x where "x = (bit ?c 23 \<noteq> ds ! 0)"
  define y where "y = (bit ?c 22 \<noteq> ds ! 1)"
  define wrong where "wrong = be24_bytes (?c XOR lead_error x y) @ drop 3 (fich_code f) @ [0]"
  have code: "fich_code f = be24_bytes ?c @ drop 3 (fich_code f)"
    by (simp add: fich_code_def w)
  have "ds = ds ! 0 # ds ! 1 # drop 2 ds"
  proof -
    have "take 2 ds = [ds ! 0, ds ! 1]"
      using ds(1) by (simp add: take_Suc_conv_app_nth numeral_2_eq_2)
    then show ?thesis using append_take_drop_id [of 2 ds] by simp
  qed
  moreover have "drop 2 ds = drop 2 (fich_path f)"
    using ds by (intro nth_equalityI) simp_all
  ultimately have split: "ds = ds ! 0 # ds ! 1 # drop 2 (fich_path f)" by simp
  have path: "fich_path f = bits_of (be24_bytes ?c) @ bits_of (drop 3 (fich_code f)) @ [False, False, False, False]"
    using arg_cong [OF code, of bits_of] by (simp add: fich_path_def)
  have "bits_of wrong = ds ! 0 # ds ! 1 # drop 2 (bits_of (be24_bytes ?c))
      @ bits_of (drop 3 (fich_code f)) @ replicate 8 False"
    by (auto simp: wrong_def be24_lead bits_zero_byte x_def y_def)
  also have "\<dots> = take 96 ds @ replicate 8 False"
    by (subst (3) split) (simp add: path)
  finally have "output = wrong"
    using bits bits_of_inject [of "output" wrong] out by (simp add: wrong_def)
  moreover have "fich_read wrong = Some f"
    using fich_read_corrects [OF len lead_error_tolerated golay.tolerates_none golay.tolerates_none
        golay.tolerates_none, of x y "[0]"]
    by (simp add: wrong_def fich_code_def w)
  ultimately show ?thesis by simp
qed

text \<open>The bits of the FICH that two received blocks have different.\<close>

definition air_errors :: "bytes \<Rightarrow> bytes \<Rightarrow> nat" where
  "air_errors a b = card {i. i < 200 \<and> bits_of a ! i \<noteq> bits_of b ! i}"

lemma seq_dist_pairs:
  "seq_dist (fich_pairs a n) (fich_pairs b n) = card {k. k < 2 * n \<and> a ! fich_perm k \<noteq> b ! fich_perm k}"
proof (induction n)
  case 0
  then show ?case by (simp add: fich_pairs_def seq_dist_def)
next
  case (Suc n)
  let ?D = "\<lambda>m. {k. k < m \<and> a ! fich_perm k \<noteq> b ! fich_perm k}"
  have step: "card (?D (Suc m)) = card (?D m) + of_bool (a ! fich_perm m \<noteq> b ! fich_perm m)" for m
  proof -
    have "?D (Suc m) = (if a ! fich_perm m \<noteq> b ! fich_perm m then insert m (?D m) else ?D m)"
      by (auto simp: less_Suc_eq)
    then show ?thesis by simp
  qed
  have "seq_dist (fich_pairs a (Suc n)) (fich_pairs b (Suc n))
      = seq_dist (fich_pairs a n) (fich_pairs b n)
        + of_bool (a ! fich_perm (2 * n) \<noteq> b ! fich_perm (2 * n))
        + of_bool (a ! fich_perm (Suc (2 * n)) \<noteq> b ! fich_perm (Suc (2 * n)))"
    by (simp add: fich_pairs_def seq_dist_def pair_dist_def)
  then show ?case using Suc step [of "2 * n"] step [of "Suc (2 * n)"] by simp
qed

lemma air_errors_dist:
  "air_errors a b = seq_dist (fich_pairs (bits_of a) 100) (fich_pairs (bits_of b) 100)"
proof -
  let ?E = "{i. i < 200 \<and> bits_of a ! i \<noteq> bits_of b ! i}"
  let ?D = "{k. k < 200 \<and> bits_of a ! fich_perm k \<noteq> bits_of b ! fich_perm k}"
  have "fich_perm ` ?D = ?E"
  proof (intro equalityI subsetI)
    fix i assume "i \<in> fich_perm ` ?D"
    then show "i \<in> ?E" using fich_il.perm_bound by auto
  next
    fix i assume i: "i \<in> ?E"
    then have "i \<in> fich_perm ` {..<200}" using fich_il.perm_surj by simp
    with i show "i \<in> fich_perm ` ?D" by auto
  qed
  moreover have "inj_on fich_perm ?D"
    using fich_il.perm_inj by (rule inj_on_subset) auto
  ultimately have "card ?E = card ?D" using card_image [of fich_perm ?D] by simp
  then show ?thesis using seq_dist_pairs [of "bits_of a" 100 "bits_of b"] by (simp add: air_errors_def)
qed

lemma fich_pairs_encoded:
  assumes "25 \<le> length out"
  shows "fich_pairs (bits_of (snd (fich_encode out g))) 100 = path_out 0 (fich_path (addCCITT162 (m_fich g) 6))"
proof -
  have "flatten_pairs (fich_pairs (bits_of (snd (fich_encode out g))) 100)
      = flatten_pairs (path_out 0 (fich_path (addCCITT162 (m_fich g) 6)))"
    unfolding fich_pairs_gather fich_encode_bits(3) [OF assms]
    using assms by (simp add: fich_il.gather_scatter)
  then show ?thesis by (subst (asm) flatten_pairs_inject) (simp_all add: fich_pairs_def)
qed

lemma fich_decode_two_errors:
  assumes "25 \<le> length out" "fich_wf g" "fich_wf h" "25 \<le> length received"
    and errors: "air_errors (snd (fich_encode out g)) received \<le> 2"
  shows "map_option m_fich (fich_decode received h) = Some (addCCITT162 (m_fich g) 6)"
proof -
  let ?f = "addCCITT162 (m_fich g) 6" and ?rs = "fich_pairs (bits_of received) 100"
  let ?v = "fold (deinterleave_step received) [0..<100] (viterbi_start (m_vit h))"
  have inv: "viterbi_inv ?rs ?v"
    using deinterleave_loop [of received "m_vit h" 100] assms(3,4) by (simp add: fich_wf_def)
  have len: "length ?rs = 100" by (simp add: fich_pairs_def)
  have dist: "seq_dist (path_out 0 (fich_path ?f)) ?rs \<le> 2"
    using errors unfolding air_errors_dist fich_pairs_encoded [OF assms(1)] .
  obtain ds where "length ds = 100" "\<forall>i < 100. 2 \<le> i \<longrightarrow> ds ! i = fich_path ?f ! i"
    "bits_of (snd (convolution_chainback ?v (replicate 13 0) 96)) = take 96 ds @ replicate 8 False"
    using chainback_two_errors [OF inv len dist] by (elim exE conjE)
  then show ?thesis
    using assms(2) unfolding fich_decode_read by (intro fich_read_lead_error) (simp_all add: fich_wf_def)
qed

end
