(* ===== verification/Ysf_Crc.thy ===== *)
theory Ysf_Crc
  imports Ysf_Fich
begin

text \<open>
  The checksum of \<open>src/ysf_fich.c\<close>: the table-driven \<open>addCCITT162\<close> computes the remainder of
  its generator polynomial, stated one bit at a time.
\<close>

section \<open>The checksum is the CRC of its polynomial\<close>

text \<open>The remainder register of the generator 1 + x^5 + x^12 + x^16, one bit at a time.\<close>

definition crc_bit :: "bool \<Rightarrow> u16 \<Rightarrow> u16" where
  "crc_bit b c = push_bit 1 c XOR (if bit c 15 \<noteq> b then 0x1021 else 0)"

definition crc_rows :: "u16 list" where
  "crc_rows = [0x1021, 0x2042, 0x4084, 0x8108, 0x1231, 0x2462, 0x48C4, 0x9188]"

lemma crc_table: "CCITT16_TABLE2 = xor_span crc_rows"
  by (simp add: CCITT16_TABLE2_def xor_span_def crc_rows_def)

lemma crc_table_nth: "CCITT16_TABLE2 ! unat (x :: u8) = xor_comb crc_rows (unat x)"
  unfolding crc_table using unsigned_less [of x] by (intro nth_xor_span) (simp add: crc_rows_def)

lemma crc_table_entries:
  "CCITT16_TABLE2 ! 0 = 0" "CCITT16_TABLE2 ! Suc 0 = 0x1021" "CCITT16_TABLE2 ! 2 = 0x2042"
  "CCITT16_TABLE2 ! 4 = 0x4084" "CCITT16_TABLE2 ! 8 = 0x8108" "CCITT16_TABLE2 ! 16 = 0x1231"
  "CCITT16_TABLE2 ! 32 = 0x2462" "CCITT16_TABLE2 ! 64 = 0x48C4" "CCITT16_TABLE2 ! 128 = 0x9188"
  by (simp_all add: CCITT16_TABLE2_def)

lemma crc_update_xor: "crc_update (c XOR c') (x XOR x') = crc_update c x XOR crc_update c' x'"
proof -
  have u: "ucast (p XOR q) = (ucast p XOR ucast q :: u8)" for p q :: u16
    by (rule byte_eqI) (simp add: bit_ucast_iff bit_xor_iff)
  have v: "ucast (p XOR q) = (ucast p XOR ucast q :: u16)" for p q :: u8
    by (rule bit_word_eqI) (auto simp: bit_ucast_iff bit_xor_iff)
  show ?thesis
    unfolding crc_update_def crc8_0_def crc8_1_def crc_table_nth
    by (simp add: u v drop_bit_xor push_bit_xor unat_xor xor_comb_xor ac_simps)
qed

lemma crc_bits_xor:
  "fold (\<lambda>i. crc_bit (bit (x XOR x') (f i))) ks (c XOR c')
     = fold (\<lambda>i. crc_bit (bit (x :: u8) (f i))) ks c XOR fold (\<lambda>i. crc_bit (bit x' (f i))) ks c'"
proof (induction ks arbitrary: c c')
  case (Cons k ks)
  have "crc_bit (b = (\<not> b')) (c XOR c') = crc_bit b c XOR crc_bit b' c'" for b b'
    by (auto simp: crc_bit_def push_bit_xor bit_xor_iff ac_simps)
  with Cons show ?case by (simp add: bit_xor_iff)
qed simp

text \<open>A word is the combination of its own bits, so additive functions agree if they do there.\<close>

lemma bit_xor_comb_powers:
  "n \<le> LENGTH('a) \<Longrightarrow>
   bit (xor_comb (map (\<lambda>i. 2 ^ i :: 'a::len word) [0..<n]) p) k \<longleftrightarrow> k < n \<and> bit p k"
proof (induction n)
  case (Suc n)
  have "odd (p div 2 ^ n) = bit p n" by (simp add: bit_iff_odd)
  with Suc show ?case
    by (auto simp: xor_comb_snoc bit_xor_iff bit_exp_iff possible_bit_def less_Suc_eq)
qed simp

lemma word_comb: "xor_comb (map (\<lambda>i. 2 ^ i) [0..<LENGTH('a)]) (unat w) = (w :: 'a::len word)"
  by (rule bit_word_eqI) (simp add: bit_xor_comb_powers bit_unsigned_iff)

lemma additive_eq:
  fixes f g :: "'a::len word \<Rightarrow> 'b::len word"
  assumes f: "\<And>x y. f (x XOR y) = f x XOR f y" "f 0 = 0"
    and g: "\<And>x y. g (x XOR y) = g x XOR g y" "g 0 = 0"
    and basis: "\<And>i. i < LENGTH('a) \<Longrightarrow> f (2 ^ i) = g (2 ^ i)"
  shows "f w = g w"
proof -
  have hom: "h (xor_comb rs p) = xor_comb (map h rs) p"
    if "\<And>x y. h (x XOR y) = h x XOR h y" "h 0 = 0" for h :: "'a word \<Rightarrow> 'b word" and rs p
    by (induction rs arbitrary: p) (auto simp: that)
  have "f w = xor_comb (map f (map (\<lambda>i. 2 ^ i) [0..<LENGTH('a)])) (unat w)"
    using hom [OF f] word_comb [of w] by metis
  also have "map f (map (\<lambda>i. 2 ^ i) [0..<LENGTH('a)]) = map g (map (\<lambda>i. 2 ^ i) [0..<LENGTH('a)])"
    using basis by simp
  also have "xor_comb \<dots> (unat w) = g w"
    using hom [OF g] word_comb [of w] by metis
  finally show ?thesis .
qed

lemma crc_update_bits: "crc_update c x = fold crc_bit (byte_bits x) c"
proof -
  define F where "F = (\<lambda>c (x :: u8). fold (\<lambda>i. crc_bit (bit x (7 - i))) [0..<8] c)"
  have F: "F (c XOR c') (x XOR x') = F c x XOR F c' x'" for c c' x x'
    unfolding F_def by (rule crc_bits_xor)
  have F0: "F 0 0 = 0" by (simp add: F_def crc_bit_def upt_rec)
  have U0: "crc_update 0 0 = 0"
    by (simp add: crc_update_def crc8_0_def crc8_1_def crc_table_entries)
  have c: "crc_update c 0 = F c 0"
  proof (rule additive_eq [where f = "\<lambda>c. crc_update c 0" and g = "\<lambda>c. F c 0"])
    fix i :: nat assume "i < LENGTH(16)"
    then have "i < 16" by simp
    then show "crc_update (2 ^ i) 0 = F (2 ^ i) 0"
      by (drule_tac less_16_cases) (elim disjE;
        simp add: crc_update_def crc8_0_def crc8_1_def crc_table_entries F_def crc_bit_def upt_rec)
  qed (use crc_update_xor [of _ _ 0 0] F [of _ _ 0 0] U0 F0 in simp_all)
  have x: "crc_update 0 x = F 0 x"
  proof (rule additive_eq [where f = "\<lambda>x. crc_update 0 x" and g = "\<lambda>x. F 0 x"])
    fix i :: nat assume "i < LENGTH(8)"
    then have "i < 8" by simp
    then show "crc_update 0 (2 ^ i) = F 0 (2 ^ i)"
      by (drule_tac less_8_cases) (elim disjE;
        simp add: crc_update_def crc8_0_def crc8_1_def crc_table_entries F_def crc_bit_def upt_rec)
  qed (use crc_update_xor [of 0 0] F [of 0 0] U0 F0 in simp_all)
  have "crc_update c x = crc_update c 0 XOR crc_update 0 x"
    using crc_update_xor [of c 0 0 x] by simp
  also have "\<dots> = F c x" using F [of c 0 0 x] c x by simp
  finally show ?thesis by (simp add: F_def byte_bits_def fold_map comp_def)
qed

lemma crc_loop_bits:
  "m \<le> length f \<Longrightarrow> fold (\<lambda>i c. crc_update c (f ! i)) [0..<m] c = fold crc_bit (bits_of (take m f)) c"
  by (induction m) (auto simp: take_Suc_conv_app_nth crc_update_bits)

lemma addCCITT162_bits:
  assumes "length f = n + 2"
  shows "addCCITT162 f (n + 2) =
    (let r = NOT (fold crc_bit (bits_of (take n f)) 0) in take n f @ [crc8_1 r, crc8_0 r])"
proof -
  have f: "f = take n f @ [f ! n, f ! Suc n]"
    using assms by (metis Suc_eq_plus1 add_2_eq_Suc' append_take_drop_id Cons_nth_drop_Suc drop_all
        le_refl less_add_same_cancel1 lessI less_SucI)
  have upd: "(xs @ [a, b])[length xs + 1 := p, length xs := q] = xs @ [q, p]" for xs :: bytes and a b p q
    by (simp add: list_update_append)
  have "f[n + 1 := p, n := q] = take n f @ [q, p]" for p q
    using upd [of "take n f" "f ! n" "f ! Suc n" p q] f assms by simp
  then show ?thesis
    using crc_loop_bits [of n f 0] assms by (simp add: addCCITT162_def Let_def)
qed

end
