(* ===== verification/Ysf_Fich_Props.thy ===== *)
theory Ysf_Fich_Props
  imports Ysf_Fich_Errors Ysf_Crc
begin

text \<open>
  The DGID rewrite, outbound headers and the activation burst of \<open>src/ysf_fich.c\<close>, and the
  properties of the whole codec.
\<close>

section \<open>Type invariant and frames\<close>

lemma fich_setters_wf [simp]:
  "fich_wf (fich_set_dt x g) = fich_wf g" "fich_wf (fich_set_fi x g) = fich_wf g"
  "fich_wf (fich_set_cs x g) = fich_wf g" "fich_wf (fich_set_cm x g) = fich_wf g"
  "fich_wf (fich_set_fn x g) = fich_wf g" "fich_wf (fich_set_ft x g) = fich_wf g"
  "fich_wf (fich_set_mr x g) = fich_wf g" "fich_wf (fich_set_voip b g) = fich_wf g"
  "fich_wf (fich_set_sql b g) = fich_wf g" "fich_wf (fich_set_sq x g) = fich_wf g"
  "fich_wf (fich_set_dgid x g) = fich_wf g"
  by (simp_all add: fich_wf_def upd_fich_def fich_set_dt_def fich_set_fi_def fich_set_cs_def
      fich_set_cm_def fich_set_fn_def fich_set_ft_def fich_set_mr_def fich_set_voip_def
      fich_set_sql_def fich_set_sq_def fich_set_dgid_def)

lemma fst_fich_encode: "fst (fich_encode out g) = g\<lparr>m_fich := addCCITT162 (m_fich g) 6\<rparr>"
  by (simp add: fich_encode_def Let_def)

lemma fich_encode_wf [simp]: "fich_wf (fst (fich_encode out g)) = fich_wf g"
  by (simp add: fst_fich_encode fich_wf_def)

lemma deinterleave_decisions:
  "length (m_decisions (fold (deinterleave_step inp) ks v)) = length (m_decisions v)"
  by (induction ks arbitrary: v) (auto simp: deinterleave_step_def Let_def)

lemma chainback_decisions: "m_decisions (fst (convolution_chainback v out n)) = m_decisions v"
proof -
  have "m_decisions (fst (convolution_chainback_loop n st v out)) = m_decisions v" for st
    by (induction n arbitrary: st v out) (auto simp: Let_def)
  then show ?thesis by (simp add: convolution_chainback_def)
qed

lemma fich_decode_wf:
  "fich_decode inp g = Some g' \<Longrightarrow> length (m_fich g') = 6 \<and> (fich_wf g \<longrightarrow> fich_wf g')"
  using deinterleave_decisions [of inp "[0..<100]" "viterbi_start (m_vit g)"]
    chainback_decisions [of "fold (deinterleave_step inp) [0..<100] (viterbi_start (m_vit g))" "replicate 13 0" 96]
  by (auto simp: fich_decode_def fich_unpack_def fich_wf_def Let_def viterbi_start_def
      split: prod.splits option.splits simp: bind_eq_Some_conv)

lemma fich_decode_returns: "\<exists>g'. fich_decode inp g = Some g'"
proof -
  let ?o = "snd (convolution_chainback
     (fold (deinterleave_step inp) [0..<100] (viterbi_start (m_vit g))) (replicate 13 0) 96)"
  obtain f where "fich_read ?o = Some f" using fich_read_returns [of ?o] by auto
  then have "map_option m_fich (fich_decode inp g) = Some f" using fich_decode_read by simp
  then show ?thesis by auto
qed

lemma interleave_beyond: "k \<le> 100 \<Longrightarrow> drop 25 (fold (interleave_step cv) [0..<k] out) = drop 25 out"
proof (induction k)
  case (Suc k)
  have w: "drop 25 (WRITE_BIT1 p i b) = drop 25 p" if "i < 200" for p i b
    using that by (simp add: WRITE_BIT1_def drop_update_cancel less_mult_imp_div_less)
  have n: "INTERLEAVE_TABLE ! k = fich_perm (2 * k)" "INTERLEAVE_TABLE ! k + 1 = fich_perm (2 * k + 1)"
    by (simp_all add: fich_perm_def)
  have b: "fich_perm (2 * k) < 200" "fich_perm (2 * k + 1) < 200"
    using Suc.prems fich_il.perm_bound [of "2 * k"] fich_il.perm_bound [of "2 * k + 1"] by simp_all
  define o' where "o' = fold (interleave_step cv) [0..<k] out"
  have "interleave_step cv k o' = WRITE_BIT1 (WRITE_BIT1 o' (fich_perm (2 * k)) (READ_BIT1 cv (2 * k) \<noteq> 0))
      (fich_perm (2 * k + 1)) (READ_BIT1 cv (2 * k + 1) \<noteq> 0)"
    unfolding interleave_step_def Let_def n(2) unfolding n(1) ..
  then show ?case using Suc b by (simp add: w flip: o'_def)
qed simp

lemma fich_encode_tail: "drop 25 (snd (fich_encode out g)) = drop 25 out"
  by (simp add: fich_encode_def Let_def interleave_beyond)

lemma fich_encode_at_frame:
  assumes "off + 25 \<le> length frame"
  shows "length (snd (fich_encode_at off frame g)) = length frame"
    and "take off (snd (fich_encode_at off frame g)) = take off frame"
    and "drop (off + 25) (snd (fich_encode_at off frame g)) = drop (off + 25) frame"
    and "drop off (snd (fich_encode_at off frame g)) = snd (fich_encode (drop off frame) g)"
    and "fst (fich_encode_at off frame g) = g\<lparr>m_fich := addCCITT162 (m_fich g) 6\<rparr>"
proof -
  obtain t where t: "fich_encode (drop off frame) g = (g\<lparr>m_fich := addCCITT162 (m_fich g) 6\<rparr>, t)"
    using fst_fich_encode [of "drop off frame" g] by (cases "fich_encode (drop off frame) g") simp
  have len: "length t = length frame - off"
    using fich_encode_bits(2) [of "drop off frame" g] assms t by simp
  have tail: "drop 25 t = drop (off + 25) frame"
    using fich_encode_tail [of "drop off frame" g] t by (simp add: add.commute)
  have e: "fich_encode_at off frame g = (g\<lparr>m_fich := addCCITT162 (m_fich g) 6\<rparr>, take off frame @ t)"
    by (simp add: fich_encode_at_def t)
  show "length (snd (fich_encode_at off frame g)) = length frame"
    and "take off (snd (fich_encode_at off frame g)) = take off frame"
    and "drop (off + 25) (snd (fich_encode_at off frame g)) = drop (off + 25) frame"
    and "drop off (snd (fich_encode_at off frame g)) = snd (fich_encode (drop off frame) g)"
    and "fst (fich_encode_at off frame g) = g\<lparr>m_fich := addCCITT162 (m_fich g) 6\<rparr>"
    using assms len tail by (simp_all add: e t)
qed

section \<open>Fields\<close>

definition header_bytes :: "u8 \<Rightarrow> u8 \<Rightarrow> u8 \<Rightarrow> u8 \<Rightarrow> u8 \<Rightarrow> bytes" where
  "header_bytes fi cm fn ft dgid =
     [(push_bit 6 fi AND 0xC0) OR 0x20 OR (push_bit 2 cm AND 0x0C),
      (push_bit 3 fn AND 0x38) OR (ft AND 0x07), 2, dgid, 0, 0]"

lemmas fich_set_defs =
  upd_fich_def fich_set_dt_def fich_set_fi_def fich_set_cs_def fich_set_cm_def fich_set_fn_def
  fich_set_ft_def fich_set_mr_def fich_set_voip_def fich_set_sql_def fich_set_sq_def fich_set_dgid_def

lemma replicate_6: "replicate 6 x = [x, x, x, x, x, x]"
  by (simp add: numeral_eq_Suc)

lemma header_bits:
  fixes fi cm fn ft :: u8
  shows "((push_bit 6 fi AND 0xC0) AND 0xCF OR 0x20) AND 0xF3 OR (push_bit 2 cm AND 0x0C)
      = (push_bit 6 fi AND 0xC0) OR 0x20 OR (push_bit 2 cm AND 0x0C)"
    and "(push_bit 3 fn AND 0x38) AND 0xF8 OR (ft AND 0x07) = (push_bit 3 fn AND 0x38) OR (ft AND 0x07)"
  by (rule byte_eqI; drule less_8_cases; elim disjE; simp add: bit_and_iff bit_or_iff bit_push_bit_iff)+

lemma outbound_bytes:
  "m_fich (fst (ysf_fich_encode_outbound out fn fi ft cm g)) = addCCITT162 (header_bytes fi cm fn ft 0) 6"
  "snd (ysf_fich_encode_outbound out fn fi ft cm g) = snd (fich_encode out (g\<lparr>m_fich := header_bytes fi cm fn ft 0\<rparr>))"
proof -
  let ?g = "g\<lparr>m_fich := header_bytes fi cm fn ft 0\<rparr>"
  have "ysf_fich_encode_outbound out fn fi ft cm g = fich_encode out ?g"
    using header_bits(1) [of fi cm] header_bits(2) [of fn ft]
    by (simp add: ysf_fich_encode_outbound_def Let_def fich_set_defs header_bytes_def replicate_6)
  then show "m_fich (fst (ysf_fich_encode_outbound out fn fi ft cm g)) = addCCITT162 (header_bytes fi cm fn ft 0) 6"
    and "snd (ysf_fich_encode_outbound out fn fi ft cm g) = snd (fich_encode out ?g)"
    by (simp_all add: fst_fich_encode)
qed

lemma addCCITT162_six:
  "length f = 6 \<Longrightarrow> \<exists>a b. addCCITT162 f 6 = take 4 f @ [a, b]"
  using addCCITT162_bits [of f 4] by (auto simp: Let_def)

lemma addCCITT162_nth: "length f = 6 \<Longrightarrow> i < 4 \<Longrightarrow> addCCITT162 f 6 ! i = f ! i"
  using addCCITT162_six [of f] by (auto simp: nth_append)

lemma fields_of_crc: "length f = 6 \<Longrightarrow> fields_of (addCCITT162 f 6) = fields_of f"
  by (simp add: fields_of_def addCCITT162_nth)

lemma fields_of_header:
  "fields_of (header_bytes fi cm fn ft dgid) =
     \<lparr>f_fi = fi AND 3, f_fn = fn AND 7, f_ft = ft AND 7, f_cm = cm AND 3, f_dt = 2\<rparr>"
proof -
  have "drop_bit 6 ((push_bit 6 fi AND 0xC0) OR 0x20 OR (push_bit 2 cm AND 0x0C)) AND 3 = fi AND (3 :: u8)"
    by (rule byte_eqI; drule less_8_cases; elim disjE; simp only: bit_and_iff bit_or_iff bit_push_bit_iff bit_drop_bit_eq;
        simp add: bit_and_iff bit_or_iff bit_push_bit_iff)
  moreover have "drop_bit 2 ((push_bit 6 fi AND 0xC0) OR 0x20 OR (push_bit 2 cm AND 0x0C)) AND 3 = cm AND (3 :: u8)"
    by (rule byte_eqI; drule less_8_cases; elim disjE; simp only: bit_and_iff bit_or_iff bit_push_bit_iff bit_drop_bit_eq;
        simp add: bit_and_iff bit_or_iff bit_push_bit_iff)
  moreover have "drop_bit 3 ((push_bit 3 fn AND 0x38) OR (ft AND 0x07)) AND 7 = fn AND (7 :: u8)"
    by (rule byte_eqI; drule less_8_cases; elim disjE; simp only: bit_and_iff bit_or_iff bit_push_bit_iff bit_drop_bit_eq;
        simp add: bit_and_iff bit_or_iff bit_push_bit_iff)
  moreover have "((push_bit 3 fn AND 0x38) OR (ft AND 0x07)) AND 7 = ft AND (7 :: u8)"
    by (rule byte_eqI; drule less_8_cases; elim disjE; simp only: bit_and_iff bit_or_iff bit_push_bit_iff bit_drop_bit_eq;
        simp add: bit_and_iff bit_or_iff bit_push_bit_iff)
  ultimately show ?thesis by (simp only: fields_of_def header_bytes_def nth_Cons_0 nth_Cons_Suc One_nat_def numeral_2_eq_2) simp
qed

section \<open>The DGID rewrite\<close>

definition dgid_bytes :: "u8 \<Rightarrow> bytes \<Rightarrow> bytes" where
  "dgid_bytes dgid f = f[2 := (f ! 2 AND 0xFB) AND 0xFC OR 2, 3 := dgid]"

lemma rewrite_dgid_eq:
  assumes "fich_decode (drop 40 frame) g = Some g1" "1 \<le> dgid"
  shows "ysf_fich_rewrite_dgid frame dgid g =
     Some (fich_encode_at 40 frame (g1\<lparr>m_fich := dgid_bytes dgid (m_fich g1)\<rparr>))"
proof -
  have "length (m_fich g1) = 6" using fich_decode_wf [OF assms(1)] by simp
  moreover have "dgid \<noteq> 0" using assms(2) by auto
  ultimately show ?thesis
    using assms by (simp add: ysf_fich_rewrite_dgid_def fich_set_defs dgid_bytes_def linorder_not_less)
qed

lemma fields_of_dgid:
  assumes "length f = 6"
  shows "fields_of (dgid_bytes dgid f) = (fields_of f)\<lparr>f_dt := 2\<rparr>"
    and "\<not> bit (dgid_bytes dgid f ! 2) 2" and "dgid_bytes dgid f ! 3 = dgid"
proof -
  have "((x AND 0xFB) AND 0xFC OR 2) AND 3 = 2" for x :: u8
    by (rule byte_eqI; drule less_8_cases; elim disjE; simp add: bit_and_iff bit_or_iff)
  then show "fields_of (dgid_bytes dgid f) = (fields_of f)\<lparr>f_dt := 2\<rparr>"
    using assms by (simp add: fields_of_def dgid_bytes_def)
  show "\<not> bit (dgid_bytes dgid f ! 2) 2"
    using assms by (simp add: dgid_bytes_def bit_and_iff bit_or_iff)
  show "dgid_bytes dgid f ! 3 = dgid"
    using assms by (simp add: dgid_bytes_def)
qed

lemma length_dgid_bytes [simp]: "length (dgid_bytes dgid f) = length f"
  by (simp add: dgid_bytes_def)

lemma rewrite_dgid_aux:
  assumes wf: "fich_wf g" "fich_wf h" and len: "65 \<le> length frame" and dgid: "1 \<le> dgid"
    and dec: "fich_decode (drop 40 frame) g = Some g1"
  shows "\<exists>g' frame' h'. ysf_fich_rewrite_dgid frame dgid g = Some (g', frame')
     \<and> fich_wf g' \<and> length frame' = length frame
     \<and> take 40 frame' = take 40 frame \<and> drop 65 frame' = drop 65 frame
     \<and> fich_decode (drop 40 frame') h = Some h'
     \<and> fields_of (m_fich h') = (fields_of (m_fich g1))\<lparr>f_dt := 2\<rparr>
     \<and> ysf_fich_get_dgid h' = dgid \<and> \<not> bit (m_fich h' ! 2) 2"
proof -
  define f where "f = dgid_bytes dgid (m_fich g1)"
  define r where "r = fich_encode_at 40 frame (g1\<lparr>m_fich := f\<rparr>)"
  have g1: "length (m_fich g1) = 6" "fich_wf g1" using fich_decode_wf [OF dec] wf by simp_all
  then have f: "length f = 6" "fich_wf (g1\<lparr>m_fich := f\<rparr>)"
    by (simp_all add: f_def fich_wf_def)
  note e = fich_encode_at_frame [of 40 frame "g1\<lparr>m_fich := f\<rparr>", folded r_def]
  have "map_option m_fich (fich_decode (drop 40 (snd r)) h) = Some (addCCITT162 f 6)"
    using fich_decode_encoded [of "drop 40 frame" "g1\<lparr>m_fich := f\<rparr>" h "[]"] len f wf e(4) by simp
  then obtain h' where h': "fich_decode (drop 40 (snd r)) h = Some h'" "m_fich h' = addCCITT162 f 6"
    by auto
  have "fich_wf (fst r)" using e(5) len f by (simp add: fich_wf_def)
  moreover have "ysf_fich_rewrite_dgid frame dgid g = Some (fst r, snd r)"
    using rewrite_dgid_eq [OF dec dgid] by (simp add: r_def f_def)
  ultimately show ?thesis
    using e(1-3) len h' f(1) g1(1) fields_of_dgid [of "m_fich g1" dgid, folded f_def]
    by (intro exI [of _ "fst r"] exI [of _ "snd r"] exI [of _ h'])
      (simp add: fields_of_crc addCCITT162_nth ysf_fich_get_dgid_def)
qed

section \<open>The activation burst\<close>

definition sent :: "burst_event list \<Rightarrow> bytes list" where
  "sent es = concat (map (\<lambda>e. case e of SendTo f \<Rightarrow> [f] | NanoSleep _ \<Rightarrow> []) es)"

text \<open>The frame of serial fn with the fields of a burst, before a payload is written over it.\<close>

definition burst_coded :: "bytes \<Rightarrow> u8 \<Rightarrow> u8 \<Rightarrow> u8 \<Rightarrow> u8 \<Rightarrow> u8 \<Rightarrow> bytes" where
  "burst_coded callsign fi cm ft dgid fn =
     snd (fich_encode_at 40 (burst_frame callsign fn)
       (\<lparr>m_fich = header_bytes fi cm (drop_bit 1 fn) ft dgid, m_vit = undefined\<rparr>))"

lemma fich_encode_cong: "m_fich g = m_fich h \<Longrightarrow> snd (fich_encode out g) = snd (fich_encode out h)"
  by (simp add: fich_encode_def Let_def)

lemma fich_encode_at_cong: "m_fich g = m_fich h \<Longrightarrow> snd (fich_encode_at off fr g) = snd (fich_encode_at off fr h)"
  using fich_encode_cong [of g h] by (simp add: fich_encode_at_def split: prod.split) (metis snd_conv)

lemma burst_fich_bytes:
  "burst_fich fi cm fn ft dgid g = g\<lparr>m_fich := header_bytes fi cm (drop_bit 1 fn) ft dgid\<rparr>"
proof -
  show ?thesis
    using header_bits(1) [of fi cm] header_bits(2) [of "drop_bit 1 fn" ft]
    by (simp add: burst_fich_def Let_def fich_set_defs header_bytes_def replicate_6)
qed

lemma sent_simps [simp]:
  "sent [] = []" "sent (SendTo f # es) = f # sent es" "sent (NanoSleep n # es) = sent es"
  "sent (es @ fs) = sent es @ sent fs"
  by (simp_all add: sent_def)

lemma burst_loop:
  fixes fn :: u8
  assumes "\<And>i fn g es. \<exists>g' tl. body i (fn, g, es) = (fn + 2, g', es @ tl) \<and> sent tl = [F i fn]"
  shows "\<exists>g'. fold body [0..<n] (fn, g, es) = (fn + of_nat (2 * n), g', snd (snd (fold body [0..<n] (fn, g, es))))
     \<and> sent (snd (snd (fold body [0..<n] (fn, g, es)))) = sent es @ map (\<lambda>i. F i (fn + of_nat (2 * i))) [0..<n]"
proof (induction n)
  case (Suc n)
  define es' where "es' = snd (snd (fold body [0..<n] (fn, g, es)))"
  obtain g' where g': "fold body [0..<n] (fn, g, es) = (fn + of_nat (2 * n), g', es')"
    and s: "sent es' = sent es @ map (\<lambda>i. F i (fn + of_nat (2 * i))) [0..<n]"
    using Suc unfolding es'_def by blast
  obtain g'' tl where b: "body n (fn + of_nat (2 * n), g', es') = (fn + of_nat (2 * n) + 2, g'', es' @ tl)"
    and tl: "sent tl = [F n (fn + of_nat (2 * n))]"
    using assms by blast
  have "fold body [0..<Suc n] (fn, g, es) = (fn + of_nat (2 * n) + 2, g'', es' @ tl)"
    using g' b by simp
  then show ?case using s tl by (simp add: algebra_simps)
qed simp

definition burst_voiced :: "bytes \<Rightarrow> u8 \<Rightarrow> nat \<Rightarrow> u8 \<Rightarrow> bytes" where
  "burst_voiced callsign dgid i fn =
     (let fr = burst_coded callsign 2 1 0 dgid fn in take 55 fr @ generate_voice_payload (drop 55 fr) i)"

lemma burst_bodies:
  "\<exists>g' tl. burst_header cs dgid i (fn, g, es) = (fn + 2, g', es @ tl) \<and> sent tl = [burst_coded cs 0 0 1 dgid fn]"
  "\<exists>g' tl. burst_voice cs dgid i (fn, g, es) = (fn + 2, g', es @ tl) \<and> sent tl = [burst_voiced cs dgid i fn]"
  "\<exists>g' tl. burst_terminator cs dgid i (fn, g, es) = (fn + 2, g', es @ tl) \<and> sent tl = [burst_coded cs 2 1 1 dgid fn]"
proof -
  have c: "snd (fich_encode_at 40 (burst_frame cs fn) (g\<lparr>m_fich := header_bytes fi cm (drop_bit 1 fn) ft dgid\<rparr>))
      = burst_coded cs fi cm ft dgid fn" for fi cm ft
    unfolding burst_coded_def by (rule fich_encode_at_cong) simp
  show "\<exists>g' tl. burst_header cs dgid i (fn, g, es) = (fn + 2, g', es @ tl) \<and> sent tl = [burst_coded cs 0 0 1 dgid fn]"
    using c [of 0 0 1] by (auto simp: burst_header_def burst_fich_bytes split: prod.splits)
  show "\<exists>g' tl. burst_voice cs dgid i (fn, g, es) = (fn + 2, g', es @ tl) \<and> sent tl = [burst_voiced cs dgid i fn]"
    using c [of 2 1 0] by (auto simp: burst_voice_def burst_voiced_def burst_fich_bytes Let_def split: prod.splits)
  show "\<exists>g' tl. burst_terminator cs dgid i (fn, g, es) = (fn + 2, g', es @ tl) \<and> sent tl = [burst_coded cs 2 1 1 dgid fn]"
    using c [of 2 1 1] by (auto simp: burst_terminator_def burst_fich_bytes split: prod.splits)
qed

lemma burst_sent:
  "sent (snd (ysf_send_activation_burst cs dgid g)) =
     map (\<lambda>i. burst_coded cs 0 0 1 dgid (of_nat (2 * i))) [0..<5]
     @ map (\<lambda>i. burst_voiced cs dgid i (of_nat (2 * (5 + i)))) [0..<20]
     @ map (\<lambda>i. burst_coded cs 2 1 1 dgid (of_nat (2 * (25 + i)))) [0..<3]"
proof -
  obtain g1 es1 where 1: "fold (burst_header cs dgid) [0..<5] (0, g, []) = (10, g1, es1)"
    "sent es1 = map (\<lambda>i. burst_coded cs 0 0 1 dgid (of_nat (2 * i))) [0..<5]"
    using burst_loop [where body = "burst_header cs dgid" and F = "\<lambda>_. burst_coded cs 0 0 1 dgid", OF burst_bodies(1), where n = 5 and fn = 0 and g = g and es = "[]"] by auto
  obtain g2 es2 where 2: "fold (burst_voice cs dgid) [0..<20] (10, g1, es1) = (50, g2, es2)"
    "sent es2 = sent es1 @ map (\<lambda>i. burst_voiced cs dgid i (10 + of_nat (2 * i))) [0..<20]"
    using burst_loop [where body = "burst_voice cs dgid" and F = "burst_voiced cs dgid", OF burst_bodies(2), where n = 20 and fn = 10 and g = g1 and es = es1] by auto
  obtain g3 es3 where 3: "fold (burst_terminator cs dgid) [0..<3] (50, g2, es2) = (56, g3, es3)"
    "sent es3 = sent es2 @ map (\<lambda>i. burst_coded cs 2 1 1 dgid (50 + of_nat (2 * i))) [0..<3]"
    using burst_loop [where body = "burst_terminator cs dgid" and F = "\<lambda>_. burst_coded cs 2 1 1 dgid", OF burst_bodies(3), where n = 3 and fn = 50 and g = g2 and es = es2] by auto
  have "snd (ysf_send_activation_burst cs dgid g) = es3"
    using 1(1) 2(1) 3(1) by (simp add: ysf_send_activation_burst_def Let_def)
  then show ?thesis
    using 1(2) 2(2) 3(2) by (simp add: algebra_simps)
qed

section \<open>Properties of the codec\<close>

text \<open>A state of the file's globals for the concrete instances.\<close>

definition fich_start :: fich_state where
  "fich_start = \<lparr>m_fich = [0xA4, 0x1A, 0x02, 0x07, 0, 0],
     m_vit = \<lparr>m_oldMetrics = replicate 16 0, m_newMetrics = replicate 16 0,
              m_decisions = replicate 180 0, m_dp = 0\<rparr>\<rparr>"

lemma fich_start_wf: "fich_wf fich_start"
  by (simp add: fich_start_def fich_wf_def)

lemma air_errors_write:
  assumes "25 \<le> length a" "i < 200" "j < 200"
  shows "air_errors a (WRITE_BIT1 (WRITE_BIT1 a i b) j c) \<le> 2"
proof -
  have "{k. k < 200 \<and> bits_of a ! k \<noteq> bits_of (WRITE_BIT1 (WRITE_BIT1 a i b) j c) ! k} \<subseteq> {i, j}"
    using assms by (auto simp: bits_of_write_bit nth_list_update split: if_splits)
  then have "air_errors a (WRITE_BIT1 (WRITE_BIT1 a i b) j c) \<le> card {i, j}"
    unfolding air_errors_def by (intro card_mono) auto
  also have "\<dots> \<le> 2" by (simp add: card_insert_if)
  finally show ?thesis .
qed

text \<open>
  C4: FICH error correction. A frame's FICH block (25 bytes, 200 bits on the air) that
  \<open>fich_encode\<close> wrote and that arrives with at most two of its bits wrong is decoded by
  \<open>fich_decode\<close> to exactly the six bytes that were encoded, checksum included.
\<close>

theorem fich_corrects_two_errors:
  assumes "25 \<le> length out" "fich_wf g" "fich_wf h" "25 \<le> length received"
    and "air_errors (snd (fich_encode out g)) received \<le> 2"
  shows "map_option m_fich (fich_decode received h) = Some (m_fich (fst (fich_encode out g)))"
  using fich_decode_two_errors [OF assms] by (simp add: fst_fich_encode)

theorem fich_corrects_two_errors_witness:
  "map_option m_fich (fich_decode
       (WRITE_BIT1 (WRITE_BIT1 (snd (fich_encode (replicate 25 0) fich_start)) 3 True) 117 True) fich_start)
     = Some (m_fich (fst (fich_encode (replicate 25 0) fich_start)))"
proof -
  let ?e = "snd (fich_encode (replicate 25 0) fich_start)"
  have "length ?e = 25" by (simp add: fich_encode_bits)
  then show ?thesis
    by (intro fich_corrects_two_errors fich_start_wf air_errors_write) simp_all
qed

text \<open>
  C16: \<open>fich_decode\<close> returns on every input: neither the division loop of the Golay syndrome nor
  any other step fails, and six bytes come out.
\<close>

theorem fich_decode_total: "\<exists>g'. fich_decode inp g = Some g' \<and> length (m_fich g') = 6"
  using fich_decode_returns [of inp g] fich_decode_wf by blast

lemma fich_wf_operations:
  assumes "fich_wf g"
  shows "fich_wf (fst (fich_encode out g))
    \<and> (\<forall>g'. fich_decode inp g = Some g' \<longrightarrow> fich_wf g')
    \<and> (\<forall>r. ysf_fich_rewrite_dgid frame dgid g = Some r \<longrightarrow> fich_wf (fst r))
    \<and> (\<forall>r. ysf_fich_decode_fields frame g = Some r \<longrightarrow> fich_wf (fst r))
    \<and> fich_wf (fst (ysf_fich_encode_outbound out fn fi ft cm g))
    \<and> fich_wf (fst (ysf_send_activation_burst cs dgid g))"
proof (intro conjI)
  show "fich_wf (fst (fich_encode out g))" using assms by simp
  have dec: "fich_decode inp g = Some g' \<Longrightarrow> fich_wf g \<Longrightarrow> fich_wf g'" for inp g g'
    using fich_decode_wf by blast
  then show "\<forall>g'. fich_decode inp g = Some g' \<longrightarrow> fich_wf g'" using assms by blast
  have at: "fich_wf (fst (fich_encode_at off fr g)) = fich_wf g" for off fr g
    by (simp add: fich_encode_at_def fst_fich_encode split: prod.split) (simp add: fich_encode_def Let_def fich_wf_def)
  show "\<forall>r. ysf_fich_rewrite_dgid frame dgid g = Some r \<longrightarrow> fich_wf (fst r)"
  proof (intro allI impI)
    fix r assume r: "ysf_fich_rewrite_dgid frame dgid g = Some r"
    show "fich_wf (fst r)"
    proof (cases "dgid < 1")
      case True
      with r assms show ?thesis by (auto simp: ysf_fich_rewrite_dgid_def)
    next
      case False
      with r obtain z where z: "fich_decode (drop 40 frame) g = Some z"
        and "r = fich_encode_at 40 frame (fich_set_dgid dgid (fich_set_dt 2 (fich_set_voip False z)))"
        by (auto simp: ysf_fich_rewrite_dgid_def)
      with dec [OF z assms] show ?thesis by (simp add: at)
    qed
  qed
  show "\<forall>r. ysf_fich_decode_fields frame g = Some r \<longrightarrow> fich_wf (fst r)"
    using assms dec
    by (auto simp: ysf_fich_decode_fields_def ysf_fich_decode_at_def bind_eq_Some_conv Let_def split: if_splits)
  show "fich_wf (fst (ysf_fich_encode_outbound out fn fi ft cm g))"
    using assms by (simp add: ysf_fich_encode_outbound_def Let_def) (simp add: fich_wf_def)
  have b: "fich_wf (burst_fich fi cm fn ft dgid g) = fich_wf (g\<lparr>m_fich := replicate 6 0\<rparr>)" for fi cm fn ft g
    by (simp add: burst_fich_bytes header_bytes_def fich_wf_def)
  have loop: "fich_wf (fst (snd st)) \<Longrightarrow>
      (\<And>i st. fich_wf (fst (snd st)) \<Longrightarrow> fich_wf (fst (snd (body i st)))) \<Longrightarrow>
      fich_wf (fst (snd (fold body ks st)))" for body ks and st :: burst_state
    by (induction ks arbitrary: st) auto
  have "fich_wf (fst (snd (burst_header cs dgid i st)))" "fich_wf (fst (snd (burst_voice cs dgid i st)))"
    "fich_wf (fst (snd (burst_terminator cs dgid i st)))" if "fich_wf (fst (snd st))" for i st
    using that at [of 40 "burst_frame cs (fst st)"] b
    by (cases st; simp add: burst_header_def burst_voice_def burst_terminator_def Let_def split: prod.split;
        simp add: fich_wf_def; metis fst_conv)+
  then show "fich_wf (fst (ysf_send_activation_burst cs dgid g))"
    unfolding ysf_send_activation_burst_def Let_def using assms by (intro loop) simp_all
qed

text \<open>
  C13: \<open>addCCITT162\<close> appends, over the last two bytes, the complement of the remainder of the
  message before them under the generator \<open>x^16 + x^12 + x^5 + 1\<close>, high byte first, for a
  message of any length.
\<close>

theorem crc_is_polynomial_remainder:
  assumes "length f = n + 2"
  shows "addCCITT162 f (n + 2) =
    (let r = NOT (fold crc_bit (bits_of (take n f)) 0) in take n f @ [crc8_1 r, crc8_0 r])"
  using assms by (rule addCCITT162_bits)

theorem crc_is_polynomial_remainder_witness:
  "addCCITT162 [0x31, 0x32, 0x33, 0, 0] 5 =
    (let r = NOT (fold crc_bit (bits_of [0x31, 0x32, 0x33]) 0) in [0x31, 0x32, 0x33, crc8_1 r, crc8_0 r])"
  using crc_is_polynomial_remainder [of "[0x31, 0x32, 0x33, 0, 0]" 3] by simp

text \<open>
  C12: the Golay decoder recovers the twelve data bits of every code word hit by an error of the
  24 bits that changes at most three of the 23 bits the decoder looks at.
\<close>

theorem golay_corrects_three_errors:
  assumes "unat d < 4096" "unat e < 2 ^ 24" "popcount (unat (drop_bit 1 e)) \<le> 3"
  shows "decode24128 (be24_bytes (encode24128 d XOR e)) = Some d"
  using assms by (intro golay.corrects) (simp_all add: golay_tolerated_def)

theorem golay_corrects_three_errors_witness:
  "decode24128 (be24_bytes (encode24128 0xABC XOR 0x900081)) = Some 0xABC"
  by (rule golay_corrects_three_errors) simp_all

text \<open>
  C11: whatever 200 bits arrive, the data that the Viterbi decoder of \<open>fich_decode\<close> reports are
  the inputs of a trellis path into state 0 whose output differs from the received pairs in the
  fewest positions possible: it is a maximum-likelihood decoder.
\<close>

theorem viterbi_maximum_likelihood:
  assumes "25 \<le> length inp" "100 \<le> length (m_decisions v)"
  shows "\<exists>s0 ds. s0 < 16 \<and> length ds = 100 \<and> path_end s0 ds = 0
     \<and> bits_of (snd (convolution_chainback
          (fold (deinterleave_step inp) [0..<100] (viterbi_start v)) (replicate 13 0) 96))
        = take 96 ds @ replicate 8 False
     \<and> (\<forall>q0 < 16. \<forall>es. length es = 100 \<and> path_end q0 es = 0 \<longrightarrow>
          path_cost s0 ds (fich_pairs (bits_of inp) 100) \<le> path_cost q0 es (fich_pairs (bits_of inp) 100))"
proof -
  let ?rs = "fich_pairs (bits_of inp) 100"
  let ?v = "fold (deinterleave_step inp) [0..<100] (viterbi_start v)"
  have len: "length ?rs = 100" by (simp add: fich_pairs_def)
  have z: "bits_of (replicate 13 0) = replicate 104 False"
    by (simp add: bits_of_def bits_zero_byte numeral_eq_Suc)
  have "viterbi_inv ?rs ?v" using deinterleave_loop [OF assms order.refl] by blast
  from chainback_least_cost [OF this, of 96 "replicate 13 0"] len
  obtain s0 ds where "s0 < 16" "length ds = 100" "path_end s0 ds = 0"
    "bits_of (snd (convolution_chainback ?v (replicate 13 0) 96)) = memcpy (replicate 104 False) 0 (take 96 ds)"
    "\<forall>q0 < 16. \<forall>es. length es = 100 \<and> path_end q0 es = 0 \<longrightarrow> path_cost s0 ds ?rs \<le> path_cost q0 es ?rs"
    unfolding z by auto
  then show ?thesis by (intro exI [of _ s0] exI [of _ ds]) (simp add: memcpy_def)
qed

theorem viterbi_maximum_likelihood_witness:
  "\<exists>s0 ds. s0 < 16 \<and> length ds = 100 \<and> path_end s0 ds = 0
     \<and> bits_of (snd (convolution_chainback
          (fold (deinterleave_step (replicate 25 0x5A)) [0..<100] (viterbi_start (m_vit fich_start)))
          (replicate 13 0) 96)) = take 96 ds @ replicate 8 False"
proof -
  have "100 \<le> length (m_decisions (m_vit fich_start))" by (simp add: fich_start_def)
  then show ?thesis
    using viterbi_maximum_likelihood [of "replicate 25 0x5A" "m_vit fich_start"]
    by (simp only: length_replicate) blast
qed

text \<open>
  C5: the DGID rewrite of a YSF frame always succeeds. With group 0 it does nothing. With any other group
  it replaces the FICH block (bytes 40 to 64) and leaves every other byte alone; the new block decodes to
  the frame information, frame number, frame type and call mode that the old one decodes to and to the
  requested DGID, but its data type is VD mode 2 and its VoIP flag is clear, whatever they were before.
\<close>

theorem rewrite_dgid_sets_group:
  assumes "fich_wf g" "fich_wf h" "65 \<le> length frame"
  shows "\<exists>g1 g' frame'. fich_decode (drop 40 frame) g = Some g1
     \<and> ysf_fich_rewrite_dgid frame dgid g = Some (g', frame')
     \<and> length frame' = length frame \<and> take 40 frame' = take 40 frame \<and> drop 65 frame' = drop 65 frame
     \<and> (if dgid = 0 then frame' = frame \<and> g' = g
         else \<exists>h'. fich_decode (drop 40 frame') h = Some h'
           \<and> fields_of (m_fich h') = (fields_of (m_fich g1))\<lparr>f_dt := YSF_FICH_DT_VD_MODE2\<rparr>
           \<and> ysf_fich_get_dgid h' = dgid \<and> \<not> bit (m_fich h' ! 2) 2)"
proof (cases "dgid = 0")
  case True
  then show ?thesis using fich_decode_returns by (simp add: ysf_fich_rewrite_dgid_def)
next
  case False
  then have d: "1 \<le> dgid" by (simp add: word_le_nat_alt unat_gt_0 Suc_le_eq)
  obtain g1 where g1: "fich_decode (drop 40 frame) g = Some g1" using fich_decode_returns by blast
  show ?thesis using rewrite_dgid_aux [OF assms d g1] False g1 by auto
qed

theorem rewrite_dgid_sets_group_witness:
  "\<exists>g' frame' h'. ysf_fich_rewrite_dgid (replicate 155 0) 7 fich_start = Some (g', frame') \<and> length frame' = 155 \<and>
     fich_decode (drop 40 frame') fich_start = Some h' \<and> ysf_fich_get_dgid h' = 7"
proof -
  have "65 \<le> length (replicate 155 (0 :: u8))" by simp
  from rewrite_dgid_sets_group [OF fich_start_wf fich_start_wf this, of 7] show ?thesis by auto
qed

text \<open>
  C14: an outbound header round trip. In a frame whose FICH block at byte 40 was written by
  \<open>ysf_fich_encode_outbound\<close> after the sync word, \<open>ysf_fich_decode_fields\<close> finds the block by the
  sync word and reads back the frame information, serial, frame type and call mode modulo the
  widths of their fields, with data type VD mode 2 and DGID 0.
\<close>

theorem outbound_header_roundtrip:
  assumes "length pre = 35" "length out = 25" "fich_wf g" "fich_wf h"
  shows "\<exists>h'. ysf_fich_decode_fields
       (pre @ YSF_SYNC_WORD @ snd (ysf_fich_encode_outbound out fn fi ft cm g) @ rest) h
     = Some (h', \<lparr>f_fi = fi AND 3, f_fn = fn AND 7, f_ft = ft AND 7, f_cm = cm AND 3, f_dt = 2\<rparr>)
     \<and> ysf_fich_get_dgid h' = 0"
proof -
  let ?h = "header_bytes fi cm fn ft 0" and ?e = "snd (ysf_fich_encode_outbound out fn fi ft cm g)"
  have len: "length ?h = 6" by (simp add: header_bytes_def)
  have wf: "fich_wf (g\<lparr>m_fich := ?h\<rparr>)" using assms(3) len by (simp add: fich_wf_def)
  have "map_option m_fich (fich_decode (?e @ rest) h) = Some (addCCITT162 ?h 6)"
    using fich_decode_encoded [of out "g\<lparr>m_fich := ?h\<rparr>" h rest] assms wf
    by (simp add: outbound_bytes(2))
  then obtain h' where h': "fich_decode (?e @ rest) h = Some h'" "m_fich h' = addCCITT162 ?h 6" by auto
  have sync: "length YSF_SYNC_WORD = 5" by (simp add: YSF_SYNC_WORD_def)
  have guess: "ysf_fich_guess_rx_offset (pre @ YSF_SYNC_WORD @ ?e @ rest) = 40"
    using assms(1) sync by (simp add: ysf_fich_guess_rx_offset_def sub_buf_def)
  have le3: "x AND 3 \<le> 3" for x :: u8 by (metis word_and_le1)
  have "drop 40 (pre @ YSF_SYNC_WORD @ ?e @ rest) = ?e @ rest" using assms(1) sync by simp
  then show ?thesis
    using h' guess len le3 [of fi]
    by (simp add: ysf_fich_decode_fields_def ysf_fich_decode_at_def fields_of_crc fields_of_header
        ysf_fich_get_dgid_def addCCITT162_nth) (simp add: header_bytes_def)
qed

theorem outbound_header_roundtrip_witness:
  "\<exists>h'. ysf_fich_decode_fields
       (replicate 35 0 @ YSF_SYNC_WORD @ snd (ysf_fich_encode_outbound (replicate 25 0) 5 1 6 2 fich_start)
        @ replicate 90 0) fich_start
     = Some (h', \<lparr>f_fi = 1, f_fn = 5, f_ft = 6, f_cm = 2, f_dt = 2\<rparr>)"
  using outbound_header_roundtrip [OF _ _ fich_start_wf fich_start_wf,
      of "replicate 35 0" "replicate 25 0" 5 1 6 2 "replicate 90 0"] by auto

text \<open>
  C17: the second attempt of \<open>ysf_fich_decode_fields\<close> at the other offset is never made: the frame
  information is masked to two bits before it is compared with 3, so the fields reported are
  always those at the offset guessed from the sync word.
\<close>

theorem decode_fields_never_falls_back:
  "ysf_fich_decode_fields frame g = ysf_fich_decode_at frame (ysf_fich_guess_rx_offset frame) g"
proof -
  have "x AND 3 \<le> 3" for x :: u8 by (metis word_and_le1)
  then have "f_fi (fields_of f) \<le> 3" for f by (simp add: fields_of_def)
  then show ?thesis
    by (auto simp: ysf_fich_decode_fields_def ysf_fich_decode_at_def Let_def map_option_case
        split: option.split)
qed

lemma burst_frame_shape:
  assumes "length cs = 10"
  shows "length (burst_frame cs fn) = 155"
    and "take 34 (burst_frame cs fn) = ascii ''YSFD'' @ cs @ cs @ ascii ''ALL       ''"
proof -
  have a: "length (ascii s) = length s" for s by (simp add: ascii_def)
  have copy: "memcpy (xs @ replicate n 0) k src = (xs @ src) @ replicate (n - length src) 0"
    if "k = length xs" for xs src :: bytes and n k
    using that by (simp add: memcpy_def)
  have start: "memcpy (replicate 155 0) 0 src = src @ replicate (155 - length src) 0" for src :: bytes
    by (simp add: memcpy_def)
  let ?h = "ascii ''YSFD'' @ cs @ cs @ ascii ''ALL       ''"
  have f: "burst_frame cs fn = (?h @ ascii ''          '' @ replicate 111 0)[48 := fn]"
    unfolding burst_frame_def Let_def start using assms
    by (simp add: a copy copy [of _ "x @ y" for x y, simplified] copy [of _ "x @ y @ z" for x y z, simplified]
        copy [of _ "x @ y @ z @ w" for x y z w, simplified] del: ascii_simps)
  show "length (burst_frame cs fn) = 155" "take 34 (burst_frame cs fn) = ?h"
    using assms by (simp_all add: f a del: ascii_simps)
qed

lemma burst_coded_shape:
  assumes "length cs = 10"
  shows "length (burst_coded cs fi cm ft dgid fn) = 155"
    and "take 34 (burst_coded cs fi cm ft dgid fn) = ascii ''YSFD'' @ cs @ cs @ ascii ''ALL       ''"
proof -
  note e = fich_encode_at_frame(1,2) [of 40 "burst_frame cs fn"]
  show "length (burst_coded cs fi cm ft dgid fn) = 155"
    unfolding burst_coded_def using burst_frame_shape [OF assms] e(1) by simp
  show "take 34 (burst_coded cs fi cm ft dgid fn) = ascii ''YSFD'' @ cs @ cs @ ascii ''ALL       ''"
    unfolding burst_coded_def
    using burst_frame_shape [OF assms, of fn] arg_cong [OF e(2), of "take 34"] by simp
qed

lemma burst_coded_fields:
  assumes "length cs = 10" "fich_wf h"
  shows "\<exists>h'. fich_decode (drop 40 (burst_coded cs fi cm ft dgid fn)) h = Some h'
     \<and> fields_of (m_fich h') = \<lparr>f_fi = fi AND 3, f_fn = drop_bit 1 fn AND 7, f_ft = ft AND 7, f_cm = cm AND 3, f_dt = 2\<rparr>
     \<and> ysf_fich_get_dgid h' = dgid"
proof -
  let ?b = "header_bytes fi cm (drop_bit 1 fn) ft dgid"
  define g where "g = h\<lparr>m_fich := ?b\<rparr>"
  have len: "length ?b = 6" by (simp add: header_bytes_def)
  then have wf: "fich_wf g" using assms(2) by (simp add: g_def fich_wf_def)
  have "burst_coded cs fi cm ft dgid fn = snd (fich_encode_at 40 (burst_frame cs fn) g)"
    unfolding burst_coded_def by (rule fich_encode_at_cong) (simp add: g_def)
  then have "drop 40 (burst_coded cs fi cm ft dgid fn) = snd (fich_encode (drop 40 (burst_frame cs fn)) g)"
    using fich_encode_at_frame(4) [of 40 "burst_frame cs fn" g] burst_frame_shape [OF assms(1)] by simp
  then have "map_option m_fich (fich_decode (drop 40 (burst_coded cs fi cm ft dgid fn)) h) = Some (addCCITT162 ?b 6)"
    using fich_decode_encoded [of "drop 40 (burst_frame cs fn)" g h "[]"] wf assms burst_frame_shape [OF assms(1)]
    by (simp add: g_def)
  then obtain h' where "fich_decode (drop 40 (burst_coded cs fi cm ft dgid fn)) h = Some h'"
    "m_fich h' = addCCITT162 ?b 6" by auto
  then show ?thesis
    using len by (simp add: fields_of_crc fields_of_header ysf_fich_get_dgid_def addCCITT162_nth)
      (simp add: header_bytes_def)
qed

text \<open>
  C15: the activation burst sends 28 frames of 155 bytes that carry the call sign twice and the
  destination ALL. The five headers and the three terminators decode to their frame information,
  their number modulo 8 and the requested DGID. In each of the twenty frames between them the
  hundred payload bytes from byte 55 on are the test pattern, also where the FICH block ends.
\<close>

theorem activation_burst_frames:
  assumes "length cs = 10" "fich_wf h"
  shows "length (sent (snd (ysf_send_activation_burst cs dgid g))) = 28
    \<and> (\<forall>f \<in> set (sent (snd (ysf_send_activation_burst cs dgid g))). length f = 155
         \<and> take 34 f = ascii ''YSFD'' @ cs @ cs @ ascii ''ALL       '')
    \<and> (\<forall>k < 28. \<not> (5 \<le> k \<and> k < 25) \<longrightarrow>
         (\<exists>h'. fich_decode (drop 40 (sent (snd (ysf_send_activation_burst cs dgid g)) ! k)) h = Some h'
            \<and> fields_of (m_fich h') = \<lparr>f_fi = if k < 5 then 0 else 2, f_fn = of_nat k AND 7, f_ft = 1,
                f_cm = if k < 5 then 0 else 1, f_dt = 2\<rparr>
            \<and> ysf_fich_get_dgid h' = dgid))
    \<and> (\<forall>k < 20. drop 55 (sent (snd (ysf_send_activation_burst cs dgid g)) ! (5 + k))
         = generate_voice_payload (replicate 100 0) k)"
proof (intro conjI ballI allI impI)
  note shape = burst_coded_shape [OF assms(1)]
  have gen: "length (generate_voice_payload p i) = 100"
    "generate_voice_payload p i = generate_voice_payload (replicate 100 0) i" if "length p = 100" for p i
    using that by (simp_all add: generate_voice_payload_def Let_def)
  have voiced: "length (burst_voiced cs dgid i fn) = 155"
    "take 34 (burst_voiced cs dgid i fn) = ascii ''YSFD'' @ cs @ cs @ ascii ''ALL       ''"
    "drop 55 (burst_voiced cs dgid i fn) = generate_voice_payload (replicate 100 0) i" for i fn
    using shape gen [of "drop 55 (burst_coded cs 2 1 0 dgid fn)" i]
    by (simp_all add: burst_voiced_def Let_def)
  show "length (sent (snd (ysf_send_activation_burst cs dgid g))) = 28" by (simp add: burst_sent)
  show "length f = 155" "take 34 f = ascii ''YSFD'' @ cs @ cs @ ascii ''ALL       ''"
    if "f \<in> set (sent (snd (ysf_send_activation_burst cs dgid g)))" for f
    using that shape voiced by (auto simp: burst_sent)
  show "drop 55 (sent (snd (ysf_send_activation_burst cs dgid g)) ! (5 + k))
         = generate_voice_payload (replicate 100 0) k" if "k < 20" for k
    using that voiced by (simp add: burst_sent nth_append)
  fix k :: nat assume k: "k < 28" "\<not> (5 \<le> k \<and> k < 25)"
  define c where "c = (if k < 5 then 0 else 1 :: u8)"
  define fi where "fi = (if k < 5 then 0 else 2 :: u8)"
  have "sent (snd (ysf_send_activation_burst cs dgid g)) ! k = burst_coded cs fi c 1 dgid (of_nat (2 * k))"
    using k by (auto simp: burst_sent nth_append c_def fi_def)
  moreover have "drop_bit 1 (of_nat (2 * k)) = (of_nat k :: u8)"
    using k(1) by (simp only: word_unat_eq_iff unat_drop_bit_eq unat_of_nat) (simp add: drop_bit_eq_div)
  moreover have "fi AND 3 = fi" "c AND 3 = c" by (simp_all add: fi_def c_def)
  ultimately show "\<exists>h'. fich_decode (drop 40 (sent (snd (ysf_send_activation_burst cs dgid g)) ! k)) h = Some h'
      \<and> fields_of (m_fich h') = \<lparr>f_fi = if k < 5 then 0 else 2, f_fn = of_nat k AND 7, f_ft = 1,
          f_cm = if k < 5 then 0 else 1, f_dt = 2\<rparr>
      \<and> ysf_fich_get_dgid h' = dgid"
    using burst_coded_fields [OF assms, of fi c 1 dgid "of_nat (2 * k)"] by (simp add: fi_def c_def)
qed

theorem activation_burst_frames_witness:
  "length (sent (snd (ysf_send_activation_burst (ascii ''N0CALL    '') 7 fich_start))) = 28"
  using activation_burst_frames [OF _ fich_start_wf, of "ascii ''N0CALL    ''" 7 fich_start]
  by (simp add: ascii_def)

end
