(* ===== verification/Dmr_Tables.thy ===== *)
theory Dmr_Tables
  imports Prelude
begin

text \<open>
  The constant tables of \<open>src/hbp/dmr_hbp.c\<close>: the Reed-Solomon polynomial, the exponential and
  logarithm tables of the field with 256 elements, the Golay (20,8,7) and the quadratic-residue
  (16,7,6) code tables.
\<close>

definition POLY :: "u8 list" where
  "POLY = [
    0x40, 0x38, 0xe, 1, 0, 0, 0, 0, 0, 0,
    0, 0]"

definition EXP_TABLE :: "u8 list" where
  "EXP_TABLE = [
    1, 2, 4, 8, 0x10, 0x20, 0x40, 0x80, 0x1d, 0x3a,
    0x74, 0xe8, 0xcd, 0x87, 0x13, 0x26, 0x4c, 0x98, 0x2d, 0x5a,
    0xb4, 0x75, 0xea, 0xc9, 0x8f, 3, 6, 0xc, 0x18, 0x30,
    0x60, 0xc0, 0x9d, 0x27, 0x4e, 0x9c, 0x25, 0x4a, 0x94, 0x35,
    0x6a, 0xd4, 0xb5, 0x77, 0xee, 0xc1, 0x9f, 0x23, 0x46, 0x8c,
    5, 0xa, 0x14, 0x28, 0x50, 0xa0, 0x5d, 0xba, 0x69, 0xd2,
    0xb9, 0x6f, 0xde, 0xa1, 0x5f, 0xbe, 0x61, 0xc2, 0x99, 0x2f,
    0x5e, 0xbc, 0x65, 0xca, 0x89, 0xf, 0x1e, 0x3c, 0x78, 0xf0,
    0xfd, 0xe7, 0xd3, 0xbb, 0x6b, 0xd6, 0xb1, 0x7f, 0xfe, 0xe1,
    0xdf, 0xa3, 0x5b, 0xb6, 0x71, 0xe2, 0xd9, 0xaf, 0x43, 0x86,
    0x11, 0x22, 0x44, 0x88, 0xd, 0x1a, 0x34, 0x68, 0xd0, 0xbd,
    0x67, 0xce, 0x81, 0x1f, 0x3e, 0x7c, 0xf8, 0xed, 0xc7, 0x93,
    0x3b, 0x76, 0xec, 0xc5, 0x97, 0x33, 0x66, 0xcc, 0x85, 0x17,
    0x2e, 0x5c, 0xb8, 0x6d, 0xda, 0xa9, 0x4f, 0x9e, 0x21, 0x42,
    0x84, 0x15, 0x2a, 0x54, 0xa8, 0x4d, 0x9a, 0x29, 0x52, 0xa4,
    0x55, 0xaa, 0x49, 0x92, 0x39, 0x72, 0xe4, 0xd5, 0xb7, 0x73,
    0xe6, 0xd1, 0xbf, 0x63, 0xc6, 0x91, 0x3f, 0x7e, 0xfc, 0xe5,
    0xd7, 0xb3, 0x7b, 0xf6, 0xf1, 0xff, 0xe3, 0xdb, 0xab, 0x4b,
    0x96, 0x31, 0x62, 0xc4, 0x95, 0x37, 0x6e, 0xdc, 0xa5, 0x57,
    0xae, 0x41, 0x82, 0x19, 0x32, 0x64, 0xc8, 0x8d, 7, 0xe,
    0x1c, 0x38, 0x70, 0xe0, 0xdd, 0xa7, 0x53, 0xa6, 0x51, 0xa2,
    0x59, 0xb2, 0x79, 0xf2, 0xf9, 0xef, 0xc3, 0x9b, 0x2b, 0x56,
    0xac, 0x45, 0x8a, 9, 0x12, 0x24, 0x48, 0x90, 0x3d, 0x7a,
    0xf4, 0xf5, 0xf7, 0xf3, 0xfb, 0xeb, 0xcb, 0x8b, 0xb, 0x16,
    0x2c, 0x58, 0xb0, 0x7d, 0xfa, 0xe9, 0xcf, 0x83, 0x1b, 0x36,
    0x6c, 0xd8, 0xad, 0x47, 0x8e, 1, 2, 4, 8, 0x10,
    0x20, 0x40, 0x80, 0x1d, 0x3a, 0x74, 0xe8, 0xcd, 0x87, 0x13,
    0x26, 0x4c, 0x98, 0x2d, 0x5a, 0xb4, 0x75, 0xea, 0xc9, 0x8f,
    3, 6, 0xc, 0x18, 0x30, 0x60, 0xc0, 0x9d, 0x27, 0x4e,
    0x9c, 0x25, 0x4a, 0x94, 0x35, 0x6a, 0xd4, 0xb5, 0x77, 0xee,
    0xc1, 0x9f, 0x23, 0x46, 0x8c, 5, 0xa, 0x14, 0x28, 0x50,
    0xa0, 0x5d, 0xba, 0x69, 0xd2, 0xb9, 0x6f, 0xde, 0xa1, 0x5f,
    0xbe, 0x61, 0xc2, 0x99, 0x2f, 0x5e, 0xbc, 0x65, 0xca, 0x89,
    0xf, 0x1e, 0x3c, 0x78, 0xf0, 0xfd, 0xe7, 0xd3, 0xbb, 0x6b,
    0xd6, 0xb1, 0x7f, 0xfe, 0xe1, 0xdf, 0xa3, 0x5b, 0xb6, 0x71,
    0xe2, 0xd9, 0xaf, 0x43, 0x86, 0x11, 0x22, 0x44, 0x88, 0xd,
    0x1a, 0x34, 0x68, 0xd0, 0xbd, 0x67, 0xce, 0x81, 0x1f, 0x3e,
    0x7c, 0xf8, 0xed, 0xc7, 0x93, 0x3b, 0x76, 0xec, 0xc5, 0x97,
    0x33, 0x66, 0xcc, 0x85, 0x17, 0x2e, 0x5c, 0xb8, 0x6d, 0xda,
    0xa9, 0x4f, 0x9e, 0x21, 0x42, 0x84, 0x15, 0x2a, 0x54, 0xa8,
    0x4d, 0x9a, 0x29, 0x52, 0xa4, 0x55, 0xaa, 0x49, 0x92, 0x39,
    0x72, 0xe4, 0xd5, 0xb7, 0x73, 0xe6, 0xd1, 0xbf, 0x63, 0xc6,
    0x91, 0x3f, 0x7e, 0xfc, 0xe5, 0xd7, 0xb3, 0x7b, 0xf6, 0xf1,
    0xff, 0xe3, 0xdb, 0xab, 0x4b, 0x96, 0x31, 0x62, 0xc4, 0x95,
    0x37, 0x6e, 0xdc, 0xa5, 0x57, 0xae, 0x41, 0x82, 0x19, 0x32,
    0x64, 0xc8, 0x8d, 7, 0xe, 0x1c, 0x38, 0x70, 0xe0, 0xdd,
    0xa7, 0x53, 0xa6, 0x51]"

definition LOG_TABLE :: "u8 list" where
  "LOG_TABLE = [
    0, 0, 1, 0x19, 2, 0x32, 0x1a, 0xc6, 3, 0xdf,
    0x33, 0xee, 0x1b, 0x68, 0xc7, 0x4b, 4, 0x64, 0xe0, 0xe,
    0x34, 0x8d, 0xef, 0x81, 0x1c, 0xc1, 0x69, 0xf8, 0xc8, 8,
    0x4c, 0x71, 5, 0x8a, 0x65, 0x2f, 0xe1, 0x24, 0xf, 0x21,
    0x35, 0x93, 0x8e, 0xda, 0xf0, 0x12, 0x82, 0x45, 0x1d, 0xb5,
    0xc2, 0x7d, 0x6a, 0x27, 0xf9, 0xb9, 0xc9, 0x9a, 9, 0x78,
    0x4d, 0xe4, 0x72, 0xa6, 6, 0xbf, 0x8b, 0x62, 0x66, 0xdd,
    0x30, 0xfd, 0xe2, 0x98, 0x25, 0xb3, 0x10, 0x91, 0x22, 0x88,
    0x36, 0xd0, 0x94, 0xce, 0x8f, 0x96, 0xdb, 0xbd, 0xf1, 0xd2,
    0x13, 0x5c, 0x83, 0x38, 0x46, 0x40, 0x1e, 0x42, 0xb6, 0xa3,
    0xc3, 0x48, 0x7e, 0x6e, 0x6b, 0x3a, 0x28, 0x54, 0xfa, 0x85,
    0xba, 0x3d, 0xca, 0x5e, 0x9b, 0x9f, 0xa, 0x15, 0x79, 0x2b,
    0x4e, 0xd4, 0xe5, 0xac, 0x73, 0xf3, 0xa7, 0x57, 7, 0x70,
    0xc0, 0xf7, 0x8c, 0x80, 0x63, 0xd, 0x67, 0x4a, 0xde, 0xed,
    0x31, 0xc5, 0xfe, 0x18, 0xe3, 0xa5, 0x99, 0x77, 0x26, 0xb8,
    0xb4, 0x7c, 0x11, 0x44, 0x92, 0xd9, 0x23, 0x20, 0x89, 0x2e,
    0x37, 0x3f, 0xd1, 0x5b, 0x95, 0xbc, 0xcf, 0xcd, 0x90, 0x87,
    0x97, 0xb2, 0xdc, 0xfc, 0xbe, 0x61, 0xf2, 0x56, 0xd3, 0xab,
    0x14, 0x2a, 0x5d, 0x9e, 0x84, 0x3c, 0x39, 0x53, 0x47, 0x6d,
    0x41, 0xa2, 0x1f, 0x2d, 0x43, 0xd8, 0xb7, 0x7b, 0xa4, 0x76,
    0xc4, 0x17, 0x49, 0xec, 0x7f, 0xc, 0x6f, 0xf6, 0x6c, 0xa1,
    0x3b, 0x52, 0x29, 0x9d, 0x55, 0xaa, 0xfb, 0x60, 0x86, 0xb1,
    0xbb, 0xcc, 0x3e, 0x5a, 0xcb, 0x59, 0x5f, 0xb0, 0x9c, 0xa9,
    0xa0, 0x51, 0xb, 0xf5, 0x16, 0xeb, 0x7a, 0x75, 0x2c, 0xd7,
    0x4f, 0xae, 0xd5, 0xe9, 0xe6, 0xe7, 0xad, 0xe8, 0x74, 0xd6,
    0xf4, 0xea, 0xa8, 0x50, 0x58, 0xaf]"

definition ENCODING_TABLE_2087 :: "u32 list" where
  "ENCODING_TABLE_2087 = [
    0, 0xb08e, 0xe093, 0x501d, 0x70a9, 0xc027, 0x903a, 0x20b4, 0x60dc, 0xd052,
    0x804f, 0x30c1, 0x1075, 0xa0fb, 0xf0e6, 0x4068, 0x7036, 0xc0b8, 0x90a5, 0x202b,
    0x9f, 0xb011, 0xe00c, 0x5082, 0x10ea, 0xa064, 0xf079, 0x40f7, 0x6043, 0xd0cd,
    0x80d0, 0x305e, 0xd06c, 0x60e2, 0x30ff, 0x8071, 0xa0c5, 0x104b, 0x4056, 0xf0d8,
    0xb0b0, 0x3e, 0x5023, 0xe0ad, 0xc019, 0x7097, 0x208a, 0x9004, 0xa05a, 0x10d4,
    0x40c9, 0xf047, 0xd0f3, 0x607d, 0x3060, 0x80ee, 0xc086, 0x7008, 0x2015, 0x909b,
    0xb02f, 0xa1, 0x50bc, 0xe032, 0x90d9, 0x2057, 0x704a, 0xc0c4, 0xe070, 0x50fe,
    0xe3, 0xb06d, 0xf005, 0x408b, 0x1096, 0xa018, 0x80ac, 0x3022, 0x603f, 0xd0b1,
    0xe0ef, 0x5061, 0x7c, 0xb0f2, 0x9046, 0x20c8, 0x70d5, 0xc05b, 0x8033, 0x30bd,
    0x60a0, 0xd02e, 0xf09a, 0x4014, 0x1009, 0xa087, 0x40b5, 0xf03b, 0xa026, 0x10a8,
    0x301c, 0x8092, 0xd08f, 0x6001, 0x2069, 0x90e7, 0xc0fa, 0x7074, 0x50c0, 0xe04e,
    0xb053, 0xdd, 0x3083, 0x800d, 0xd010, 0x609e, 0x402a, 0xf0a4, 0xa0b9, 0x1037,
    0x505f, 0xe0d1, 0xb0cc, 0x42, 0x20f6, 0x9078, 0xc065, 0x70eb, 0xa03d, 0x10b3,
    0x40ae, 0xf020, 0xd094, 0x601a, 0x3007, 0x8089, 0xc0e1, 0x706f, 0x2072, 0x90fc,
    0xb048, 0xc6, 0x50db, 0xe055, 0xd00b, 0x6085, 0x3098, 0x8016, 0xa0a2, 0x102c,
    0x4031, 0xf0bf, 0xb0d7, 0x59, 0x5044, 0xe0ca, 0xc07e, 0x70f0, 0x20ed, 0x9063,
    0x7051, 0xc0df, 0x90c2, 0x204c, 0xf8, 0xb076, 0xe06b, 0x50e5, 0x108d, 0xa003,
    0xf01e, 0x4090, 0x6024, 0xd0aa, 0x80b7, 0x3039, 0x67, 0xb0e9, 0xe0f4, 0x507a,
    0x70ce, 0xc040, 0x905d, 0x20d3, 0x60bb, 0xd035, 0x8028, 0x30a6, 0x1012, 0xa09c,
    0xf081, 0x400f, 0x30e4, 0x806a, 0xd077, 0x60f9, 0x404d, 0xf0c3, 0xa0de, 0x1050,
    0x5038, 0xe0b6, 0xb0ab, 0x25, 0x2091, 0x901f, 0xc002, 0x708c, 0x40d2, 0xf05c,
    0xa041, 0x10cf, 0x307b, 0x80f5, 0xd0e8, 0x6066, 0x200e, 0x9080, 0xc09d, 0x7013,
    0x50a7, 0xe029, 0xb034, 0xba, 0xe088, 0x5006, 0x1b, 0xb095, 0x9021, 0x20af,
    0x70b2, 0xc03c, 0x8054, 0x30da, 0x60c7, 0xd049, 0xf0fd, 0x4073, 0x106e, 0xa0e0,
    0x90be, 0x2030, 0x702d, 0xc0a3, 0xe017, 0x5099, 0x84, 0xb00a, 0xf062, 0x40ec,
    0x10f1, 0xa07f, 0x80cb, 0x3045, 0x6058, 0xd0d6]"

definition ENCODING_TABLE_1676 :: "u32 list" where
  "ENCODING_TABLE_1676 = [
    0, 0x273, 0x4e5, 0x696, 0x9c9, 0xbba, 0xd2c, 0xf5f, 0x11e2, 0x1391,
    0x1507, 0x1774, 0x182b, 0x1a58, 0x1cce, 0x1ebd, 0x21b7, 0x23c4, 0x2552, 0x2721,
    0x287e, 0x2a0d, 0x2c9b, 0x2ee8, 0x3055, 0x3226, 0x34b0, 0x36c3, 0x399c, 0x3bef,
    0x3d79, 0x3f0a, 0x411e, 0x436d, 0x45fb, 0x4788, 0x48d7, 0x4aa4, 0x4c32, 0x4e41,
    0x50fc, 0x528f, 0x5419, 0x566a, 0x5935, 0x5b46, 0x5dd0, 0x5fa3, 0x60a9, 0x62da,
    0x644c, 0x663f, 0x6960, 0x6b13, 0x6d85, 0x6ff6, 0x714b, 0x7338, 0x75ae, 0x77dd,
    0x7882, 0x7af1, 0x7c67, 0x7e14, 0x804f, 0x823c, 0x84aa, 0x86d9, 0x8986, 0x8bf5,
    0x8d63, 0x8f10, 0x91ad, 0x93de, 0x9548, 0x973b, 0x9864, 0x9a17, 0x9c81, 0x9ef2,
    0xa1f8, 0xa38b, 0xa51d, 0xa76e, 0xa831, 0xaa42, 0xacd4, 0xaea7, 0xb01a, 0xb269,
    0xb4ff, 0xb68c, 0xb9d3, 0xbba0, 0xbd36, 0xbf45, 0xc151, 0xc322, 0xc5b4, 0xc7c7,
    0xc898, 0xcaeb, 0xcc7d, 0xce0e, 0xd0b3, 0xd2c0, 0xd456, 0xd625, 0xd97a, 0xdb09,
    0xdd9f, 0xdfec, 0xe0e6, 0xe295, 0xe403, 0xe670, 0xe92f, 0xeb5c, 0xedca, 0xefb9,
    0xf104, 0xf377, 0xf5e1, 0xf792, 0xf8cd, 0xfabe, 0xfc28, 0xfe5b]"

end
