(* ===== verification/Dmr_Codec.thy ===== *)
theory Dmr_Codec
  imports Dmr_Tables Linear_Code
begin

text \<open>
  The DMR link-control codec of \<open>src/hbp/dmr_hbp.c\<close>: bits and bytes, the Hamming codes, the block
  product turbo code \<open>bptc_encode\<close>, the Reed-Solomon parity of \<open>generate_header\<close> and the embedded
  signalling (\<open>encode_embedded_data\<close>, \<open>get_embedded_data\<close>, \<open>get_emb_data\<close>). The file's globals
  are one record. \<open>bool\<close> arrays are bit lists and a pointer into one is the list with an offset.
  Reading past the end of the exponential table is undefined in C and None here.
\<close>

record dmr_codec =
  hbp_buf :: bytes
  bptc_rawData :: bits
  bptc_deInterData :: bits
  emb_raw :: bits
  emb_data :: bits
  rx_srcid :: u32
  tx_tgid :: u32

section \<open>Bits and bytes\<close>

definition byteToBitsBE :: "u8 \<Rightarrow> bits \<Rightarrow> nat \<Rightarrow> bits" where
  "byteToBitsBE b bs p = memcpy bs p
     [b AND 0x80 = 0x80, b AND 0x40 = 0x40, b AND 0x20 = 0x20, b AND 0x10 = 0x10,
      b AND 0x08 = 0x08, b AND 0x04 = 0x04, b AND 0x02 = 0x02, b AND 0x01 = 0x01]"

definition bitsToByteBE :: "bits \<Rightarrow> nat \<Rightarrow> u8" where
  "bitsToByteBE bs p =
     (if bs ! (p + 0) then 0x80 else 0) OR (if bs ! (p + 1) then 0x40 else 0)
     OR (if bs ! (p + 2) then 0x20 else 0) OR (if bs ! (p + 3) then 0x10 else 0)
     OR (if bs ! (p + 4) then 0x08 else 0) OR (if bs ! (p + 5) then 0x04 else 0)
     OR (if bs ! (p + 6) then 0x02 else 0) OR (if bs ! (p + 7) then 0x01 else 0)"

section \<open>Hamming codes\<close>

text \<open>The exclusive or of the entries of d at the offsets ks from p.\<close>

definition xor_at :: "bits \<Rightarrow> nat \<Rightarrow> nat list \<Rightarrow> bool" where
  "xor_at d p ks = foldr (\<lambda>k b. d ! (p + k) \<noteq> b) ks False"

definition hamming_encode15113_2 :: "nat \<Rightarrow> bits \<Rightarrow> bits" where
  "hamming_encode15113_2 p d =
     (let d = d[p + 11 := xor_at d p [0, 1, 2, 3, 5, 7, 8]];
          d = d[p + 12 := xor_at d p [1, 2, 3, 4, 6, 8, 9]];
          d = d[p + 13 := xor_at d p [2, 3, 4, 5, 7, 9, 10]]
      in d[p + 14 := xor_at d p [0, 1, 2, 4, 6, 7, 10]])"

definition hamming_encode1393 :: "bits \<Rightarrow> bits" where
  "hamming_encode1393 d =
     (let d = d[9 := xor_at d 0 [0, 1, 3, 5, 6]];
          d = d[10 := xor_at d 0 [0, 1, 2, 4, 6, 7]];
          d = d[11 := xor_at d 0 [0, 1, 2, 3, 5, 7, 8]]
      in d[12 := xor_at d 0 [0, 2, 4, 5, 8]])"

definition encode16114 :: "nat \<Rightarrow> bits \<Rightarrow> bits" where
  "encode16114 p d =
     (let d = d[p + 11 := xor_at d p [0, 1, 2, 3, 5, 7, 8]];
          d = d[p + 12 := xor_at d p [1, 2, 3, 4, 6, 8, 9]];
          d = d[p + 13 := xor_at d p [2, 3, 4, 5, 7, 9, 10]];
          d = d[p + 14 := xor_at d p [0, 1, 2, 4, 6, 7, 10]]
      in d[p + 15 := xor_at d p [0, 2, 5, 6, 8, 9, 10]])"

section \<open>The block product turbo code\<close>

text \<open>A loop \<open>for (a = lo; a < lo + n; a++, pos++) d[a] = src[pos]\<close>.\<close>

definition copy_run :: "bits \<Rightarrow> nat \<times> nat \<Rightarrow> bits \<times> nat \<Rightarrow> bits \<times> nat" where
  "copy_run src = (\<lambda>(lo, n) (d, pos).
     (fold (\<lambda>i d. d[lo + i := src ! (pos + i)]) [0..<n] d, pos + n))"

definition bptc_extract :: "bytes \<Rightarrow> bits" where
  "bptc_extract inp = fold (\<lambda>i. \<lambda>b. byteToBitsBE (inp ! i) b (8 * i)) [0..<12] (replicate 96 False)"

definition bptc_column :: "nat \<Rightarrow> bits \<Rightarrow> bits" where
  "bptc_column c d =
     (let col = map (\<lambda>a. d ! (c + 1 + 15 * a)) [0..<13];
          col = hamming_encode1393 col
      in fold (\<lambda>a d. d[c + 1 + 15 * a := col ! a]) [0..<13] d)"

definition bptc_encode :: "bytes \<Rightarrow> bytes \<Rightarrow> dmr_codec \<Rightarrow> dmr_codec \<times> bytes" where
  "bptc_encode inp out s =
     (let bData = bptc_extract inp;
          d = replicate 196 False;
          (d, pos) = fold (copy_run bData)
            [(4, 8), (16, 11), (31, 11), (46, 11), (61, 11), (76, 11), (91, 11), (106, 11), (121, 11)] (d, 0);
          d = fold (\<lambda>r. hamming_encode15113_2 (r * 15 + 1)) [0..<9] d;
          d = fold bptc_column [0..<15] d;
          raw = fold (\<lambda>a raw. raw[a * 181 mod 196 := d ! a]) [0..<196] (replicate 196 False);
          out = fold (\<lambda>i out. out[i := bitsToByteBE raw (8 * i)]) [0..<12] out;
          byte = bitsToByteBE raw 96;
          out = out[12 := (out ! 12 AND 0x3F) OR (byte AND 0xC0)];
          out = out[20 := (out ! 20 AND 0xFC) OR (drop_bit 4 byte AND 0x03)];
          out = fold (\<lambda>i out. out[21 + i := bitsToByteBE raw (100 + 8 * i)]) [0..<12] out
      in (s\<lparr>bptc_deInterData := d, bptc_rawData := raw\<rparr>, out))"

section \<open>The voice header\<close>

definition rs129_gmult :: "u8 \<Rightarrow> u8 \<Rightarrow> u8 option" where
  "rs129_gmult a b =
     (if a = 0 \<or> b = 0 then Some 0
      else let i = unat (LOG_TABLE ! unat a); j = unat (LOG_TABLE ! unat b)
           in if i + j < length EXP_TABLE then Some (EXP_TABLE ! (i + j)) else None)"

text \<open>One byte of the parity loop: the inner loop runs j = 2, 1.\<close>

definition rs129_step :: "u8 \<Rightarrow> u8 list \<Rightarrow> u8 list option" where
  "rs129_step x parity =
     (let dbyte = x XOR parity ! 2
      in Option.bind (rs129_gmult (POLY ! 2) dbyte) (\<lambda>m2.
         let parity = parity[2 := parity ! 1 XOR m2]
         in Option.bind (rs129_gmult (POLY ! 1) dbyte) (\<lambda>m1.
            let parity = parity[1 := parity ! 0 XOR m1]
            in Option.bind (rs129_gmult (POLY ! 0) dbyte) (\<lambda>m0. Some (parity[0 := m0])))))"

definition rs129_parity :: "bytes \<Rightarrow> u8 list option" where
  "rs129_parity lc = fold (\<lambda>i p. Option.bind p (rs129_step (lc ! i))) [0..<9] (Some [0, 0, 0, 0])"

definition sync_ms_data :: bytes where
  "sync_ms_data = [0x0D, 0x5D, 0x7F, 0x77, 0xFD, 0x75, 0x70]"

definition header_lc :: "bytes \<Rightarrow> bytes" where
  "header_lc b = [0, 0, 0, b ! 8, b ! 9, b ! 10, b ! 5, b ! 6, b ! 7, 0, 0, 0]"

definition header_slottype :: "bytes \<Rightarrow> bytes" where
  "header_slottype payload =
     (let st0 = (push_bit 4 1 AND 0xF0) OR (1 AND 0x0F);
          st1 = ucast (ENCODING_TABLE_2087 ! unat (st0 :: u8) AND 0xFF) :: u8;
          st2 = ucast (drop_bit 8 (ENCODING_TABLE_2087 ! unat st0)) :: u8;
          payload = payload[12 := (payload ! 12 AND 0xC0) OR (drop_bit 2 st0 AND 0x3F)];
          payload = payload[13 := (payload ! 13 AND 0x0F) OR (push_bit 6 st0 AND 0xC0) OR (drop_bit 2 st1 AND 0x30)];
          payload = payload[19 := (payload ! 19 AND 0xF0) OR (drop_bit 2 st1 AND 0x0F)]
      in payload[20 := (payload ! 20 AND 0x03) OR (push_bit 6 st1 AND 0xC0) OR (drop_bit 2 st2 AND 0x3C)])"

definition generate_header :: "dmr_codec \<Rightarrow> dmr_codec option" where
  "generate_header s =
     (let payload = replicate 33 0;
          lc = header_lc (hbp_buf s)
      in Option.bind (rs129_parity lc) (\<lambda>parity.
         let lc = lc[9 := parity ! 2 XOR 0x96];
             lc = lc[10 := parity ! 1 XOR 0x96];
             lc = lc[11 := parity ! 0 XOR 0x96];
             payload = memcpy payload 13 sync_ms_data;
             payload = header_slottype payload;
             (s, payload) = bptc_encode lc payload s
         in Some (s\<lparr>hbp_buf := memcpy (hbp_buf s) 20 payload\<rparr>)))"

section \<open>Embedded signalling\<close>

definition lc_get_data :: "dmr_codec \<Rightarrow> bytes \<Rightarrow> bytes" where
  "lc_get_data s b =
     (let pf = b ! 0 AND 0x80 = 0x80; r = b ! 0 AND 0x40 = 0x40;
          fid = b ! 1; options = b ! 2;
          b = b[0 := 0];
          b = (if pf then b[0 := b ! 0 OR 0x80] else b);
          b = (if r then b[0 := b ! 0 OR 0x40] else b);
          b = b[1 := fid]; b = b[2 := options];
          b = b[3 := ucast (drop_bit 16 (tx_tgid s))]; b = b[4 := ucast (drop_bit 8 (tx_tgid s))];
          b = b[5 := ucast (tx_tgid s)];
          b = b[6 := ucast (drop_bit 16 (rx_srcid s))]; b = b[7 := ucast (drop_bit 8 (rx_srcid s))]
      in b[8 := ucast (rx_srcid s)])"

definition lc_get_data_bits :: "dmr_codec \<Rightarrow> bits \<Rightarrow> bits" where
  "lc_get_data_bits s bs =
     (let b = lc_get_data s (replicate 9 0)
      in fold (\<lambda>i bs. byteToBitsBE (b ! i) bs (8 * i)) [0..<9] bs)"

definition encode_qr1676 :: "bytes \<Rightarrow> bytes" where
  "encode_qr1676 data =
     (let v = unat (drop_bit 1 (data ! 0) AND 0x7F);
          cksum = ENCODING_TABLE_1676 ! v;
          data = data[0 := ucast (drop_bit 8 cksum)]
      in data[1 := ucast (cksum AND 0xFF)])"

definition emb_checksum :: "bits \<Rightarrow> u16" where
  "emb_checksum d = fold (\<lambda>i total. total + ucast (bitsToByteBE d (8 * i))) [0..<9] 0 mod 31"

definition emb_rows :: "bits \<Rightarrow> bits" where
  "emb_rows e =
     (let crc = emb_checksum e;
          data = replicate 128 False;
          data = data[106 := crc AND 0x01 = 0x01]; data = data[90 := crc AND 0x02 = 0x02];
          data = data[74 := crc AND 0x04 = 0x04]; data = data[58 := crc AND 0x08 = 0x08];
          data = data[42 := crc AND 0x10 = 0x10];
          (data, b) = fold (copy_run e)
            [(0, 11), (16, 11), (32, 10), (48, 10), (64, 10), (80, 10), (96, 10)] (data, 0);
          data = fold (\<lambda>k. encode16114 (16 * k)) [0..<7] data
      in fold (\<lambda>a data. data[a + 112 := xor_at data a [0, 16, 32, 48, 64, 80, 96]]) [0..<16] data)"

definition emb_next :: "nat \<Rightarrow> nat" where
  "emb_next b = (if 127 < b + 16 then b + 16 - 127 else b + 16)"

definition encode_embedded_data :: "dmr_codec \<Rightarrow> dmr_codec" where
  "encode_embedded_data s =
     (let s = s\<lparr>emb_data := lc_get_data_bits s (emb_data s)\<rparr>;
          data = emb_rows (emb_data s);
          (raw, b) = fold (\<lambda>a (raw, b). (raw[a := data ! b], emb_next b)) [0..<128] (emb_raw s, 0)
      in s\<lparr>emb_raw := raw\<rparr>)"

definition get_embedded_data :: "bytes \<Rightarrow> nat \<Rightarrow> dmr_codec \<Rightarrow> nat \<times> bytes" where
  "get_embedded_data data n s =
     (if 1 \<le> n \<and> n < 5
      then let n = n - 1;
               bs = memcpy (replicate 40 False) 4 (sub_buf (emb_raw s) (n * 32) 32);
               data = data[14 := (data ! 14 AND 0xF0) OR (bitsToByteBE bs 0 AND 0x0F)];
               data = data[15 := bitsToByteBE bs 8]; data = data[16 := bitsToByteBE bs 16];
               data = data[17 := bitsToByteBE bs 24];
               data = data[18 := (data ! 18 AND 0x0F) OR (bitsToByteBE bs 32 AND 0xF0)]
           in (if n = 0 then 1 else if n = 3 then 2 else 3, data)
      else let data = data[14 := data ! 14 AND 0xF0]; data = data[15 := 0]; data = data[16 := 0];
               data = data[17 := 0]
           in (0, data[18 := data ! 18 AND 0x0F]))"

definition get_emb_data :: "bytes \<Rightarrow> u8 \<Rightarrow> bytes" where
  "get_emb_data data lcss =
     (let emb = [(push_bit 4 1 AND 0xF0) OR (push_bit 1 lcss AND 0x06), 0];
          emb = encode_qr1676 emb;
          data = data[13 := (data ! 13 AND 0xF0) OR (drop_bit 4 (emb ! 0) AND 0x0F)];
          data = data[14 := (data ! 14 AND 0x0F) OR (push_bit 4 (emb ! 0) AND 0xF0)];
          data = data[18 := (data ! 18 AND 0xF0) OR (drop_bit 4 (emb ! 1) AND 0x0F)]
      in data[19 := (data ! 19 AND 0x0F) OR (push_bit 4 (emb ! 1) AND 0xF0)])"

end
