(* ===== verification/Dmr_Codec_Correct.thy ===== *)
theory Dmr_Codec_Correct
  imports Dmr_Codec
begin

text \<open>
  Correctness of the DMR codec: the bit loops as slices, the product code, the interleaver, the
  Reed-Solomon syndromes and the embedded signalling.
\<close>

section \<open>Bits, bytes and copies\<close>

lemma and_pow_eq: "(b :: u8) AND 2 ^ k = 2 ^ k \<longleftrightarrow> bit b k" if "k < 8"
proof
  assume "b AND 2 ^ k = 2 ^ k"
  then have "bit (b AND 2 ^ k) k" using that by (simp add: bit_exp_iff possible_bit_def)
  then show "bit b k" by (simp add: bit_and_iff)
next
  assume "bit b k"
  then show "b AND 2 ^ k = 2 ^ k"
    using that by (intro byte_eqI) (auto simp: bit_and_iff bit_exp_iff)
qed

lemma byteToBitsBE_bits: "byteToBitsBE b bs p = memcpy bs p (byte_bits b)"
  using and_pow_eq [of 7 b] and_pow_eq [of 6 b] and_pow_eq [of 5 b] and_pow_eq [of 4 b]
    and_pow_eq [of 3 b] and_pow_eq [of 2 b] and_pow_eq [of 1 b] and_pow_eq [of 0 b]
  by (simp add: byteToBitsBE_def byte_bits_def upt_rec)

lemma bitsToByteBE_bits: "p + 8 \<le> length bs \<Longrightarrow> bitsToByteBE bs p = bits_to_byte (sub_buf bs p 8)"
proof (rule byte_eqI)
  fix n :: nat assume "p + 8 \<le> length bs" "n < 8"
  then show "bit (bitsToByteBE bs p) n = bit (bits_to_byte (sub_buf bs p 8)) n"
    by (drule_tac less_8_cases)
      (elim disjE; simp add: bitsToByteBE_def bit_or_iff bit_bits_to_byte)
qed

lemma byte_bits_bitsToByteBE: "p + 8 \<le> length bs \<Longrightarrow> byte_bits (bitsToByteBE bs p) = sub_buf bs p 8"
  by (simp add: bitsToByteBE_bits)

lemma sub_buf_append: "sub_buf xs a n @ sub_buf xs (a + n) m = sub_buf xs a (n + m)"
  by (simp add: sub_buf_def take_add) (simp add: add.commute)

lemma sub_buf_all: "length xs = n \<Longrightarrow> sub_buf xs 0 n = xs"
  by (simp add: sub_buf_def)

text \<open>Writing the bits of consecutive bytes, and reading bytes from consecutive bits.\<close>

lemma write_bytes_bits:
  assumes "n \<le> length inp" "8 * n \<le> length bs"
  shows "fold (\<lambda>i b. byteToBitsBE (inp ! i) b (8 * i)) [0..<n] bs = memcpy bs 0 (bits_of (take n inp))"
  using assms
proof (induction n)
  case 0
  then show ?case by (simp add: memcpy_def)
next
  case (Suc n)
  then show ?case
    by (simp add: byteToBitsBE_bits take_Suc_conv_app_nth memcpy_def min_def) (simp add: add.commute)
qed

lemma read_bytes_bits:
  assumes "k + n \<le> length out" "p + 8 * n \<le> length raw"
  shows "length (fold (\<lambda>i out. out[k + i := bitsToByteBE raw (p + 8 * i)]) [0..<n] out) = length out
    \<and> bits_of (fold (\<lambda>i out. out[k + i := bitsToByteBE raw (p + 8 * i)]) [0..<n] out)
        = memcpy (bits_of out) (8 * k) (sub_buf raw p (8 * n))"
  using assms
proof (induction n)
  case 0
  then show ?case by (simp add: memcpy_def sub_buf_def)
next
  case (Suc n)
  let ?f = "fold (\<lambda>i out. out[k + i := bitsToByteBE raw (p + 8 * i)]) [0..<n] out"
  have IH: "length ?f = length out" "bits_of ?f = memcpy (bits_of out) (8 * k) (sub_buf raw p (8 * n))"
    using Suc by simp_all
  have "?f[k + n := x] = memcpy ?f (k + n) [x]" for x
    using IH(1) Suc.prems by (simp add: memcpy_def upd_conv_take_nth_drop)
  moreover have "bits_of (memcpy ?f (k + n) [bitsToByteBE raw (p + 8 * n)])
      = memcpy (bits_of ?f) (8 * (k + n)) (sub_buf raw (p + 8 * n) 8)"
    using IH(1) Suc.prems by (subst bits_of_memcpy) (simp_all add: byte_bits_bitsToByteBE)
  moreover have "memcpy (memcpy D a X) (a + length X) Y = memcpy D a (X @ Y)"
    if "a + length X + length Y \<le> length D" for D X Y :: bits and a
    using that by (simp add: memcpy_def) (simp add: ac_simps)
  from this [of "8 * k" "sub_buf raw p (8 * n)" "sub_buf raw (p + 8 * n) 8" "bits_of out"]
  have "memcpy (bits_of ?f) (8 * (k + n)) (sub_buf raw (p + 8 * n) 8)
      = memcpy (bits_of out) (8 * k) (sub_buf raw p (8 * Suc n))"
    using IH Suc.prems sub_buf_append [of raw p "8 * n" 8] by (simp add: algebra_simps)
  ultimately show ?case using IH(1) Suc.prems(1) by simp
qed

lemma fold_copy:
  assumes "lo + n \<le> length d" "pos + n \<le> length src"
  shows "fold (\<lambda>i d. d[lo + i := src ! (pos + i)]) [0..<n] d = memcpy d lo (sub_buf src pos n)"
  using assms
proof (induction n)
  case 0
  then show ?case by (simp add: memcpy_def sub_buf_def)
next
  case (Suc n)
  have "(memcpy d lo (sub_buf src pos n))[lo + n := x] = memcpy d lo (sub_buf src pos n @ [x])" for x
    using Suc.prems by (simp add: memcpy_def list_update_append Cons_nth_drop_Suc [symmetric])
  moreover have "sub_buf src pos n @ [src ! (pos + n)] = sub_buf src pos (Suc n)"
    using Suc.prems by (simp add: sub_buf_def take_Suc_conv_app_nth)
  ultimately show ?case using Suc by simp
qed

text \<open>A sequence of copies to ascending, separate places.\<close>

fun runs_ok :: "nat \<Rightarrow> nat \<Rightarrow> (nat \<times> nat) list \<Rightarrow> bool" where
  "runs_ok a limit [] = (a \<le> limit)"
| "runs_ok a limit ((lo, n) # rs) = (a \<le> lo \<and> runs_ok (lo + n) limit rs)"

definition runs_total :: "(nat \<times> nat) list \<Rightarrow> nat" where
  "runs_total rs = sum_list (map snd rs)"

definition runs_read :: "(nat \<times> nat) list \<Rightarrow> 'a list \<Rightarrow> 'a list" where
  "runs_read rs d = concat (map (\<lambda>(lo, n). sub_buf d lo n) rs)"

lemma runs_ok_le: "runs_ok a limit rs \<Longrightarrow> a \<le> limit"
proof (induction rs arbitrary: a)
  case (Cons r rs)
  then show ?case by (cases r) (fastforce)
qed simp

lemma runs_copied:
  assumes "runs_ok a (length d) rs" "pos + runs_total rs \<le> length src"
  shows "\<exists>d'. fold (copy_run src) rs (d, pos) = (d', pos + runs_total rs) \<and> length d' = length d
    \<and> runs_read rs d' = sub_buf src pos (runs_total rs)
    \<and> (\<forall>i < length d. (\<forall>(lo, n) \<in> set rs. \<not> (lo \<le> i \<and> i < lo + n)) \<longrightarrow> d' ! i = d ! i)
    \<and> (\<forall>i < a. d' ! i = d ! i)"
  using assms
proof (induction rs arbitrary: a d pos)
  case Nil
  then show ?case by (simp add: runs_total_def runs_read_def sub_buf_def)
next
  case (Cons r rs)
  obtain lo n where r: "r = (lo, n)" by (cases r)
  let ?d = "memcpy d lo (sub_buf src pos n)"
  have b: "a \<le> lo" "lo + n \<le> length d" "pos + n \<le> length src"
    using Cons.prems runs_ok_le [of "lo + n" "length d" rs] by (auto simp: r runs_total_def)
  have l: "length ?d = length d" using b by simp
  have step: "copy_run src r (d, pos) = (?d, pos + n)"
    using b by (simp add: r copy_run_def fold_copy)
  obtain d' where d': "fold (copy_run src) rs (?d, pos + n) = (d', pos + n + runs_total rs)"
    "length d' = length ?d" "runs_read rs d' = sub_buf src (pos + n) (runs_total rs)"
    "\<forall>i < length ?d. (\<forall>(lo, n) \<in> set rs. \<not> (lo \<le> i \<and> i < lo + n)) \<longrightarrow> d' ! i = ?d ! i"
    "\<forall>i < lo + n. d' ! i = ?d ! i"
    using Cons.IH [of "lo + n" ?d "pos + n"] Cons.prems b l by (auto simp: r runs_total_def)
  have "sub_buf d' lo n = sub_buf src pos n"
    using d'(2,5) b by (intro nth_equalityI) (auto simp: nth_memcpy)
  then have "runs_read (r # rs) d' = sub_buf src pos (runs_total (r # rs))"
    using d'(3) sub_buf_append [of src pos n "runs_total rs"]
    by (simp add: r runs_read_def runs_total_def)
  moreover have "d' ! i = d ! i" if "i < length d" "\<forall>(lo, n) \<in> set (r # rs). \<not> (lo \<le> i \<and> i < lo + n)" for i
    using that d'(4) b l by (auto simp: r nth_memcpy)
  moreover have "d' ! i = d ! i" if "i < a" for i
    using that d'(5) b by (auto simp: nth_memcpy)
  ultimately show ?case
    using d'(1,2) l step by (simp add: r runs_total_def add.assoc)
qed

section \<open>Hamming words\<close>

definition ham15 :: "bits \<Rightarrow> nat \<Rightarrow> bool" where
  "ham15 d p \<longleftrightarrow> d ! (p + 11) = xor_at d p [0, 1, 2, 3, 5, 7, 8] \<and> d ! (p + 12) = xor_at d p [1, 2, 3, 4, 6, 8, 9]
     \<and> d ! (p + 13) = xor_at d p [2, 3, 4, 5, 7, 9, 10] \<and> d ! (p + 14) = xor_at d p [0, 1, 2, 4, 6, 7, 10]"

definition ham13 :: "bits \<Rightarrow> bool" where
  "ham13 d \<longleftrightarrow> d ! 9 = xor_at d 0 [0, 1, 3, 5, 6] \<and> d ! 10 = xor_at d 0 [0, 1, 2, 4, 6, 7]
     \<and> d ! 11 = xor_at d 0 [0, 1, 2, 3, 5, 7, 8] \<and> d ! 12 = xor_at d 0 [0, 2, 4, 5, 8]"

definition ham16 :: "bits \<Rightarrow> nat \<Rightarrow> bool" where
  "ham16 d p \<longleftrightarrow> ham15 d p \<and> d ! (p + 15) = xor_at d p [0, 2, 5, 6, 8, 9, 10]"

lemma xor_at_cong: "(\<And>k. k \<in> set ks \<Longrightarrow> d ! (p + k) = d' ! (p + k)) \<Longrightarrow> xor_at d p ks = xor_at d' p ks"
  unfolding xor_at_def by (induction ks) auto

lemma xor_at_update: "list_all (\<lambda>k. p + k \<noteq> i) ks \<Longrightarrow> xor_at (d[i := x]) p ks = xor_at d p ks"
  by (rule xor_at_cong) (auto simp: list_all_iff nth_list_update)

lemma ham15_cong:
  assumes "\<And>k. k < 15 \<Longrightarrow> d ! (p + k) = d' ! (p + k)"
  shows "ham15 d p = ham15 d' p"
proof -
  have "xor_at d p ks = xor_at d' p ks" if "list_all (\<lambda>k. k < 15) ks" for ks
    by (rule xor_at_cong) (use that assms in \<open>auto simp: list_all_iff\<close>)
  then show ?thesis unfolding ham15_def by (simp add: assms)
qed

lemma ham16_cong:
  assumes "\<And>k. k < 16 \<Longrightarrow> d ! (p + k) = d' ! (p + k)"
  shows "ham16 d p = ham16 d' p"
proof -
  have "xor_at d p ks = xor_at d' p ks" if "list_all (\<lambda>k. k < 16) ks" for ks
    by (rule xor_at_cong) (use that assms in \<open>auto simp: list_all_iff\<close>)
  moreover have "ham15 d p = ham15 d' p" by (rule ham15_cong) (simp add: assms)
  ultimately show ?thesis unfolding ham16_def by (simp add: assms)
qed

lemma hamming15_encode:
  assumes "p + 14 < length d"
  shows "ham15 (hamming_encode15113_2 p d) p" "length (hamming_encode15113_2 p d) = length d"
    and "i < p + 11 \<or> p + 15 \<le> i \<Longrightarrow> hamming_encode15113_2 p d ! i = d ! i"
  using assms by (auto simp: hamming_encode15113_2_def ham15_def Let_def xor_at_update nth_list_update)

lemma hamming16_encode:
  assumes "p + 15 < length d"
  shows "ham16 (encode16114 p d) p" "length (encode16114 p d) = length d"
    and "i < p + 11 \<or> p + 16 \<le> i \<Longrightarrow> encode16114 p d ! i = d ! i"
  using assms by (auto simp: encode16114_def ham16_def ham15_def Let_def xor_at_update nth_list_update)

lemma hamming13_encode:
  assumes "length d = 13"
  shows "ham13 (hamming_encode1393 d)" "length (hamming_encode1393 d) = 13"
    and "i < 9 \<Longrightarrow> hamming_encode1393 d ! i = d ! i"
  using assms by (auto simp: hamming_encode1393_def ham13_def Let_def xor_at_update nth_list_update)

section \<open>The product code\<close>

abbreviation (input) bptc_runs :: "(nat \<times> nat) list" where
  "bptc_runs \<equiv> [(4, 8), (16, 11), (31, 11), (46, 11), (61, 11), (76, 11), (91, 11), (106, 11), (121, 11)]"

lemma row_loop:
  assumes "length d = 196" "n \<le> 9"
  shows "length (fold (\<lambda>r. hamming_encode15113_2 (r * 15 + 1)) [0..<n] d) = 196
    \<and> (\<forall>r < n. ham15 (fold (\<lambda>r. hamming_encode15113_2 (r * 15 + 1)) [0..<n] d) (r * 15 + 1))
    \<and> (\<forall>i < 196. (\<forall>r < n. i < r * 15 + 12 \<or> r * 15 + 16 \<le> i) \<longrightarrow>
         fold (\<lambda>r. hamming_encode15113_2 (r * 15 + 1)) [0..<n] d ! i = d ! i)"
  using assms(2)
proof (induction n)
  case (Suc n)
  let ?d = "fold (\<lambda>r. hamming_encode15113_2 (r * 15 + 1)) [0..<n] d"
  let ?e = "hamming_encode15113_2 (n * 15 + 1) ?d"
  have IH: "length ?d = 196" "\<And>r. r < n \<Longrightarrow> ham15 ?d (r * 15 + 1)"
    "\<And>i. i < 196 \<Longrightarrow> \<forall>r < n. i < r * 15 + 12 \<or> r * 15 + 16 \<le> i \<Longrightarrow> ?d ! i = d ! i"
    using Suc by auto
  have b: "n * 15 + 1 + 14 < length ?d" using IH(1) Suc.prems by simp
  note e = hamming15_encode [OF b]
  have "ham15 ?e (r * 15 + 1)" if "r < Suc n" for r
  proof (cases "r = n")
    case False
    then have "?e ! (r * 15 + 1 + k) = ?d ! (r * 15 + 1 + k)" if "k < 15" for k
      using that \<open>r < Suc n\<close> by (intro e(3)) auto
    then show ?thesis using IH(2) [of r] False that ham15_cong [of ?e "r * 15 + 1" ?d] by simp
  qed (use e(1) in simp)
  moreover have "?e ! i = d ! i" if "i < 196" "\<forall>r < Suc n. i < r * 15 + 12 \<or> r * 15 + 16 \<le> i" for i
    using that e(3) [of i] IH(3) [of i] by auto
  ultimately show ?case using e(2) IH(1) by simp
qed (use assms in simp)

definition bptc_col :: "bits \<Rightarrow> nat \<Rightarrow> bits" where
  "bptc_col d c = map (\<lambda>a. d ! (c + 1 + 15 * a)) [0..<13]"

lemma write_column:
  assumes "length d = 196" "c < 15" "n \<le> 13"
  shows "length (fold (\<lambda>a d. d[c + 1 + 15 * a := col ! a]) [0..<n] d) = 196
    \<and> (\<forall>a < n. fold (\<lambda>a d. d[c + 1 + 15 * a := col ! a]) [0..<n] d ! (c + 1 + 15 * a) = col ! a)
    \<and> (\<forall>i. (\<forall>a < n. i \<noteq> c + 1 + 15 * a) \<longrightarrow> fold (\<lambda>a d. d[c + 1 + 15 * a := col ! a]) [0..<n] d ! i = d ! i)"
  using assms(3)
proof (induction n)
  case (Suc n)
  then show ?case using assms(2) by (auto simp: nth_list_update less_Suc_eq)
qed (use assms in simp)

lemma bptc_column_step:
  assumes "length d = 196" "c < 15"
  shows "length (bptc_column c d) = 196" "ham13 (bptc_col (bptc_column c d) c)"
    and "(\<And>a. 9 \<le> a \<Longrightarrow> a < 13 \<Longrightarrow> i \<noteq> c + 1 + 15 * a) \<Longrightarrow> bptc_column c d ! i = d ! i"
proof -
  let ?col = "hamming_encode1393 (bptc_col d c)"
  have len: "length (bptc_col d c) = 13" by (simp add: bptc_col_def)
  have e: "bptc_column c d = fold (\<lambda>a d. d[c + 1 + 15 * a := ?col ! a]) [0..<13] d"
    by (simp add: bptc_column_def Let_def bptc_col_def)
  note w = write_column [OF assms order.refl, of ?col, folded e]
  show "length (bptc_column c d) = 196" using w by blast
  have "bptc_col (bptc_column c d) c = ?col"
    using w hamming13_encode(2) [OF len] by (intro nth_equalityI) (auto simp: bptc_col_def)
  then show "ham13 (bptc_col (bptc_column c d) c)" using hamming13_encode(1) [OF len] by simp
  assume i: "\<And>a. 9 \<le> a \<Longrightarrow> a < 13 \<Longrightarrow> i \<noteq> c + 1 + 15 * a"
  show "bptc_column c d ! i = d ! i"
  proof (cases "\<exists>a < 13. i = c + 1 + 15 * a")
    case True
    then obtain a where a: "a < 13" "i = c + 1 + 15 * a" by blast
    then have "a < 9" using i [of a] by linarith
    then have "?col ! a = bptc_col d c ! a" using hamming13_encode(3) [OF len] by simp
    then show ?thesis using w a by (simp add: bptc_col_def)
  next
    case False
    then show ?thesis using w by blast
  qed
qed

lemma column_loop:
  assumes "length d = 196" "n \<le> 15"
  shows "length (fold bptc_column [0..<n] d) = 196
    \<and> (\<forall>c < n. ham13 (bptc_col (fold bptc_column [0..<n] d) c))
    \<and> (\<forall>i < 136. fold bptc_column [0..<n] d ! i = d ! i)"
  using assms(2)
proof (induction n)
  case (Suc n)
  let ?d = "fold bptc_column [0..<n] d"
  have IH: "length ?d = 196" "\<And>c. c < n \<Longrightarrow> ham13 (bptc_col ?d c)" "\<And>i. i < 136 \<Longrightarrow> ?d ! i = d ! i"
    using Suc by auto
  note st = bptc_column_step [OF IH(1), of n]
  have n: "n < 15" using Suc.prems by simp
  have other: "bptc_col (bptc_column n ?d) c = bptc_col ?d c" if "c < n" for c
  proof -
    have "bptc_column n ?d ! (c + 1 + 15 * a) = ?d ! (c + 1 + 15 * a)" for a
    proof (rule st(3) [OF n])
      fix a' show "c + 1 + 15 * a \<noteq> n + 1 + 15 * a'"
        using mixed_radix_inject [of 15 a c a' n] that n by auto
    qed
    then show ?thesis by (simp add: bptc_col_def)
  qed
  have "ham13 (bptc_col (bptc_column n ?d) c)" if "c < Suc n" for c
    using that st(2) [OF n] IH(2) [of c] other [of c] by (cases "c = n") auto
  moreover have "bptc_column n ?d ! i = d ! i" if "i < 136" for i
    using that st(3) [OF n, of i] IH(3) [of i] by fastforce
  ultimately show ?case using st(1) [OF n] by simp
qed (use assms in simp)

text \<open>The matrix after both passes.\<close>

definition bptc_matrix :: "bits \<Rightarrow> bits" where
  "bptc_matrix bData = fold bptc_column [0..<15] (fold (\<lambda>r. hamming_encode15113_2 (r * 15 + 1)) [0..<9]
     (fst (fold (copy_run bData) bptc_runs (replicate 196 False, 0))))"

lemma bptc_matrix:
  assumes "length bData = 96"
  shows "length (bptc_matrix bData) = 196" "runs_read bptc_runs (bptc_matrix bData) = bData"
    "r < 9 \<Longrightarrow> ham15 (bptc_matrix bData) (r * 15 + 1)" "c < 15 \<Longrightarrow> ham13 (bptc_col (bptc_matrix bData) c)"
    "i \<le> 3 \<Longrightarrow> \<not> bptc_matrix bData ! i"
proof -
  have "runs_ok 4 (length (replicate 196 False)) bptc_runs" "0 + runs_total bptc_runs \<le> length bData"
    by (simp_all add: runs_total_def assms)
  from runs_copied [OF this] obtain d where d: "fold (copy_run bData) bptc_runs (replicate 196 False, 0) = (d, 96)"
    "length d = 196" "runs_read bptc_runs d = sub_buf bData 0 96" "\<forall>i < 4. d ! i = replicate 196 False ! i"
    by (auto simp: runs_total_def)
  let ?r = "fold (\<lambda>r. hamming_encode15113_2 (r * 15 + 1)) [0..<9] d"
  have m: "bptc_matrix bData = fold bptc_column [0..<15] ?r"
    unfolding bptc_matrix_def d(1) fst_conv ..
  note row = row_loop [OF d(2) order.refl]
  have rlen: "length ?r = 196" using row by blast
  note col = column_loop [OF rlen order.refl, folded m]
  show "length (bptc_matrix bData) = 196" using col by blast
  show "c < 15 \<Longrightarrow> ham13 (bptc_col (bptc_matrix bData) c)" using col by blast
  have low: "bptc_matrix bData ! i = ?r ! i" if "i < 136" for i using col that by blast
  show "ham15 (bptc_matrix bData) (r * 15 + 1)" if "r < 9"
    using row that low ham15_cong [of "bptc_matrix bData" "r * 15 + 1" ?r] by simp
  have keep: "bptc_matrix bData ! i = d ! i"
    if "i < 136" "\<forall>r < 9. i < r * 15 + 12 \<or> r * 15 + 16 \<le> i" for i
    using low [OF that(1)] row that by simp
  have "sub_buf (bptc_matrix bData) lo n = sub_buf d lo n" if "(lo, n) \<in> set bptc_runs" for lo n
  proof (rule nth_equalityI)
    have "lo + n \<le> 132" using that by auto
    then have l: "lo + n \<le> length (bptc_matrix bData)" "lo + n \<le> length d" using col d(2) by auto
    then show "length (sub_buf (bptc_matrix bData) lo n) = length (sub_buf d lo n)" by simp
    fix i assume "i < length (sub_buf (bptc_matrix bData) lo n)"
    then have i: "i < n" using l by simp
    have "\<forall>r < 9. lo + i < r * 15 + 12 \<or> r * 15 + 16 \<le> lo + i" using that i by (auto; presburger)
    then show "sub_buf (bptc_matrix bData) lo n ! i = sub_buf d lo n ! i"
      using keep [of "lo + i"] i l \<open>lo + n \<le> 132\<close> by simp
  qed
  then have "runs_read bptc_runs (bptc_matrix bData) = runs_read bptc_runs d"
    by (simp add: runs_read_def)
  then show "runs_read bptc_runs (bptc_matrix bData) = bData"
    using d(3) assms by (simp add: sub_buf_all)
  have "bptc_matrix bData ! i = d ! i" if "i \<le> 3" using that keep [of i] by simp
  then show "i \<le> 3 \<Longrightarrow> \<not> bptc_matrix bData ! i" using d(4) by simp
qed

interpretation bptc_il: interleaver "\<lambda>a. a * 181 mod 196" 196
proof
  show "inj_on (\<lambda>a. a * 181 mod 196) {..<196 :: nat}"
  proof (rule inj_on_inverseI [where g = "\<lambda>x :: nat. x * 13 mod 196"])
    fix a :: nat assume "a \<in> {..<196}"
    have "a * 181 mod 196 * 13 mod 196 = a * 181 * 13 mod 196" by (rule mod_mult_left_eq)
    also have "a * 181 * 13 = a + 196 * (12 * a)" by simp
    also have "(a + 196 * (12 * a)) mod 196 = a" using \<open>a \<in> {..<196}\<close> by (simp only: mod_mult_self2) simp
    finally show "a * 181 mod 196 * 13 mod 196 = a" .
  qed
qed simp

lemma merge_bits:
  "byte_bits ((x AND 0x3F) OR (b AND 0xC0)) = take 2 (byte_bits b) @ drop 2 (byte_bits x)"
  "byte_bits ((x AND 0xFC) OR (drop_bit 4 b AND 0x03)) = take 6 (byte_bits x) @ sub_buf (byte_bits b) 2 2"
  by (simp_all add: byte_bits_def upt_rec sub_buf_def bit_and_iff bit_or_iff bit_drop_bit_eq bit_0
      even_and_iff even_or_iff even_drop_bit_iff_not_bit)

definition bptc_raw :: "bits \<Rightarrow> bits" where
  "bptc_raw bData = scatter (\<lambda>a. a * 181 mod 196) 196 (bptc_matrix bData) (replicate 196 False)"

lemma length_bptc_raw [simp]: "length (bptc_raw bData) = 196"
  by (simp add: bptc_raw_def)

lemma bptc_extract_bits: "length inp = 12 \<Longrightarrow> bptc_extract inp = bits_of inp"
  by (simp add: bptc_extract_def write_bytes_bits)

lemma bptc_encode_bits:
  assumes "length inp = 12" "length out = 33"
  shows "length (snd (bptc_encode inp out s)) = 33"
    and "k < 264 \<Longrightarrow> bits_of (snd (bptc_encode inp out s)) ! k
       = (if k < 98 then bptc_raw (bits_of inp) ! k else if k < 166 then bits_of out ! k
          else bptc_raw (bits_of inp) ! (k - 68))"
    and "hbp_buf (fst (bptc_encode inp out s)) = hbp_buf s"
proof -
  let ?raw = "bptc_raw (bits_of inp)"
  define o1 where "o1 = fold (\<lambda>i out. out[i := bitsToByteBE ?raw (8 * i)]) [0..<12] out"
  define byte where "byte = bitsToByteBE ?raw 96"
  define o2 where "o2 = o1[12 := (o1 ! 12 AND 0x3F) OR (byte AND 0xC0)]"
  define o3 where "o3 = o2[20 := (o2 ! 20 AND 0xFC) OR (drop_bit 4 byte AND 0x03)]"
  define o4 where "o4 = fold (\<lambda>i out. out[21 + i := bitsToByteBE ?raw (100 + 8 * i)]) [0..<12] o3"
  have raw: "fold (\<lambda>a raw. raw[a * 181 mod 196 := bptc_matrix (bits_of inp) ! a]) [0..<196] (replicate 196 False) = ?raw"
    by (simp only: bptc_raw_def scatter_def)
  obtain d pos where dp: "fold (copy_run (bits_of inp)) bptc_runs (replicate 196 False, 0) = (d, pos)" by fastforce
  have e: "bptc_encode inp out s = (s\<lparr>bptc_deInterData := bptc_matrix (bits_of inp), bptc_rawData := ?raw\<rparr>, o4)"
    unfolding bptc_encode_def Let_def bptc_extract_bits [OF assms(1)] dp prod.case
    unfolding bptc_matrix_def [of "bits_of inp", unfolded dp fst_conv, symmetric] raw
    unfolding o4_def o3_def o2_def o1_def byte_def ..
  have bb: "byte_bits byte = sub_buf ?raw 96 8"
    unfolding byte_def by (simp add: byte_bits_bitsToByteBE)
  have 1: "length o1 = 33" "bits_of o1 = memcpy (bits_of out) 0 (sub_buf ?raw 0 96)"
    using read_bytes_bits [of 0 12 out 0 ?raw] assms(2) by (simp_all add: o1_def)
  have 2: "length o2 = 33" "bits_of o2 = memcpy (bits_of o1) 96 (take 2 (sub_buf ?raw 96 8) @ drop 2 (byte_bits (o1 ! 12)))"
    using 1(1) bits_of_update [of 12 o1] by (simp_all add: o2_def merge_bits(1) bb)
  have 3: "length o3 = 33" "bits_of o3 = memcpy (bits_of o2) 160 (take 6 (byte_bits (o2 ! 20)) @ sub_buf (sub_buf ?raw 96 8) 2 2)"
    using 2(1) bits_of_update [of 20 o2] by (simp_all add: o3_def merge_bits(2) bb)
  have 4: "length o4 = 33" "bits_of o4 = memcpy (bits_of o3) 168 (sub_buf ?raw 100 96)"
    using read_bytes_bits [of 21 12 o3 100 ?raw] 3(1) by (simp_all add: o4_def)
  have byte_nth: "byte_bits (ys ! j) ! m = bits_of ys ! (8 * j + m)" if "m < 8" "j < length ys" for ys :: bytes and j m
    using that by (simp add: nth_byte_bits nth_bits_of)
  show "length (snd (bptc_encode inp out s)) = 33" using 4(1) by (simp add: e)
  show "hbp_buf (fst (bptc_encode inp out s)) = hbp_buf s" by (simp add: e)
  have lb: "length (bits_of o1) = 264" "length (bits_of o2) = 264" "length (bits_of o3) = 264" "length (bits_of out) = 264"
    using 1 2 3 assms by simp_all
  have b1: "bits_of o1 ! k = (if k < 96 then ?raw ! k else bits_of out ! k)" if "k < 264" for k
    unfolding 1(2) using that lb by (subst nth_memcpy) (auto simp: sub_buf_def)
  have b2: "bits_of o2 ! k = (if k < 98 then ?raw ! k else bits_of out ! k)" if "k < 264" for k
  proof -
    have "bits_of o2 ! k = (if 96 \<le> k \<and> k < 104
        then (take 2 (sub_buf ?raw 96 8) @ drop 2 (byte_bits (o1 ! 12))) ! (k - 96) else bits_of o1 ! k)"
      unfolding 2(2) using that lb by (subst nth_memcpy) (auto simp: sub_buf_def)
    also have "\<dots> = (if 96 \<le> k \<and> k < 104 then (if k < 98 then ?raw ! k else bits_of o1 ! k) else bits_of o1 ! k)"
    proof -
      have "98 \<le> k \<Longrightarrow> Suc (Suc (k - 98)) = k - 96" by arith
      then show ?thesis
        using byte_nth [of "k - 96" 12 o1] 1(1) by (auto simp: nth_append sub_buf_def)
    qed
    finally show ?thesis using b1 [OF that] by auto
  qed
  have b3: "bits_of o3 ! k = (if k < 98 then ?raw ! k else if 166 \<le> k \<and> k < 168 then ?raw ! (k - 68) else bits_of out ! k)"
    if "k < 264" for k
  proof -
    have "bits_of o3 ! k = (if 160 \<le> k \<and> k < 168
        then (take 6 (byte_bits (o2 ! 20)) @ sub_buf (sub_buf ?raw 96 8) 2 2) ! (k - 160) else bits_of o2 ! k)"
      unfolding 3(2) using that lb by (subst nth_memcpy) (auto simp: sub_buf_def)
    also have "\<dots> = (if 160 \<le> k \<and> k < 168 then (if k < 166 then bits_of o2 ! k else ?raw ! (k - 68)) else bits_of o2 ! k)"
    proof -
      have "166 \<le> k \<Longrightarrow> Suc (Suc (k - 70)) = k - 68" by arith
      then show ?thesis
        using byte_nth [of "k - 160" 20 o2] 2(1) by (auto simp: nth_append sub_buf_def)
    qed
    finally show ?thesis using b2 [OF that] by auto
  qed
  show "bits_of (snd (bptc_encode inp out s)) ! k
       = (if k < 98 then ?raw ! k else if k < 166 then bits_of out ! k else ?raw ! (k - 68))" if "k < 264"
  proof -
    have "bits_of o4 ! k = (if 168 \<le> k then ?raw ! (k - 68) else bits_of o3 ! k)"
      unfolding 4(2) using that lb by (subst nth_memcpy) (auto simp: sub_buf_def)
    then show ?thesis using b3 [OF that] by (simp add: e)
  qed
qed

end
