(* ===== verification/Dmr_Header.thy ===== *)
theory Dmr_Header
  imports Dmr_Codec_Correct
begin

text \<open>
  The voice header of \<open>generate_header\<close>: the product code read back, the field arithmetic behind
  \<open>rs129_gmult\<close>, the syndromes of the Reed-Solomon parity, and the whole header.
\<close>

section \<open>Reading the product code\<close>

definition bptc_received :: "bytes \<Rightarrow> bits" where
  "bptc_received out = gather (\<lambda>a. a * 181 mod 196) 196 (take 98 (bits_of out) @ drop 166 (bits_of out))"

lemma bptc_received_encode:
  assumes "length inp = 12" "length out = 33"
  shows "bptc_received (snd (bptc_encode inp out s)) = bptc_matrix (bits_of inp)"
proof -
  let ?o = "snd (bptc_encode inp out s)" and ?raw = "bptc_raw (bits_of inp)"
  note e = bptc_encode_bits [OF assms, where s = s]
  have "take 98 (bits_of ?o) @ drop 166 (bits_of ?o) = ?raw"
  proof (rule nth_equalityI)
    show "length (take 98 (bits_of ?o) @ drop 166 (bits_of ?o)) = length ?raw" using e(1) by simp
    fix i assume "i < length (take 98 (bits_of ?o) @ drop 166 (bits_of ?o))"
    then have i: "i < 196" using e(1) by simp
    then show "(take 98 (bits_of ?o) @ drop 166 (bits_of ?o)) ! i = ?raw ! i"
      using e(1) e(2) [of i] e(2) [of "i + 68"] by (auto simp: nth_append add.commute)
  qed
  moreover have "length (bptc_matrix (bits_of inp)) = 196" using assms by (simp add: bptc_matrix)
  ultimately show ?thesis
    by (simp add: bptc_received_def bptc_raw_def bptc_il.gather_scatter)
qed

section \<open>The field with 256 elements\<close>

text \<open>Multiplication by the generator, with the polynomial x^8 + x^4 + x^3 + x^2 + 1.\<close>

definition xtime :: "u8 \<Rightarrow> u8" where
  "xtime x = push_bit 1 x XOR (if bit x 7 then 0x1D else 0)"

lemma xtime_xor: "xtime (x XOR y) = xtime x XOR xtime y"
  by (auto simp: xtime_def push_bit_xor bit_xor_iff ac_simps)

lemma xtime_zero [simp]: "xtime 0 = 0"
  by (simp add: xtime_def)

lemma xtimes_xor: "(xtime ^^ n) (x XOR y) = (xtime ^^ n) x XOR (xtime ^^ n) y"
  by (induction n) (auto simp: xtime_xor)

lemma xtimes_zero [simp]: "(xtime ^^ n) 0 = 0"
  by (induction n) auto

primrec xtime_chain :: "u8 \<Rightarrow> u8 list \<Rightarrow> bool" where
  "xtime_chain x [] = True"
| "xtime_chain x (y # ys) = (x = y \<and> xtime_chain (xtime x) ys)"

lemma xtime_chain_nth: "xtime_chain x ys \<Longrightarrow> n < length ys \<Longrightarrow> ys ! n = (xtime ^^ n) x"
  by (induction ys arbitrary: x n) (auto simp: nth_Cons funpow_Suc_right simp del: funpow.simps split: nat.splits)

lemma exp_chain: "xtime_chain 1 EXP_TABLE"
  unfolding EXP_TABLE_def by code_simp

lemma length_exp: "length EXP_TABLE = 464"
  unfolding EXP_TABLE_def by simp

lemma exp_nth: "n < 464 \<Longrightarrow> EXP_TABLE ! n = (xtime ^^ n) 1"
  using xtime_chain_nth [OF exp_chain] by (simp add: length_exp)

lemma log_check: "list_all (\<lambda>a. EXP_TABLE ! unat (LOG_TABLE ! a) = of_nat a \<and> unat (LOG_TABLE ! a) < 255) [1..<256]"
  by code_simp

lemma log_power:
  assumes "a \<noteq> 0"
  shows "(xtime ^^ unat (LOG_TABLE ! unat a)) 1 = a" "unat (LOG_TABLE ! unat a) < 255"
proof -
  have "unat a \<in> set [1..<256]" using assms unsigned_less [of a] by (simp add: unat_gt_0 Suc_le_eq)
  then have "EXP_TABLE ! unat (LOG_TABLE ! unat a) = of_nat (unat a)" "unat (LOG_TABLE ! unat a) < 255"
    using log_check unfolding list_all_iff by blast+
  then show "(xtime ^^ unat (LOG_TABLE ! unat a)) 1 = a" "unat (LOG_TABLE ! unat a) < 255"
    using exp_nth [of "unat (LOG_TABLE ! unat a)"] by simp_all
qed

text \<open>Multiplication by a constant with a small logarithm never leaves the table.\<close>

lemma gmult_power:
  assumes "a \<noteq> 0" "unat (LOG_TABLE ! unat a) \<le> 209"
  shows "rs129_gmult a b = Some ((xtime ^^ unat (LOG_TABLE ! unat a)) b)"
proof (cases "b = 0")
  case True
  then show ?thesis by (simp add: rs129_gmult_def)
next
  case False
  let ?i = "unat (LOG_TABLE ! unat a)" and ?j = "unat (LOG_TABLE ! unat b)"
  have "?i + ?j < 464" using log_power(2) [OF False] assms(2) by simp
  then have "EXP_TABLE ! (?i + ?j) = (xtime ^^ ?i) ((xtime ^^ ?j) 1)"
    by (simp add: exp_nth funpow_add)
  then show ?thesis
    using False assms(1) \<open>?i + ?j < 464\<close> log_power(1) [OF False] by (simp add: rs129_gmult_def length_exp Let_def)
qed

lemma poly_powers:
  "rs129_gmult (POLY ! 0) b = Some ((xtime ^^ 6) b)"
  "rs129_gmult (POLY ! 1) b = Some ((xtime ^^ 201) b)"
  "rs129_gmult (POLY ! 2) b = Some ((xtime ^^ 199) b)"
  using gmult_power [of 64 b] gmult_power [of 56 b] gmult_power [of 14 b]
  by (simp_all add: POLY_def LOG_TABLE_def)

section \<open>Syndromes\<close>

text \<open>The value of a word, as a polynomial with its first byte leading, at the k-th power of the generator.\<close>

definition syndrome :: "nat \<Rightarrow> bytes \<Rightarrow> u8" where
  "syndrome k bs = fold (\<lambda>b acc. (xtime ^^ k) acc XOR b) bs 0"

lemma xtimes_add: "(xtime ^^ m) ((xtime ^^ n) x) = (xtime ^^ (m + n)) x"
  by (simp add: funpow_add)

lemma root_identity:
  assumes "k \<in> {1, 2, 3}"
  shows "(xtime ^^ (2 * k + 199)) d XOR (xtime ^^ (k + 201)) d XOR (xtime ^^ 6) d = (xtime ^^ (3 * k)) d"
proof (cases "d = 0")
  case False
  let ?m = "unat (LOG_TABLE ! unat d)"
  have e: "EXP_TABLE ! (2 * k + 199) XOR EXP_TABLE ! (k + 201) XOR EXP_TABLE ! 6 = EXP_TABLE ! (3 * k)"
    using assms by (auto simp: EXP_TABLE_def)
  have swap: "(xtime ^^ ?m) (EXP_TABLE ! n) = (xtime ^^ n) d" if "n < 464" for n
    using that log_power(1) [OF False] by (metis add.commute exp_nth xtimes_add)
  have "2 * k + 199 < 464" "k + 201 < 464" "3 * k < 464" using assms by auto
  then show ?thesis
    using arg_cong [OF e, of "xtime ^^ ?m"] by (simp add: xtimes_xor swap del: funpow.simps)
qed simp

lemma rs129_step_powers:
  "rs129_step x [p0, p1, p2, p3] =
     (let d = x XOR p2 in Some [(xtime ^^ 6) d, p0 XOR (xtime ^^ 201) d, p1 XOR (xtime ^^ 199) d, p3])"
  unfolding rs129_step_def Let_def poly_powers by simp

lemma mults: "k + 2 * k = 3 * k" "2 * k + k = 3 * k" "k + k + k = 3 * k" "k + k = 2 * (k :: nat)"
  by simp_all

lemma rs129_loop:
  assumes "n \<le> 9" "length lc \<ge> 9"
  shows "\<exists>p0 p1 p2 p3. fold (\<lambda>i p. Option.bind p (rs129_step (lc ! i))) [0..<n] (Some [0, 0, 0, 0]) = Some [p0, p1, p2, p3]
    \<and> (\<forall>k \<in> {1, 2, 3}. (xtime ^^ (2 * k)) p2 XOR (xtime ^^ k) p1 XOR p0 = (xtime ^^ (3 * k)) (syndrome k (take n lc)))"
  using assms(1)
proof (induction n)
  case 0
  then show ?case by (auto simp: syndrome_def)
next
  case (Suc n)
  then have "n \<le> 9" by simp
  from Suc.IH [OF this] obtain p0 p1 p2 p3 where f: "fold (\<lambda>i p. Option.bind p (rs129_step (lc ! i))) [0..<n] (Some [0, 0, 0, 0]) = Some [p0, p1, p2, p3]"
    and inv: "\<forall>k \<in> {1, 2, 3}. (xtime ^^ (2 * k)) p2 XOR (xtime ^^ k) p1 XOR p0 = (xtime ^^ (3 * k)) (syndrome k (take n lc))"
    by blast
  define d where "d = lc ! n XOR p2"
  have "(xtime ^^ (2 * k)) (p1 XOR (xtime ^^ 199) d) XOR (xtime ^^ k) (p0 XOR (xtime ^^ 201) d) XOR (xtime ^^ 6) d
      = (xtime ^^ (3 * k)) (syndrome k (take (Suc n) lc))" if k: "k \<in> {1, 2, 3}" for k
  proof -
    have s: "syndrome k (take (Suc n) lc) = (xtime ^^ k) (syndrome k (take n lc)) XOR lc ! n"
      using Suc.prems assms(2) by (simp add: take_Suc_conv_app_nth syndrome_def)
    have "(xtime ^^ (3 * k)) (syndrome k (take (Suc n) lc))
        = (xtime ^^ k) ((xtime ^^ (3 * k)) (syndrome k (take n lc))) XOR (xtime ^^ (3 * k)) (lc ! n)"
      unfolding s by (simp add: xtimes_xor xtimes_add add.commute del: funpow.simps)
    also have "\<dots> = (xtime ^^ (3 * k)) p2 XOR (xtime ^^ (2 * k)) p1 XOR (xtime ^^ k) p0 XOR (xtime ^^ (3 * k)) (lc ! n)"
      unfolding bspec [OF inv k, symmetric] xtimes_xor xtimes_add mults by (simp only: ac_simps)
    also have "\<dots> = (xtime ^^ (2 * k)) p1 XOR (xtime ^^ k) p0 XOR (xtime ^^ (3 * k)) d"
      by (simp add: d_def xtimes_xor ac_simps del: funpow.simps)
    also have "(xtime ^^ (3 * k)) d = (xtime ^^ (2 * k + 199)) d XOR (xtime ^^ (k + 201)) d XOR (xtime ^^ 6) d"
      using root_identity [OF k, of d] by simp
    finally show ?thesis by (simp only: xtimes_xor xtimes_add ac_simps)
  qed
  then have "\<forall>k \<in> {1, 2, 3}. (xtime ^^ (2 * k)) (p1 XOR (xtime ^^ 199) d) XOR (xtime ^^ k) (p0 XOR (xtime ^^ 201) d)
      XOR (xtime ^^ 6) d = (xtime ^^ (3 * k)) (syndrome k (take (Suc n) lc))"
    by blast
  moreover have "fold (\<lambda>i p. Option.bind p (rs129_step (lc ! i))) [0..<Suc n] (Some [0, 0, 0, 0])
      = Some [(xtime ^^ 6) d, p0 XOR (xtime ^^ 201) d, p1 XOR (xtime ^^ 199) d, p3]"
    using f by (simp add: rs129_step_powers Let_def flip: d_def)
  ultimately show ?case by blast
qed

lemma rs129_codeword:
  assumes "length lc \<ge> 9"
  shows "\<exists>p0 p1 p2 p3. rs129_parity lc = Some [p0, p1, p2, p3]
     \<and> (\<forall>k \<in> {1, 2, 3}. syndrome k (take 9 lc @ [p2, p1, p0]) = 0)"
proof -
  obtain p0 p1 p2 p3 where f: "rs129_parity lc = Some [p0, p1, p2, p3]"
    and inv: "\<forall>k \<in> {1, 2, 3}. (xtime ^^ (2 * k)) p2 XOR (xtime ^^ k) p1 XOR p0 = (xtime ^^ (3 * k)) (syndrome k (take 9 lc))"
    using rs129_loop [OF order.refl assms] unfolding rs129_parity_def by blast
  have "syndrome k (take 9 lc @ [p2, p1, p0])
      = (xtime ^^ (3 * k)) (syndrome k (take 9 lc)) XOR ((xtime ^^ (2 * k)) p2 XOR (xtime ^^ k) p1 XOR p0)" for k
  proof -
    have "syndrome k (take 9 lc @ [p2, p1, p0])
        = (xtime ^^ k) ((xtime ^^ k) ((xtime ^^ k) (syndrome k (take 9 lc)) XOR p2) XOR p1) XOR p0"
      by (simp add: syndrome_def)
    also have "\<dots> = (xtime ^^ (k + k + k)) (syndrome k (take 9 lc)) XOR (xtime ^^ (k + k)) p2 XOR (xtime ^^ k) p1 XOR p0"
      by (simp only: xtimes_xor xtimes_add ac_simps)
    finally show ?thesis unfolding mults by (simp only: ac_simps)
  qed
  then show ?thesis using f inv by (intro exI [of _ p0] exI [of _ p1] exI [of _ p2] exI [of _ p3]) simp
qed
section \<open>The header\<close>

text \<open>
  The 68 bits between the two halves of the payload: ten bits of slot type (colour code 1, data
  type 1 and their Golay parity), the synchronisation pattern, ten bits of slot type.
\<close>

definition slot_bits :: bits where
  "slot_bits = take 20 (bits_of [0x11, 0xB8, 0xC0])"

definition header_middle :: bits where
  "header_middle = take 10 slot_bits @ bits_of [0xD5, 0xD7, 0xF7, 0x7F, 0xD7, 0x57] @ drop 10 slot_bits"

lemma header_payload:
  "length (header_slottype (memcpy (replicate 33 0) 13 sync_ms_data)) = 33"
  "sub_buf (bits_of (header_slottype (memcpy (replicate 33 0) 13 sync_ms_data))) 98 68 = header_middle"
proof -
  have t: "ENCODING_TABLE_2087 ! 17 = 0xC0B8" by (simp add: ENCODING_TABLE_2087_def)
  have r: "replicate 33 (0 :: u8) = [0,0,0,0,0,0,0,0,0,0,0,0,0,0,0,0,0,0,0,0,0,0,0,0,0,0,0,0,0,0,0,0,0]"
    by (simp add: numeral_eq_Suc)
  have e: "header_slottype (memcpy (replicate 33 0) 13 sync_ms_data)
      = [0,0,0,0,0,0,0,0,0,0,0,0, 0x04, 0x6D, 0x5D, 0x7F, 0x77, 0xFD, 0x75, 0x7E, 0x30, 0,0,0,0,0,0,0,0,0,0,0,0]"
    unfolding r by (simp add: header_slottype_def memcpy_def sync_ms_data_def t Let_def)
  show "length (header_slottype (memcpy (replicate 33 0) 13 sync_ms_data)) = 33" by (simp add: e)
  show "sub_buf (bits_of (header_slottype (memcpy (replicate 33 0) 13 sync_ms_data))) 98 68 = header_middle"
    unfolding e by (simp add: header_middle_def slot_bits_def byte_bits_def upt_rec sub_buf_def)
qed

lemma generate_header_facts:
  assumes "53 \<le> length (hbp_buf s)"
  shows "\<exists>p0 p1 p2 p3 s'. generate_header s = Some s'
     \<and> rs129_parity (header_lc (hbp_buf s)) = Some [p0, p1, p2, p3]
     \<and> hbp_buf s' = memcpy (hbp_buf s) 20 (sub_buf (hbp_buf s') 20 33)
     \<and> length (hbp_buf s') = length (hbp_buf s)
     \<and> bptc_received (sub_buf (hbp_buf s') 20 33)
         = bptc_matrix (bits_of (take 9 (header_lc (hbp_buf s)) @ map ((XOR) 0x96) [p2, p1, p0]))
     \<and> sub_buf (bits_of (sub_buf (hbp_buf s') 20 33)) 98 68 = header_middle"
proof -
  let ?lc = "header_lc (hbp_buf s)" and ?pay = "header_slottype (memcpy (replicate 33 0) 13 sync_ms_data)"
  have lc: "length ?lc = 12" by (simp add: header_lc_def)
  obtain p0 p1 p2 p3 where p: "rs129_parity ?lc = Some [p0, p1, p2, p3]"
    using rs129_codeword [of ?lc] lc by auto
  let ?in = "take 9 ?lc @ map ((XOR) 0x96) [p2, p1, p0]"
  have inp: "?lc[9 := p2 XOR 0x96, 10 := p1 XOR 0x96, 11 := p0 XOR 0x96] = ?in"
    by (simp add: header_lc_def xor.commute)
  have len: "length ?in = 12" by (simp add: lc)
  define o' where "o' = snd (bptc_encode ?in ?pay s)"
  define s1 where "s1 = fst (bptc_encode ?in ?pay s)"
  note e = bptc_encode_bits [OF len header_payload(1), where s = s, folded o'_def s1_def]
  have g: "generate_header s = Some (s1\<lparr>hbp_buf := memcpy (hbp_buf s) 20 o'\<rparr>)"
    using inp e(3) unfolding generate_header_def Let_def p
    by (simp add: o'_def s1_def case_prod_beta)
  have mid: "sub_buf (bits_of o') 98 68 = sub_buf (bits_of ?pay) 98 68"
  proof (rule nth_equalityI)
    show "length (sub_buf (bits_of o') 98 68) = length (sub_buf (bits_of ?pay) 98 68)"
      using e(1) header_payload(1) by simp
    fix i assume "i < length (sub_buf (bits_of o') 98 68)"
    then have "i < 68" using e(1) by simp
    then show "sub_buf (bits_of o') 98 68 ! i = sub_buf (bits_of ?pay) 98 68 ! i"
      using e(2) [of "98 + i"] e(1) header_payload(1) by simp
  qed
  show ?thesis
    using p g assms e(1) mid header_payload(2) bptc_received_encode [OF len header_payload(1), of s, folded o'_def]
    by (intro exI [of _ p0] exI [of _ p1] exI [of _ p2] exI [of _ p3] exI [of _ "s1\<lparr>hbp_buf := memcpy (hbp_buf s) 20 o'\<rparr>"]) simp
qed

section \<open>Properties\<close>

text \<open>
  C18: the block product turbo code. Whatever twelve bytes go in, reading the 196 payload bits of
  the result back through the interleaver gives the matrix whose data positions hold exactly these
  bytes, in which all nine data rows and all fifteen columns are Hamming code words; the 68 bits in
  the middle of the payload (slot type and synchronisation) are those of the frame before.
\<close>

theorem bptc_roundtrip:
  assumes "length inp = 12" "length out = 33"
  shows "runs_read bptc_runs (bptc_received (snd (bptc_encode inp out s))) = bits_of inp
    \<and> (\<forall>r < 9. ham15 (bptc_received (snd (bptc_encode inp out s))) (r * 15 + 1))
    \<and> (\<forall>c < 15. ham13 (bptc_col (bptc_received (snd (bptc_encode inp out s))) c))
    \<and> (\<forall>k. 98 \<le> k \<and> k < 166 \<longrightarrow> bits_of (snd (bptc_encode inp out s)) ! k = bits_of out ! k)"
  using bptc_matrix [of "bits_of inp"] bptc_encode_bits(2) [OF assms] assms(1)
  unfolding bptc_received_encode [OF assms] by simp

definition codec_start :: dmr_codec where
  "codec_start = \<lparr>hbp_buf = [0, 0, 0, 0, 0, 0x1F, 0x2E, 0x3D, 0, 0x0F, 0xA0] @ replicate 2037 0,
     bptc_rawData = replicate 196 False, bptc_deInterData = replicate 196 False,
     emb_raw = replicate 128 False, emb_data = replicate 72 False, rx_srcid = 0x1F2E3D, tx_tgid = 4000\<rparr>"

theorem bptc_roundtrip_witness:
  "runs_read bptc_runs (bptc_received (snd (bptc_encode (replicate 12 0xA5) (replicate 33 0) codec_start)))
     = bits_of (replicate 12 0xA5)"
  using bptc_roundtrip [of "replicate 12 0xA5" "replicate 33 0" codec_start] by simp

text \<open>
  C19: the voice header. \<open>generate_header\<close> never reads beyond the exponential table and always
  builds a header: in the 33 bytes it writes at byte 20 of the transmit buffer the product code
  carries the link control with the group and source of bytes 5 to 10 of the buffer and three
  parity bytes, masked with 0x96, that make the twelve bytes a Reed-Solomon word with roots at the
  first three powers of the generator; the middle carries the mobile-station sync pattern and the
  slot type. No other byte of the buffer changes.
\<close>

theorem generate_header_correct:
  assumes "53 \<le> length (hbp_buf s)"
  shows "\<exists>s' parity. generate_header s = Some s' \<and> length parity = 3
     \<and> length (hbp_buf s') = length (hbp_buf s)
     \<and> take 20 (hbp_buf s') = take 20 (hbp_buf s) \<and> drop 53 (hbp_buf s') = drop 53 (hbp_buf s)
     \<and> runs_read bptc_runs (bptc_received (sub_buf (hbp_buf s') 20 33))
         = bits_of ([0, 0, 0] @ sub_buf (hbp_buf s) 8 3 @ sub_buf (hbp_buf s) 5 3 @ map ((XOR) 0x96) parity)
     \<and> (\<forall>k \<in> {1, 2, 3}. syndrome k ([0, 0, 0] @ sub_buf (hbp_buf s) 8 3 @ sub_buf (hbp_buf s) 5 3 @ parity) = 0)
     \<and> sub_buf (bits_of (sub_buf (hbp_buf s') 20 33)) 98 68 = header_middle"
proof -
  let ?b = "hbp_buf s"
  obtain p0 p1 p2 p3 s' where f: "generate_header s = Some s'"
    "rs129_parity (header_lc ?b) = Some [p0, p1, p2, p3]"
    "hbp_buf s' = memcpy ?b 20 (sub_buf (hbp_buf s') 20 33)" "length (hbp_buf s') = length ?b"
    "bptc_received (sub_buf (hbp_buf s') 20 33)
       = bptc_matrix (bits_of (take 9 (header_lc ?b) @ map ((XOR) 0x96) [p2, p1, p0]))"
    "sub_buf (bits_of (sub_buf (hbp_buf s') 20 33)) 98 68 = header_middle"
    using generate_header_facts [OF assms] by blast
  have lc: "take 9 (header_lc ?b) = [0, 0, 0] @ sub_buf ?b 8 3 @ sub_buf ?b 5 3"
    using assms by (simp add: header_lc_def sub_buf_def take_Suc_conv_app_nth numeral_3_eq_3)
  have l: "length (sub_buf (hbp_buf s') 20 33) = 33" using assms f(4) by simp
  have "take 20 (hbp_buf s') = take 20 ?b" "drop 53 (hbp_buf s') = drop 53 ?b"
    using assms l by (subst f(3), simp add: memcpy_def)+
  moreover have "\<forall>k \<in> {1, 2, 3}. syndrome k (take 9 (header_lc ?b) @ [p2, p1, p0]) = 0"
    using rs129_codeword [of "header_lc ?b"] f(2) by (auto simp: header_lc_def)
  moreover have "runs_read bptc_runs (bptc_received (sub_buf (hbp_buf s') 20 33))
      = bits_of (take 9 (header_lc ?b) @ map ((XOR) 0x96) [p2, p1, p0])"
    unfolding f(5) by (rule bptc_matrix(2)) (simp add: header_lc_def)
  ultimately show ?thesis
    using f(1,4,6) unfolding lc append_assoc
    by (intro exI [of _ s'] exI [of _ "[p2, p1, p0]"] conjI) (assumption | simp)+
qed

theorem generate_header_correct_witness:
  "\<exists>s'. generate_header codec_start = Some s' \<and> length (hbp_buf s') = 2048"
  using generate_header_correct [of codec_start] by (auto simp: codec_start_def)

end
