(* ===== verification/Dmr_Embedded.thy ===== *)
theory Dmr_Embedded
  imports Dmr_Codec_Correct
begin

text \<open>
  The embedded signalling of \<open>src/hbp/dmr_hbp.c\<close>: the matrix that \<open>encode_embedded_data\<close> builds,
  its column-wise reading, the fragments in the voice bursts and the EMB word around them.
\<close>

section \<open>The matrix\<close>

abbreviation (input) emb_runs :: "(nat \<times> nat) list" where
  "emb_runs \<equiv> [(0, 11), (16, 11), (32, 10), (48, 10), (64, 10), (80, 10), (96, 10)]"

lemma emb_row_loop:
  assumes "length d = 128" "n \<le> 7"
  shows "length (fold (\<lambda>k. encode16114 (16 * k)) [0..<n] d) = 128
    \<and> (\<forall>r < n. ham16 (fold (\<lambda>k. encode16114 (16 * k)) [0..<n] d) (16 * r))
    \<and> (\<forall>i. (\<forall>r < n. i < 16 * r + 11 \<or> 16 * r + 16 \<le> i) \<longrightarrow>
         fold (\<lambda>k. encode16114 (16 * k)) [0..<n] d ! i = d ! i)"
  using assms(2)
proof (induction n)
  case (Suc n)
  let ?d = "fold (\<lambda>k. encode16114 (16 * k)) [0..<n] d"
  let ?e = "encode16114 (16 * n) ?d"
  have IH: "length ?d = 128" "\<And>r. r < n \<Longrightarrow> ham16 ?d (16 * r)"
    "\<And>i. \<forall>r < n. i < 16 * r + 11 \<or> 16 * r + 16 \<le> i \<Longrightarrow> ?d ! i = d ! i"
    using Suc by auto
  have b: "16 * n + 15 < length ?d" using IH(1) Suc.prems by simp
  note e = hamming16_encode [OF b]
  have "ham16 ?e (16 * r)" if "r < Suc n" for r
  proof (cases "r = n")
    case False
    then have "?e ! (16 * r + k) = ?d ! (16 * r + k)" if "k < 16" for k
      using that \<open>r < Suc n\<close> by (intro e(3)) auto
    then show ?thesis using IH(2) [of r] False that ham16_cong [of ?e "16 * r" ?d] by simp
  qed (use e(1) in simp)
  moreover have "?e ! i = d ! i" if "\<forall>r < Suc n. i < 16 * r + 11 \<or> 16 * r + 16 \<le> i" for i
    using that e(3) [of i] IH(3) [of i] by auto
  ultimately show ?case using e(2) IH(1) by simp
qed (use assms in simp)

lemma emb_parity_loop:
  assumes "length d = 128" "n \<le> 16"
  shows "length (fold (\<lambda>a data. data[a + 112 := xor_at data a [0, 16, 32, 48, 64, 80, 96]]) [0..<n] d) = 128
    \<and> (\<forall>a < n. fold (\<lambda>a data. data[a + 112 := xor_at data a [0, 16, 32, 48, 64, 80, 96]]) [0..<n] d ! (a + 112)
         = xor_at d a [0, 16, 32, 48, 64, 80, 96])
    \<and> (\<forall>i < 112. fold (\<lambda>a data. data[a + 112 := xor_at data a [0, 16, 32, 48, 64, 80, 96]]) [0..<n] d ! i = d ! i)"
  using assms(2)
proof (induction n)
  case (Suc n)
  let ?d = "fold (\<lambda>a data. data[a + 112 := xor_at data a [0, 16, 32, 48, 64, 80, 96]]) [0..<n] d"
  have "xor_at ?d n [0, 16, 32, 48, 64, 80, 96] = xor_at d n [0, 16, 32, 48, 64, 80, 96]"
  proof (rule xor_at_cong)
    fix k :: nat assume "k \<in> set [0, 16, 32, 48, 64, 80, 96]"
    then have "k \<le> 96" by auto
    then show "?d ! (n + k) = d ! (n + k)" using Suc by simp
  qed
  then show ?case using Suc by (auto simp: nth_list_update less_Suc_eq)
qed (use assms in simp)

text \<open>The five checksum bits, the most significant in row 2.\<close>

definition emb_crc_bits :: "u16 \<Rightarrow> bits" where
  "emb_crc_bits crc = map (bit crc) [4, 3, 2, 1, 0]"

lemma and_u16: "(c :: u16) AND 2 ^ k = 2 ^ k \<longleftrightarrow> bit c k" if "k < 16"
proof
  assume "c AND 2 ^ k = 2 ^ k"
  then have "bit (c AND 2 ^ k) k" using that by (simp add: bit_exp_iff possible_bit_def)
  then show "bit c k" by (simp add: bit_and_iff)
next
  assume "bit c k"
  then show "c AND 2 ^ k = 2 ^ k"
    using that by (intro bit_word_eqI) (auto simp: bit_and_iff bit_exp_iff)
qed

lemma emb_rows_facts:
  assumes "length e = 72"
  shows "length (emb_rows e) = 128" "runs_read emb_runs (emb_rows e) = e"
    "k < 7 \<Longrightarrow> ham16 (emb_rows e) (16 * k)"
    "a < 16 \<Longrightarrow> emb_rows e ! (a + 112) = xor_at (emb_rows e) a [0, 16, 32, 48, 64, 80, 96]"
    "map (\<lambda>i. emb_rows e ! (42 + 16 * i)) [0..<5] = emb_crc_bits (emb_checksum e)"
proof -
  let ?c = "emb_checksum e"
  define d0 where "d0 = (replicate 128 False)[106 := ?c AND 0x01 = 0x01, 90 := ?c AND 0x02 = 0x02,
      74 := ?c AND 0x04 = 0x04, 58 := ?c AND 0x08 = 0x08, 42 := ?c AND 0x10 = 0x10]"
  have l0: "length d0 = 128" by (simp add: d0_def)
  have "runs_ok 0 (length d0) emb_runs" "0 + runs_total emb_runs \<le> length e"
    by (simp_all add: runs_total_def assms l0)
  from runs_copied [OF this] obtain d1 where d1: "fold (copy_run e) emb_runs (d0, 0) = (d1, 72)"
    "length d1 = 128" "runs_read emb_runs d1 = sub_buf e 0 72"
    "\<forall>i < 128. (\<forall>(lo, n) \<in> set emb_runs. \<not> (lo \<le> i \<and> i < lo + n)) \<longrightarrow> d1 ! i = d0 ! i"
    by (auto simp: runs_total_def l0)
  define d2 where "d2 = fold (\<lambda>k. encode16114 (16 * k)) [0..<7] d1"
  define d3 where "d3 = fold (\<lambda>a data. data[a + 112 := xor_at data a [0, 16, 32, 48, 64, 80, 96]]) [0..<16] d2"
  have m: "emb_rows e = d3"
    unfolding emb_rows_def Let_def d0_def [symmetric] d1(1) prod.case d2_def d3_def ..
  note row = emb_row_loop [OF d1(2) order.refl, folded d2_def]
  have l2: "length d2 = 128" using row by blast
  note par = emb_parity_loop [OF l2 order.refl, folded d3_def]
  have low: "d3 ! i = d2 ! i" if "i < 112" for i using par that by blast
  show l3: "length (emb_rows e) = 128" using par m by simp
  show "ham16 (emb_rows e) (16 * k)" if "k < 7"
  proof -
    have "ham16 d3 (16 * k) = ham16 d2 (16 * k)" by (rule ham16_cong) (use that low in simp)
    then show ?thesis using row that m by simp
  qed
  show "emb_rows e ! (a + 112) = xor_at (emb_rows e) a [0, 16, 32, 48, 64, 80, 96]" if "a < 16"
  proof -
    have "xor_at d3 a [0, 16, 32, 48, 64, 80, 96] = xor_at d2 a [0, 16, 32, 48, 64, 80, 96]"
    proof (rule xor_at_cong)
      fix k :: nat assume "k \<in> set [0, 16, 32, 48, 64, 80, 96]"
      then have "k \<le> 96" by auto
      then show "d3 ! (a + k) = d2 ! (a + k)" using low that by simp
    qed
    then show ?thesis using par that m by simp
  qed
  have keep: "d3 ! i = d1 ! i" if "i < 112" "\<forall>r < 7. i < 16 * r + 11 \<or> 16 * r + 16 \<le> i" for i
    using low [OF that(1)] row that(2) by simp
  have "sub_buf d3 lo n = sub_buf d1 lo n" if "(lo, n) \<in> set emb_runs" for lo n
  proof (rule nth_equalityI)
    have lim: "lo + n \<le> 107" using that by auto
    then have l: "lo + n \<le> length d3" "lo + n \<le> length d1" using par d1(2) by auto
    then show "length (sub_buf d3 lo n) = length (sub_buf d1 lo n)" by simp
    fix i assume "i < length (sub_buf d3 lo n)"
    then have i: "i < n" using l by simp
    have "\<forall>r < 7. lo + i < 16 * r + 11 \<or> 16 * r + 16 \<le> lo + i" using that i by (auto; presburger)
    then show "sub_buf d3 lo n ! i = sub_buf d1 lo n ! i"
      using keep [of "lo + i"] i l lim by simp
  qed
  then have "runs_read emb_runs d3 = runs_read emb_runs d1"
    by (simp add: runs_read_def)
  then show "runs_read emb_runs (emb_rows e) = e"
    using d1(3) assms m by (simp add: sub_buf_all)
  have crc: "d3 ! i = d0 ! i" if "i \<in> {42, 58, 74, 90, 106}" for i
  proof -
    have "\<forall>r < 7. i < 16 * r + 11 \<or> 16 * r + 16 \<le> i" using that by (auto; presburger)
    moreover have "d1 ! i = d0 ! i" using d1(4) that by auto
    ultimately show ?thesis using keep [of i] that by auto
  qed
  show "map (\<lambda>i. emb_rows e ! (42 + 16 * i)) [0..<5] = emb_crc_bits (emb_checksum e)"
    using crc and_u16 [of 0 ?c] and_u16 [of 1 ?c] and_u16 [of 2 ?c] and_u16 [of 3 ?c] and_u16 [of 4 ?c]
    by (simp add: upt_rec m emb_crc_bits_def d0_def)
qed

section \<open>Reading the matrix by columns\<close>

abbreviation (input) emb_perm :: "nat \<Rightarrow> nat" where
  "emb_perm a \<equiv> 16 * (a mod 8) + a div 8"

interpretation emb_il: interleaver emb_perm 128
proof
  show "inj_on emb_perm {..<128 :: nat}"
  proof (rule inj_on_inverseI [where g = "\<lambda>x :: nat. 8 * (x mod 16) + x div 16"])
    fix a :: nat assume "a \<in> {..<128}"
    then have "a div 8 < 16" by (simp add: less_mult_imp_div_less)
    then show "8 * (emb_perm a mod 16) + emb_perm a div 16 = a" by simp
  qed
  show "emb_perm i < 128" if "i < 128" for i :: nat
    using that less_mult_imp_div_less [of i 16 8] mod_less_divisor [of 8 i] by linarith
qed

lemma emb_next_perm: "a < 127 \<Longrightarrow> emb_next (emb_perm a) = emb_perm (Suc a)"
  by (cases "a mod 8 = 7") (auto simp: emb_next_def mod_Suc div_Suc)

lemma emb_read:
  "n \<le> 128 \<Longrightarrow> length raw = 128 \<Longrightarrow>
   \<exists>b. fold (\<lambda>a (raw, b). (raw[a := m ! b], emb_next b)) [0..<n] (raw, 0)
     = (memcpy raw 0 (map (\<lambda>a. m ! emb_perm a) [0..<n]), b) \<and> (n < 128 \<longrightarrow> b = emb_perm n)"
proof (induction n)
  case (Suc n)
  then obtain b where "fold (\<lambda>a (raw, b). (raw[a := m ! b], emb_next b)) [0..<n] (raw, 0)
      = (memcpy raw 0 (map (\<lambda>a. m ! emb_perm a) [0..<n]), b)" "b = emb_perm n"
    by auto
  moreover have "(memcpy raw 0 xs)[n := y] = memcpy raw 0 (xs @ [y])" if "length xs = n" for xs y
    using that Suc.prems by (simp add: memcpy_def list_update_append Cons_nth_drop_Suc [symmetric])
  ultimately show ?case
    using Suc.prems emb_next_perm [of n] by (simp del: add_Suc_right)
qed (simp add: memcpy_def)

section \<open>The link control\<close>

text \<open>The nine bytes of the voice link control: flags and options zero, the group, the source.\<close>

definition voice_lc :: "dmr_codec \<Rightarrow> bytes" where
  "voice_lc s = [0, 0, 0, ucast (drop_bit 16 (tx_tgid s)), ucast (drop_bit 8 (tx_tgid s)), ucast (tx_tgid s),
     ucast (drop_bit 16 (rx_srcid s)), ucast (drop_bit 8 (rx_srcid s)), ucast (rx_srcid s)]"

lemma lc_get_data_bits:
  "length bs = 72 \<Longrightarrow> lc_get_data_bits s bs = bits_of (voice_lc s)"
proof -
  assume "length bs = 72"
  moreover have "lc_get_data s (replicate 9 0) = voice_lc s"
  proof -
    have "replicate 9 0 = [0, 0, 0, 0, 0, 0, 0, 0, 0 :: u8]" by (simp add: numeral_eq_Suc)
    then show ?thesis by (simp add: lc_get_data_def voice_lc_def Let_def)
  qed
  moreover have "length (voice_lc s) = 9" by (simp add: voice_lc_def)
  ultimately show ?thesis
    by (simp add: lc_get_data_bits_def write_bytes_bits)
qed

lemma encode_embedded_raw:
  assumes "length (emb_data s) = 72" "length (emb_raw s) = 128"
  shows "emb_raw (encode_embedded_data s) = gather emb_perm 128 (emb_rows (bits_of (voice_lc s)))"
proof -
  let ?e = "bits_of (voice_lc s)"
  obtain b where "fold (\<lambda>a (raw, b). (raw[a := emb_rows ?e ! b], emb_next b)) [0..<128] (emb_raw s, 0)
      = (memcpy (emb_raw s) 0 (map (\<lambda>a. emb_rows ?e ! emb_perm a) [0..<128]), b)"
    using emb_read [of 128 "emb_raw s" "emb_rows ?e"] assms(2) by auto
  then show ?thesis
    using assms by (simp add: encode_embedded_data_def Let_def lc_get_data_bits gather_def)
qed

lemma checksum_bytes:
  "length lc = 9 \<Longrightarrow> emb_checksum (bits_of lc) = word_of_nat (sum_list (map unat lc) mod 31)"
proof -
  assume l: "length lc = 9"
  have b: "bitsToByteBE (bits_of lc) (8 * i) = lc ! i" if "i < 9" for i
  proof -
    have "sub_buf (bits_of lc) (8 * i) 8 = byte_bits (lc ! i)"
      using that l by (intro nth_equalityI) (auto simp: nth_bits_of nth_byte_bits)
    then show ?thesis using that l by (simp add: bitsToByteBE_bits)
  qed
  have f: "fold (\<lambda>i total. total + ucast (bitsToByteBE (bits_of lc) (8 * i))) [0..<n] 0
      = (word_of_nat (sum_list (map unat (take n lc))) :: u16)" if "n \<le> 9" for n
    using that
  proof (induction n)
    case (Suc n)
    then show ?case using l b [of n] by (simp add: take_Suc_conv_app_nth)
  qed simp
  have "unat x \<le> 255" for x :: u8
    using unsigned_less [of x, where 'a = nat] by simp
  then have "sum_list (map unat lc) \<le> sum_list (map (\<lambda>_. 255) lc)" by (intro sum_list_mono)
  then have "sum_list (map unat lc) \<le> 9 * 255" using l by (simp add: sum_list_triv)
  then have "unat (word_of_nat (sum_list (map unat lc)) :: u16) = sum_list (map unat lc)"
    by (simp add: unat_of_nat)
  then show ?thesis
    using f [of 9] l by (simp add: emb_checksum_def word_arith_nat_mod)
qed


section \<open>The fragments\<close>

lemma byte_bits_nth: "i < length xs \<Longrightarrow> byte_bits (xs ! i) = sub_buf (bits_of xs) (8 * i) 8"
  by (intro nth_equalityI) (auto simp: nth_bits_of nth_byte_bits)

text \<open>Writing 32 bits from the second half of byte 14 to the first half of byte 18.\<close>

lemma write_fragment:
  assumes "length data = 33" "length frag = 32" "b0 = [False, False, False, False] @ take 4 frag"
    "b4 = drop 28 frag @ [False, False, False, False]"
    "byte_bits x0 = b0" "byte_bits x1 = sub_buf frag 4 8" "byte_bits x2 = sub_buf frag 12 8"
    "byte_bits x3 = sub_buf frag 20 8" "byte_bits x4 = b4"
  shows "bits_of (data[14 := (data ! 14 AND 0xF0) OR (x0 AND 0x0F), 15 := x1, 16 := x2, 17 := x3,
       18 := (data ! 18 AND 0x0F) OR (x4 AND 0xF0)]) = memcpy (bits_of data) 116 frag"
proof -
  let ?d = "bits_of data"
  have t: "take 4 (byte_bits (data ! 14)) = sub_buf ?d 112 4" "drop 4 (byte_bits (data ! 18)) = sub_buf ?d 148 4"
    using assms(1) by (simp_all add: byte_bits_nth sub_buf_def drop_take min_def)
  have l: "length ?d = 264" using assms(1) by simp
  have "sub_buf frag 4 8 @ sub_buf frag 12 8 @ sub_buf frag 20 8 @ drop 28 frag = drop 4 frag"
    using sub_buf_append [of frag 4 8 8] sub_buf_append [of frag 4 16 8] append_take_drop_id [of 24 "drop 4 frag"]
    by (simp add: sub_buf_def) (metis append_assoc)
  then have f: "frag = take 4 frag @ sub_buf frag 4 8 @ sub_buf frag 12 8 @ sub_buf frag 20 8 @ drop 28 frag"
    by simp
  have g: "take 4 frag @ sub_buf frag 4 8 @ sub_buf frag 12 8 @ sub_buf frag 20 8 @ drop 28 frag @ z = frag @ z" for z
    using arg_cong [OF f, of "\<lambda>x. x @ z"] by simp
  have "bits_of (data[14 := (data ! 14 AND 0xF0) OR (x0 AND 0x0F), 15 := x1, 16 := x2, 17 := x3,
       18 := (data ! 18 AND 0x0F) OR (x4 AND 0xF0)])
    = memcpy (memcpy (memcpy (memcpy (memcpy ?d 112 (sub_buf ?d 112 4 @ take 4 frag)) 120 (sub_buf frag 4 8))
        128 (sub_buf frag 12 8)) 136 (sub_buf frag 20 8)) 144 (drop 28 frag @ sub_buf ?d 148 4)"
    using assms by (simp add: bits_of_update merge_nibbles t)
  also have "memcpy ?d 112 (sub_buf ?d 112 4 @ take 4 frag) = memcpy ?d 116 (take 4 frag)"
    using memcpy_keep_front [of 112 4 "take 4 frag" ?d] l assms(2) by simp
  also have "memcpy (memcpy ?d 116 (take 4 frag)) 120 (sub_buf frag 4 8) = memcpy ?d 116 (take 4 frag @ sub_buf frag 4 8)"
    using memcpy_append [of 116 "take 4 frag" "sub_buf frag 4 8" ?d] l assms(2) by simp
  also have "memcpy \<dots> 128 (sub_buf frag 12 8) = memcpy ?d 116 (take 4 frag @ sub_buf frag 4 8 @ sub_buf frag 12 8)"
    using memcpy_append [of 116 "take 4 frag @ sub_buf frag 4 8" "sub_buf frag 12 8" ?d] l assms(2) by simp
  also have "memcpy \<dots> 136 (sub_buf frag 20 8)
      = memcpy ?d 116 (take 4 frag @ sub_buf frag 4 8 @ sub_buf frag 12 8 @ sub_buf frag 20 8)"
    using memcpy_append [of 116 "take 4 frag @ sub_buf frag 4 8 @ sub_buf frag 12 8" "sub_buf frag 20 8" ?d] l assms(2) by simp
  also have "memcpy \<dots> 144 (drop 28 frag @ sub_buf ?d 148 4) = memcpy ?d 116 (frag @ sub_buf ?d 148 4)"
    using memcpy_append [of 116 "take 4 frag @ sub_buf frag 4 8 @ sub_buf frag 12 8 @ sub_buf frag 20 8"
        "drop 28 frag @ sub_buf ?d 148 4" ?d] l assms(2) g by simp
  also have "\<dots> = memcpy ?d 116 frag"
    using memcpy_keep_back [of 116 frag 4 ?d] l assms(2) by simp
  finally show ?thesis .
qed

lemma get_embedded_bits:
  assumes "length data = 33" "length (emb_raw s) = 128" "n \<in> {1, 2, 3, 4}"
  shows "bits_of (snd (get_embedded_data data n s)) = memcpy (bits_of data) 116 (sub_buf (emb_raw s) (32 * (n - 1)) 32)"
proof -
  let ?f = "sub_buf (emb_raw s) (32 * (n - 1)) 32"
  define bs where "bs = memcpy (replicate 40 False) 4 ?f"
  have f: "length ?f = 32" using assms by auto
  let ?z = "[False, False, False, False]"
  have "replicate 4 False = ?z" by (simp add: numeral_eq_Suc)
  then have bs: "bs = ?z @ ?f @ ?z"
    using f by (simp add: bs_def memcpy_def)
  have "bits_of (data[14 := (data ! 14 AND 0xF0) OR (bitsToByteBE bs 0 AND 0x0F), 15 := bitsToByteBE bs 8,
      16 := bitsToByteBE bs 16, 17 := bitsToByteBE bs 24, 18 := (data ! 18 AND 0x0F) OR (bitsToByteBE bs 32 AND 0xF0)])
    = memcpy (bits_of data) 116 ?f"
    by (rule write_fragment [OF assms(1) f refl refl])
      (use f in \<open>simp_all add: bs byte_bits_bitsToByteBE\<close>, simp_all add: sub_buf_def)
  moreover have "snd (get_embedded_data data n s) = data[14 := (data ! 14 AND 0xF0) OR (bitsToByteBE bs 0 AND 0x0F),
      15 := bitsToByteBE bs 8, 16 := bitsToByteBE bs 16, 17 := bitsToByteBE bs 24,
      18 := (data ! 18 AND 0x0F) OR (bitsToByteBE bs 32 AND 0xF0)]"
    using assms(3) by (auto simp: get_embedded_data_def Let_def bs_def)
  ultimately show ?thesis by simp
qed


lemma shift_nibbles:
  "byte_bits ((x AND 0xF0) OR (drop_bit 4 y AND 0x0F)) = take 4 (byte_bits x) @ take 4 (byte_bits y)"
  "byte_bits ((x AND 0x0F) OR (push_bit 4 y AND 0xF0)) = drop 4 (byte_bits y) @ drop 4 (byte_bits x)"
proof -
  have 1: "bit ((x AND 0xF0) OR (drop_bit 4 y AND 0x0F)) i = (if i < 4 then bit y (4 + i) else bit x i)"
    "bit ((x AND 0x0F) OR (push_bit 4 y AND 0xF0)) i = (if i < 4 then bit x i else bit y (i - 4))" if "i < 8" for i
    using less_8_cases [OF that]
    by (elim disjE; simp only: bit_and_iff bit_or_iff bit_push_bit_iff bit_drop_bit_eq; simp)+
  show "byte_bits ((x AND 0xF0) OR (drop_bit 4 y AND 0x0F)) = take 4 (byte_bits x) @ take 4 (byte_bits y)"
    "byte_bits ((x AND 0x0F) OR (push_bit 4 y AND 0xF0)) = drop 4 (byte_bits y) @ drop 4 (byte_bits x)"
    using 1 by (intro nth_equalityI; auto simp: nth_byte_bits nth_append)+
qed

text \<open>A byte written across two bytes of a burst.\<close>

lemma write_across:
  assumes "Suc i < length data"
  shows "bits_of (data[i := (data ! i AND 0xF0) OR (drop_bit 4 y AND 0x0F),
      Suc i := (data ! Suc i AND 0x0F) OR (push_bit 4 y AND 0xF0)]) = memcpy (bits_of data) (8 * i + 4) (byte_bits y)"
proof -
  let ?d = "bits_of data" and ?t = "take 4 (byte_bits y)" and ?u = "drop 4 (byte_bits y)"
  have t: "take 4 (byte_bits (data ! i)) = sub_buf ?d (8 * i) 4"
    "drop 4 (byte_bits (data ! Suc i)) = sub_buf ?d (8 * i + 12) 4"
    using assms by (simp_all add: byte_bits_nth sub_buf_def drop_take min_def) (simp add: ac_simps)
  have l: "8 * i + 16 \<le> length ?d" using assms by simp
  have "bits_of (data[i := (data ! i AND 0xF0) OR (drop_bit 4 y AND 0x0F),
      Suc i := (data ! Suc i AND 0x0F) OR (push_bit 4 y AND 0xF0)])
    = memcpy (memcpy ?d (8 * i) (sub_buf ?d (8 * i) 4 @ ?t)) (8 * i + 8) (?u @ sub_buf ?d (8 * i + 12) 4)"
    using assms by (simp add: bits_of_update shift_nibbles t algebra_simps)
  also have "memcpy ?d (8 * i) (sub_buf ?d (8 * i) 4 @ ?t) = memcpy ?d (8 * i + 4) ?t"
    by (rule memcpy_keep_front) (use l in simp)
  also have "memcpy \<dots> (8 * i + 8) (?u @ sub_buf ?d (8 * i + 12) 4)
      = memcpy ?d (8 * i + 4) (byte_bits y @ sub_buf ?d (8 * i + 12) 4)"
    using memcpy_append [of "8 * i + 4" ?t "?u @ sub_buf ?d (8 * i + 12) 4" ?d] l
    by (simp add: append_assoc [symmetric] add.commute [of 8] del: append_assoc)
  also have "\<dots> = memcpy ?d (8 * i + 4) (byte_bits y)"
    using memcpy_keep_back [of "8 * i + 4" "byte_bits y" 4 ?d] l by (simp add: add.commute [of 12])
  finally show ?thesis .
qed

section \<open>Properties\<close>

text \<open>
  C8: the embedded link control. After \<open>encode_embedded_data\<close> the four fragments that
  \<open>get_embedded_data\<close> places in bits 116 to 147 of four voice bursts, put together and read back
  by columns, are a matrix with seven Hamming rows and a row of column parities, whose data
  positions hold exactly the flags, group and source of the call and whose checksum column holds
  the sum of these nine bytes modulo 31; nothing else in the bursts changes, and the bursts are
  announced as first, middle, middle and last fragment (1, 3, 3, 2).
\<close>

theorem embedded_lc_roundtrip:
  assumes "length (emb_data s) = 72" "length (emb_raw s) = 128"
    and "\<forall>n \<in> {1, 2, 3, 4}. length (burst n) = 33"
  shows "\<exists>m. length m = 128 \<and> (\<forall>k < 7. ham16 m (16 * k))
    \<and> (\<forall>a < 16. m ! (a + 112) = xor_at m a [0, 16, 32, 48, 64, 80, 96])
    \<and> runs_read emb_runs m = bits_of (voice_lc s)
    \<and> map (\<lambda>i. m ! (42 + 16 * i)) [0..<5] = emb_crc_bits (word_of_nat (sum_list (map unat (voice_lc s)) mod 31))
    \<and> scatter emb_perm 128 (concat (map (\<lambda>n. sub_buf (bits_of (snd (get_embedded_data (burst n) n (encode_embedded_data s)))) 116 32) [1, 2, 3, 4]))
         (replicate 128 False) = m
    \<and> (\<forall>n \<in> {1, 2, 3, 4}. \<forall>i < 264. i < 116 \<or> 148 \<le> i \<longrightarrow>
         bits_of (snd (get_embedded_data (burst n) n (encode_embedded_data s))) ! i = bits_of (burst n) ! i)
    \<and> map (\<lambda>n. fst (get_embedded_data (burst n) n (encode_embedded_data s))) [1, 2, 3, 4] = [1, 3, 3, 2]"
proof -
  let ?s = "encode_embedded_data s" and ?m = "emb_rows (bits_of (voice_lc s))"
  have v: "length (bits_of (voice_lc s)) = 72" "length (voice_lc s) = 9" by (simp_all add: voice_lc_def)
  note rows = emb_rows_facts [OF v(1)]
  have raw: "emb_raw ?s = gather emb_perm 128 ?m" by (rule encode_embedded_raw [OF assms(1,2)])
  then have l: "length (emb_raw ?s) = 128" by simp
  have frag: "bits_of (snd (get_embedded_data (burst n) n ?s)) = memcpy (bits_of (burst n)) 116 (sub_buf (emb_raw ?s) (32 * (n - 1)) 32)"
    if "n \<in> {1, 2, 3, 4}" for n
    using get_embedded_bits [of "burst n" ?s n] that l assms(3) by blast
  have here: "sub_buf (bits_of (snd (get_embedded_data (burst n) n ?s))) 116 32 = sub_buf (emb_raw ?s) (32 * (n - 1)) 32"
    if "n \<in> {1, 2, 3, 4}" for n
    unfolding frag [OF that] by (rule sub_buf_memcpy_same) (use that l assms(3) in auto)
  have "concat (map (\<lambda>n. sub_buf (bits_of (snd (get_embedded_data (burst n) n ?s))) 116 32) [1, 2, 3, 4]) = emb_raw ?s"
    using here [of 1] here [of 2] here [of 3] here [of 4] l
      sub_buf_append [of "emb_raw ?s" 0 32 32] sub_buf_append [of "emb_raw ?s" 0 64 32] sub_buf_append [of "emb_raw ?s" 0 96 32]
    by (simp add: sub_buf_all append_assoc [symmetric] del: append_assoc)
  moreover have "scatter emb_perm 128 (emb_raw ?s) (replicate 128 False) = ?m"
    unfolding raw using rows(1) by (simp add: emb_il.scatter_gather)
  moreover have "bits_of (snd (get_embedded_data (burst n) n ?s)) ! i = bits_of (burst n) ! i"
    if "n \<in> {1, 2, 3, 4}" "i < 264" "i < 116 \<or> 148 \<le> i" for n i
    unfolding frag [OF that(1)] using that l assms(3) by (subst nth_memcpy) auto
  moreover have "map (\<lambda>n. fst (get_embedded_data (burst n) n ?s)) [1, 2, 3, 4] = [1, 3, 3, 2]"
    by (simp add: get_embedded_data_def Let_def)
  ultimately show ?thesis
    using rows checksum_bytes [OF v(2)] by (intro exI [of _ ?m]) simp
qed

theorem embedded_lc_roundtrip_witness:
  "\<exists>m. length m = 128 \<and> runs_read emb_runs m = bits_of [0, 0, 0, 0, 0x0F, 0xA0, 0x1F, 0x2E, 0x3D]"
proof -
  let ?s = "\<lparr>hbp_buf = [], bptc_rawData = [], bptc_deInterData = [], emb_raw = replicate 128 False,
     emb_data = replicate 72 False, rx_srcid = 0x1F2E3D, tx_tgid = 4000\<rparr>"
  have "voice_lc ?s = [0, 0, 0, 0, 0x0F, 0xA0, 0x1F, 0x2E, 0x3D]" by (simp add: voice_lc_def)
  moreover have "length (emb_data ?s) = 72" "length (emb_raw ?s) = 128" "\<forall>n \<in> {1, 2, 3, 4}. length (replicate 33 (0 :: u8)) = 33"
    by simp_all
  from embedded_lc_roundtrip [OF this] obtain m where "length m = 128" "runs_read emb_runs m = bits_of (voice_lc ?s)"
    by blast
  ultimately show ?thesis by auto
qed

text \<open>
  The word around a fragment. \<open>get_emb_data\<close> writes the quadratic-residue code word of colour
  code 1 and the fragment's position (first, middle or last) into bits 108 to 115 and 148 to 155
  of a burst, eight bits before and eight after the fragment, and changes nothing else.
\<close>

theorem emb_word_placed:
  assumes "length data = 33"
  shows "length (get_emb_data data lcss) = 33
    \<and> bits_of (get_emb_data data lcss) =
       (let w = ENCODING_TABLE_1676 ! unat (8 OR (lcss AND 3))
        in memcpy (memcpy (bits_of data) 108 (byte_bits (ucast (drop_bit 8 w)))) 148 (byte_bits (ucast w)))"
proof -
  let ?w = "ENCODING_TABLE_1676 ! unat (8 OR (lcss AND 3))"
  define hi where "hi = (ucast (drop_bit 8 ?w) :: u8)"
  define lo where "lo = (ucast ?w :: u8)"
  have v: "drop_bit 1 ((push_bit 4 1 AND 0xF0) OR (push_bit 1 lcss AND 0x06)) AND 0x7F = (8 OR (lcss AND 3) :: u8)"
    by (rule byte_eqI; drule less_8_cases; elim disjE;
        simp only: bit_and_iff bit_or_iff bit_push_bit_iff bit_drop_bit_eq o_apply; simp)
  have lo': "ucast (?w AND 0xFF) = lo"
    unfolding lo_def by (rule byte_eqI; drule less_8_cases; elim disjE; simp add: bit_and_iff bit_ucast_iff)
  have q: "encode_qr1676 [(push_bit 4 1 AND 0xF0) OR (push_bit 1 lcss AND 0x06), 0] = [hi, lo]"
    unfolding encode_qr1676_def Let_def nth_Cons_0 v lo' hi_def [symmetric] by simp
  have e: "get_emb_data data lcss = data[13 := (data ! 13 AND 0xF0) OR (drop_bit 4 hi AND 0x0F),
      14 := (data ! 14 AND 0x0F) OR (push_bit 4 hi AND 0xF0), 18 := (data ! 18 AND 0xF0) OR (drop_bit 4 lo AND 0x0F),
      19 := (data ! 19 AND 0x0F) OR (push_bit 4 lo AND 0xF0)]"
    unfolding get_emb_data_def Let_def q by simp
  define d1 where "d1 = data[13 := (data ! 13 AND 0xF0) OR (drop_bit 4 hi AND 0x0F),
      14 := (data ! 14 AND 0x0F) OR (push_bit 4 hi AND 0xF0)]"
  have "get_emb_data data lcss = d1[18 := (d1 ! 18 AND 0xF0) OR (drop_bit 4 lo AND 0x0F),
      19 := (d1 ! 19 AND 0x0F) OR (push_bit 4 lo AND 0xF0)]" and "length d1 = 33"
    using assms by (simp_all add: e d1_def)
  then show ?thesis
    using assms write_across [of 13 data hi, folded d1_def] write_across [of 18 d1 lo]
    by (simp add: hi_def [symmetric] lo_def [symmetric] Let_def d1_def)
qed

theorem emb_word_placed_witness: "bits_of (get_emb_data (replicate 33 0) 3)
    = memcpy (memcpy (bits_of (replicate 33 0)) 108 (byte_bits 0x17)) 148 (byte_bits 0x74)"
proof -
  have "byte_bits (6004 :: u8) = byte_bits 0x74" by (rule arg_cong [of _ _ byte_bits]) simp
  then show ?thesis
    using emb_word_placed [of "replicate 33 0" 3] by (simp add: ENCODING_TABLE_1676_def)
qed

end
