(* ===== verification/Sha256.thy ===== *)
theory Sha256
  imports Prelude
begin

text \<open>
  The hash of the login reply, \<open>sha256_generate\<close> and \<open>sha256_process_block\<close> of
  \<open>src/hbp/dmr_hbp.c\<close>: the unrolled rounds over eight registers that change roles, the message
  schedule kept in sixteen words, the padding done in a buffer that still holds old bytes. The
  specification is the standard's: a schedule of 64 words, rounds that shift eight variables,
  padding of the whole message. The code is shown to compute the standard's digest of every
  message shorter than 2^32 bytes. The word loads of the C code go through a pointer cast; the
  model reads them as a little-endian machine does.
\<close>

section \<open>The code\<close>

definition SWAP :: "u32 \<Rightarrow> u32" where
  "SWAP n = push_bit 24 n OR push_bit 8 (n AND 0xff00) OR (drop_bit 8 n AND 0xff00) OR drop_bit 24 n"

definition roundConstants :: "u32 list" where
  "roundConstants = concat [
    [0x428a2f98, 0x71374491, 0xb5c0fbcf, 0xe9b5dba5],
    [0x3956c25b, 0x59f111f1, 0x923f82a4, 0xab1c5ed5],
    [0xd807aa98, 0x12835b01, 0x243185be, 0x550c7dc3],
    [0x72be5d74, 0x80deb1fe, 0x9bdc06a7, 0xc19bf174],
    [0xe49b69c1, 0xefbe4786, 0x0fc19dc6, 0x240ca1cc],
    [0x2de92c6f, 0x4a7484aa, 0x5cb0a9dc, 0x76f988da],
    [0x983e5152, 0xa831c66d, 0xb00327c8, 0xbf597fc7],
    [0xc6e00bf3, 0xd5a79147, 0x06ca6351, 0x14292967],
    [0x27b70a85, 0x2e1b2138, 0x4d2c6dfc, 0x53380d13],
    [0x650a7354, 0x766a0abb, 0x81c2c92e, 0x92722c85],
    [0xa2bfe8a1, 0xa81a664b, 0xc24b8b70, 0xc76c51a3],
    [0xd192e819, 0xd6990624, 0xf40e3585, 0x106aa070],
    [0x19a4c116, 0x1e376c08, 0x2748774c, 0x34b0bcb5],
    [0x391c0cb3, 0x4ed8aa4a, 0x5b9cca4f, 0x682e6ff3],
    [0x748f82ee, 0x78a5636f, 0x84c87814, 0x8cc70208],
    [0x90befffa, 0xa4506ceb, 0xbef9a3f7, 0xc67178f2]]"

definition F2 :: "u32 \<Rightarrow> u32 \<Rightarrow> u32 \<Rightarrow> u32" where
  "F2 A B C = (A AND B) OR (C AND (A OR B))"

definition F1 :: "u32 \<Rightarrow> u32 \<Rightarrow> u32 \<Rightarrow> u32" where
  "F1 E F G = G XOR (E AND (F XOR G))"

definition rol :: "u32 \<Rightarrow> nat \<Rightarrow> u32" where
  "rol x n = push_bit n x OR drop_bit (32 - n) x"

definition S0 :: "u32 \<Rightarrow> u32" where "S0 x = rol x 25 XOR rol x 14 XOR drop_bit 3 x"
definition S1 :: "u32 \<Rightarrow> u32" where "S1 x = rol x 15 XOR rol x 13 XOR drop_bit 10 x"
definition SS0 :: "u32 \<Rightarrow> u32" where "SS0 x = rol x 30 XOR rol x 19 XOR rol x 10"
definition SS1 :: "u32 \<Rightarrow> u32" where "SS1 x = rol x 26 XOR rol x 21 XOR rol x 7"

text \<open>A word of a byte buffer, read and written through a pointer.\<close>

definition load_u32 :: "bytes \<Rightarrow> nat \<Rightarrow> u32" where
  "load_u32 p i = ucast (p ! i) OR push_bit 8 (ucast (p ! (i + 1)))
     OR push_bit 16 (ucast (p ! (i + 2))) OR push_bit 24 (ucast (p ! (i + 3)))"

definition u32_bytes :: "u32 \<Rightarrow> bytes" where
  "u32_bytes v = [ucast v, ucast (drop_bit 8 v), ucast (drop_bit 16 v), ucast (drop_bit 24 v)]"

definition set_uint32 :: "bytes \<Rightarrow> nat \<Rightarrow> u32 \<Rightarrow> bytes" where
  "set_uint32 cp off v = memcpy cp off (u32_bytes v)"

text \<open>
  The registers a to h are a list. The unrolled lines call the macro \<open>R\<close> with the names rotated
  by one place from line to line: \<open>sha_reg t j\<close> is the register in the j-th place of line t.
\<close>

definition sha_reg :: "nat \<Rightarrow> nat \<Rightarrow> nat" where
  "sha_reg t j = (j + 8 - t mod 8) mod 8"

definition sha_R :: "nat \<Rightarrow> u32 \<Rightarrow> u32 \<Rightarrow> u32 list \<Rightarrow> u32 list" where
  "sha_R t k m v =
     (let A = v ! sha_reg t 0; B = v ! sha_reg t 1; C = v ! sha_reg t 2; D = v ! sha_reg t 3;
          E = v ! sha_reg t 4; F = v ! sha_reg t 5; G = v ! sha_reg t 6; H = v ! sha_reg t 7;
          t0 = SS0 A + F2 A B C;
          t1 = H + SS1 E + F1 E F G + k + m;
          v = v[sha_reg t 3 := D + t1]
      in v[sha_reg t 7 := t0 + t1])"

definition sha_M :: "nat \<Rightarrow> u32 list \<Rightarrow> u32 \<times> u32 list" where
  "sha_M i x =
     (let tm = S1 (x ! ((i - 2) mod 16)) + x ! ((i - 7) mod 16) + S0 (x ! ((i - 15) mod 16)) + x ! (i mod 16)
      in (tm, x[i mod 16 := tm]))"

definition sha_step :: "nat \<Rightarrow> u32 list \<times> u32 list \<Rightarrow> u32 list \<times> u32 list" where
  "sha_step t = (\<lambda>(x, v).
     let (m, x) = (if t < 16 then (x ! t, x) else sha_M t x)
     in (x, sha_R t (roundConstants ! t) m v))"

definition sha_chunk :: "bytes \<Rightarrow> u32 list \<Rightarrow> u32 list" where
  "sha_chunk words st =
     (let x = map (\<lambda>t. SWAP (load_u32 words (4 * t))) [0..<16];
          (x, v) = fold sha_step [0..<64] (x, st)
      in map2 (+) st v)"

function sha_words :: "nat \<Rightarrow> bytes \<Rightarrow> u32 list \<Rightarrow> u32 list" where
  "sha_words nwords words st =
     (if nwords = 0 then st else sha_words (nwords - 16) (drop 64 words) (sha_chunk words st))"
  by pat_completeness auto
termination by (relation "measure fst") auto

declare sha_words.simps [simp del]

record sha256 =
  sha256_state :: "u32 list"
  sha256_total :: "u32 \<times> u32"
  sha256_buffer :: bytes
  sha256_buflen :: nat

definition sha256_count :: "nat \<Rightarrow> u32 \<times> u32 \<Rightarrow> u32 \<times> u32" where
  "sha256_count len = (\<lambda>(lo, hi).
     let lo = lo + of_nat len in (lo, if lo < of_nat len then hi + 1 else hi))"

definition sha256_process_block :: "bytes \<Rightarrow> nat \<Rightarrow> sha256 \<Rightarrow> sha256" where
  "sha256_process_block buffer len s =
     s\<lparr>sha256_total := sha256_count len (sha256_total s),
       sha256_state := sha_words (len div 4) buffer (sha256_state s)\<rparr>"

definition fillbuf :: bytes where
  "fillbuf = 0x80 # replicate 63 0"

definition sha256_start :: "sha256 \<Rightarrow> sha256" where
  "sha256_start s =
     s\<lparr>sha256_state := [0x6a09e667, 0xbb67ae85, 0x3c6ef372, 0xa54ff53a, 0x510e527f, 0x9b05688c, 0x1f83d9ab, 0x5be0cd19],
       sha256_total := (0, 0), sha256_buflen := 0\<rparr>"

text \<open>
  The first conditional of \<open>sha256_generate\<close> tests a length that was set to 0 just before, so
  that it and the branch for a full buffer are never taken; they are written as the code has them.
\<close>

definition sha256_top_up :: "bytes \<Rightarrow> nat \<Rightarrow> sha256 \<Rightarrow> bytes \<times> nat \<times> sha256" where
  "sha256_top_up inp len s =
     (if sha256_buflen s \<noteq> 0
      then let left_over = sha256_buflen s;
               add = (if len < 128 - left_over then len else 128 - left_over);
               s = s\<lparr>sha256_buffer := memcpy (sha256_buffer s) left_over (take add inp),
                     sha256_buflen := left_over + add\<rparr>;
               s = (if 64 < sha256_buflen s
                    then let s = sha256_process_block (sha256_buffer s) (sha256_buflen s div 64 * 64) s;
                             n = sha256_buflen s mod 64
                         in s\<lparr>sha256_buflen := n,
                              sha256_buffer := memcpy (sha256_buffer s) 0
                                (sub_buf (sha256_buffer s) ((left_over + add) div 64 * 64) n)\<rparr>
                    else s)
           in (drop add inp, len - add, s)
      else (inp, len, s))"

lemma sha256_top_up_empty [simp]: "sha256_buflen s = 0 \<Longrightarrow> sha256_top_up inp len s = (inp, len, s)"
  by (simp add: sha256_top_up_def)

lemma sha256_start_buflen [simp]: "sha256_buflen (sha256_start s) = 0"
  by (simp add: sha256_start_def)

definition sha256_generate :: "bytes \<Rightarrow> nat \<Rightarrow> sha256 \<Rightarrow> sha256 \<times> bytes" where
  "sha256_generate inp len s =
     (let s = sha256_start s;
          (inp, len, s) = sha256_top_up inp len s;
          (inp, len, s) =
            (if 64 \<le> len
             then (drop (len div 64 * 64) inp, len mod 64, sha256_process_block inp (len div 64 * 64) s)
             else (inp, len, s));
          s = (if 0 < len
               then let left_over = sha256_buflen s;
                        s = s\<lparr>sha256_buffer := memcpy (sha256_buffer s) left_over (take len inp)\<rparr>;
                        left_over = left_over + len;
                        (s, left_over) =
                          (if 64 \<le> left_over
                           then let s = sha256_process_block (sha256_buffer s) 64 s;
                                    left_over = left_over - 64
                                in (s\<lparr>sha256_buffer := memcpy (sha256_buffer s) 0 (sub_buf (sha256_buffer s) 64 left_over)\<rparr>, left_over)
                           else (s, left_over))
                    in s\<lparr>sha256_buflen := left_over\<rparr>
               else s);
          bytes = sha256_buflen s;
          size = (if bytes < 56 then 16 else 32);
          s = s\<lparr>sha256_total := sha256_count bytes (sha256_total s)\<rparr>;
          (lo, hi) = sha256_total s;
          b = set_uint32 (sha256_buffer s) (4 * (size - 2)) (SWAP (push_bit 3 hi OR drop_bit 29 lo));
          b = set_uint32 b (4 * (size - 1)) (SWAP (push_bit 3 lo));
          b = memcpy b bytes (take ((size - 2) * 4 - bytes) fillbuf);
          s = sha256_process_block b (size * 4) (s\<lparr>sha256_buffer := b\<rparr>)
      in (s, concat (map (\<lambda>v. u32_bytes (SWAP v)) (sha256_state s))))"

section \<open>The standard\<close>

definition rotr :: "u32 \<Rightarrow> nat \<Rightarrow> u32" where
  "rotr x n = drop_bit n x OR push_bit (32 - n) x"

definition Ch :: "u32 \<Rightarrow> u32 \<Rightarrow> u32 \<Rightarrow> u32" where "Ch x y z = (x AND y) XOR (NOT x AND z)"
definition Maj :: "u32 \<Rightarrow> u32 \<Rightarrow> u32 \<Rightarrow> u32" where "Maj x y z = (x AND y) XOR (x AND z) XOR (y AND z)"
definition big_sigma0 :: "u32 \<Rightarrow> u32" where "big_sigma0 x = rotr x 2 XOR rotr x 13 XOR rotr x 22"
definition big_sigma1 :: "u32 \<Rightarrow> u32" where "big_sigma1 x = rotr x 6 XOR rotr x 11 XOR rotr x 25"
definition small_sigma0 :: "u32 \<Rightarrow> u32" where "small_sigma0 x = rotr x 7 XOR rotr x 18 XOR drop_bit 3 x"
definition small_sigma1 :: "u32 \<Rightarrow> u32" where "small_sigma1 x = rotr x 17 XOR rotr x 19 XOR drop_bit 10 x"

definition be32 :: "bytes \<Rightarrow> u32" where
  "be32 b = push_bit 24 (ucast (b ! 0)) OR push_bit 16 (ucast (b ! 1)) OR push_bit 8 (ucast (b ! 2)) OR ucast (b ! 3)"

definition be32_bytes :: "u32 \<Rightarrow> bytes" where
  "be32_bytes w = [ucast (drop_bit 24 w), ucast (drop_bit 16 w), ucast (drop_bit 8 w), ucast w]"

fun schedule :: "bytes \<Rightarrow> nat \<Rightarrow> u32" where
  "schedule blk t =
     (if t < 16 then be32 (drop (4 * t) blk)
      else small_sigma1 (schedule blk (t - 2)) + schedule blk (t - 7)
         + small_sigma0 (schedule blk (t - 15)) + schedule blk (t - 16))"

declare schedule.simps [simp del]

fun std_round :: "u32 \<Rightarrow> u32 \<Rightarrow> u32 list \<Rightarrow> u32 list" where
  "std_round k w [a, b, c, d, e, f, g, h] =
     (let T1 = h + big_sigma1 e + Ch e f g + k + w; T2 = big_sigma0 a + Maj a b c
      in [T1 + T2, a, b, c, d + T1, e, f, g])"
| "std_round k w v = v"

text \<open>
  The constants of the standard: the first 32 bits of the fractional parts of the cube roots of the
  first 64 primes, and of the square roots of the first eight.
\<close>

definition first_primes :: "nat list" where
  "first_primes = [
    2, 3, 5, 7, 11, 13, 17, 19, 23, 29, 31, 37, 41, 43, 47, 53,
    59, 61, 67, 71, 73, 79, 83, 89, 97, 101, 103, 107, 109, 113, 127, 131,
    137, 139, 149, 151, 157, 163, 167, 173, 179, 181, 191, 193, 197, 199, 211, 223,
    227, 229, 233, 239, 241, 251, 257, 263, 269, 271, 277, 281, 283, 293, 307, 311]"

definition std_constants :: "u32 list" where
  "std_constants = map (\<lambda>p. word_of_nat (GREATEST m. m ^ 3 \<le> p * 2 ^ 96)) first_primes"

definition std_initial :: "u32 list" where
  "std_initial = map (\<lambda>p. word_of_nat (GREATEST m. m ^ 2 \<le> p * 2 ^ 64)) (take 8 first_primes)"

lemma greatest_root:
  assumes "m ^ e \<le> n" "n < (m + 1) ^ e"
  shows "(GREATEST k. k ^ e \<le> n) = (m :: nat)"
proof (rule Greatest_equality)
  show "k \<le> m" if "k ^ e \<le> n" for k
    using power_less_imp_less_base [of k e "m + 1"] assms(2) that by simp
qed (rule assms(1))

lemma word_of_root: "word_of_nat (i * 4294967296 + unat k) = (k :: u32)"
proof -
  have "word_of_nat 4294967296 = (0 :: u32)" by simp
  then show ?thesis by (simp only: of_nat_add of_nat_mult) simp
qed

lemma roots_at:
  assumes "list_all2 (\<lambda>p (i, k). (i * 2 ^ 32 + unat k) ^ e \<le> p * 2 ^ s \<and> p * 2 ^ s < (i * 2 ^ 32 + unat k + 1) ^ e) ps (zip ips ks)"
    and "length ips = length ks"
  shows "map (\<lambda>p. word_of_nat (GREATEST m. m ^ e \<le> p * 2 ^ s)) ps = (ks :: u32 list)"
proof -
  have "list_all2 (\<lambda>p (i, k). word_of_nat (GREATEST m. m ^ e \<le> p * 2 ^ s) = k) ps (zip ips ks)"
    using assms(1) by (rule list_all2_mono) (auto simp: greatest_root word_of_root simp del: of_nat_add of_nat_mult)
  then show ?thesis
    using assms(2) by (auto simp: list_eq_iff_nth_eq list_all2_conv_all_nth)
qed

lemma initial_std: "std_initial = [0x6a09e667, 0xbb67ae85, 0x3c6ef372, 0xa54ff53a, 0x510e527f, 0x9b05688c, 0x1f83d9ab, 0x5be0cd19]"
  unfolding std_initial_def
  by (rule roots_at [where ips = "[1, 1, 2, 2, 3, 3, 4, 4]"]) (simp_all add: first_primes_def)

lemma roundConstants_std: "std_constants = roundConstants"
  unfolding std_constants_def
  by (rule roots_at [where ips = "[1, 1, 1, 1, 2, 2, 2, 2, 2, 3, 3, 3, 3, 3, 3, 3, 3, 3, 4, 4,
    4, 4, 4, 4, 4, 4, 4, 4, 4, 4, 5, 5, 5, 5, 5, 5, 5, 5, 5, 5,
    5, 5, 5, 5, 5, 5, 5, 6, 6, 6, 6, 6, 6, 6, 6, 6, 6, 6, 6, 6,
    6, 6, 6, 6]"])
    (simp_all add: first_primes_def roundConstants_def)

definition std_compress :: "bytes \<Rightarrow> u32 list \<Rightarrow> u32 list" where
  "std_compress blk H = map2 (+) H (fold (\<lambda>t. std_round (std_constants ! t) (schedule blk t)) [0..<64] H)"

function std_hash :: "bytes \<Rightarrow> u32 list \<Rightarrow> u32 list" where
  "std_hash msg H = (if length msg < 64 then H else std_hash (drop 64 msg) (std_compress (take 64 msg) H))"
  by pat_completeness auto
termination by (relation "measure (length o fst)") auto

declare std_hash.simps [simp del]

definition std_pad :: "bytes \<Rightarrow> bytes" where
  "std_pad msg =
     msg @ [0x80] @ replicate ((119 - length msg mod 64) mod 64) 0
       @ be32_bytes (of_nat (8 * length msg div 2 ^ 32)) @ be32_bytes (of_nat (8 * length msg))"

definition std_sha256 :: "bytes \<Rightarrow> bytes" where
  "std_sha256 msg = concat (map be32_bytes (std_hash (std_pad msg) std_initial))"

section \<open>Rounds and schedule\<close>

lemma sigma_eq:
  "SS0 x = big_sigma0 x" "SS1 x = big_sigma1 x" "S0 x = small_sigma0 x" "S1 x = small_sigma1 x"
  by (simp_all add: SS0_def SS1_def S0_def S1_def big_sigma0_def big_sigma1_def small_sigma0_def
      small_sigma1_def rol_def rotr_def or.commute)

lemma choice_eq: "F1 e f g = Ch e f g" "F2 a b c = Maj a b c"
  by (rule bit_word_eqI; auto simp: F1_def Ch_def F2_def Maj_def bit_xor_iff bit_and_iff bit_or_iff bit_not_iff)+

lemma sha_reg_less [simp]: "sha_reg t j < 8"
  by (simp add: sha_reg_def)

lemma sha_reg_if:
  assumes "j < 8"
  shows "sha_reg t j = (if t mod 8 \<le> j then j - t mod 8 else j + 8 - t mod 8)"
proof -
  obtain q where q: "q = t mod 8" "q < 8" by simp
  have "(j + 8 - q) mod 8 = (if q \<le> j then j - q else j + 8 - q)"
  proof (cases "q \<le> j")
    case True
    then have "j + 8 - q = (j - q) + 8" by simp
    then show ?thesis using True assms by (simp only: mod_add_self2) simp
  qed (use assms in simp)
  then show ?thesis by (simp add: sha_reg_def q(1))
qed

lemma sha_reg_Suc:
  assumes "j < 8"
  shows "sha_reg (Suc t) j = sha_reg t ((j + 7) mod 8)"
proof -
  obtain q where q: "t mod 8 = q" "q < 8" by simp
  have "(j + 7) mod 8 = (if j = 0 then 7 else j - 1)"
    using less_8_cases [OF assms] by (elim disjE) simp_all
  moreover have "sha_reg t (if j = 0 then 7 else j - 1)
      = (if j = 0 then 7 - q else if q \<le> j - 1 then j - 1 - q else j - 1 + 8 - q)"
    using assms q by (simp add: sha_reg_if)
  moreover have "Suc t mod 8 = (if q = 7 then 0 else Suc q)" using q by (simp add: mod_Suc)
  then have "sha_reg (Suc t) j = (if q = 7 then j else if Suc q \<le> j then j - Suc q else j + 8 - Suc q)"
    unfolding sha_reg_if [OF assms] by (simp only:) simp
  ultimately show ?thesis
    using assms q(2) by (simp only:) (auto split: if_splits)
qed

lemma sha_reg_inject:
  assumes "i < 8" "j < 8"
  shows "sha_reg t i = sha_reg t j \<longleftrightarrow> i = j"
proof -
  obtain q where q: "t mod 8 = q" "q < 8" by simp
  show ?thesis using assms q by (auto simp: sha_reg_if)
qed

text \<open>The registers in the order of their places in line t.\<close>

definition roles :: "nat \<Rightarrow> u32 list \<Rightarrow> u32 list" where
  "roles t v = map (\<lambda>j. v ! sha_reg t j) [0..<8]"

lemma roles_step:
  assumes "length v = 8"
  shows "roles (Suc t) (sha_R t k m v) = std_round k m (roles t v)"
proof -
  have up: "[0..<8] = [0, 1, 2, 3, 4, 5, 6, 7 :: nat]" by (simp add: upt_rec)
  have r: "sha_reg (Suc t) 0 = sha_reg t 7" "sha_reg (Suc t) 1 = sha_reg t 0"
    "sha_reg (Suc t) 2 = sha_reg t 1" "sha_reg (Suc t) 3 = sha_reg t 2"
    "sha_reg (Suc t) 4 = sha_reg t 3" "sha_reg (Suc t) 5 = sha_reg t 4"
    "sha_reg (Suc t) 6 = sha_reg t 5" "sha_reg (Suc t) 7 = sha_reg t 6"
    by (simp_all add: sha_reg_Suc)
  show ?thesis
    unfolding roles_def up list.map r sha_R_def Let_def std_round.simps
    using assms by (simp add: nth_list_update sha_reg_inject sigma_eq choice_eq algebra_simps)
qed

section \<open>A block\<close>

lemma less_32_cases: "(n :: nat) < 32 \<Longrightarrow> \<exists>m < 8. n = m \<or> n = 8 + m \<or> n = 16 + m \<or> n = 24 + m"
  by presburger

lemma bit_swap:
  assumes "m < 8"
  shows "bit (SWAP w) m = bit w (24 + m) \<and> bit (SWAP w) (8 + m) = bit w (16 + m)
     \<and> bit (SWAP w) (16 + m) = bit w (8 + m) \<and> bit (SWAP w) (24 + m) = bit w m"
proof -
  have z: "\<not> bit w k" if "32 \<le> k" for k using that by (auto dest: bit_imp_le_length)
  show ?thesis
    using less_8_cases [OF assms]
    by (elim disjE; simp only: SWAP_def bit_or_iff bit_and_iff bit_push_bit_iff bit_drop_bit_eq; simp add: z)
qed

lemma bit_load:
  "m < 8 \<Longrightarrow> bit (load_u32 p i) m = bit (p ! i) m \<and> bit (load_u32 p i) (8 + m) = bit (p ! (i + 1)) m
     \<and> bit (load_u32 p i) (16 + m) = bit (p ! (i + 2)) m \<and> bit (load_u32 p i) (24 + m) = bit (p ! (i + 3)) m"
  by (auto simp: load_u32_def bit_or_iff bit_push_bit_iff bit_ucast_iff dest: bit_imp_le_length)

lemma bit_be32:
  "m < 8 \<Longrightarrow> bit (be32 b) m = bit (b ! 3) m \<and> bit (be32 b) (8 + m) = bit (b ! 2) m
     \<and> bit (be32 b) (16 + m) = bit (b ! 1) m \<and> bit (be32 b) (24 + m) = bit (b ! 0) m"
  by (auto simp: be32_def bit_or_iff bit_push_bit_iff bit_ucast_iff dest: bit_imp_le_length)

lemma swap_load: "i + 3 < length p \<Longrightarrow> SWAP (load_u32 p i) = be32 (drop i p)"
proof (rule bit_word_eqI)
  fix n assume i: "i + 3 < length p" and "n < LENGTH(32)"
  then obtain m where m: "m < 8" "n = m \<or> n = 8 + m \<or> n = 16 + m \<or> n = 24 + m"
    using less_32_cases [of n] by auto
  then show "bit (SWAP (load_u32 p i)) n = bit (be32 (drop i p)) n"
    using bit_swap [OF m(1)] bit_load [OF m(1)] bit_be32 [OF m(1)] i by (elim disjE) simp_all
qed

lemma u32_bytes_swap: "u32_bytes (SWAP w) = be32_bytes w"
  unfolding u32_bytes_def be32_bytes_def list.inject
  by (intro conjI byte_eqI TrueI) (simp_all add: bit_ucast_iff bit_drop_bit_eq bit_swap)

lemma sha_R_length [simp]: "length (sha_R t k m v) = length v"
  by (simp add: sha_R_def Let_def)

lemma sha_rounds:
  assumes len: "64 \<le> length words" "length st = 8" and t: "t \<le> 64"
  shows "\<exists>x v. fold sha_step [0..<t] (map (\<lambda>t. SWAP (load_u32 words (4 * t))) [0..<16], st) = (x, v)
     \<and> length x = 16 \<and> length v = 8
     \<and> roles t v = fold (\<lambda>t. std_round (roundConstants ! t) (schedule (take 64 words) t)) [0..<t] st
     \<and> (\<forall>k. t \<le> k + 16 \<and> k < max t 16 \<longrightarrow> x ! (k mod 16) = schedule (take 64 words) k)"
  using t
proof (induction t)
  case 0
  have "schedule (take 64 words) k = SWAP (load_u32 words (4 * k))" if "k < 16" for k
    using that len(1) by (simp add: schedule.simps swap_load drop_take be32_def)
  moreover have "roles 0 st = st"
    using len(2) by (intro nth_equalityI) (auto simp: roles_def sha_reg_def)
  ultimately show ?case using len(2) by auto
next
  case (Suc t)
  let ?W = "schedule (take 64 words)"
  obtain x v where e: "fold sha_step [0..<t] (map (\<lambda>t. SWAP (load_u32 words (4 * t))) [0..<16], st) = (x, v)"
    and l: "length x = 16" "length v = 8"
    and r: "roles t v = fold (\<lambda>t. std_round (roundConstants ! t) (?W t)) [0..<t] st"
    and w: "\<And>k. t \<le> k + 16 \<Longrightarrow> k < max t 16 \<Longrightarrow> x ! (k mod 16) = ?W k"
    using Suc by auto
  obtain x' where x': "(if t < 16 then (x ! t, x) else sha_M t x) = (?W t, x')" "length x' = 16"
    and w': "\<And>k. Suc t \<le> k + 16 \<Longrightarrow> k < max (Suc t) 16 \<Longrightarrow> x' ! (k mod 16) = ?W k"
  proof (cases "t < 16")
    case True
    then show ?thesis using that [of x] w [of t] w l by (simp add: max_def)
  next
    case False
    have "(t - 16) mod 16 = t mod 16" using False by (simp add: le_mod_geq)
    then have tm: "S1 (x ! ((t - 2) mod 16)) + x ! ((t - 7) mod 16) + S0 (x ! ((t - 15) mod 16)) + x ! (t mod 16) = ?W t"
      using False w [of "t - 2"] w [of "t - 7"] w [of "t - 15"] w [of "t - 16"]
      by (simp add: schedule.simps [of _ t] sigma_eq)
    have other: "k mod 16 \<noteq> t mod 16" if "Suc t \<le> k + 16" "k < t" for k
    proof
      assume "k mod 16 = t mod 16"
      then have "16 dvd t - k" using that by (metis less_imp_le mod_eq_dvd_iff_nat)
      with that show False by (auto dest: dvd_imp_le)
    qed
    show ?thesis
    proof (rule that [of "x[t mod 16 := ?W t]"])
      show "(if t < 16 then (x ! t, x) else sha_M t x) = (?W t, x[t mod 16 := ?W t])"
        using False by (simp add: sha_M_def Let_def tm)
      show "x[t mod 16 := ?W t] ! (k mod 16) = ?W k" if "Suc t \<le> k + 16" "k < max (Suc t) 16" for k
        using that False w [of k] other [of k] l by (cases "k = t") (auto simp: max_def split: if_splits)
    qed (simp add: l)
  qed
  have "fold sha_step [0..<Suc t] (map (\<lambda>t. SWAP (load_u32 words (4 * t))) [0..<16], st)
      = (x', sha_R t (roundConstants ! t) (?W t) v)"
    using e x' by (simp add: sha_step_def)
  then show ?case
    using x'(2) l(2) w' r roles_step [OF l(2), of t "roundConstants ! t" "?W t"] by auto
qed

lemma sha_chunk_std:
  assumes "64 \<le> length words" "length st = 8"
  shows "sha_chunk words st = std_compress (take 64 words) st"
proof -
  obtain x v where e: "fold sha_step [0..<64] (map (\<lambda>t. SWAP (load_u32 words (4 * t))) [0..<16], st) = (x, v)"
    and l: "length v = 8"
    and r: "roles 64 v = fold (\<lambda>t. std_round (roundConstants ! t) (schedule (take 64 words) t)) [0..<64] st"
    using sha_rounds [OF assms order.refl] by blast
  have "roles 64 v = v"
    using l by (intro nth_equalityI) (auto simp: roles_def sha_reg_def)
  then show ?thesis using r by (simp add: sha_chunk_def std_compress_def roundConstants_std Let_def e)
qed

lemma length_std_compress [simp]: "length st = 8 \<Longrightarrow> length (std_compress blk st) = 8"
proof -
  have "length (std_round k w v) = length v" for k w v
    by (induction k w v rule: std_round.induct) (auto simp: Let_def)
  then have "length (fold (\<lambda>t. std_round (roundConstants ! t) (schedule blk t)) ts v) = length v" for ts v
    by (induction ts arbitrary: v) auto
  then show "length st = 8 \<Longrightarrow> length (std_compress blk st) = 8" by (simp add: std_compress_def roundConstants_std)
qed

lemma sha_words_std:
  "64 * n \<le> length words \<Longrightarrow> length st = 8 \<Longrightarrow> sha_words (16 * n) words st = std_hash (take (64 * n) words) st"
proof (induction n arbitrary: words st)
  case 0
  then show ?case by (simp add: sha_words.simps std_hash.simps)
next
  case (Suc n)
  have "sha_words (16 * Suc n) words st = sha_words (16 * n) (drop 64 words) (std_compress (take 64 words) st)"
    using Suc.prems by (subst sha_words.simps) (simp add: sha_chunk_std)
  also have "\<dots> = std_hash (take (64 * n) (drop 64 words)) (std_compress (take 64 words) st)"
    using Suc by simp
  also have "\<dots> = std_hash (take (64 * Suc n) words) st"
    using Suc.prems by (subst (2) std_hash.simps) (simp add: drop_take min_def)
  finally show ?case .
qed

lemma std_hash_append:
  "length a = 64 * n \<Longrightarrow> std_hash (a @ b) H = std_hash b (std_hash a H)"
proof (induction n arbitrary: a H)
  case 0
  then show ?case by (simp add: std_hash.simps [of "[]"])
next
  case (Suc n)
  then show ?case
    by (subst std_hash.simps, subst (3) std_hash.simps) simp
qed

lemma length_std_hash [simp]: "length st = 8 \<Longrightarrow> length (std_hash msg st) = 8"
  by (induction msg st rule: std_hash.induct) (subst std_hash.simps, simp)

lemma length_std_sha256 [simp]: "length (std_sha256 msg) = 32"
proof -
  have "length (concat (map be32_bytes xs)) = 4 * length xs" for xs
    by (induction xs) (simp_all add: be32_bytes_def)
  then show ?thesis by (simp add: std_sha256_def initial_std)
qed

section \<open>The padding\<close>

lemma pad_writes:
  assumes "n + 8 \<le> length B" "r + length Z = n" "length X = 4" "length Y = 4"
  shows "take (n + 8) (memcpy (memcpy (memcpy B n X) (n + 4) Y) r Z) = take r B @ Z @ X @ Y"
  using assms by (simp add: memcpy_def min_def)

lemma count_bits:
  assumes "len < 2 ^ 32"
  shows "push_bit 3 0 OR drop_bit 29 (of_nat len :: u32) = of_nat (8 * len div 2 ^ 32)"
    and "push_bit 3 (of_nat len :: u32) = of_nat (8 * len)"
proof -
  have "len div 2 ^ 29 < 2 ^ 32" using assms by (simp add: div_less_dividend order_le_less_trans [OF div_le_dividend])
  moreover have "8 * len div 2 ^ 32 = len div 2 ^ 29" by simp
  ultimately have "unat (drop_bit 29 (of_nat len :: u32)) = unat (of_nat (8 * len div 2 ^ 32) :: u32)"
    using assms by (simp only: unat_drop_bit_eq unat_of_nat) (simp add: drop_bit_eq_div take_bit_nat_eq_self)
  then show "push_bit 3 0 OR drop_bit 29 (of_nat len :: u32) = of_nat (8 * len div 2 ^ 32)"
    by (simp only: word_unat_eq_iff push_bit_of_0 or.left_neutral)
  show "push_bit 3 (of_nat len :: u32) = of_nat (8 * len)"
    by (simp add: push_bit_eq_mult)
qed

lemma std_hash_Nil [simp]: "std_hash [] H = H"
  by (simp add: std_hash.simps)

lemma pad_split:
  assumes "q = length msg div 64" "r = length msg mod 64"
  shows "std_pad msg = take (64 * q) msg @ drop (64 * q) msg @ [0x80] @ replicate ((119 - r) mod 64) 0
     @ be32_bytes (of_nat (8 * length msg div 2 ^ 32)) @ be32_bytes (of_nat (8 * length msg))"
  using append_take_drop_id [of "64 * q" msg] by (simp add: std_pad_def assms(2))

text \<open>The state when the padding begins: whole blocks hashed, the rest in the buffer.\<close>

lemma generate_tail:
  assumes len: "len < 2 ^ 32" and r: "r = len mod 64"
    and s: "sha256_buflen s = r" "sha256_total s = (of_nat (len div 64 * 64), 0)"
      "length (sha256_buffer s) = 128" "length (sha256_state s) = 8"
    and sz: "sz = (if r < 56 then 16 else 32)"
    and tot: "(lo, hi) = sha256_count r (sha256_total s)"
    and b: "b = memcpy (set_uint32 (set_uint32 (sha256_buffer s) (4 * (sz - 2)) (SWAP (push_bit 3 hi OR drop_bit 29 lo)))
          (4 * (sz - 1)) (SWAP (push_bit 3 lo))) r (take ((sz - 2) * 4 - r) fillbuf)"
  shows "sha_words sz b (sha256_state s)
     = std_hash (take r (sha256_buffer s) @ [0x80] @ replicate ((119 - r) mod 64) 0
         @ be32_bytes (of_nat (8 * len div 2 ^ 32)) @ be32_bytes (of_nat (8 * len))) (sha256_state s)"
    and "length b = 128"
proof -
  have r64: "r < 64" using r by simp
  have "len div 64 * 64 + r = len" using r by simp
  then have lo: "lo = of_nat len" "hi = 0"
  proof -
    have sum: "of_nat (len div 64 * 64) + of_nat r = (of_nat len :: u32)"
      using \<open>len div 64 * 64 + r = len\<close> by (metis of_nat_add)
    have "\<not> (of_nat len :: u32) < of_nat r"
      using len r64 r by (simp add: word_less_nat_alt unat_of_nat take_bit_nat_eq_self not_less)
    then show "lo = of_nat len" "hi = 0"
      using tot sum by (simp_all add: sha256_count_def s(2) Let_def)
  qed
  let ?X = "be32_bytes (of_nat (8 * len div 2 ^ 32))" and ?Y = "be32_bytes (of_nat (8 * len))"
  let ?Z = "take ((sz - 2) * 4 - r) fillbuf"
  let ?n = "4 * (sz - 2)"
  have Z: "?Z = 0x80 # replicate ((119 - r) mod 64) 0"
  proof -
    have "(sz - 2) * 4 - r = Suc ((119 - r) mod 64)"
    proof (cases "r < 56")
      case True
      then have "119 - r = (55 - r) + 64" by simp
      then have "(119 - r) mod 64 = 55 - r" by (simp only: mod_add_self2) simp
      with True show ?thesis by (simp add: sz)
    next
      case False
      then show ?thesis using r64 by (simp add: sz)
    qed
    then show ?thesis by (simp add: fillbuf_def min_def)
  qed
  have bX: "b = memcpy (memcpy (memcpy (sha256_buffer s) ?n ?X) (?n + 4) ?Y) r ?Z"
    unfolding b set_uint32_def lo count_bits [OF len] u32_bytes_swap by (simp add: sz)
  have lens: "length ?X = 4" "length ?Y = 4" by (simp_all add: be32_bytes_def)
  have n: "r + length ?Z = ?n" "?n + 8 \<le> length (sha256_buffer s)" "?n + 8 = 4 * sz"
    using r64 s(3) by (auto simp: sz fillbuf_def)
  have "take (4 * sz) b = take r (sha256_buffer s) @ ?Z @ ?X @ ?Y"
    unfolding bX n(3) [symmetric] by (rule pad_writes [OF n(2,1) lens])
  then have "take (4 * sz) b = take r (sha256_buffer s) @ [0x80] @ replicate ((119 - r) mod 64) 0 @ ?X @ ?Y"
    unfolding Z by simp
  moreover show lb: "length b = 128"
    unfolding bX using n lens s(3) by simp
  have "\<exists>k. sz = 16 * k \<and> 64 * k \<le> length b"
    by (intro exI [of _ "if r < 56 then 1 else 2"]) (simp add: sz lb)
  then obtain k where "sz = 16 * k" "64 * k \<le> length b" by blast
  ultimately show "sha_words sz b (sha256_state s)
     = std_hash (take r (sha256_buffer s) @ [0x80] @ replicate ((119 - r) mod 64) 0 @ ?X @ ?Y) (sha256_state s)"
    using sha_words_std [of k b "sha256_state s"] s(4) by simp
qed

lemma sha256_generate_aux:
  assumes len: "len < 2 ^ 32" "len \<le> length inp" and buf: "length (sha256_buffer s) = 128"
  shows "snd (sha256_generate inp len s) = std_sha256 (take len inp)
    \<and> length (sha256_buffer (fst (sha256_generate inp len s))) = 128"
proof -
  let ?q = "len div 64" and ?r = "len mod 64" and ?msg = "take len inp"
  let ?H = "[0x6a09e667, 0xbb67ae85, 0x3c6ef372, 0xa54ff53a, 0x510e527f, 0x9b05688c, 0x1f83d9ab, 0x5be0cd19] :: u32 list"
  have q: "?q * 64 \<le> len" by simp
  have c0: "sha256_count n (0, 0) = (of_nat n, 0)" if "n < 2 ^ 32" for n
    by (simp add: sha256_count_def)
  define s1 where "s1 = (sha256_start s)\<lparr>sha256_total := (of_nat (?q * 64), 0),
      sha256_state := std_hash (take (64 * ?q) ?msg) ?H\<rparr>"
  have one: "(if 64 \<le> len
       then (drop (?q * 64) inp, ?r, sha256_process_block inp (?q * 64) (sha256_start s))
       else (inp, len, sha256_start s)) = (drop (?q * 64) inp, ?r, s1)"
  proof (cases "64 \<le> len")
    case True
    have "64 * ?q \<le> length inp" using q len(2) by simp
    then have "sha_words (16 * ?q) inp ?H = std_hash (take (64 * ?q) inp) ?H"
      by (intro sha_words_std) simp_all
    moreover have "take (64 * ?q) ?msg = take (64 * ?q) inp" using q by (simp add: min_def)
    ultimately show ?thesis
      using True c0 [of "?q * 64"] q len(1)
      by (simp add: sha256_process_block_def sha256_start_def s1_def mult.commute)
  next
    case False
    then show ?thesis by (simp add: s1_def sha256_start_def)
  qed
  define s2 where "s2 = s1\<lparr>sha256_buffer := memcpy (sha256_buffer s) 0 (take ?r (drop (?q * 64) inp)), sha256_buflen := ?r\<rparr>"
  have rest: "take ?r (drop (?q * 64) inp) = drop (64 * ?q) ?msg" "length (drop (64 * ?q) ?msg) = ?r"
  proof -
    have "64 * ?q + ?r = len" by simp
    then have "len - 64 * ?q = ?r" "64 * ?q + ?r \<le> length inp" using len(2) by linarith+
    then show "take ?r (drop (?q * 64) inp) = drop (64 * ?q) ?msg" "length (drop (64 * ?q) ?msg) = ?r"
      by (simp_all add: drop_take mult.commute)
  qed
  have two: "(if 0 < ?r
       then let left_over = sha256_buflen s1;
                t = s1\<lparr>sha256_buffer := memcpy (sha256_buffer s1) left_over (take ?r (drop (?q * 64) inp))\<rparr>;
                left_over = left_over + ?r;
                (t, left_over) =
                  (if 64 \<le> left_over
                   then let t = sha256_process_block (sha256_buffer t) 64 t; left_over = left_over - 64
                        in (t\<lparr>sha256_buffer := memcpy (sha256_buffer t) 0 (sub_buf (sha256_buffer t) 64 left_over)\<rparr>, left_over)
                   else (t, left_over))
            in t\<lparr>sha256_buflen := left_over\<rparr>
       else s1) = s2"
    using mod_less_divisor [of 64 len]
    by (cases "?r = 0") (simp_all add: s1_def s2_def sha256_start_def Let_def memcpy_def)
  define sz :: nat where "sz = (if ?r < 56 then 16 else 32)"
  obtain lo hi where tot: "(lo, hi) = sha256_count ?r (sha256_total s2)" by (metis surj_pair)
  define b where "b = memcpy (set_uint32 (set_uint32 (sha256_buffer s2) (4 * (sz - 2)) (SWAP (push_bit 3 hi OR drop_bit 29 lo)))
          (4 * (sz - 1)) (SWAP (push_bit 3 lo))) ?r (take ((sz - 2) * 4 - ?r) fillbuf)"
  have s2: "sha256_buflen s2 = ?r" "sha256_total s2 = (of_nat (?q * 64), 0)"
      "length (sha256_buffer s2) = 128" "length (sha256_state s2) = 8"
    using buf rest by (simp_all add: s2_def s1_def sha256_start_def)
  note tail = generate_tail [OF len(1) refl s2 sz_def tot b_def]
  have out: "sha256_generate inp len s =
     (let t = sha256_process_block b (sz * 4) (s2\<lparr>sha256_total := (lo, hi), sha256_buffer := b\<rparr>)
      in (t, concat (map (\<lambda>v. u32_bytes (SWAP v)) (sha256_state t))))"
    unfolding sha256_generate_def Let_def sha256_top_up_empty [OF sha256_start_buflen] prod.case one
    unfolding two [unfolded Let_def] s2(1)
    unfolding Let_def tot [symmetric] sz_def [symmetric]
    by (simp add: Let_def b_def flip: tot)
  have "take ?r (sha256_buffer s2) = drop (64 * ?q) ?msg"
    using rest buf by (simp add: s2_def memcpy_def)
  moreover have L: "length ?msg = len" using len(2) by simp
  have "length (take (64 * ?q) ?msg) = 64 * ?q" using L by simp
  note std_hash_append [OF this]
  moreover have st: "sha256_state s2 = std_hash (take (64 * ?q) ?msg) ?H" by (simp add: s2_def s1_def)
  ultimately have "sha_words sz b (sha256_state s2) = std_hash (std_pad ?msg) ?H"
    using tail(1) unfolding pad_split [OF refl refl] L st by (simp only:)
  then show ?thesis
    unfolding out using tail(2)
    by (simp add: Let_def sha256_process_block_def std_sha256_def initial_std u32_bytes_swap)
qed

section \<open>The digest\<close>

definition sha256_fresh :: sha256 where
  "sha256_fresh = \<lparr>sha256_state = replicate 8 0, sha256_total = (0, 0),
     sha256_buffer = replicate 128 0xEE, sha256_buflen = 0\<rparr>"

text \<open>
  C7: \<open>sha256_generate\<close> computes SHA-256: for every message of fewer than 2^32 bytes the 32 bytes it
  writes are the digest of the standard, whatever the file's globals held before the call.
\<close>

theorem sha256_generate_is_sha256:
  assumes "len < 2 ^ 32" "len \<le> length inp" "length (sha256_buffer s) = 128"
  shows "snd (sha256_generate inp len s) = std_sha256 (take len inp)"
  using sha256_generate_aux [OF assms] by blast

theorem sha256_generate_is_sha256_witness:
  "snd (sha256_generate (replicate 4 0x11 @ [0x61, 0x62, 0x63] @ replicate 93 0) 7 sha256_fresh)
     = std_sha256 (replicate 4 0x11 @ [0x61, 0x62, 0x63])"
  using sha256_generate_is_sha256 [of 7 "replicate 4 0x11 @ [0x61, 0x62, 0x63] @ replicate 93 0" sha256_fresh]
  by (simp add: sha256_fresh_def)

end
