(* ===== verification/Peer_Dmr.thy ===== *)
theory Peer_Dmr
  imports C_Strings Sha256
begin

text \<open>
  The DMR network client of \<open>src/peer_dmr.c\<close> with the authentication step \<open>process_connect\<close> of
  \<open>src/hbp/dmr_hbp.c\<close>. One record holds the fields of \<open>peer_dmr_t\<close> that the code uses and the
  globals it shares with the codec (\<open>host1_connect_status\<close>, \<open>pong_time1\<close>, \<open>buf\<close>, the hash state).
  The clock is an argument; datagrams sent are returned in the order of the calls to \<open>sendto\<close>,
  whose result the code ignores. What \<open>select\<close> and \<open>recvfrom\<close> deliver to a poll is an argument too.
\<close>

section \<open>State\<close>

datatype dmr_status = DISCONNECTED | CONNECTING | CONNECTED

record dmr_peer =
  dp_sock :: int
  dp_peer :: u32
  dp_callsign :: bytes
  dp_dmrid :: u32
  dp_tg :: int
  dp_options :: bytes
  dp_password :: bytes
  dp_description :: bytes
  dp_location :: bytes
  dp_software_id :: bytes
  dp_package_id :: bytes
  dp_slots :: u8
  dp_status :: dmr_status
  dp_login_phase :: nat
  dp_login_fail_until :: int
  dp_buf :: bytes
  host1_connect_status :: dmr_status
  pong_time1 :: int
  g_buf :: bytes
  g_sha :: sha256

definition TIMEOUT :: int where "TIMEOUT = 30"

section \<open>Messages\<close>

definition pad_copy :: "bytes \<Rightarrow> nat \<Rightarrow> nat \<Rightarrow> bytes \<Rightarrow> bytes" where
  "pad_copy dst off n src =
     (let dst = memset dst off 0x20 n
      in if src \<noteq> [] then memcpy dst off (take (min (length src) n) src) else dst)"

definition base_callsign_len :: "bytes \<Rightarrow> nat" where
  "base_callsign_len cs = length (takeWhile (\<lambda>c. c \<noteq> of_char CHR ''-'' \<and> c \<noteq> of_char CHR ''/'' \<and> c \<noteq> of_char CHR ''_'') cs)"

definition rptl :: "dmr_peer \<Rightarrow> bytes" where
  "rptl p = ascii ''RPTL'' @ be_bytes (dp_dmrid p)"

definition send_rptc :: "dmr_peer \<Rightarrow> bytes" where
  "send_rptc p =
     (let desc = (if c_str (dp_description p) \<noteq> [] then c_str (dp_description p) else ascii ''ysf2dmrcon'');
          loc = (if c_str (dp_location p) \<noteq> [] then c_str (dp_location p)
                 else if c_str (dp_description p) \<noteq> [] then c_str (dp_description p) else []);
          body = replicate 294 0;
          body = pad_copy body 0 8 (c_str (dp_callsign p));
          body = pad_copy body 8 9 (ascii ''000000000'');
          body = pad_copy body 17 9 (ascii ''000000000'');
          body = pad_copy body 26 2 (ascii ''99'');
          body = pad_copy body 28 2 (ascii ''01'');
          body = pad_copy body 30 8 (ascii ''00000000'');
          body = pad_copy body 38 9 (ascii ''000000000'');
          body = pad_copy body 47 3 (ascii ''000'');
          body = pad_copy body 50 20 loc;
          body = pad_copy body 70 19 desc;
          body = body[89 := if dp_slots p \<noteq> 0 then dp_slots p else of_char CHR ''0''];
          body = pad_copy body 90 124 [];
          body = pad_copy body 214 40 (if c_str (dp_software_id p) \<noteq> [] then c_str (dp_software_id p) else ascii ''MMDVMHost'');
          body = pad_copy body 254 40 (if c_str (dp_package_id p) \<noteq> [] then c_str (dp_package_id p) else ascii ''ysf2dmrcon'')
      in ascii ''RPTC'' @ be_bytes (dp_dmrid p) @ body)"

definition send_rpto :: "dmr_peer \<Rightarrow> dmr_peer \<times> bytes list" where
  "send_rpto p =
     (if dp_options p ! 0 = 0 then (p, [])
      else let p = p\<lparr>dp_options := (dp_options p)[length (dp_options p) - 1 := 0]\<rparr>;
               opt_len = length (c_str (dp_options p));
               opt_len = (if 200 - 9 < opt_len then 200 - 9 else opt_len)
           in (p, [ascii ''RPTO'' @ be_bytes (dp_dmrid p) @ take opt_len (dp_options p)]))"

text \<open>\<open>process_connect\<close>: the nonce of the server at byte 6 of the datagram and the password are hashed.\<close>

definition process_connect :: "dmr_status \<Rightarrow> bytes \<Rightarrow> dmr_peer \<Rightarrow> dmr_status \<times> dmr_peer \<times> bytes list" where
  "process_connect st b p =
     (case st of
        CONNECTING \<Rightarrow>
          let inp = replicate 100 0;
              out = replicate 400 0;
              inp = memcpy inp 0 (sub_buf b 6 4);
              out = memcpy out 0 (ascii ''RPTK'' @ be_bytes (dp_dmrid p));
              pw = c_str (dp_password p);
              inp = memcpy inp 4 pw;
              (sha, digest) = sha256_generate inp (length pw + 4) (g_sha p);
              out = memcpy out 8 digest
          in (st, p\<lparr>g_sha := sha\<rparr>, [take 40 out])
      | _ \<Rightarrow> (st, p, []))"

section \<open>Operations\<close>

definition peer_dmr_open :: "u32 option \<Rightarrow> int \<Rightarrow> int \<Rightarrow> bytes \<Rightarrow> u32 \<Rightarrow> int \<Rightarrow> bytes \<Rightarrow> bytes
    \<Rightarrow> bytes \<Rightarrow> bytes \<Rightarrow> dmr_peer \<Rightarrow> int \<times> dmr_peer" where
  "peer_dmr_open addr sock now cs dmrid tg options password description location p =
     (let opt = (if options \<noteq> [] then (strncpy (replicate 128 0) options 127)[127 := 0] else replicate 128 0);
          p = p\<lparr>dp_sock := - 1, dp_peer := 0, dp_buf := replicate 2048 0, dp_login_fail_until := 0,
                dp_dmrid := dmrid, dp_tg := tg, dp_options := opt, dp_slots := of_char CHR ''0'',
                dp_password := strncpy (replicate 64 0) password 63,
                dp_description := (if description \<noteq> [] then strncpy (replicate 20 0) description 19 else replicate 20 0),
                dp_location := (if location \<noteq> [] then strncpy (replicate 21 0) location 20 else replicate 21 0),
                dp_package_id := strncpy (replicate 41 0) (ascii ''ysf2dmrcon'') 40,
                dp_software_id := strncpy (replicate 41 0) (ascii ''MMDVMHost'') 40,
                dp_callsign := memcpy (replicate 10 0x20) 0 (take (min (base_callsign_len cs) 10) cs),
                dp_status := DISCONNECTED, dp_login_phase := 0\<rparr>;
          p = p\<lparr>dp_sock := sock\<rparr>
      in if sock < 0 then (- 1, p)
         else case addr of
           None \<Rightarrow> (- 1, p)
         | Some a \<Rightarrow> (0, p\<lparr>dp_peer := a, host1_connect_status := DISCONNECTED, dp_login_phase := 0,
             pong_time1 := now, dp_status := DISCONNECTED\<rparr>))"

definition peer_dmr_close :: "dmr_peer \<Rightarrow> dmr_peer" where
  "peer_dmr_close p = (if 0 \<le> dp_sock p then p\<lparr>dp_sock := - 1\<rparr> else p)"

definition peer_dmr_connected :: "dmr_peer \<Rightarrow> bool" where
  "peer_dmr_connected p \<longleftrightarrow> dp_status p = CONNECTED"

definition peer_dmr_login :: "int \<Rightarrow> dmr_peer \<Rightarrow> dmr_peer \<times> bytes list" where
  "peer_dmr_login now p =
     (p\<lparr>host1_connect_status := CONNECTING, dp_login_phase := 0, pong_time1 := now,
        g_buf := memcpy (g_buf p) 0 (rptl p)\<rparr>, [rptl p])"

definition peer_dmr_tick :: "int \<Rightarrow> dmr_peer \<Rightarrow> dmr_peer \<times> bytes list" where
  "peer_dmr_tick now p =
     (if host1_connect_status p = DISCONNECTED \<and> now < dp_login_fail_until p then (p, [])
      else let (p, out) = (if host1_connect_status p = DISCONNECTED then peer_dmr_login now p else (p, []));
               p = p\<lparr>dp_status := host1_connect_status p\<rparr>
           in case host1_connect_status p of
                CONNECTED \<Rightarrow>
                  (if TIMEOUT < now - pong_time1 p
                   then p\<lparr>host1_connect_status := DISCONNECTED, dp_status := DISCONNECTED\<rparr> else p, out)
              | CONNECTING \<Rightarrow>
                  (if TIMEOUT * 2 < now - pong_time1 p
                   then p\<lparr>host1_connect_status := DISCONNECTED\<rparr> else p, out)
              | DISCONNECTED \<Rightarrow> (p, out))"

definition login_complete :: "int \<Rightarrow> dmr_peer \<Rightarrow> dmr_peer" where
  "login_complete now p = p\<lparr>host1_connect_status := CONNECTED, dp_login_phase := 4, pong_time1 := now\<rparr>"

definition on_rptack :: "int \<Rightarrow> dmr_peer \<Rightarrow> dmr_peer \<times> bytes list" where
  "on_rptack now p =
     (if dp_login_phase p = 0
      then let (st, p, out) = process_connect (host1_connect_status p) (g_buf p) p
           in (p\<lparr>host1_connect_status := st, dp_login_phase := 1\<rparr>, out)
      else if dp_login_phase p = 1 then (p\<lparr>dp_login_phase := 2\<rparr>, [send_rptc p])
      else if dp_login_phase p = 2
      then if dp_options p ! 0 \<noteq> 0
           then let (p, out) = send_rpto p in (p\<lparr>dp_login_phase := 3\<rparr>, out)
           else (login_complete now p, [])
      else if dp_login_phase p = 3 then (login_complete now p, [])
      else (p, []))"

definition handle_rx :: "int \<Rightarrow> dmr_peer \<Rightarrow> dmr_peer \<times> bytes list" where
  "handle_rx now p =
     (let p = (if host1_connect_status p = CONNECTED then p\<lparr>pong_time1 := now\<rparr> else p);
          (p, out) =
            (if host1_connect_status p = CONNECTING
             then if starts_with (g_buf p) (ascii ''RPTACK'') then on_rptack now p
                  else if starts_with (g_buf p) (ascii ''MSTNAK'')
                  then (p\<lparr>host1_connect_status := DISCONNECTED, dp_login_fail_until := now + 3\<rparr>, [])
                  else (p, [])
             else (p, []))
      in (p\<lparr>dp_status := host1_connect_status p\<rparr>, out))"

text \<open>What a poll finds: nothing (time out or failed select), a failed receive, a datagram.\<close>

datatype rx_event = Rx_none | Rx_fail int | Rx_from u32 bytes

definition peer_dmr_poll :: "rx_event \<Rightarrow> int \<Rightarrow> dmr_peer \<Rightarrow> int \<times> bool \<times> dmr_peer \<times> bytes list" where
  "peer_dmr_poll ev now p =
     (case ev of
        Rx_none \<Rightarrow> (0, False, p, [])
      | Rx_fail r \<Rightarrow> (r, False, p, [])
      | Rx_from addr dgram \<Rightarrow>
          let data = take 2048 dgram; rxlen = length data
          in if rxlen = 0 then (0, False, p, [])
             else let p = p\<lparr>g_buf := memcpy (g_buf p) 0 data\<rparr>;
                      p = p\<lparr>dp_buf := memcpy (dp_buf p) 0 (take (min rxlen (length (dp_buf p))) (g_buf p))\<rparr>
                  in if addr = dp_peer p
                     then let (p, out) = handle_rx now p in (int rxlen, True, p, out)
                     else (int rxlen, False, p, []))"

definition peer_dmr_send :: "bytes \<Rightarrow> bytes list" where
  "peer_dmr_send data = [data]"

definition peer_dmr_on_sigint :: "dmr_peer \<Rightarrow> dmr_peer \<times> bytes list" where
  "peer_dmr_on_sigint p =
     (if 0 \<le> dp_sock p
      then (peer_dmr_close p, if host1_connect_status p = CONNECTED then [ascii ''RPTCL'' @ be_bytes (dp_dmrid p)] else [])
      else (p, []))"

definition peer_dmr_on_alarm :: "dmr_peer \<Rightarrow> bytes list" where
  "peer_dmr_on_alarm p =
     (if host1_connect_status p \<noteq> CONNECTED then [] else [ascii ''RPTPING'' @ be_bytes (dp_dmrid p)])"

end
