(* ===== verification/Keepalive.thy ===== *)
theory Keepalive
  imports Main
begin

text \<open>
  The contract the network clients of the bridge share: a link that is up stays up as long as the
  last sign of life is recent, and a periodic tick takes it down otherwise. Every client counts
  seconds since a time stamp and compares them with a limit of its own.
\<close>

locale keepalive =
  fixes up :: "'s \<Rightarrow> bool" and stamp :: "'s \<Rightarrow> int" and limit :: int
    and tick :: "int \<Rightarrow> 's \<Rightarrow> 's"
  assumes stays: "\<And>s now. up s \<Longrightarrow> now - stamp s \<le> limit \<Longrightarrow> up (tick now s) \<and> stamp (tick now s) = stamp s"
    and drops: "\<And>s now. up s \<Longrightarrow> limit < now - stamp s \<Longrightarrow> \<not> up (tick now s)"
    and silent: "\<And>s now. \<not> up s \<Longrightarrow> \<not> up (tick now s)"
begin

lemma ticks_up: "up (fold tick ts s) \<longleftrightarrow> up s \<and> (\<forall>t \<in> set ts. t - stamp s \<le> limit)"
proof (induction ts arbitrary: s)
  case (Cons t ts)
  show ?case
  proof (cases "up s \<and> t - stamp s \<le> limit")
    case True
    then show ?thesis using stays [of s t] Cons [of "tick t s"] by simp
  next
    case False
    then have "\<not> up (tick t s)" using drops [of s t] silent [of s t] by (cases "up s") auto
    then show ?thesis using False Cons [of "tick t s"] by auto
  qed
qed simp

lemma ticks_stamp: "up (fold tick ts s) \<Longrightarrow> stamp (fold tick ts s) = stamp s"
proof (induction ts arbitrary: s)
  case (Cons t ts)
  then have "up s" "t - stamp s \<le> limit" using ticks_up [of "t # ts" s] by auto
  then show ?case using Cons stays [of s t] by simp
qed simp

lemma down_for_good: "\<not> up s \<Longrightarrow> \<not> up (fold tick ts s)"
  using ticks_up by blast

end

end
