(* ===== verification/Peer_Dmr_Props.thy ===== *)
theory Peer_Dmr_Props
  imports Peer_Dmr Keepalive
begin

text \<open>
  The DMR client is a login protocol. This theory states the protocol as a small step relation,
  shows that every operation of the client is one of its steps or leaves it where it is, and draws
  the consequences: when the client believes it is connected, how it gets there, how it falls back.
\<close>

section \<open>Well-formed clients\<close>

definition dmr_wf :: "dmr_peer \<Rightarrow> bool" where
  "dmr_wf p \<longleftrightarrow> length (dp_options p) = 128 \<and> dp_options p ! 127 = 0
     \<and> length (dp_password p) = 64 \<and> dp_password p ! 63 = 0 \<and> length (dp_callsign p) = 10
     \<and> length (dp_buf p) = 2048 \<and> length (g_buf p) = 2048 \<and> length (sha256_buffer (g_sha p)) = 128"

definition dmr_inv :: "dmr_peer \<Rightarrow> bool" where
  "dmr_inv p \<longleftrightarrow> dmr_wf p
     \<and> (host1_connect_status p = CONNECTING \<longrightarrow>
          dp_login_phase p \<le> 2 \<or> dp_login_phase p = 3 \<and> dp_options p ! 0 \<noteq> 0)
     \<and> (host1_connect_status p = CONNECTED \<longrightarrow> dp_login_phase p = 4)
     \<and> (dp_status p = CONNECTED \<longleftrightarrow> host1_connect_status p = CONNECTED)"

text \<open>What no operation after \<open>peer_dmr_open\<close> changes.\<close>

definition dmr_config :: "dmr_peer \<Rightarrow> (u32 \<times> u32 \<times> u8) \<times> bytes list" where
  "dmr_config p = ((dp_peer p, dp_dmrid p, dp_slots p), [dp_options p, dp_password p, dp_callsign p,
     dp_description p, dp_location p, dp_software_id p, dp_package_id p])"

section \<open>The login protocol\<close>

datatype login = Down | Await nat | Up

datatype login_event = Request | Ack | Nak | Timeout

definition last_stage :: "bool \<Rightarrow> nat" where
  "last_stage opts = (if opts then 3 else 2)"

inductive login_step :: "bool \<Rightarrow> login \<Rightarrow> login_event \<Rightarrow> login \<Rightarrow> bool" for opts where
  request: "login_step opts Down Request (Await 0)"
| ack: "n < last_stage opts \<Longrightarrow> login_step opts (Await n) Ack (Await (Suc n))"
| accepted: "n = last_stage opts \<Longrightarrow> login_step opts (Await n) Ack Up"
| rejected: "login_step opts (Await n) Nak Down"
| stalled: "login_step opts (Await n) Timeout Down"
| lost: "login_step opts Up Timeout Down"

code_pred (modes: i \<Rightarrow> i \<Rightarrow> i \<Rightarrow> o \<Rightarrow> bool) login_step .

inductive_simps login_step_simps [simp]:
  "login_step opts Down e s'" "login_step opts (Await n) e s'" "login_step opts Up e s'"

inductive_cases login_step_up [elim!]: "login_step opts s e Up"

inductive login_run :: "bool \<Rightarrow> login \<Rightarrow> login_event list \<Rightarrow> login \<Rightarrow> bool" for opts where
  start: "login_run opts s [] s"
| more: "login_run opts s es s' \<Longrightarrow> login_step opts s' e s'' \<Longrightarrow> login_run opts s (es @ [e]) s''"

text \<open>A run that reaches a stage ends with a request and as many acknowledgements as the stage says.\<close>

lemma login_run_stage:
  assumes "login_run opts Down es s"
  shows "(\<forall>n. s = Await n \<longrightarrow> (\<exists>pre. es = pre @ Request # replicate n Ack) \<and> n \<le> last_stage opts)
    \<and> (s = Up \<longrightarrow> (\<exists>pre. es = pre @ Request # replicate (Suc (last_stage opts)) Ack))"
  using assms
proof (induction Down es s rule: login_run.induct)
  case (more es s' e s'')
  show ?case
  proof (cases s')
    case Down
    then show ?thesis using more by auto
  next
    case (Await n)
    then obtain pre where pre: "es = pre @ Request # replicate n Ack" "n \<le> last_stage opts"
      using more by auto
    then have "es @ [Ack] = pre @ Request # replicate (Suc n) Ack"
      by (simp add: replicate_append_same)
    then show ?thesis using more.hyps(3) Await by auto
  next
    case Up
    then show ?thesis using more by auto
  qed
qed simp

section \<open>The client as a login protocol\<close>

datatype dmr_act = Tick int | Poll rx_event int | Alarm | Voice bytes

definition dmr_step :: "dmr_act \<Rightarrow> dmr_peer \<Rightarrow> dmr_peer \<times> bytes list" where
  "dmr_step a p =
     (case a of Tick now \<Rightarrow> peer_dmr_tick now p
      | Poll ev now \<Rightarrow> let (r, from, p, out) = peer_dmr_poll ev now p in (p, out)
      | Alarm \<Rightarrow> (p, peer_dmr_on_alarm p)
      | Voice data \<Rightarrow> (p, peer_dmr_send data))"

definition login_abs :: "dmr_peer \<Rightarrow> login" where
  "login_abs p = (case host1_connect_status p of DISCONNECTED \<Rightarrow> Down
     | CONNECTING \<Rightarrow> Await (dp_login_phase p) | CONNECTED \<Rightarrow> Up)"

definition has_options :: "dmr_peer \<Rightarrow> bool" where
  "has_options p \<longleftrightarrow> dp_options p ! 0 \<noteq> 0"

text \<open>The contents of the receive buffer that a poll of an event hands to \<open>handle_rx\<close>.\<close>

definition rx_buf :: "bytes \<Rightarrow> dmr_peer \<Rightarrow> bytes" where
  "rx_buf dgram p = memcpy (g_buf p) 0 (take 2048 dgram)"

definition dmr_event :: "dmr_act \<Rightarrow> dmr_peer \<Rightarrow> login_event list" where
  "dmr_event a p =
     (case a of
        Tick now \<Rightarrow>
          (case host1_connect_status p of
             DISCONNECTED \<Rightarrow> if now < dp_login_fail_until p then [] else [Request]
           | CONNECTING \<Rightarrow> if 60 < now - pong_time1 p then [Timeout] else []
           | CONNECTED \<Rightarrow> if 30 < now - pong_time1 p then [Timeout] else [])
      | Poll (Rx_from addr dgram) now \<Rightarrow>
          if dgram \<noteq> [] \<and> addr = dp_peer p \<and> host1_connect_status p = CONNECTING
          then if starts_with (rx_buf dgram p) (ascii ''RPTACK'') then [Ack]
               else if starts_with (rx_buf dgram p) (ascii ''MSTNAK'') then [Nak] else []
          else []
      | _ \<Rightarrow> [])"

definition rptk :: "dmr_peer \<Rightarrow> bytes \<Rightarrow> bytes" where
  "rptk p nonce = ascii ''RPTK'' @ be_bytes (dp_dmrid p) @ std_sha256 (nonce @ c_str (dp_password p))"

definition rpto :: "dmr_peer \<Rightarrow> bytes" where
  "rpto p = ascii ''RPTO'' @ be_bytes (dp_dmrid p) @ c_str (dp_options p)"

text \<open>What the client sends on an event of the protocol.\<close>

definition login_reply :: "dmr_act \<Rightarrow> dmr_peer \<Rightarrow> bytes list" where
  "login_reply a p =
     (case (dmr_event a p, login_abs p) of
        ([Request], _) \<Rightarrow> [rptl p]
      | ([Ack], Await n) \<Rightarrow>
          (case a of Poll (Rx_from addr dgram) now \<Rightarrow>
             if n = 0 then [rptk p (sub_buf (rx_buf dgram p) 6 4)]
             else if n = 1 then [send_rptc p]
             else if n = 2 \<and> has_options p then [rpto p] else []
           | _ \<Rightarrow> [])
      | _ \<Rightarrow> [])"

section \<open>Every operation is a step of the protocol\<close>

lemma process_connect_eq:
  assumes "dmr_wf p" "length b = 2048"
  obtains sha where "process_connect CONNECTING b p = (CONNECTING, p\<lparr>g_sha := sha\<rparr>, [rptk p (sub_buf b 6 4)])"
    "length (sha256_buffer sha) = 128"
proof -
  let ?pw = "c_str (dp_password p)" and ?in = "memcpy (memcpy (replicate 100 0) 0 (sub_buf b 6 4)) 4 (c_str (dp_password p))"
  have l: "length ?pw \<le> 63" using c_str_room [of "dp_password p" 63] assms(1) by (simp add: dmr_wf_def)
  have n: "length (sub_buf b 6 4) = 4" using assms(2) by simp
  have "take (length ?pw + 4) ?in = sub_buf b 6 4 @ ?pw" using n l by (simp add: memcpy_def)
  moreover have "length ?in = 100" using n l by simp
  ultimately have g: "snd (sha256_generate ?in (length ?pw + 4) (g_sha p)) = std_sha256 (sub_buf b 6 4 @ ?pw)"
    "length (sha256_buffer (fst (sha256_generate ?in (length ?pw + 4) (g_sha p)))) = 128"
    using sha256_generate_aux [of "length ?pw + 4" ?in "g_sha p"] l assms(1) by (simp_all add: dmr_wf_def)
  have "take 40 (memcpy (memcpy (replicate 400 0) 0 (ascii ''RPTK'' @ be_bytes (dp_dmrid p))) 8 (std_sha256 m))
      = ascii ''RPTK'' @ be_bytes (dp_dmrid p) @ std_sha256 m" for m
    by (simp add: memcpy_def)
  then have "process_connect CONNECTING b p
      = (CONNECTING, p\<lparr>g_sha := fst (sha256_generate ?in (length ?pw + 4) (g_sha p))\<rparr>, [rptk p (sub_buf b 6 4)])"
    using g(1) by (simp add: process_connect_def Let_def case_prod_beta rptk_def)
  then show ?thesis using that g(2) by blast
qed

lemma send_rpto_eq:
  assumes "dmr_wf p" "has_options p"
  shows "send_rpto p = (p, [rpto p])"
proof -
  have l: "length (dp_options p) = 128" "dp_options p ! 127 = 0" using assms(1) by (simp_all add: dmr_wf_def)
  have "(dp_options p)[127 := 0] = dp_options p" using l by (metis list_update_id)
  moreover have "length (c_str (dp_options p)) \<le> 127" using c_str_room [of "dp_options p" 127] l by simp
  moreover have "take (length (c_str (dp_options p))) (dp_options p) = c_str (dp_options p)"
    unfolding c_str_def by (rule takeWhile_eq_take [symmetric])
  ultimately show ?thesis
    using assms(2) l by (simp add: send_rpto_def has_options_def rpto_def Let_def)
qed

lemmas login_defs = login_abs_def dmr_event_def login_reply_def dmr_inv_def dmr_wf_def dmr_config_def has_options_def

lemma one: "login_step opts s e s' \<Longrightarrow> login_run opts s [e] s'"
  using login_run.more [OF login_run.start] by simp

lemma tick_step:
  assumes "dmr_inv p" "peer_dmr_tick now p = (p', out)"
  shows "dmr_inv p' \<and> dmr_config p' = dmr_config p \<and> out = login_reply (Tick now) p
    \<and> login_run (has_options p) (login_abs p) (dmr_event (Tick now) p) (login_abs p')"
proof -
  have r: "length (memcpy (g_buf p) 0 (rptl p)) = 2048" using assms(1) by (simp add: login_defs rptl_def)
  show ?thesis
    using assms r unfolding peer_dmr_tick_def peer_dmr_login_def Let_def
    by (cases "host1_connect_status p")
      (auto simp: login_defs TIMEOUT_def intro: login_run.start one split: if_splits)
qed

lemma on_rptack_step:
  assumes "dmr_inv p" "host1_connect_status p = CONNECTING" "on_rptack now p = (p', out)"
  shows "dmr_inv (p'\<lparr>dp_status := host1_connect_status p'\<rparr>) \<and> dmr_config p' = dmr_config p
    \<and> login_step (has_options p) (login_abs p) Ack (login_abs p')
    \<and> out = (if dp_login_phase p = 0 then [rptk p (sub_buf (g_buf p) 6 4)]
        else if dp_login_phase p = 1 then [send_rptc p]
        else if dp_login_phase p = 2 \<and> has_options p then [rpto p] else [])"
proof -
  have wf: "dmr_wf p" and len: "length (g_buf p) = 2048" using assms(1) by (simp_all add: login_defs)
  obtain sha where sha: "process_connect CONNECTING (g_buf p) p = (CONNECTING, p\<lparr>g_sha := sha\<rparr>, [rptk p (sub_buf (g_buf p) 6 4)])"
    "length (sha256_buffer sha) = 128"
    using process_connect_eq [OF wf len] by blast
  have rpto: "has_options p \<Longrightarrow> send_rpto p = (p, [rpto p])" by (rule send_rpto_eq [OF wf])
  show ?thesis
    using assms sha rpto unfolding on_rptack_def login_complete_def
    by (auto simp: login_defs last_stage_def Let_def split: if_splits)
qed

lemma login_abs_status [simp]:
  "login_abs (p\<lparr>dp_status := s\<rparr>) = login_abs p" "dmr_config (p\<lparr>dp_status := s\<rparr>) = dmr_config p"
  "login_abs (p\<lparr>dp_buf := b\<rparr>) = login_abs p" "login_abs (p\<lparr>g_buf := c\<rparr>) = login_abs p"
  by (simp_all add: login_abs_def dmr_config_def split: dmr_status.splits)

lemma poll_step:
  assumes "dmr_inv p" "peer_dmr_poll ev now p = (r, from, p', out)"
  shows "dmr_inv p' \<and> dmr_config p' = dmr_config p \<and> out = login_reply (Poll ev now) p
    \<and> login_run (has_options p) (login_abs p) (dmr_event (Poll ev now) p) (login_abs p')"
proof (cases "\<exists>addr dgram. ev = Rx_from addr dgram \<and> dgram \<noteq> []")
  case False
  then show ?thesis using assms
    by (cases ev) (auto simp: peer_dmr_poll_def Let_def dmr_event_def login_reply_def intro: login_run.start)
next
  case True
  then obtain addr dgram where ev: "ev = Rx_from addr dgram" "dgram \<noteq> []" by blast
  define q where "q = p\<lparr>g_buf := rx_buf dgram p,
    dp_buf := memcpy (dp_buf p) 0 (take (min (length (take 2048 dgram)) (length (dp_buf p))) (rx_buf dgram p))\<rparr>"
  have len: "length (g_buf p) = 2048" "length (dp_buf p) = 2048" using assms(1) by (simp_all add: login_defs)
  have q: "dmr_inv q" "dmr_config q = dmr_config p" "login_abs q = login_abs p" "has_options q = has_options p"
    "g_buf q = rx_buf dgram p" "host1_connect_status q = host1_connect_status p" "dp_login_phase q = dp_login_phase p"
    "dp_peer q = dp_peer p" "send_rptc q = send_rptc p" "rpto q = rpto p" "rptk q = rptk p"
    using assms(1) len
    by (auto simp: q_def login_defs rx_buf_def send_rptc_def rpto_def rptk_def fun_eq_iff split: dmr_status.splits)
  have "peer_dmr_poll ev now p = (if addr = dp_peer p then let (p, out) = handle_rx now q in (int (length (take 2048 dgram)), True, p, out)
      else (int (length (take 2048 dgram)), False, q, []))"
  proof -
    have "length (take 2048 dgram) \<noteq> 0" using ev(2) by (cases dgram) simp_all
    then show ?thesis
      by (simp only: ev(1) peer_dmr_poll_def rx_event.case Let_def q_def rx_buf_def if_False) simp
  qed
  then have poll: "(r, from, p', out) = (if addr = dp_peer p then let (p, out) = handle_rx now q in (int (length (take 2048 dgram)), True, p, out)
      else (int (length (take 2048 dgram)), False, q, []))"
    using assms(2) by simp
  show ?thesis
  proof (cases "addr = dp_peer p")
    case False
    then show ?thesis using poll q ev by (auto simp: dmr_event_def login_reply_def intro: login_run.start)
  next
    case True
    then have h: "handle_rx now q = (p', out)" using poll by (simp split: prod.splits)
    show ?thesis
    proof (cases "host1_connect_status p = CONNECTING \<and> starts_with (rx_buf dgram p) (ascii ''RPTACK'')")
      case True
      then obtain p'' where p'': "on_rptack now q = (p'', out)" "p' = p''\<lparr>dp_status := host1_connect_status p''\<rparr>"
        using h q unfolding handle_rx_def Let_def by (auto split: prod.splits)
      have c: "host1_connect_status q = CONNECTING" using True q(6) by simp
      have e: "dmr_event (Poll ev now) p = [Ack]" "login_abs p = Await (dp_login_phase p)"
        using True \<open>addr = dp_peer p\<close> ev by (simp_all add: dmr_event_def login_abs_def)
      note st = on_rptack_step [OF q(1) c p''(1), unfolded q]
      have "login_run (has_options p) (login_abs p) [Ack] (login_abs p')"
        unfolding p''(2) login_abs_status by (rule one) (use st in blast)
      moreover have "out = login_reply (Poll ev now) p"
        using st e by (auto simp: login_reply_def ev(1))
      ultimately show ?thesis using st p''(2) e by simp
    next
      case False
      then show ?thesis
        using h q(1-8) \<open>addr = dp_peer p\<close> ev unfolding handle_rx_def Let_def
        by (cases "host1_connect_status p") (auto simp: login_defs intro: login_run.start one split: if_splits)
    qed
  qed
qed

section \<open>Runs of the client\<close>

fun dmr_runs :: "dmr_act list \<Rightarrow> dmr_peer \<Rightarrow> dmr_peer \<times> login_event list \<times> bytes list" where
  "dmr_runs [] p = (p, [], [])"
| "dmr_runs (a # as) p =
     (let (p1, out1) = dmr_step a p; (p2, es, out2) = dmr_runs as p1
      in (p2, dmr_event a p @ es, out1 @ out2))"

lemma login_run_append:
  "login_run opts s' es' s'' \<Longrightarrow> login_run opts s es s' \<Longrightarrow> login_run opts s (es @ es') s''"
  by (induction rule: login_run.induct) (auto intro: login_run.more simp: append_assoc [symmetric] simp del: append_assoc)

lemma login_run_single: "login_run opts s [e] s' \<longleftrightarrow> login_step opts s e s'"
proof
  assume "login_run opts s [e] s'"
  then show "login_step opts s e s'"
    by (cases rule: login_run.cases) (auto elim: login_run.cases)
qed (rule one)

lemma config_messages:
  "dmr_config p = dmr_config q \<Longrightarrow> has_options p = has_options q \<and> rptl p = rptl q \<and> rptk p = rptk q
     \<and> send_rptc p = send_rptc q \<and> rpto p = rpto q \<and> dp_peer p = dp_peer q"
  by (auto simp: dmr_config_def has_options_def rptl_def rptk_def send_rptc_def rpto_def fun_eq_iff)

definition dmr_sends :: "dmr_act \<Rightarrow> dmr_peer \<Rightarrow> bytes list" where
  "dmr_sends a p = (case a of Voice data \<Rightarrow> [data]
     | Alarm \<Rightarrow> if login_abs p = Up then [ascii ''RPTPING'' @ be_bytes (dp_dmrid p)] else []
     | _ \<Rightarrow> login_reply a p)"

lemma dmr_step_protocol:
  assumes "dmr_inv p" "dmr_step a p = (p', out)"
  shows "dmr_inv p' \<and> dmr_config p' = dmr_config p \<and> out = dmr_sends a p
    \<and> login_run (has_options p) (login_abs p) (dmr_event a p) (login_abs p')"
proof (cases a)
  case (Tick now)
  then show ?thesis using tick_step [OF assms(1)] assms(2) by (simp add: dmr_step_def dmr_sends_def)
next
  case (Poll ev now)
  then show ?thesis using poll_step [OF assms(1)] assms(2)
    by (auto simp: dmr_step_def dmr_sends_def split: prod.splits)
next
  case Alarm
  then show ?thesis using assms
    by (auto simp: dmr_step_def dmr_sends_def dmr_event_def peer_dmr_on_alarm_def login_abs_def
        intro: login_run.start split: dmr_status.splits)
next
  case (Voice data)
  then show ?thesis using assms
    by (auto simp: dmr_step_def dmr_sends_def dmr_event_def peer_dmr_send_def intro: login_run.start)
qed

lemma dmr_runs_protocol:
  "dmr_inv p \<Longrightarrow> dmr_runs as p = (p', es, out) \<Longrightarrow>
   dmr_inv p' \<and> dmr_config p' = dmr_config p \<and> login_run (has_options p) (login_abs p) es (login_abs p')"
proof (induction as arbitrary: p p' es out)
  case Nil
  then show ?case by (auto intro: login_run.start)
next
  case (Cons a as)
  obtain p1 out1 where 1: "dmr_step a p = (p1, out1)" by fastforce
  obtain p2 es2 out2 where 2: "dmr_runs as p1 = (p2, es2, out2)" by (cases "dmr_runs as p1")
  note s = dmr_step_protocol [OF Cons.prems(1) 1]
  then have "dmr_inv p1" by simp
  note r = Cons.IH [OF this 2]
  have "has_options p1 = has_options p" using s config_messages by blast
  then show ?case using s r Cons.prems(2) 1 2 login_run_append by auto
qed

lemma open_starts:
  assumes "peer_dmr_open addr sock now cs dmrid tg options password description location g = (0, p)"
    "length (g_buf g) = 2048" "length (sha256_buffer (g_sha g)) = 128"
  shows "dmr_inv p \<and> login_abs p = Down \<and> (has_options p \<longleftrightarrow> options \<noteq> [] \<and> options ! 0 \<noteq> 0)"
proof -
  have cs: "length (memcpy (replicate 10 (0x20 :: u8)) 0 (take (min (base_callsign_len cs) 10) cs)) = 10" by simp
  have pw: "strncpy (replicate 64 0) password 63 ! 63 = 0"
    by (simp add: strncpy_nth)
  have op: "strncpy (replicate 128 0) options 127 ! 0 = options ! 0" if "options \<noteq> []"
    using that by (simp add: strncpy_def nth_memcpy nth_append)
  show ?thesis
    using assms cs pw op unfolding peer_dmr_open_def Let_def
    by (auto simp: login_defs split: if_splits option.splits)
qed

section \<open>Keepalive\<close>

interpretation dmr_link: keepalive "\<lambda>p. login_abs p = Up" pong_time1 30 "\<lambda>now p. fst (peer_dmr_tick now p)"
  by unfold_locales
    (auto simp: login_abs_def peer_dmr_tick_def peer_dmr_login_def TIMEOUT_def Let_def split: dmr_status.splits if_splits)

section \<open>Concrete clients for the witnesses\<close>

definition dmr_globals :: dmr_peer where
  "dmr_globals = \<lparr>dp_sock = - 1, dp_peer = 0, dp_callsign = [], dp_dmrid = 0, dp_tg = 0, dp_options = [],
     dp_password = [], dp_description = [], dp_location = [], dp_software_id = [], dp_package_id = [], dp_slots = 0,
     dp_status = DISCONNECTED, dp_login_phase = 0, dp_login_fail_until = 0, dp_buf = [],
     host1_connect_status = DISCONNECTED, pong_time1 = 0, g_buf = replicate 2048 0, g_sha = sha256_fresh\<rparr>"

definition dmr_opened :: "bytes \<Rightarrow> dmr_peer" where
  "dmr_opened options = snd (peer_dmr_open (Some 0x0100007F) 5 1000 (ascii ''CE5RPY-9'') 730555 4000 options
     (ascii ''secret'') [] [] dmr_globals)"

lemma dmr_opened_facts:
  "peer_dmr_open (Some 0x0100007F) 5 1000 (ascii ''CE5RPY-9'') 730555 4000 options (ascii ''secret'') [] [] dmr_globals
     = (0, dmr_opened options)"
  "host1_connect_status (dmr_opened options) = DISCONNECTED" "dp_login_fail_until (dmr_opened options) = 0"
  "dp_peer (dmr_opened options) = 0x0100007F"
  by (simp_all add: dmr_opened_def peer_dmr_open_def Let_def)

lemma dmr_opened_inv: "dmr_inv (dmr_opened options)"
  using open_starts [OF dmr_opened_facts(1)] by (simp add: dmr_globals_def sha256_fresh_def)

lemma ack_poll:
  assumes "dmr_inv p" "login_abs p = Await n" "starts_with d (ascii ''RPTACK'')" "length d \<le> 2048"
  shows "\<exists>p' out. dmr_step (Poll (Rx_from (dp_peer p) d) now) p = (p', out) \<and> dmr_inv p' \<and> dmr_config p' = dmr_config p
    \<and> dmr_event (Poll (Rx_from (dp_peer p) d) now) p = [Ack]
    \<and> login_abs p' = (if n = last_stage (has_options p) then Up else Await (Suc n))
    \<and> out = (if n = 0 then [rptk p (sub_buf (rx_buf d p) 6 4)] else if n = 1 then [send_rptc p]
        else if n = 2 \<and> has_options p then [rpto p] else [])"
proof -
  let ?a = "Poll (Rx_from (dp_peer p) d) now"
  obtain p' out where st: "dmr_step ?a p = (p', out)" by fastforce
  have "min (length d) 6 = 6"
    using arg_cong [OF assms(3) [unfolded starts_with_def], of length] by simp
  then have "6 \<le> length d" "d \<noteq> []" by auto
  moreover have "host1_connect_status p = CONNECTING"
    using assms(2) by (simp add: login_abs_def split: dmr_status.splits)
  ultimately have e: "dmr_event ?a p = [Ack]"
    using assms(3,4) by (simp add: dmr_event_def rx_buf_def)
  note pr = dmr_step_protocol [OF assms(1) st]
  have "login_step (has_options p) (Await n) Ack (login_abs p')"
    using pr e assms(2) by (simp add: login_run_single del: login_step_simps)
  then have "login_abs p' = (if n = last_stage (has_options p) then Up else Await (Suc n))"
    by (cases rule: login_step.cases) auto
  then show ?thesis
    using st pr e assms(2) by (simp add: dmr_sends_def login_reply_def)
qed

text \<open>The server's side of a login: acknowledgements, each with the time it is read.\<close>

definition dmr_replies :: "dmr_peer \<Rightarrow> (int \<times> bytes) list \<Rightarrow> dmr_act list" where
  "dmr_replies p acks = map (\<lambda>(t, d). Poll (Rx_from (dp_peer p) d) t) acks"

lemma rptack_nonce:
  "10 \<le> length d \<Longrightarrow> length d \<le> 2048 \<Longrightarrow> sub_buf (rx_buf d p) 6 4 = sub_buf d 6 4"
  by (simp add: rx_buf_def memcpy_def sub_buf_def)

lemma acks_complete:
  assumes "dmr_inv p" "login_abs p = Await n" "n \<le> last_stage (has_options p)"
    and "\<forall>(t, d) \<in> set acks. starts_with d (ascii ''RPTACK'') \<and> 10 \<le> length d \<and> length d \<le> 2048"
    and "length acks = Suc (last_stage (has_options p)) - n"
  shows "\<exists>p' out. dmr_runs (dmr_replies p acks) p = (p', replicate (length acks) Ack, out)
    \<and> dmr_inv p' \<and> login_abs p' = Up
    \<and> out = drop n ([rptk p (sub_buf (snd (acks ! 0)) 6 4), send_rptc p] @ (if has_options p then [rpto p] else []))"
  using assms
proof (induction acks arbitrary: p n)
  case (Cons a acks)
  obtain t d where a: "a = (t, d)" by fastforce
  have d: "starts_with d (ascii ''RPTACK'')" "10 \<le> length d" "length d \<le> 2048" using Cons.prems(4) a by auto
  obtain p1 out1 where s: "dmr_step (Poll (Rx_from (dp_peer p) d) t) p = (p1, out1)" "dmr_inv p1" "dmr_config p1 = dmr_config p"
    "dmr_event (Poll (Rx_from (dp_peer p) d) t) p = [Ack]"
    "login_abs p1 = (if n = last_stage (has_options p) then Up else Await (Suc n))"
    "out1 = (if n = 0 then [rptk p (sub_buf (rx_buf d p) 6 4)] else if n = 1 then [send_rptc p]
        else if n = 2 \<and> has_options p then [rpto p] else [])"
    using ack_poll [OF Cons.prems(1,2) d(1,3), of t] by blast
  note c = config_messages [OF s(3)]
  have reps: "dmr_replies p1 acks = dmr_replies p acks" using c by (simp add: dmr_replies_def)
  have nonce: "sub_buf (rx_buf d p) 6 4 = sub_buf d 6 4" using d by (simp add: rptack_nonce)
  show ?case
  proof (cases "n = last_stage (has_options p)")
    case True
    then have "acks = []" using Cons.prems(5) by simp
    then show ?thesis using s True by (simp add: a dmr_replies_def last_stage_def split: if_splits)
  next
    case False
    then have n: "Suc n \<le> last_stage (has_options p)" "login_abs p1 = Await (Suc n)" using Cons.prems(3) s(5) by simp_all
    have "\<exists>p' out. dmr_runs (dmr_replies p1 acks) p1 = (p', replicate (length acks) Ack, out)
      \<and> dmr_inv p' \<and> login_abs p' = Up
      \<and> out = drop (Suc n) ([rptk p1 (sub_buf (snd (acks ! 0)) 6 4), send_rptc p1] @ (if has_options p1 then [rpto p1] else []))"
      by (rule Cons.IH [OF s(2) n(2)]) (use Cons.prems n(1) c in auto)
    then obtain p' out where r: "dmr_runs (dmr_replies p acks) p1 = (p', replicate (length acks) Ack, out)"
      "dmr_inv p'" "login_abs p' = Up"
      "out = drop (Suc n) ([rptk p (sub_buf (snd (acks ! 0)) 6 4), send_rptc p] @ (if has_options p then [rpto p] else []))"
      unfolding reps using c by auto
    have "out1 @ out = drop n ([rptk p (sub_buf d 6 4), send_rptc p] @ (if has_options p then [rpto p] else []))"
      using n(1) s(6) [unfolded nonce] r(4) by (auto simp: last_stage_def le_Suc_eq numeral_eq_Suc split: if_splits)
    then show ?thesis using r s by (simp add: a dmr_replies_def)
  qed
qed simp

lemma login_completes:
  assumes "dmr_inv p" "host1_connect_status p = DISCONNECTED" "dp_login_fail_until p \<le> now"
    and "\<forall>(t, d) \<in> set acks. starts_with d (ascii ''RPTACK'') \<and> 10 \<le> length d \<and> length d \<le> 2048"
    and "length acks = (if has_options p then 4 else 3)"
  shows "\<exists>p'. dmr_runs (Tick now # dmr_replies p acks) p
      = (p', Request # replicate (length acks) Ack,
         [rptl p, rptk p (sub_buf (snd (acks ! 0)) 6 4), send_rptc p] @ (if has_options p then [rpto p] else []))
    \<and> peer_dmr_connected p'"
proof -
  obtain p1 out1 where s: "dmr_step (Tick now) p = (p1, out1)" by fastforce
  note pr = dmr_step_protocol [OF assms(1) s]
  have e: "dmr_event (Tick now) p = [Request]" using assms(2,3) by (simp add: dmr_event_def)
  then have "login_step (has_options p) Down Request (login_abs p1)"
    using pr assms(2) by (simp add: login_run_single login_abs_def del: login_step_simps)
  then have l1: "login_abs p1 = Await 0" by (cases rule: login_step.cases) auto
  have c: "has_options p1 = has_options p" "dmr_replies p1 acks = dmr_replies p acks" "rptk p1 = rptk p"
    "send_rptc p1 = send_rptc p" "rpto p1 = rpto p"
    using pr config_messages [of p1 p] by (auto simp: dmr_replies_def)
  have "\<exists>p' out. dmr_runs (dmr_replies p1 acks) p1 = (p', replicate (length acks) Ack, out)
    \<and> dmr_inv p' \<and> login_abs p' = Up
    \<and> out = drop 0 ([rptk p1 (sub_buf (snd (acks ! 0)) 6 4), send_rptc p1] @ (if has_options p1 then [rpto p1] else []))"
    by (rule acks_complete) (use pr l1 assms(4,5) c(1) in \<open>simp_all add: last_stage_def\<close>)
  then obtain p' out where r: "dmr_runs (dmr_replies p1 acks) p1 = (p', replicate (length acks) Ack, out)"
    "dmr_inv p'" "login_abs p' = Up"
    "out = drop 0 ([rptk p1 (sub_buf (snd (acks ! 0)) 6 4), send_rptc p1] @ (if has_options p1 then [rpto p1] else []))"
    by blast
  have "peer_dmr_connected p'"
    using r(2,3) by (auto simp: peer_dmr_connected_def dmr_inv_def login_abs_def split: dmr_status.splits)
  moreover have "out1 = [rptl p]" using pr e by (simp add: dmr_sends_def login_reply_def)
  ultimately show ?thesis using s e r c by simp
qed

lemma opened_options: "has_options (dmr_opened options) \<longleftrightarrow> options \<noteq> [] \<and> options ! 0 \<noteq> 0"
  using open_starts [OF dmr_opened_facts(1)] by (simp add: dmr_globals_def sha256_fresh_def)

lemma sample_login:
  "\<exists>p' out. dmr_runs (Tick 2000 # dmr_replies (dmr_opened []) (replicate 3 (2001, ascii ''RPTACK'' @ [1, 2, 3, 4]))) (dmr_opened [])
      = (p', Request # replicate 3 Ack, out) \<and> peer_dmr_connected p'"
  using login_completes [OF dmr_opened_inv, of "[]" 2000 "replicate 3 (2001, ascii ''RPTACK'' @ [1, 2, 3, 4])"]
  by (simp add: dmr_opened_facts opened_options starts_with_def) blast

section \<open>Properties\<close>

text \<open>
  C6: the client implements the login protocol. From any well-formed state every operation keeps
  the client well-formed and its configuration unchanged, makes exactly the protocol steps that the
  event calls for (a request, an acknowledgement, a refusal, a timeout, or none) and sends exactly
  the datagrams of that step: the request, the hash of the server's nonce and the password (SHA-256
  of the standard), the configuration, the options, a ping only while connected.
\<close>

theorem dmr_client_refines_login:
  assumes "dmr_inv p"
  shows "dmr_inv (fst (dmr_step a p)) \<and> dmr_config (fst (dmr_step a p)) = dmr_config p
    \<and> login_run (has_options p) (login_abs p) (dmr_event a p) (login_abs (fst (dmr_step a p)))
    \<and> snd (dmr_step a p) = dmr_sends a p"
  using dmr_step_protocol [OF assms, of a "fst (dmr_step a p)" "snd (dmr_step a p)"] by simp

theorem dmr_client_refines_login_witness:
  "snd (dmr_step (Tick 2000) (dmr_opened [])) = [ascii ''RPTL'' @ be_bytes 730555]"
  using dmr_client_refines_login [OF dmr_opened_inv, of "Tick 2000" "[]"]
  by (simp add: dmr_sends_def login_reply_def dmr_event_def dmr_opened_facts rptl_def)
    (simp add: dmr_opened_def peer_dmr_open_def Let_def)

text \<open>The datagrams of the server that say RPTACK, and the condition that none is shorter than the six bytes compared.\<close>

definition is_rptack :: "u32 \<Rightarrow> dmr_act \<Rightarrow> bool" where
  "is_rptack addr a \<longleftrightarrow> (case a of Poll (Rx_from from d) now \<Rightarrow> from = addr \<and> starts_with d (ascii ''RPTACK'') | _ \<Rightarrow> False)"

definition six_bytes :: "u32 \<Rightarrow> dmr_act \<Rightarrow> bool" where
  "six_bytes addr a \<longleftrightarrow> (case a of Poll (Rx_from from d) now \<Rightarrow> from = addr \<longrightarrow> d = [] \<or> 6 \<le> length d | _ \<Rightarrow> True)"

lemma event_sources:
  assumes "dmr_inv p"
  shows "length (dmr_event a p) \<le> 1" "Request \<in> set (dmr_event a p) \<Longrightarrow> \<exists>t. a = Tick t"
    "six_bytes (dp_peer p) a \<Longrightarrow> Ack \<in> set (dmr_event a p) \<Longrightarrow> is_rptack (dp_peer p) a"
proof -
  show "length (dmr_event a p) \<le> 1" "Request \<in> set (dmr_event a p) \<Longrightarrow> \<exists>t. a = Tick t"
    by (auto simp: dmr_event_def split: dmr_act.splits dmr_status.splits rx_event.splits if_splits)
  assume a: "six_bytes (dp_peer p) a" "Ack \<in> set (dmr_event a p)"
  then obtain d t where d: "a = Poll (Rx_from (dp_peer p) d) t" "d \<noteq> []" "starts_with (rx_buf d p) (ascii ''RPTACK'')"
    by (auto simp: dmr_event_def split: dmr_act.splits dmr_status.splits rx_event.splits if_splits)
  then have "6 \<le> length d" using a(1) by (simp add: six_bytes_def)
  then show "is_rptack (dp_peer p) a"
    using d by (simp add: is_rptack_def rx_buf_def) (simp add: starts_with_def)
qed

lemma acks_received:
  "dmr_inv p \<Longrightarrow> dmr_runs as p = (p', es, out) \<Longrightarrow> \<forall>a\<in>set as. six_bytes (dp_peer p) a \<Longrightarrow>
   length (filter (\<lambda>e. e = Ack) es) \<le> length (filter (is_rptack (dp_peer p)) as)"
proof (induction as arbitrary: p p' es out)
  case (Cons a as)
  obtain p1 out1 where 1: "dmr_step a p = (p1, out1)" by fastforce
  obtain p2 es2 out2 where 2: "dmr_runs as p1 = (p2, es2, out2)" by (cases "dmr_runs as p1")
  note s = dmr_step_protocol [OF Cons.prems(1) 1]
  have peer: "dp_peer p1 = dp_peer p" using s config_messages by blast
  have "length (filter (\<lambda>e. e = Ack) es2) \<le> length (filter (is_rptack (dp_peer p)) as)"
    using Cons.IH [OF _ 2] s Cons.prems(3) peer by simp
  moreover have "length (filter (\<lambda>e. e = Ack) (dmr_event a p)) \<le> (if is_rptack (dp_peer p) a then 1 else 0)"
    using event_sources(3) [OF Cons.prems(1), of a] Cons.prems(3)
      order_trans [OF length_filter_le event_sources(1) [OF Cons.prems(1)], of "\<lambda>e. e = Ack" a]
    by (auto simp: filter_empty_conv)
  moreover have "es = dmr_event a p @ es2" using Cons.prems(2) 1 2 by simp
  ultimately show ?case by (simp split: if_splits)
qed simp

text \<open>What follows the last request of a run.\<close>

lemma runs_since_request:
  "dmr_inv p \<Longrightarrow> dmr_runs as p = (p', pre @ Request # es, out) \<Longrightarrow>
   \<exists>as0 t as1 p1 out1. as = as0 @ Tick t # as1 \<and> dmr_inv p1 \<and> dp_peer p1 = dp_peer p \<and> dmr_runs as1 p1 = (p', es, out1)"
proof (induction as arbitrary: p pre out)
  case (Cons a as)
  obtain p1 out1 where 1: "dmr_step a p = (p1, out1)" by fastforce
  obtain es2 out2 where 2: "dmr_runs as p1 = (p', es2, out2)" "dmr_event a p @ es2 = pre @ Request # es"
    using Cons.prems(2) 1 by (auto split: prod.splits)
  note s = dmr_step_protocol [OF Cons.prems(1) 1]
  have peer: "dp_peer p1 = dp_peer p" "dmr_inv p1" using s config_messages by blast+
  note e = event_sources(1,2) [OF Cons.prems(1), of a]
  consider "dmr_event a p = [Request]" "pre = []" "es2 = es" | pre' where "es2 = pre' @ Request # es"
  proof (cases "dmr_event a p")
    case Nil
    then show ?thesis using that(2) 2(2) by simp
  next
    case (Cons x xs)
    then have "dmr_event a p = [x]" using e(1) by simp
    then show ?thesis using that 2(2) by (cases pre) auto
  qed
  then show ?case
  proof cases
    case 1
    then obtain t where "a = Tick t" using e(2) by auto
    then show ?thesis using 2(1) 1(3) peer by (intro exI [of _ "[]"] exI [of _ t] exI [of _ as] exI [of _ p1] exI [of _ out2]) simp
  next
    case (2 pre')
    from Cons.IH [OF peer(2), of pre' out2] \<open>dmr_runs as p1 = (p', es2, out2)\<close> 2
    obtain as0 t as1 q out3 where "as = as0 @ Tick t # as1" "dmr_inv q" "dp_peer q = dp_peer p1" "dmr_runs as1 q = (p', es, out3)"
      by auto
    then show ?thesis using peer(1)
      by (intro exI [of _ "a # as0"] exI [of _ t] exI [of _ as1] exI [of _ q] exI [of _ out3]) simp
  qed
qed simp

text \<open>
  C10: no connection without a complete login. In every run from a successful \<open>peer_dmr_open\<close>, whatever
  the network delivers and whenever the ticks come, the client reports itself connected only if its last
  login request was followed by one acknowledgement event for each of its stages, four with an options
  line and three without, with no refusal and no timeout in between or since. When no datagram of the
  server is shorter than the six bytes that the code compares, each of these events is a datagram: since
  the tick that sent the request the server has sent at least so many datagrams that begin with RPTACK.
  A shorter datagram can count for one that came before it (\<open>dmr_short_datagram_is_ack\<close>).
\<close>

theorem dmr_connected_after_full_login:
  assumes "peer_dmr_open addr sock now cs dmrid tg options password description location g = (0, p)"
    and "length (g_buf g) = 2048" "length (sha256_buffer (g_sha g)) = 128"
    and "dmr_runs as p = (p', es, out)" "peer_dmr_connected p'"
    and "n = (if options \<noteq> [] \<and> options ! 0 \<noteq> 0 then 4 else 3)"
  shows "(\<exists>earlier. es = earlier @ Request # replicate n Ack)
    \<and> ((\<forall>a\<in>set as. six_bytes (dp_peer p) a) \<longrightarrow>
         (\<exists>as0 t as1. as = as0 @ Tick t # as1 \<and> n \<le> length (filter (is_rptack (dp_peer p)) as1)))"
proof -
  note o = open_starts [OF assms(1-3)]
  then have inv: "dmr_inv p" by simp
  note r = dmr_runs_protocol [OF inv assms(4)]
  have "login_abs p' = Up" using r assms(5) by (auto simp: peer_dmr_connected_def dmr_inv_def login_abs_def)
  then obtain earlier where es: "es = earlier @ Request # replicate n Ack"
    using r o login_run_stage [of "has_options p" es "login_abs p'"]
    by (auto simp: last_stage_def numeral_eq_Suc assms(6))
  obtain as0 t as1 p1 out1 where run: "as = as0 @ Tick t # as1" "dmr_inv p1" "dp_peer p1 = dp_peer p" "dmr_runs as1 p1 = (p', replicate n Ack, out1)"
    using runs_since_request [OF inv assms(4) [unfolded es]] by blast
  have "n \<le> length (filter (is_rptack (dp_peer p)) as1)" if "\<forall>a\<in>set as. six_bytes (dp_peer p) a"
    using acks_received [OF run(2,4)] that run(1,3) by simp
  then show ?thesis using es run(1) by blast
qed

theorem dmr_connected_after_full_login_witness:
  "\<exists>p' as0 t as1. peer_dmr_connected p'
     \<and> fst (dmr_runs (Tick 2000 # dmr_replies (dmr_opened []) (replicate 3 (2001, ascii ''RPTACK'' @ [1, 2, 3, 4]))) (dmr_opened [])) = p'
     \<and> Tick 2000 # dmr_replies (dmr_opened []) (replicate 3 (2001, ascii ''RPTACK'' @ [1, 2, 3, 4])) = as0 @ Tick t # as1
     \<and> 3 \<le> length (filter (is_rptack (dp_peer (dmr_opened []))) as1)"
proof -
  let ?acks = "replicate 3 (2001 :: int, ascii ''RPTACK'' @ [1, 2, 3, 4])" and ?p = "dmr_opened []"
  obtain p' out where r: "dmr_runs (Tick 2000 # dmr_replies ?p ?acks) ?p = (p', Request # replicate 3 Ack, out)"
    "peer_dmr_connected p'"
    using sample_login by blast
  have long: "\<forall>a\<in>set (Tick 2000 # dmr_replies ?p ?acks). six_bytes (dp_peer ?p) a"
    by (simp add: six_bytes_def dmr_replies_def)
  have g: "length (g_buf dmr_globals) = 2048" "length (sha256_buffer (g_sha dmr_globals)) = 128"
    by (simp_all add: dmr_globals_def sha256_fresh_def)
  from dmr_connected_after_full_login [OF dmr_opened_facts(1) g r refl] long
  obtain as0 t as1 where "Tick 2000 # dmr_replies ?p ?acks = as0 @ Tick t # as1" "3 \<le> length (filter (is_rptack (dp_peer ?p)) as1)"
    by auto
  then show ?thesis using r by (intro exI [of _ p'] exI [of _ as0] exI [of _ t] exI [of _ as1]) simp
qed

text \<open>
  C21: the login completes. A client that is down, ticked at any time when it is not waiting out a
  refusal, and whose server acknowledges every stage, is connected after the last acknowledgement,
  having sent exactly the request, the key for the nonce in the first acknowledgement, the
  configuration and, when there are any, the options, in this order.
\<close>

theorem dmr_login_completes:
  assumes "dmr_inv p" "host1_connect_status p = DISCONNECTED" "dp_login_fail_until p \<le> now"
    and "\<forall>(t, d) \<in> set acks. starts_with d (ascii ''RPTACK'') \<and> 10 \<le> length d \<and> length d \<le> 2048"
    and "length acks = (if has_options p then 4 else 3)"
  shows "\<exists>p'. dmr_runs (Tick now # dmr_replies p acks) p
      = (p', Request # replicate (length acks) Ack,
         [rptl p, rptk p (sub_buf (snd (acks ! 0)) 6 4), send_rptc p] @ (if has_options p then [rpto p] else []))
    \<and> peer_dmr_connected p'"
  using login_completes [OF assms] .

theorem dmr_login_completes_witness:
  "\<exists>p'. dmr_runs (Tick 2000 # dmr_replies (dmr_opened []) (replicate 3 (2001, ascii ''RPTACK'' @ [1, 2, 3, 4]))) (dmr_opened [])
      = (p', Request # replicate 3 Ack,
         [rptl (dmr_opened []), rptk (dmr_opened []) [1, 2, 3, 4], send_rptc (dmr_opened [])])
    \<and> peer_dmr_connected p'"
  using dmr_login_completes [OF dmr_opened_inv, of "[]" 2000 "replicate 3 (2001, ascii ''RPTACK'' @ [1, 2, 3, 4])"]
  by (simp add: dmr_opened_facts opened_options starts_with_def sub_buf_def)

text \<open>
  C22: keepalive. A connected client survives a series of ticks exactly when none of them comes more
  than 30 seconds after the last datagram from its server, and every datagram that a poll takes
  from the server's address renews the stamp.
\<close>

theorem dmr_keepalive:
  assumes "dmr_inv p" "peer_dmr_connected p"
  shows "(peer_dmr_connected (fold (\<lambda>now p. fst (peer_dmr_tick now p)) ts p) \<longleftrightarrow> (\<forall>t \<in> set ts. t - pong_time1 p \<le> 30))
    \<and> (\<forall>d t. d \<noteq> [] \<longrightarrow> pong_time1 (fst (dmr_step (Poll (Rx_from (dp_peer p) d) t) p)) = t)"
proof -
  have inv: "dmr_inv (fold (\<lambda>now p. fst (peer_dmr_tick now p)) ts p)"
    using assms(1)
  proof (induction ts arbitrary: p)
    case (Cons t ts)
    then show ?case using tick_step [of p t "fst (peer_dmr_tick t p)" "snd (peer_dmr_tick t p)"] by simp
  qed simp
  have up: "peer_dmr_connected q \<longleftrightarrow> login_abs q = Up" if "dmr_inv q" for q
    using that by (auto simp: peer_dmr_connected_def dmr_inv_def login_abs_def split: dmr_status.splits)
  have "host1_connect_status p = CONNECTED" using assms by (simp add: dmr_inv_def peer_dmr_connected_def)
  then have "pong_time1 (fst (dmr_step (Poll (Rx_from (dp_peer p) d) t) p)) = t" if "d \<noteq> []" for d t
    using that by (simp add: dmr_step_def peer_dmr_poll_def handle_rx_def Let_def)
  then show ?thesis using dmr_link.ticks_up [of ts p] up [OF inv] up [OF assms(1)] assms(2) by simp
qed

theorem dmr_keepalive_witness:
  "\<exists>p. peer_dmr_connected p \<and> \<not> peer_dmr_connected (fst (peer_dmr_tick (pong_time1 p + 31) p))"
proof -
  obtain p where "dmr_inv p" "peer_dmr_connected p"
    using sample_login dmr_runs_protocol [OF dmr_opened_inv] by blast
  then show ?thesis using dmr_keepalive [of p "[pong_time1 p + 31]"] by auto
qed

text \<open>A disconnected client that waits out a refusal.\<close>

definition waits :: "int \<Rightarrow> dmr_act \<Rightarrow> bool" where
  "waits limit a = (case a of Tick now \<Rightarrow> now < limit | Voice data \<Rightarrow> False | _ \<Rightarrow> True)"

lemma waiting_is_quiet:
  assumes "host1_connect_status p = DISCONNECTED" "list_all (waits (dp_login_fail_until p)) as"
  shows "\<exists>p'. dmr_runs as p = (p', [], []) \<and> host1_connect_status p' = DISCONNECTED
    \<and> dp_login_fail_until p' = dp_login_fail_until p \<and> dp_dmrid p' = dp_dmrid p"
  using assms
proof (induction as arbitrary: p)
  case (Cons a as)
  have 1: "dmr_event a p = [] \<and> (\<exists>p1. dmr_step a p = (p1, []) \<and> host1_connect_status p1 = DISCONNECTED
      \<and> dp_login_fail_until p1 = dp_login_fail_until p \<and> dp_dmrid p1 = dp_dmrid p)"
    using Cons.prems
    by (auto simp: waits_def dmr_step_def dmr_event_def peer_dmr_tick_def peer_dmr_poll_def handle_rx_def
        peer_dmr_on_alarm_def Let_def split: dmr_act.splits rx_event.splits)
  then obtain p1 where p1: "dmr_step a p = (p1, [])" "host1_connect_status p1 = DISCONNECTED"
      "dp_login_fail_until p1 = dp_login_fail_until p" "dp_dmrid p1 = dp_dmrid p" by blast
  then show ?case using Cons.IH [of p1] Cons.prems(2) 1 by auto
qed simp

text \<open>
  Refusals back off. When the server refuses a login with \<open>MSTNAK\<close> at second t, the client
  drops it and then sends nothing and stays down through any polls, alarms and ticks before second
  t + 3; the first tick from then on starts a new login.
\<close>

theorem dmr_refusal_backs_off:
  assumes "dmr_inv p" "dmr_event (Poll ev t) p = [Nak]" "list_all (waits (t + 3)) as" "t + 3 \<le> now"
  shows "\<exists>p'. dmr_runs (Poll ev t # as) p = (p', [Nak], []) \<and> \<not> peer_dmr_connected p'
    \<and> snd (dmr_step (Tick now) p') = [rptl p]"
proof -
  obtain addr d where ev: "ev = Rx_from addr d" using assms(2) by (cases ev) (simp_all add: dmr_event_def)
  have h: "d \<noteq> []" "addr = dp_peer p" "host1_connect_status p = CONNECTING"
    "\<not> starts_with (rx_buf d p) (ascii ''RPTACK'')" "starts_with (rx_buf d p) (ascii ''MSTNAK'')"
    using assms(2) ev by (auto simp: dmr_event_def split: if_splits)
  obtain p1 out1 where s: "dmr_step (Poll ev t) p = (p1, out1)" by fastforce
  note pr = dmr_step_protocol [OF assms(1) s]
  have "login_step (has_options p) (login_abs p) Nak (login_abs p1)"
    using pr assms(2) by (simp add: login_run_single del: login_step_simps)
  then have "login_abs p1 = Down" by (cases rule: login_step.cases) auto
  then have 1: "host1_connect_status p1 = DISCONNECTED" by (simp add: login_abs_def split: dmr_status.splits)
  have 2: "dp_login_fail_until p1 = t + 3"
    using s h unfolding ev dmr_step_def by (auto simp: peer_dmr_poll_def handle_rx_def rx_buf_def Let_def split: if_splits)
  have out1: "out1 = []" using pr assms(2) by (simp add: dmr_sends_def login_reply_def)
  obtain p' where r: "dmr_runs as p1 = (p', [], [])" "host1_connect_status p' = DISCONNECTED"
    "dp_login_fail_until p' = t + 3" "dp_dmrid p' = dp_dmrid p1"
    using waiting_is_quiet [OF 1, of as] assms(3) 2 by auto
  have "dmr_inv p'" using dmr_runs_protocol [of p1 as p' "[]" "[]"] r(1) pr by simp
  then have "\<not> peer_dmr_connected p'" using r(2) by (simp add: dmr_inv_def peer_dmr_connected_def)
  moreover have "snd (dmr_step (Tick now) p') = [rptl p]"
    using r assms(4) pr by (simp add: dmr_step_def peer_dmr_tick_def peer_dmr_login_def Let_def rptl_def dmr_config_def)
  ultimately show ?thesis using s r out1 assms(2) by simp
qed

definition dmr_waiting :: dmr_peer where
  "dmr_waiting = fst (dmr_step (Tick 2000) (dmr_opened []))"

lemma dmr_waiting_facts:
  "dmr_inv dmr_waiting" "host1_connect_status dmr_waiting = CONNECTING" "dp_peer dmr_waiting = 0x0100007F"
proof -
  show "dmr_inv dmr_waiting"
    unfolding dmr_waiting_def using dmr_step_protocol [OF dmr_opened_inv surjective_pairing] by blast
  show "host1_connect_status dmr_waiting = CONNECTING" "dp_peer dmr_waiting = 0x0100007F"
    using dmr_opened_facts(2-4)
    by (simp_all add: dmr_waiting_def dmr_step_def peer_dmr_tick_def peer_dmr_login_def Let_def TIMEOUT_def)
qed

theorem dmr_refusal_backs_off_witness:
  "\<exists>p'. dmr_runs [Poll (Rx_from 0x0100007F (ascii ''MSTNAK'')) 2001, Tick 2003] dmr_waiting = (p', [Nak], [])
     \<and> snd (dmr_step (Tick 2004) p') = [rptl dmr_waiting]"
proof -
  have "length (g_buf dmr_waiting) = 2048" using dmr_waiting_facts(1) by (simp add: dmr_inv_def dmr_wf_def)
  then have "dmr_event (Poll (Rx_from 0x0100007F (ascii ''MSTNAK'')) 2001) dmr_waiting = [Nak]"
    using dmr_waiting_facts by (simp add: dmr_event_def rx_buf_def starts_with_def memcpy_def)
  then show ?thesis
    using dmr_refusal_backs_off [OF dmr_waiting_facts(1), of _ 2001 "[Tick 2003]" 2004] by (auto simp: waits_def)
qed

text \<open>
  The length of a datagram does not matter. While a login waits and the receive buffer still
  begins with an acknowledgement, one single byte from the server's address counts as a second
  acknowledgement: \<open>handle_rx\<close> compares the buffer, not the datagram.
\<close>

theorem dmr_short_datagram_is_ack:
  assumes "dmr_inv p" "host1_connect_status p = CONNECTING" "starts_with (g_buf p) (ascii ''RPTACK'')"
  shows "dmr_event (Poll (Rx_from (dp_peer p) (ascii ''R'')) now) p = [Ack]
    \<and> login_abs (fst (dmr_step (Poll (Rx_from (dp_peer p) (ascii ''R'')) now) p)) \<noteq> login_abs p"
proof -
  let ?a = "Poll (Rx_from (dp_peer p) (ascii ''R'')) now"
  have "rx_buf (ascii ''R'') p = g_buf p"
    using assms(3) by (cases "g_buf p") (simp_all add: rx_buf_def memcpy_def starts_with_def)
  then have e: "dmr_event ?a p = [Ack]" using assms by (simp add: dmr_event_def)
  obtain p1 out1 where s: "dmr_step ?a p = (p1, out1)" by fastforce
  have "login_step (has_options p) (login_abs p) Ack (login_abs p1)"
    using dmr_step_protocol [OF assms(1) s] e by (simp add: login_run_single del: login_step_simps)
  then have "login_abs p1 \<noteq> login_abs p" by (cases rule: login_step.cases) auto
  then show ?thesis using e s by simp
qed

theorem dmr_short_datagram_is_ack_witness:
  "dmr_event (Poll (Rx_from 0x0100007F (ascii ''R'')) 2002)
     (dmr_waiting\<lparr>g_buf := memcpy (replicate 2048 0) 0 (ascii ''RPTACK'')\<rparr>) = [Ack]"
proof -
  have "starts_with (memcpy (replicate 2048 0) 0 (ascii ''RPTACK'')) (ascii ''RPTACK'')"
    by (subst starts_with_memcpy) (simp_all add: starts_with_def)
  then show ?thesis
    using dmr_short_datagram_is_ack [of "dmr_waiting\<lparr>g_buf := memcpy (replicate 2048 0) 0 (ascii ''RPTACK'')\<rparr>" 2002]
      dmr_waiting_facts
    by (simp add: dmr_inv_def dmr_wf_def)
qed

end
