(* ===== verification/Peer_Ysf.thy ===== *)
theory Peer_Ysf
  imports Ysf_Fich_Props Keepalive
begin

text \<open>
  The YSF reflector client of \<open>src/peer_ysf.c\<close>: one record for \<open>peer_ysf_t\<close> (the globals of the FICH
  codec it calls are a field), one definition per operation. What the client does to the outside,
  datagrams and pauses, is a list of the events of the activation burst; the clock and what a poll
  receives are arguments.
\<close>

section \<open>State\<close>

record ysf_peer =
  yp_sock :: int
  yp_peer :: u32
  yp_callsign :: bytes
  yp_dgid :: u8
  yp_linked :: bool
  yp_reconnect_pending :: bool
  yp_last_rx :: int
  yp_buf :: bytes
  yp_fich :: fich_state

definition LOST_TIMEOUT :: int where "LOST_TIMEOUT = 10"

section \<open>Operations\<close>

definition peer_ysf_open :: "u32 option \<Rightarrow> int \<Rightarrow> int \<Rightarrow> bytes \<Rightarrow> u8 \<Rightarrow> fich_state \<Rightarrow> int \<times> ysf_peer" where
  "peer_ysf_open addr sock now cs dgid g =
     (let p = \<lparr>yp_sock = - 1, yp_peer = 0, yp_callsign = replicate 10 0x20, yp_dgid = dgid, yp_linked = False,
            yp_reconnect_pending = False, yp_last_rx = 0, yp_buf = replicate 2048 0, yp_fich = g\<rparr>;
          cs_len = (if 10 < length cs then 10 else length cs);
          p = p\<lparr>yp_callsign := memcpy (yp_callsign p) 0 (take cs_len cs)\<rparr>;
          p = p\<lparr>yp_sock := sock\<rparr>
      in if sock < 0 then (- 1, p)
         else case addr of
           None \<Rightarrow> (- 1, p)
         | Some a \<Rightarrow> (0, p\<lparr>yp_peer := a, yp_last_rx := now, yp_reconnect_pending := True\<rparr>))"

definition peer_ysf_close :: "ysf_peer \<Rightarrow> ysf_peer" where
  "peer_ysf_close p = (if 0 \<le> yp_sock p then p\<lparr>yp_sock := - 1\<rparr> else p)"

definition peer_ysf_linked :: "ysf_peer \<Rightarrow> bool" where
  "peer_ysf_linked p = yp_linked p"

definition peer_ysf_send_poll :: "ysf_peer \<Rightarrow> burst_event list" where
  "peer_ysf_send_poll p = [SendTo (ascii ''YSFP'' @ take 10 (yp_callsign p))]"

text \<open>\<open>later\<close> is the clock after the pause and the burst.\<close>

definition peer_ysf_reconnect :: "int \<Rightarrow> ysf_peer \<Rightarrow> ysf_peer \<times> burst_event list" where
  "peer_ysf_reconnect later p =
     (let p = p\<lparr>yp_linked := False\<rparr>;
          es = peer_ysf_send_poll p @ [NanoSleep 1000000000];
          (p, es) = (if 1 \<le> yp_dgid p
             then let (g, burst) = ysf_send_activation_burst (yp_callsign p) (yp_dgid p) (yp_fich p)
                  in (p\<lparr>yp_fich := g\<rparr>, es @ burst)
             else (p, es))
      in (p\<lparr>yp_last_rx := later\<rparr>, es))"

definition peer_ysf_tick :: "int \<Rightarrow> int \<Rightarrow> ysf_peer \<Rightarrow> ysf_peer \<times> burst_event list" where
  "peer_ysf_tick now later p =
     (if yp_reconnect_pending p then peer_ysf_reconnect later (p\<lparr>yp_reconnect_pending := False\<rparr>)
      else if LOST_TIMEOUT < now - yp_last_rx p
      then (let p = (if yp_linked p then p\<lparr>yp_linked := False\<rparr> else p)
            in (p\<lparr>yp_reconnect_pending := True\<rparr>, []))
      else (p, []))"

datatype ysf_rx = Ysf_none | Ysf_fail int | Ysf_from u32 bytes

definition peer_ysf_poll :: "ysf_rx \<Rightarrow> int \<Rightarrow> ysf_peer \<Rightarrow> int \<times> bool \<times> ysf_peer" where
  "peer_ysf_poll ev now p =
     (case ev of
        Ysf_none \<Rightarrow> (0, False, p)
      | Ysf_fail r \<Rightarrow> (r, False, p)
      | Ysf_from addr dgram \<Rightarrow>
          let data = take (length (yp_buf p)) dgram; rxlen = length data
          in if rxlen = 0 then (0, False, p)
             else let p = p\<lparr>yp_buf := memcpy (yp_buf p) 0 data\<rparr>
                  in if addr = yp_peer p
                     then let p = p\<lparr>yp_last_rx := now\<rparr>;
                              p = (if \<not> yp_linked p then p\<lparr>yp_linked := True\<rparr> else p)
                          in (int rxlen, True, p)
                     else (int rxlen, False, p))"

definition peer_ysf_send :: "bytes \<Rightarrow> nat \<Rightarrow> burst_event list" where
  "peer_ysf_send data len = [SendTo (take len data)]"

text \<open>None only if the FICH decoder did not return.\<close>

definition peer_ysf_send_ysfd :: "bytes \<Rightarrow> nat \<Rightarrow> ysf_peer \<Rightarrow> (ysf_peer \<times> bytes \<times> burst_event list) option" where
  "peer_ysf_send_ysfd frame len p =
     (if len = 155
      then Option.bind (ysf_fich_rewrite_dgid frame (yp_dgid p) (yp_fich p)) (\<lambda>(g, frame).
             Some (p\<lparr>yp_fich := g\<rparr>, frame, peer_ysf_send frame len))
      else Some (p, frame, peer_ysf_send frame len))"

definition peer_ysf_on_sigint :: "ysf_peer \<Rightarrow> ysf_peer \<times> burst_event list" where
  "peer_ysf_on_sigint p =
     (if 0 \<le> yp_sock p then (peer_ysf_close p, [SendTo (ascii ''YSFU'' @ take 10 (yp_callsign p))]) else (p, []))"

definition peer_ysf_on_alarm :: "ysf_peer \<Rightarrow> burst_event list" where
  "peer_ysf_on_alarm p = (if yp_linked p then peer_ysf_send_poll p else [])"

section \<open>The link\<close>

abbreviation (input) ysf_tick :: "int \<Rightarrow> ysf_peer \<Rightarrow> ysf_peer" where
  "ysf_tick now p \<equiv> fst (peer_ysf_tick now now p)"

text \<open>A link that a pending reconnection is about to drop does not count as up.\<close>

definition ysf_up :: "ysf_peer \<Rightarrow> bool" where
  "ysf_up p \<longleftrightarrow> yp_linked p \<and> \<not> yp_reconnect_pending p"

lemma reconnect_facts:
  "\<not> yp_linked (fst (peer_ysf_reconnect later p))"
  "yp_reconnect_pending (fst (peer_ysf_reconnect later p)) = yp_reconnect_pending p"
  "yp_last_rx (fst (peer_ysf_reconnect later p)) = later"
  "yp_peer (fst (peer_ysf_reconnect later p)) = yp_peer p"
  "yp_buf (fst (peer_ysf_reconnect later p)) = yp_buf p"
  by (simp_all add: peer_ysf_reconnect_def Let_def case_prod_beta)

interpretation ysf_link: keepalive ysf_up yp_last_rx 10 ysf_tick
  by unfold_locales
    (auto simp: ysf_up_def peer_ysf_tick_def LOST_TIMEOUT_def Let_def reconnect_facts split: if_splits)

end
