(* ===== verification/Peer_Ysf_Props.thy ===== *)
theory Peer_Ysf_Props
  imports Peer_Ysf
begin

text \<open>
  What the YSF client promises: its link is the memory of a datagram of the reflector, a silent
  reflector is called again with the whole activation burst and not more often than the time limit
  allows, and every frame it forwards carries the configured group.
\<close>

section \<open>Runs of the client\<close>

text \<open>A tick has the clock at its start and after a reconnection.\<close>

datatype ysf_act = Ysf_tick int int | Ysf_poll ysf_rx int | Ysf_alarm | Ysf_frame bytes nat

definition ysf_step :: "ysf_act \<Rightarrow> ysf_peer \<Rightarrow> (ysf_peer \<times> burst_event list) option" where
  "ysf_step a p =
     (case a of Ysf_tick now later \<Rightarrow> Some (peer_ysf_tick now later p)
      | Ysf_poll ev now \<Rightarrow> (let (r, from, p) = peer_ysf_poll ev now p in Some (p, []))
      | Ysf_alarm \<Rightarrow> Some (p, peer_ysf_on_alarm p)
      | Ysf_frame frame len \<Rightarrow> map_option (\<lambda>(p, f, es). (p, es)) (peer_ysf_send_ysfd frame len p))"

fun ysf_runs :: "ysf_act list \<Rightarrow> ysf_peer \<Rightarrow> (ysf_peer \<times> burst_event list) option" where
  "ysf_runs [] p = Some (p, [])"
| "ysf_runs (a # as) p = Option.bind (ysf_step a p) (\<lambda>(p, es).
     Option.bind (ysf_runs as p) (\<lambda>(p, es'). Some (p, es @ es')))"

definition ysf_inv :: "ysf_peer \<Rightarrow> bool" where
  "ysf_inv p \<longleftrightarrow> fich_wf (yp_fich p) \<and> length (yp_callsign p) = 10 \<and> length (yp_buf p) = 2048"

text \<open>The times at which an act takes a datagram of the reflector at address a.\<close>

definition heard :: "u32 \<Rightarrow> ysf_act \<Rightarrow> int list" where
  "heard a act = (case act of Ysf_poll (Ysf_from addr d) t \<Rightarrow> if addr = a \<and> d \<noteq> [] then [t] else [] | _ \<Rightarrow> [])"

definition frames_long :: "ysf_act \<Rightarrow> bool" where
  "frames_long act = (case act of Ysf_frame frame len \<Rightarrow> len = 155 \<longrightarrow> 65 \<le> length frame | _ \<Rightarrow> True)"

lemma reconnect_inv: "ysf_inv p \<Longrightarrow> ysf_inv (fst (peer_ysf_reconnect later p))"
  using fich_wf_operations [of "yp_fich p"]
  by (auto simp: ysf_inv_def peer_ysf_reconnect_def Let_def split: prod.splits) (metis fst_conv)

lemma send_ysfd_inv:
  assumes "ysf_inv p" "peer_ysf_send_ysfd frame len p = Some (p', f, es)"
  shows "ysf_inv p' \<and> yp_linked p' = yp_linked p \<and> yp_last_rx p' = yp_last_rx p \<and> yp_peer p' = yp_peer p
    \<and> yp_reconnect_pending p' = yp_reconnect_pending p \<and> yp_dgid p' = yp_dgid p"
  using assms fich_wf_operations [of "yp_fich p"]
  by (auto simp: ysf_inv_def peer_ysf_send_ysfd_def bind_eq_Some_conv split: if_splits) (metis fst_conv)

lemma ysf_step_total:
  assumes "ysf_inv p" "frames_long a"
  shows "\<exists>p' es. ysf_step a p = Some (p', es)"
proof (cases a)
  case (Ysf_frame frame len)
  have "\<exists>r. ysf_fich_rewrite_dgid frame (yp_dgid p) (yp_fich p) = Some r"
    using fich_decode_returns [of "drop 40 frame" "yp_fich p"] by (auto simp: ysf_fich_rewrite_dgid_def)
  then show ?thesis using Ysf_frame by (auto simp: ysf_step_def peer_ysf_send_ysfd_def)
qed (auto simp: ysf_step_def split: prod.splits)

lemma ysf_step_inv:
  assumes "ysf_inv p" "ysf_step a p = Some (p', es)"
  shows "ysf_inv p' \<and> yp_peer p' = yp_peer p
    \<and> (yp_linked p' \<longrightarrow> heard (yp_peer p) a \<noteq> [] \<and> yp_last_rx p' \<in> set (heard (yp_peer p) a)
         \<or> heard (yp_peer p) a = [] \<and> yp_linked p \<and> yp_last_rx p' = yp_last_rx p)"
proof (cases a)
  case (Ysf_tick now later)
  then have p': "p' = fst (peer_ysf_tick now later p)" using assms(2) by (simp add: ysf_step_def)
  have "ysf_inv (p\<lparr>yp_reconnect_pending := False\<rparr>)" using assms(1) by (simp add: ysf_inv_def)
  then show ?thesis using assms(1) reconnect_inv [of "p\<lparr>yp_reconnect_pending := False\<rparr>" later] Ysf_tick
    unfolding p' by (simp add: peer_ysf_tick_def heard_def reconnect_facts ysf_inv_def Let_def)
next
  case (Ysf_poll ev now)
  then show ?thesis using assms
    by (auto simp: ysf_step_def peer_ysf_poll_def heard_def ysf_inv_def Let_def split: ysf_rx.splits if_splits)
next
  case Ysf_alarm
  then show ?thesis using assms by (simp add: ysf_step_def heard_def)
next
  case (Ysf_frame frame len)
  then show ?thesis using assms send_ysfd_inv [OF assms(1)] by (auto simp: ysf_step_def heard_def)
qed

lemma ysf_runs_inv:
  "ysf_inv p \<Longrightarrow> ysf_runs as p = Some (p', es) \<Longrightarrow>
   ysf_inv p' \<and> yp_peer p' = yp_peer p
    \<and> (yp_linked p' \<longrightarrow> (let ts = concat (map (heard (yp_peer p)) as)
         in if ts = [] then yp_linked p \<and> yp_last_rx p' = yp_last_rx p else yp_last_rx p' = last ts))"
proof (induction as arbitrary: p es)
  case (Cons a as)
  from Cons.prems(2) obtain p1 es1 es2 where s: "ysf_step a p = Some (p1, es1)" "ysf_runs as p1 = Some (p', es2)"
    by (auto simp: bind_eq_Some_conv)
  note i = ysf_step_inv [OF Cons.prems(1) s(1)]
  then have "ysf_inv p1" by simp
  note r = Cons.IH [OF this s(2)]
  have "heard b a = [] \<or> (\<exists>t. heard b a = [t])" for b
    by (simp add: heard_def split: ysf_act.split ysf_rx.split)
  from this [of "yp_peer p"] show ?case using i r by (auto simp: Let_def split: if_splits)
qed simp

lemma ysf_runs_total:
  "ysf_inv p \<Longrightarrow> list_all frames_long as \<Longrightarrow> \<exists>p' es. ysf_runs as p = Some (p', es)"
proof (induction as arbitrary: p)
  case (Cons a as)
  obtain p1 es1 where s: "ysf_step a p = Some (p1, es1)" using ysf_step_total [of p a] Cons.prems by auto
  then have i: "ysf_inv p1" using ysf_step_inv Cons.prems(1) by blast
  have "list_all frames_long as" using Cons.prems(2) by simp
  from Cons.IH [OF i this] obtain p2 es2 where "ysf_runs as p1 = Some (p2, es2)" by blast
  then show ?case using s by simp
qed simp

lemma ysf_open_facts:
  assumes "peer_ysf_open addr sock now cs dgid g = (0, p)" "fich_wf g"
  shows "ysf_inv p \<and> addr = Some (yp_peer p) \<and> \<not> yp_linked p \<and> yp_reconnect_pending p \<and> yp_dgid p = dgid"
  using assms by (auto simp: peer_ysf_open_def ysf_inv_def Let_def split: if_splits option.splits)

section \<open>Properties\<close>

text \<open>
  C20: the link is the memory of a datagram. In every run from a successful \<open>peer_ysf_open\<close>, over any
  ticks, polls, alarms and forwarded frames, every operation returns, and when the client reports
  itself linked it has received datagrams from the reflector's address and its time stamp is the
  time of the last of them.
\<close>

theorem ysf_linked_means_heard:
  assumes "peer_ysf_open addr sock now cs dgid g = (0, p)" "fich_wf g" "list_all frames_long as"
  shows "\<exists>p' es. ysf_runs as p = Some (p', es)
    \<and> (peer_ysf_linked p' \<longrightarrow> (\<exists>earlier t. concat (map (heard (the addr)) as) = earlier @ [t] \<and> yp_last_rx p' = t))"
proof -
  note o = ysf_open_facts [OF assms(1,2)]
  then have "ysf_inv p" by simp
  from ysf_runs_total [OF this assms(3)] obtain p' es where r: "ysf_runs as p = Some (p', es)" by blast
  let ?ts = "concat (map (heard (yp_peer p)) as)"
  have "yp_linked p' \<Longrightarrow> ?ts \<noteq> [] \<and> yp_last_rx p' = last ?ts"
    using ysf_runs_inv [OF \<open>ysf_inv p\<close> r] o by (auto simp: Let_def split: if_splits)
  then have "yp_linked p' \<Longrightarrow> ?ts = butlast ?ts @ [last ?ts] \<and> yp_last_rx p' = last ?ts"
    by (metis append_butlast_last_id)
  then show ?thesis using r o by (auto simp: peer_ysf_linked_def)
qed

definition ysf_opened :: ysf_peer where
  "ysf_opened = snd (peer_ysf_open (Some 0x0100007F) 4 1000 (ascii ''CE5RPY'') 7 fich_start)"

lemma ysf_opened_open: "peer_ysf_open (Some 0x0100007F) 4 1000 (ascii ''CE5RPY'') 7 fich_start = (0, ysf_opened)"
  by (simp add: ysf_opened_def peer_ysf_open_def Let_def)

theorem ysf_linked_means_heard_witness:
  "\<exists>p' es. ysf_runs [Ysf_tick 1000 1001, Ysf_poll (Ysf_from 0x0100007F (ascii ''YSFP'')) 1002] ysf_opened = Some (p', es)
     \<and> (peer_ysf_linked p' \<longrightarrow> yp_last_rx p' = 1002)"
  using ysf_linked_means_heard [OF ysf_opened_open fich_start_wf,
      of "[Ysf_tick 1000 1001, Ysf_poll (Ysf_from 0x0100007F (ascii ''YSFP'')) 1002]"]
  by (simp add: frames_long_def heard_def)

text \<open>What a reconnection sends.\<close>

definition ysf_call :: "ysf_peer \<Rightarrow> burst_event list" where
  "ysf_call p = [SendTo (ascii ''YSFP'' @ yp_callsign p), NanoSleep 1000000000]
     @ (if 1 \<le> yp_dgid p then snd (ysf_send_activation_burst (yp_callsign p) (yp_dgid p) (yp_fich p)) else [])"

lemma reconnect_sends: "length (yp_callsign p) = 10 \<Longrightarrow> snd (peer_ysf_reconnect later p) = ysf_call p"
  by (auto simp: peer_ysf_reconnect_def peer_ysf_send_poll_def ysf_call_def Let_def split: prod.splits)

lemma quiet_ticks:
  "\<not> yp_reconnect_pending p \<Longrightarrow> \<forall>t \<in> set ts. t - yp_last_rx p \<le> 10 \<Longrightarrow>
   ysf_runs (map (\<lambda>t. Ysf_tick t t) ts) p = Some (p, [])"
  by (induction ts) (simp_all add: ysf_step_def peer_ysf_tick_def LOST_TIMEOUT_def)

text \<open>
  C23: a silent reflector is called again, and not too often. When the last datagram is more than ten
  seconds old, one tick drops the link without sending anything and the next, whenever it comes,
  calls the reflector: the poll, a pause of a second and, for a group other than 0, the activation
  burst of 28 frames. After that no tick sends anything until more than ten seconds after the call.
\<close>

theorem ysf_reconnects_when_silent:
  assumes "ysf_inv p" "\<not> yp_reconnect_pending p" "yp_last_rx p + 10 < t"
  shows "\<exists>p'. ysf_runs [Ysf_tick t u, Ysf_tick t' later] p = Some (p', ysf_call p)
    \<and> \<not> peer_ysf_linked p' \<and> yp_last_rx p' = later
    \<and> (\<forall>ts. (\<forall>x \<in> set ts. x \<le> later + 10) \<longrightarrow> ysf_runs (map (\<lambda>x. Ysf_tick x x) ts) p' = Some (p', []))
    \<and> length (sent (ysf_call p)) = (if 1 \<le> yp_dgid p then 29 else 1)"
proof -
  let ?q = "p\<lparr>yp_linked := False, yp_reconnect_pending := True\<rparr>"
  let ?r = "?q\<lparr>yp_reconnect_pending := False\<rparr>"
  define p' where "p' = fst (peer_ysf_reconnect later ?r)"
  have cs: "length (yp_callsign p) = 10" using assms(1) by (simp add: ysf_inv_def)
  have "fst (peer_ysf_tick t u p) = ?q" "snd (peer_ysf_tick t u p) = []"
    using assms(2,3) by (simp_all add: peer_ysf_tick_def LOST_TIMEOUT_def Let_def)
  then have "peer_ysf_tick t u p = (?q, [])" by (metis prod.collapse)
  moreover have "peer_ysf_tick t' later ?q = (p', ysf_call p)"
    using reconnect_sends [of ?r later] cs by (simp add: peer_ysf_tick_def p'_def ysf_call_def prod_eq_iff)
  ultimately have r: "ysf_runs [Ysf_tick t u, Ysf_tick t' later] p = Some (p', ysf_call p)"
    by (simp add: ysf_step_def)
  have "\<not> yp_linked p'" "yp_last_rx p' = later" "\<not> yp_reconnect_pending p'"
    by (simp_all add: p'_def reconnect_facts)
  moreover from this have "ysf_runs (map (\<lambda>x. Ysf_tick x x) ts) p' = Some (p', [])" if "\<forall>x \<in> set ts. x \<le> later + 10" for ts
    using that by (intro quiet_ticks) auto
  moreover have "length (sent (ysf_call p)) = (if 1 \<le> yp_dgid p then 29 else 1)"
  proof -
    have "sent (xs @ ys) = sent xs @ sent ys" for xs ys by (simp add: sent_def)
    moreover have "sent [SendTo f, NanoSleep n] = [f]" for f n by (simp add: sent_def)
    ultimately show ?thesis unfolding ysf_call_def by (simp only: length_append burst_sent split: if_split) (simp add: sent_def)
  qed
  ultimately show ?thesis using r by (intro exI [of _ p']) (simp add: peer_ysf_linked_def)
qed

theorem ysf_reconnects_when_silent_witness:
  "\<exists>p'. ysf_runs [Ysf_tick 2000 2000, Ysf_tick 2001 2005] (ysf_opened\<lparr>yp_reconnect_pending := False, yp_last_rx := 1989\<rparr>) = Some (p', ysf_call ysf_opened)
     \<and> yp_last_rx p' = 2005"
proof -
  let ?p = "ysf_opened\<lparr>yp_reconnect_pending := False, yp_last_rx := 1989\<rparr>"
  have "ysf_inv ?p" using ysf_open_facts [OF ysf_opened_open fich_start_wf] by (simp add: ysf_inv_def)
  from ysf_reconnects_when_silent [OF this, of 2000 2000 2001 2005] show ?thesis
    by (auto simp: ysf_call_def)
qed

text \<open>
  C24: forwarded frames carry the configured group. When the group of this client is not 0, a frame of 155
  bytes is sent with its FICH block rewritten: any FICH decoder reads the group of this client, the frame
  information, frame number, frame type and call mode that the frame had, data type VD mode 2 and a clear VoIP
  flag; no byte outside the block changes. A frame of another length, or any frame when the group is 0, is sent as it is.
\<close>

theorem ysf_frames_carry_group:
  assumes "ysf_inv p" "length frame = 155" "fich_wf h"
  shows "\<exists>p' f g1. peer_ysf_send_ysfd frame 155 p = Some (p', f, [SendTo f]) \<and> length f = 155
    \<and> take 40 f = take 40 frame \<and> drop 65 f = drop 65 frame
    \<and> fich_decode (drop 40 frame) (yp_fich p) = Some g1
    \<and> (yp_dgid p = 0 \<longrightarrow> f = frame)
    \<and> (yp_dgid p \<noteq> 0 \<longrightarrow> (\<exists>h'. fich_decode (drop 40 f) h = Some h' \<and> ysf_fich_get_dgid h' = yp_dgid p
         \<and> fields_of (m_fich h') = (fields_of (m_fich g1))\<lparr>f_dt := YSF_FICH_DT_VD_MODE2\<rparr> \<and> \<not> bit (m_fich h' ! 2) 2))
    \<and> (\<forall>len. len \<noteq> 155 \<longrightarrow> peer_ysf_send_ysfd frame len p = Some (p, frame, [SendTo (take len frame)]))"
proof -
  obtain g1 where g1: "fich_decode (drop 40 frame) (yp_fich p) = Some g1" using fich_decode_returns by blast
  show ?thesis
  proof (cases "yp_dgid p = 0")
    case True
    then show ?thesis using assms(2) g1
      by (simp add: peer_ysf_send_ysfd_def ysf_fich_rewrite_dgid_def peer_ysf_send_def)
  next
    case False
    then have d: "1 \<le> yp_dgid p" by (simp add: word_le_nat_alt unat_gt_0 Suc_le_eq)
    from rewrite_dgid_aux [OF _ assms(3) _ d g1] assms(1,2)
    obtain g' f h' where "ysf_fich_rewrite_dgid frame (yp_dgid p) (yp_fich p) = Some (g', f)" "length f = length frame"
      "take 40 f = take 40 frame" "drop 65 f = drop 65 frame" "fich_decode (drop 40 f) h = Some h'"
      "fields_of (m_fich h') = (fields_of (m_fich g1))\<lparr>f_dt := YSF_FICH_DT_VD_MODE2\<rparr>" "ysf_fich_get_dgid h' = yp_dgid p"
      "\<not> bit (m_fich h' ! 2) 2"
      by (auto simp: ysf_inv_def)
    then show ?thesis using assms(2) False g1 by (simp add: peer_ysf_send_ysfd_def peer_ysf_send_def)
  qed
qed

theorem ysf_frames_carry_group_witness:
  "\<exists>p' f. peer_ysf_send_ysfd (replicate 155 0) 155 ysf_opened = Some (p', f, [SendTo f]) \<and> length f = 155"
proof -
  have "ysf_inv ysf_opened" using ysf_open_facts [OF ysf_opened_open fich_start_wf] by simp
  from ysf_frames_carry_group [OF this _ fich_start_wf, of "replicate 155 0"] show ?thesis by auto
qed

end
