(* ===== verification/Talker_Alias.thy ===== *)
theory Talker_Alias
  imports C_Strings
begin

text \<open>
  The talker alias decoder of \<open>src/talker_alias.c\<close>. The text buffer of the caller is a list whose
  length is \<open>textlen\<close>; reading or writing outside a buffer is undefined in C and None here. The
  buffer of four blocks has 28 bytes.
\<close>

definition rd :: "bytes \<Rightarrow> nat \<Rightarrow> u8 option" where
  "rd b i = (if i < length b then Some (b ! i) else None)"

definition ta_format :: "bytes \<Rightarrow> u8" where
  "ta_format b = drop_bit 6 (b ! 0) AND 0x03"

definition ta_size :: "bytes \<Rightarrow> nat" where
  "ta_size b = unat (drop_bit 1 (b ! 0) AND 0x1F)"

text \<open>The loop \<open>text[i] = buf[1 + i]\<close>.\<close>

fun copy_utf :: "bytes \<Rightarrow> nat \<Rightarrow> nat \<Rightarrow> bytes \<Rightarrow> bytes option" where
  "copy_utf buf i 0 text = Some text"
| "copy_utf buf i (Suc n) text = Option.bind (rd buf (1 + i)) (\<lambda>c. copy_utf buf (i + 1) n (text[i := c]))"

text \<open>The result 0 of the C functions is False; the text comes back as it was left.\<close>

definition decode_ta_utf :: "bytes \<Rightarrow> bytes \<Rightarrow> (bool \<times> bytes) option" where
  "decode_ta_utf buf text =
     (if text = [] then Some (False, text)
      else if ta_size buf = 0 \<or> 29 < ta_size buf then Some (False, text)
      else if ta_format buf \<noteq> 1 \<and> ta_format buf \<noteq> 2 then Some (False, text)
      else let n = (if length text \<le> ta_size buf then length text - 1 else ta_size buf)
           in map_option (\<lambda>text. (n \<noteq> 0, text[n := 0])) (copy_utf buf 0 n text))"

text \<open>The state of the bit loop: counter, collected bits, characters so far, text.\<close>

type_synonym ta7 = "nat \<times> u8 \<times> nat \<times> bytes"

definition ta7_bit :: "bytes \<Rightarrow> nat \<Rightarrow> nat \<Rightarrow> nat \<Rightarrow> ta7 \<Rightarrow> ta7" where
  "ta7_bit buf sz i j = (\<lambda>(t1, c, outlen, text).
     let c = push_bit 1 c OR (drop_bit j (buf ! i) AND 1); t1 = t1 + 1
     in if t1 = 7
        then let (outlen, text) = (if 0 < i \<and> outlen < sz then (outlen + 1, text[outlen := c AND 0x7F]) else (outlen, text))
             in (0, 0, outlen, text)
        else (t1, c, outlen, text))"

text \<open>
  \<open>t2\<close> of the source counts the same characters as \<open>outlen\<close>; the outer loop ends when all are there.
\<close>

definition ta7_byte :: "bytes \<Rightarrow> nat \<Rightarrow> nat \<Rightarrow> ta7 \<Rightarrow> ta7" where
  "ta7_byte buf sz i = (\<lambda>(t1, c, outlen, text).
     if sz \<le> outlen then (t1, c, outlen, text)
     else fold (ta7_bit buf sz i) [7, 6, 5, 4, 3, 2, 1, 0] (t1, c, outlen, text))"

definition decode_ta_7bit :: "bytes \<Rightarrow> bytes \<Rightarrow> bool \<times> bytes" where
  "decode_ta_7bit buf text =
     (if text = [] then (False, text)
      else if ta_format buf \<noteq> 0 then (False, text)
      else if ta_size buf = 0 \<or> length text \<le> ta_size buf then (False, text)
      else let (t1, c, outlen, text) = fold (ta7_byte buf (ta_size buf)) [0..<28] (0, 0, 0, text)
           in (0 < outlen, text[outlen := 0]))"

definition decode_ta_buf :: "bytes \<Rightarrow> bytes \<Rightarrow> (bool \<times> bytes) option" where
  "decode_ta_buf buf text =
     (if text = [] then Some (False, text)
      else if ta_format buf = 1 \<or> ta_format buf = 2 then decode_ta_utf buf text
      else if ta_format buf = 0 then Some (decode_ta_7bit buf text)
      else Some (False, text))"

text \<open>
  Trailing blanks go, then everything from the first control character. Whether a \<open>char\<close> is signed
  is the implementation's choice and an argument here: where it is, the bytes from 0x80 on are
  negative and below 32.
\<close>

fun trim_end :: "nat \<Rightarrow> bytes \<Rightarrow> bytes" where
  "trim_end 0 text = text"
| "trim_end (Suc n) text = (if text ! n = 0 \<or> text ! n = 0x20 then trim_end n (text[n := 0]) else text)"

definition ta_control :: "bool \<Rightarrow> u8 \<Rightarrow> bool" where
  "ta_control schar c \<longleftrightarrow> (if schar then sint c < 32 else uint c < 32) \<or> c = 127"

definition trim_ta_text :: "bool \<Rightarrow> bytes \<Rightarrow> bytes" where
  "trim_ta_text schar text =
     (let text = trim_end (length (c_str text)) text;
          i = length (takeWhile (\<lambda>c. \<not> ta_control schar c) (c_str text))
      in if i < length (c_str text) then text[i := 0] else text)"

definition dmra_parse_packet :: "bytes \<Rightarrow> (int \<times> nat \<times> bytes) option" where
  "dmra_parse_packet data =
     (if length data < 15 \<or> take 4 data \<noteq> ascii ''DMRA'' then None
      else if 3 < data ! 7 then None
      else Some (uint (push_bit 16 (ucast (data ! 4) :: u32) OR push_bit 8 (ucast (data ! 5)) OR ucast (data ! 6)),
                 unat (data ! 7), sub_buf data 8 7))"

definition dmra_decode_blocks :: "bool \<Rightarrow> bytes list \<Rightarrow> nat \<Rightarrow> bytes \<Rightarrow> (bool \<times> bytes) option" where
  "dmra_decode_blocks schar blocks have_mask text =
     (if text = [] \<or> \<not> bit have_mask 0 then Some (False, text)
      else let buf = replicate 28 0;
               buf = fold (\<lambda>i buf. if bit have_mask i then memcpy buf (i * 7) (blocks ! i) else buf) [0..<4] buf
           in Option.bind (decode_ta_buf buf text) (\<lambda>(ok, text).
                if \<not> ok then Some (False, text)
                else let text = trim_ta_text schar text in Some (text ! 0 \<noteq> 0, text)))"

end
