(* ===== verification/Talker_Alias_Props.thy ===== *)
theory Talker_Alias_Props
  imports Talker_Alias
begin

text \<open>
  What the talker alias decoder reads: the seven-bit loop is shown to deliver consecutive groups of
  seven bits, the eight-bit loop to copy bytes, or to read past its buffer, and the trimmed text to
  be printable.
\<close>

section \<open>Seven-bit tx\<close>

text \<open>Character k of a seven-bit alias: the bits from 7 + 7 k on.\<close>

definition ta_char :: "bytes \<Rightarrow> nat \<Rightarrow> u8" where
  "ta_char buf k = bits_to_byte (False # sub_buf (bits_of buf) (7 + 7 * k) 7)"

lemma shift_in:
  assumes "length bs = 8"
  shows "push_bit 1 (bits_to_byte bs) OR (drop_bit j x AND 1) = bits_to_byte (tl bs @ [bit x j])"
proof (rule byte_eqI)
  fix n :: nat assume n: "n < 8"
  have l: "length (tl bs @ [bit x j]) = 8" using assms by simp
  show "bit (push_bit 1 (bits_to_byte bs) OR (drop_bit j x AND 1)) n = bit (bits_to_byte (tl bs @ [bit x j])) n"
  proof (cases n)
    case 0
    then show ?thesis using assms
      by (simp only: bit_or_iff bit_and_iff bit_push_bit_iff bit_drop_bit_eq o_apply bit_bits_to_byte [OF l])
        (simp add: nth_append)
  next
    case (Suc m)
    then have "tl bs ! (7 - n) = bs ! (7 - m)" using assms n by (cases bs) (simp_all add: nth_tl)
    moreover have "6 - m < 7" by arith
    ultimately show ?thesis using assms n Suc
      by (simp only: bit_or_iff bit_and_iff bit_push_bit_iff bit_drop_bit_eq o_apply bit_bits_to_byte [OF l])
        (simp add: nth_append bit_bits_to_byte bit_1_iff)
  qed
qed

text \<open>The state after m bits, when the outer loop has not stopped.\<close>

definition ta7_inv :: "bytes \<Rightarrow> nat \<Rightarrow> bytes \<Rightarrow> nat \<Rightarrow> ta7 \<Rightarrow> bool" where
  "ta7_inv buf sz tx m = (\<lambda>(t1, c, outlen, tx').
     t1 = m mod 7 \<and> c = bits_to_byte (replicate (8 - m mod 7) False @ sub_buf (bits_of buf) (m - m mod 7) (m mod 7))
     \<and> outlen = min sz (m div 7 - 1) \<and> tx' = memcpy tx 0 (map (ta_char buf) [0..<outlen]))"

lemma memcpy_Suc:
  "n < length tx \<Longrightarrow> (memcpy tx 0 (map f [0..<n]))[n := f n] = memcpy tx 0 (map f [0..<Suc n])"
  by (simp add: memcpy_def list_update_append Cons_nth_drop_Suc [symmetric])

lemma sub_buf_snoc: "off + n < length xs \<Longrightarrow> sub_buf xs off n @ [xs ! (off + n)] = sub_buf xs off (Suc n)"
  by (simp add: sub_buf_def take_Suc_conv_app_nth)

lemma ta7_bit_step:
  assumes len: "length buf = 28" "sz < length tx" and m: "m < 224"
    and inv: "ta7_inv buf sz tx m st"
  shows "ta7_inv buf sz tx (Suc m) (ta7_bit buf sz (m div 8) (7 - m mod 8) st)"
proof -
  let ?b = "bits_of buf" and ?t = "m mod 7"
  obtain t1 c outlen tx' where st: "st = (t1, c, outlen, tx')" by (cases st)
  have i: "t1 = ?t" "c = bits_to_byte (replicate (8 - ?t) False @ sub_buf ?b (m - ?t) ?t)"
    "outlen = min sz (m div 7 - 1)" "tx' = memcpy tx 0 (map (ta_char buf) [0..<outlen])"
    using inv by (simp_all add: ta7_inv_def st)
  have bound: "m - ?t + ?t = m" by simp
  have t7: "?t < 7" by simp
  have lb: "length ?b = 224" using len by simp
  have bit: "bit (buf ! (m div 8)) (7 - m mod 8) = ?b ! m" using m len by (simp add: nth_bits_of)
  have ls: "length (sub_buf ?b (m - ?t) ?t) = ?t" using lb m by simp
  then have l8: "length (replicate (8 - ?t) False @ sub_buf ?b (m - ?t) ?t) = 8" using t7 by simp
  have tl: "tl (replicate (8 - ?t) False @ xs) = replicate (7 - ?t) False @ xs" for xs
  proof -
    have "8 - ?t = Suc (7 - ?t)" using t7 by simp
    then show ?thesis by (simp only: replicate_Suc append_Cons list.sel)
  qed
  have snoc: "sub_buf ?b (m - ?t) ?t @ [?b ! m] = sub_buf ?b (m - ?t) (Suc ?t)"
    using sub_buf_snoc [of "m - ?t" ?t ?b] m lb bound by simp
  define c' where "c' = push_bit 1 c OR (drop_bit (7 - m mod 8) (buf ! (m div 8)) AND 1)"
  have c': "c' = bits_to_byte (replicate (7 - ?t) False @ sub_buf ?b (m - ?t) (Suc ?t))"
    unfolding c'_def i(2) shift_in [OF l8] bit tl append_assoc snoc ..
  show ?thesis
  proof (cases "?t = 6")
    case False
    then have s: "Suc m mod 7 = Suc ?t" "Suc m div 7 = m div 7" using t7 by (simp_all add: mod_Suc div_Suc)
    have "ta7_bit buf sz (m div 8) (7 - m mod 8) st = (Suc ?t, c', outlen, tx')"
      unfolding st ta7_bit_def Let_def prod.case i(1) c'_def using False by simp
    moreover have "8 - Suc ?t = 7 - ?t" "Suc m - Suc ?t = m - ?t" by simp_all
    ultimately show ?thesis
      unfolding ta7_inv_def by (simp only: prod.case s c' i(3,4))
  next
    case True
    then have s: "Suc m mod 7 = 0" "Suc m div 7 = Suc (m div 7)" by (simp_all add: mod_Suc div_Suc)
    define q where "q = m div 7"
    have mq: "m = 7 * q + 6" using True by (metis mult_div_mod_eq q_def)
    have z: "bits_to_byte (replicate 8 False @ sub_buf ?b k 0) = 0" for k
      by (rule byte_eqI) (simp add: bits_to_byte_def sub_buf_def numeral_eq_Suc horner_sum_simps)
    have store: "c' AND 0x7F = ta_char buf (q - 1)" if "q \<noteq> 0"
    proof -
      have "7 + 7 * (q - 1) = m - 6" using that mq by (cases q) simp_all
      then have "c' = ta_char buf (q - 1)" unfolding c' ta_char_def using True by simp
      moreover have "x AND 0x7F = x" if "x = bits_to_byte (False # ys)" "length ys = 7" for x ys
        by (rule byte_eqI) (drule less_8_cases, elim disjE; simp add: that bit_and_iff bit_bits_to_byte)
      moreover have "length (sub_buf ?b (7 + 7 * (q - 1)) 7) = 7" using lb m mq that by simp
      ultimately show ?thesis unfolding ta_char_def by blast
    qed
    have byte: "m div 8 = 0 \<longleftrightarrow> q = 0" using mq by (cases q) auto
    have o: "outlen = min sz (q - 1)" using i(3) by (simp add: q_def)
    show ?thesis
    proof (cases "0 < m div 8 \<and> outlen < sz")
      case True
      then have q: "q \<noteq> 0" "outlen = q - 1" "min sz q = Suc outlen" using o byte by auto
      have "ta7_bit buf sz (m div 8) (7 - m mod 8) st = (0, 0, Suc outlen, tx'[outlen := ta_char buf outlen])"
        unfolding st ta7_bit_def Let_def prod.case i(1) c'_def [symmetric]
        using True \<open>?t = 6\<close> store q by simp
      moreover have "tx'[outlen := ta_char buf outlen] = memcpy tx 0 (map (ta_char buf) [0..<Suc outlen])"
        unfolding i(4) by (rule memcpy_Suc) (use True len(2) in simp)
      ultimately show ?thesis
        unfolding ta7_inv_def by (simp add: s z q_def [symmetric] q(3) del: upt_Suc)
    next
      case no: False
      then have q: "min sz q = outlen" using o byte by auto
      have "ta7_bit buf sz (m div 8) (7 - m mod 8) st = (0, 0, outlen, tx')"
        unfolding st ta7_bit_def Let_def prod.case i(1) c'_def [symmetric] using no \<open>?t = 6\<close> by auto
      then show ?thesis
        unfolding ta7_inv_def by (simp add: s z q_def [symmetric] q i(4))
    qed
  qed
qed

lemma ta7_byte_step:
  assumes "length buf = 28" "sz < length tx" "i < 28" "ta7_inv buf sz tx (8 * i) st"
  shows "ta7_inv buf sz tx (8 * Suc i) (fold (ta7_bit buf sz i) [7, 6, 5, 4, 3, 2, 1, 0] st)"
proof -
  have "ta7_inv buf sz tx (8 * i + k) (fold (ta7_bit buf sz i) (map (\<lambda>k. 7 - k) [0..<k]) st)" if "k \<le> 8" for k
    using that
  proof (induction k)
    case (Suc k)
    then have "(8 * i + k) div 8 = i" "(8 * i + k) mod 8 = k" by simp_all
    then show ?case
      using Suc assms(3) ta7_bit_step [OF assms(1,2), of "8 * i + k" "fold (ta7_bit buf sz i) (map (\<lambda>k. 7 - k) [0..<k]) st"]
      by simp
  qed (use assms(4) in simp)
  from this [of 8] have "ta7_inv buf sz tx (8 * i + 8) (fold (ta7_bit buf sz i) (map (\<lambda>k. 7 - k) [0..<8]) st)" by simp
  moreover have "map (\<lambda>k. 7 - k) [0..<8] = [7, 6, 5, 4, 3, 2, 1, 0 :: nat]" by (simp add: upt_rec)
  moreover have "8 * Suc i = 8 * i + 8" by simp
  ultimately show ?thesis by (simp only:)
qed

lemma ta7_loop:
  assumes "length buf = 28" "sz < length tx" "n \<le> 28"
  shows "ta7_inv buf sz tx (8 * n) (fold (ta7_byte buf sz) [0..<n] (0, 0, 0, tx))
    \<or> (\<exists>t1 c. fold (ta7_byte buf sz) [0..<n] (0, 0, 0, tx) = (t1, c, sz, memcpy tx 0 (map (ta_char buf) [0..<sz])))"
  using assms(3)
proof (induction n)
  case 0
  have "bits_to_byte (replicate 8 False) = 0" by (simp add: bits_to_byte_def numeral_eq_Suc horner_sum_simps)
  then show ?case by (simp add: ta7_inv_def memcpy_def sub_buf_def)
next
  case (Suc n)
  obtain t1 c outlen tx' where st: "fold (ta7_byte buf sz) [0..<n] (0, 0, 0, tx) = (t1, c, outlen, tx')"
    by (metis prod.exhaust)
  have u: "fold (ta7_byte buf sz) [0..<Suc n] (0, 0, 0, tx) = ta7_byte buf sz n (t1, c, outlen, tx')"
    using st by simp
  show ?case
  proof (cases "sz \<le> outlen")
    case True
    then have "outlen = sz \<and> tx' = memcpy tx 0 (map (ta_char buf) [0..<sz])"
      using Suc st by (auto simp: ta7_inv_def)
    then show ?thesis unfolding u by (simp add: ta7_byte_def)
  next
    case False
    then have "ta7_inv buf sz tx (8 * n) (t1, c, outlen, tx')" using Suc st by auto
    from ta7_byte_step [OF assms(1,2) _ this] Suc.prems False show ?thesis
      unfolding u by (simp add: ta7_byte_def)
  qed
qed

lemma ta_size_less: "ta_size buf < 32"
proof -
  have "drop_bit 1 (buf ! 0) AND 0x1F \<le> 0x1F" by (rule word_and_le1)
  then show ?thesis by (simp add: ta_size_def word_le_nat_alt)
qed

lemma decode_ta_7bit_text:
  assumes "length buf = 28" "ta_format buf = 0" "0 < ta_size buf" "ta_size buf < length tx"
  shows "decode_ta_7bit buf tx = (True, memcpy tx 0 (map (ta_char buf) [0..<ta_size buf] @ [0]))"
proof -
  let ?n = "ta_size buf"
  obtain t1 c where f: "fold (ta7_byte buf ?n) [0..<28] (0, 0, 0, tx) = (t1, c, ?n, memcpy tx 0 (map (ta_char buf) [0..<?n]))"
    using ta7_loop [OF assms(1,4), of 28] ta_size_less [of buf] by (auto simp: ta7_inv_def min_def split: prod.splits)
  have "(memcpy tx 0 (map (ta_char buf) [0..<?n]))[?n := 0] = memcpy tx 0 (map (ta_char buf) [0..<?n] @ [0])"
    using assms(4) by (simp add: memcpy_def list_update_append Cons_nth_drop_Suc [symmetric])
  moreover have "tx \<noteq> []" using assms(4) by auto
  ultimately show ?thesis using assms f by (simp add: decode_ta_7bit_def)
qed

section \<open>Eight-bit tx\<close>

lemma copy_utf_eq:
  "i + n \<le> length tx \<Longrightarrow>
   copy_utf buf i n tx = (if n = 0 \<or> 1 + i + n \<le> length buf then Some (memcpy tx i (sub_buf buf (1 + i) n)) else None)"
proof (induction n arbitrary: i tx)
  case 0
  then show ?case by (simp add: memcpy_def sub_buf_def)
next
  case (Suc n)
  have step: "memcpy (tx[i := buf ! Suc i]) (Suc i) (sub_buf buf (Suc (Suc i)) n) = memcpy tx i (sub_buf buf (Suc i) (Suc n))"
    if "1 + i + Suc n \<le> length buf"
  proof -
    have "sub_buf buf (Suc i) (Suc n) = buf ! Suc i # sub_buf buf (Suc (Suc i)) n"
      using that by (simp add: sub_buf_def Cons_nth_drop_Suc [symmetric])
    then show ?thesis using that Suc.prems
      by (simp add: memcpy_def upd_conv_take_nth_drop take_Suc_conv_app_nth) (simp add: ac_simps)
  qed
  show ?case
    using Suc.IH [of "Suc i" "tx[i := buf ! Suc i]"] Suc.prems step by (cases n) (auto simp: rd_def)
qed

lemma decode_ta_utf_text:
  assumes "length buf = 28" "ta_format buf = 1 \<or> ta_format buf = 2" "0 < ta_size buf" "ta_size buf \<le> 29"
    and "tx \<noteq> []" "n = min (ta_size buf) (length tx - 1)"
  shows "decode_ta_utf buf tx = (if n < 28 then Some (n \<noteq> 0, memcpy tx 0 (sub_buf buf 1 n @ [0])) else None)"
proof -
  have n: "(if length tx \<le> ta_size buf then length tx - 1 else ta_size buf) = n"
    using assms(5,6) by (cases tx) auto
  have l: "n < length tx" using assms(5,6) by (cases tx) auto
  have "(memcpy tx 0 (sub_buf buf 1 n))[n := 0] = memcpy tx 0 (sub_buf buf 1 n @ [0])" if "n < 28"
    using that assms(1) l by (simp add: memcpy_def list_update_append Cons_nth_drop_Suc [symmetric])
  then show ?thesis
    using assms l copy_utf_eq [of 0 n tx buf] unfolding decode_ta_utf_def n Let_def by auto
qed

section \<open>Trimming\<close>

definition rstrip :: "bytes \<Rightarrow> bytes" where
  "rstrip s = rev (dropWhile (\<lambda>c. c = 0x20) (rev s))"

lemma c_str_update:
  assumes "c_str tx = s @ r" "r \<noteq> []"
  shows "c_str (tx[length s := 0]) = s"
proof -
  have t: "tx = s @ r @ drop (length (s @ r)) tx"
    using takeWhile_dropWhile_id [of "\<lambda>c. c \<noteq> 0" tx] assms(1) unfolding c_str_def
    by (metis append.assoc append_eq_conv_conj)
  have "0 \<notin> set s" using c_str_no_zero [of tx] assms(1) by auto
  moreover have "tx[length s := 0] = s @ 0 # (tl r @ drop (length (s @ r)) tx)"
    using assms(2) by (subst t) (cases r; simp add: list_update_append)
  ultimately show ?thesis using c_str_terminated by metis
qed

lemma c_str_nth: "i < length (c_str tx) \<Longrightarrow> c_str tx ! i = tx ! i"
  unfolding c_str_def by (rule takeWhile_nth)

lemma trim_end_c_str:
  "c_str tx = s \<Longrightarrow> c_str (trim_end (length s) tx) = rstrip s"
proof (induction s arbitrary: tx rule: rev_induct)
  case (snoc c s)
  have n: "tx ! length s = c"
    using c_str_nth [of "length s" tx] snoc.prems by simp
  have c: "c \<noteq> 0" using c_str_no_zero [of tx] snoc.prems by auto
  show ?case
  proof (cases "c = 0x20")
    case True
    have "c_str (tx[length s := 0]) = s" using c_str_update [of tx s "[c]"] snoc.prems by simp
    then show ?thesis using snoc.IH n True by (simp add: rstrip_def)
  next
    case False
    then show ?thesis using n c snoc.prems by (simp add: rstrip_def)
  qed
qed (simp add: rstrip_def)

lemma trim_ta_text_c_str:
  "c_str (trim_ta_text schar tx) = takeWhile (\<lambda>c. \<not> ta_control schar c) (rstrip (c_str tx))"
proof -
  let ?t = "trim_end (length (c_str tx)) tx"
  let ?p = "\<lambda>c. \<not> ta_control schar c"
  have t: "c_str ?t = rstrip (c_str tx)" by (rule trim_end_c_str) simp
  show ?thesis
  proof (cases "length (takeWhile ?p (c_str ?t)) < length (c_str ?t)")
    case True
    then have "dropWhile ?p (c_str ?t) \<noteq> []" by (metis append.right_neutral less_irrefl takeWhile_dropWhile_id)
    from c_str_update [OF takeWhile_dropWhile_id [symmetric] this] show ?thesis
      using True by (simp add: trim_ta_text_def Let_def t)
  next
    case False
    then have "dropWhile ?p (c_str ?t) = []"
      by (metis length_append length_greater_0_conv less_add_same_cancel1 takeWhile_dropWhile_id)
    then have "takeWhile ?p (c_str ?t) = c_str ?t" by (metis append.right_neutral takeWhile_dropWhile_id)
    then show ?thesis unfolding trim_ta_text_def Let_def t [symmetric] by (simp del: takeWhile_eq_all_conv)
  qed
qed

lemma length_trim_end [simp]: "length (trim_end n tx) = length tx"
  by (induction n arbitrary: tx) auto

lemma length_trim_ta_text [simp]: "length (trim_ta_text schar tx) = length tx"
  by (simp add: trim_ta_text_def Let_def)

section \<open>Properties\<close>

text \<open>The 28 bytes of an alias: the blocks received, zeros for the others.\<close>

definition ta_joined :: "bytes list \<Rightarrow> nat \<Rightarrow> bytes" where
  "ta_joined blocks have_mask = concat (map (\<lambda>i. if bit have_mask i then blocks ! i else replicate 7 0) [0..<4])"

text \<open>
  The characters an alias announces, cut to the space of the caller, or None when there are none:
  format 0 is seven-bit text, 1 and 2 are bytes, 3 is not decoded.
\<close>

definition ta_chars :: "bytes \<Rightarrow> nat \<Rightarrow> bytes option" where
  "ta_chars buf room =
     (let n = ta_size buf
      in if n = 0 \<or> ta_format buf = 3 then None
         else if ta_format buf = 0 then if n < room then Some (map (ta_char buf) [0..<n]) else None
         else if 29 < n then None else Some (sub_buf buf 1 (min n (room - 1))))"

definition ta_shown :: "bool \<Rightarrow> bytes \<Rightarrow> bytes" where
  "ta_shown schar s = takeWhile (\<lambda>c. \<not> ta_control schar c) (rstrip (c_str s))"

lemma ta_joined_eq:
  assumes "length blocks = 4" "list_all (\<lambda>b. length b = 7) blocks"
  shows "fold (\<lambda>i buf. if bit m i then memcpy buf (i * 7) (blocks ! i) else buf) [0..<4] (replicate 28 0) = ta_joined blocks m"
    and "length (ta_joined blocks m) = 28"
proof -
  let ?f = "\<lambda>n. concat (map (\<lambda>i. if bit m i then blocks ! i else replicate 7 0) [0..<n])"
  have b: "length (if bit m i then blocks ! i else replicate 7 0) = 7" if "i < 4" for i
    using that assms by (auto simp: list_all_length)
  have l: "length (?f n) = 7 * n" if "n \<le> 4" for n
    using that
  proof (induction n)
    case (Suc n)
    then show ?case using b [of n] by simp
  qed simp
  then show "length (ta_joined blocks m) = 28" by (simp add: ta_joined_def)
  have "fold (\<lambda>i buf. if bit m i then memcpy buf (i * 7) (blocks ! i) else buf) [0..<n] (replicate 28 0) = ?f n @ replicate (28 - 7 * n) 0"
    if "n \<le> 4" for n
    using that
  proof (induction n)
    case (Suc n)
    have e: "28 - 7 * n = 7 + (28 - 7 * Suc n)" using Suc.prems by simp
    have ap: "memcpy (xs @ replicate (7 + k) 0) (length xs) ys = xs @ ys @ replicate k 0" if "length ys = 7" for xs ys :: bytes and k
      using that by (simp add: memcpy_def)
    have "memcpy (?f n @ replicate (28 - 7 * n) 0) (n * 7) (blocks ! n) = ?f n @ blocks ! n @ replicate (28 - 7 * Suc n) 0"
      if "bit m n"
    proof -
      have "length (blocks ! n) = 7" "n * 7 = length (?f n)" using that b [of n] l [of n] Suc.prems by simp_all
      with ap show ?thesis unfolding e by simp
    qed
    moreover have "replicate (28 - 7 * n) (0 :: u8) = replicate 7 0 @ replicate (28 - 7 * Suc n) 0"
      unfolding e by (rule replicate_add)
    ultimately show ?case using Suc by simp
  qed simp
  from this [of 4] show "fold (\<lambda>i buf. if bit m i then memcpy buf (i * 7) (blocks ! i) else buf) [0..<4] (replicate 28 0) = ta_joined blocks m"
    by (simp add: ta_joined_def)
qed

lemma ta_format_cases: "ta_format buf = 0 \<or> ta_format buf = 1 \<or> ta_format buf = 2 \<or> ta_format buf = 3"
proof -
  have "ta_format buf \<le> 3" unfolding ta_format_def by (rule word_and_le1)
  then have "unat (ta_format buf) \<le> 3" by (simp add: word_le_nat_alt)
  then have "unat (ta_format buf) = 0 \<or> unat (ta_format buf) = 1 \<or> unat (ta_format buf) = 2 \<or> unat (ta_format buf) = 3" by arith
  then show ?thesis by (auto simp: word_unat_eq_iff)
qed

lemma decode_ta_buf_chars:
  assumes "length buf = 28" "tx \<noteq> []"
  shows "decode_ta_buf buf tx =
    (case ta_chars buf (length tx) of
       None \<Rightarrow> Some (False, tx)
     | Some s \<Rightarrow> if ta_format buf \<noteq> 0 \<and> 28 \<le> min (ta_size buf) (length tx - 1) then None
         else Some (s \<noteq> [], memcpy tx 0 (s @ [0])))"
proof -
  let ?n = "min (ta_size buf) (length tx - 1)"
  have "decode_ta_7bit buf tx = (False, tx)" if "ta_size buf = 0 \<or> length tx \<le> ta_size buf"
    using that assms(2) by (auto simp: decode_ta_7bit_def)
  moreover have "decode_ta_utf buf tx = Some (False, tx)" if "ta_size buf = 0 \<or> 29 < ta_size buf"
    using that assms(2) by (auto simp: decode_ta_utf_def)
  moreover have "sub_buf buf 1 ?n \<noteq> [] \<longleftrightarrow> ?n \<noteq> 0" if "?n < 28"
  proof -
    have "length (sub_buf buf 1 ?n) = ?n" using that assms(1) by (intro length_sub_buf) simp
    then show ?thesis by (metis length_0_conv)
  qed
  ultimately show ?thesis
    using ta_format_cases [of buf] decode_ta_7bit_text [OF assms(1), of tx] assms(2)
      decode_ta_utf_text [OF assms(1) _ _ _ assms(2) refl]
    by (auto simp: decode_ta_buf_def ta_chars_def Let_def not_less)
qed

text \<open>
  C25: what the decoder shows. Given four blocks of seven bytes of which the first is present, unless
  the alias is one whose bytes run past the buffer, \<open>dmra_decode_blocks\<close> never leaves its buffers and
  reports success exactly when something remains of the announced characters after cutting trailing
  blanks and everything from the first control character; that is then the string it leaves.
  Seven-bit characters are the groups of seven bits from bit 7 of the joined blocks on, for any of
  the 31 lengths.
\<close>

theorem talker_alias_text:
  assumes "length blocks = 4" "list_all (\<lambda>b. length b = 7) blocks" "bit have_mask 0" "tx \<noteq> []"
    and "ta_format (ta_joined blocks have_mask) = 0 \<or> ta_size (ta_joined blocks have_mask) < 28 \<or> length tx \<le> 28"
  shows "\<exists>ok tx'. dmra_decode_blocks schar blocks have_mask tx = Some (ok, tx') \<and> length tx' = length tx
    \<and> (case ta_chars (ta_joined blocks have_mask) (length tx) of None \<Rightarrow> \<not> ok
       | Some s \<Rightarrow> (ok \<longleftrightarrow> ta_shown schar s \<noteq> []) \<and> (ok \<longrightarrow> c_str tx' = ta_shown schar s))"
proof -
  let ?buf = "ta_joined blocks have_mask"
  note j = ta_joined_eq [OF assms(1,2), of have_mask]
  note d = decode_ta_buf_chars [OF j(2) assms(4)]
  have e: "dmra_decode_blocks schar blocks have_mask tx = Option.bind (decode_ta_buf ?buf tx) (\<lambda>(ok, tx).
      if \<not> ok then Some (False, tx) else Some (trim_ta_text schar tx ! 0 \<noteq> 0, trim_ta_text schar tx))"
    using assms(3,4) unfolding dmra_decode_blocks_def Let_def j(1) by simp
  show ?thesis
  proof (cases "ta_chars ?buf (length tx)")
    case None
    then show ?thesis using d e by (intro exI [of _ False] exI [of _ tx]) simp
  next
    case (Some s)
    have ls: "length s < length tx"
      using Some assms(4) by (cases tx) (auto simp: ta_chars_def Let_def sub_buf_def split: if_splits)
    then have l: "length (memcpy tx 0 (s @ [0])) = length tx" by simp
    have "\<not> (ta_format ?buf \<noteq> 0 \<and> 28 \<le> min (ta_size ?buf) (length tx - 1))" using assms(4,5) by auto
    then have d': "decode_ta_buf ?buf tx = Some (s \<noteq> [], memcpy tx 0 (s @ [0]))" using d Some by simp
    have "c_str (s @ 0 # r) = c_str s" for s r :: bytes by (induction s) (simp_all add: c_str_def)
    then have "c_str (memcpy tx 0 (s @ [0])) = c_str s" by (simp add: memcpy_def)
    then have t: "c_str (trim_ta_text schar (memcpy tx 0 (s @ [0]))) = ta_shown schar s"
      by (simp add: trim_ta_text_c_str ta_shown_def)
    have "trim_ta_text schar (memcpy tx 0 (s @ [0])) \<noteq> []" using l assms(4) length_trim_ta_text by (metis length_0_conv)
    then have "trim_ta_text schar (memcpy tx 0 (s @ [0])) ! 0 \<noteq> 0 \<longleftrightarrow> c_str (trim_ta_text schar (memcpy tx 0 (s @ [0]))) \<noteq> []"
      by (cases "trim_ta_text schar (memcpy tx 0 (s @ [0]))") (simp_all add: c_str_def)
    moreover have "s = [] \<Longrightarrow> ta_shown schar s = []" by (simp add: ta_shown_def c_str_def rstrip_def)
    ultimately show ?thesis using d' e t l Some by auto
  qed
qed

text \<open>
  Byte aliases of 28 or 29 characters. When the caller's buffer has room for them, the decoder
  reads one or two bytes past its 28-byte buffer: the length is checked against 29, but the first
  byte of the buffer is the header.
\<close>

theorem talker_alias_overrun:
  assumes "length blocks = 4" "list_all (\<lambda>b. length b = 7) blocks" "bit have_mask 0"
    and "ta_format (ta_joined blocks have_mask) \<in> {1, 2}" "ta_size (ta_joined blocks have_mask) \<in> {28, 29}"
    and "28 < length tx"
  shows "dmra_decode_blocks schar blocks have_mask tx = None"
proof -
  let ?buf = "ta_joined blocks have_mask"
  note j = ta_joined_eq [OF assms(1,2), of have_mask]
  have "tx \<noteq> []" using assms(6) by auto
  note d = decode_ta_buf_chars [OF j(2) this]
  have "ta_chars ?buf (length tx) \<noteq> None" using assms(4,5) by (auto simp: ta_chars_def)
  moreover have "28 \<le> min (ta_size ?buf) (length tx - 1)" "ta_format ?buf \<noteq> 0" using assms(4-6) by auto
  ultimately have "decode_ta_buf ?buf tx = None" using d by auto
  then show ?thesis using assms(3) \<open>tx \<noteq> []\<close> by (simp add: dmra_decode_blocks_def Let_def j(1))
qed

definition ta_sample :: "u8 \<Rightarrow> bytes list" where
  "ta_sample header = [[header, 0x43, 0x45, 0x35, 0x52, 0x50, 0x59], replicate 7 0x41, replicate 7 0x42, replicate 7 0x43]"

lemma ta_sample_joined:
  "ta_joined (ta_sample header) 15 = [header, 0x43, 0x45, 0x35, 0x52, 0x50, 0x59] @ replicate 7 0x41 @ replicate 7 0x42 @ replicate 7 0x43"
  by (simp add: ta_joined_def ta_sample_def upt_rec bit_numeral_rec bit_0)

theorem talker_alias_text_witness:
  "\<exists>tx'. dmra_decode_blocks True (ta_sample 0x4C) 15 (replicate 32 0) = Some (True, tx')
     \<and> c_str tx' = [0x43, 0x45, 0x35, 0x52, 0x50, 0x59]"
proof -
  have "ta_joined (ta_sample 0x4C) 15 ! 0 = 0x4C" by (simp add: ta_sample_joined)
  then have f: "ta_format (ta_joined (ta_sample 0x4C) 15) = 1" "ta_size (ta_joined (ta_sample 0x4C) 15) = 6"
    by (simp_all add: ta_format_def ta_size_def)
  have "ta_chars (ta_joined (ta_sample 0x4C) 15) 32 = Some [0x43, 0x45, 0x35, 0x52, 0x50, 0x59]"
    unfolding ta_chars_def f by (simp add: ta_sample_joined sub_buf_def)
  moreover have "ta_shown True [0x43, 0x45, 0x35, 0x52, 0x50, 0x59] = [0x43, 0x45, 0x35, 0x52, 0x50, 0x59]"
    by (simp add: ta_shown_def rstrip_def c_str_def ta_control_def)
  ultimately show ?thesis
    using talker_alias_text [of "ta_sample 0x4C" 15 "replicate 32 0" True] f
    by (auto simp: ta_sample_def bit_numeral_rec bit_0)
qed

theorem talker_alias_overrun_witness:
  "dmra_decode_blocks True (ta_sample 0x7A) 15 (replicate 32 0) = None"
proof -
  have "ta_joined (ta_sample 0x7A) 15 ! 0 = 0x7A" by (simp add: ta_sample_joined)
  then have f: "ta_format (ta_joined (ta_sample 0x7A) 15) = 1" "ta_size (ta_joined (ta_sample 0x7A) 15) = 29"
    by (simp_all add: ta_format_def ta_size_def)
  then show ?thesis
    using talker_alias_overrun [of "ta_sample 0x7A" 15 "replicate 32 0" True] by (simp add: ta_sample_def bit_numeral_rec bit_0)
qed

end
