(* ===== verification/Ring_Buffer.thy ===== *)
theory Ring_Buffer
  imports Prelude
begin

text \<open>
  The circular buffer of \<open>src/mmdvm/RingBuffer.h\<close> (class template \<open>CRingBuffer\<close>), its abstraction
  to the list of the elements it holds, and the interface \<open>fifo\<close> through which the frame
  converter uses it. The destructor and the name that only labels log lines are left out; the
  pointers stay below the length, so they are natural numbers.
\<close>

section \<open>The class\<close>

record 'a ring_buffer =
  m_length :: nat
  m_buffer :: "'a list"
  m_iPtr :: nat
  m_oPtr :: nat

definition CRingBuffer :: "nat \<Rightarrow> ('a :: zero) ring_buffer" where
  "CRingBuffer len = \<lparr>m_length = len, m_buffer = replicate len 0, m_iPtr = 0, m_oPtr = 0\<rparr>"

definition clear :: "('a :: zero) ring_buffer \<Rightarrow> 'a ring_buffer" where
  "clear r = r\<lparr>m_iPtr := 0, m_oPtr := 0, m_buffer := memset (m_buffer r) 0 0 (m_length r)\<rparr>"

definition freeSpace :: "'a ring_buffer \<Rightarrow> nat" where
  "freeSpace r =
     (let len = m_length r;
          len = (if m_iPtr r < m_oPtr r then m_oPtr r - m_iPtr r
                 else if m_oPtr r < m_iPtr r then m_length r - (m_iPtr r - m_oPtr r)
                 else len)
      in if m_length r < len then 0 else len)"

definition dataSize :: "'a ring_buffer \<Rightarrow> nat" where
  "dataSize r = m_length r - freeSpace r"

definition hasSpace :: "nat \<Rightarrow> 'a ring_buffer \<Rightarrow> bool" where
  "hasSpace len r \<longleftrightarrow> len < freeSpace r"

definition hasData :: "'a ring_buffer \<Rightarrow> bool" where
  "hasData r \<longleftrightarrow> m_oPtr r \<noteq> m_iPtr r"

definition isEmpty :: "'a ring_buffer \<Rightarrow> bool" where
  "isEmpty r \<longleftrightarrow> m_oPtr r = m_iPtr r"

text \<open>One turn of the loop of \<open>addData\<close>, and of the loops of \<open>getData\<close> and \<open>peek\<close>.\<close>

definition ring_store :: "'a \<Rightarrow> 'a ring_buffer \<Rightarrow> 'a ring_buffer" where
  "ring_store x r =
     (let r = r\<lparr>m_buffer := (m_buffer r)[m_iPtr r := x], m_iPtr := m_iPtr r + 1\<rparr>
      in if m_iPtr r = m_length r then r\<lparr>m_iPtr := 0\<rparr> else r)"

definition ring_next :: "nat \<Rightarrow> nat \<Rightarrow> nat" where
  "ring_next len p = (let p = p + 1 in if p = len then 0 else p)"

definition addData :: "('a :: zero) list \<Rightarrow> nat \<Rightarrow> 'a ring_buffer \<Rightarrow> bool \<times> 'a ring_buffer" where
  "addData buffer nSamples r =
     (if freeSpace r \<le> nSamples then (False, clear r)
      else (True, fold (\<lambda>i. ring_store (buffer ! i)) [0..<nSamples] r))"

text \<open>The destination of a read is a buffer and an offset into it.\<close>

definition ring_load :: "nat \<Rightarrow> nat \<Rightarrow> 'a list \<times> nat \<Rightarrow> 'a ring_buffer \<Rightarrow> 'a list \<times> nat" where
  "ring_load off i = (\<lambda>(dst, p) r. (dst[off + i := m_buffer r ! p], ring_next (m_length r) p))"

definition getData :: "'a list \<Rightarrow> nat \<Rightarrow> nat \<Rightarrow> 'a ring_buffer \<Rightarrow> bool \<times> 'a list \<times> 'a ring_buffer" where
  "getData dst off nSamples r =
     (if dataSize r < nSamples then (False, dst, r)
      else let (dst, p) = fold (\<lambda>i a. ring_load off i a r) [0..<nSamples] (dst, m_oPtr r)
           in (True, dst, r\<lparr>m_oPtr := p\<rparr>))"

definition peek :: "'a list \<Rightarrow> nat \<Rightarrow> nat \<Rightarrow> 'a ring_buffer \<Rightarrow> bool \<times> 'a list" where
  "peek dst off nSamples r =
     (if dataSize r < nSamples then (False, dst)
      else (True, fst (fold (\<lambda>i a. ring_load off i a r) [0..<nSamples] (dst, m_oPtr r))))"

section \<open>The queue it stands for\<close>

definition ring_ok :: "'a ring_buffer \<Rightarrow> bool" where
  "ring_ok r \<longleftrightarrow> length (m_buffer r) = m_length r \<and> m_iPtr r < m_length r \<and> m_oPtr r < m_length r"

definition ring_items :: "'a ring_buffer \<Rightarrow> 'a list" where
  "ring_items r = map (\<lambda>i. m_buffer r ! ((m_oPtr r + i) mod m_length r)) [0..<dataSize r]"

lemma freeSpace_eq:
  "m_iPtr r < m_length r \<Longrightarrow> m_oPtr r < m_length r \<Longrightarrow> freeSpace r =
     (if m_iPtr r < m_oPtr r then m_oPtr r - m_iPtr r else m_length r - (m_iPtr r - m_oPtr r))"
  by (auto simp: freeSpace_def Let_def)

lemma dataSize_eq:
  "m_iPtr r < m_length r \<Longrightarrow> m_oPtr r < m_length r \<Longrightarrow> dataSize r =
     (if m_iPtr r < m_oPtr r then m_length r - m_oPtr r + m_iPtr r else m_iPtr r - m_oPtr r)"
  by (auto simp: dataSize_def freeSpace_eq)

lemma length_ring_items [simp]: "length (ring_items r) = dataSize r"
  by (simp add: ring_items_def)

lemma ring_space: "ring_ok r \<Longrightarrow> freeSpace r = m_length r - dataSize r \<and> dataSize r < m_length r"
  by (auto simp: dataSize_eq freeSpace_eq ring_ok_def)

lemma iPtr_mod: "ring_ok r \<Longrightarrow> m_iPtr r = (m_oPtr r + dataSize r) mod m_length r"
  by (auto simp: dataSize_eq ring_ok_def mod_if)

lemma ring_next_mod: "p < n \<Longrightarrow> ring_next n p = (p + 1) mod n"
  by (auto simp: ring_next_def Let_def)

lemma mod_add_inj:
  assumes "i \<le> j" "j < n" "(p + i) mod n = (p + j) mod (n :: nat)"
  shows "i = j"
proof -
  have "n dvd (p + j) - (p + i)"
    using assms by (subst mod_eq_dvd_iff_nat [symmetric]) simp_all
  then have "n dvd j - i" by simp
  moreover have "j - i < n" using assms by simp
  ultimately have "j - i = 0" using nat_dvd_not_less by blast
  then show ?thesis using assms(1) by simp
qed

lemma ring_store_items:
  assumes "ring_ok r" "dataSize r + 1 < m_length r"
  shows "ring_ok (ring_store x r)" "m_length (ring_store x r) = m_length r"
    "dataSize (ring_store x r) = dataSize r + 1" "ring_items (ring_store x r) = ring_items r @ [x]"
proof -
  have r: "length (m_buffer r) = m_length r" "m_iPtr r < m_length r" "m_oPtr r < m_length r"
    using assms(1) by (auto simp: ring_ok_def)
  show ok: "ring_ok (ring_store x r)" and len: "m_length (ring_store x r) = m_length r"
    using r by (auto simp: ring_store_def ring_ok_def Let_def)
  have o: "m_oPtr (ring_store x r) = m_oPtr r" by (simp add: ring_store_def Let_def)
  show size: "dataSize (ring_store x r) = dataSize r + 1"
    using assms r by (auto simp: dataSize_eq ring_store_def Let_def split: if_splits)
  have buf: "m_buffer (ring_store x r) = (m_buffer r)[m_iPtr r := x]" by (simp add: ring_store_def Let_def)
  show "ring_items (ring_store x r) = ring_items r @ [x]"
  proof (rule nth_equalityI)
    fix i assume "i < length (ring_items (ring_store x r))"
    then have i: "i \<le> dataSize r" by (simp add: size)
    have "(m_oPtr r + i) mod m_length r = m_iPtr r \<longleftrightarrow> i = dataSize r"
      using iPtr_mod [OF assms(1)] mod_add_inj [of i "dataSize r" "m_length r" "m_oPtr r"] i assms(2) by auto
    then show "ring_items (ring_store x r) ! i = (ring_items r @ [x]) ! i"
      using i r assms(2) iPtr_mod [OF assms(1)]
      by (cases "i = dataSize r") (simp_all add: ring_items_def size buf o len nth_append nth_list_update)
  qed (simp add: size)
qed

lemma ring_store_all:
  assumes "ring_ok r" "dataSize r + length xs < m_length r" "n \<le> length xs"
  shows "ring_ok (fold (\<lambda>i. ring_store (xs ! i)) [0..<n] r)
    \<and> m_length (fold (\<lambda>i. ring_store (xs ! i)) [0..<n] r) = m_length r
    \<and> dataSize (fold (\<lambda>i. ring_store (xs ! i)) [0..<n] r) = dataSize r + n
    \<and> ring_items (fold (\<lambda>i. ring_store (xs ! i)) [0..<n] r) = ring_items r @ take n xs"
  using assms(3)
proof (induction n)
  case (Suc n)
  then show ?case
    using assms(2) ring_store_items [of "fold (\<lambda>i. ring_store (xs ! i)) [0..<n] r" "xs ! n"]
    by (simp add: take_Suc_conv_app_nth)
qed (use assms(1) in simp)

lemma clear_empty: "ring_ok r \<Longrightarrow> ring_ok (clear r) \<and> ring_items (clear r) = [] \<and> m_length (clear r) = m_length r"
  by (auto simp: clear_def ring_ok_def ring_items_def dataSize_def freeSpace_def)

lemma ring_load_all:
  assumes "ring_ok r" "n \<le> dataSize r" "off + n \<le> length dst"
  shows "fold (\<lambda>i a. ring_load off i a r) [0..<n] (dst, m_oPtr r)
    = (memcpy dst off (take n (ring_items r)), (m_oPtr r + n) mod m_length r)"
  using assms(2,3)
proof (induction n)
  case 0
  then show ?case using assms(1) by (simp add: memcpy_def ring_ok_def)
next
  case (Suc n)
  have "(m_oPtr r + n) mod m_length r < m_length r" using assms(1) by (auto simp: ring_ok_def)
  note next_p = ring_next_mod [OF this]
  have "(memcpy dst off (take n (ring_items r)))[off + n := ring_items r ! n]
      = memcpy dst off (take (Suc n) (ring_items r))"
    using Suc.prems by (intro nth_equalityI) (auto simp: nth_memcpy nth_list_update)
  moreover have "ring_items r ! n = m_buffer r ! ((m_oPtr r + n) mod m_length r)"
    using Suc.prems by (simp add: ring_items_def)
  ultimately show ?case
    using Suc by (simp add: ring_load_def next_p mod_Suc_eq)
qed

lemma getData_items:
  assumes "ring_ok r" "n \<le> dataSize r"
  shows "ring_ok (r\<lparr>m_oPtr := (m_oPtr r + n) mod m_length r\<rparr>)"
    "ring_items (r\<lparr>m_oPtr := (m_oPtr r + n) mod m_length r\<rparr>) = drop n (ring_items r)"
proof -
  let ?r = "r\<lparr>m_oPtr := (m_oPtr r + n) mod m_length r\<rparr>"
  show ok: "ring_ok ?r" using assms(1) by (auto simp: ring_ok_def)
  have b: "m_oPtr r + n < 2 * m_length r" using assms ring_space [OF assms(1)] by (auto simp: ring_ok_def)
  then have p: "(m_oPtr r + n) mod m_length r
      = (if m_oPtr r + n < m_length r then m_oPtr r + n else m_oPtr r + n - m_length r)"
    by (auto simp: mod_if le_mod_geq)
  have size: "dataSize ?r = dataSize r - n"
    using assms p ok by (auto simp: dataSize_eq ring_ok_def split: if_splits)
  show "ring_items ?r = drop n (ring_items r)"
  proof (rule nth_equalityI)
    show "length (ring_items ?r) = length (drop n (ring_items r))" by (simp add: size)
    fix i assume "i < length (ring_items ?r)"
    then have "i < dataSize r - n" "n + i < dataSize r" by (simp_all add: size)
    then show "ring_items ?r ! i = drop n (ring_items r) ! i"
      by (simp add: ring_items_def size mod_add_left_eq add.assoc)
  qed
qed

section \<open>The interface of a bounded queue\<close>

text \<open>
  What a client may rely on: a write that fits strictly is appended, one that does not empties the
  queue; a read that is covered takes from the front, one that is not changes nothing.
\<close>

locale fifo =
  fixes inv :: "'s \<Rightarrow> bool" and items :: "'s \<Rightarrow> 'a list" and cap :: "'s \<Rightarrow> nat"
    and put :: "'a list \<Rightarrow> 's \<Rightarrow> bool \<times> 's"
    and get :: "'a list \<Rightarrow> nat \<Rightarrow> nat \<Rightarrow> 's \<Rightarrow> bool \<times> 'a list \<times> 's"
    and look :: "'a list \<Rightarrow> nat \<Rightarrow> nat \<Rightarrow> 's \<Rightarrow> bool \<times> 'a list"
  assumes put_fits: "inv s \<Longrightarrow> length (items s) + length xs < cap s \<Longrightarrow>
      \<exists>s'. put xs s = (True, s') \<and> inv s' \<and> cap s' = cap s \<and> items s' = items s @ xs"
    and put_overflow: "inv s \<Longrightarrow> cap s \<le> length (items s) + length xs \<Longrightarrow>
      \<exists>s'. put xs s = (False, s') \<and> inv s' \<and> cap s' = cap s \<and> items s' = []"
    and get_covered: "inv s \<Longrightarrow> n \<le> length (items s) \<Longrightarrow> off + n \<le> length dst \<Longrightarrow>
      \<exists>s'. get dst off n s = (True, memcpy dst off (take n (items s)), s')
        \<and> inv s' \<and> cap s' = cap s \<and> items s' = drop n (items s)"
    and get_underflow: "length (items s) < n \<Longrightarrow> get dst off n s = (False, dst, s)"
    and look_covered: "inv s \<Longrightarrow> n \<le> length (items s) \<Longrightarrow> off + n \<le> length dst \<Longrightarrow>
      look dst off n s = (True, memcpy dst off (take n (items s)))"
    and look_underflow: "length (items s) < n \<Longrightarrow> look dst off n s = (False, dst)"
begin

lemma put_put_fits:
  assumes "inv s" "length (items s) + length xs + length ys < cap s"
  shows "inv (snd (put ys (snd (put xs s)))) \<and> cap (snd (put ys (snd (put xs s)))) = cap s
    \<and> items (snd (put ys (snd (put xs s)))) = items s @ xs @ ys"
proof -
  obtain s1 where s1: "put xs s = (True, s1)" "inv s1" "cap s1 = cap s" "items s1 = items s @ xs"
    using put_fits [OF assms(1), of xs] assms(2) by auto
  obtain s2 where "put ys s1 = (True, s2)" "inv s2" "cap s2 = cap s1" "items s2 = items s1 @ ys"
    using put_fits [OF s1(2), of ys] assms(2) s1(3,4) by auto
  with s1 show ?thesis by simp
qed

lemma get_item:
  assumes "inv s" "items s = x @ rest" "length x = n" "off + n \<le> length dst"
  shows "\<exists>s'. get dst off n s = (True, memcpy dst off x, s') \<and> inv s' \<and> cap s' = cap s \<and> items s' = rest"
  using get_covered [OF assms(1), of n off dst] assms by auto

lemma look_item:
  assumes "inv s" "items s = x @ rest" "length x = n" "off + n \<le> length dst"
  shows "look dst off n s = (True, memcpy dst off x)"
  using look_covered [OF assms(1), of n off dst] assms by auto

end

interpretation ring: fifo ring_ok ring_items m_length "\<lambda>xs. addData xs (length xs)" getData peek
proof
  fix s :: "'a ring_buffer" and xs :: "'a list"
  assume s: "ring_ok s"
  note sp = ring_space [OF s]
  show "\<exists>s'. addData xs (length xs) s = (True, s') \<and> ring_ok s' \<and> m_length s' = m_length s
      \<and> ring_items s' = ring_items s @ xs"
    if "length (ring_items s) + length xs < m_length s"
    using that sp ring_store_all [OF s, of xs "length xs"] by (auto simp: addData_def)
  show "\<exists>s'. addData xs (length xs) s = (False, s') \<and> ring_ok s' \<and> m_length s' = m_length s
      \<and> ring_items s' = []"
    if "m_length s \<le> length (ring_items s) + length xs"
    using that sp clear_empty [OF s] by (auto simp: addData_def)
next
  fix s :: "'a ring_buffer" and n off and dst :: "'a list"
  assume s: "ring_ok s" and n: "n \<le> length (ring_items s)" "off + n \<le> length dst"
  then have n': "n \<le> dataSize s" by simp
  show "\<exists>s'. getData dst off n s = (True, memcpy dst off (take n (ring_items s)), s')
      \<and> ring_ok s' \<and> m_length s' = m_length s \<and> ring_items s' = drop n (ring_items s)"
    using ring_load_all [OF s n' n(2)] getData_items [OF s n'] n' by (simp add: getData_def)
  show "peek dst off n s = (True, memcpy dst off (take n (ring_items s)))"
    using ring_load_all [OF s n' n(2)] n' by (simp add: peek_def)
qed (simp_all add: getData_def peek_def)

lemma ring_start: "0 < len \<Longrightarrow> ring_ok (CRingBuffer len) \<and> ring_items (CRingBuffer len) = [] \<and> m_length (CRingBuffer len) = len"
  by (simp add: CRingBuffer_def ring_ok_def ring_items_def dataSize_def freeSpace_def)

section \<open>Sequences of operations\<close>

datatype 'a ring_act = Add "'a list" | Get nat | Peek nat | Clear

type_synonym 'a ring_obs = "bool \<times> 'a list \<times> nat \<times> bool \<times> bool"

definition ring_step :: "('a :: zero) ring_act \<Rightarrow> 'a ring_buffer \<Rightarrow> 'a ring_obs \<times> 'a ring_buffer" where
  "ring_step a r =
     (let (ok, dst, r) =
        (case a of
           Add xs \<Rightarrow> let (ok, r) = addData xs (length xs) r in (ok, [], r)
         | Get n \<Rightarrow> getData (replicate n 0) 0 n r
         | Peek n \<Rightarrow> let (ok, dst) = peek (replicate n 0) 0 n r in (ok, dst, r)
         | Clear \<Rightarrow> (True, [], clear r))
      in ((ok, dst, dataSize r, hasData r, isEmpty r), r))"

definition queue_step :: "nat \<Rightarrow> ('a :: zero) ring_act \<Rightarrow> 'a list \<Rightarrow> 'a ring_obs \<times> 'a list" where
  "queue_step len a q =
     (let (ok, dst, q) =
        (case a of
           Add xs \<Rightarrow> if length q + length xs < len then (True, [], q @ xs) else (False, [], [])
         | Get n \<Rightarrow> if n \<le> length q then (True, take n q, drop n q) else (False, replicate n 0, q)
         | Peek n \<Rightarrow> if n \<le> length q then (True, take n q, q) else (False, replicate n 0, q)
         | Clear \<Rightarrow> (True, [], []))
      in ((ok, dst, length q, q \<noteq> [], q = []), q))"

primrec run_steps :: "('b \<Rightarrow> 's \<Rightarrow> 'o \<times> 's) \<Rightarrow> 'b list \<Rightarrow> 's \<Rightarrow> 'o list" where
  "run_steps step [] s = []"
| "run_steps step (a # as) s = (let (obs, s) = step a s in obs # run_steps step as s)"

lemma ring_flags: "ring_ok r \<Longrightarrow> (hasData r \<longleftrightarrow> ring_items r \<noteq> []) \<and> (isEmpty r \<longleftrightarrow> ring_items r = [])"
  using length_ring_items [of r]
  by (auto simp: hasData_def isEmpty_def ring_ok_def dataSize_eq simp flip: length_0_conv split: if_splits)

lemma ring_step_queue:
  assumes "ring_ok r"
  shows "fst (ring_step a r) = fst (queue_step (m_length r) a (ring_items r))
    \<and> ring_ok (snd (ring_step a r)) \<and> m_length (snd (ring_step a r)) = m_length r
    \<and> ring_items (snd (ring_step a r)) = snd (queue_step (m_length r) a (ring_items r))"
proof -
  have obs: "dataSize r' = length (ring_items r')" "hasData r' \<longleftrightarrow> ring_items r' \<noteq> []" "isEmpty r' \<longleftrightarrow> ring_items r' = []"
    if "ring_ok r'" for r' :: "'a ring_buffer" using ring_flags [OF that] by simp_all
  show ?thesis
  proof (cases a)
    case (Add xs)
    show ?thesis
    proof (cases "length (ring_items r) + length xs < m_length r")
      case True
      then show ?thesis using ring.put_fits [OF assms, of xs] assms
        by (auto simp: Add ring_step_def queue_step_def obs simp del: length_ring_items)
    next
      case False
      then show ?thesis using ring.put_overflow [OF assms, of xs] assms
        by (auto simp: Add ring_step_def queue_step_def obs simp del: length_ring_items)
    qed
  next
    case (Get n)
    show ?thesis
    proof (cases "n \<le> length (ring_items r)")
      case True
      then show ?thesis using ring.get_covered [OF assms, of n 0 "replicate n 0"] assms
        by (auto simp: Get ring_step_def queue_step_def obs simp del: length_ring_items)
    next
      case False
      then show ?thesis using ring.get_underflow [of r n "replicate n 0" 0] assms
        by (auto simp: Get ring_step_def queue_step_def obs simp del: length_ring_items)
    qed
  next
    case (Peek n)
    show ?thesis
    proof (cases "n \<le> length (ring_items r)")
      case True
      then show ?thesis using ring.look_covered [OF assms, of n 0 "replicate n 0"] assms
        by (auto simp: Peek ring_step_def queue_step_def obs simp del: length_ring_items)
    next
      case False
      then show ?thesis using ring.look_underflow [of r n "replicate n 0" 0] assms
        by (auto simp: Peek ring_step_def queue_step_def obs simp del: length_ring_items)
    qed
  next
    case Clear
    then show ?thesis using clear_empty [OF assms] by (simp add: ring_step_def queue_step_def obs del: length_ring_items)
  qed
qed

lemma ring_runs_queue: "ring_ok r \<Longrightarrow> run_steps ring_step as r = run_steps (queue_step (m_length r)) as (ring_items r)"
proof (induction "as" arbitrary: r)
  case (Cons a "as")
  from ring_step_queue [OF Cons.prems, of a] Cons.IH [of "snd (ring_step a r)"]
  show ?case by (auto simp: Let_def split_def)
qed simp

text \<open>
  C27: the circular buffer is a bounded queue. From a new buffer of any positive length every
  sequence of writes, reads, peeks and clears of any sizes returns, operation by operation, what a
  list returns that loses everything when a write does not leave one place free: the success flags,
  the elements read, the fill level and the two emptiness tests.
\<close>

theorem ring_buffer_is_queue:
  assumes "0 < len"
  shows "run_steps ring_step as (CRingBuffer len) = run_steps (queue_step len) as []"
  using assms by (simp add: ring_runs_queue ring_start)

theorem ring_buffer_is_queue_witness:
  "run_steps ring_step [Add [1, 2], Get 1, Add [3, 4], Peek 3, Get 4, Add [5 :: nat]] (CRingBuffer 4)
     = [(True, [], 2, True, False), (True, [1], 1, True, False), (True, [], 3, True, False),
        (True, [2, 3, 4], 3, True, False), (False, [0, 0, 0, 0], 3, True, False), (False, [], 0, False, True)]"
  using ring_buffer_is_queue [of 4 "[Add [1, 2], Get 1, Add [3, 4], Peek 3, Get 4, Add [5 :: nat]]"]
  by (simp add: queue_step_def numeral_eq_Suc)

end
