(* ===== verification/Cgolay.thy ===== *)
theory Cgolay
  imports Cgolay_Tables Ysf_Golay
begin

text \<open>
  The Golay codes of \<open>src/mmdvm/Golay24128.cpp\<close> that the vocoder frame converter uses. The class
  has its own tables and its own division loop; the lemmas show that they agree with the C side,
  so that its theory carries over, and when the loop stops.
\<close>

section \<open>The operations\<close>

definition CGOLAY_X22 :: u32 where "CGOLAY_X22 = 0x00400000"
definition CGOLAY_X11 :: u32 where "CGOLAY_X11 = 0x00000800"
definition CGOLAY_MASK12 :: u32 where "CGOLAY_MASK12 = 0xfffff800"
definition CGOLAY_GENPOL :: u32 where "CGOLAY_GENPOL = 0x00000c75"

partial_function (option) cgolay_align :: "u32 \<Rightarrow> u32 \<Rightarrow> u32 option" where
  "cgolay_align aux pattern =
     (if aux AND pattern = 0 then cgolay_align (drop_bit 1 aux) pattern else Some aux)"

partial_function (option) cgolay_reduce :: "u32 \<Rightarrow> u32 \<Rightarrow> u32 option" where
  "cgolay_reduce aux pattern =
     (if pattern AND CGOLAY_MASK12 \<noteq> 0
      then Option.bind (cgolay_align aux pattern)
             (\<lambda>aux. cgolay_reduce aux (pattern XOR (aux div CGOLAY_X11) * CGOLAY_GENPOL))
      else Some pattern)"

definition cgolay_get_syndrome_23127 :: "u32 \<Rightarrow> u32 option" where
  "cgolay_get_syndrome_23127 pattern =
     (let aux = CGOLAY_X22 in if CGOLAY_X11 \<le> pattern then cgolay_reduce aux pattern else Some pattern)"

definition CGolay24128_encode23127 :: "u32 \<Rightarrow> u32" where
  "CGolay24128_encode23127 data = CGOLAY_ENCODING_TABLE_23127 ! unat data"

definition CGolay24128_encode24128 :: "u32 \<Rightarrow> u32" where
  "CGolay24128_encode24128 data = CGOLAY_ENCODING_TABLE_24128 ! unat data"

definition CGolay24128_decode23127 :: "u32 \<Rightarrow> u32 option" where
  "CGolay24128_decode23127 code =
     Option.bind (cgolay_get_syndrome_23127 code) (\<lambda>syndrome.
       let error_pattern = CGOLAY_DECODING_TABLE_23127 ! unat syndrome;
           code = code XOR error_pattern
       in Some (drop_bit 11 code))"

definition CGolay24128_decode24128 :: "u32 \<Rightarrow> u32 option" where
  "CGolay24128_decode24128 code = CGolay24128_decode23127 (drop_bit 1 code)"

definition CGolay24128_decode24128_bytes :: "bytes \<Rightarrow> u32 option" where
  "CGolay24128_decode24128_bytes b =
     (let code = (ucast (b ! 0) :: u32);
          code = push_bit 8 code;
          code = code OR ucast (b ! 1);
          code = push_bit 8 code;
          code = code OR ucast (b ! 2)
      in CGolay24128_decode23127 (drop_bit 1 code))"

section \<open>The tables agree with those of the C side\<close>

lemma cgolay_decoding_table: "CGOLAY_DECODING_TABLE_23127 = DECODING_TABLE_23127"
  unfolding CGOLAY_DECODING_TABLE_23127_def CGOLAY_DECODING_TABLE_23127_parts_def
    DECODING_TABLE_23127_def DECODING_TABLE_23127_parts_def
    CGOLAY_DECODING_TABLE_23127_00_def CGOLAY_DECODING_TABLE_23127_01_def
    CGOLAY_DECODING_TABLE_23127_02_def CGOLAY_DECODING_TABLE_23127_03_def
    CGOLAY_DECODING_TABLE_23127_04_def CGOLAY_DECODING_TABLE_23127_05_def
    CGOLAY_DECODING_TABLE_23127_06_def CGOLAY_DECODING_TABLE_23127_07_def
    CGOLAY_DECODING_TABLE_23127_08_def CGOLAY_DECODING_TABLE_23127_09_def
    CGOLAY_DECODING_TABLE_23127_10_def CGOLAY_DECODING_TABLE_23127_11_def
    CGOLAY_DECODING_TABLE_23127_12_def CGOLAY_DECODING_TABLE_23127_13_def
    CGOLAY_DECODING_TABLE_23127_14_def CGOLAY_DECODING_TABLE_23127_15_def
    decoding_parts_defs
  by (rule refl)

lemma cgolay_encoding_table: "CGOLAY_ENCODING_TABLE_24128 = ENCODING_TABLE_24128"
  unfolding CGOLAY_ENCODING_TABLE_24128_def CGOLAY_ENCODING_TABLE_24128_parts_def
    ENCODING_TABLE_24128_def ENCODING_TABLE_24128_parts_def encoding_parts_defs
    CGOLAY_ENCODING_TABLE_24128_00_def CGOLAY_ENCODING_TABLE_24128_01_def
    CGOLAY_ENCODING_TABLE_24128_02_def CGOLAY_ENCODING_TABLE_24128_03_def
    CGOLAY_ENCODING_TABLE_24128_04_def CGOLAY_ENCODING_TABLE_24128_05_def
    CGOLAY_ENCODING_TABLE_24128_06_def CGOLAY_ENCODING_TABLE_24128_07_def
    CGOLAY_ENCODING_TABLE_24128_08_def CGOLAY_ENCODING_TABLE_24128_09_def
    CGOLAY_ENCODING_TABLE_24128_10_def CGOLAY_ENCODING_TABLE_24128_11_def
    CGOLAY_ENCODING_TABLE_24128_12_def CGOLAY_ENCODING_TABLE_24128_13_def
    CGOLAY_ENCODING_TABLE_24128_14_def CGOLAY_ENCODING_TABLE_24128_15_def
    CGOLAY_ENCODING_TABLE_24128_16_def CGOLAY_ENCODING_TABLE_24128_17_def
    CGOLAY_ENCODING_TABLE_24128_18_def CGOLAY_ENCODING_TABLE_24128_19_def
    CGOLAY_ENCODING_TABLE_24128_20_def CGOLAY_ENCODING_TABLE_24128_21_def
    CGOLAY_ENCODING_TABLE_24128_22_def CGOLAY_ENCODING_TABLE_24128_23_def
    CGOLAY_ENCODING_TABLE_24128_24_def CGOLAY_ENCODING_TABLE_24128_25_def
    CGOLAY_ENCODING_TABLE_24128_26_def CGOLAY_ENCODING_TABLE_24128_27_def
    CGOLAY_ENCODING_TABLE_24128_28_def CGOLAY_ENCODING_TABLE_24128_29_def
    CGOLAY_ENCODING_TABLE_24128_30_def CGOLAY_ENCODING_TABLE_24128_31_def
  by (rule refl)

text \<open>The 23-bit encoder keeps its word shifted by one, with the parity bit clear.\<close>

definition even_rows :: "u32 list \<Rightarrow> u32 list" where
  "even_rows rs = map (\<lambda>r. r AND NOT 1) rs"

lemma cgolay_23127_low: "CGOLAY_ENCODING_TABLE_23127_00 = xor_span (even_rows enc_rows_low)"
  by (simp add: CGOLAY_ENCODING_TABLE_23127_00_def xor_span_def enc_rows_low_def even_rows_def)

lemma cgolay_23127_parts:
  "CGOLAY_ENCODING_TABLE_23127_parts =
     map (\<lambda>h. map ((XOR) h) CGOLAY_ENCODING_TABLE_23127_00) (xor_span (even_rows enc_rows_high))"
  unfolding CGOLAY_ENCODING_TABLE_23127_parts_def
    CGOLAY_ENCODING_TABLE_23127_00_def CGOLAY_ENCODING_TABLE_23127_01_def
    CGOLAY_ENCODING_TABLE_23127_02_def CGOLAY_ENCODING_TABLE_23127_03_def
    CGOLAY_ENCODING_TABLE_23127_04_def CGOLAY_ENCODING_TABLE_23127_05_def
    CGOLAY_ENCODING_TABLE_23127_06_def CGOLAY_ENCODING_TABLE_23127_07_def
    CGOLAY_ENCODING_TABLE_23127_08_def CGOLAY_ENCODING_TABLE_23127_09_def
    CGOLAY_ENCODING_TABLE_23127_10_def CGOLAY_ENCODING_TABLE_23127_11_def
    CGOLAY_ENCODING_TABLE_23127_12_def CGOLAY_ENCODING_TABLE_23127_13_def
    CGOLAY_ENCODING_TABLE_23127_14_def CGOLAY_ENCODING_TABLE_23127_15_def
    CGOLAY_ENCODING_TABLE_23127_16_def CGOLAY_ENCODING_TABLE_23127_17_def
    CGOLAY_ENCODING_TABLE_23127_18_def CGOLAY_ENCODING_TABLE_23127_19_def
    CGOLAY_ENCODING_TABLE_23127_20_def CGOLAY_ENCODING_TABLE_23127_21_def
    CGOLAY_ENCODING_TABLE_23127_22_def CGOLAY_ENCODING_TABLE_23127_23_def
    CGOLAY_ENCODING_TABLE_23127_24_def CGOLAY_ENCODING_TABLE_23127_25_def
    CGOLAY_ENCODING_TABLE_23127_26_def CGOLAY_ENCODING_TABLE_23127_27_def
    CGOLAY_ENCODING_TABLE_23127_28_def CGOLAY_ENCODING_TABLE_23127_29_def
    CGOLAY_ENCODING_TABLE_23127_30_def CGOLAY_ENCODING_TABLE_23127_31_def
  by (simp add: xor_span_def enc_rows_high_def even_rows_def)

lemma cgolay_23127_table:
  "CGOLAY_ENCODING_TABLE_23127 = xor_span (even_rows (enc_rows_low @ enc_rows_high))"
  by (simp add: CGOLAY_ENCODING_TABLE_23127_def cgolay_23127_parts cgolay_23127_low xor_span_append
      even_rows_def)

lemma mask_xor: "((x :: u32) XOR y) AND m = (x AND m) XOR (y AND m)"
  by (rule bit_word_eqI) (auto simp: bit_and_iff bit_xor_iff)

lemma encode23127_masked:
  assumes "unat d < 4096"
  shows "CGolay24128_encode23127 d = encode24128 d AND NOT 1"
proof -
  let ?rows = "enc_rows_low @ enc_rows_high"
  have "CGolay24128_encode23127 d = xor_comb (even_rows ?rows) (unat d)"
    using assms
    by (simp add: CGolay24128_encode23127_def cgolay_23127_table nth_xor_span even_rows_def
        enc_rows_low_def enc_rows_high_def)
  moreover have "xor_comb ?rows (unat d) AND NOT 1 = xor_comb (even_rows ?rows) (unat d)"
    unfolding even_rows_def by (rule xor_comb_hom; (rule mask_xor | rule zero_and_eq))
  ultimately show ?thesis by (simp add: encode24128_comb [OF assms])
qed

section \<open>The division loop\<close>

lemma cgolay_align_eq:
  assumes "syndrome_align aux p = Some y"
  shows "cgolay_align aux p = Some y"
proof (rule syndrome_align.raw_induct [where P = "\<lambda>a q y. cgolay_align a q = Some y", OF _ assms])
  fix f a q y
  assume ih: "\<And>a q y. f a q = Some y \<Longrightarrow> cgolay_align a q = Some y"
    and step: "(if a AND q \<noteq> 0 then Some a else f (drop_bit 1 a) q) = Some y"
  show "cgolay_align a q = Some y"
    using ih step by (subst cgolay_align.simps) (auto split: if_splits)
qed

lemma cgolay_reduce_eq:
  assumes "syndrome_reduce aux p = Some y"
  shows "cgolay_reduce aux p = Some y"
proof (rule syndrome_reduce.raw_induct [where P = "\<lambda>a q y. cgolay_reduce a q = Some y", OF _ assms])
  fix f a q y
  assume ih: "\<And>a q y. f a q = Some y \<Longrightarrow> cgolay_reduce a q = Some y"
    and step: "(if q AND MASK12 = 0 then Some q
      else Option.bind (syndrome_align a q) (\<lambda>a. f a (q XOR a div X11 * GENPOL))) = Some y"
  have same: "CGOLAY_MASK12 = MASK12" "CGOLAY_X11 = X11" "CGOLAY_GENPOL = GENPOL"
    by (simp_all add: CGOLAY_MASK12_def MASK12_def CGOLAY_X11_def X11_def CGOLAY_GENPOL_def GENPOL_def)
  show "cgolay_reduce a q = Some y"
  proof (cases "q AND MASK12 = 0")
    case True
    with step show ?thesis by (subst cgolay_reduce.simps) (simp add: same)
  next
    case False
    with step obtain b where "syndrome_align a q = Some b" "f b (q XOR b div X11 * GENPOL) = Some y"
      by (auto simp: bind_eq_Some_conv)
    then have "cgolay_align a q = Some b" "cgolay_reduce b (q XOR b div X11 * GENPOL) = Some y"
      using cgolay_align_eq ih by auto
    with False show ?thesis by (subst cgolay_reduce.simps) (simp add: same)
  qed
qed

lemma cgolay_syndrome_eq: "get_syndrome_23127 p = Some y \<Longrightarrow> cgolay_get_syndrome_23127 p = Some y"
  by (auto simp: get_syndrome_23127_def cgolay_get_syndrome_23127_def X11_def CGOLAY_X11_def X22_def
      CGOLAY_X22_def split: if_splits intro: cgolay_reduce_eq)

lemma cgolay_decode23127_eq: "decode23127 c = Some d \<Longrightarrow> CGolay24128_decode23127 c = Some d"
  by (auto simp: decode23127_def CGolay24128_decode23127_def cgolay_decoding_table dest: cgolay_syndrome_eq)

text \<open>Beyond 23 bits the loop runs for ever: its shifted bit leaves the word and never meets the pattern.\<close>

lemma cgolay_align_le:
  assumes "cgolay_align aux p = Some y"
  shows "y \<le> aux"
proof (rule cgolay_align.raw_induct [where P = "\<lambda>a q y. y \<le> a", OF _ assms])
  fix f :: "u32 \<Rightarrow> u32 \<Rightarrow> u32 option" and a q y :: u32
  assume ih: "\<And>a q y. f a q = Some y \<Longrightarrow> y \<le> a"
    and step: "(if a AND q = 0 then f (drop_bit 1 a) q else Some a) = Some y"
  have "unat a div 2 \<le> unat a" by (rule div_le_dividend)
  then have "drop_bit 1 a \<le> a" by (simp add: word_le_nat_alt unat_drop_bit_eq drop_bit_eq_div unat_div)
  then show "y \<le> a" using ih step by (auto split: if_splits intro: order_trans)
qed

lemma step_below_23:
  assumes "aux \<le> CGOLAY_X22"
  shows "unat (aux div CGOLAY_X11 * CGOLAY_GENPOL) < 2 ^ 23"
proof -
  have "unat aux \<le> 2 ^ 22" using assms by (simp add: word_le_nat_alt CGOLAY_X22_def)
  then have "unat aux div 2048 \<le> 2048" by simp
  then have "unat aux div 2048 * 3189 < 2 ^ 23" by simp
  then show ?thesis
    by (simp add: unat_mult_lem [THEN iffD1] unat_div CGOLAY_X11_def CGOLAY_GENPOL_def unat_word_ariths)
qed

lemma cgolay_reduce_below:
  assumes "cgolay_reduce aux p = Some y" "aux \<le> CGOLAY_X22"
  shows "unat p < 2 ^ 23"
proof -
  have "aux \<le> CGOLAY_X22 \<longrightarrow> unat p < 2 ^ 23"
  proof (rule cgolay_reduce.raw_induct [where P = "\<lambda>a q y. a \<le> CGOLAY_X22 \<longrightarrow> unat q < 2 ^ 23", OF _ assms(1)])
    fix f a q y
    assume ih: "\<And>a q y. f a q = Some y \<Longrightarrow> a \<le> CGOLAY_X22 \<longrightarrow> unat q < 2 ^ 23"
      and step: "(if q AND CGOLAY_MASK12 \<noteq> 0
        then Option.bind (cgolay_align a q) (\<lambda>a. f a (q XOR a div CGOLAY_X11 * CGOLAY_GENPOL))
        else Some q) = Some y"
    show "a \<le> CGOLAY_X22 \<longrightarrow> unat q < 2 ^ 23"
    proof
      assume a: "a \<le> CGOLAY_X22"
      show "unat q < 2 ^ 23"
      proof (cases "q AND CGOLAY_MASK12 = 0")
        case True
        then have "unat q < 2 ^ 11" using mask12_zero_iff [of q] by (simp add: CGOLAY_MASK12_def MASK12_def)
        then show ?thesis by (rule less_le_trans) simp
      next
        case False
        with step obtain b where b: "cgolay_align a q = Some b"
          and f: "f b (q XOR b div CGOLAY_X11 * CGOLAY_GENPOL) = Some y"
          by (auto simp: bind_eq_Some_conv)
        from cgolay_align_le [OF b] a have le: "b \<le> CGOLAY_X22" by (rule order_trans)
        from unat_xor_less [OF ih [OF f, THEN mp, OF le] step_below_23 [OF le]]
        show ?thesis by (simp add: xor.assoc)
      qed
    qed
  qed
  with assms(2) show ?thesis by simp
qed

lemma decode23127_returns: "unat c < 2 ^ 23 \<Longrightarrow> \<exists>d. CGolay24128_decode23127 c = Some d"
  using get_syndrome_syn23 [of c] cgolay_decode23127_eq [of c] by (auto simp: decode23127_def)

lemma decode23127_domain: "CGolay24128_decode23127 c = Some d \<Longrightarrow> unat c < 2 ^ 23"
proof -
  assume "CGolay24128_decode23127 c = Some d"
  then obtain s where s: "cgolay_get_syndrome_23127 c = Some s"
    by (auto simp: CGolay24128_decode23127_def bind_eq_Some_conv)
  show "unat c < 2 ^ 23"
  proof (cases "CGOLAY_X11 \<le> c")
    case True
    with s have "cgolay_reduce CGOLAY_X22 c = Some s" by (simp add: cgolay_get_syndrome_23127_def)
    then show ?thesis by (rule cgolay_reduce_below) simp
  next
    case False
    then show ?thesis by (simp add: CGOLAY_X11_def word_le_nat_alt)
  qed
qed

section \<open>Properties\<close>

text \<open>
  C26: the Golay code of the vocoder side is the one of the YSF side. For every 12-bit value the two
  24-bit encoders agree, the 23-bit encoder gives the same word with its parity bit clear, and both
  decoders return the value after any error of at most three of the 23 bits they read.
\<close>

theorem cgolay_matches_c_side:
  assumes "unat d < 4096" "golay_tolerated e"
  shows "CGolay24128_encode24128 d = encode24128 d
    \<and> CGolay24128_encode23127 d = encode24128 d AND NOT 1
    \<and> CGolay24128_decode24128 (CGolay24128_encode24128 d XOR e) = Some d
    \<and> CGolay24128_decode24128_bytes (be24_bytes (CGolay24128_encode24128 d XOR e)) = Some d"
proof -
  have enc: "CGolay24128_encode24128 d = encode24128 d"
    by (simp add: CGolay24128_encode24128_def encode24128_def cgolay_encoding_table)
  have w: "unat (encode24128 d XOR e) < 2 ^ 24"
    using assms encode24128_facts(3) by (intro unat_xor_less) (simp_all add: golay_tolerated_def)
  have "decode23127 (drop_bit 1 (encode24128 d XOR e)) = Some d"
    using golay_corrects_aux [OF assms] by (simp add: decode24128_assembled [OF w])
  then have "CGolay24128_decode23127 (drop_bit 1 (encode24128 d XOR e)) = Some d"
    by (rule cgolay_decode23127_eq)
  moreover have "CGolay24128_decode24128_bytes (be24_bytes (encode24128 d XOR e))
      = CGolay24128_decode23127 (drop_bit 1 (encode24128 d XOR e))"
    by (simp only: CGolay24128_decode24128_bytes_def Let_def be24_assemble [OF w])
  ultimately show ?thesis
    using encode23127_masked [OF assms(1)] by (simp add: enc CGolay24128_decode24128_def)
qed

theorem cgolay_matches_c_side_witness:
  "CGolay24128_decode24128 (CGolay24128_encode24128 0xABC XOR 0x800042) = Some 0xABC"
proof -
  have "golay_tolerated 0x800042" by (simp add: golay_tolerated_def)
  moreover have "unat (0xABC :: u32) < 4096" by simp
  ultimately show ?thesis using cgolay_matches_c_side by blast
qed

text \<open>
  When the decoder returns. \<open>CGolay24128::decode24128\<close> on an integer returns exactly when the
  integer has at most 24 bits; on a wider one its division loop never ends. On three bytes it always
  returns.
\<close>

theorem cgolay_decode_returns_iff:
  "((\<exists>d. CGolay24128_decode24128 c = Some d) \<longleftrightarrow> unat c < 2 ^ 24)
   \<and> (\<exists>d. CGolay24128_decode24128_bytes b = Some d)"
proof -
  have "unat (drop_bit 1 c) < 2 ^ 23 \<longleftrightarrow> unat c < 2 ^ 24"
    by (simp add: unat_drop_bit_eq drop_bit_eq_div unat_div) presburger
  then have one: "(\<exists>d. CGolay24128_decode24128 c = Some d) \<longleftrightarrow> unat c < 2 ^ 24"
    using decode23127_returns [of "drop_bit 1 c"] decode23127_domain [of "drop_bit 1 c"]
    by (auto simp: CGolay24128_decode24128_def)
  have "CGolay24128_decode24128_bytes b = CGolay24128_decode24128_bytes [b ! 0, b ! 1, b ! 2]"
    by (simp add: CGolay24128_decode24128_bytes_def)
  moreover have "\<exists>d. CGolay24128_decode24128_bytes [x, y, z] = Some d" for x y z
  proof -
    obtain d where "decode24128 [x, y, z] = Some d" using decode24128_returns by blast
    then show ?thesis
      by (intro exI [of _ d]) (simp add: CGolay24128_decode24128_bytes_def decode24128_def Let_def cgolay_decode23127_eq)
  qed
  ultimately show ?thesis using one by metis
qed

end
