(* ===== verification/Mode_Conv.thy ===== *)
theory Mode_Conv
  imports Mode_Conv_Tables Ring_Buffer Cgolay
begin

text \<open>
  The vocoder frame converter \<open>CModeConv\<close> of \<open>src/mmdvm/ModeConv.cpp\<close> with the C functions of
  \<open>src/mmdvm/modeconv_wrap.cpp\<close> around its single object. Voice frames carry the three AMBE fields
  of 12, 12 and 25 bits; each direction has a circular buffer of records (a tag byte and a frame)
  and a count of the records it should hold. A local array that the code does not initialise is
  the argument \<open>junk\<close>; a pointer into a buffer is the buffer with an offset.
\<close>

abbreviation (input) TAG_HEADER :: u8 where "TAG_HEADER \<equiv> 0"
abbreviation (input) TAG_DATA :: u8 where "TAG_DATA \<equiv> 1"
abbreviation (input) TAG_EOT :: u8 where "TAG_EOT \<equiv> 3"
abbreviation (input) TAG_NODATA :: u8 where "TAG_NODATA \<equiv> 4"

definition MC_BIT_MASK_TABLE :: "u8 list" where
  "MC_BIT_MASK_TABLE = [0x80, 0x40, 0x20, 0x10, 0x08, 0x04, 0x02, 0x01]"

definition WRITE_BIT :: "bytes \<Rightarrow> nat \<Rightarrow> bool \<Rightarrow> bytes" where
  "WRITE_BIT p i b =
     p[i div 8 := (if b then p ! (i div 8) OR MC_BIT_MASK_TABLE ! (i mod 8)
                   else p ! (i div 8) AND NOT (MC_BIT_MASK_TABLE ! (i mod 8)))]"

definition READ_BIT :: "bytes \<Rightarrow> nat \<Rightarrow> bool" where
  "READ_BIT p i \<longleftrightarrow> p ! (i div 8) AND MC_BIT_MASK_TABLE ! (i mod 8) \<noteq> 0"

record mode_conv =
  m_ysfN :: u32
  m_dmrN :: u32
  m_YSF :: "u8 ring_buffer"
  m_DMR :: "u8 ring_buffer"

definition CModeConv :: mode_conv where
  "CModeConv = \<lparr>m_ysfN = 0, m_dmrN = 0, m_YSF = CRingBuffer 5000, m_DMR = CRingBuffer 5000\<rparr>"

section \<open>Records\<close>

definition add_record :: "u8 \<Rightarrow> bytes \<Rightarrow> nat \<Rightarrow> u8 ring_buffer \<Rightarrow> u8 ring_buffer" where
  "add_record tag body n r = snd (addData body n (snd (addData [tag] 1 r)))"

definition put_ysf_record :: "u8 \<Rightarrow> bytes \<Rightarrow> mode_conv \<Rightarrow> mode_conv" where
  "put_ysf_record tag body s =
     s\<lparr>m_YSF := add_record tag body 13 (m_YSF s), m_ysfN := m_ysfN s + 1\<rparr>"

definition put_dmr_record :: "u8 \<Rightarrow> bytes \<Rightarrow> mode_conv \<Rightarrow> mode_conv" where
  "put_dmr_record tag body s =
     s\<lparr>m_DMR := add_record tag body 9 (m_DMR s), m_dmrN := m_dmrN s + 1\<rparr>"

definition get_dmr_record :: "bytes \<Rightarrow> bytes \<Rightarrow> nat \<Rightarrow> mode_conv \<Rightarrow> bytes \<times> bytes \<times> mode_conv" where
  "get_dmr_record tag dst off s =
     (let (_, tag, r) = getData tag 0 1 (m_DMR s);
          (_, dst, r) = getData dst off 9 r
      in (tag, dst, s\<lparr>m_DMR := r, m_dmrN := m_dmrN s - 1\<rparr>))"

definition get_ysf_record :: "bytes \<Rightarrow> bytes \<Rightarrow> nat \<Rightarrow> mode_conv \<Rightarrow> bytes \<times> bytes \<times> mode_conv" where
  "get_ysf_record tag dst off s =
     (let (_, tag, r) = getData tag 0 1 (m_YSF s);
          (_, dst, r) = getData dst off 13 r
      in (tag, dst, s\<lparr>m_YSF := r, m_ysfN := m_ysfN s - 1\<rparr>))"

section \<open>From a DMR burst to YSF voice channels\<close>

definition dmr_pick :: "bytes \<Rightarrow> nat \<Rightarrow> (u32 \<times> u32 \<times> u32) \<times> u32 \<Rightarrow> (u32 \<times> u32 \<times> u32) \<times> u32" where
  "dmr_pick b pos1 = (\<lambda>((x1, x2, x3), MASK).
     let pos2 = pos1 + 72;
         pos2 = (if 108 \<le> pos2 then pos2 + 48 else pos2);
         pos3 = pos1 + 192;
         x1 = (if READ_BIT b pos1 then x1 OR MASK else x1);
         x2 = (if READ_BIT b pos2 then x2 OR MASK else x2);
         x3 = (if READ_BIT b pos3 then x3 OR MASK else x3)
     in ((x1, x2, x3), drop_bit 1 MASK))"

definition dmr_fields :: "bytes \<Rightarrow> nat list \<Rightarrow> nat \<Rightarrow> u32 \<Rightarrow> u32 \<times> u32 \<times> u32" where
  "dmr_fields b tab n MASK = fst (fold (\<lambda>i. dmr_pick b (tab ! i)) [0..<n] ((0, 0, 0), MASK))"

definition write3 :: "nat \<Rightarrow> bool \<Rightarrow> bytes \<Rightarrow> bytes" where
  "write3 p s v = WRITE_BIT (WRITE_BIT (WRITE_BIT v p s) (p + 1) s) (p + 2) s"

definition xor_bytes :: "bytes \<Rightarrow> nat \<Rightarrow> bytes \<Rightarrow> bytes" where
  "xor_bytes w n v = fold (\<lambda>i v. v[i := v ! i XOR w ! i]) [0..<n] v"

definition ysf_voice :: "u32 \<Rightarrow> u32 \<Rightarrow> u32 \<Rightarrow> bytes" where
  "ysf_voice dat_a dat_b dat_c =
     (let vch = replicate 13 0;
          vch = fold (\<lambda>i. write3 (3 * i) (push_bit (20 + i) dat_a AND 0x80000000 \<noteq> 0)) [0..<12] vch;
          vch = fold (\<lambda>i. write3 (3 * (i + 12)) (push_bit (20 + i) dat_b AND 0x80000000 \<noteq> 0)) [0..<12] vch;
          vch = fold (\<lambda>i. write3 (3 * (i + 24)) (push_bit (7 + i) dat_c AND 0x80000000 \<noteq> 0)) [0..<3] vch;
          vch = fold (\<lambda>i v. WRITE_BIT v (i + 81) (push_bit (10 + i) dat_c AND 0x80000000 \<noteq> 0)) [0..<22] vch;
          vch = WRITE_BIT vch 103 False;
          vch = xor_bytes WHITENING_DATA 13 vch
      in fold (\<lambda>i f. WRITE_BIT f (INTERLEAVE_TABLE_26_4 ! i) (READ_BIT vch i)) [0..<104] (replicate 13 0))"

definition putAMBE2YSF :: "u32 \<Rightarrow> u32 \<Rightarrow> u32 \<Rightarrow> mode_conv \<Rightarrow> mode_conv" where
  "putAMBE2YSF a b dat_c s =
     (let dat_a = drop_bit 12 a;
          b = b XOR drop_bit 1 (PRNG_TABLE ! unat dat_a);
          dat_b = drop_bit 11 b
      in put_ysf_record TAG_DATA (ysf_voice dat_a dat_b dat_c) s)"

definition putDMR :: "bytes \<Rightarrow> mode_conv \<Rightarrow> mode_conv" where
  "putDMR b s =
     (let (a1, a2, a3) = dmr_fields b DMR_A_TABLE 24 0x800000;
          (b1, b2, b3) = dmr_fields b DMR_B_TABLE 23 0x400000;
          (c1, c2, c3) = dmr_fields b DMR_C_TABLE 25 0x1000000;
          s = putAMBE2YSF a1 b1 c1 s;
          s = putAMBE2YSF a2 b2 c2 s
      in putAMBE2YSF a3 b3 c3 s)"

section \<open>From a YSF frame to DMR voice frames\<close>

definition shift_in :: "bytes \<Rightarrow> nat \<Rightarrow> u32 \<Rightarrow> u32" where
  "shift_in v p dat = (let dat = push_bit 1 dat in if READ_BIT v p then dat OR 1 else dat)"

definition ysf_fields :: "bytes \<Rightarrow> bytes \<Rightarrow> nat \<Rightarrow> u32 \<times> u32 \<times> u32" where
  "ysf_fields junk d off =
     (let vch = fold (\<lambda>i v. WRITE_BIT v i (READ_BIT d (off + INTERLEAVE_TABLE_26_4 ! i))) [0..<104] junk;
          vch = xor_bytes WHITENING_DATA 13 vch;
          dat_a = fold (\<lambda>i. shift_in vch (3 * i + 1)) [0..<12] 0;
          dat_b = fold (\<lambda>i. shift_in vch (3 * (i + 12) + 1)) [0..<12] 0;
          dat_c = fold (\<lambda>i. shift_in vch (3 * (i + 24) + 1)) [0..<3] 0;
          dat_c = fold (\<lambda>i. shift_in vch (i + 81)) [0..<22] dat_c
      in (dat_a, dat_b, dat_c))"

definition put_field :: "u32 \<Rightarrow> nat list \<Rightarrow> nat \<Rightarrow> u32 \<Rightarrow> bytes \<Rightarrow> bytes" where
  "put_field x tab n MASK v =
     fst (fold (\<lambda>i (v, MASK). (WRITE_BIT v (tab ! i) (x AND MASK \<noteq> 0), drop_bit 1 MASK)) [0..<n] (v, MASK))"

definition dmr_voice :: "bytes \<Rightarrow> u32 \<Rightarrow> u32 \<Rightarrow> u32 \<Rightarrow> bytes" where
  "dmr_voice junk dat_a dat_b dat_c =
     (let a = CGolay24128_encode24128 dat_a;
          p = drop_bit 1 (PRNG_TABLE ! unat dat_a);
          b = drop_bit 1 (CGolay24128_encode23127 dat_b);
          b = b XOR p;
          v = put_field a DMR_A_TABLE 24 0x800000 junk;
          v = put_field b DMR_B_TABLE 23 0x400000 v
      in put_field dat_c DMR_C_TABLE 25 0x1000000 v)"

definition putAMBE2DMR :: "bytes \<Rightarrow> u32 \<Rightarrow> u32 \<Rightarrow> u32 \<Rightarrow> mode_conv \<Rightarrow> mode_conv" where
  "putAMBE2DMR junk dat_a dat_b dat_c s =
     put_dmr_record TAG_DATA (dmr_voice junk dat_a dat_b dat_c) s"

definition putYSF :: "bytes \<Rightarrow> bytes \<Rightarrow> bytes \<Rightarrow> mode_conv \<Rightarrow> mode_conv" where
  "putYSF junk_vch junk_dmr data s =
     (let data = drop 30 data
      in fold (\<lambda>j s. let (dat_a, dat_b, dat_c) = ysf_fields junk_vch data (40 + 144 * j)
                     in putAMBE2DMR junk_dmr dat_a dat_b dat_c s) [0..<5] s)"

section \<open>Raw AMBE frames\<close>

definition ambe7ToABC :: "bytes \<Rightarrow> u32 \<times> u32 \<times> u32" where
  "ambe7ToABC v =
     (push_bit 4 (ucast (v ! 0)) OR drop_bit 4 (ucast (v ! 1)),
      push_bit 8 (ucast (v ! 1) AND 0x0F) OR ucast (v ! 2),
      push_bit 17 (ucast (v ! 3)) OR push_bit 9 (ucast (v ! 4)) OR push_bit 1 (ucast (v ! 5)) OR drop_bit 7 (ucast (v ! 6)))"

definition abcToAMBE7 :: "u32 \<Rightarrow> u32 \<Rightarrow> u32 \<Rightarrow> bytes" where
  "abcToAMBE7 a b c =
     [ucast (drop_bit 4 a AND 0xFF), ucast (push_bit 4 (a AND 0x0F) OR (drop_bit 8 b AND 0x0F)),
      ucast (b AND 0xFF), ucast (drop_bit 17 c AND 0xFF), ucast (drop_bit 9 c AND 0xFF),
      ucast (drop_bit 1 c AND 0xFF), ucast (push_bit 7 c AND 0x80)]"

definition putAMBE7 :: "bytes \<Rightarrow> bytes \<Rightarrow> mode_conv \<Rightarrow> mode_conv" where
  "putAMBE7 junk ambe7 s = (let (a, b, c) = ambe7ToABC ambe7 in putAMBE2DMR junk a b c s)"

definition putAMBE7YSF :: "bytes \<Rightarrow> mode_conv \<Rightarrow> mode_conv" where
  "putAMBE7YSF ambe7 s =
     (let (dat_a, dat_b, dat_c) = ambe7ToABC ambe7;
          a = CGolay24128_encode24128 dat_a;
          p = drop_bit 1 (PRNG_TABLE ! unat dat_a);
          b = drop_bit 1 (CGolay24128_encode23127 dat_b);
          b = b XOR p
      in putAMBE2YSF a b dat_c s)"

definition dmr33ToAMBE :: "bytes \<Rightarrow> bytes list" where
  "dmr33ToAMBE dmr33 =
     (let (a1, a2, a3) = dmr_fields dmr33 DMR_A_TABLE 24 0x800000;
          (b1, b2, b3) = dmr_fields dmr33 DMR_B_TABLE 23 0x400000;
          (c1, c2, c3) = dmr_fields dmr33 DMR_C_TABLE 25 0x1000000;
          da1 = drop_bit 12 a1; da2 = drop_bit 12 a2; da3 = drop_bit 12 a3;
          db1 = drop_bit 11 (b1 XOR drop_bit 1 (PRNG_TABLE ! unat da1));
          db2 = drop_bit 11 (b2 XOR drop_bit 1 (PRNG_TABLE ! unat da2));
          db3 = drop_bit 11 (b3 XOR drop_bit 1 (PRNG_TABLE ! unat da3))
      in [abcToAMBE7 da1 db1 c1, abcToAMBE7 da2 db2 c2, abcToAMBE7 da3 db3 c3])"

section \<open>Headers, silence and the end of a transmission\<close>

definition putDummyYSF :: "mode_conv \<Rightarrow> mode_conv" where
  "putDummyYSF s = fold (\<lambda>j. put_dmr_record TAG_DATA DMR_SILENCE) [0..<5] s"

definition putDMRHeader :: "mode_conv \<Rightarrow> mode_conv" where
  "putDMRHeader s = put_ysf_record TAG_HEADER (replicate 13 0) s"

definition putDMREOT :: "mode_conv \<Rightarrow> mode_conv" where
  "putDMREOT s =
     (let fill = 5 - m_ysfN s mod 5;
          s = fold (\<lambda>i. put_ysf_record TAG_DATA YSF_SILENCE) [0..<unat fill] s
      in put_ysf_record TAG_EOT (replicate 13 0) s)"

definition putYSFHeader :: "mode_conv \<Rightarrow> mode_conv" where
  "putYSFHeader s = put_dmr_record TAG_HEADER (replicate 9 0) s"

definition putYSFEOT :: "mode_conv \<Rightarrow> mode_conv" where
  "putYSFEOT s =
     (let fill = 3 - m_dmrN s mod 3;
          s = fold (\<lambda>i. put_dmr_record TAG_DATA DMR_SILENCE) [0..<unat fill] s
      in put_dmr_record TAG_EOT (replicate 9 0) s)"

section \<open>Reading frames\<close>

definition getDMR :: "bytes \<Rightarrow> bytes \<Rightarrow> mode_conv \<Rightarrow> u8 \<times> bytes \<times> mode_conv" where
  "getDMR junk data s =
     (let tag = [TAG_NODATA];
          tag = (if 1 \<le> m_dmrN s then snd (peek tag 0 1 (m_DMR s)) else tag)
      in if 1 \<le> m_dmrN s \<and> tag ! 0 \<noteq> TAG_DATA
         then let (tag, data, s) = get_dmr_record tag data 0 s in (tag ! 0, data, s)
         else if 3 \<le> m_dmrN s
         then let (tag, data, s) = get_dmr_record tag data 0 s;
                  (tag, tmp, s) = get_dmr_record tag junk 0 s;
                  data = memcpy data 9 (take 4 tmp);
                  data = data[13 := tmp ! 4 AND 0xF0];
                  data = data[19 := tmp ! 4 AND 0x0F];
                  data = memcpy data 20 (sub_buf tmp 5 4);
                  (tag, data, s) = get_dmr_record tag data 24 s
              in (TAG_DATA, data, s)
         else (TAG_NODATA, data, s))"

definition getYSF :: "bytes \<Rightarrow> mode_conv \<Rightarrow> u8 \<times> bytes \<times> mode_conv" where
  "getYSF data s =
     (let tag = [TAG_NODATA];
          tag = (if 1 \<le> m_ysfN s then snd (peek tag 0 1 (m_YSF s)) else tag)
      in if 1 \<le> m_ysfN s \<and> tag ! 0 \<noteq> TAG_DATA
         then let (tag, data, s) = get_ysf_record tag data 30 s in (tag ! 0, data, s)
         else if 5 \<le> m_ysfN s
         then let (tag, data, s) = get_ysf_record tag data (30 + 5) s;
                  (tag, data, s) = get_ysf_record tag data (30 + 5 + 18) s;
                  (tag, data, s) = get_ysf_record tag data (30 + 5 + 18 + 18) s;
                  (tag, data, s) = get_ysf_record tag data (30 + 5 + 18 + 18 + 18) s;
                  (tag, data, s) = get_ysf_record tag data (30 + 5 + 18 + 18 + 18 + 18) s
              in (TAG_DATA, data, s)
         else (TAG_NODATA, data, s))"

section \<open>The C functions around the object\<close>

definition modeconv_init :: "mode_conv \<Rightarrow> mode_conv" where "modeconv_init s = s"
definition modeconv_reset :: "mode_conv \<Rightarrow> mode_conv" where "modeconv_reset s = CModeConv"

definition modeconv_put_dmr_voice :: "bytes \<Rightarrow> mode_conv \<Rightarrow> mode_conv" where
  "modeconv_put_dmr_voice frame33 = putDMR frame33"

definition modeconv_put_dmr_header :: "mode_conv \<Rightarrow> mode_conv" where "modeconv_put_dmr_header = putDMRHeader"
definition modeconv_put_dmr_eot :: "mode_conv \<Rightarrow> mode_conv" where "modeconv_put_dmr_eot = putDMREOT"

definition modeconv_put_ysf_payload :: "bytes \<Rightarrow> bytes \<Rightarrow> bytes \<Rightarrow> mode_conv \<Rightarrow> mode_conv" where
  "modeconv_put_ysf_payload junk_vch junk_dmr ysf120 = putYSF junk_vch junk_dmr ysf120"

definition modeconv_put_ysf_header :: "mode_conv \<Rightarrow> mode_conv" where "modeconv_put_ysf_header = putYSFHeader"
definition modeconv_put_ysf_eot :: "mode_conv \<Rightarrow> mode_conv" where "modeconv_put_ysf_eot = putYSFEOT"

definition modeconv_get_dmr :: "bytes \<Rightarrow> bytes \<Rightarrow> mode_conv \<Rightarrow> u8 \<times> bytes \<times> mode_conv" where
  "modeconv_get_dmr junk voice33 = getDMR junk voice33"

definition modeconv_get_ysf :: "bytes \<Rightarrow> mode_conv \<Rightarrow> u8 \<times> bytes \<times> mode_conv" where
  "modeconv_get_ysf ysf120 = getYSF ysf120"

definition modeconv_put_ambe7 :: "bytes \<Rightarrow> bytes \<Rightarrow> mode_conv \<Rightarrow> mode_conv" where
  "modeconv_put_ambe7 junk ambe7 = putAMBE7 junk ambe7"

definition modeconv_put_ambe7_ysf :: "bytes \<Rightarrow> mode_conv \<Rightarrow> mode_conv" where
  "modeconv_put_ambe7_ysf ambe7 = putAMBE7YSF ambe7"

definition modeconv_dmr33_to_ambe :: "bytes \<Rightarrow> bytes list" where
  "modeconv_dmr33_to_ambe dmr33 = dmr33ToAMBE dmr33"

end
