(* ===== verification/Mode_Conv_Fields.thy ===== *)
theory Mode_Conv_Fields
  imports Mode_Conv Ysf_Conv
begin

text \<open>
  What the loops of the frame converter do to bits: a field collected or shifted in is the number
  of a bit string, most significant bit first; a field written is a permutation of that bit string
  into the frame; a YSF voice channel is its tripled and plain bits, whitened and interleaved.
\<close>

section \<open>Bit macros\<close>

lemma READ_BIT_bits: "i < 8 * length p \<Longrightarrow> READ_BIT p i \<longleftrightarrow> bits_of p ! i"
  using read_bit [of i p] by (simp add: READ_BIT_def READ_BIT1_def MC_BIT_MASK_TABLE_def BIT_MASK_TABLE_def)

lemma WRITE_BIT_eq: "WRITE_BIT p i b = WRITE_BIT1 p i b"
  by (simp add: WRITE_BIT_def WRITE_BIT1_def MC_BIT_MASK_TABLE_def BIT_MASK_TABLE_def)

lemma length_WRITE_BIT [simp]: "length (WRITE_BIT p i b) = length p"
  by (simp add: WRITE_BIT_eq)

lemma bits_of_WRITE_BIT: "i < 8 * length p \<Longrightarrow> bits_of (WRITE_BIT p i b) = (bits_of p)[i := b]"
  by (simp add: WRITE_BIT_eq bits_of_write_bit)

section \<open>Numbers as bit strings\<close>

definition msb_word :: "bits \<Rightarrow> u32" where
  "msb_word bs = horner_sum of_bool 2 (rev bs)"

definition msb_bits :: "nat \<Rightarrow> u32 \<Rightarrow> bits" where
  "msb_bits n w = map (\<lambda>i. bit w (n - 1 - i)) [0..<n]"

lemma length_msb_bits [simp]: "length (msb_bits n w) = n"
  by (simp add: msb_bits_def)

lemma nth_msb_bits: "i < n \<Longrightarrow> msb_bits n w ! i = bit w (n - 1 - i)"
  by (simp add: msb_bits_def)

lemma msb_word_Nil [simp]: "msb_word [] = 0"
  by (simp add: msb_word_def)

lemma bit_msb_word: "length bs \<le> 32 \<Longrightarrow> bit (msb_word bs) k \<longleftrightarrow> k < length bs \<and> bs ! (length bs - 1 - k)"
  by (auto simp: msb_word_def bit_horner_sum_bit_word_iff rev_nth possible_bit_def)

lemma msb_word_snoc:
  "msb_word (bs @ [x]) = (let d = push_bit 1 (msb_word bs) in if x then d OR 1 else d)"
proof -
  have "msb_word (bs @ [x]) = of_bool x + push_bit 1 (msb_word bs)"
    by (simp add: msb_word_def push_bit_eq_mult mult.commute)
  moreover have "1 + push_bit 1 w = push_bit 1 w OR (1 :: u32)" for w
    by (subst disjunctive_add) (auto simp: bit_push_bit_iff bit_1_iff or.commute simp del: push_bit_Suc push_bit_of_1 One_nat_def)
  ultimately show ?thesis by simp
qed

lemma msb_word_bits: "n \<le> 32 \<Longrightarrow> unat w < 2 ^ n \<Longrightarrow> msb_word (msb_bits n w) = w"
proof (rule bit_word_eqI)
  fix k assume n: "n \<le> 32" "unat w < 2 ^ n"
  then have "drop_bit n w = 0" by (simp only: below_iff_drop_bit)
  then have "\<not> bit (drop_bit n w) (k - n)" by simp
  then have "n \<le> k \<Longrightarrow> \<not> bit w k" by (simp add: bit_drop_bit_eq)
  then show "bit (msb_word (msb_bits n w)) k = bit w k"
    using n(1) by (cases "k < n") (auto simp: bit_msb_word nth_msb_bits)
qed

lemma msb_bits_word: "length bs = n \<Longrightarrow> n \<le> 32 \<Longrightarrow> msb_bits n (msb_word bs) = bs"
  by (rule nth_equalityI) (auto simp: nth_msb_bits bit_msb_word)

lemma msb_word_less: "length bs = n \<Longrightarrow> n \<le> 32 \<Longrightarrow> unat (msb_word bs) < 2 ^ n"
proof -
  assume "length bs = n" "n \<le> 32"
  then have "drop_bit n (msb_word bs) = 0"
    by (intro bit_word_eqI) (auto simp: bit_drop_bit_eq bit_msb_word)
  then show "unat (msb_word bs) < 2 ^ n" by (simp only: below_iff_drop_bit)
qed

section \<open>Fields of a DMR voice frame\<close>

abbreviation (input) frame2_pos :: "nat \<Rightarrow> nat" where
  "frame2_pos p \<equiv> (let q = p + 72 in if 108 \<le> q then q + 48 else q)"

lemma drop_mask: "i < N \<Longrightarrow> N \<le> 32 \<Longrightarrow> drop_bit i (2 ^ (N - Suc 0)) = (2 :: u32) ^ (N - Suc i)"
  by (auto simp: drop_bit_exp_eq possible_bit_def)

lemma push_msb_snoc:
  assumes "k < N" "N \<le> 32"
  shows "push_bit (N - Suc k) (msb_word (bs @ [x]))
    = (if x then push_bit (N - k) (msb_word bs) OR drop_bit k (2 ^ (N - Suc 0)) else push_bit (N - k) (msb_word bs))"
proof -
  have "N - k = Suc (N - Suc k)" using assms by simp
  moreover have "push_bit (N - Suc k) (1 :: u32) = drop_bit k (2 ^ (N - Suc 0))"
    using assms by (simp add: drop_mask push_bit_eq_mult)
  ultimately show ?thesis
    by (simp add: msb_word_snoc Let_def push_bit_or push_bit_push_bit add.commute)
qed

lemma dmr_pick_loop:
  assumes "k \<le> N" "N \<le> 32"
  shows "fold (\<lambda>i. dmr_pick b (tab ! i)) [0..<k] ((0, 0, 0), 2 ^ (N - Suc 0))
    = ((push_bit (N - k) (msb_word (map (\<lambda>i. READ_BIT b (tab ! i)) [0..<k])),
        push_bit (N - k) (msb_word (map (\<lambda>i. READ_BIT b (frame2_pos (tab ! i))) [0..<k])),
        push_bit (N - k) (msb_word (map (\<lambda>i. READ_BIT b (tab ! i + 192)) [0..<k]))),
       drop_bit k (2 ^ (N - Suc 0)))"
  using assms(1)
proof (induction k)
  case (Suc k)
  then show ?case
    using assms(2) push_msb_snoc [of k N]
    by (simp add: dmr_pick_def Let_def drop_bit_drop_bit)
qed simp

definition gather_bits :: "nat list \<Rightarrow> bits \<Rightarrow> bits" where
  "gather_bits tab bs = map (\<lambda>p. bs ! p) tab"

lemma length_gather_bits [simp]: "length (gather_bits tab bs) = length tab"
  by (simp add: gather_bits_def)

lemma gather_bits_gather: "length tab = n \<Longrightarrow> gather_bits tab bs = gather (\<lambda>i. tab ! i) n bs"
  by (rule nth_equalityI) (auto simp: gather_bits_def)

lemma dmr_fields_bits:
  assumes "length tab = N" "N \<le> 32"
  shows "dmr_fields b tab N (2 ^ (N - Suc 0)) =
    (msb_word (map (\<lambda>p. READ_BIT b p) tab), msb_word (map (\<lambda>p. READ_BIT b (frame2_pos p)) tab),
     msb_word (map (\<lambda>p. READ_BIT b (p + 192)) tab))"
proof -
  have "map (\<lambda>i. f (tab ! i)) [0..<N] = map f tab" for f :: "nat \<Rightarrow> bool"
    using assms(1) by (intro nth_equalityI) auto
  note m = this this [of "\<lambda>p. READ_BIT b (frame2_pos p)"] this [of "\<lambda>p. READ_BIT b (p + 192)"]
  show ?thesis
    using dmr_pick_loop [of N N b tab] assms(2) unfolding m by (simp add: dmr_fields_def)
qed

lemma put_field_bits:
  assumes "k \<le> N" "N \<le> 32" "\<forall>i < k. tab ! i < 8 * length v"
  shows "fold (\<lambda>i (v, MASK). (WRITE_BIT v (tab ! i) (x AND MASK \<noteq> 0), drop_bit 1 MASK)) [0..<k] (v, 2 ^ (N - Suc 0))
    = (let w = fst (fold (\<lambda>i (v, MASK). (WRITE_BIT v (tab ! i) (x AND MASK \<noteq> 0), drop_bit 1 MASK)) [0..<k] (v, 2 ^ (N - Suc 0)))
       in (w, drop_bit k (2 ^ (N - Suc 0))))
    \<and> length (fst (fold (\<lambda>i (v, MASK). (WRITE_BIT v (tab ! i) (x AND MASK \<noteq> 0), drop_bit 1 MASK)) [0..<k] (v, 2 ^ (N - Suc 0)))) = length v
    \<and> bits_of (fst (fold (\<lambda>i (v, MASK). (WRITE_BIT v (tab ! i) (x AND MASK \<noteq> 0), drop_bit 1 MASK)) [0..<k] (v, 2 ^ (N - Suc 0))))
      = scatter (\<lambda>i. tab ! i) k (msb_bits N x) (bits_of v)"
  using assms(1,3)
proof (induction k)
  case 0
  then show ?case by (simp add: scatter_def)
next
  case (Suc k)
  let ?F = "fold (\<lambda>i (v, MASK). (WRITE_BIT v (tab ! i) (x AND MASK \<noteq> 0), drop_bit 1 MASK)) [0..<k] (v, 2 ^ (N - Suc 0))"
  obtain w where F: "?F = (w, drop_bit k (2 ^ (N - Suc 0)))" "length w = length v"
    "bits_of w = scatter (\<lambda>i. tab ! i) k (msb_bits N x) (bits_of v)"
    using Suc by (auto simp: Let_def)
  have "x AND drop_bit k (2 ^ (N - Suc 0)) = 0 \<longleftrightarrow> \<not> bit x (N - Suc k)"
    using Suc.prems assms(2) single_bit_and [of "N - Suc k" x] by (simp add: drop_mask and.commute)
  then have "(x AND drop_bit k (2 ^ (N - Suc 0)) \<noteq> 0) = msb_bits N x ! k"
    using Suc.prems by (simp add: nth_msb_bits)
  then show ?case
    using F Suc.prems by (simp add: scatter_def bits_of_WRITE_BIT drop_bit_drop_bit)
qed

lemma put_field_scatter:
  assumes "length tab = N" "N \<le> 32" "\<forall>p \<in> set tab. p < 8 * length v"
  shows "length (put_field x tab N (2 ^ (N - Suc 0)) v) = length v"
    "bits_of (put_field x tab N (2 ^ (N - Suc 0)) v) = scatter (\<lambda>i. tab ! i) N (msb_bits N x) (bits_of v)"
  using put_field_bits [of N N tab v x] assms by (simp_all add: put_field_def)

lemma scatter_append:
  assumes "length xs = length t"
  shows "scatter (\<lambda>i. u ! i) (length u) ys (scatter (\<lambda>i. t ! i) (length t) xs out)
    = scatter (\<lambda>i. (t @ u) ! i) (length t + length u) (xs @ ys) out"
proof -
  let ?f = "\<lambda>i zs. zs[(t @ u) ! i := (xs @ ys) ! i]"
  have up: "[length t..<length t + length u] = map (\<lambda>i. i + length t) [0..<length u]"
    by (simp only: map_add_upt add.commute)
  have high: "fold ?f [length t..<length t + length u] z = fold (\<lambda>i zs. zs[u ! i := ys ! i]) [0..<length u] z" for z
    unfolding up fold_map comp_def using assms by (intro fold_cong) (simp_all add: nth_append)
  have low: "fold ?f [0..<length t] out = fold (\<lambda>i zs. zs[t ! i := xs ! i]) [0..<length t] out"
    using assms by (intro fold_cong) (auto simp: nth_append)
  show ?thesis
    unfolding scatter_def upt_add_eq_append [of 0 "length t", OF le0] fold_append comp_def high low
    by (rule refl)
qed

abbreviation (input) dmr_positions :: "nat list" where
  "dmr_positions \<equiv> (DMR_A_TABLE @ DMR_B_TABLE) @ DMR_C_TABLE"

lemma dmr_tables:
  "length DMR_A_TABLE = 24" "length DMR_B_TABLE = 23" "length DMR_C_TABLE = 25"
  "distinct dmr_positions" "\<forall>p \<in> set dmr_positions. p < 72" "length dmr_positions = 72"
  unfolding DMR_A_TABLE_def DMR_B_TABLE_def DMR_C_TABLE_def by simp_all

interpretation dmr_il: interleaver "\<lambda>i. dmr_positions ! i" 72
  using interleaver_table [of dmr_positions] dmr_tables(4-6) by simp

text \<open>The bits of the three fields of a DMR voice frame as they go on the air.\<close>

definition dmr_air :: "u32 \<Rightarrow> u32 \<Rightarrow> u32 \<Rightarrow> bits" where
  "dmr_air dat_a dat_b dat_c =
     msb_bits 24 (CGolay24128_encode24128 dat_a)
     @ msb_bits 23 (drop_bit 1 (CGolay24128_encode23127 dat_b) XOR drop_bit 1 (PRNG_TABLE ! unat dat_a))
     @ msb_bits 25 dat_c"

lemma length_dmr_air [simp]: "length (dmr_air a b c) = 72"
  by (simp add: dmr_air_def)

lemma dmr_voice_bits:
  assumes "length junk = 9"
  shows "length (dmr_voice junk a b c) = 9"
    "gather_bits dmr_positions (bits_of (dmr_voice junk a b c)) = dmr_air a b c"
proof -
  note t = dmr_tables
  have r: "\<forall>p \<in> set DMR_A_TABLE. p < 72" "\<forall>p \<in> set DMR_B_TABLE. p < 72" "\<forall>p \<in> set DMR_C_TABLE. p < 72"
    using t(5) by auto
  have masks: "(0x800000 :: u32) = 2 ^ (24 - Suc 0)" "(0x400000 :: u32) = 2 ^ (23 - Suc 0)"
    "(0x1000000 :: u32) = 2 ^ (25 - Suc 0)" by simp_all
  define x where "x = drop_bit 1 (CGolay24128_encode23127 b) XOR drop_bit 1 (PRNG_TABLE ! unat a)"
  define v1 where "v1 = put_field (CGolay24128_encode24128 a) DMR_A_TABLE 24 (2 ^ (24 - Suc 0)) junk"
  define v2 where "v2 = put_field x DMR_B_TABLE 23 (2 ^ (23 - Suc 0)) v1"
  define v3 where "v3 = put_field c DMR_C_TABLE 25 (2 ^ (25 - Suc 0)) v2"
  have v: "dmr_voice junk a b c = v3"
    unfolding dmr_voice_def Let_def masks v1_def v2_def v3_def x_def by (rule refl)
  have l1: "length v1 = 9" "bits_of v1 = scatter (\<lambda>i. DMR_A_TABLE ! i) 24 (msb_bits 24 (CGolay24128_encode24128 a)) (bits_of junk)"
    using put_field_scatter [of DMR_A_TABLE 24 junk] r assms t(1)
    by (simp_all add: v1_def)
  have l2: "length v2 = 9" "bits_of v2 = scatter (\<lambda>i. DMR_B_TABLE ! i) 23 (msb_bits 23 x) (bits_of v1)"
    using put_field_scatter [of DMR_B_TABLE 23 v1] r l1(1) t(2)
    by (simp_all add: v2_def)
  have l3: "length v3 = 9" "bits_of v3 = scatter (\<lambda>i. DMR_C_TABLE ! i) 25 (msb_bits 25 c) (bits_of v2)"
    using put_field_scatter [of DMR_C_TABLE 25 v2] r l2(1) t(3)
    by (simp_all add: v3_def)
  show "length (dmr_voice junk a b c) = 9" using l3(1) v by simp
  have "bits_of v3 = scatter (\<lambda>i. dmr_positions ! i) 72 (dmr_air a b c) (bits_of junk)"
    using scatter_append [of "msb_bits 24 (CGolay24128_encode24128 a)" DMR_A_TABLE DMR_B_TABLE "msb_bits 23 x" "bits_of junk"]
      scatter_append [of "msb_bits 24 (CGolay24128_encode24128 a) @ msb_bits 23 x" "DMR_A_TABLE @ DMR_B_TABLE" DMR_C_TABLE "msb_bits 25 c" "bits_of junk"]
    by (simp add: l1(2) l2(2) l3(2) t dmr_air_def x_def)
  moreover note gather_bits_gather [OF t(6)]
  ultimately show "gather_bits dmr_positions (bits_of (dmr_voice junk a b c)) = dmr_air a b c"
    using dmr_il.gather_scatter [of "dmr_air a b c" "bits_of junk"] assms v by simp
qed

section \<open>The fields survive a DMR voice frame\<close>

definition ambe_ok :: "u32 \<Rightarrow> u32 \<Rightarrow> u32 \<Rightarrow> bool" where
  "ambe_ok a b c \<longleftrightarrow> unat a < 4096 \<and> unat b < 4096 \<and> unat c < 2 ^ 25"

lemma prng_word: "unat a < 4096 \<Longrightarrow> unat (drop_bit 1 (PRNG_TABLE ! unat a)) < 2 ^ 23"
  using prng_bound [of "unat a"] by (intro unat_drop_bit_less) simp

lemma cgolay_word:
  assumes "unat d < 4096"
  shows "drop_bit 12 (CGolay24128_encode24128 d) = d" "unat (CGolay24128_encode24128 d) < 2 ^ 24"
    "drop_bit 11 (drop_bit 1 (CGolay24128_encode23127 d)) = d"
    "unat (drop_bit 1 (CGolay24128_encode23127 d)) < 2 ^ 23"
proof -
  have enc: "CGolay24128_encode24128 d = encode24128 d"
    by (simp add: CGolay24128_encode24128_def encode24128_def cgolay_encoding_table)
  have even: "drop_bit (Suc n) (CGolay24128_encode23127 d) = drop_bit (Suc n) (encode24128 d)" for n
    unfolding encode23127_masked [OF assms]
    by (rule bit_word_eqI, simp only: bit_drop_bit_eq o_apply bit_and_iff bit_not_iff bit_1_iff)
      (auto dest: bit_imp_le_length)
  note f = encode24128_facts [OF assms]
  show "drop_bit 12 (CGolay24128_encode24128 d) = d" "unat (CGolay24128_encode24128 d) < 2 ^ 24"
    using f by (simp_all add: enc)
  show "drop_bit 11 (drop_bit 1 (CGolay24128_encode23127 d)) = d"
    using f(1) even [of 11] by (simp add: drop_bit_drop_bit)
  show "unat (drop_bit 1 (CGolay24128_encode23127 d)) < 2 ^ 23"
    unfolding even [of 0, folded One_nat_def] by (intro unat_drop_bit_less) (use f(3) in simp)
qed

lemma dmr_air_fields:
  assumes "ambe_ok a b c" "gather_bits dmr_positions bs = dmr_air a b c"
  shows "drop_bit 12 (msb_word (gather_bits DMR_A_TABLE bs)) = a"
    "drop_bit 11 (msb_word (gather_bits DMR_B_TABLE bs) XOR drop_bit 1 (PRNG_TABLE ! unat a)) = b"
    "msb_word (gather_bits DMR_C_TABLE bs) = c"
proof -
  let ?x = "drop_bit 1 (CGolay24128_encode23127 b) XOR drop_bit 1 (PRNG_TABLE ! unat a)"
  have parts: "gather_bits DMR_A_TABLE bs = msb_bits 24 (CGolay24128_encode24128 a)"
    "gather_bits DMR_B_TABLE bs = msb_bits 23 ?x" "gather_bits DMR_C_TABLE bs = msb_bits 25 c"
    using assms(2) dmr_tables(1-3) by (auto simp: gather_bits_def dmr_air_def append_eq_append_conv)
  have ok: "unat a < 4096" "unat b < 4096" "unat c < 2 ^ 25" using assms(1) by (auto simp: ambe_ok_def)
  have x: "unat ?x < 2 ^ 23"
    using cgolay_word(4) [OF ok(2)] prng_word [OF ok(1)] by (rule unat_xor_less)
  show "drop_bit 12 (msb_word (gather_bits DMR_A_TABLE bs)) = a"
    using cgolay_word(1,2) [OF ok(1)] by (simp only: parts msb_word_bits)
  show "drop_bit 11 (msb_word (gather_bits DMR_B_TABLE bs) XOR drop_bit 1 (PRNG_TABLE ! unat a)) = b"
    using msb_word_bits [OF _ x] cgolay_word(3) [OF ok(2)] by (simp only: parts) (simp add: xor.assoc)
  show "msb_word (gather_bits DMR_C_TABLE bs) = c"
    using ok(3) by (simp only: parts msb_word_bits)
qed

section \<open>Three voice frames in a burst\<close>

text \<open>The assembly of \<open>getDMR\<close>: the middle frame is split around the sync pattern.\<close>

definition dmr_burst :: "bytes \<Rightarrow> bytes \<Rightarrow> bytes \<Rightarrow> bytes \<Rightarrow> bytes" where
  "dmr_burst data v1 v2 v3 =
     (let data = memcpy data 0 v1;
          data = memcpy data 9 (take 4 v2);
          data = data[13 := v2 ! 4 AND 0xF0];
          data = data[19 := v2 ! 4 AND 0x0F];
          data = memcpy data 20 (sub_buf v2 5 4)
      in memcpy data 24 v3)"

lemma length_dmr_burst [simp]:
  "length data = 33 \<Longrightarrow> length v1 = 9 \<Longrightarrow> length v2 = 9 \<Longrightarrow> length v3 = 9 \<Longrightarrow> length (dmr_burst data v1 v2 v3) = 33"
  by (simp add: dmr_burst_def Let_def)

lemma nth_dmr_burst:
  assumes "length data = 33" "length v1 = 9" "length v2 = 9" "length v3 = 9" "i < 33"
  shows "dmr_burst data v1 v2 v3 ! i =
    (if i < 9 then v1 ! i else if i < 13 then v2 ! (i - 9) else if i = 13 then v2 ! 4 AND 0xF0
     else if i < 19 then data ! i else if i = 19 then v2 ! 4 AND 0x0F
     else if i < 24 then v2 ! (i - 15) else v3 ! (i - 24))"
  using assms
  by (simp add: dmr_burst_def Let_def nth_memcpy nth_list_update min_def)

lemma nibble_masks:
  "4 \<le> k \<Longrightarrow> k < 8 \<Longrightarrow> bit (x AND 0xF0) k \<longleftrightarrow> bit (x :: u8) k"
  "k < 4 \<Longrightarrow> bit (x AND 0x0F) k \<longleftrightarrow> bit (x :: u8) k"
proof -
  assume "4 \<le> k" "k < 8"
  then have "k = 4 \<or> k = 5 \<or> k = 6 \<or> k = 7" by arith
  then show "bit (x AND 0xF0) k \<longleftrightarrow> bit x k" by (auto simp: bit_and_iff)
next
  assume "k < 4"
  then have "k = 0 \<or> k = 1 \<or> k = 2 \<or> k = 3" by arith
  then show "bit (x AND 0x0F) k \<longleftrightarrow> bit x k" by (auto simp: bit_and_iff bit_0)
qed

lemma dmr_burst_bits:
  assumes "length data = 33" "length v1 = 9" "length v2 = 9" "length v3 = 9" "q < 72"
  shows "bits_of (dmr_burst data v1 v2 v3) ! q = bits_of v1 ! q"
    "bits_of (dmr_burst data v1 v2 v3) ! frame2_pos q = bits_of v2 ! q"
    "bits_of (dmr_burst data v1 v2 v3) ! (q + 192) = bits_of v3 ! q"
proof -
  note l = length_dmr_burst [OF assms(1-4)] nth_dmr_burst [OF assms(1-4)]
  have d: "q div 8 < 9" using assms(5) by (simp add: less_mult_imp_div_less)
  show "bits_of (dmr_burst data v1 v2 v3) ! q = bits_of v1 ! q"
    using assms d by (simp add: nth_bits_of l)
  have "(q + 192) div 8 = q div 8 + 24" "(q + 192) mod 8 = q mod 8"
    using div_mult_self1 [of 8 q 24] mod_mult_self1 [of q 24 8] by simp_all
  then show "bits_of (dmr_burst data v1 v2 v3) ! (q + 192) = bits_of v3 ! q"
    using assms d by (simp add: nth_bits_of l)
  have lo: "(q + 72) div 8 = q div 8 + 9" "(q + 72) mod 8 = q mod 8"
    using div_mult_self1 [of 8 q 9] mod_mult_self1 [of q 9 8] by simp_all
  have hi: "(120 + q) div 8 = q div 8 + 15" "(120 + q) mod 8 = q mod 8"
    using div_mult_self1 [of 8 q 15] mod_mult_self1 [of q 15 8] by (simp_all add: add.commute)
  have q: "q = 8 * (q div 8) + q mod 8" by simp
  show "bits_of (dmr_burst data v1 v2 v3) ! frame2_pos q = bits_of v2 ! q"
  proof (cases "q < 36")
    case True
    have "q div 8 < 4 \<or> q div 8 = 4 \<and> q mod 8 < 4" using q True by presburger
    then show ?thesis
      using True assms by (auto simp: nth_bits_of l lo nibble_masks)
  next
    case False
    have "4 < q div 8 \<or> q div 8 = 4 \<and> 4 \<le> q mod 8" using q False by presburger
    then show ?thesis
      using False assms d by (auto simp: nth_bits_of l hi nibble_masks)
  qed
qed

lemma dmr_fields_burst:
  assumes "length data = 33" "length v1 = 9" "length v2 = 9" "length v3 = 9"
    and "length tab = N" "0 < N" "N \<le> 32" "\<forall>p \<in> set tab. p < 72"
  shows "dmr_fields (dmr_burst data v1 v2 v3) tab N (2 ^ (N - Suc 0)) =
    (msb_word (gather_bits tab (bits_of v1)), msb_word (gather_bits tab (bits_of v2)), msb_word (gather_bits tab (bits_of v3)))"
proof -
  let ?d = "dmr_burst data v1 v2 v3"
  note l = length_dmr_burst [OF assms(1-4)]
  have rd: "READ_BIT ?d p = bits_of v1 ! p" "READ_BIT ?d (frame2_pos p) = bits_of v2 ! p"
    "READ_BIT ?d (p + 192) = bits_of v3 ! p" if "p < 72" for p
  proof -
    have "frame2_pos p < 264" "p < 264" "p + 192 < 264" using that by (auto simp: Let_def)
    then show "READ_BIT ?d p = bits_of v1 ! p" "READ_BIT ?d (frame2_pos p) = bits_of v2 ! p"
      "READ_BIT ?d (p + 192) = bits_of v3 ! p"
      using dmr_burst_bits [OF assms(1-4) that] by (simp_all only: READ_BIT_bits l)
  qed
  have "map (READ_BIT ?d) tab = gather_bits tab (bits_of v1)"
    "map (\<lambda>p. READ_BIT ?d (frame2_pos p)) tab = gather_bits tab (bits_of v2)"
    "map (\<lambda>p. READ_BIT ?d (p + 192)) tab = gather_bits tab (bits_of v3)"
    unfolding gather_bits_def using assms(8) by (intro map_cong refl rd; simp)+
  then show ?thesis
    using dmr_fields_bits [OF assms(5,7), of ?d] by simp
qed

section \<open>Raw AMBE frames\<close>

lemma ambe7_fields:
  assumes "length v = 7" "ambe7ToABC v = (a, b, c)"
  shows "ambe_ok a b c" "abcToAMBE7 a b c = v[6 := v ! 6 AND 0x80]"
proof -
  obtain v0 v1 v2 v3 v4 v5 v6 where v: "v = [v0, v1, v2, v3, v4, v5, v6]"
    using assms(1) by (auto simp: numeral_eq_Suc length_Suc_conv)
  have abc: "a = push_bit 4 (ucast v0) OR drop_bit 4 (ucast v1)"
    "b = push_bit 8 (ucast v1 AND 0x0F) OR ucast v2"
    "c = push_bit 17 (ucast v3) OR push_bit 9 (ucast v4) OR push_bit 1 (ucast v5) OR drop_bit 7 (ucast v6)"
    using assms(2) by (simp_all add: ambe7ToABC_def v)
  have long: "bit x k \<Longrightarrow> k < 8" for x :: u8 and k using bit_imp_le_length [of x k] by simp
  have low: "bit (0x0F :: u32) k \<longleftrightarrow> k < 4" for k
    using bit_mask_iff [where 'a = u32, of 4 k] by (auto simp: mask_eq_exp_minus_1 possible_bit_def)
  have "drop_bit 12 a = 0" "drop_bit 12 b = 0" "drop_bit 25 c = 0"
    unfolding abc
    by (rule bit_word_eqI; simp only: bit_drop_bit_eq o_apply bit_or_iff bit_and_iff bit_push_bit_iff bit_ucast_iff low;
        auto dest!: long)+
  then show "ambe_ok a b c" by (simp only: ambe_ok_def below_iff_drop_bit [symmetric]) simp
  note bits = bit_ucast_iff bit_and_iff bit_or_iff bit_push_bit_iff bit_drop_bit_eq
  have over: "8 \<le> k \<Longrightarrow> \<not> bit x k" for x :: u8 and k using long [of x k] by auto
  have "ucast (drop_bit 4 a AND 0xFF) = v0"
    "ucast (push_bit 4 (a AND 0x0F) OR (drop_bit 8 b AND 0x0F)) = v1"
    "ucast (b AND 0xFF) = v2" "ucast (drop_bit 17 c AND 0xFF) = v3" "ucast (drop_bit 9 c AND 0xFF) = v4"
    "ucast (drop_bit 1 c AND 0xFF) = v5" "ucast (push_bit 7 c AND 0x80) = v6 AND 0x80"
    unfolding abc
    by - (rule byte_eqI; drule less_8_cases; elim disjE; simp only: bits o_apply; simp add: over bits; (simp add: numeral_2_eq_2)?)+
  then show "abcToAMBE7 a b c = v[6 := v ! 6 AND 0x80]" by (simp add: abcToAMBE7_def v)
qed

lemma dmr33_burst:
  assumes "length data = 33" "length v1 = 9" "length v2 = 9" "length v3 = 9"
    and "ambe_ok a1 b1 c1" "ambe_ok a2 b2 c2" "ambe_ok a3 b3 c3"
    and "gather_bits dmr_positions (bits_of v1) = dmr_air a1 b1 c1"
    and "gather_bits dmr_positions (bits_of v2) = dmr_air a2 b2 c2"
    and "gather_bits dmr_positions (bits_of v3) = dmr_air a3 b3 c3"
  shows "dmr33ToAMBE (dmr_burst data v1 v2 v3) = [abcToAMBE7 a1 b1 c1, abcToAMBE7 a2 b2 c2, abcToAMBE7 a3 b3 c3]"
proof -
  have r: "\<forall>p \<in> set DMR_A_TABLE. p < 72" "\<forall>p \<in> set DMR_B_TABLE. p < 72" "\<forall>p \<in> set DMR_C_TABLE. p < 72"
    using dmr_tables(5) by auto
  have masks: "(0x800000 :: u32) = 2 ^ (24 - Suc 0)" "(0x400000 :: u32) = 2 ^ (23 - Suc 0)"
    "(0x1000000 :: u32) = 2 ^ (25 - Suc 0)" by simp_all
  note f = dmr_fields_burst [OF assms(1-4)]
  have fa: "dmr_fields (dmr_burst data v1 v2 v3) DMR_A_TABLE 24 0x800000 = (msb_word (gather_bits DMR_A_TABLE (bits_of v1)),
      msb_word (gather_bits DMR_A_TABLE (bits_of v2)), msb_word (gather_bits DMR_A_TABLE (bits_of v3)))"
    unfolding masks by (rule f) (simp_all add: dmr_tables r)
  have fb: "dmr_fields (dmr_burst data v1 v2 v3) DMR_B_TABLE 23 0x400000 = (msb_word (gather_bits DMR_B_TABLE (bits_of v1)),
      msb_word (gather_bits DMR_B_TABLE (bits_of v2)), msb_word (gather_bits DMR_B_TABLE (bits_of v3)))"
    unfolding masks by (rule f) (simp_all add: dmr_tables r)
  have fc: "dmr_fields (dmr_burst data v1 v2 v3) DMR_C_TABLE 25 0x1000000 = (msb_word (gather_bits DMR_C_TABLE (bits_of v1)),
      msb_word (gather_bits DMR_C_TABLE (bits_of v2)), msb_word (gather_bits DMR_C_TABLE (bits_of v3)))"
    unfolding masks by (rule f) (simp_all add: dmr_tables r)
  note air = dmr_air_fields [OF assms(5) assms(8)] dmr_air_fields [OF assms(6) assms(9)] dmr_air_fields [OF assms(7) assms(10)]
  show ?thesis
    unfolding dmr33ToAMBE_def fa fb fc Let_def prod.case by (simp only: air)
qed

end
