(* ===== verification/Mode_Conv_Ysf.thy ===== *)
theory Mode_Conv_Ysf
  imports Mode_Conv_Fields
begin

text \<open>
  The YSF voice channel of the frame converter: what \<open>putAMBE2YSF\<close> writes into its thirteen bytes and
  what \<open>putYSF\<close> reads back. The three AMBE fields are tripled or written plainly, whitened and
  interleaved; reading undoes it whatever the uninitialised work array held.
\<close>

section \<open>The interleaver and the whitening\<close>

lemma ysf_il_table: "INTERLEAVE_TABLE_26_4 = map (\<lambda>i. 4 * (i mod 26) + i div 26) [0..<104]"
  unfolding INTERLEAVE_TABLE_26_4_def by (simp add: upt_rec)

interpretation ysf_il: interleaver "\<lambda>i. INTERLEAVE_TABLE_26_4 ! i" 104
proof -
  have "length INTERLEAVE_TABLE_26_4 = 104" by (simp add: ysf_il_table)
  moreover have "distinct INTERLEAVE_TABLE_26_4" "\<forall>x \<in> set INTERLEAVE_TABLE_26_4. x < 104"
    unfolding INTERLEAVE_TABLE_26_4_def by simp_all
  ultimately show "interleaver (\<lambda>i. INTERLEAVE_TABLE_26_4 ! i) 104"
    using interleaver_table [of INTERLEAVE_TABLE_26_4] by (simp only: simp_thms)
qed

definition xor_bits :: "bits \<Rightarrow> bits \<Rightarrow> bits" where
  "xor_bits = map2 (\<noteq>)"

lemma length_xor_bits [simp]: "length (xor_bits xs ys) = min (length xs) (length ys)"
  by (simp add: xor_bits_def)

lemma xor_bits_twice: "length xs \<le> length ys \<Longrightarrow> xor_bits (xor_bits xs ys) ys = xs"
  by (rule nth_equalityI) (auto simp: xor_bits_def)

lemma xor_bytes_nth:
  assumes "n \<le> length v"
  shows "length (xor_bytes w n v) = length v
    \<and> (\<forall>j < length v. xor_bytes w n v ! j = (if j < n then v ! j XOR w ! j else v ! j))"
  using assms
proof (induction n)
  case (Suc n)
  then show ?case by (auto simp: xor_bytes_def nth_list_update less_Suc_eq)
qed (simp add: xor_bytes_def)

lemma xor_bytes_bits:
  assumes "length v = n" "length w = n"
  shows "length (xor_bytes w n v) = n" "bits_of (xor_bytes w n v) = xor_bits (bits_of v) (bits_of w)"
proof -
  note x = xor_bytes_nth [of n v w]
  show l: "length (xor_bytes w n v) = n" using x assms by simp
  show "bits_of (xor_bytes w n v) = xor_bits (bits_of v) (bits_of w)"
  proof (rule nth_equalityI)
    fix i assume "i < length (bits_of (xor_bytes w n v))"
    then have i: "i < 8 * n" "i div 8 < n" by (auto simp: l)
    then show "bits_of (xor_bytes w n v) ! i = xor_bits (bits_of v) (bits_of w) ! i"
      using x assms by (simp add: xor_bits_def nth_bits_of l bit_xor_iff)
  qed (simp add: l assms)
qed

lemma xor_bytes_take: "n \<le> length w \<Longrightarrow> xor_bytes w n v = xor_bytes (take n w) n v"
  unfolding xor_bytes_def by (rule fold_cong) auto

lemma length_whitening: "length WHITENING_DATA = 20"
  by (simp add: WHITENING_DATA_def)

abbreviation (input) whitening :: bits where "whitening \<equiv> bits_of (take 13 WHITENING_DATA)"

lemma whiten_bits:
  assumes "length v = 13"
  shows "length (xor_bytes WHITENING_DATA 13 v) = 13"
    "bits_of (xor_bytes WHITENING_DATA 13 v) = xor_bits (bits_of v) whitening"
  using xor_bytes_bits [OF assms, of "take 13 WHITENING_DATA"] xor_bytes_take [of 13 WHITENING_DATA v]
  by (simp_all add: length_whitening)

section \<open>The bits of the channel\<close>

definition triple :: "bits \<Rightarrow> bits" where
  "triple bs = concat (map (\<lambda>b. [b, b, b]) bs)"

lemma length_triple [simp]: "length (triple bs) = 3 * length bs"
  by (induction bs) (auto simp: triple_def)

lemma triple_append: "triple (xs @ ys) = triple xs @ triple ys"
  by (simp add: triple_def)

lemma nth_triple: "i < length bs \<Longrightarrow> j < 3 \<Longrightarrow> triple bs ! (3 * i + j) = bs ! i"
proof (induction bs arbitrary: i)
  case (Cons b bs)
  show ?case
  proof (cases i)
    case 0
    have "j = 0 \<or> j = 1 \<or> j = 2" using Cons.prems by arith
    then show ?thesis using 0 by (auto simp: triple_def)
  next
    case (Suc k)
    have "triple (b # bs) ! (3 * Suc k + j) = triple bs ! (3 * k + j)"
      by (simp add: triple_def numeral_eq_Suc)
    then show ?thesis using Suc Cons by simp
  qed
qed simp

definition vch_bits :: "u32 \<Rightarrow> u32 \<Rightarrow> u32 \<Rightarrow> bits" where
  "vch_bits dat_a dat_b dat_c =
     triple (msb_bits 12 dat_a @ msb_bits 12 dat_b @ take 3 (msb_bits 25 dat_c))
     @ drop 3 (msb_bits 25 dat_c) @ [False]"

lemma length_vch_bits [simp]: "length (vch_bits a b c) = 104"
  by (simp add: vch_bits_def)

lemma memcpy_single: "p < length xs \<Longrightarrow> memcpy xs p [a] = xs[p := a]"
  by (simp add: memcpy_def upd_conv_take_nth_drop)

lemma memcpy_three: "p + 3 \<le> length xs \<Longrightarrow> memcpy xs p [a, b, c] = xs[p := a, p + 1 := b, p + 2 := c]"
  using memcpy_append [of p "[a]" "[b]" xs] memcpy_append [of p "[a, b]" "[c]" xs]
  by (simp add: memcpy_single)

lemma write3_bits:
  "p + 3 \<le> 8 * length v \<Longrightarrow> length (write3 p s v) = length v \<and> bits_of (write3 p s v) = memcpy (bits_of v) p [s, s, s]"
  by (simp add: write3_def bits_of_WRITE_BIT memcpy_three)

lemma write3_loop:
  assumes "3 * (k + n) \<le> 8 * length v"
  shows "length (fold (\<lambda>i. write3 (3 * (i + k)) (B i)) [0..<n] v) = length v
    \<and> bits_of (fold (\<lambda>i. write3 (3 * (i + k)) (B i)) [0..<n] v) = memcpy (bits_of v) (3 * k) (triple (map B [0..<n]))"
  using assms
proof (induction n)
  case (Suc n)
  let ?v = "fold (\<lambda>i. write3 (3 * (i + k)) (B i)) [0..<n] v"
  have IH: "length ?v = length v" "bits_of ?v = memcpy (bits_of v) (3 * k) (triple (map B [0..<n]))"
    using Suc by auto
  have "bits_of (write3 (3 * (n + k)) (B n) ?v) = memcpy (bits_of v) (3 * k) (triple (map B [0..<n]) @ [B n, B n, B n])"
    using memcpy_append [of "3 * k" "triple (map B [0..<n])" "[B n, B n, B n]" "bits_of v"] Suc.prems
      write3_bits [of "3 * (n + k)" ?v "B n"] IH
    by (simp add: algebra_simps)
  then show ?case
    using write3_bits [of "3 * (n + k)" ?v "B n"] IH Suc.prems by (simp add: triple_append) (simp add: triple_def)
qed (simp add: triple_def memcpy_def)

lemma write1_loop:
  assumes "k + n \<le> 8 * length v"
  shows "length (fold (\<lambda>i v. WRITE_BIT v (i + k) (B i)) [0..<n] v) = length v
    \<and> bits_of (fold (\<lambda>i v. WRITE_BIT v (i + k) (B i)) [0..<n] v) = memcpy (bits_of v) k (map B [0..<n])"
  using assms
proof (induction n)
  case (Suc n)
  let ?v = "fold (\<lambda>i v. WRITE_BIT v (i + k) (B i)) [0..<n] v"
  have IH: "length ?v = length v" "bits_of ?v = memcpy (bits_of v) k (map B [0..<n])" using Suc by auto
  have "(memcpy (bits_of v) k (map B [0..<n]))[n + k := B n] = memcpy (bits_of v) k (map B [0..<n] @ [B n])"
    using Suc.prems by (intro nth_equalityI) (auto simp: nth_memcpy nth_list_update nth_append)
  then show ?case using IH Suc.prems by (simp add: bits_of_WRITE_BIT)
qed (simp add: memcpy_def)

text \<open>The tests \<open>(dat << (j + i)) & 0x80000000\<close> read the bits of a number from its top.\<close>

lemma shift_test:
  assumes "n + k = 32" "i < n"
  shows "push_bit (k + i) dat AND 0x80000000 \<noteq> (0 :: u32) \<longleftrightarrow> bit dat (n - 1 - i)"
proof -
  have "(0x80000000 :: u32) = 2 ^ 31" by simp
  then have "push_bit (k + i) dat AND 0x80000000 \<noteq> 0 \<longleftrightarrow> bit (push_bit (k + i) dat) 31"
    using single_bit_and [of 31 "push_bit (k + i) dat"] by (simp add: and.commute)
  moreover have "31 - (k + i) = n - 1 - i" "k + i \<le> 31" using assms by auto
  ultimately show ?thesis by (simp add: bit_push_bit_iff)
qed

lemma shift_tests:
  assumes "n + k = 32" "m \<le> n"
  shows "map (\<lambda>i. push_bit (k + i) dat AND 0x80000000 \<noteq> (0 :: u32)) [0..<m] = take m (msb_bits n dat)"
  using assms by (intro nth_equalityI) (simp_all add: shift_test nth_msb_bits)

lemma memcpy_grow:
  "length xs = k \<Longrightarrow> k + length ys \<le> length d \<Longrightarrow> memcpy (memcpy d 0 xs) k ys = memcpy d 0 (xs @ ys)"
  using memcpy_append [of 0 xs ys d] by simp

lemma ysf_voice_bits: "length (ysf_voice a b c) = 13"
  "gather (\<lambda>i. INTERLEAVE_TABLE_26_4 ! i) 104 (bits_of (ysf_voice a b c)) = xor_bits (vch_bits a b c) whitening"
proof -
  define v1 where "v1 = fold (\<lambda>i. write3 (3 * i) (push_bit (20 + i) a AND 0x80000000 \<noteq> 0)) [0..<12] (replicate 13 (0 :: u8))"
  define v2 where "v2 = fold (\<lambda>i. write3 (3 * (i + 12)) (push_bit (20 + i) b AND 0x80000000 \<noteq> 0)) [0..<12] v1"
  define v3 where "v3 = fold (\<lambda>i. write3 (3 * (i + 24)) (push_bit (7 + i) c AND 0x80000000 \<noteq> 0)) [0..<3] v2"
  define v4 where "v4 = fold (\<lambda>i v. WRITE_BIT v (i + 81) (push_bit (10 + i) c AND 0x80000000 \<noteq> 0)) [0..<22] v3"
  define v5 where "v5 = WRITE_BIT v4 103 False"
  define v6 where "v6 = xor_bytes WHITENING_DATA 13 v5"
  have voice: "ysf_voice a b c = fold (\<lambda>i f. WRITE_BIT f (INTERLEAVE_TABLE_26_4 ! i) (READ_BIT v6 i)) [0..<104] (replicate 13 0)"
    unfolding ysf_voice_def Let_def v6_def v5_def v4_def v3_def v2_def v1_def by (rule refl)
  let ?z = "bits_of (replicate 13 0)"
  let ?c = "msb_bits 25 c"
  have l1: "length v1 = 13" "bits_of v1 = memcpy ?z 0 (triple (msb_bits 12 a))"
    using write3_loop [of 0 12 "replicate 13 0" "\<lambda>i. push_bit (20 + i) a AND 0x80000000 \<noteq> 0"]
      shift_tests [of 12 20 12 a] by (simp_all add: v1_def)
  have l2: "length v2 = 13" "bits_of v2 = memcpy ?z 0 (triple (msb_bits 12 a @ msb_bits 12 b))"
    using write3_loop [of 12 12 v1 "\<lambda>i. push_bit (20 + i) b AND 0x80000000 \<noteq> 0"]
      shift_tests [of 12 20 12 b] l1 memcpy_grow [of "triple (msb_bits 12 a)" 36 "triple (msb_bits 12 b)" ?z]
    by (simp_all add: v2_def triple_append)
  have l3: "length v3 = 13" "bits_of v3 = memcpy ?z 0 (triple (msb_bits 12 a @ msb_bits 12 b @ take 3 ?c))"
    using write3_loop [of 24 3 v2 "\<lambda>i. push_bit (7 + i) c AND 0x80000000 \<noteq> 0"]
      shift_tests [of 25 7 3 c] l2
      memcpy_grow [of "triple (msb_bits 12 a @ msb_bits 12 b)" 72 "triple (take 3 ?c)" ?z]
    by (simp_all add: v3_def triple_append)
  have low: "map (\<lambda>i. push_bit (10 + i) c AND 0x80000000 \<noteq> 0) [0..<22] = drop 3 ?c"
    using shift_tests [of 22 10 22 c] by (intro nth_equalityI) (simp_all add: nth_msb_bits)
  have l4: "length v4 = 13"
    "bits_of v4 = memcpy ?z 0 (triple (msb_bits 12 a @ msb_bits 12 b @ take 3 ?c) @ drop 3 ?c)"
    using write1_loop [of 81 22 v3 "\<lambda>i. push_bit (10 + i) c AND 0x80000000 \<noteq> 0"] l3 low
      memcpy_grow [of "triple (msb_bits 12 a @ msb_bits 12 b @ take 3 ?c)" 81 "drop 3 ?c" ?z]
    by (simp_all add: v4_def)
  have l5: "length v5 = 13" "bits_of v5 = vch_bits a b c"
  proof -
    have "bits_of v5 = memcpy (bits_of v4) 103 [False]"
      using l4(1) by (simp add: v5_def bits_of_WRITE_BIT memcpy_def upd_conv_take_nth_drop)
    then show "bits_of v5 = vch_bits a b c"
      using memcpy_grow [of "triple (msb_bits 12 a @ msb_bits 12 b @ take 3 ?c) @ drop 3 ?c" 103 "[False]" ?z] l4(2)
      by (simp add: vch_bits_def)
  qed (use l4(1) in \<open>simp add: v5_def\<close>)
  have l6: "length v6 = 13" "bits_of v6 = xor_bits (vch_bits a b c) whitening"
    using whiten_bits [OF l5(1)] l5(2) by (simp_all add: v6_def)
  have sc: "k \<le> 104 \<Longrightarrow> length (fold (\<lambda>i f. WRITE_BIT f (INTERLEAVE_TABLE_26_4 ! i) (READ_BIT v6 i)) [0..<k] (replicate 13 0)) = 13
      \<and> bits_of (fold (\<lambda>i f. WRITE_BIT f (INTERLEAVE_TABLE_26_4 ! i) (READ_BIT v6 i)) [0..<k] (replicate 13 0))
        = scatter (\<lambda>i. INTERLEAVE_TABLE_26_4 ! i) k (bits_of v6) ?z" for k
  proof (induction k)
    case (Suc k)
    then show ?case
      using ysf_il.perm_bound [of k] l6(1) by (simp add: scatter_def bits_of_WRITE_BIT READ_BIT_bits)
  qed (simp add: scatter_def)
  show "length (ysf_voice a b c) = 13" using sc [of 104] voice by simp
  show "gather (\<lambda>i. INTERLEAVE_TABLE_26_4 ! i) 104 (bits_of (ysf_voice a b c)) = xor_bits (vch_bits a b c) whitening"
    using sc [of 104] voice ysf_il.gather_scatter [of "bits_of v6" ?z] l6 by (simp add: length_whitening)
qed

section \<open>Reading the channel\<close>

lemma shift_in_loop:
  "fold (\<lambda>i. shift_in v (p i)) [0..<n] (msb_word bs) = msb_word (bs @ map (\<lambda>i. READ_BIT v (p i)) [0..<n])"
proof (induction n)
  case (Suc n)
  then show ?case
    using msb_word_snoc [of "bs @ map (\<lambda>i. READ_BIT v (p i)) [0..<n]" "READ_BIT v (p n)"]
    by (simp add: shift_in_def)
qed simp

lemma read_channel:
  assumes "length junk = 13" "off + 104 \<le> 8 * length d" "k \<le> 104"
  shows "length (fold (\<lambda>i v. WRITE_BIT v i (READ_BIT d (off + INTERLEAVE_TABLE_26_4 ! i))) [0..<k] junk) = 13
    \<and> bits_of (fold (\<lambda>i v. WRITE_BIT v i (READ_BIT d (off + INTERLEAVE_TABLE_26_4 ! i))) [0..<k] junk)
      = memcpy (bits_of junk) 0 (map (\<lambda>i. bits_of d ! (off + INTERLEAVE_TABLE_26_4 ! i)) [0..<k])"
proof -
  have rd: "READ_BIT d (off + INTERLEAVE_TABLE_26_4 ! i) = bits_of d ! (off + INTERLEAVE_TABLE_26_4 ! i)" if "i < 104" for i
    using ysf_il.perm_bound [OF that] assms(2) by (simp add: READ_BIT_bits)
  have "fold (\<lambda>i v. WRITE_BIT v i (READ_BIT d (off + INTERLEAVE_TABLE_26_4 ! i))) [0..<k] junk
      = fold (\<lambda>i v. WRITE_BIT v (i + 0) (bits_of d ! (off + INTERLEAVE_TABLE_26_4 ! i))) [0..<k] junk"
    using assms(3) by (intro fold_cong) (auto simp: rd)
  then show ?thesis
    using write1_loop [of 0 k junk "\<lambda>i. bits_of d ! (off + INTERLEAVE_TABLE_26_4 ! i)"] assms by simp
qed

text \<open>The voice frame that starts at a bit of the payload.\<close>

definition channel_at :: "bytes \<Rightarrow> nat \<Rightarrow> bits" where
  "channel_at d off = xor_bits (gather (\<lambda>i. INTERLEAVE_TABLE_26_4 ! i) 104 (sub_buf (bits_of d) off 104)) whitening"

lemma length_channel_at [simp]: "length (channel_at d off) = 104"
  by (simp add: channel_at_def length_whitening)

lemma ysf_fields_channel:
  assumes "length junk = 13" "off + 104 \<le> 8 * length d"
  shows "ysf_fields junk d off =
    (let y = channel_at d off
     in (msb_word (map (\<lambda>i. y ! (3 * i + 1)) [0..<12]), msb_word (map (\<lambda>i. y ! (3 * (i + 12) + 1)) [0..<12]),
         msb_word (map (\<lambda>i. y ! (3 * (i + 24) + 1)) [0..<3] @ map (\<lambda>i. y ! (i + 81)) [0..<22])))"
proof -
  define v where "v = fold (\<lambda>i v. WRITE_BIT v i (READ_BIT d (off + INTERLEAVE_TABLE_26_4 ! i))) [0..<104] junk"
  define w where "w = xor_bytes WHITENING_DATA 13 v"
  have v: "length v = 13" "bits_of v = gather (\<lambda>i. INTERLEAVE_TABLE_26_4 ! i) 104 (sub_buf (bits_of d) off 104)"
  proof -
    have "map (\<lambda>i. bits_of d ! (off + INTERLEAVE_TABLE_26_4 ! i)) [0..<104]
        = gather (\<lambda>i. INTERLEAVE_TABLE_26_4 ! i) 104 (sub_buf (bits_of d) off 104)"
      using assms(2) ysf_il.perm_bound by (intro nth_equalityI) simp_all
    then show "length v = 13" "bits_of v = gather (\<lambda>i. INTERLEAVE_TABLE_26_4 ! i) 104 (sub_buf (bits_of d) off 104)"
      using read_channel [OF assms, of 104] assms(1) by (simp_all add: v_def)
  qed
  have w: "length w = 13" "bits_of w = channel_at d off"
    using whiten_bits [OF v(1)] v(2) by (simp_all add: w_def channel_at_def)
  have rd: "map (\<lambda>i. READ_BIT w (p i)) [0..<n] = map (\<lambda>i. channel_at d off ! p i) [0..<n]"
    if "\<forall>i < n. p i < 104" for p n
    using that w by (auto simp: READ_BIT_bits)
  have sh: "fold (\<lambda>i. shift_in w (p i)) [0..<n] 0 = msb_word (map (\<lambda>i. channel_at d off ! p i) [0..<n])"
    if "\<forall>i < n. p i < 104" for p n
    using shift_in_loop [of w p n "[]"] rd [OF that] by simp
  have sh': "fold (\<lambda>i. shift_in w (p i)) [0..<n] (msb_word bs) = msb_word (bs @ map (\<lambda>i. channel_at d off ! p i) [0..<n])"
    if "\<forall>i < n. p i < 104" for p n bs
    using shift_in_loop [of w p n bs] rd [OF that] by simp
  have "ysf_fields junk d off =
      (fold (\<lambda>i. shift_in w (3 * i + 1)) [0..<12] 0, fold (\<lambda>i. shift_in w (3 * (i + 12) + 1)) [0..<12] 0,
       fold (\<lambda>i. shift_in w (i + 81)) [0..<22] (fold (\<lambda>i. shift_in w (3 * (i + 24) + 1)) [0..<3] 0))"
    unfolding ysf_fields_def Let_def w_def v_def by (rule refl)
  moreover note sh [of 12 "\<lambda>i. 3 * i + 1"] sh [of 12 "\<lambda>i. 3 * (i + 12) + 1"] sh [of 3 "\<lambda>i. 3 * (i + 24) + 1"]
    sh' [of 22 "\<lambda>i. i + 81" "map (\<lambda>i. channel_at d off ! (3 * (i + 24) + 1)) [0..<3]"]
  ultimately show ?thesis by (simp add: Let_def)
qed

lemma vch_fields:
  shows "map (\<lambda>i. vch_bits a b c ! (3 * i + 1)) [0..<12] = msb_bits 12 a"
    "map (\<lambda>i. vch_bits a b c ! (3 * (i + 12) + 1)) [0..<12] = msb_bits 12 b"
    "map (\<lambda>i. vch_bits a b c ! (3 * (i + 24) + 1)) [0..<3] @ map (\<lambda>i. vch_bits a b c ! (i + 81)) [0..<22] = msb_bits 25 c"
proof -
  let ?h = "msb_bits 12 a @ msb_bits 12 b @ take 3 (msb_bits 25 c)"
  have head: "vch_bits a b c ! (3 * i + 1) = ?h ! i" if "i < 27" for i
    using that nth_triple [of i ?h 1] by (simp add: vch_bits_def nth_append)
  have tail: "vch_bits a b c ! (i + 81) = msb_bits 25 c ! (i + 3)" if "i < 22" for i
    using that by (simp add: vch_bits_def nth_append add.commute)
  show "map (\<lambda>i. vch_bits a b c ! (3 * i + 1)) [0..<12] = msb_bits 12 a"
    using head by (intro nth_equalityI) (simp_all add: nth_append)
  show "map (\<lambda>i. vch_bits a b c ! (3 * (i + 12) + 1)) [0..<12] = msb_bits 12 b"
    using head [of "_ + 12"] by (intro nth_equalityI) (simp_all add: nth_append del: distrib_left)
  show "map (\<lambda>i. vch_bits a b c ! (3 * (i + 24) + 1)) [0..<3] @ map (\<lambda>i. vch_bits a b c ! (i + 81)) [0..<22] = msb_bits 25 c"
  proof (rule nth_equalityI)
    fix i assume "i < length (map (\<lambda>i. vch_bits a b c ! (3 * (i + 24) + 1)) [0..<3] @ map (\<lambda>i. vch_bits a b c ! (i + 81)) [0..<22])"
    then have i: "i < 25" by simp
    show "(map (\<lambda>i. vch_bits a b c ! (3 * (i + 24) + 1)) [0..<3] @ map (\<lambda>i. vch_bits a b c ! (i + 81)) [0..<22]) ! i = msb_bits 25 c ! i"
    proof (cases "i < 3")
      case True
      then show ?thesis using head [of "i + 24"] by (simp add: nth_append del: distrib_left)
    next
      case False
      define j where "j = i - 3"
      have "i = j + 3" "j < 22" using False i by (auto simp: j_def)
      then show ?thesis using tail [of j] by (simp add: nth_append)
    qed
  qed simp
qed

lemma ysf_fields_voice:
  assumes "length junk = 13" "ambe_ok a b c" "off + 13 \<le> length d" "sub_buf d off 13 = ysf_voice a b c"
  shows "ysf_fields junk d (8 * off) = (a, b, c)"
proof -
  have same: "memcpy d off (ysf_voice a b c) = d"
    using memcpy_sub_buf_self [of off 13 d] assms(3,4) by simp
  have "sub_buf (bits_of (memcpy d off (ysf_voice a b c))) (8 * off) 104 = bits_of (ysf_voice a b c)"
    using assms(3) ysf_voice_bits(1) [of a b c] by (subst bits_of_memcpy) (simp_all add: sub_buf_memcpy_same)
  then have "sub_buf (bits_of d) (8 * off) 104 = bits_of (ysf_voice a b c)"
    by (simp only: same)
  then have y: "channel_at d (8 * off) = vch_bits a b c"
    using ysf_voice_bits(2) [of a b c] xor_bits_twice [of "vch_bits a b c" whitening]
    by (simp add: channel_at_def length_whitening)
  have ok: "unat a < 2 ^ 12" "unat b < 2 ^ 12" "unat c < 2 ^ 25" using assms(2) by (simp_all add: ambe_ok_def)
  have e: "8 * off + 104 \<le> 8 * length d" using assms(3) by simp
  show ?thesis
    unfolding ysf_fields_channel [OF assms(1) e] Let_def y vch_fields
    using ok by (simp add: msb_word_bits)
qed

end
