(* ===== verification/Mode_Conv_Queues.thy ===== *)
theory Mode_Conv_Queues
  imports Mode_Conv_Ysf
begin

text \<open>
  The frame converter as two queues of tagged frames: the records of the circular buffers, what each
  operation does to them as long as they have room, what the two read operations return of them, and
  the frames that a raw AMBE frame or a DMR burst becomes.
\<close>

section \<open>Records in a ring\<close>

type_synonym record_queue = "(u8 \<times> bytes) list"

definition ring_holds :: "nat \<Rightarrow> u8 ring_buffer \<Rightarrow> record_queue \<Rightarrow> bool" where
  "ring_holds k r fs \<longleftrightarrow> ring_ok r \<and> m_length r = 5000 \<and> ring_items r = concat (map (\<lambda>(t, b). t # b) fs)
     \<and> (\<forall>(t, b) \<in> set fs. length b = k)"

lemma length_records:
  "\<forall>(t, b) \<in> set fs. length b = k \<Longrightarrow> length (concat (map (\<lambda>(t, b). t # b) fs)) = (k + 1) * length fs"
  by (induction fs) auto

lemma ring_holds_new: "ring_holds k (CRingBuffer 5000) []"
  by (simp add: ring_holds_def ring_start)

lemma ring_holds_bound: "ring_holds k r fs \<Longrightarrow> (k + 1) * length fs < 5000"
  using length_records [of fs k] ring_space [of r] length_ring_items [of r]
  unfolding ring_holds_def by (metis (no_types, lifting))

lemma add_record_holds:
  assumes "ring_holds k r fs" "length body = k" "n = k" "(k + 1) * (length fs + 1) < 5000"
  shows "ring_holds k (add_record tag body n r) (fs @ [(tag, body)])"
proof -
  have r: "ring_ok r" "m_length r = 5000" "ring_items r = concat (map (\<lambda>(t, b). t # b) fs)"
    "\<forall>(t, b) \<in> set fs. length b = k" using assms(1) by (auto simp: ring_holds_def)
  have "length (ring_items r) + length [tag] + length body < m_length r"
    using length_records [OF r(4)] r(2,3) assms(2,4) by simp
  from ring.put_put_fits [OF r(1) this] show ?thesis
    using r assms(2,3) by (auto simp: ring_holds_def add_record_def)
qed

lemma get_pair_holds:
  assumes "ring_holds k r ((t, body) # fs)" "length tag = 1" "off + k \<le> length dst"
  shows "\<exists>r1 r2. getData tag 0 1 r = (True, [t], r1) \<and> getData dst off k r1 = (True, memcpy dst off body, r2)
    \<and> ring_holds k r2 fs"
proof -
  have r: "ring_ok r" "m_length r = 5000" "ring_items r = [t] @ body @ concat (map (\<lambda>(t, b). t # b) fs)"
    "length body = k" "\<forall>(t, b) \<in> set fs. length b = k" using assms(1) by (auto simp: ring_holds_def)
  obtain r1 where r1: "getData tag 0 1 r = (True, memcpy tag 0 [t], r1)" "ring_ok r1" "m_length r1 = 5000"
    "ring_items r1 = body @ concat (map (\<lambda>(t, b). t # b) fs)"
    using ring.get_item [OF r(1,3), of 1 0 tag] assms(2) r(2) by auto
  obtain r2 where "getData dst off k r1 = (True, memcpy dst off body, r2)" "ring_ok r2" "m_length r2 = 5000"
    "ring_items r2 = concat (map (\<lambda>(t, b). t # b) fs)"
    using ring.get_item [OF r1(2,4) r(4) assms(3)] r1(3) by auto
  then show ?thesis using r1(1) r(5) assms(2) by (auto simp: ring_holds_def)
qed

lemma peek_holds:
  assumes "ring_holds k r ((t, body) # fs)" "length tag = 1"
  shows "peek tag 0 1 r = (True, [t])"
  using ring.look_item [of r "[t]" "body @ concat (map (\<lambda>(t, b). t # b) fs)" 1 0 tag] assms
  by (auto simp: ring_holds_def)

section \<open>The converter as two queues\<close>

definition conv_holds :: "mode_conv \<Rightarrow> record_queue \<Rightarrow> record_queue \<Rightarrow> bool" where
  "conv_holds s yf df \<longleftrightarrow> ring_holds 13 (m_YSF s) yf \<and> ring_holds 9 (m_DMR s) df
     \<and> m_ysfN s = of_nat (length yf) \<and> m_dmrN s = of_nat (length df)"

lemma conv_holds_new: "conv_holds CModeConv [] []"
  by (simp add: conv_holds_def CModeConv_def ring_holds_new)

lemma conv_holds_counts:
  assumes "conv_holds s yf df"
  shows "unat (m_ysfN s) = length yf" "unat (m_dmrN s) = length df" "length yf < 358" "length df < 500"
proof -
  have "14 * length yf < 5000" "10 * length df < 5000"
    using assms ring_holds_bound [of 13 "m_YSF s" yf] ring_holds_bound [of 9 "m_DMR s" df]
    by (simp_all add: conv_holds_def)
  then show "length yf < 358" "length df < 500" by simp_all
  then show "unat (m_ysfN s) = length yf" "unat (m_dmrN s) = length df"
    using assms by (simp_all add: conv_holds_def unat_of_nat)
qed

lemma put_ysf_holds:
  "conv_holds s yf df \<Longrightarrow> length body = 13 \<Longrightarrow> length yf < 356 \<Longrightarrow>
    conv_holds (put_ysf_record tag body s) (yf @ [(tag, body)]) df"
  using add_record_holds [of 13 "m_YSF s" yf body 13 tag] by (simp add: conv_holds_def put_ysf_record_def)

lemma put_dmr_holds:
  "conv_holds s yf df \<Longrightarrow> length body = 9 \<Longrightarrow> length df < 498 \<Longrightarrow>
    conv_holds (put_dmr_record tag body s) yf (df @ [(tag, body)])"
  using add_record_holds [of 9 "m_DMR s" df body 9 tag] by (simp add: conv_holds_def put_dmr_record_def)

lemma put_ysf_holds_all:
  "conv_holds s yf df \<Longrightarrow> \<forall>(t, b) \<in> set fs. length b = 13 \<Longrightarrow> length yf + length fs < 357 \<Longrightarrow>
    conv_holds (fold (\<lambda>(t, b). put_ysf_record t b) fs s) (yf @ fs) df"
proof (induction fs arbitrary: s yf)
  case (Cons f fs)
  then show ?case using put_ysf_holds [of s yf df "snd f" "fst f"] Cons.IH [of "put_ysf_record (fst f) (snd f) s" "yf @ [f]"]
    by (auto simp: split_def)
qed simp

lemma put_dmr_holds_all:
  "conv_holds s yf df \<Longrightarrow> \<forall>(t, b) \<in> set fs. length b = 9 \<Longrightarrow> length df + length fs < 499 \<Longrightarrow>
    conv_holds (fold (\<lambda>(t, b). put_dmr_record t b) fs s) yf (df @ fs)"
proof (induction fs arbitrary: s df)
  case (Cons f fs)
  then show ?case using put_dmr_holds [of s yf df "snd f" "fst f"] Cons.IH [of "put_dmr_record (fst f) (snd f) s" "df @ [f]"]
    by (auto simp: split_def)
qed simp

lemma get_ysf_holds:
  assumes "conv_holds s ((t, body) # yf) df" "length tag = 1" "off + 13 \<le> length dst"
  shows "\<exists>s'. get_ysf_record tag dst off s = ([t], memcpy dst off body, s') \<and> conv_holds s' yf df"
proof -
  have h: "ring_holds 13 (m_YSF s) ((t, body) # yf)" using assms(1) by (simp add: conv_holds_def)
  from get_pair_holds [OF this assms(2,3)] show ?thesis
    using assms(1) by (auto simp: conv_holds_def get_ysf_record_def Let_def)
qed

lemma get_dmr_holds:
  assumes "conv_holds s yf ((t, body) # df)" "length tag = 1" "off + 9 \<le> length dst"
  shows "\<exists>s'. get_dmr_record tag dst off s = ([t], memcpy dst off body, s') \<and> conv_holds s' yf df"
proof -
  have h: "ring_holds 9 (m_DMR s) ((t, body) # df)" using assms(1) by (simp add: conv_holds_def)
  from get_pair_holds [OF this assms(2,3)] show ?thesis
    using assms(1) by (auto simp: conv_holds_def get_dmr_record_def Let_def)
qed

section \<open>Reading a frame\<close>

text \<open>What the two read operations return of a queue, and what they leave.\<close>

definition ysf_frame :: "bytes \<Rightarrow> bytes list \<Rightarrow> bytes" where
  "ysf_frame data vs = fold (\<lambda>(i, v) d. memcpy d (35 + 18 * i) v) (enumerate 0 vs) data"

definition read_ysf :: "bytes \<Rightarrow> record_queue \<Rightarrow> u8 \<times> bytes \<times> record_queue" where
  "read_ysf data fs =
     (case fs of [] \<Rightarrow> (TAG_NODATA, data, [])
      | (t, b) # rest \<Rightarrow>
          if t \<noteq> TAG_DATA then (t, memcpy data 30 b, rest)
          else if 5 \<le> length fs then (TAG_DATA, ysf_frame data (map snd (take 5 fs)), drop 5 fs)
          else (TAG_NODATA, data, fs))"

definition read_dmr :: "bytes \<Rightarrow> record_queue \<Rightarrow> u8 \<times> bytes \<times> record_queue" where
  "read_dmr data fs =
     (case fs of [] \<Rightarrow> (TAG_NODATA, data, [])
      | (t, b) # rest \<Rightarrow>
          if t \<noteq> TAG_DATA then (t, memcpy data 0 b, rest)
          else if 3 \<le> length fs then (TAG_DATA, dmr_burst data (snd (fs ! 0)) (snd (fs ! 1)) (snd (fs ! 2)), drop 3 fs)
          else (TAG_NODATA, data, fs))"

lemma of_nat_le_word:
  "n < 358 \<or> n < 500 \<Longrightarrow> k < 500 \<Longrightarrow> of_nat k \<le> (of_nat n :: u32) \<longleftrightarrow> k \<le> n"
  by (auto simp: word_le_nat_alt unat_of_nat)

lemma count_tests:
  assumes "conv_holds s yf df"
  shows "1 \<le> m_ysfN s \<longleftrightarrow> yf \<noteq> []" "5 \<le> m_ysfN s \<longleftrightarrow> 5 \<le> length yf"
    "1 \<le> m_dmrN s \<longleftrightarrow> df \<noteq> []" "3 \<le> m_dmrN s \<longleftrightarrow> 3 \<le> length df"
  using conv_holds_counts [OF assms] by (auto simp: word_le_nat_alt Suc_le_eq)

lemma getYSF_reads:
  assumes "conv_holds s yf df" "length data = 120" "read_ysf data yf = (t, data', yf')"
  shows "\<exists>s'. getYSF data s = (t, data', s') \<and> conv_holds s' yf' df"
proof (cases yf)
  case Nil
  then show ?thesis using assms count_tests [OF assms(1)] by (auto simp: getYSF_def read_ysf_def)
next
  case (Cons f rest)
  obtain t0 b0 where f: "f = (t0, b0)" by (cases f)
  have b0: "length b0 = 13" using assms(1) by (auto simp: conv_holds_def ring_holds_def Cons f)
  note n = count_tests [OF assms(1)]
  have pk: "peek [TAG_NODATA] 0 1 (m_YSF s) = (True, [t0])"
    using assms(1) peek_holds [of 13 "m_YSF s" t0 b0 rest "[TAG_NODATA]"] by (simp add: conv_holds_def Cons f)
  show ?thesis
  proof (cases "t0 = TAG_DATA")
    case False
    obtain s' where "get_ysf_record [t0] data 30 s = ([t0], memcpy data 30 b0, s')" "conv_holds s' rest df"
      using get_ysf_holds [of s t0 b0 rest df "[t0]" 30 data] assms(1,2) by (auto simp: Cons f)
    then show ?thesis
      using False assms(3) n pk by (auto simp: getYSF_def read_ysf_def Cons f Let_def)
  next
    case data: True
    show ?thesis
    proof (cases "5 \<le> length yf")
      case False
      then show ?thesis using data assms n pk by (auto simp: getYSF_def read_ysf_def Cons f Let_def)
    next
      case True
      then obtain f1 f2 f3 f4 fs where yf: "yf = (t0, b0) # f1 # f2 # f3 # f4 # fs"
        by (auto simp: Cons f Suc_le_length_iff numeral_eq_Suc)
      have l: "length (snd f1) = 13" "length (snd f2) = 13" "length (snd f3) = 13" "length (snd f4) = 13"
        using assms(1) by (auto simp: conv_holds_def ring_holds_def yf split_def)
      have c: "conv_holds s ((t0, b0) # (fst f1, snd f1) # (fst f2, snd f2) # (fst f3, snd f3) # (fst f4, snd f4) # fs) df"
        using assms(1) by (simp add: yf)
      obtain s1 where s1: "get_ysf_record [t0] data 35 s = ([t0], memcpy data 35 b0, s1)"
        "conv_holds s1 ((fst f1, snd f1) # (fst f2, snd f2) # (fst f3, snd f3) # (fst f4, snd f4) # fs) df"
        using get_ysf_holds [OF c, of "[t0]" 35 data] assms(2) by auto
      let ?d1 = "memcpy data 35 b0"
      obtain s2 where s2: "get_ysf_record [t0] ?d1 53 s1 = ([fst f1], memcpy ?d1 53 (snd f1), s2)"
        "conv_holds s2 ((fst f2, snd f2) # (fst f3, snd f3) # (fst f4, snd f4) # fs) df"
        using get_ysf_holds [OF s1(2), of "[t0]" 53 ?d1] assms(2) b0 by auto
      let ?d2 = "memcpy ?d1 53 (snd f1)"
      obtain s3 where s3: "get_ysf_record [fst f1] ?d2 71 s2 = ([fst f2], memcpy ?d2 71 (snd f2), s3)"
        "conv_holds s3 ((fst f3, snd f3) # (fst f4, snd f4) # fs) df"
        using get_ysf_holds [OF s2(2), of "[fst f1]" 71 ?d2] assms(2) b0 l by auto
      let ?d3 = "memcpy ?d2 71 (snd f2)"
      obtain s4 where s4: "get_ysf_record [fst f2] ?d3 89 s3 = ([fst f3], memcpy ?d3 89 (snd f3), s4)"
        "conv_holds s4 ((fst f4, snd f4) # fs) df"
        using get_ysf_holds [OF s3(2), of "[fst f2]" 89 ?d3] assms(2) b0 l by auto
      let ?d4 = "memcpy ?d3 89 (snd f3)"
      obtain s5 where s5: "get_ysf_record [fst f3] ?d4 107 s4 = ([fst f4], memcpy ?d4 107 (snd f4), s5)"
        "conv_holds s5 fs df"
        using get_ysf_holds [OF s4(2), of "[fst f3]" 107 ?d4] assms(2) b0 l by auto
      have "read_ysf data yf = (TAG_DATA, memcpy ?d4 107 (snd f4), fs)"
        by (simp add: read_ysf_def yf data ysf_frame_def numeral_eq_Suc)
      moreover have "getYSF data s = (TAG_DATA, memcpy ?d4 107 (snd f4), s5)"
        using n pk data by (simp add: getYSF_def yf Let_def s1 [unfolded data] s2 [unfolded data] s3 s4 s5 flip: One_nat_def)
      ultimately show ?thesis using s5(2) assms(3) by auto
    qed
  qed
qed

lemma getDMR_reads:
  assumes "conv_holds s yf df" "length data = 33" "length junk = 9" "read_dmr data df = (t, data', df')"
  shows "\<exists>s'. getDMR junk data s = (t, data', s') \<and> conv_holds s' yf df'"
proof (cases df)
  case Nil
  then show ?thesis using assms count_tests [OF assms(1)] by (auto simp: getDMR_def read_dmr_def)
next
  case (Cons f rest)
  obtain t0 b0 where f: "f = (t0, b0)" by (cases f)
  have b0: "length b0 = 9" using assms(1) by (auto simp: conv_holds_def ring_holds_def Cons f)
  note n = count_tests [OF assms(1)]
  have pk: "peek [TAG_NODATA] 0 1 (m_DMR s) = (True, [t0])"
    using assms(1) peek_holds [of 9 "m_DMR s" t0 b0 rest "[TAG_NODATA]"] by (simp add: conv_holds_def Cons f)
  show ?thesis
  proof (cases "t0 = TAG_DATA")
    case False
    obtain s' where "get_dmr_record [t0] data 0 s = ([t0], memcpy data 0 b0, s')" "conv_holds s' yf rest"
      using get_dmr_holds [of s yf t0 b0 rest "[t0]" 0 data] assms(1,2) by (auto simp: Cons f)
    then show ?thesis
      using False assms(4) n pk by (auto simp: getDMR_def read_dmr_def Cons f Let_def)
  next
    case data: True
    show ?thesis
    proof (cases "3 \<le> length df")
      case False
      then show ?thesis using data assms n pk by (auto simp: getDMR_def read_dmr_def Cons f Let_def)
    next
      case True
      then obtain f1 f2 fs where df: "df = (t0, b0) # f1 # f2 # fs"
        by (auto simp: Cons f Suc_le_length_iff numeral_eq_Suc)
      have l: "length (snd f1) = 9" "length (snd f2) = 9"
        using assms(1) by (auto simp: conv_holds_def ring_holds_def df split_def)
      have c: "conv_holds s yf ((t0, b0) # (fst f1, snd f1) # (fst f2, snd f2) # fs)"
        using assms(1) by (simp add: df)
      obtain s1 where s1: "get_dmr_record [t0] data 0 s = ([t0], memcpy data 0 b0, s1)"
        "conv_holds s1 yf ((fst f1, snd f1) # (fst f2, snd f2) # fs)"
        using get_dmr_holds [OF c, of "[t0]" 0 data] assms(2) by auto
      obtain s2 where s2: "get_dmr_record [t0] junk 0 s1 = ([fst f1], snd f1, s2)"
        "conv_holds s2 yf ((fst f2, snd f2) # fs)"
        using get_dmr_holds [OF s1(2), of "[t0]" 0 junk] assms(3) l by auto
      define d where "d = memcpy ((memcpy (memcpy data 0 b0) 9 (take 4 (snd f1)))
        [13 := snd f1 ! 4 AND 0xF0, 19 := snd f1 ! 4 AND 0x0F]) 20 (sub_buf (snd f1) 5 4)"
      have d: "length d = 33" using assms(2) b0 l by (simp add: d_def)
      obtain s3 where s3: "get_dmr_record [fst f1] d 24 s2 = ([fst f2], memcpy d 24 (snd f2), s3)"
        "conv_holds s3 yf fs"
        using get_dmr_holds [OF s2(2), of "[fst f1]" 24 d] d by auto
      have "read_dmr data df = (TAG_DATA, memcpy d 24 (snd f2), fs)"
        by (simp add: read_dmr_def df data dmr_burst_def d_def Let_def numeral_eq_Suc)
      moreover have "getDMR junk data s = (TAG_DATA, memcpy d 24 (snd f2), s3)"
        using n pk data s3(1) by (simp add: getDMR_def df Let_def s1 [unfolded data] s2 [unfolded data] d_def flip: One_nat_def)
      ultimately show ?thesis using s3(2) assms(4) by auto
    qed
  qed
qed

section \<open>What the write operations append\<close>

text \<open>The channel frame of a raw AMBE frame on either side.\<close>

definition ysf_record :: "bytes \<Rightarrow> u8 \<times> bytes" where
  "ysf_record v = (let (a, b, c) = ambe7ToABC v in (TAG_DATA, ysf_voice a b c))"

definition dmr_record :: "bytes \<Rightarrow> bytes \<Rightarrow> u8 \<times> bytes" where
  "dmr_record junk v = (let (a, b, c) = ambe7ToABC v in (TAG_DATA, dmr_voice junk a b c))"

lemma strip_golay:
  assumes "unat a < 4096" "unat b < 4096"
  shows "putAMBE2YSF (CGolay24128_encode24128 a)
     (drop_bit 1 (CGolay24128_encode23127 b) XOR drop_bit 1 (PRNG_TABLE ! unat a)) c
   = put_ysf_record TAG_DATA (ysf_voice a b c)"
  unfolding putAMBE2YSF_def Let_def cgolay_word(1) [OF assms(1)]
  by (simp only: xor.assoc xor_self_eq xor.right_neutral cgolay_word(3) [OF assms(2)])

lemma putAMBE7YSF_record:
  assumes "length v = 7"
  shows "putAMBE7YSF v s = (let (t, b) = ysf_record v in put_ysf_record t b s)"
proof -
  obtain a b c where abc: "ambe7ToABC v = (a, b, c)" by (cases "ambe7ToABC v")
  then have "unat a < 4096" "unat b < 4096" using ambe7_fields [OF assms] by (simp_all add: ambe_ok_def)
  then show ?thesis
    unfolding putAMBE7YSF_def abc Let_def prod.case ysf_record_def by (simp only: strip_golay Let_def abc prod.case)
qed

lemma putAMBE7_record: "putAMBE7 junk v s = (let (t, b) = dmr_record junk v in put_dmr_record t b s)"
  by (simp add: putAMBE7_def putAMBE2DMR_def dmr_record_def Let_def split: prod.splits)

lemma length_ysf_record [simp]: "length (snd (ysf_record v)) = 13"
  by (simp add: ysf_record_def Let_def split_def ysf_voice_bits(1))

lemma length_dmr_record [simp]: "length junk = 9 \<Longrightarrow> length (snd (dmr_record junk v)) = 9"
  by (simp add: dmr_record_def Let_def split_def dmr_voice_bits(1))

lemma putAMBE7YSF_all:
  "\<forall>v \<in> set vs. length v = 7 \<Longrightarrow> fold putAMBE7YSF vs s = fold (\<lambda>(t, b). put_ysf_record t b) (map ysf_record vs) s"
  by (induction vs arbitrary: s) (auto simp: putAMBE7YSF_record Let_def split_def)

lemma putAMBE7_all: "fold (putAMBE7 junk) vs s = fold (\<lambda>(t, b). put_dmr_record t b) (map (dmr_record junk) vs) s"
  by (induction vs arbitrary: s) (auto simp: putAMBE7_record Let_def split_def)

section \<open>A burst and its raw frames\<close>

lemma mask_bits:
  "bit (0xFF :: u32) k \<longleftrightarrow> k < 8" "bit (0x0F :: u32) k \<longleftrightarrow> k < 4" "bit (0x80 :: u32) k \<longleftrightarrow> k = 7"
proof -
  show "bit (0xFF :: u32) k \<longleftrightarrow> k < 8" "bit (0x0F :: u32) k \<longleftrightarrow> k < 4"
    using bit_mask_iff [where 'a = u32, of 8 k] bit_mask_iff [where 'a = u32, of 4 k]
    by (auto simp: mask_eq_exp_minus_1 possible_bit_def)
  show "bit (0x80 :: u32) k \<longleftrightarrow> k = 7"
    using bit_exp_iff [where 'a = u32, of 7 k] by (auto simp: possible_bit_def)
qed

lemma ambe_ok_bits: "ambe_ok a b c \<Longrightarrow> (bit a k \<longrightarrow> k < 12) \<and> (bit b k \<longrightarrow> k < 12) \<and> (bit c k \<longrightarrow> k < 25)"
proof -
  have "bit w k \<longrightarrow> k < n" if "unat w < 2 ^ n" for w :: u32 and n
  proof -
    have "drop_bit n w = 0" using that by (simp only: below_iff_drop_bit)
    then have "\<not> bit (drop_bit n w) (k - n)" by simp
    then show ?thesis by (cases "n \<le> k") (auto simp: bit_drop_bit_eq)
  qed
  then show "ambe_ok a b c \<Longrightarrow> (bit a k \<longrightarrow> k < 12) \<and> (bit b k \<longrightarrow> k < 12) \<and> (bit c k \<longrightarrow> k < 25)"
    by (force simp: ambe_ok_def)
qed

lemma abc_of_ambe7:
  assumes "ambe_ok a b c"
  shows "length (abcToAMBE7 a b c) = 7" "ambe7ToABC (abcToAMBE7 a b c) = (a, b, c)"
proof -
  have ok: "bit a k \<Longrightarrow> k < 12" "bit b k \<Longrightarrow> k < 12" "bit c k \<Longrightarrow> k < 25" for k
    using ambe_ok_bits [OF assms] by auto
  let ?v = "abcToAMBE7 a b c"
  have nth: "?v ! 0 = ucast (drop_bit 4 a AND 0xFF)" "?v ! 1 = ucast (push_bit 4 (a AND 0x0F) OR (drop_bit 8 b AND 0x0F))"
    "?v ! 2 = ucast (b AND 0xFF)" "?v ! 3 = ucast (drop_bit 17 c AND 0xFF)" "?v ! 4 = ucast (drop_bit 9 c AND 0xFF)"
    "?v ! 5 = ucast (drop_bit 1 c AND 0xFF)" "?v ! 6 = ucast (push_bit 7 c AND 0x80)"
    by (simp_all only: abcToAMBE7_def) simp_all
  note bits = bit_or_iff bit_and_iff bit_push_bit_iff bit_drop_bit_eq bit_ucast_iff o_apply mask_bits
  have a: "push_bit 4 (ucast (?v ! 0)) OR drop_bit 4 (ucast (?v ! 1)) = a"
    unfolding nth by (rule bit_word_eqI, simp only: bits) (auto simp: possible_bit_def dest: ok)
  have b: "push_bit 8 (ucast (?v ! 1) AND 0x0F) OR ucast (?v ! 2) = b"
    unfolding nth by (rule bit_word_eqI, simp only: bits) (auto simp: possible_bit_def dest: ok)
  have mid: "bit (push_bit k (ucast (?v ! i)) :: u32) n \<longleftrightarrow> k \<le> n \<and> n < k + 8 \<and> n < 32 \<and> bit c n"
    if "?v ! i = ucast (drop_bit k c AND 0xFF)" for k i n
    unfolding that by (simp only: bits) (auto simp: possible_bit_def)
  have low: "bit (drop_bit 7 (ucast (?v ! 6)) :: u32) n \<longleftrightarrow> n = 0 \<and> bit c 0" for n
    unfolding nth by (simp only: bits) (auto simp: possible_bit_def)
  have c: "push_bit 17 (ucast (?v ! 3)) OR push_bit 9 (ucast (?v ! 4)) OR push_bit 1 (ucast (?v ! 5)) OR drop_bit 7 (ucast (?v ! 6)) = c"
    (is "?w = c")
  proof (rule bit_word_eqI)
    fix n :: nat
    consider "n = 0" | "1 \<le> n" "n < 9" | "9 \<le> n" "n < 17" | "17 \<le> n" "n < 25" | "25 \<le> n" by linarith
    then show "bit ?w n \<longleftrightarrow> bit c n"
      unfolding bit_or_iff mid [OF nth(4)] mid [OF nth(5)] mid [OF nth(6)] low
      using ok(3) [of n] by cases auto
  qed
  show "ambe7ToABC (abcToAMBE7 a b c) = (a, b, c)" by (simp only: ambe7ToABC_def a b c)
qed (simp add: abcToAMBE7_def)

lemma dmr_fields_less:
  assumes "dmr_fields b tab N (2 ^ (N - Suc 0)) = (x1, x2, x3)" "length tab = N" "N \<le> 32"
  shows "unat x1 < 2 ^ N" "unat x2 < 2 ^ N" "unat x3 < 2 ^ N"
  using assms(1) unfolding dmr_fields_bits [OF assms(2,3)] using assms(2,3) by (auto intro!: msb_word_less)

lemma xor_less: "unat x < 2 ^ n \<Longrightarrow> unat y < 2 ^ n \<Longrightarrow> unat (x XOR y :: u32) < 2 ^ n"
  by (simp only: below_iff_drop_bit drop_bit_xor) simp

lemma drop_less: "unat (x :: u32) < 2 ^ (k + n) \<Longrightarrow> unat (drop_bit k x) < 2 ^ n"
  by (simp only: below_iff_drop_bit drop_bit_drop_bit add.commute)

lemma putAMBE2YSF_again:
  assumes "unat a < 2 ^ 24" "unat b < 2 ^ 23" "unat c < 2 ^ 25"
  defines "x \<equiv> drop_bit 12 a"
  defines "y \<equiv> drop_bit 11 (b XOR drop_bit 1 (PRNG_TABLE ! unat x))"
  shows "putAMBE2YSF a b c s = putAMBE7YSF (abcToAMBE7 x y c) s" "length (abcToAMBE7 x y c) = 7"
proof -
  have x: "unat x < 2 ^ 12" using assms(1) by (simp only: x_def) (rule drop_less, simp)
  then have "unat (drop_bit 1 (PRNG_TABLE ! unat x)) < 2 ^ 23" by (intro prng_word) simp
  then have "unat (b XOR drop_bit 1 (PRNG_TABLE ! unat x)) < 2 ^ 23" by (rule xor_less [OF assms(2)])
  then have y: "unat y < 2 ^ 12" by (simp only: y_def) (rule drop_less, simp)
  have ok: "ambe_ok x y c" using x y assms(3) by (simp add: ambe_ok_def)
  show l: "length (abcToAMBE7 x y c) = 7" by (rule abc_of_ambe7 [OF ok])
  show "putAMBE2YSF a b c s = putAMBE7YSF (abcToAMBE7 x y c) s"
    unfolding putAMBE7YSF_record [OF l] ysf_record_def abc_of_ambe7(2) [OF ok] Let_def prod.case putAMBE2YSF_def
    by (simp only: x_def y_def)
qed

lemma putDMR_frames: "putDMR b s = fold putAMBE7YSF (dmr33ToAMBE b) s"
  "\<forall>v \<in> set (dmr33ToAMBE b). length v = 7" "length (dmr33ToAMBE b) = 3"
proof -
  obtain a1 a2 a3 where a: "dmr_fields b DMR_A_TABLE 24 0x800000 = (a1, a2, a3)" by (rule prod_cases3)
  obtain b1 b2 b3 where b: "dmr_fields b DMR_B_TABLE 23 0x400000 = (b1, b2, b3)" by (rule prod_cases3)
  obtain c1 c2 c3 where c: "dmr_fields b DMR_C_TABLE 25 0x1000000 = (c1, c2, c3)" by (rule prod_cases3)
  have la: "unat a1 < 2 ^ 24" "unat a2 < 2 ^ 24" "unat a3 < 2 ^ 24"
    using dmr_fields_less [of b DMR_A_TABLE 24] a dmr_tables by auto
  have lb: "unat b1 < 2 ^ 23" "unat b2 < 2 ^ 23" "unat b3 < 2 ^ 23"
    using dmr_fields_less [of b DMR_B_TABLE 23] b dmr_tables by auto
  have lc: "unat c1 < 2 ^ 25" "unat c2 < 2 ^ 25" "unat c3 < 2 ^ 25"
    using dmr_fields_less [of b DMR_C_TABLE 25] c dmr_tables by auto
  note again = putAMBE2YSF_again [OF la(1) lb(1) lc(1)] putAMBE2YSF_again [OF la(2) lb(2) lc(2)]
    putAMBE2YSF_again [OF la(3) lb(3) lc(3)]
  show "putDMR b s = fold putAMBE7YSF (dmr33ToAMBE b) s"
    unfolding putDMR_def dmr33ToAMBE_def a b c Let_def prod.case again by simp
  show "\<forall>v \<in> set (dmr33ToAMBE b). length v = 7"
    unfolding dmr33ToAMBE_def a b c Let_def prod.case by (simp add: abcToAMBE7_def)
  show "length (dmr33ToAMBE b) = 3" by (simp add: dmr33ToAMBE_def Let_def split_def)
qed

end
