(* ===== verification/Mode_Conv_Props.thy ===== *)
theory Mode_Conv_Props
  imports Mode_Conv_Queues
begin

text \<open>
  The properties of the frame converter: it refines a pair of queues of tagged frames, a raw AMBE
  frame crosses either network unchanged, a DMR burst is carried by its raw frames, and where the
  end of a transmission goes.
\<close>

section \<open>Refinement\<close>

datatype conv_op = Dmr_voice bytes | Dmr_header | Dmr_eot | Ysf_payload bytes | Ysf_dummy
  | Ysf_header | Ysf_eot | Ambe bytes | Ambe_ysf bytes

definition conv_step :: "bytes \<Rightarrow> bytes \<Rightarrow> conv_op \<Rightarrow> mode_conv \<Rightarrow> mode_conv" where
  "conv_step jv jd x =
     (case x of Dmr_voice b \<Rightarrow> putDMR b | Dmr_header \<Rightarrow> putDMRHeader | Dmr_eot \<Rightarrow> putDMREOT
      | Ysf_payload d \<Rightarrow> putYSF jv jd d | Ysf_dummy \<Rightarrow> putDummyYSF | Ysf_header \<Rightarrow> putYSFHeader
      | Ysf_eot \<Rightarrow> putYSFEOT | Ambe v \<Rightarrow> putAMBE7 jd v | Ambe_ysf v \<Rightarrow> putAMBE7YSF v)"

definition payload_records :: "bytes \<Rightarrow> bytes \<Rightarrow> bytes \<Rightarrow> record_queue" where
  "payload_records jv jd d =
     map (\<lambda>j. let (a, b, c) = ysf_fields jv (drop 30 d) (40 + 144 * j) in (TAG_DATA, dmr_voice jd a b c)) [0..<5]"

definition conv_adds :: "bytes \<Rightarrow> bytes \<Rightarrow> conv_op \<Rightarrow> nat \<Rightarrow> nat \<Rightarrow> record_queue \<times> record_queue" where
  "conv_adds jv jd x ny nd =
     (case x of Dmr_voice b \<Rightarrow> (map ysf_record (dmr33ToAMBE b), [])
      | Dmr_header \<Rightarrow> ([(TAG_HEADER, replicate 13 0)], [])
      | Dmr_eot \<Rightarrow> (replicate (5 - ny mod 5) (TAG_DATA, YSF_SILENCE) @ [(TAG_EOT, replicate 13 0)], [])
      | Ysf_payload d \<Rightarrow> ([], payload_records jv jd d)
      | Ysf_dummy \<Rightarrow> ([], replicate 5 (TAG_DATA, DMR_SILENCE))
      | Ysf_header \<Rightarrow> ([], [(TAG_HEADER, replicate 9 0)])
      | Ysf_eot \<Rightarrow> ([], replicate (3 - nd mod 3) (TAG_DATA, DMR_SILENCE) @ [(TAG_EOT, replicate 9 0)])
      | Ambe v \<Rightarrow> ([], [dmr_record jd v])
      | Ambe_ysf v \<Rightarrow> ([ysf_record v], []))"

lemma fold_const: "fold (\<lambda>i. put_ysf_record t b) [0..<n] s = fold (\<lambda>(t, b). put_ysf_record t b) (replicate n (t, b)) s"
  "fold (\<lambda>i. put_dmr_record t b) [0..<n] s = fold (\<lambda>(t, b). put_dmr_record t b) (replicate n (t, b)) s"
  by (induction n) (simp_all add: replicate_append_same [symmetric] del: replicate_append_same)

lemma length_silence [simp]: "length YSF_SILENCE = 13" "length DMR_SILENCE = 9"
  by (simp_all add: YSF_SILENCE_def DMR_SILENCE_def)

lemma fill_count:
  assumes "conv_holds s yf df"
  shows "unat (5 - m_ysfN s mod 5) = 5 - length yf mod 5" "unat (3 - m_dmrN s mod 3) = 3 - length df mod 3"
proof -
  note n = conv_holds_counts [OF assms]
  have "m_ysfN s mod 5 \<le> 5" "m_dmrN s mod 3 \<le> 3"
    by (simp_all add: word_le_nat_alt unat_mod n)
  then show "unat (5 - m_ysfN s mod 5) = 5 - length yf mod 5" "unat (3 - m_dmrN s mod 3) = 3 - length df mod 3"
    using n by (simp_all add: unat_sub unat_mod)
qed

lemma putDMREOT_records:
  "conv_holds s yf df \<Longrightarrow> putDMREOT s =
    fold (\<lambda>(t, b). put_ysf_record t b) (replicate (5 - length yf mod 5) (TAG_DATA, YSF_SILENCE) @ [(TAG_EOT, replicate 13 0)]) s"
  by (simp only: putDMREOT_def Let_def fill_count fold_const) simp

lemma putYSFEOT_records:
  "conv_holds s yf df \<Longrightarrow> putYSFEOT s =
    fold (\<lambda>(t, b). put_dmr_record t b) (replicate (3 - length df mod 3) (TAG_DATA, DMR_SILENCE) @ [(TAG_EOT, replicate 9 0)]) s"
  by (simp only: putYSFEOT_def Let_def fill_count fold_const) simp

lemma putYSF_records: "putYSF jv jd d s = fold (\<lambda>(t, b). put_dmr_record t b) (payload_records jv jd d) s"
  by (simp add: putYSF_def payload_records_def Let_def putAMBE2DMR_def fold_map split_def comp_def)

lemma putDummyYSF_records: "putDummyYSF s = fold (\<lambda>(t, b). put_dmr_record t b) (replicate 5 (TAG_DATA, DMR_SILENCE)) s"
  by (simp only: putDummyYSF_def fold_const)

lemma putDMR_records: "putDMR b s = fold (\<lambda>(t, b). put_ysf_record t b) (map ysf_record (dmr33ToAMBE b)) s"
  using putDMR_frames [of b] by (simp add: putAMBE7YSF_all)

lemmas put_records = putDMR_records putDMREOT_records putYSF_records putDummyYSF_records putYSFEOT_records
  putDMRHeader_def putYSFHeader_def putAMBE7_record

lemma conv_step_records:
  assumes "conv_holds s yf df" "\<forall>v. x = Ambe_ysf v \<longrightarrow> length v = 7"
  shows "conv_step jv jd x s = fold (\<lambda>(t, b). put_dmr_record t b) (snd (conv_adds jv jd x (length yf) (length df)))
    (fold (\<lambda>(t, b). put_ysf_record t b) (fst (conv_adds jv jd x (length yf) (length df))) s)"
  using assms put_records(2) [OF assms(1)] put_records(5) [OF assms(1)]
  by (cases x) (simp_all add: conv_step_def conv_adds_def putDMR_records putYSF_records putDummyYSF_records
      putDMRHeader_def putYSFHeader_def putAMBE7_record putAMBE7YSF_record Let_def split_def)

lemma conv_adds_sizes:
  assumes "length jd = 9"
  shows "\<forall>(t, b) \<in> set (fst (conv_adds jv jd x ny nd)). length b = 13"
    "\<forall>(t, b) \<in> set (snd (conv_adds jv jd x ny nd)). length b = 9"
    "length (fst (conv_adds jv jd x ny nd)) \<le> 6" "length (snd (conv_adds jv jd x ny nd)) \<le> 5"
  using assms putDMR_frames(3)
  by (cases x; auto simp: conv_adds_def payload_records_def split_def Let_def dmr_voice_bits(1))+

text \<open>C9: The frame converter refines a pair of queues. While its two circular buffers have room, every
  write operation appends to the queue of its side the frames that the abstract converter appends (the
  two other queues are kept), the fill of an end of transmission included, and the two read operations
  return the tag and the frame, and leave the queue, that the abstract ones do.\<close>
theorem modeconv_two_queues:
  assumes "conv_holds s yf df" "length yf \<le> 350" "length df \<le> 490" "length jd = 9"
    "\<forall>v. x = Ambe_ysf v \<longrightarrow> length v = 7"
    "length d120 = 120" "length d33 = 33" "length junk = 9"
    "read_ysf d120 yf = (ty, dy, yf')" "read_dmr d33 df = (td, dd, df')"
  shows "conv_holds (conv_step jv jd x s) (yf @ fst (conv_adds jv jd x (length yf) (length df)))
      (df @ snd (conv_adds jv jd x (length yf) (length df)))
    \<and> (\<exists>s'. getYSF d120 s = (ty, dy, s') \<and> conv_holds s' yf' df)
    \<and> (\<exists>s'. getDMR junk d33 s = (td, dd, s') \<and> conv_holds s' yf df')"
proof (intro conjI)
  note sz = conv_adds_sizes [OF assms(4), of jv x "length yf" "length df"]
  show "conv_holds (conv_step jv jd x s) (yf @ fst (conv_adds jv jd x (length yf) (length df)))
      (df @ snd (conv_adds jv jd x (length yf) (length df)))"
    unfolding conv_step_records [OF assms(1,5)]
    by (intro put_dmr_holds_all put_ysf_holds_all) (use assms sz in auto)
  show "\<exists>s'. getYSF d120 s = (ty, dy, s') \<and> conv_holds s' yf' df"
    by (rule getYSF_reads [OF assms(1,6,9)])
  show "\<exists>s'. getDMR junk d33 s = (td, dd, s') \<and> conv_holds s' yf df'"
    by (rule getDMR_reads [OF assms(1,7,8,10)])
qed

theorem modeconv_two_queues_witness:
  "conv_holds (conv_step [] (replicate 9 0) Dmr_header CModeConv) [(TAG_HEADER, replicate 13 0)] []"
  using modeconv_two_queues [OF conv_holds_new, of "replicate 9 0" Dmr_header "replicate 120 0" "replicate 33 0"
      "replicate 9 0" _ _ _ _ _ _ "[]"]
  by (simp add: conv_adds_def read_ysf_def read_dmr_def)

section \<open>Across the networks\<close>

lemma dmr_record_air:
  assumes "length jd = 9" "length v = 7"
  shows "\<exists>a b c. ambe_ok a b c \<and> abcToAMBE7 a b c = v[6 := v ! 6 AND 0x80]
    \<and> dmr_record jd v = (TAG_DATA, dmr_voice jd a b c) \<and> length (dmr_voice jd a b c) = 9
    \<and> gather_bits dmr_positions (bits_of (dmr_voice jd a b c)) = dmr_air a b c"
proof -
  obtain a b c where "ambe7ToABC v = (a, b, c)" by (rule prod_cases3)
  then show ?thesis using ambe7_fields [OF assms(2)] dmr_voice_bits [OF assms(1)]
    by (intro exI [of _ a] exI [of _ b] exI [of _ c]) (simp add: dmr_record_def)
qed

lemma dmr_burst_middle:
  assumes "length data = 33" "length v1 = 9" "length v2 = 9" "length v3 = 9"
  shows "sub_buf (dmr_burst data v1 v2 v3) 14 5 = sub_buf data 14 5"
  by (rule nth_equalityI) (use assms in \<open>simp_all add: nth_dmr_burst\<close>)

text \<open>C28: Raw AMBE frames survive the way over DMR: three frames put into an empty queue come out as one
  voice burst from which the re-encoder reads the same three frames (the 49 bits of each: the last byte
  carries one), the five bytes of the burst's centre, which hold the sync or embedded signallingare
  left as the caller gave them, and the queue is empty again.\<close>
theorem ambe_through_dmr:
  assumes "conv_holds s yf []" "length v1 = 7" "length v2 = 7" "length v3 = 7" "length jd = 9"
    "length data = 33" "length junk = 9"
  shows "\<exists>d s'. getDMR junk data (fold (putAMBE7 jd) [v1, v2, v3] s) = (TAG_DATA, d, s') \<and> conv_holds s' yf []
    \<and> dmr33ToAMBE d = map (\<lambda>v. v[6 := v ! 6 AND 0x80]) [v1, v2, v3] \<and> sub_buf d 14 5 = sub_buf data 14 5"
proof -
  obtain a1 b1 c1 where 1: "ambe_ok a1 b1 c1" "abcToAMBE7 a1 b1 c1 = v1[6 := v1 ! 6 AND 0x80]"
    "dmr_record jd v1 = (TAG_DATA, dmr_voice jd a1 b1 c1)" "length (dmr_voice jd a1 b1 c1) = 9"
    "gather_bits dmr_positions (bits_of (dmr_voice jd a1 b1 c1)) = dmr_air a1 b1 c1"
    using dmr_record_air [OF assms(5,2)] by blast
  obtain a2 b2 c2 where 2: "ambe_ok a2 b2 c2" "abcToAMBE7 a2 b2 c2 = v2[6 := v2 ! 6 AND 0x80]"
    "dmr_record jd v2 = (TAG_DATA, dmr_voice jd a2 b2 c2)" "length (dmr_voice jd a2 b2 c2) = 9"
    "gather_bits dmr_positions (bits_of (dmr_voice jd a2 b2 c2)) = dmr_air a2 b2 c2"
    using dmr_record_air [OF assms(5,3)] by blast
  obtain a3 b3 c3 where 3: "ambe_ok a3 b3 c3" "abcToAMBE7 a3 b3 c3 = v3[6 := v3 ! 6 AND 0x80]"
    "dmr_record jd v3 = (TAG_DATA, dmr_voice jd a3 b3 c3)" "length (dmr_voice jd a3 b3 c3) = 9"
    "gather_bits dmr_positions (bits_of (dmr_voice jd a3 b3 c3)) = dmr_air a3 b3 c3"
    using dmr_record_air [OF assms(5,4)] by blast
  let ?fs = "map (dmr_record jd) [v1, v2, v3]"
  let ?d = "dmr_burst data (dmr_voice jd a1 b1 c1) (dmr_voice jd a2 b2 c2) (dmr_voice jd a3 b3 c3)"
  have "conv_holds (fold (putAMBE7 jd) [v1, v2, v3] s) yf ([] @ ?fs)"
    unfolding putAMBE7_all using assms by (intro put_dmr_holds_all) (auto simp: 1 2 3)
  moreover have "read_dmr data ([] @ ?fs) = (TAG_DATA, ?d, [])" by (simp add: read_dmr_def 1 2 3)
  ultimately obtain s' where "getDMR junk data (fold (putAMBE7 jd) [v1, v2, v3] s) = (TAG_DATA, ?d, s')" "conv_holds s' yf []"
    using getDMR_reads [OF _ assms(6,7)] by blast
  moreover have "dmr33ToAMBE ?d = map (\<lambda>v. v[6 := v ! 6 AND 0x80]) [v1, v2, v3]"
    unfolding dmr33_burst [OF assms(6) 1(4) 2(4) 3(4) 1(1) 2(1) 3(1) 1(5) 2(5) 3(5)] by (simp add: 1 2 3)
  moreover have "sub_buf ?d 14 5 = sub_buf data 14 5" by (rule dmr_burst_middle [OF assms(6) 1(4) 2(4) 3(4)])
  ultimately show ?thesis by blast
qed

theorem ambe_through_dmr_witness:
  "\<exists>d s'. getDMR (replicate 9 0) (replicate 33 0)
      (fold (putAMBE7 (replicate 9 0)) [[1, 2, 3, 4, 5, 6, 0x80], [7, 8, 9, 10, 11, 12, 0], [0, 1, 0, 1, 0, 1, 0xFF]] CModeConv)
      = (TAG_DATA, d, s')
    \<and> dmr33ToAMBE d = [[1, 2, 3, 4, 5, 6, 0x80], [7, 8, 9, 10, 11, 12, 0], [0, 1, 0, 1, 0, 1, 0x80]]"
  using ambe_through_dmr [OF conv_holds_new, of "[1, 2, 3, 4, 5, 6, 0x80]" "[7, 8, 9, 10, 11, 12, 0]"
      "[0, 1, 0, 1, 0, 1, 0xFF]" "replicate 9 0" "replicate 33 0" "replicate 9 0"] by fastforce

lemma ysf_frame_channels:
  assumes "length data = 120" "length vs = 5" "\<forall>v \<in> set vs. length v = 13" "j < 5"
  shows "length (ysf_frame data vs) = 120" "sub_buf (ysf_frame data vs) (35 + 18 * j) 13 = vs ! j"
proof -
  obtain v0 v1 v2 v3 v4 where vs: "vs = [v0, v1, v2, v3, v4]"
    using assms(2) by (auto simp: numeral_eq_Suc length_Suc_conv)
  have j: "j = 0 \<or> j = 1 \<or> j = 2 \<or> j = 3 \<or> j = 4" using assms(4) by arith
  show "length (ysf_frame data vs) = 120" using assms by (simp add: ysf_frame_def vs)
  show "sub_buf (ysf_frame data vs) (35 + 18 * j) 13 = vs ! j"
    using j by (elim disjE; use assms in \<open>simp add: ysf_frame_def vs sub_buf_memcpy_other flip: One_nat_def\<close>)
qed

lemma sub_buf_drop: "sub_buf (drop k d) i n = sub_buf d (k + i) n"
  by (simp add: sub_buf_def add.commute)

lemma payload_of_frame:
  assumes "length data = 120" "length vs = 5" "\<forall>v \<in> set vs. length v = 7" "length jv = 13"
  shows "payload_records jv jd (ysf_frame data (map (\<lambda>v. snd (ysf_record v)) vs)) = map (dmr_record jd) vs"
proof (rule nth_equalityI)
  let ?us = "map (\<lambda>v. snd (ysf_record v)) vs"
  let ?d = "ysf_frame data ?us"
  fix j assume "j < length (payload_records jv jd ?d)"
  then have j: "j < 5" by (simp add: payload_records_def)
  obtain a b c where abc: "ambe7ToABC (vs ! j) = (a, b, c)" by (rule prod_cases3)
  have l: "length ?us = 5" "\<forall>v \<in> set ?us. length v = 13" using assms(2) by auto
  have ok: "ambe_ok a b c" using ambe7_fields(1) [OF _ abc] assms(2,3) j by simp
  have "sub_buf (drop 30 ?d) (5 + 18 * j) 13 = ysf_voice a b c"
    using ysf_frame_channels(2) [OF assms(1) l j] assms(2) j by (simp add: sub_buf_drop ysf_record_def abc)
  then have "ysf_fields jv (drop 30 ?d) (8 * (5 + 18 * j)) = (a, b, c)"
    using ysf_frame_channels(1) [OF assms(1) l j] j by (intro ysf_fields_voice [OF assms(4) ok]) simp_all
  then show "payload_records jv jd ?d ! j = map (dmr_record jd) vs ! j"
    using assms(2) j by (simp add: payload_records_def dmr_record_def abc algebra_simps)
qed (simp add: payload_records_def assms(2))

text \<open>C29: Raw AMBE frames survive the way over YSF: five frames put into an empty queue come out as one
  frame of mode V/D 2, and giving that frame to the converter has the effect of giving it the five raw
  frames for DMR: every bit of them is recovered, through the repetition, whitening and interleaving of
  the voice channels.\<close>
theorem ambe_through_ysf:
  assumes "conv_holds s [] df" "length vs = 5" "\<forall>v \<in> set vs. length v = 7" "length data = 120"
    "length jv = 13"
  shows "\<exists>d s'. getYSF data (fold putAMBE7YSF vs s) = (TAG_DATA, d, s') \<and> conv_holds s' [] df
    \<and> (\<forall>s2. putYSF jv jd d s2 = fold (putAMBE7 jd) vs s2)"
proof -
  let ?fs = "map ysf_record vs" and ?d = "ysf_frame data (map (\<lambda>v. snd (ysf_record v)) vs)"
  obtain v0 v1 v2 v3 v4 where vs: "vs = [v0, v1, v2, v3, v4]"
    using assms(2) by (auto simp: numeral_eq_Suc length_Suc_conv)
  have tags: "ysf_record v = (TAG_DATA, snd (ysf_record v))" for v by (simp add: ysf_record_def split_def Let_def)
  have "conv_holds (fold putAMBE7YSF vs s) ([] @ ?fs) df"
    unfolding putAMBE7YSF_all [OF assms(3)] using assms(1,2) by (intro put_ysf_holds_all) (auto simp: split_def)
  moreover have "read_ysf data ([] @ ?fs) = (TAG_DATA, ?d, [])"
    unfolding vs using tags by (simp add: read_ysf_def split: prod.splits) (metis prod.inject)
  ultimately obtain s' where "getYSF data (fold putAMBE7YSF vs s) = (TAG_DATA, ?d, s')" "conv_holds s' [] df"
    using getYSF_reads [OF _ assms(4)] by blast
  moreover have "putYSF jv jd ?d s2 = fold (putAMBE7 jd) vs s2" for s2
    unfolding putYSF_records putAMBE7_all payload_of_frame [OF assms(4,2,3,5)] ..
  ultimately show ?thesis by blast
qed

theorem ambe_through_ysf_witness:
  "\<exists>d s'. getYSF (replicate 120 0) (fold putAMBE7YSF (replicate 5 [1, 2, 3, 4, 5, 6, 0x80]) CModeConv) = (TAG_DATA, d, s')
    \<and> (\<forall>s2. putYSF (replicate 13 0) (replicate 9 0) d s2 = fold (putAMBE7 (replicate 9 0)) (replicate 5 [1, 2, 3, 4, 5, 6, 0x80]) s2)"
  using ambe_through_ysf [OF conv_holds_new, of "replicate 5 [1, 2, 3, 4, 5, 6, 0x80]" "replicate 120 0"
      "replicate 13 0" "replicate 9 0"] by fastforce

text \<open>Two ways to carry a DMR voice burst to YSF agree: putting a burst of any content into the
  converter is the same as reading its three raw AMBE frames and putting those.\<close>
theorem putDMR_is_reencoding:
  "putDMR b s = fold putAMBE7YSF (dmr33ToAMBE b) s"
  by (rule putDMR_frames)

section \<open>The end of a transmission\<close>

fun ysf_tags :: "nat \<Rightarrow> bytes \<Rightarrow> mode_conv \<Rightarrow> u8 list" where
  "ysf_tags 0 d s = []"
| "ysf_tags (Suc n) d s = (let (t, _, s') = getYSF d s in t # ysf_tags n d s')"

fun dmr_tags :: "nat \<Rightarrow> bytes \<Rightarrow> bytes \<Rightarrow> mode_conv \<Rightarrow> u8 list" where
  "dmr_tags 0 j d s = []"
| "dmr_tags (Suc n) j d s = (let (t, _, s') = getDMR j d s in t # dmr_tags n j d s')"

text \<open>The tags that \<open>n\<close> reads of a queue in groups of \<open>k\<close> return.\<close>

fun read_tags :: "nat \<Rightarrow> nat \<Rightarrow> u8 list \<Rightarrow> u8 list" where
  "read_tags k 0 ts = []"
| "read_tags k (Suc n) [] = TAG_NODATA # read_tags k n []"
| "read_tags k (Suc n) (t # ts) =
     (if t \<noteq> TAG_DATA then t # read_tags k n ts
      else if k \<le> length (t # ts) then TAG_DATA # read_tags k n (drop k (t # ts))
      else TAG_NODATA # read_tags k n (t # ts))"

lemma ysf_tags_read:
  "conv_holds s yf df \<Longrightarrow> length d = 120 \<Longrightarrow> ysf_tags n d s = read_tags 5 n (map fst yf)"
proof (induction n arbitrary: s yf)
  case (Suc n)
  obtain t d' yf' where r: "read_ysf d yf = (t, d', yf')" by (rule prod_cases3)
  obtain s' where "getYSF d s = (t, d', s')" "conv_holds s' yf' df"
    using getYSF_reads [OF Suc.prems r] by blast
  then have "ysf_tags (Suc n) d s = t # read_tags 5 n (map fst yf')" using Suc.IH Suc.prems(2) by simp
  also have "\<dots> = read_tags 5 (Suc n) (map fst yf)"
    using r by (cases yf) (auto simp: read_ysf_def drop_map split: if_splits prod.splits)
  finally show ?case .
qed simp

lemma dmr_tags_read:
  "conv_holds s yf df \<Longrightarrow> length d = 33 \<Longrightarrow> length j = 9 \<Longrightarrow> dmr_tags n j d s = read_tags 3 n (map fst df)"
proof (induction n arbitrary: s df)
  case (Suc n)
  obtain t d' df' where r: "read_dmr d df = (t, d', df')" by (rule prod_cases3)
  obtain s' where "getDMR j d s = (t, d', s')" "conv_holds s' yf df'"
    using getDMR_reads [OF Suc.prems r] by blast
  then have "dmr_tags (Suc n) j d s = t # read_tags 3 n (map fst df')" using Suc.IH Suc.prems(2,3) by simp
  also have "\<dots> = read_tags 3 (Suc n) (map fst df)"
    using r by (cases df) (auto simp: read_dmr_def drop_map split: if_splits prod.splits)
  finally show ?case .
qed simp

lemma read_tags_group:
  assumes "length ts = k" "0 < k" "hd ts = TAG_DATA"
  shows "read_tags k (Suc n) (ts @ us) = TAG_DATA # read_tags k n us"
  using assms by (cases ts) auto

lemma read_tags_groups:
  "0 < k \<Longrightarrow> read_tags k (q + n) (replicate (k * q) TAG_DATA @ us) = replicate q TAG_DATA @ read_tags k n us"
proof (induction q)
  case (Suc q)
  have "replicate (k * Suc q) TAG_DATA = replicate k TAG_DATA @ replicate (k * q) TAG_DATA"
    by (simp add: replicate_add)
  then show ?case
    using read_tags_group [of "replicate k TAG_DATA" k "q + n" "replicate (k * q) TAG_DATA @ us"] Suc by simp
qed simp

lemma fill_up:
  assumes "0 < k"
  shows "m + (k - m mod k) = k * (m div k + (1 :: nat))"
proof -
  have "k * (m div k) + m mod k = m" by (rule mult_div_mod_eq)
  moreover have "m mod k < k" using assms by (rule mod_less_divisor)
  ultimately have "m + (k - m mod k) = k * (m div k) + k" by arith
  then show ?thesis by simp
qed

lemma replicate_join: "replicate m x @ replicate n x @ ys = replicate (m + n) x @ ys"
  by (simp add: replicate_add)

lemma read_tags_filled:
  assumes "0 < k"
  shows "read_tags k (m div k + 3) (replicate m TAG_DATA @ replicate (k - m mod k) TAG_DATA @ [TAG_EOT])
    = replicate (m div k + 1) TAG_DATA @ [TAG_EOT, TAG_NODATA]"
proof -
  have "m div k + 3 = (m div k + 1) + 2" "read_tags k 2 [TAG_EOT] = [TAG_EOT, TAG_NODATA]"
    by (simp_all add: numeral_eq_Suc)
  then show ?thesis
    by (simp only: replicate_join fill_up [OF assms] read_tags_groups [OF assms])
qed

lemma read_tags_swallowed:
  assumes "1 < k"
  shows "read_tags k (Suc m div k + 3) (TAG_HEADER # replicate m TAG_DATA @ replicate (k - Suc m mod k) TAG_DATA @ [TAG_EOT])
    = TAG_HEADER # replicate (Suc m div k + 1) TAG_DATA @ [TAG_NODATA]"
proof -
  have k: "0 < k" using assms by simp
  define q where "q = Suc m div k"
  have m: "m + (k - Suc m mod k) = k * q + (k - 1)" using assms fill_up [OF k, of "Suc m"] by (simp add: q_def)
  have "read_tags k 2 (replicate (k - 1) TAG_DATA @ [TAG_EOT]) = [TAG_DATA, TAG_NODATA]"
    using read_tags_group [of "replicate (k - 1) TAG_DATA @ [TAG_EOT]" k 1 "[]"] assms
    by (cases "k - 1") (auto simp: numeral_eq_Suc)
  then have "read_tags k (q + 2) (replicate m TAG_DATA @ replicate (k - Suc m mod k) TAG_DATA @ [TAG_EOT])
      = replicate q TAG_DATA @ [TAG_DATA, TAG_NODATA]"
    by (simp only: replicate_join m) (simp only: replicate_add append_assoc read_tags_groups [OF k])
  moreover have "q + 3 = Suc (q + 2)" "replicate q TAG_DATA @ [TAG_DATA, TAG_NODATA] = replicate (q + 1) TAG_DATA @ [TAG_NODATA]"
    by (simp_all add: replicate_append_same)
  ultimately show ?thesis by (simp only: q_def [symmetric] read_tags.simps) simp
qed

lemma tags_replicate: "\<forall>(t, b) \<in> set fs. t = c \<Longrightarrow> map fst fs = replicate (length fs) c"
  by (induction fs) auto

text \<open>C36: The end of a transmission is reported once the frames before it have been read: when only voice
  is queued, filling up with silence makes whole frames of what is left, and the reads that follow an end
  of transmission give one voice frame for every started group, then the end, then nothing; the same holds
  for the groups of five of the YSF side and of three of the DMR side.\<close>
theorem eot_after_voice:
  assumes "conv_holds s yf df" "length yf \<le> 350" "length df \<le> 490"
    "\<forall>(t, b) \<in> set yf. t = TAG_DATA" "\<forall>(t, b) \<in> set df. t = TAG_DATA"
    "length d120 = 120" "length d33 = 33" "length junk = 9"
  shows "ysf_tags (length yf div 5 + 3) d120 (putDMREOT s) = replicate (length yf div 5 + 1) TAG_DATA @ [TAG_EOT, TAG_NODATA]
    \<and> dmr_tags (length df div 3 + 3) junk d33 (putYSFEOT s) = replicate (length df div 3 + 1) TAG_DATA @ [TAG_EOT, TAG_NODATA]"
proof
  let ?yf = "yf @ replicate (5 - length yf mod 5) (TAG_DATA, YSF_SILENCE) @ [(TAG_EOT, replicate 13 0)]"
  have "conv_holds (putDMREOT s) ?yf df"
    unfolding putDMREOT_records [OF assms(1)] using assms(2) by (intro put_ysf_holds_all [OF assms(1)]) auto
  from ysf_tags_read [OF this assms(6), of "length yf div 5 + 3"]
  show "ysf_tags (length yf div 5 + 3) d120 (putDMREOT s) = replicate (length yf div 5 + 1) TAG_DATA @ [TAG_EOT, TAG_NODATA]"
    using read_tags_filled [of 5 "length yf"] tags_replicate [OF assms(4)] by simp
  let ?df = "df @ replicate (3 - length df mod 3) (TAG_DATA, DMR_SILENCE) @ [(TAG_EOT, replicate 9 0)]"
  have "conv_holds (putYSFEOT s) yf ?df"
    unfolding putYSFEOT_records [OF assms(1)] using assms(3) by (intro put_dmr_holds_all [OF assms(1)]) auto
  from dmr_tags_read [OF this assms(7,8), of "length df div 3 + 3"]
  show "dmr_tags (length df div 3 + 3) junk d33 (putYSFEOT s) = replicate (length df div 3 + 1) TAG_DATA @ [TAG_EOT, TAG_NODATA]"
    using read_tags_filled [of 3 "length df"] tags_replicate [OF assms(5)] by simp
qed

theorem eot_after_voice_witness:
  "ysf_tags 3 (replicate 120 0) (putDMREOT CModeConv) = [TAG_DATA, TAG_EOT, TAG_NODATA]
    \<and> dmr_tags 3 (replicate 9 0) (replicate 33 0) (putYSFEOT CModeConv) = [TAG_DATA, TAG_EOT, TAG_NODATA]"
  using eot_after_voice [OF conv_holds_new, of "replicate 120 0" "replicate 33 0" "replicate 9 0"] by simp

text \<open>When the header of the transmission is still queued as its end arrives, the end is lost: the fill
  counts the header as if it were a voice frame, one silent frame too few is added, and the end marker is
  taken as the last channel of a voice frame. The reader gets the header, voice, and then no data.\<close>
theorem eot_lost_behind_header:
  assumes "conv_holds s ((TAG_HEADER, hy) # yf) ((TAG_HEADER, hm) # df)" "length yf < 350" "length df < 490"
    "\<forall>(t, b) \<in> set yf. t = TAG_DATA" "\<forall>(t, b) \<in> set df. t = TAG_DATA"
    "length d120 = 120" "length d33 = 33" "length junk = 9"
  shows "ysf_tags (Suc (length yf) div 5 + 3) d120 (putDMREOT s)
      = TAG_HEADER # replicate (Suc (length yf) div 5 + 1) TAG_DATA @ [TAG_NODATA]
    \<and> dmr_tags (Suc (length df) div 3 + 3) junk d33 (putYSFEOT s)
      = TAG_HEADER # replicate (Suc (length df) div 3 + 1) TAG_DATA @ [TAG_NODATA]"
proof
  have "conv_holds (putDMREOT s) (((TAG_HEADER, hy) # yf) @ replicate (5 - Suc (length yf) mod 5) (TAG_DATA, YSF_SILENCE)
      @ [(TAG_EOT, replicate 13 0)]) ((TAG_HEADER, hm) # df)"
    unfolding putDMREOT_records [OF assms(1)] using assms(2) by (simp only: list.size add_Suc_right add_0_right) (intro put_ysf_holds_all [OF assms(1)], auto)
  from ysf_tags_read [OF this assms(6), of "Suc (length yf) div 5 + 3"]
  show "ysf_tags (Suc (length yf) div 5 + 3) d120 (putDMREOT s)
      = TAG_HEADER # replicate (Suc (length yf) div 5 + 1) TAG_DATA @ [TAG_NODATA]"
    using read_tags_swallowed [of 5 "length yf"] tags_replicate [OF assms(4)] by simp
  have "conv_holds (putYSFEOT s) ((TAG_HEADER, hy) # yf) (((TAG_HEADER, hm) # df)
      @ replicate (3 - Suc (length df) mod 3) (TAG_DATA, DMR_SILENCE) @ [(TAG_EOT, replicate 9 0)])"
    unfolding putYSFEOT_records [OF assms(1)] using assms(3) by (simp only: list.size add_Suc_right add_0_right) (intro put_dmr_holds_all [OF assms(1)], auto)
  from dmr_tags_read [OF this assms(7,8), of "Suc (length df) div 3 + 3"]
  show "dmr_tags (Suc (length df) div 3 + 3) junk d33 (putYSFEOT s)
      = TAG_HEADER # replicate (Suc (length df) div 3 + 1) TAG_DATA @ [TAG_NODATA]"
    using read_tags_swallowed [of 3 "length df"] tags_replicate [OF assms(5)] by simp
qed

theorem eot_lost_behind_header_witness:
  "ysf_tags 3 (replicate 120 0) (putDMREOT (putDMRHeader (putYSFHeader CModeConv))) = [TAG_HEADER, TAG_DATA, TAG_NODATA]"
proof -
  have "conv_holds (putYSFHeader CModeConv) [] [(TAG_HEADER, replicate 9 0)]"
    using put_dmr_holds [OF conv_holds_new, of "replicate 9 0" TAG_HEADER] by (simp add: putYSFHeader_def)
  from put_ysf_holds [OF this, of "replicate 13 0" TAG_HEADER]
  have "conv_holds (putDMRHeader (putYSFHeader CModeConv)) [(TAG_HEADER, replicate 13 0)] [(TAG_HEADER, replicate 9 0)]"
    by (simp add: putDMRHeader_def)
  from eot_lost_behind_header [OF this, of "replicate 120 0" "replicate 33 0" "replicate 9 0"]
  show ?thesis by simp
qed

end
