(* ===== verification/Ysf_Payload.thy ===== *)
theory Ysf_Payload
  imports Ysf_Conv
begin

text \<open>
  The payload of a YSF frame on the C++ side: the convolutional code of
  \<open>src/mmdvm/YSFConvolution.cpp\<close>, the checksum of \<open>src/mmdvm/CRC.cpp\<close> that the payload uses,
  \<open>CYSFPayload\<close> of \<open>src/mmdvm/YSFPayload.cpp\<close> (headers and the data channels of the voice modes) and
  the C functions of \<open>src/mmdvm/ysfpayload_wrap.cpp\<close>. The bit macros are those of \<open>Ysf_Conv\<close>. The local
  arrays that a function does not initialise, the arrays of a decoder object included, are its
  argument \<open>l\<close>; a pointer is an option.
\<close>

section \<open>Tables\<close>

definition INTERLEAVE_TABLE_9_20 :: "nat list" where
  "INTERLEAVE_TABLE_9_20 = [
    0, 40, 80, 120, 160, 200, 240, 280, 320,
    2, 42, 82, 122, 162, 202, 242, 282, 322,
    4, 44, 84, 124, 164, 204, 244, 284, 324,
    6, 46, 86, 126, 166, 206, 246, 286, 326,
    8, 48, 88, 128, 168, 208, 248, 288, 328,
    10, 50, 90, 130, 170, 210, 250, 290, 330,
    12, 52, 92, 132, 172, 212, 252, 292, 332,
    14, 54, 94, 134, 174, 214, 254, 294, 334,
    16, 56, 96, 136, 176, 216, 256, 296, 336,
    18, 58, 98, 138, 178, 218, 258, 298, 338,
    20, 60, 100, 140, 180, 220, 260, 300, 340,
    22, 62, 102, 142, 182, 222, 262, 302, 342,
    24, 64, 104, 144, 184, 224, 264, 304, 344,
    26, 66, 106, 146, 186, 226, 266, 306, 346,
    28, 68, 108, 148, 188, 228, 268, 308, 348,
    30, 70, 110, 150, 190, 230, 270, 310, 350,
    32, 72, 112, 152, 192, 232, 272, 312, 352,
    34, 74, 114, 154, 194, 234, 274, 314, 354,
    36, 76, 116, 156, 196, 236, 276, 316, 356,
    38, 78, 118, 158, 198, 238, 278, 318, 358]"

definition INTERLEAVE_TABLE_5_20 :: "nat list" where
  "INTERLEAVE_TABLE_5_20 = [
    0, 40, 80, 120, 160,
    2, 42, 82, 122, 162,
    4, 44, 84, 124, 164,
    6, 46, 86, 126, 166,
    8, 48, 88, 128, 168,
    10, 50, 90, 130, 170,
    12, 52, 92, 132, 172,
    14, 54, 94, 134, 174,
    16, 56, 96, 136, 176,
    18, 58, 98, 138, 178,
    20, 60, 100, 140, 180,
    22, 62, 102, 142, 182,
    24, 64, 104, 144, 184,
    26, 66, 106, 146, 186,
    28, 68, 108, 148, 188,
    30, 70, 110, 150, 190,
    32, 72, 112, 152, 192,
    34, 74, 114, 154, 194,
    36, 76, 116, 156, 196,
    38, 78, 118, 158, 198]"

definition YP_WHITENING_DATA :: "u8 list" where
  "YP_WHITENING_DATA = [
    0x93, 0xD7, 0x51, 0x21, 0x9C, 0x2F, 0x6C, 0xD0, 0xEF, 0x0F,
    0xF8, 0x3D, 0xF1, 0x73, 0x20, 0x94, 0xED, 0x1E, 0x7C, 0xD8]"

definition CRC_CCITT16_TABLE2 :: "u16 list" where
  "CRC_CCITT16_TABLE2 = [
    0x0000, 0x1021, 0x2042, 0x3063, 0x4084, 0x50A5, 0x60C6, 0x70E7,
    0x8108, 0x9129, 0xA14A, 0xB16B, 0xC18C, 0xD1AD, 0xE1CE, 0xF1EF,
    0x1231, 0x0210, 0x3273, 0x2252, 0x52B5, 0x4294, 0x72F7, 0x62D6,
    0x9339, 0x8318, 0xB37B, 0xA35A, 0xD3BD, 0xC39C, 0xF3FF, 0xE3DE,
    0x2462, 0x3443, 0x0420, 0x1401, 0x64E6, 0x74C7, 0x44A4, 0x5485,
    0xA56A, 0xB54B, 0x8528, 0x9509, 0xE5EE, 0xF5CF, 0xC5AC, 0xD58D,
    0x3653, 0x2672, 0x1611, 0x0630, 0x76D7, 0x66F6, 0x5695, 0x46B4,
    0xB75B, 0xA77A, 0x9719, 0x8738, 0xF7DF, 0xE7FE, 0xD79D, 0xC7BC,
    0x48C4, 0x58E5, 0x6886, 0x78A7, 0x0840, 0x1861, 0x2802, 0x3823,
    0xC9CC, 0xD9ED, 0xE98E, 0xF9AF, 0x8948, 0x9969, 0xA90A, 0xB92B,
    0x5AF5, 0x4AD4, 0x7AB7, 0x6A96, 0x1A71, 0x0A50, 0x3A33, 0x2A12,
    0xDBFD, 0xCBDC, 0xFBBF, 0xEB9E, 0x9B79, 0x8B58, 0xBB3B, 0xAB1A,
    0x6CA6, 0x7C87, 0x4CE4, 0x5CC5, 0x2C22, 0x3C03, 0x0C60, 0x1C41,
    0xEDAE, 0xFD8F, 0xCDEC, 0xDDCD, 0xAD2A, 0xBD0B, 0x8D68, 0x9D49,
    0x7E97, 0x6EB6, 0x5ED5, 0x4EF4, 0x3E13, 0x2E32, 0x1E51, 0x0E70,
    0xFF9F, 0xEFBE, 0xDFDD, 0xCFFC, 0xBF1B, 0xAF3A, 0x9F59, 0x8F78,
    0x9188, 0x81A9, 0xB1CA, 0xA1EB, 0xD10C, 0xC12D, 0xF14E, 0xE16F,
    0x1080, 0x00A1, 0x30C2, 0x20E3, 0x5004, 0x4025, 0x7046, 0x6067,
    0x83B9, 0x9398, 0xA3FB, 0xB3DA, 0xC33D, 0xD31C, 0xE37F, 0xF35E,
    0x02B1, 0x1290, 0x22F3, 0x32D2, 0x4235, 0x5214, 0x6277, 0x7256,
    0xB5EA, 0xA5CB, 0x95A8, 0x8589, 0xF56E, 0xE54F, 0xD52C, 0xC50D,
    0x34E2, 0x24C3, 0x14A0, 0x0481, 0x7466, 0x6447, 0x5424, 0x4405,
    0xA7DB, 0xB7FA, 0x8799, 0x97B8, 0xE75F, 0xF77E, 0xC71D, 0xD73C,
    0x26D3, 0x36F2, 0x0691, 0x16B0, 0x6657, 0x7676, 0x4615, 0x5634,
    0xD94C, 0xC96D, 0xF90E, 0xE92F, 0x99C8, 0x89E9, 0xB98A, 0xA9AB,
    0x5844, 0x4865, 0x7806, 0x6827, 0x18C0, 0x08E1, 0x3882, 0x28A3,
    0xCB7D, 0xDB5C, 0xEB3F, 0xFB1E, 0x8BF9, 0x9BD8, 0xABBB, 0xBB9A,
    0x4A75, 0x5A54, 0x6A37, 0x7A16, 0x0AF1, 0x1AD0, 0x2AB3, 0x3A92,
    0xFD2E, 0xED0F, 0xDD6C, 0xCD4D, 0xBDAA, 0xAD8B, 0x9DE8, 0x8DC9,
    0x7C26, 0x6C07, 0x5C64, 0x4C45, 0x3CA2, 0x2C83, 0x1CE0, 0x0CC1,
    0xEF1F, 0xFF3E, 0xCF5D, 0xDF7C, 0xAF9B, 0xBFBA, 0x8FD9, 0x9FF8,
    0x6E17, 0x7E36, 0x4E55, 0x5E74, 0x2E93, 0x3EB2, 0x0ED1, 0x1EF0]"

definition YC_BRANCH_TABLE1 :: "u8 list" where
  "YC_BRANCH_TABLE1 = [0, 0, 0, 0, 1, 1, 1, 1]"

definition YC_BRANCH_TABLE2 :: "u8 list" where
  "YC_BRANCH_TABLE2 = [0, 1, 1, 0, 0, 1, 1, 0]"

section \<open>The convolutional code\<close>

text \<open>An object of class \<open>CYSFConvolution\<close> has the fields of the C file's globals: the record \<open>viterbi\<close>.\<close>

definition YSFConvolution_start :: "viterbi \<Rightarrow> viterbi" where
  "YSFConvolution_start v = v\<lparr>m_oldMetrics := replicate 16 0, m_newMetrics := replicate 16 0, m_dp := 0\<rparr>"

definition YSFConvolution_butterfly :: "u8 \<Rightarrow> u8 \<Rightarrow> nat \<Rightarrow> viterbi \<Rightarrow> viterbi" where
  "YSFConvolution_butterfly s0 s1 i v =
     (let j = i * 2;
          metric = ucast (YC_BRANCH_TABLE1 ! i XOR s0) + ucast (YC_BRANCH_TABLE2 ! i XOR s1);
          m0 = m_oldMetrics v ! i + metric;
          m1 = m_oldMetrics v ! (i + 8) + (2 - metric);
          decision0 = (if m0 \<ge> m1 then 1 else 0);
          new = (m_newMetrics v)[j + 0 := (if decision0 \<noteq> 0 then m1 else m0)];
          m0 = m_oldMetrics v ! i + (2 - metric);
          m1 = m_oldMetrics v ! (i + 8) + metric;
          decision1 = (if m0 \<ge> m1 then 1 else 0);
          new = new[j + 1 := (if decision1 \<noteq> 0 then m1 else m0)];
          d = m_decisions v ! m_dp v OR (push_bit (j + 1) decision1 OR push_bit (j + 0) (decision0 :: u64))
      in v\<lparr>m_newMetrics := new, m_decisions := (m_decisions v)[m_dp v := d]\<rparr>)"

definition YSFConvolution_decode :: "u8 \<Rightarrow> u8 \<Rightarrow> viterbi \<Rightarrow> viterbi" where
  "YSFConvolution_decode s0 s1 v =
     (let v = v\<lparr>m_decisions := (m_decisions v)[m_dp v := 0]\<rparr>;
          v = fold (YSFConvolution_butterfly s0 s1) [0..<8] v
      in v\<lparr>m_dp := m_dp v + 1, m_oldMetrics := m_newMetrics v, m_newMetrics := m_oldMetrics v\<rparr>)"

fun YSFConvolution_chainback_loop :: "nat \<Rightarrow> u32 \<Rightarrow> viterbi \<Rightarrow> bytes \<Rightarrow> viterbi \<times> bytes" where
  "YSFConvolution_chainback_loop 0 state v out = (v, out)"
| "YSFConvolution_chainback_loop (Suc nBits) state v out =
     (let v = v\<lparr>m_dp := m_dp v - 1\<rparr>;
          i = unat (drop_bit (9 - 5) state);
          b = ucast (drop_bit i (m_decisions v ! m_dp v)) AND (1 :: u8);
          state = push_bit 7 (ucast b) OR drop_bit 1 state
      in YSFConvolution_chainback_loop nBits state v (WRITE_BIT1 out nBits (b \<noteq> 0)))"

definition YSFConvolution_chainback :: "viterbi \<Rightarrow> bytes \<Rightarrow> nat \<Rightarrow> viterbi \<times> bytes" where
  "YSFConvolution_chainback v out nBits = YSFConvolution_chainback_loop nBits 0 v out"

fun YSFConvolution_encode_loop ::
  "bytes \<Rightarrow> nat \<Rightarrow> nat \<Rightarrow> nat \<Rightarrow> u8 \<times> u8 \<times> u8 \<times> u8 \<Rightarrow> bytes \<Rightarrow> bytes" where
  "YSFConvolution_encode_loop inp 0 i k ds out = out"
| "YSFConvolution_encode_loop inp (Suc n) i k (d1, d2, d3, d4) out =
     (let d = (if READ_BIT1 inp i \<noteq> 0 then 1 else 0);
          g1 = (d + d3 + d4) AND 1;
          g2 = (d + d1 + d2 + d4) AND 1;
          out = WRITE_BIT1 out k (g1 \<noteq> 0); k = k + 1;
          out = WRITE_BIT1 out k (g2 \<noteq> 0); k = k + 1
      in YSFConvolution_encode_loop inp n (i + 1) k (d, d1, d2, d3) out)"

definition YSFConvolution_encode :: "bytes \<Rightarrow> bytes \<Rightarrow> nat \<Rightarrow> bytes" where
  "YSFConvolution_encode inp out nBits = YSFConvolution_encode_loop inp nBits 0 0 (0, 0, 0, 0) out"

section \<open>The checksum\<close>

definition CRC_update :: "u16 \<Rightarrow> u8 \<Rightarrow> u16" where
  "CRC_update c x = push_bit 8 (ucast (ucast c :: u8)) XOR CRC_CCITT16_TABLE2 ! unat (ucast (drop_bit 8 c) XOR x)"

definition CCRC_addCCITT162 :: "bytes \<Rightarrow> nat \<Rightarrow> bytes" where
  "CCRC_addCCITT162 inp len =
     (let c = fold (\<lambda>i c. CRC_update c (inp ! i)) [0..<len - 2] 0;
          c = NOT c;
          inp = inp[len - 1 := ucast c]
      in inp[len - 2 := ucast (drop_bit 8 c)])"

definition CCRC_checkCCITT162 :: "bytes \<Rightarrow> nat \<Rightarrow> bool" where
  "CCRC_checkCCITT162 inp len =
     (let c = fold (\<lambda>i c. CRC_update c (inp ! i)) [0..<len - 2] 0;
          c = NOT c
      in ucast c = inp ! (len - 1) \<and> ucast (drop_bit 8 c) = inp ! (len - 2))"

section \<open>Blocks of a frame\<close>

record ysf_locals =
  l_dch :: bytes
  l_output :: bytes
  l_convolved :: bytes
  l_bytes :: bytes
  l_conv :: viterbi

text \<open>The five pieces of a channel lie 18 bytes apart in the frame.\<close>

definition read_pieces :: "nat \<Rightarrow> nat \<Rightarrow> bytes \<Rightarrow> bytes \<Rightarrow> bytes" where
  "read_pieces w off data dch = fold (\<lambda>i p2. memcpy p2 (w * i) (sub_buf data (off + 18 * i) w)) [0..<5] dch"

definition write_pieces :: "nat \<Rightarrow> nat \<Rightarrow> bytes \<Rightarrow> bytes \<Rightarrow> bytes" where
  "write_pieces w off bs data = fold (\<lambda>i p1. memcpy p1 (off + 18 * i) (sub_buf bs (w * i) w)) [0..<5] data"

definition whiten :: "nat \<Rightarrow> bytes \<Rightarrow> bytes" where
  "whiten n output = fold (\<lambda>i out. out[i := out ! i XOR YP_WHITENING_DATA ! i]) [0..<n] output"

definition decode_dibits :: "nat list \<Rightarrow> nat \<Rightarrow> bytes \<Rightarrow> viterbi \<Rightarrow> viterbi" where
  "decode_dibits tab N dch v =
     fold (\<lambda>i v. let n = tab ! i;
                    s0 = (if READ_BIT1 dch n \<noteq> 0 then 1 else 0); n = n + 1;
                    s1 = (if READ_BIT1 dch n \<noteq> 0 then 1 else 0)
                in YSFConvolution_decode s0 s1 v) [0..<N] v"

definition interleave_dibits :: "nat list \<Rightarrow> nat \<Rightarrow> bytes \<Rightarrow> bytes \<Rightarrow> bytes" where
  "interleave_dibits tab N convolved bs =
     fold (\<lambda>i out. let n = tab ! i;
                      s0 = READ_BIT1 convolved (2 * i) \<noteq> 0;
                      s1 = READ_BIT1 convolved (2 * i + 1) \<noteq> 0;
                      out = WRITE_BIT1 out n s0; n = n + 1
                  in WRITE_BIT1 out n s1) [0..<N] bs"

section \<open>The payload object\<close>

abbreviation (input) YSF_CALLSIGN_LENGTH :: nat where "YSF_CALLSIGN_LENGTH \<equiv> 10"

record ysf_payload =
  m_uplink :: "bytes option"
  m_downlink :: "bytes option"
  m_source :: "bytes option"
  m_dest :: "bytes option"

definition CYSFPayload :: ysf_payload where
  "CYSFPayload = \<lparr>m_uplink = None, m_downlink = None, m_source = None, m_dest = None\<rparr>"

definition processHeaderData :: "ysf_locals \<Rightarrow> bytes \<Rightarrow> ysf_payload \<Rightarrow> bool \<times> bytes \<times> ysf_payload" where
  "processHeaderData l data p =
     (let dch = read_pieces 9 30 data (l_dch l);
          v = decode_dibits INTERLEAVE_TABLE_9_20 180 dch (YSFConvolution_start (l_conv l));
          (v, output) = YSFConvolution_chainback v (l_output l) 176;
          valid1 = CCRC_checkCCITT162 output 22;
          (p, output, data) =
            (if valid1 then
               let output = whiten 20 output;
                   p = (if m_dest p = None then p\<lparr>m_dest := Some (sub_buf output 0 YSF_CALLSIGN_LENGTH)\<rparr> else p);
                   p = (if m_source p = None
                        then p\<lparr>m_source := Some (sub_buf output YSF_CALLSIGN_LENGTH YSF_CALLSIGN_LENGTH)\<rparr> else p);
                   output = whiten 20 output;
                   output = (CCRC_addCCITT162 output 22)[22 := 0];
                   convolved = YSFConvolution_encode output (l_convolved l) 180;
                   bs = interleave_dibits INTERLEAVE_TABLE_9_20 180 convolved (l_bytes l)
               in (p, output, write_pieces 9 30 bs data)
             else (p, output, data));
          dch = read_pieces 9 39 data dch;
          v = decode_dibits INTERLEAVE_TABLE_9_20 180 dch (YSFConvolution_start v);
          (v, output) = YSFConvolution_chainback v output 176;
          valid2 = CCRC_checkCCITT162 output 22;
          data =
            (if valid2 then
               let output = whiten 20 output;
                   output = (case m_downlink p of None \<Rightarrow> output | Some c \<Rightarrow> memcpy output 0 c);
                   output = (case m_uplink p of None \<Rightarrow> output | Some c \<Rightarrow> memcpy output YSF_CALLSIGN_LENGTH c);
                   output = whiten 20 output;
                   output = (CCRC_addCCITT162 output 22)[22 := 0];
                   convolved = YSFConvolution_encode output (l_convolved l) 180;
                   bs = interleave_dibits INTERLEAVE_TABLE_9_20 180 convolved (l_bytes l)
               in write_pieces 9 39 bs data
             else data)
      in (valid1, data, p))"

section \<open>Reading a data channel\<close>

text \<open>The three readers of a block of twenty bytes differ in the offset and in what they return when
  the checksum fails.\<close>

definition read_block20 :: "nat \<Rightarrow> ysf_locals \<Rightarrow> bytes \<Rightarrow> bytes \<Rightarrow> bool \<times> bytes" where
  "read_block20 off l data dt =
     (let dch = read_pieces 9 off data (l_dch l);
          v = decode_dibits INTERLEAVE_TABLE_9_20 180 dch (YSFConvolution_start (l_conv l));
          (v, output) = YSFConvolution_chainback v (l_output l) 176;
          ret = CCRC_checkCCITT162 output 22
      in if ret then (ret, memcpy dt 0 (sub_buf (whiten 20 output) 0 20)) else (ret, dt))"

definition readDataFRModeData1 :: "ysf_locals \<Rightarrow> bytes \<Rightarrow> bytes \<Rightarrow> bool \<times> bytes" where
  "readDataFRModeData1 l data dt = read_block20 30 l data (memcpy dt 0 (replicate 20 32))"

definition readDataFRModeData2 :: "ysf_locals \<Rightarrow> bytes \<Rightarrow> bytes \<Rightarrow> bool \<times> bytes" where
  "readDataFRModeData2 l data dt = read_block20 39 l data (memcpy dt 0 (replicate 20 32))"

definition readVDMode1Data :: "ysf_locals \<Rightarrow> bytes \<Rightarrow> bytes \<Rightarrow> bool \<times> bytes" where
  "readVDMode1Data l data dt = read_block20 30 l data dt"

definition readVDMode2Data :: "ysf_locals \<Rightarrow> bytes \<Rightarrow> bytes \<Rightarrow> bool \<times> bytes" where
  "readVDMode2Data l data dt =
     (let dch = read_pieces 5 30 data (l_dch l);
          v = decode_dibits INTERLEAVE_TABLE_5_20 100 dch (YSFConvolution_start (l_conv l));
          (v, output) = YSFConvolution_chainback v (l_output l) 96;
          ret = CCRC_checkCCITT162 output 12
      in if ret then (ret, memcpy dt 0 (sub_buf (whiten 10 output) 0 YSF_CALLSIGN_LENGTH)) else (ret, dt))"

section \<open>Writing a data channel\<close>

definition writeVDMode2Data :: "ysf_locals \<Rightarrow> bytes \<Rightarrow> bytes \<Rightarrow> bytes" where
  "writeVDMode2Data l data dt =
     (let dt_tmp = memcpy (l_output l) 0 (sub_buf dt 0 YSF_CALLSIGN_LENGTH);
          dt_tmp = whiten 10 dt_tmp;
          dt_tmp = (CCRC_addCCITT162 dt_tmp 12)[12 := 0];
          convolved = YSFConvolution_encode dt_tmp (l_convolved l) 100;
          bs = interleave_dibits INTERLEAVE_TABLE_5_20 100 convolved (l_bytes l)
      in write_pieces 5 30 bs data)"

definition write_block20 :: "nat \<Rightarrow> ysf_locals \<Rightarrow> bytes \<Rightarrow> bytes \<Rightarrow> bytes" where
  "write_block20 off l dt data =
     (let output = fold (\<lambda>i out. out[i := dt ! i XOR YP_WHITENING_DATA ! i]) [0..<20] (l_output l);
          output = (CCRC_addCCITT162 output 22)[22 := 0];
          convolved = YSFConvolution_encode output (l_convolved l) 180;
          bs = interleave_dibits INTERLEAVE_TABLE_9_20 180 convolved (l_bytes l)
      in write_pieces 9 off bs data)"

definition writeDataFRModeData1 :: "ysf_locals \<Rightarrow> bytes \<Rightarrow> bytes \<Rightarrow> bytes" where
  "writeDataFRModeData1 l dt data = write_block20 30 l dt data"

definition writeDataFRModeData2 :: "ysf_locals \<Rightarrow> bytes \<Rightarrow> bytes \<Rightarrow> bytes" where
  "writeDataFRModeData2 l dt data = write_block20 39 l dt data"

definition writeHeader :: "ysf_locals \<Rightarrow> ysf_locals \<Rightarrow> bytes \<Rightarrow> bytes \<Rightarrow> bytes \<Rightarrow> bytes" where
  "writeHeader l1 l2 data csd1 csd2 = writeDataFRModeData2 l2 csd2 (writeDataFRModeData1 l1 csd1 data)"

section \<open>Callsigns\<close>

definition callsign10 :: "bytes \<Rightarrow> bytes" where
  "callsign10 callsign = take YSF_CALLSIGN_LENGTH (callsign @ replicate YSF_CALLSIGN_LENGTH 32)"

definition setUplink :: "bytes \<Rightarrow> ysf_payload \<Rightarrow> ysf_payload" where
  "setUplink callsign p = p\<lparr>m_uplink := Some (callsign10 callsign)\<rparr>"

definition setDownlink :: "bytes \<Rightarrow> ysf_payload \<Rightarrow> ysf_payload" where
  "setDownlink callsign p = p\<lparr>m_downlink := Some (callsign10 callsign)\<rparr>"

text \<open>\<open>None\<close> is a read through a null pointer.\<close>

definition getSource :: "ysf_payload \<Rightarrow> bytes option" where
  "getSource p = (if m_dest p \<noteq> None then map_option (take YSF_CALLSIGN_LENGTH) (m_source p) else Some [])"

definition getDest :: "ysf_payload \<Rightarrow> bytes option" where
  "getDest p = (if m_dest p \<noteq> None then map_option (take YSF_CALLSIGN_LENGTH) (m_dest p) else Some [])"

definition payload_reset :: "ysf_payload \<Rightarrow> ysf_payload" where
  "payload_reset p = p\<lparr>m_source := None, m_dest := None\<rparr>"

section \<open>The C functions\<close>

definition ysf_payload_write_header :: "ysf_locals \<Rightarrow> ysf_locals \<Rightarrow> bytes \<Rightarrow> bytes \<Rightarrow> bytes \<Rightarrow> bytes" where
  "ysf_payload_write_header l1 l2 payload120 csd1 csd2 = writeHeader l1 l2 payload120 csd1 csd2"

definition ysf_payload_write_vd_mode2_dch :: "ysf_locals \<Rightarrow> bytes \<Rightarrow> bytes \<Rightarrow> bytes" where
  "ysf_payload_write_vd_mode2_dch l payload120 dch = writeVDMode2Data l payload120 dch"

definition ysf_payload_process_header :: "ysf_locals \<Rightarrow> bytes \<Rightarrow> (bool \<times> bytes \<times> bytes \<times> bytes) option" where
  "ysf_payload_process_header l payload120 =
     (let src11 = replicate 11 0; dst11 = replicate 11 0;
          (ok, data, p) = processHeaderData l payload120 CYSFPayload
      in if \<not> ok then Some (False, src11, dst11, data)
         else Option.bind (getSource p) (\<lambda>src. Option.bind (getDest p) (\<lambda>dst.
           let n = (if length src < 10 then length src else 10);
               src11 = (if 0 < n then memcpy src11 0 (take n src) else src11);
               n = (if length dst < 10 then length dst else 10);
               dst11 = (if 0 < n then memcpy dst11 0 (take n dst) else dst11)
           in Some (True, src11, dst11, data))))"

end
