(* ===== verification/Ysf_Channel.thy ===== *)
theory Ysf_Channel
  imports Ysf_Payload Ysf_Fich_Errors Ysf_Crc
begin

text \<open>
  The channel of a YSF payload: the C++ convolutional code and checksum are those of the C side, the
  dibit interleavers are permutations, and the Viterbi decoder recovers the block that was written,
  exactly when at most one of its bits is wrong and but for the first two data bits when two are.
\<close>

section \<open>The C++ code is the C code\<close>

lemma YSFConvolution_butterfly_eq: "YSFConvolution_butterfly = convolution_butterfly"
  by (intro ext) (simp only: YSFConvolution_butterfly_def convolution_butterfly_def YC_BRANCH_TABLE1_def
      YC_BRANCH_TABLE2_def BRANCH_TABLE1_def BRANCH_TABLE2_def M_def)

lemma YSFConvolution_decode_eq: "YSFConvolution_decode = convolution_decode"
  by (intro ext) (simp only: YSFConvolution_decode_def convolution_decode_def YSFConvolution_butterfly_eq)

lemma YSFConvolution_start_eq: "YSFConvolution_start = viterbi_start"
  by (intro ext) (simp only: YSFConvolution_start_def viterbi_start_def)

lemma YSFConvolution_chainback_eq: "YSFConvolution_chainback = convolution_chainback"
proof -
  have "YSFConvolution_chainback_loop n st v out = convolution_chainback_loop n st v out" for n st v out
    by (induction n arbitrary: st v out) (simp_all add: Let_def K_def)
  then show ?thesis by (intro ext) (simp only: YSFConvolution_chainback_def convolution_chainback_def)
qed

lemma YSFConvolution_encode_eq: "YSFConvolution_encode = convolution_encode"
proof -
  have "YSFConvolution_encode_loop inp n i k ds out = convolution_encode_loop inp n i k ds out" for inp n i k ds out
    by (induction n arbitrary: i k ds out; case_tac ds) (simp_all add: Let_def)
  then show ?thesis by (intro ext) (simp only: YSFConvolution_encode_def convolution_encode_def)
qed

lemma CRC_update_eq: "CRC_update = crc_update"
proof -
  have "CRC_CCITT16_TABLE2 = CCITT16_TABLE2" unfolding CRC_CCITT16_TABLE2_def CCITT16_TABLE2_def by (rule refl)
  then show ?thesis by (intro ext) (simp only: CRC_update_def crc_update_def crc8_0_def crc8_1_def)
qed

lemma CCRC_addCCITT162_eq: "CCRC_addCCITT162 = addCCITT162"
  by (intro ext) (simp only: CCRC_addCCITT162_def addCCITT162_def CRC_update_eq crc8_0_def crc8_1_def)

lemmas cpp_is_c = YSFConvolution_decode_eq YSFConvolution_start_eq YSFConvolution_chainback_eq
  YSFConvolution_encode_eq CCRC_addCCITT162_eq

section \<open>Paths near what was received\<close>

lemma light_path_none:
  assumes "s < 16" "path_end s ds = 0" "path_weight s ds \<le> 2" "i < length ds"
  shows "\<not> ds ! i"
proof -
  obtain k where k: "light_paths ! s ! 2 = Some k" "\<forall>i < length ds. ds ! i \<longrightarrow> i < k"
    using light_path [OF assms(1-3)] by auto
  have "\<forall>row \<in> set light_paths. \<forall>k. row ! 2 = Some k \<longrightarrow> k = 0"
    by (simp add: light_paths_def)
  moreover have "light_paths ! s \<in> set light_paths"
    using assms(1) by (intro nth_mem) (simp add: light_paths_def)
  ultimately have "k = 0" using k(1) by blast
  then show ?thesis using k(2) assms(4) by simp
qed

lemma chainback_near:
  assumes inv: "viterbi_inv rs v" and n: "n + 4 = length rs" "n \<le> 8 * length out"
    and p: "length p = length rs" "path_end 0 p = 0" and dist: "seq_dist (path_out 0 p) rs \<le> 2"
  shows "\<exists>ds. length ds = length rs \<and> (\<forall>i < length rs. 2 \<le> i \<longrightarrow> ds ! i = p ! i)
    \<and> (seq_dist (path_out 0 p) rs \<le> 1 \<longrightarrow> ds = p)
    \<and> bits_of (snd (convolution_chainback v out n)) = memcpy (bits_of out) 0 (take n ds)"
proof -
  obtain s0 ds where s0: "s0 < 16" "length ds = length rs" "path_end s0 ds = 0"
    and out: "bits_of (snd (convolution_chainback v out n)) = memcpy (bits_of out) 0 (take n ds)"
    and least: "\<And>q0 es. q0 < 16 \<Longrightarrow> length es = length rs \<Longrightarrow> path_end q0 es = 0 \<Longrightarrow>
        path_cost s0 ds rs \<le> path_cost q0 es rs"
    using chainback_least_cost [OF inv n] by auto
  let ?k = "seq_dist (path_out 0 p) rs"
  have "seq_dist (path_out s0 ds) rs \<le> ?k"
    using least [of 0 p] p s0(2) by (simp add: path_cost_dist)
  moreover have "length (path_out s0 ds) = length rs" "length rs = length (path_out 0 p)" "length ds = length p"
    using s0(2) p(1) by (simp_all only: length_path_out)
  ultimately have w: "path_weight s0 (bit_diff ds p) \<le> 2 * ?k"
    using seq_dist_triangle [of "path_out s0 ds" rs "path_out 0 p"] dist_weight [of ds p s0 0] s0(1) by simp
  have e: "path_end s0 (bit_diff ds p) = 0"
    using path_xor [of ds p s0 0] s0 p by simp
  have len: "length (bit_diff ds p) = length rs" using s0(2) p(1) by simp
  have diff: "bit_diff ds p ! i \<longleftrightarrow> ds ! i \<noteq> p ! i" if "i < length rs" for i
    using bit_diff_nth [of i ds p] that s0(2) p(1) by simp
  have "ds ! i = p ! i" if "i < length rs" "2 \<le> i" for i
  proof (rule ccontr)
    assume "ds ! i \<noteq> p ! i"
    then have "bit_diff ds p ! i" using diff that(1) by simp
    moreover have "path_weight s0 (bit_diff ds p) \<le> 4" using w dist by simp
    moreover have "i < length (bit_diff ds p)" using that(1) unfolding len .
    ultimately have "i < 2" by (intro light_path_ones [OF s0(1) e])
    then show False using that(2) by simp
  qed
  moreover have "ds = p" if "?k \<le> 1"
  proof (rule nth_equalityI)
    fix i assume i: "i < length ds"
    have "path_weight s0 (bit_diff ds p) \<le> 2" using w that by simp
    moreover have "i < length (bit_diff ds p)" using i unfolding len s0(2) .
    ultimately show "ds ! i = p ! i"
      using light_path_none [OF s0(1) e] diff [of i] i s0(2) by simp
  qed (use s0 p in simp)
  ultimately show ?thesis using s0(2) out by blast
qed

section \<open>Dibit interleavers\<close>

definition dibit_pos :: "nat list \<Rightarrow> nat \<Rightarrow> nat" where
  "dibit_pos tab k = tab ! (k div 2) + k mod 2"

definition dibit_pairs :: "nat list \<Rightarrow> bits \<Rightarrow> nat \<Rightarrow> (bool \<times> bool) list" where
  "dibit_pairs tab bs k = map (\<lambda>i. (bs ! dibit_pos tab (2 * i), bs ! dibit_pos tab (2 * i + 1))) [0..<k]"

lemma length_dibit_pairs [simp]: "length (dibit_pairs tab bs k) = k"
  by (simp add: dibit_pairs_def)

lemma dibit_pairs_gather: "flatten_pairs (dibit_pairs tab bs k) = gather (dibit_pos tab) (2 * k) bs"
  by (induction k) (auto simp: dibit_pairs_def gather_def flatten_pairs_def)

lemma dibit_pos_double: "dibit_pos tab (2 * k) = tab ! k" "dibit_pos tab (2 * k + 1) = tab ! k + 1"
  by (simp_all add: dibit_pos_def)

lemma dibit_pairs_dist:
  "seq_dist (dibit_pairs tab a n) (dibit_pairs tab b n)
    = card {k. k < 2 * n \<and> a ! dibit_pos tab k \<noteq> b ! dibit_pos tab k}"
proof (induction n)
  case 0
  then show ?case by (simp add: dibit_pairs_def seq_dist_def)
next
  case (Suc n)
  let ?D = "\<lambda>m. {k. k < m \<and> a ! dibit_pos tab k \<noteq> b ! dibit_pos tab k}"
  have step: "card (?D (Suc m)) = card (?D m) + of_bool (a ! dibit_pos tab m \<noteq> b ! dibit_pos tab m)" for m
  proof -
    have "?D (Suc m) = (if a ! dibit_pos tab m \<noteq> b ! dibit_pos tab m then insert m (?D m) else ?D m)"
      by (auto simp: less_Suc_eq)
    then show ?thesis by simp
  qed
  have "seq_dist (dibit_pairs tab a (Suc n)) (dibit_pairs tab b (Suc n))
      = seq_dist (dibit_pairs tab a n) (dibit_pairs tab b n)
        + of_bool (a ! dibit_pos tab (2 * n) \<noteq> b ! dibit_pos tab (2 * n))
        + of_bool (a ! dibit_pos tab (Suc (2 * n)) \<noteq> b ! dibit_pos tab (Suc (2 * n)))"
    by (simp add: dibit_pairs_def seq_dist_def pair_dist_def)
  then show ?case using Suc step [of "2 * n"] step [of "Suc (2 * n)"] by simp
qed

text \<open>The bits in which two blocks of \<open>B\<close> bytes differ.\<close>

definition block_errors :: "bytes \<Rightarrow> bytes \<Rightarrow> nat" where
  "block_errors a b = card {i. i < 8 * length a \<and> bits_of a ! i \<noteq> bits_of b ! i}"

text \<open>What the encoder writes for an information block whose last four bits are the tail.\<close>

definition channel_of :: "nat list \<Rightarrow> nat \<Rightarrow> bytes \<Rightarrow> bytes \<Rightarrow> bytes \<Rightarrow> bytes" where
  "channel_of tab N info jc jb = interleave_dibits tab N (convolution_encode info jc N) jb"

locale dibit_code = interleaver "dibit_pos tab" "2 * N" for tab :: "nat list" and N :: nat +
  fixes B :: nat
  assumes sizes: "2 * N = 8 * B" "N \<le> 180" "4 \<le> N"
begin

lemma interleave_bits:
  assumes "length bs = B" "length convolved = B" "k \<le> N"
  shows "length (interleave_dibits tab k convolved bs) = B
    \<and> bits_of (interleave_dibits tab k convolved bs) = scatter (dibit_pos tab) (2 * k) (bits_of convolved) (bits_of bs)"
  using assms(3)
proof (induction k)
  case 0
  then show ?case using assms by (simp add: scatter_def interleave_dibits_def)
next
  case (Suc k)
  let ?o = "interleave_dibits tab k convolved bs"
  have b: "dibit_pos tab (2 * k) < 8 * B" "dibit_pos tab (2 * k + 1) < 8 * B"
    using Suc.prems perm_bound [of "2 * k"] perm_bound [of "2 * k + 1"] sizes by simp_all
  have c: "2 * k < 8 * length convolved" "2 * k + 1 < 8 * length convolved" using Suc.prems assms(2) sizes by simp_all
  have "interleave_dibits tab (Suc k) convolved bs
      = WRITE_BIT1 (WRITE_BIT1 ?o (dibit_pos tab (2 * k)) (bits_of convolved ! (2 * k)))
          (dibit_pos tab (2 * k + 1)) (bits_of convolved ! (2 * k + 1))"
    unfolding dibit_pos_double using c by (simp add: interleave_dibits_def Let_def read_bit)
  then show ?case
    using Suc b by (simp add: bits_of_write_bit scatter_def)
qed

lemma decode_dibits_inv:
  assumes "length dch = B" "180 \<le> length (m_decisions v)" "k \<le> N"
  shows "viterbi_inv (dibit_pairs tab (bits_of dch) k) (decode_dibits tab k dch (viterbi_start v))
    \<and> length (m_decisions (decode_dibits tab k dch (viterbi_start v))) = length (m_decisions v)"
  using assms(3)
proof (induction k)
  case 0
  then show ?case using viterbi_start_inv [of v] by (simp add: dibit_pairs_def viterbi_start_def decode_dibits_def)
next
  case (Suc k)
  let ?v = "decode_dibits tab k dch (viterbi_start v)"
  let ?a = "bits_of dch ! dibit_pos tab (2 * k)" and ?b = "bits_of dch ! dibit_pos tab (2 * k + 1)"
  have b: "tab ! k < 8 * length dch" "tab ! k + 1 < 8 * length dch"
    using Suc.prems perm_bound [of "2 * k"] perm_bound [of "2 * k + 1"] sizes assms(1)
    by (simp_all add: dibit_pos_double del: add_Suc_right One_nat_def)
  have "decode_dibits tab (Suc k) dch (viterbi_start v) = convolution_decode (bit_u8 ?a) (bit_u8 ?b) ?v"
    using b unfolding dibit_pos_double
    by (simp add: decode_dibits_def Let_def read_bit bit_u8_def cpp_is_c)
  moreover have "viterbi_inv (dibit_pairs tab (bits_of dch) k @ [(?a, ?b)]) (convolution_decode (bit_u8 ?a) (bit_u8 ?b) ?v)"
    using Suc assms(2) sizes by (intro viterbi_inv_step) auto
  ultimately show ?case
    using Suc by (simp add: dibit_pairs_def)
qed

lemma channel_pairs:
  assumes "length jc = B" "length jb = B" "N \<le> 8 * length info"
  shows "length (channel_of tab N info jc jb) = B"
    "dibit_pairs tab (bits_of (channel_of tab N info jc jb)) N = path_out 0 (take N (bits_of info))"
proof -
  let ?c = "convolution_encode info jc N"
  have c: "bits_of ?c = flatten_pairs (path_out 0 (take N (bits_of info)))" "length ?c = B"
    using convolution_encode_path [of N info jc] assms sizes by (simp_all add: memcpy_def)
  note il = interleave_bits [OF assms(2) c(2), of N]
  show "length (channel_of tab N info jc jb) = B" using il by (simp add: channel_of_def)
  have "flatten_pairs (dibit_pairs tab (bits_of (channel_of tab N info jc jb)) N)
      = flatten_pairs (path_out 0 (take N (bits_of info)))"
    using gather_scatter [of "flatten_pairs (path_out 0 (take N (bits_of info)))" "bits_of jb"] il assms(2,3) sizes(1)
    unfolding dibit_pairs_gather channel_of_def c(1) by simp
  then show "dibit_pairs tab (bits_of (channel_of tab N info jc jb)) N = path_out 0 (take N (bits_of info))"
    using assms(3) by (subst (asm) flatten_pairs_inject) simp_all
qed

lemma channel_determined:
  "length a = B \<Longrightarrow> length b = B \<Longrightarrow> dibit_pairs tab (bits_of a) N = dibit_pairs tab (bits_of b) N \<Longrightarrow> a = b"
  using gather_inject [of "bits_of a" "bits_of b"] sizes
  by (metis bits_of_inject dibit_pairs_gather length_bits_of)

lemma block_errors_dist:
  assumes "length a = B"
  shows "block_errors a b = seq_dist (dibit_pairs tab (bits_of a) N) (dibit_pairs tab (bits_of b) N)"
proof -
  let ?E = "{i. i < 8 * B \<and> bits_of a ! i \<noteq> bits_of b ! i}"
  let ?D = "{k. k < 2 * N \<and> bits_of a ! dibit_pos tab k \<noteq> bits_of b ! dibit_pos tab k}"
  have "dibit_pos tab ` ?D = ?E"
  proof (intro equalityI subsetI)
    fix i assume "i \<in> dibit_pos tab ` ?D"
    then show "i \<in> ?E" using perm_bound sizes by auto
  next
    fix i assume i: "i \<in> ?E"
    then have "i \<in> dibit_pos tab ` {..<2 * N}" using perm_surj sizes by simp
    with i show "i \<in> dibit_pos tab ` ?D" by auto
  qed
  moreover have "inj_on (dibit_pos tab) ?D"
    using perm_inj by (rule inj_on_subset) auto
  ultimately have "card ?E = card ?D" using card_image [of "dibit_pos tab" ?D] by simp
  then show ?thesis using dibit_pairs_dist [of tab "bits_of a" N "bits_of b"] assms by (simp add: block_errors_def)
qed

lemma channel_decode:
  assumes "length jc = B" "length jb = B" "N \<le> 8 * length info"
    and tail: "drop (N - 4) (take N (bits_of info)) = replicate 4 False"
    and "length received = B" "180 \<le> length (m_decisions v)" "N - 4 \<le> 8 * length out"
    and errors: "block_errors (channel_of tab N info jc jb) received \<le> 2"
  shows "\<exists>ds. length ds = N - 4 \<and> (\<forall>i < N - 4. 2 \<le> i \<longrightarrow> ds ! i = bits_of info ! i)
    \<and> (block_errors (channel_of tab N info jc jb) received \<le> 1 \<longrightarrow> ds = take (N - 4) (bits_of info))
    \<and> bits_of (snd (convolution_chainback (decode_dibits tab N received (viterbi_start v)) out (N - 4)))
        = memcpy (bits_of out) 0 ds"
proof -
  let ?p = "take N (bits_of info)" and ?rs = "dibit_pairs tab (bits_of received) N"
  note ch = channel_pairs [OF assms(1-3)]
  have inv: "viterbi_inv ?rs (decode_dibits tab N received (viterbi_start v))"
    using decode_dibits_inv [OF assms(5,6), of N] by simp
  have pl: "length ?p = length ?rs" using assms(3) by simp
  have n4: "take (N - 4) ?p = take (N - 4) (bits_of info)" "N - 4 \<le> N" "N \<le> length (bits_of info)"
    using assms(3) by simp_all
  have four: "replicate 4 False = [False, False, False, False]" by (simp add: numeral_eq_Suc)
  have "path_end 0 ?p = path_end 0 (take (N - 4) ?p @ drop (N - 4) ?p)" by (simp only: append_take_drop_id)
  then have pe: "path_end 0 ?p = 0" by (simp only: tail path_end_append four path_end_flush)
  have dist: "seq_dist (path_out 0 ?p) ?rs = block_errors (channel_of tab N info jc jb) received"
    unfolding block_errors_dist [OF ch(1)] ch(2) ..
  have n: "(N - 4) + 4 = length ?rs" using sizes by simp
  from chainback_near [OF inv n assms(7) pl pe]
  obtain ds where ds: "length ds = length ?rs" "\<forall>i < length ?rs. 2 \<le> i \<longrightarrow> ds ! i = ?p ! i"
    "seq_dist (path_out 0 ?p) ?rs \<le> 1 \<longrightarrow> ds = ?p"
    "bits_of (snd (convolution_chainback (decode_dibits tab N received (viterbi_start v)) out (N - 4)))
      = memcpy (bits_of out) 0 (take (N - 4) ds)"
    using errors dist by auto
  show ?thesis
  proof (intro exI [of _ "take (N - 4) ds"] conjI)
    show "length (take (N - 4) ds) = N - 4" using ds(1) by simp
    show "\<forall>i < N - 4. 2 \<le> i \<longrightarrow> take (N - 4) ds ! i = bits_of info ! i" using ds(2) by simp
    show "block_errors (channel_of tab N info jc jb) received \<le> 1 \<longrightarrow> take (N - 4) ds = take (N - 4) (bits_of info)"
      using ds(3) unfolding dist n4(1) [symmetric] by blast
  qed (rule ds(4))
qed

end

end
