(* ===== verification/Ysf_Payload_Blocks.thy ===== *)
theory Ysf_Payload_Blocks
  imports Ysf_Channel
begin

text \<open>
  The blocks of a YSF payload: where the pieces of a channel lie, the whitening, the checksum and what
  it detects, and the two channel codes with their checked information blocks.
\<close>

section \<open>Pieces\<close>

lemma upt_5: "[0..<5] = [0, 1, 2, 3, 4 :: nat]" by (simp add: upt_rec)

lemma length_pieces [simp]:
  "w * 5 \<le> length dch \<Longrightarrow> off + 72 + w \<le> length data \<Longrightarrow> length (read_pieces w off data dch) = length dch"
  "length bs = 5 * w \<Longrightarrow> off + 72 + w \<le> length data \<Longrightarrow> length (write_pieces w off bs data) = length data"
  by (simp_all add: read_pieces_def write_pieces_def upt_5)

lemma length_concat_pieces: "\<forall>i < k. length (f i) = w \<Longrightarrow> length (concat (map f [0..<k])) = w * k"
  by (induction k) auto

lemma read_pieces_loop:
  assumes "w * k \<le> length dch" "\<forall>i < k. length (f i) = w"
  shows "fold (\<lambda>i p2. memcpy p2 (w * i) (f i)) [0..<k] dch = memcpy dch 0 (concat (map f [0..<k]))"
  using assms
proof (induction k)
  case (Suc k)
  then show ?case
    using memcpy_append [of 0 "concat (map f [0..<k])" "f k" dch] length_concat_pieces [of k f w] by simp
qed (simp add: memcpy_def)

lemma read_pieces_eq:
  assumes "length dch = 5 * w" "off + 72 + w \<le> length data"
  shows "read_pieces w off data dch = concat (map (\<lambda>i. sub_buf data (off + 18 * i) w) [0..<5])"
proof -
  have l: "\<forall>i < 5. length (sub_buf data (off + 18 * i) w) = w" using assms(2) by auto
  show ?thesis
    unfolding read_pieces_def using assms(1) length_concat_pieces [OF l]
    by (subst read_pieces_loop [OF _ l]) (simp_all add: memcpy_whole)
qed

text \<open>Block \<open>w\<close> bytes wide at an offset.\<close>

definition channel_block :: "nat \<Rightarrow> nat \<Rightarrow> bytes \<Rightarrow> bytes" where
  "channel_block w off data = concat (map (\<lambda>i. sub_buf data (off + 18 * i) w) [0..<5])"

lemma length_channel_block: "off + 72 + w \<le> length data \<Longrightarrow> length (channel_block w off data) = 5 * w"
  by (simp add: channel_block_def upt_5)

lemma piece_of_write:
  assumes "length bs = 5 * w" "w \<le> 18" "off + 72 + w \<le> length data" "i < 5"
  shows "sub_buf (write_pieces w off bs data) (off + 18 * i) w = sub_buf bs (w * i) w"
proof -
  have "i = 0 \<or> i = 1 \<or> i = 2 \<or> i = 3 \<or> i = 4" using assms(4) by arith
  then show ?thesis
    by (elim disjE; use assms(1-3) in \<open>simp add: write_pieces_def upt_5 sub_buf_memcpy_other flip: One_nat_def\<close>)
qed

lemma block_of_write:
  assumes "length bs = 5 * w" "w \<le> 18" "off + 72 + w \<le> length data"
  shows "channel_block w off (write_pieces w off bs data) = bs"
proof -
  have "channel_block w off (write_pieces w off bs data) = concat (map (\<lambda>i. sub_buf bs (w * i) w) [0..<5])"
    unfolding channel_block_def by (rule arg_cong [where f = concat]) (use piece_of_write [OF assms] in simp)
  also have "\<dots> = sub_buf bs 0 (5 * w)"
  proof -
    have "concat (map (\<lambda>i. sub_buf bs (w * i) w) [0..<k]) = sub_buf bs 0 (w * k)" for k
    proof (induction k)
      case (Suc k)
      have "w * Suc k = w * k + w" by simp
      then show ?case using Suc by (simp only: sub_buf_def take_add) simp
    qed (simp add: sub_buf_def)
    from this [of 5] show ?thesis by (simp only: mult.commute)
  qed
  finally show ?thesis using assms(1) by (simp add: sub_buf_def)
qed

text \<open>A read that the pieces do not touch.\<close>

lemma write_elsewhere:
  assumes "length bs = 5 * w" "off + 72 + w \<le> length data" "o' + n \<le> length data"
    "\<forall>i < 5. o' + n \<le> off + 18 * i \<or> off + 18 * i + w \<le> o'"
  shows "sub_buf (write_pieces w off bs data) o' n = sub_buf data o' n"
proof -
  have "o' + n \<le> off + 18 * i \<or> off + 18 * i + w \<le> o'" if "i < 5" for i using assms(4) that by blast
  from this [of 0] this [of 1] this [of 2] this [of 3] this [of 4] show ?thesis
    using assms(1-3) by (simp add: write_pieces_def upt_5 sub_buf_memcpy_other flip: One_nat_def)
qed

section \<open>Whitening\<close>

definition masked :: "nat \<Rightarrow> bytes \<Rightarrow> bytes" where
  "masked n dt = map (\<lambda>i. dt ! i XOR YP_WHITENING_DATA ! i) [0..<n]"

lemma length_masked [simp]: "length (masked n dt) = n"
  by (simp add: masked_def)

lemma mask_loop:
  assumes "n \<le> length out"
  shows "fold (\<lambda>i out. out[i := f i]) [0..<n] out = map f [0..<n] @ drop n out"
  using assms
proof (induction n)
  case (Suc n)
  then have "fold (\<lambda>i out. out[i := f i]) [0..<Suc n] out = (map f [0..<n] @ drop n out)[n := f n]" by simp
  also have "drop n out = out ! n # drop (Suc n) out" using Suc.prems by (simp add: Cons_nth_drop_Suc)
  finally show ?case by (simp add: list_update_append)
qed simp

lemma whiten_eq:
  assumes "n \<le> length out"
  shows "whiten n out = masked n out @ drop n out"
  using assms
proof (induction n)
  case (Suc n)
  then have "whiten (Suc n) out = (masked n out @ drop n out)[n := out ! n XOR YP_WHITENING_DATA ! n]"
    by (simp add: whiten_def nth_append)
  also have "drop n out = out ! n # drop (Suc n) out" using Suc.prems by (simp add: Cons_nth_drop_Suc)
  finally show ?case by (simp add: list_update_append masked_def)
qed (simp add: whiten_def masked_def)

lemma length_whiten [simp]: "n \<le> length out \<Longrightarrow> length (whiten n out) = length out"
  by (simp add: whiten_eq)

lemma masked_masked: "length dt = n \<Longrightarrow> masked n (masked n dt @ rest) = dt"
  by (rule nth_equalityI) (simp_all add: masked_def nth_append xor.assoc)

lemma whiten_whiten: "n \<le> length out \<Longrightarrow> whiten n (whiten n out) = out"
proof -
  assume n: "n \<le> length out"
  have "masked n (masked n out @ drop n out) = take n out"
    by (rule nth_equalityI) (use n in \<open>simp_all add: masked_def nth_append xor.assoc\<close>)
  then show ?thesis using n by (simp add: whiten_eq)
qed

section \<open>The checksum of a block\<close>

definition crc_tail :: "bytes \<Rightarrow> bytes" where
  "crc_tail m = (let c = NOT (fold crc_bit (bits_of m) 0) in [crc8_1 c, crc8_0 c])"

lemma length_crc_tail [simp]: "length (crc_tail m) = 2"
  by (simp add: crc_tail_def Let_def)

definition info_block :: "bytes \<Rightarrow> bytes" where
  "info_block m = m @ crc_tail m @ [0]"

lemma length_info_block [simp]: "length (info_block m) = length m + 3"
  by (simp add: info_block_def)

lemma add_crc_block:
  assumes "n + 3 \<le> length out" "take n out = m"
  shows "take (n + 3) ((CCRC_addCCITT162 out (n + 2))[n + 2 := 0]) = info_block m"
    "length ((CCRC_addCCITT162 out (n + 2))[n + 2 := 0]) = length out"
proof -
  obtain a b c rest where out: "out = m @ a # b # c # rest"
  proof -
    have "out = take n out @ drop n out" by simp
    moreover have "3 \<le> length (drop n out)" using assms(1) by simp
    then obtain a b c rest where "drop n out = a # b # c # rest"
      by (auto simp: numeral_eq_Suc Suc_le_length_iff simp del: length_drop)
    ultimately show ?thesis using that assms(2) by metis
  qed
  have n: "length m = n" using assms by auto
  have "fold (\<lambda>i c. crc_update c (out ! i)) [0..<n] 0 = fold crc_bit (bits_of m) 0"
    using crc_loop_bits [of n out 0] assms by simp
  then show "take (n + 3) ((CCRC_addCCITT162 out (n + 2))[n + 2 := 0]) = info_block m"
    using n by (simp add: CCRC_addCCITT162_eq addCCITT162_def Let_def out list_update_append info_block_def crc_tail_def
        numeral_eq_Suc)
  show "length ((CCRC_addCCITT162 out (n + 2))[n + 2 := 0]) = length out"
    by (simp add: CCRC_addCCITT162_eq)
qed

lemma check_crc_block:
  assumes "n + 2 \<le> length out"
  shows "CCRC_checkCCITT162 out (n + 2) \<longleftrightarrow> sub_buf out n 2 = crc_tail (take n out)"
proof -
  have "fold (\<lambda>i c. crc_update c (out ! i)) [0..<n] 0 = fold crc_bit (bits_of (take n out)) 0"
    using crc_loop_bits [of n out 0] assms by simp
  moreover have "sub_buf out n 2 = [out ! n, out ! Suc n]"
    using assms by (simp add: sub_buf_def Cons_nth_drop_Suc [symmetric] numeral_eq_Suc)
  ultimately show ?thesis
    by (auto simp: CCRC_checkCCITT162_def CRC_update_eq crc_tail_def Let_def crc8_0_def crc8_1_def)
qed

text \<open>The checksum sees every change of the first two bits.\<close>

lemma crc_bit_inject: "crc_bit b c = crc_bit b c' \<Longrightarrow> c = c'"
proof -
  assume eq: "crc_bit b c = crc_bit b c'"
  have low: "bit (crc_bit b x) 0 \<longleftrightarrow> (bit x 15 \<noteq> b)" for x
    by (cases "bit x 15"; cases b; simp only: crc_bit_def bit_xor_iff bit_push_bit_iff; simp)
  have "bit c 15 = bit c' 15" using low [of c] low [of c'] eq by auto
  then have "push_bit 1 c XOR (if bit c' 15 \<noteq> b then 0x1021 else 0) = push_bit 1 c' XOR (if bit c' 15 \<noteq> b then 0x1021 else 0)"
    using eq by (simp only: crc_bit_def)
  moreover have "p = q" if "p XOR r = q XOR r" for p q r :: u16
    using that by (metis xor.assoc xor_self_eq xor.right_neutral)
  ultimately have "push_bit 1 c = push_bit 1 c'" by blast
  then have "bit (push_bit 1 c) (Suc i) = bit (push_bit 1 c') (Suc i)" for i by (simp only:)
  then have step: "bit c i = bit c' i" if "i < 15" for i
    using that by (simp only: bit_push_bit_iff) (auto simp: possible_bit_def)
  show "c = c'"
  proof (rule bit_word_eqI)
    fix i assume "i < LENGTH(16)"
    then have "i < 15 \<or> i = 15" by auto
    then show "bit c i = bit c' i" using step \<open>bit c 15 = bit c' 15\<close> by auto
  qed
qed

lemma crc_bits_inject: "fold crc_bit bs c = fold crc_bit bs c' \<Longrightarrow> c = c'"
  by (induction bs arbitrary: c c') (auto dest: crc_bit_inject)

lemma crc_two_bits: "crc_bit b1 (crc_bit b0 0) = crc_bit b1' (crc_bit b0' 0) \<Longrightarrow> b0 = b0' \<and> b1 = b1'"
  by (cases b0; cases b1; cases b0'; cases b1') (simp_all add: crc_bit_def bit_simps bit_numeral_rec)

lemma crc_detects:
  assumes "length m = n" "length m' = n" "0 < n" "crc_tail m = crc_tail m'"
    "\<forall>i < 8 * n. 2 \<le> i \<longrightarrow> bits_of m ! i = bits_of m' ! i"
  shows "m = m'"
proof -
  let ?c = "fold crc_bit (bits_of m) 0" and ?c' = "fold crc_bit (bits_of m') 0"
  have bytes: "ucast (NOT ?c) = (ucast (NOT ?c') :: u8)" "ucast (drop_bit 8 (NOT ?c)) = (ucast (drop_bit 8 (NOT ?c')) :: u8)"
    using assms(4) by (simp_all only: crc_tail_def crc8_0_def crc8_1_def Let_def list.inject)
  have "bit ?c i = bit ?c' i" if "i < 16" for i
  proof (cases "i < 8")
    case True
    then show ?thesis using arg_cong [where f = "\<lambda>w. bit w i", OF bytes(1)] by (simp add: bit_ucast_iff bit_not_iff possible_bit_def)
  next
    case False
    then have "i - 8 < 8" using that by linarith
    then show ?thesis using False that arg_cong [where f = "\<lambda>w. bit w (i - 8)", OF bytes(2)]
      by (simp add: bit_ucast_iff bit_not_iff bit_drop_bit_eq possible_bit_def)
  qed
  then have eq: "?c = ?c'" by (intro bit_word_eqI) simp
  obtain a b r where m: "bits_of m = a # b # r"
    using assms(1,3) by (cases "bits_of m"; cases "tl (bits_of m)") (auto simp: length_Suc_conv dest: arg_cong [where f = length])
  obtain a' b' r' where m': "bits_of m' = a' # b' # r'"
    using assms(2,3) by (cases "bits_of m'"; cases "tl (bits_of m')") (auto simp: length_Suc_conv dest: arg_cong [where f = length])
  have "r = r'"
  proof (rule nth_equalityI)
    have l: "length (bits_of m) = 8 * n" "length (bits_of m') = 8 * n" using assms(1,2) by simp_all
    then show "length r = length r'" by (simp add: m m')
    fix i assume "i < length r"
    then have "i + 2 < 8 * n" using l(1) by (simp add: m)
    then show "r ! i = r' ! i" using assms(5) by (auto simp: m m' dest!: spec [of _ "i + 2"])
  qed
  moreover have "crc_bit b (crc_bit a 0) = crc_bit b' (crc_bit a' 0)"
    using eq \<open>r = r'\<close> crc_bits_inject [of r] by (simp add: m m')
  ultimately have "bits_of m = bits_of m'" using crc_two_bits by (simp add: m m')
  then show ?thesis using assms(1,2) by simp
qed

section \<open>The two channels\<close>

lemma dibit_interleaver:
  assumes w: "0 < w" and tab: "tab = map (\<lambda>i. 40 * (i mod w) + 2 * (i div w)) [0..<20 * w]"
  shows "interleaver (dibit_pos tab) (2 * (20 * w))"
proof
  have pos: "dibit_pos tab k = 40 * (k div 2 mod w) + (2 * (k div 2 div w) + k mod 2)
      \<and> k div 2 div w < 20 \<and> k div 2 mod w < w" if "k < 2 * (20 * w)" for k
  proof -
    have k: "k div 2 < 20 * w" using that by linarith
    moreover from k have "k div 2 div w < 20" using less_mult_imp_div_less [of "k div 2" 20 w] by simp
    ultimately show ?thesis using w by (simp add: dibit_pos_def tab)
  qed
  show "dibit_pos tab i < 2 * (20 * w)" if "i < 2 * (20 * w)" for i
  proof -
    have "40 * (i div 2 mod w) + 40 \<le> 40 * w" "i mod 2 < 2" using pos [OF that] by simp_all
    then show ?thesis using pos [OF that] by linarith
  qed
  show "inj_on (dibit_pos tab) {..<2 * (20 * w)}"
  proof (rule inj_onI)
    fix i j assume ij: "i \<in> {..<2 * (20 * w)}" "j \<in> {..<2 * (20 * w)}" "dibit_pos tab i = dibit_pos tab j"
    have p: "i div 2 div w < 20" "j div 2 div w < 20" "i mod 2 < 2" "j mod 2 < 2"
      and eq: "40 * (i div 2 mod w) + (2 * (i div 2 div w) + i mod 2) = 40 * (j div 2 mod w) + (2 * (j div 2 div w) + j mod 2)"
      using pos [of i] pos [of j] ij by auto
    have "i div 2 mod w = j div 2 mod w \<and> 2 * (i div 2 div w) + i mod 2 = 2 * (j div 2 div w) + j mod 2"
      by (rule mixed_radix_inject [OF eq]) (use p in linarith)+
    moreover from this have "i div 2 div w = j div 2 div w \<and> i mod 2 = j mod 2"
      using mixed_radix_inject [of 2 "i div 2 div w" "i mod 2" "j div 2 div w" "j mod 2"] p by simp
    ultimately show "i = j" by (metis div_mult_mod_eq)
  qed
qed

locale checked_channel = dibit_code tab N B for tab :: "nat list" and N B :: nat +
  fixes n :: nat
  assumes info: "N = 8 * n + 20" "2 \<le> n"
begin

lemma block_sent:
  assumes "length m = n" "n + 3 \<le> length out" "take (n + 3) out = info_block m" "length jc = B" "length jb = B"
  shows "length (channel_of tab N out jc jb) = B" "N \<le> 8 * length out"
    "channel_of tab N out jc jb = channel_of tab N (info_block m) (replicate B 0) (replicate B 0)"
    "drop (N - 4) (take N (bits_of out)) = replicate 4 False"
    "take (N - 4) (bits_of out) = bits_of (m @ crc_tail m)"
proof -
  have N: "N \<le> 8 * length out" "N \<le> 8 * (n + 3)" using assms(2) info by simp_all
  have bits: "take N (bits_of out) = take N (bits_of (info_block m))"
  proof -
    have "bits_of out = bits_of (take (n + 3) out) @ bits_of (drop (n + 3) out)"
      by (simp only: bits_of_append [symmetric] append_take_drop_id)
    then show ?thesis using assms(1,3) N by simp
  qed
  have "bits_of (info_block m) = bits_of (m @ crc_tail m) @ replicate 8 False"
    by (simp add: info_block_def bits_zero_byte)
  moreover have "length (bits_of (m @ crc_tail m)) = N - 4" using assms(1) info by simp
  ultimately have t: "take N (bits_of out) = bits_of (m @ crc_tail m) @ replicate 4 False"
    using bits info assms(1) by (simp add: min_def)
  show "drop (N - 4) (take N (bits_of out)) = replicate 4 False" unfolding t using info assms(1) by simp
  have "take (N - 4) (take N (bits_of out)) = bits_of (m @ crc_tail m)" unfolding t using info assms(1) by simp
  then show "take (N - 4) (bits_of out) = bits_of (m @ crc_tail m)" by (simp add: min_def)
  show "N \<le> 8 * length out" by (rule N)
  note ch = channel_pairs [OF assms(4,5) N(1)]
  show "length (channel_of tab N out jc jb) = B" by (rule ch)
  have i: "N \<le> 8 * length (info_block m)" using assms(1) info by simp
  note ch' = channel_pairs [of "replicate B 0" "replicate B 0" "info_block m", OF _ _ i]
  show "channel_of tab N out jc jb = channel_of tab N (info_block m) (replicate B 0) (replicate B 0)"
    by (rule channel_determined) (simp_all add: ch ch' bits)
qed

text \<open>The block that a checked message is sent as, and what a receiver makes of it.\<close>

lemma block_received:
  assumes "length m = n" and rcv: "length received = B" and dec: "180 \<le> length (m_decisions v)" and out: "n + 2 \<le> length out"
  defines "sent \<equiv> channel_of tab N (info_block m) (replicate B 0) (replicate B 0)"
  defines "got \<equiv> snd (convolution_chainback (decode_dibits tab N received (viterbi_start v)) out (8 * n + 16))"
  assumes errors: "block_errors sent received \<le> 2"
  shows "length got = length out" "block_errors sent received \<le> 1 \<Longrightarrow> CCRC_checkCCITT162 got (n + 2)"
    "CCRC_checkCCITT162 got (n + 2) \<Longrightarrow> take n got = m"
proof -
  have N: "N - 4 = 8 * n + 16" using info by simp
  have own: "n + 3 \<le> length (info_block m)" "take (n + 3) (info_block m) = info_block m"
    using assms(1) by simp_all
  note bs = block_sent [OF assms(1) own length_replicate [of B 0] length_replicate [of B 0]]
  have "N - 4 \<le> 8 * length out" using info out by simp
  from channel_decode [OF length_replicate [of B 0] length_replicate [of B 0] bs(2) bs(4) rcv dec this]
  obtain ds where ds: "length ds = N - 4" "\<forall>i < N - 4. 2 \<le> i \<longrightarrow> ds ! i = bits_of (info_block m) ! i"
    "block_errors sent received \<le> 1 \<longrightarrow> ds = bits_of (m @ crc_tail m)"
    "bits_of got = memcpy (bits_of out) 0 ds"
    using errors bs(5) unfolding sent_def got_def N by auto
  show l: "length got = length out" by (simp add: got_def)
  have "take (8 * (n + 2)) (bits_of got) = ds"
    unfolding ds(4) using ds(1) N out by (simp add: memcpy_def)
  moreover have "take (8 * (n + 2)) (bits_of got) = bits_of (take (n + 2) got)"
  proof -
    have "bits_of got = bits_of (take (n + 2) got) @ bits_of (drop (n + 2) got)"
      by (simp only: bits_of_append [symmetric] append_take_drop_id)
    then show ?thesis using l out by simp
  qed
  ultimately have bits: "bits_of (take (n + 2) got) = ds" by simp
  have parts: "take (n + 2) got = take n got @ sub_buf got n 2"
    by (simp only: sub_buf_def take_add)
  have lens: "length (take n got) = n" "length (sub_buf got n 2) = 2" using l out by simp_all
  show "CCRC_checkCCITT162 got (n + 2)" if "block_errors sent received \<le> 1"
  proof -
    have "take (n + 2) got = m @ crc_tail m" using bits ds(3) that lens parts assms(1) by simp
    then have "take n got @ sub_buf got n 2 = m @ crc_tail m" by (simp only: parts)
    then have a: "take n got = m" "sub_buf got n 2 = crc_tail m" using lens assms(1) by (auto simp: append_eq_append_conv)
    have "n + 2 \<le> length got" using l out by simp
    then show ?thesis by (simp only: check_crc_block a)
  qed
  show "take n got = m" if "CCRC_checkCCITT162 got (n + 2)"
  proof -
    have tail: "sub_buf got n 2 = crc_tail (take n got)" using check_crc_block [of n got] that l out by simp
    have same: "(bits_of (take n got) @ bits_of (crc_tail (take n got))) ! i = (bits_of m @ bits_of (crc_tail m)) ! i"
      if "i < 8 * n + 16" "2 \<le> i" for i
    proof -
      have "bits_of (take (n + 2) got) ! i = bits_of (info_block m) ! i" using ds(2) bits that N by simp
      moreover have "bits_of (info_block m) = (bits_of m @ bits_of (crc_tail m)) @ byte_bits 0" by (simp add: info_block_def)
      moreover have "((bits_of m @ bits_of (crc_tail m)) @ byte_bits 0) ! i = (bits_of m @ bits_of (crc_tail m)) ! i"
        by (subst nth_append) (use that assms(1) in simp)
      ultimately show ?thesis by (simp only: parts tail bits_of_append)
    qed
    have "crc_tail (take n got) = crc_tail m"
    proof -
      have "bits_of (crc_tail (take n got)) = bits_of (crc_tail m)"
      proof (rule nth_equalityI)
        fix i assume "i < length (bits_of (crc_tail (take n got)))"
        then show "bits_of (crc_tail (take n got)) ! i = bits_of (crc_tail m) ! i"
          using same [of "8 * n + i"] lens assms(1) info by (simp add: nth_append)
      qed simp
      then show ?thesis by simp
    qed
    moreover have "bits_of (take n got) ! i = bits_of m ! i" if "i < 8 * n" "2 \<le> i" for i
      using same [of i] that lens assms(1) by (simp add: nth_append)
    ultimately show ?thesis using crc_detects [of "take n got" n m] lens assms(1) info by simp
  qed
qed

end

interpretation csd: checked_channel INTERLEAVE_TABLE_9_20 180 45 20
proof -
  have "INTERLEAVE_TABLE_9_20 = map (\<lambda>i. 40 * (i mod 9) + 2 * (i div 9)) [0..<20 * 9]"
    unfolding INTERLEAVE_TABLE_9_20_def by (simp add: upt_rec)
  then have "interleaver (dibit_pos INTERLEAVE_TABLE_9_20) (2 * 180)" using dibit_interleaver [of 9] by simp
  then show "checked_channel INTERLEAVE_TABLE_9_20 180 45 20"
    by (simp add: checked_channel_def checked_channel_axioms_def dibit_code_def dibit_code_axioms_def)
qed

interpretation dch: checked_channel INTERLEAVE_TABLE_5_20 100 25 10
proof -
  have "INTERLEAVE_TABLE_5_20 = map (\<lambda>i. 40 * (i mod 5) + 2 * (i div 5)) [0..<20 * 5]"
    unfolding INTERLEAVE_TABLE_5_20_def by (simp add: upt_rec)
  then have "interleaver (dibit_pos INTERLEAVE_TABLE_5_20) (2 * 100)" using dibit_interleaver [of 5] by simp
  then show "checked_channel INTERLEAVE_TABLE_5_20 100 25 10"
    by (simp add: checked_channel_def checked_channel_axioms_def dibit_code_def dibit_code_axioms_def)
qed

end
