(* ===== verification/Ysf_Payload_Props.thy ===== *)
theory Ysf_Payload_Props
  imports Ysf_Payload_Blocks Mode_Conv_Ysf
begin

text \<open>
  The payload of a YSF frame survives the air: a header with up to two wrong bits in a channel is read
  correctly or rejected, and repaired; the data channel of a voice frame is read back and does not
  disturb the voice channels of the frame.
\<close>

section \<open>One channel of a header\<close>

text \<open>The sizes of the local arrays, which the functions declare.\<close>

definition locals_ok :: "nat \<Rightarrow> nat \<Rightarrow> ysf_locals \<Rightarrow> bool" where
  "locals_ok k n l \<longleftrightarrow> length (l_dch l) = k \<and> length (l_output l) = n \<and> length (l_convolved l) = k
     \<and> length (l_bytes l) = k \<and> length (m_decisions (l_conv l)) = 180"

definition csd_channel :: "bytes \<Rightarrow> bytes" where
  "csd_channel dt = channel_of INTERLEAVE_TABLE_9_20 180 (info_block (masked 20 dt)) (replicate 45 0) (replicate 45 0)"

lemma length_csd_channel [simp]: "length (csd_channel dt) = 45"
  using csd.channel_pairs(1) [of "replicate 45 0" "replicate 45 0" "info_block (masked 20 dt)"]
  by (simp add: csd_channel_def)

lemma write_block20_channel:
  assumes "length dt = 20" "locals_ok 45 25 l"
  shows "write_block20 off l dt data = write_pieces 9 off (csd_channel dt) data"
proof -
  let ?m = "fold (\<lambda>i out. out[i := dt ! i XOR YP_WHITENING_DATA ! i]) [0..<20] (l_output l)"
  let ?o = "(CCRC_addCCITT162 ?m 22)[22 := 0]"
  have l: "length (l_output l) = 25" "length (l_convolved l) = 45" "length (l_bytes l) = 45"
    using assms(2) by (simp_all add: locals_ok_def)
  have m: "?m = masked 20 dt @ drop 20 (l_output l)"
    using mask_loop [of 20 "l_output l" "\<lambda>i. dt ! i XOR YP_WHITENING_DATA ! i"] l by (simp add: masked_def)
  have o: "take 23 ?o = info_block (masked 20 dt)" "length ?o = 25"
    using add_crc_block [of 20 ?m "masked 20 dt"] l unfolding m by simp_all
  have "interleave_dibits INTERLEAVE_TABLE_9_20 180 (YSFConvolution_encode ?o (l_convolved l) 180) (l_bytes l) = csd_channel dt"
    using csd.block_sent(3) [of "masked 20 dt" ?o "l_convolved l" "l_bytes l"] o l
    by (simp add: channel_of_def csd_channel_def YSFConvolution_encode_eq)
  then show ?thesis by (simp only: write_block20_def Let_def)
qed

lemma header_channels:
  assumes "length csd1 = 20" "length csd2 = 20" "length data = 120" "locals_ok 45 25 l1" "locals_ok 45 25 l2"
  shows "length (ysf_payload_write_header l1 l2 data csd1 csd2) = 120"
    "channel_block 9 30 (ysf_payload_write_header l1 l2 data csd1 csd2) = csd_channel csd1"
    "channel_block 9 39 (ysf_payload_write_header l1 l2 data csd1 csd2) = csd_channel csd2"
proof -
  let ?d1 = "write_pieces 9 30 (csd_channel csd1) data"
  have e: "ysf_payload_write_header l1 l2 data csd1 csd2 = write_pieces 9 39 (csd_channel csd2) ?d1"
    by (simp add: ysf_payload_write_header_def writeHeader_def writeDataFRModeData1_def writeDataFRModeData2_def
        write_block20_channel assms)
  have l: "length ?d1 = 120" using assms(3) by simp
  show "length (ysf_payload_write_header l1 l2 data csd1 csd2) = 120" unfolding e using l by simp
  show "channel_block 9 39 (ysf_payload_write_header l1 l2 data csd1 csd2) = csd_channel csd2"
    unfolding e using l by (intro block_of_write) simp_all
  have "channel_block 9 30 (write_pieces 9 39 (csd_channel csd2) ?d1) = channel_block 9 30 ?d1"
    unfolding channel_block_def
    by (rule arg_cong [where f = concat], rule map_cong [OF refl], rule write_elsewhere) (use l in auto)
  also have "\<dots> = csd_channel csd1" using assms(3) by (intro block_of_write) simp_all
  finally show "channel_block 9 30 (ysf_payload_write_header l1 l2 data csd1 csd2) = csd_channel csd1"
    unfolding e .
qed

text \<open>The receiver's way through one channel, and the repaired channel.\<close>

lemma csd_received:
  assumes "length dt = 20" "length rcv = 45" "length (m_decisions v) = 180" "length out = 23"
    "length jc = 45" "length jb = 45" and errors: "block_errors (csd_channel dt) rcv \<le> 2"
  defines "got \<equiv> snd (YSFConvolution_chainback (decode_dibits INTERLEAVE_TABLE_9_20 180 rcv (YSFConvolution_start v)) out 176)"
  defines "again \<equiv> (CCRC_addCCITT162 (whiten 20 (whiten 20 got)) 22)[22 := 0]"
  shows "length got = 23" "length again = 23"
    "block_errors (csd_channel dt) rcv \<le> 1 \<Longrightarrow> CCRC_checkCCITT162 got 22"
    "CCRC_checkCCITT162 got 22 \<Longrightarrow> take 20 (whiten 20 got) = dt"
    "CCRC_checkCCITT162 got 22 \<Longrightarrow>
      interleave_dibits INTERLEAVE_TABLE_9_20 180 (YSFConvolution_encode again jc 180) jb = csd_channel dt"
proof -
  have g: "got = snd (convolution_chainback (decode_dibits INTERLEAVE_TABLE_9_20 180 rcv (viterbi_start v)) out (8 * 20 + 16))"
    by (simp add: got_def cpp_is_c)
  have d: "180 \<le> length (m_decisions v)" "20 + 2 \<le> length out" "length (masked 20 dt) = 20" using assms(3,4) by simp_all
  note r = csd.block_received [OF d(3) assms(2) d(1,2) errors [unfolded csd_channel_def], folded g csd_channel_def]
  show l: "length got = 23" using r(1) assms(4) by simp
  show "block_errors (csd_channel dt) rcv \<le> 1 \<Longrightarrow> CCRC_checkCCITT162 got 22" using r(2) by simp
  have twice: "whiten 20 (whiten 20 got) = got" using l by (intro whiten_whiten) simp
  show la: "length again = 23" using l by (simp add: again_def twice CCRC_addCCITT162_eq)
  assume c: "CCRC_checkCCITT162 got 22"
  then have t: "take 20 got = masked 20 dt" using r(3) by simp
  have "masked 20 got = masked 20 (masked 20 dt @ drop 20 got)" by (simp only: t [symmetric] append_take_drop_id)
  then show "take 20 (whiten 20 got) = dt" using l assms(1) by (simp add: whiten_eq masked_masked)
  have "take 23 again = info_block (masked 20 dt)" "length again = 23"
    using add_crc_block [of 20 got "masked 20 dt"] l t by (simp_all add: again_def twice)
  then show "interleave_dibits INTERLEAVE_TABLE_9_20 180 (YSFConvolution_encode again jc 180) jb = csd_channel dt"
    using csd.block_sent(3) [of "masked 20 dt" again jc jb] assms(5,6)
    by (simp add: channel_of_def csd_channel_def YSFConvolution_encode_eq)
qed

lemma cpp_chainback_decisions [simp]: "m_decisions (fst (YSFConvolution_chainback v out n)) = m_decisions v"
proof -
  have "m_decisions (fst (convolution_chainback_loop n st v out)) = m_decisions v" for st
    by (induction n arbitrary: st v out) (auto simp: Let_def)
  then show ?thesis by (simp add: cpp_is_c convolution_chainback_def)
qed

lemma csd_decisions:
  "length rcv = 45 \<Longrightarrow> length (m_decisions v) = 180 \<Longrightarrow>
    length (m_decisions (decode_dibits INTERLEAVE_TABLE_9_20 180 rcv (YSFConvolution_start v))) = 180"
  using csd.decode_dibits_inv [of rcv v 180] by (simp add: cpp_is_c)

lemma read_pieces_block:
  "length dch = 45 \<Longrightarrow> off + 81 \<le> length data \<Longrightarrow> read_pieces 9 off data dch = channel_block 9 off data"
  using read_pieces_eq [of dch 9 off data] by (simp add: channel_block_def)

section \<open>Headers\<close>

lemma block_kept:
  "length bs = 45 \<Longrightarrow> length data = 120 \<Longrightarrow> channel_block 9 39 (write_pieces 9 30 bs data) = channel_block 9 39 data"
  "length bs = 45 \<Longrightarrow> length data = 120 \<Longrightarrow> channel_block 9 30 (write_pieces 9 39 bs data) = channel_block 9 30 data"
  unfolding channel_block_def
  by (rule arg_cong [where f = concat], rule map_cong [OF refl], rule write_elsewhere; auto)+

lemma process_header_steps:
  assumes "length csd1 = 20" "length csd2 = 20" "length received = 120" "locals_ok 45 23 l"
    and e1: "block_errors (csd_channel csd1) (channel_block 9 30 received) \<le> 2"
    and e2: "block_errors (csd_channel csd2) (channel_block 9 39 received) \<le> 2"
  shows "\<exists>ok out p. processHeaderData l received CYSFPayload = (ok, out, p)
    \<and> (block_errors (csd_channel csd1) (channel_block 9 30 received) \<le> 1 \<longrightarrow> ok)
    \<and> (ok \<longrightarrow> m_dest p = Some (take 10 csd1) \<and> m_source p = Some (drop 10 csd1) \<and> channel_block 9 30 out = csd_channel csd1)
    \<and> (block_errors (csd_channel csd2) (channel_block 9 39 received) \<le> 1 \<longrightarrow> channel_block 9 39 out = csd_channel csd2)"
proof -
  have l: "length (l_dch l) = 45" "length (l_output l) = 23" "length (l_convolved l) = 45" "length (l_bytes l) = 45"
    "length (m_decisions (l_conv l)) = 180" using assms(4) by (simp_all add: locals_ok_def)
  let ?T = INTERLEAVE_TABLE_9_20
  define r1 where "r1 = channel_block 9 30 received"
  define v1 where "v1 = decode_dibits ?T 180 r1 (YSFConvolution_start (l_conv l))"
  obtain w1 o1 where c1: "YSFConvolution_chainback v1 (l_output l) 176 = (w1, o1)" by (rule prod.exhaust)
  have r1: "length r1 = 45" using assms(3) by (simp add: r1_def length_channel_block)
  have read1: "read_pieces 9 30 received (l_dch l) = r1" using l assms(3) by (simp add: r1_def read_pieces_block)
  have o1: "o1 = snd (YSFConvolution_chainback v1 (l_output l) 176)" "w1 = fst (YSFConvolution_chainback v1 (l_output l) 176)"
    by (simp_all add: c1)
  note s1 = csd_received [OF assms(1) r1 l(5) l(2) l(3) l(4) e1 [folded r1_def], folded v1_def o1]
  define a1 where "a1 = (CCRC_addCCITT162 (whiten 20 (whiten 20 o1)) 22)[22 := 0]"
  define ok where "ok = CCRC_checkCCITT162 o1 22"
  define d1 where "d1 = (if ok then write_pieces 9 30 (csd_channel csd1) received else received)"
  define out1 where "out1 = (if ok then a1 else o1)"
  have d1: "length d1 = 120" "channel_block 9 39 d1 = channel_block 9 39 received"
    "ok \<Longrightarrow> channel_block 9 30 d1 = csd_channel csd1" "length out1 = 23"
    using assms(3) block_kept(1) [of "csd_channel csd1" received] block_of_write [of "csd_channel csd1" 9 30 received] s1(1,2)
    by (simp_all add: d1_def out1_def a1_def)
  define r2 where "r2 = channel_block 9 39 received"
  define v2 where "v2 = decode_dibits ?T 180 r2 (YSFConvolution_start w1)"
  obtain w2 o2 where c2: "YSFConvolution_chainback v2 out1 176 = (w2, o2)" by (rule prod.exhaust)
  have w1: "length (m_decisions w1) = 180" unfolding o1(2) v1_def using csd_decisions [OF r1 l(5)] by simp
  have r2: "length r2 = 45" using assms(3) by (simp add: r2_def length_channel_block)
  have read2: "read_pieces 9 39 d1 r1 = r2" using d1 r1 by (simp add: r2_def read_pieces_block)
  have o2: "o2 = snd (YSFConvolution_chainback v2 out1 176)" by (simp add: c2)
  note s2 = csd_received [OF assms(2) r2 w1 d1(4) l(3) l(4) e2 [folded r2_def], folded v2_def o2]
  define out where "out = (if CCRC_checkCCITT162 o2 22 then write_pieces 9 39 (csd_channel csd2) d1 else d1)"
  define p where "p = (if ok then CYSFPayload\<lparr>m_dest := Some (sub_buf (whiten 20 o1) 0 10), m_source := Some (sub_buf (whiten 20 o1) 10 10)\<rparr>
    else CYSFPayload)"
  have none: "m_downlink p = None" "m_uplink p = None" "m_dest CYSFPayload = None"
    "m_source (CYSFPayload\<lparr>m_dest := d\<rparr>) = None" for d
    by (simp_all add: p_def CYSFPayload_def)
  have b1: "interleave_dibits ?T 180 (YSFConvolution_encode a1 (l_convolved l) 180) (l_bytes l) = csd_channel csd1" if ok
    using s1(5) that by (simp add: a1_def ok_def)
  have second: "(if CCRC_checkCCITT162 o2 22 then write_pieces 9 39 (interleave_dibits ?T 180 (YSFConvolution_encode
      ((CCRC_addCCITT162 (whiten 20 (whiten 20 o2)) 22)[22 := 0]) (l_convolved l) 180) (l_bytes l)) d1 else d1) = out"
    using s2(5) by (simp add: out_def)
  have run: "processHeaderData l received CYSFPayload = (ok, out, p)"
  proof (cases ok)
    case True
    have f: "d1 = write_pieces 9 30 (csd_channel csd1) received" "out1 = a1" using True by (simp_all add: d1_def out1_def)
    have bo: "interleave_dibits ?T 180 (YSFConvolution_encode out1 (l_convolved l) 180) (l_bytes l) = csd_channel csd1"
      using b1 [OF True] by (simp only: f(2))
    have pe: "CYSFPayload\<lparr>m_dest := Some (sub_buf (whiten 20 o1) 0 10), m_source := Some (sub_buf (whiten 20 o1) 10 10)\<rparr> = p"
      using True by (simp add: p_def)
    show ?thesis
      unfolding processHeaderData_def Let_def read1 v1_def [symmetric] c1 prod.case ok_def [symmetric] if_P [OF True]
        none(3) if_P [OF refl] none(4) a1_def [symmetric] bo f(1) [symmetric] pe read2 v2_def [symmetric]
        f(2) [symmetric] c2 none(1,2) option.case second ..
  next
    case False
    have f: "d1 = received" "out1 = o1" "p = CYSFPayload" using False by (simp_all add: d1_def out1_def p_def)
    show ?thesis
      unfolding processHeaderData_def Let_def read1 v1_def [symmetric] c1 prod.case ok_def [symmetric] if_not_P [OF False]
      unfolding f(1) [symmetric] read2 v2_def [symmetric] f(2) [symmetric] c2 f(3) [symmetric] none(1,2) option.case prod.case second ..
  qed
  have t: "take 20 (whiten 20 o1) = csd1" if ok using s1(4) that by (simp add: ok_def)
  have "sub_buf (whiten 20 o1) 0 10 = take 10 csd1" "sub_buf (whiten 20 o1) 10 10 = drop 10 csd1" if ok
    by (simp_all add: t [OF that, symmetric] sub_buf_def drop_take)
  then have "ok \<longrightarrow> m_dest p = Some (take 10 csd1) \<and> m_source p = Some (drop 10 csd1) \<and> channel_block 9 30 out = csd_channel csd1"
    using d1 block_kept(2) [of "csd_channel csd2" d1] by (simp add: p_def CYSFPayload_def out_def)
  moreover have "block_errors (csd_channel csd2) (channel_block 9 39 received) \<le> 1 \<longrightarrow> channel_block 9 39 out = csd_channel csd2"
    using s2(3) d1(1) block_of_write [of "csd_channel csd2" 9 39 d1] by (simp add: out_def r2_def)
  moreover have "block_errors (csd_channel csd1) (channel_block 9 30 received) \<le> 1 \<longrightarrow> ok"
    using s1(3) by (simp add: ok_def r1_def)
  ultimately show ?thesis using run by blast
qed

lemma header_result:
  assumes "processHeaderData l received CYSFPayload = (ok, out, p)" "ok \<longrightarrow> m_dest p = Some dst \<and> m_source p = Some src"
    "length src = 10" "length dst = 10"
  shows "ysf_payload_process_header l received
    = Some (if ok then (True, src @ [0], dst @ [0], out) else (False, replicate 11 0, replicate 11 0, out))"
proof -
  have "memcpy (replicate 11 0) 0 xs = xs @ [0]" if "length xs = 10" for xs :: bytes
    using that by (simp add: memcpy_def numeral_eq_Suc)
  then show ?thesis using assms by (auto simp: ysf_payload_process_header_def Let_def getSource_def getDest_def)
qed

text \<open>C30: A header survives the air. The two blocks of a header are written into a frame; when at most two
  bits of each block arrive wrong, the reader rejects the header or returns exactly the destination and
  the source that were sent, never another callsign, and then the first block of its frame is repaired;
  with at most one wrong bit it never rejects, and the second block is repaired as well.\<close>
theorem ysf_header_survives:
  assumes "length csd1 = 20" "length csd2 = 20" "length data = 120" "length received = 120"
    "locals_ok 45 25 l1" "locals_ok 45 25 l2" "locals_ok 45 23 l"
    and sent: "sent = ysf_payload_write_header l1 l2 data csd1 csd2"
    and e1: "block_errors (channel_block 9 30 sent) (channel_block 9 30 received) \<le> 2"
    and e2: "block_errors (channel_block 9 39 sent) (channel_block 9 39 received) \<le> 2"
  shows "\<exists>ok src dst out. ysf_payload_process_header l received = Some (ok, src, dst, out)
    \<and> (block_errors (channel_block 9 30 sent) (channel_block 9 30 received) \<le> 1 \<longrightarrow> ok)
    \<and> (ok \<longrightarrow> dst = take 10 csd1 @ [0] \<and> src = drop 10 csd1 @ [0] \<and> channel_block 9 30 out = channel_block 9 30 sent)
    \<and> (block_errors (channel_block 9 39 sent) (channel_block 9 39 received) \<le> 1 \<longrightarrow>
         channel_block 9 39 out = channel_block 9 39 sent)"
proof -
  note h = header_channels [OF assms(1,2,3,5,6), folded sent]
  obtain ok out p where p: "processHeaderData l received CYSFPayload = (ok, out, p)"
    "block_errors (channel_block 9 30 sent) (channel_block 9 30 received) \<le> 1 \<longrightarrow> ok"
    "ok \<longrightarrow> m_dest p = Some (take 10 csd1) \<and> m_source p = Some (drop 10 csd1) \<and> channel_block 9 30 out = channel_block 9 30 sent"
    "block_errors (channel_block 9 39 sent) (channel_block 9 39 received) \<le> 1 \<longrightarrow> channel_block 9 39 out = channel_block 9 39 sent"
    using process_header_steps [OF assms(1,2,4,7) e1 [unfolded h] e2 [unfolded h]] unfolding h by blast
  have q: "ok \<longrightarrow> m_dest p = Some (take 10 csd1) \<and> m_source p = Some (drop 10 csd1)" using p(3) by simp
  have "ysf_payload_process_header l received = Some
      (if ok then (True, drop 10 csd1 @ [0], take 10 csd1 @ [0], out) else (False, replicate 11 0, replicate 11 0, out))"
    by (rule header_result [OF p(1) q]) (use assms(1) in simp_all)
  then show ?thesis using p(2-4) by (cases ok) auto
qed

text \<open>A decoder and arrays to run the functions on.\<close>

definition blank_locals :: "nat \<Rightarrow> nat \<Rightarrow> ysf_locals" where
  "blank_locals k n = \<lparr>l_dch = replicate k 0, l_output = replicate n 0, l_convolved = replicate k 0, l_bytes = replicate k 0,
     l_conv = \<lparr>m_oldMetrics = [], m_newMetrics = [], m_decisions = replicate 180 0, m_dp = 0\<rparr>\<rparr>"

lemma blank_ok: "locals_ok k n (blank_locals k n)"
  by (simp add: locals_ok_def blank_locals_def)

lemma no_errors: "block_errors a a = 0"
  by (simp add: block_errors_def)

theorem ysf_header_survives_witness:
  "\<exists>out. ysf_payload_process_header (blank_locals 45 23)
      (ysf_payload_write_header (blank_locals 45 25) (blank_locals 45 25) (replicate 120 0)
        (replicate 10 65 @ replicate 10 66) (replicate 20 67))
    = Some (True, replicate 10 66 @ [0], replicate 10 65 @ [0], out)"
proof -
  let ?s = "ysf_payload_write_header (blank_locals 45 25) (blank_locals 45 25) (replicate 120 0)
        (replicate 10 65 @ replicate 10 66) (replicate 20 67)"
  have "length ?s = 120" by (rule header_channels) (simp_all add: blank_ok)
  then show ?thesis
    using ysf_header_survives [of "replicate 10 65 @ replicate 10 66" "replicate 20 67" "replicate 120 0" ?s
        "blank_locals 45 25" "blank_locals 45 25" "blank_locals 45 23" ?s]
    by (auto simp: blank_ok no_errors)
qed

section \<open>The data channel of a voice frame\<close>

definition dch_channel :: "bytes \<Rightarrow> bytes" where
  "dch_channel dt = channel_of INTERLEAVE_TABLE_5_20 100 (info_block (masked 10 dt)) (replicate 25 0) (replicate 25 0)"

lemma length_dch_channel [simp]: "length (dch_channel dt) = 25"
  using dch.channel_pairs(1) [of "replicate 25 0" "replicate 25 0" "info_block (masked 10 dt)"]
  by (simp add: dch_channel_def)

lemma write_dch_channel:
  assumes "length dt = 10" "locals_ok 25 13 l"
  shows "ysf_payload_write_vd_mode2_dch l data dt = write_pieces 5 30 (dch_channel dt) data"
proof -
  have l: "length (l_output l) = 13" "length (l_convolved l) = 25" "length (l_bytes l) = 25"
    using assms(2) by (simp_all add: locals_ok_def)
  let ?t = "whiten 10 (memcpy (l_output l) 0 (sub_buf dt 0 10))"
  let ?o = "(CCRC_addCCITT162 ?t 12)[12 := 0]"
  have "memcpy (l_output l) 0 (sub_buf dt 0 10) = dt @ drop 10 (l_output l)"
    using assms(1) l by (simp add: memcpy_def sub_buf_def)
  then have t: "length ?t = 13" "take 10 ?t = masked 10 dt"
    using l assms(1) by (simp_all add: whiten_eq masked_def nth_append)
  have o: "take 13 ?o = info_block (masked 10 dt)" "length ?o = 13"
    using add_crc_block [of 10 ?t "masked 10 dt"] t by simp_all
  have "interleave_dibits INTERLEAVE_TABLE_5_20 100 (YSFConvolution_encode ?o (l_convolved l) 100) (l_bytes l) = dch_channel dt"
    using dch.block_sent(3) [of "masked 10 dt" ?o "l_convolved l" "l_bytes l"] o l
    by (simp add: channel_of_def dch_channel_def YSFConvolution_encode_eq)
  then show ?thesis by (simp only: ysf_payload_write_vd_mode2_dch_def writeVDMode2Data_def Let_def)
qed

lemma ysf_fields_local:
  assumes "length junk = 13" "off + 13 \<le> length d" "off + 13 \<le> length d'" "sub_buf d off 13 = sub_buf d' off 13"
  shows "ysf_fields junk d (8 * off) = ysf_fields junk d' (8 * off)"
proof -
  have sub: "sub_buf (bits_of e) (8 * off) 104 = bits_of (sub_buf e off 13)" if "off + 13 \<le> length e" for e
  proof -
    have "bits_of (memcpy e off (sub_buf e off 13)) = memcpy (bits_of e) (8 * off) (bits_of (sub_buf e off 13))"
      using that by (intro bits_of_memcpy) simp
    moreover have "memcpy e off (sub_buf e off 13) = e" using that by (intro memcpy_sub_buf_self)
    ultimately have "bits_of e = memcpy (bits_of e) (8 * off) (bits_of (sub_buf e off 13))" by simp
    then show ?thesis using that sub_buf_memcpy_same [of "8 * off" "bits_of (sub_buf e off 13)" "bits_of e"] by simp
  qed
  have "channel_at d (8 * off) = channel_at d' (8 * off)"
    unfolding channel_at_def by (simp only: sub [OF assms(2)] sub [OF assms(3)] assms(4))
  then show ?thesis
    using ysf_fields_channel [OF assms(1), of "8 * off" d] ysf_fields_channel [OF assms(1), of "8 * off" d'] assms(2,3) by simp
qed

lemma dch_received:
  assumes "length dch = 10" "length received = 120" "10 \<le> length dt" "locals_ok 25 13 l"
    and errors: "block_errors (dch_channel dch) (channel_block 5 30 received) \<le> 2"
  shows "\<exists>ok dt'. readVDMode2Data l received dt = (ok, dt')
      \<and> (block_errors (dch_channel dch) (channel_block 5 30 received) \<le> 1 \<longrightarrow> ok)
      \<and> (ok \<longrightarrow> take 10 dt' = dch) \<and> (\<not> ok \<longrightarrow> dt' = dt)"
proof -
  let ?r = "channel_block 5 30 received" and ?T = INTERLEAVE_TABLE_5_20
  have r: "length ?r = 25" using assms(2) by (simp add: length_channel_block)
  have l: "length (l_dch l) = 25" "length (l_output l) = 13" "180 \<le> length (m_decisions (l_conv l))"
    using assms(4) by (simp_all add: locals_ok_def)
  obtain w2 got where got: "YSFConvolution_chainback (decode_dibits ?T 100 ?r (YSFConvolution_start (l_conv l))) (l_output l) 96 = (w2, got)"
    by (rule prod.exhaust)
  then have g: "got = snd (convolution_chainback (decode_dibits ?T 100 ?r (viterbi_start (l_conv l))) (l_output l) (8 * 10 + 16))"
    by (simp add: cpp_is_c)
  have o: "10 + 2 \<le> length (l_output l)" "length (masked 10 dch) = 10" using l by simp_all
  note rec = dch.block_received [OF o(2) r l(3) o(1) errors [unfolded dch_channel_def], folded g dch_channel_def]
  have "read_pieces 5 30 received (l_dch l) = ?r"
    using read_pieces_eq [of "l_dch l" 5 30 received] l(1) assms(2) by (simp add: channel_block_def)
  then have run: "readVDMode2Data l received dt = (if CCRC_checkCCITT162 got 12
      then (True, memcpy dt 0 (sub_buf (whiten 10 got) 0 10)) else (False, dt))"
    by (simp add: readVDMode2Data_def Let_def got)
  have "sub_buf (whiten 10 got) 0 10 = dch" if "CCRC_checkCCITT162 got 12"
  proof -
    have "take 10 got = masked 10 dch" using rec(3) that by simp
    then have "masked 10 got = masked 10 (masked 10 dch @ drop 10 got)" by (metis append_take_drop_id)
    then show ?thesis using rec(1) l(2) assms(1) by (simp add: whiten_eq masked_masked sub_buf_def)
  qed
  then show ?thesis
    using run rec(2) assms(1,3) by (cases "CCRC_checkCCITT162 got 12") (auto simp: memcpy_def)
qed

text \<open>The converter reads the five voice channels, and nothing else.\<close>

lemma putYSF_channels:
  assumes "length d = 120" "length d' = 120" "length jv = 13" "\<forall>j<5. sub_buf d (35 + 18 * j) 13 = sub_buf d' (35 + 18 * j) 13"
  shows "putYSF jv jd d s = putYSF jv jd d' s"
proof -
  have "ysf_fields jv (drop 30 d) (40 + 144 * j) = ysf_fields jv (drop 30 d') (40 + 144 * j)" if "j < 5" for j
  proof -
    have "sub_buf d (35 + 18 * j) 13 = sub_buf d' (35 + 18 * j) 13" using assms(4) that by blast
    then have "sub_buf (drop 30 d) (5 + 18 * j) 13 = sub_buf (drop 30 d') (5 + 18 * j) 13"
      by (simp add: sub_buf_def add.commute)
    then show ?thesis
      using ysf_fields_local [OF assms(3), of "5 + 18 * j" "drop 30 d" "drop 30 d'"] assms(1,2) that
      by (simp add: algebra_simps)
  qed
  then show ?thesis unfolding putYSF_def Let_def by (intro fold_cong) auto
qed

lemma write_dch_voice:
  assumes "length dch = 10" "length data = 120" "locals_ok 25 13 l" "j < 5"
  shows "sub_buf (ysf_payload_write_vd_mode2_dch l data dch) (35 + 18 * j) 13 = sub_buf data (35 + 18 * j) 13"
proof -
  have "j = 0 \<or> j = 1 \<or> j = 2 \<or> j = 3 \<or> j = 4" using assms(4) by arith
  then have "\<forall>i < 5. 35 + 18 * j + 13 \<le> 30 + 18 * i \<or> 30 + 18 * i + 5 \<le> 35 + 18 * j" by auto
  then show ?thesis
    unfolding write_dch_channel [OF assms(1,3)] using assms(2,4) by (intro write_elsewhere) auto
qed

text \<open>C31: The data channel of a voice frame: what is written is read back, with the same tolerance of
  errors as a header, and the voice channels of the frame are not touched: the frame converter makes the
  same DMR voice of the frame before and after the data channel is written.\<close>
theorem vd_mode2_data_channel:
  assumes "length dch = 10" "length data = 120" "length received = 120" "10 \<le> length dt"
    "locals_ok 25 13 l1" "locals_ok 25 13 l" "length jv = 13"
    and sent: "sent = ysf_payload_write_vd_mode2_dch l1 data dch"
    and errors: "block_errors (channel_block 5 30 sent) (channel_block 5 30 received) \<le> 2"
  shows "(\<exists>ok dt'. readVDMode2Data l received dt = (ok, dt')
      \<and> (block_errors (channel_block 5 30 sent) (channel_block 5 30 received) \<le> 1 \<longrightarrow> ok)
      \<and> (ok \<longrightarrow> take 10 dt' = dch) \<and> (\<not> ok \<longrightarrow> dt' = dt))
    \<and> (\<forall>s. putYSF jv jd sent s = putYSF jv jd data s)"
proof
  have w: "sent = write_pieces 5 30 (dch_channel dch) data" using write_dch_channel [OF assms(1,5)] sent by simp
  have block: "channel_block 5 30 sent = dch_channel dch" unfolding w using assms(2) by (intro block_of_write) simp_all
  show "\<exists>ok dt'. readVDMode2Data l received dt = (ok, dt')
      \<and> (block_errors (channel_block 5 30 sent) (channel_block 5 30 received) \<le> 1 \<longrightarrow> ok)
      \<and> (ok \<longrightarrow> take 10 dt' = dch) \<and> (\<not> ok \<longrightarrow> dt' = dt)"
    unfolding block by (rule dch_received [OF assms(1,3,4,6) errors [unfolded block]])
  have "length sent = 120" unfolding w using assms(2) by simp
  then show "\<forall>s. putYSF jv jd sent s = putYSF jv jd data s"
    using putYSF_channels [OF _ assms(2,7)] write_dch_voice [OF assms(1,2,5)] sent by simp
qed

theorem vd_mode2_data_channel_witness:
  "take 10 (snd (readVDMode2Data (blank_locals 25 13)
      (ysf_payload_write_vd_mode2_dch (blank_locals 25 13) (replicate 120 0) [1, 2, 3, 4, 5, 6, 7, 8, 9, 10]) (replicate 10 0)))
    = [1, 2, 3, 4, 5, 6, 7, 8, 9, 10]"
proof -
  let ?s = "ysf_payload_write_vd_mode2_dch (blank_locals 25 13) (replicate 120 0) [1, 2, 3, 4, 5, 6, 7, 8, 9, 10]"
  have "length ?s = 120" by (simp add: write_dch_channel blank_ok)
  then show ?thesis
    using vd_mode2_data_channel [of "[1, 2, 3, 4, 5, 6, 7, 8, 9, 10]" "replicate 120 0" ?s "replicate 10 0"
        "blank_locals 25 13" "blank_locals 25 13" "replicate 13 0" ?s "[]"]
    by (auto simp: blank_ok no_errors)
qed

end
