(* ===== verification/Vocoder.thy ===== *)
theory Vocoder
  imports C_Strings "HOL-Library.Monad_Syntax"
begin

text \<open>
  The client of a remote vocoder, \<open>src/vocoder_remote.c\<close>: it sends voice frames of 160 samples or of 49
  bits to a server and waits for the answer. The server is a parameter: what comes of a request, and which
  datagrams lie in the socket before it, may depend on all the exchanges before it. \<open>None\<close> is a call that
  does not return, because the loop that empties the socket always finds one more datagram. The counters of \<open>vocoder_remote.c\<close> that are printed only
  (\<open>g_enc_log_n\<close>, \<open>g_dec_log_n\<close>), the signal level and the log lines are left out; \<open>v_calls\<close> records the
  exchanges with the time each may wait, in milliseconds.
\<close>

section \<open>The 49 bits of a voice frame\<close>

definition INTERLEAVE49_MATRIX :: "nat list" where
  "INTERLEAVE49_MATRIX = [
    0, 3, 6, 9, 12, 15, 18, 21, 24, 27, 30, 33, 36, 39, 41, 43, 45, 47,
    1, 4, 7, 10, 13, 16, 19, 22, 25, 28, 31, 34, 37, 40, 42, 44, 46, 48,
    2, 5, 8, 11, 14, 17, 20, 23, 26, 29, 32, 35, 38]"

definition ambe49_bits_from_bytes :: "bytes \<Rightarrow> u8 list" where
  "ambe49_bits_from_bytes inp =
     concat (map (\<lambda>i. map (\<lambda>j. drop_bit (7 - j) (inp ! i) AND 1) [0..<8]) [0..<6]) @ [drop_bit 7 (inp ! 6) AND 1]"

definition ambe49_bytes_from_bits :: "u8 list \<Rightarrow> bytes" where
  "ambe49_bytes_from_bits bs =
     (let out = replicate 7 0;
          out = fold (\<lambda>i. fold (\<lambda>j out. if bs ! (8 * i + j) \<noteq> 0 then out[i := out ! i OR push_bit (7 - j) 1] else out)
                        [0..<8]) [0..<6] out
      in if bs ! 48 \<noteq> 0 then out[6 := 0x80] else out)"

definition ambe49_interleave :: "bytes \<Rightarrow> bytes" where
  "ambe49_interleave frame =
     (let in_bits = ambe49_bits_from_bytes frame;
          out_bits = fold (\<lambda>i out. out[INTERLEAVE49_MATRIX ! i := in_bits ! i]) [0..<49] (replicate 49 0)
      in ambe49_bytes_from_bits out_bits)"

definition ambe49_deinterleave :: "bytes \<Rightarrow> bytes" where
  "ambe49_deinterleave frame =
     (let in_bits = ambe49_bits_from_bytes frame;
          out_bits = fold (\<lambda>i out. out[i := in_bits ! (INTERLEAVE49_MATRIX ! i)]) [0..<49] (replicate 49 0)
      in ambe49_bytes_from_bits out_bits)"

section \<open>The server and the state\<close>

text \<open>What comes of a request: it cannot be sent, nothing arrives in time, receiving fails, or a
  datagram arrives.\<close>

datatype reply = SendFails | NoReply | RecvFails | Packet bytes

type_synonym calls = "(bytes \<times> nat) list"

text \<open>\<open>srv_stale\<close> is what the reads find one after the other that come before a request; [] when a read
  finds nothing, an empty datagram or an error.\<close>

record server =
  srv_stale :: "calls \<Rightarrow> nat \<Rightarrow> bytes"
  srv_reply :: "calls \<Rightarrow> bytes \<Rightarrow> reply"

record voc_globals =
  g_enc_ok :: u32
  g_enc_fail :: u32
  g_dec_ok :: u32
  g_dec_fail :: u32
  g_consec_fail :: int
  v_calls :: calls

record vocoder =
  voc_sock :: int
  voc_peer :: u32
  voc_host :: bytes
  voc_port :: int
  voc_ready :: bool

abbreviation (input) DV3K_START :: u8 where "DV3K_START \<equiv> 0x61"
abbreviation (input) DV3K_TYPE_CTRL :: u8 where "DV3K_TYPE_CTRL \<equiv> 0x00"
abbreviation (input) DV3K_TYPE_AMBE :: u8 where "DV3K_TYPE_AMBE \<equiv> 0x01"
abbreviation (input) DV3K_TYPE_AUDIO :: u8 where "DV3K_TYPE_AUDIO \<equiv> 0x02"
abbreviation (input) DV3K_AMBE_FIELD :: u8 where "DV3K_AMBE_FIELD \<equiv> 0x01"
abbreviation (input) DV3K_AUDIO_FIELD :: u8 where "DV3K_AUDIO_FIELD \<equiv> 0x00"
abbreviation (input) VOC_PCM_SAMPLES :: nat where "VOC_PCM_SAMPLES \<equiv> 160"
abbreviation (input) VOC_AMBE_BYTES :: nat where "VOC_AMBE_BYTES \<equiv> 7"

definition DV3K_PRODID_REQ :: bytes where "DV3K_PRODID_REQ = [0x61, 0x00, 0x01, 0x00, 0x30]"
definition DV3K_RATET_DMR :: bytes where "DV3K_RATET_DMR = [0x61, 0x00, 0x02, 0x00, 0x09, 0x22]"

section \<open>Exchanges\<close>

text \<open>The datagrams that have arrived before a request are read and dropped, for as long as there is one.\<close>

partial_function (option) voc_drain :: "(nat \<Rightarrow> bytes) \<Rightarrow> nat \<Rightarrow> unit option" where
  [code]: "voc_drain stale i = (if stale i \<noteq> [] then voc_drain stale (i + 1) else Some ())"

text \<open>The result: a negative number on an error, 0 on a time-out, else the length of the answer; with it
  the bytes of the answer. A datagram longer than the buffer is cut, an empty one reads as a time-out.\<close>

definition voc_exchange_once :: "server \<Rightarrow> bytes \<Rightarrow> nat \<Rightarrow> nat \<Rightarrow> voc_globals \<Rightarrow> (int \<times> bytes \<times> voc_globals) option" where
  "voc_exchange_once srv req rsplen timeout_ms g = do {
     voc_drain (srv_stale srv (v_calls g)) 0;
     let r = srv_reply srv (v_calls g) req;
     let g = g\<lparr>v_calls := v_calls g @ [(req, timeout_ms)]\<rparr>;
     Some (case r of
       SendFails \<Rightarrow> (- 1, [], g)
     | NoReply \<Rightarrow> (0, [], g)
     | RecvFails \<Rightarrow> (- 1, [], g)
     | Packet p \<Rightarrow>
         let rsp = take rsplen p; n = int (length rsp)
         in if n = 0 then (0, rsp, g)
            else if n < 4 \<or> rsp ! 0 \<noteq> DV3K_START then (- 1, rsp, g)
            else (n, rsp, g))
   }"

definition voc_recover_rate :: "server \<Rightarrow> voc_globals \<Rightarrow> (int \<times> voc_globals) option" where
  "voc_recover_rate srv g = do {
     (n, _, g) \<leftarrow> voc_exchange_once srv DV3K_RATET_DMR 64 300 g;
     Some (if 0 < n then 0 else - 1, g)
   }"

definition voc_exchange :: "server \<Rightarrow> bytes \<Rightarrow> nat \<Rightarrow> voc_globals \<Rightarrow> (int \<times> bytes \<times> voc_globals) option" where
  "voc_exchange srv req rsplen g =
     (let timeout_ms = (if 2 \<le> g_consec_fail g then 120 else 400)
      in do {
        (n, rsp, g) \<leftarrow> voc_exchange_once srv req rsplen timeout_ms g;
        if 0 < n then Some (n, rsp, g\<lparr>g_consec_fail := 0\<rparr>)
        else
          let g = g\<lparr>g_consec_fail := g_consec_fail g + 1\<rparr>
          in if 3 \<le> g_consec_fail g
             then do {
               (r, g) \<leftarrow> voc_recover_rate srv g;
               (n, rsp, g) \<leftarrow> (if r = 0 then voc_exchange_once srv req rsplen 400 g else Some (n, rsp, g));
               Some (if 0 < n then (n, rsp, g\<lparr>g_consec_fail := 0\<rparr>) else (n, rsp, g))
             }
             else Some (n, rsp, g)
      })"

section \<open>Opening and closing\<close>

text \<open>\<open>host\<close> is the host argument (\<open>None\<close> for a null pointer), \<open>sock\<close> what \<open>socket\<close> returns and
  \<open>addr\<close> the address the host resolves to.\<close>

definition vocoder_open ::
  "server \<Rightarrow> int \<Rightarrow> u32 option \<Rightarrow> bytes option \<Rightarrow> int \<Rightarrow> voc_globals \<Rightarrow> (int \<times> vocoder \<times> voc_globals) option" where
  "vocoder_open srv sock addr host port g =
     (let v = \<lparr>voc_sock = 0, voc_peer = 0, voc_host = replicate 128 0, voc_port = 0, voc_ready = False\<rparr>;
          g = g\<lparr>g_enc_ok := 0, g_enc_fail := 0, g_dec_ok := 0, g_dec_fail := 0, g_consec_fail := 0\<rparr>
      in case host of None \<Rightarrow> Some (- 1, v, g)
         | Some h \<Rightarrow>
             if h = [] \<or> port \<le> 0 then Some (- 1, v, g)
             else
               let v = v\<lparr>voc_host := strncpy (voc_host v) h 127, voc_port := port, voc_sock := sock\<rparr>
               in if sock < 0 then Some (- 1, v, g)
                  else case addr of None \<Rightarrow> Some (- 1, v\<lparr>voc_sock := - 1\<rparr>, g)
                    | Some a \<Rightarrow>
                        let v = v\<lparr>voc_peer := a\<rparr>
                        in do {
                          (n, _, g) \<leftarrow> voc_exchange_once srv DV3K_PRODID_REQ 256 2000 g;
                          if n \<le> 0 then Some (- 1, v\<lparr>voc_sock := - 1\<rparr>, g)
                          else do {
                            (n, _, g) \<leftarrow> voc_exchange_once srv DV3K_RATET_DMR 256 2000 (g\<lparr>g_consec_fail := 0\<rparr>);
                            Some (if n \<le> 0 then (- 1, v\<lparr>voc_sock := - 1\<rparr>, g)
                                  else (0, v\<lparr>voc_ready := True\<rparr>, g\<lparr>g_consec_fail := 0\<rparr>))
                          }
                        })"

definition vocoder_close :: "vocoder \<Rightarrow> vocoder" where
  "vocoder_close v = v\<lparr>voc_sock := - 1, voc_ready := False\<rparr>"

section \<open>Encoding\<close>

definition encode_request :: "u16 list \<Rightarrow> bytes" where
  "encode_request pcm =
     (let plen = 2 + VOC_PCM_SAMPLES * 2 :: nat
      in [DV3K_START, of_nat (plen div 256), of_nat (plen mod 256), DV3K_TYPE_AUDIO, DV3K_AUDIO_FIELD, of_nat VOC_PCM_SAMPLES]
         @ concat (map (\<lambda>i. [ucast (drop_bit 8 (pcm ! i)), ucast (pcm ! i)]) [0..<VOC_PCM_SAMPLES]))"

text \<open>The two rounds of the loop; the result has no answer when the function returns from inside it.\<close>

fun vocoder_encode_loop :: "server \<Rightarrow> bytes \<Rightarrow> nat \<Rightarrow> nat \<Rightarrow> int \<times> bytes \<Rightarrow> voc_globals \<Rightarrow> ((int \<times> bytes) option \<times> voc_globals) option" where
  "vocoder_encode_loop srv req i 0 rsp g = Some (Some rsp, g)"
| "vocoder_encode_loop srv req i (Suc k) _ g = do {
     (n, rsp, g) \<leftarrow> voc_exchange srv req 64 g;
     if n = 0 then Some (None, g\<lparr>g_enc_fail := g_enc_fail g + 1\<rparr>)
     else if n < 6 \<or> rsp ! 3 \<noteq> DV3K_TYPE_AMBE \<or> rsp ! 4 \<noteq> DV3K_AMBE_FIELD
     then Some (None, g\<lparr>g_enc_fail := g_enc_fail g + 1\<rparr>)
     else if rsp ! 5 = 49 then Some (Some (n, rsp), g)
     else
       let g = g\<lparr>g_enc_fail := g_enc_fail g + 1\<rparr>
       in if i = 0
          then do {
            (r, g) \<leftarrow> voc_recover_rate srv g;
            if r = 0 then vocoder_encode_loop srv req (i + 1) k (n, rsp) g else Some (None, g)
          }
          else Some (None, g)
   }"

definition vocoder_encode :: "server \<Rightarrow> vocoder \<Rightarrow> u16 list \<Rightarrow> bytes \<Rightarrow> voc_globals \<Rightarrow> (int \<times> bytes \<times> voc_globals) option" where
  "vocoder_encode srv v pcm ambe g =
     (if \<not> voc_ready v then Some (- 1, ambe, g)
      else do {
        (answer, g) \<leftarrow> vocoder_encode_loop srv (encode_request pcm) 0 2 (0, []) g;
        Some (case answer of
          None \<Rightarrow> (- 1, ambe, g)
        | Some (n, rsp) \<Rightarrow>
            let nbytes = (unat (rsp ! 5) + 7) div 8
            in if nbytes < VOC_AMBE_BYTES \<or> n < 6 + int nbytes
               then (- 1, ambe, g\<lparr>g_enc_fail := g_enc_fail g + 1\<rparr>)
               else
                 let wire = sub_buf rsp 6 VOC_AMBE_BYTES;
                     ambe = memcpy ambe 0 wire
                 in (0, memcpy ambe 0 (ambe49_deinterleave ambe), g\<lparr>g_enc_ok := g_enc_ok g + 1\<rparr>))
      })"

section \<open>Decoding\<close>

definition decode_request :: "bytes \<Rightarrow> bytes" where
  "decode_request ambe =
     (let wire = ambe49_interleave (take VOC_AMBE_BYTES ambe);
          plen = 2 + VOC_AMBE_BYTES :: nat
      in [DV3K_START, of_nat (plen div 256), of_nat (plen mod 256), DV3K_TYPE_AMBE, DV3K_AMBE_FIELD, 49] @ wire)"

definition vocoder_decode :: "server \<Rightarrow> vocoder \<Rightarrow> bytes \<Rightarrow> u16 list \<Rightarrow> voc_globals \<Rightarrow> (int \<times> u16 list \<times> voc_globals) option" where
  "vocoder_decode srv v ambe pcm g =
     (if \<not> voc_ready v then Some (- 1, pcm, g)
      else do {
        (n, rsp, g) \<leftarrow> voc_exchange srv (decode_request ambe) 334 g;
        Some (if n = 0 then (- 1, pcm, g\<lparr>g_dec_fail := g_dec_fail g + 1\<rparr>)
          else if n < 6 \<or> rsp ! 3 \<noteq> DV3K_TYPE_AUDIO \<or> rsp ! 4 \<noteq> DV3K_AUDIO_FIELD
          then (- 1, pcm, g\<lparr>g_dec_fail := g_dec_fail g + 1\<rparr>)
          else
            let ns = (if VOC_PCM_SAMPLES < unat (rsp ! 5) then VOC_PCM_SAMPLES else unat (rsp ! 5))
            in if n < 6 + int ns * 2 then (- 1, pcm, g\<lparr>g_dec_fail := g_dec_fail g + 1\<rparr>)
               else
                 let pcm = fold (\<lambda>i pcm. pcm[i := push_bit 8 (ucast (rsp ! (6 + i * 2))) OR ucast (rsp ! (7 + i * 2))])
                             [0..<ns] pcm;
                     pcm = fold (\<lambda>i pcm. pcm[i := 0]) [ns..<VOC_PCM_SAMPLES] pcm
                 in (0, pcm, g\<lparr>g_dec_ok := g_dec_ok g + 1\<rparr>))
      })"

end
