(* ===== verification/Vocoder_Props.thy ===== *)
theory Vocoder_Props
  imports Vocoder Ysf_Conv
begin

text \<open>
  The remote vocoder: the two interleavings undo each other, a voice frame crosses the wire unchanged,
  the exchanges of a call follow the recovery protocol and are bounded whatever the server answers, but only if
  its datagrams come to an end: the loop that empties the socket has no bound.
\<close>

section \<open>Bits\<close>

lemma matrix_perm: "length INTERLEAVE49_MATRIX = 49" "distinct INTERLEAVE49_MATRIX" "\<forall>x \<in> set INTERLEAVE49_MATRIX. x < 49"
  unfolding INTERLEAVE49_MATRIX_def by simp_all

interpretation il49: interleaver "\<lambda>i. INTERLEAVE49_MATRIX ! i" 49
  using interleaver_table [of INTERLEAVE49_MATRIX] matrix_perm by simp

definition flag :: "bool \<Rightarrow> u8" where "flag b = of_bool b"

lemma low_bit: "drop_bit k (x :: u8) AND 1 = flag (bit x k)"
  by (simp add: flag_def and_one_eq bit_iff_odd_drop_bit odd_iff_mod_2_eq_one)

lemma frame_bits:
  assumes "length f = 7"
  shows "ambe49_bits_from_bytes f = map flag (take 49 (bits_of f))"
proof -
  have "bits_of f = concat (map (\<lambda>i. byte_bits (f ! i)) [0..<6]) @ byte_bits (f ! 6)"
    using assms by (auto simp: bits_of_def numeral_eq_Suc length_Suc_conv)
  moreover have "length (concat (map (\<lambda>i. byte_bits (f ! i)) [0..<6])) = 48" by (simp add: upt_rec)
  moreover have "take 1 (byte_bits (f ! 6)) = [bit (f ! 6) 7]" by (simp add: byte_bits_def upt_rec)
  ultimately show ?thesis
    by (simp add: ambe49_bits_from_bytes_def low_bit map_concat byte_bits_def comp_def)
qed

lemma set_bit_step:
  assumes "length out = 7" "m < 48" "bits_of out = map c [0..<m] @ replicate (56 - m) False"
  shows "bits_of (if c m then out[m div 8 := out ! (m div 8) OR push_bit (7 - m mod 8) 1] else out)
    = map c [0..<Suc m] @ replicate (56 - Suc m) False"
proof -
  have "BIT_MASK_TABLE ! (m mod 8) = push_bit (7 - m mod 8) 1"
    by (simp add: mask_bit push_bit_eq_mult)
  then have w: "out[m div 8 := out ! (m div 8) OR push_bit (7 - m mod 8) 1] = WRITE_BIT1 out m True"
    by (simp add: WRITE_BIT1_def)
  have "56 - m = Suc (56 - Suc m)" using assms(2) by simp
  then have "replicate (56 - m) False = False # replicate (56 - Suc m) False" by (simp only: replicate_Suc)
  then have "bits_of (WRITE_BIT1 out m True) = map c [0..<m] @ True # replicate (56 - Suc m) False"
    "bits_of out = map c [0..<m] @ False # replicate (56 - Suc m) False"
    using assms by (simp_all add: bits_of_write_bit list_update_append)
  then show ?thesis unfolding w by simp
qed

lemma bytes_from_bits:
  assumes "length bs = 49"
  shows "length (ambe49_bytes_from_bits (map flag bs)) = 7"
    "bits_of (ambe49_bytes_from_bits (map flag bs)) = bs @ replicate 7 False"
proof -
  let ?b = "map flag bs" and ?c = "\<lambda>m. (bs @ replicate 7 False) ! m"
  let ?inner = "\<lambda>i n out. fold (\<lambda>j out. if ?b ! (8 * i + j) \<noteq> 0 then out[i := out ! i OR push_bit (7 - j) 1] else out) [0..<n] out"
  have c: "?b ! m \<noteq> 0 \<longleftrightarrow> ?c m" if "m < 49" for m using that assms by (simp add: flag_def nth_append)
  have inner: "n \<le> 8 \<Longrightarrow> length (?inner i n out) = 7 \<and> bits_of (?inner i n out) = map ?c [0..<8 * i + n] @ replicate (56 - (8 * i + n)) False"
    if "i < 6" "length out = 7" "bits_of out = map ?c [0..<8 * i] @ replicate (56 - 8 * i) False" for i n out
  proof (induction n)
    case (Suc n)
    have "8 * i + n < 48" "(8 * i + n) div 8 = i" "(8 * i + n) mod 8 = n" using Suc.prems that(1) by auto
    then show ?case
      using Suc set_bit_step [of "?inner i n out" "8 * i + n" ?c] c [of "8 * i + n"] by auto
  qed (use that in simp)
  define out where "out = (\<lambda>k. fold (\<lambda>i. fold (\<lambda>j out. if ?b ! (8 * i + j) \<noteq> 0 then out[i := out ! i OR push_bit (7 - j) 1] else out)
    [0..<8]) [0..<k] (replicate 7 (0 :: u8)))"
  have z: "bits_of (replicate 7 (0 :: u8)) = replicate 56 False"
    by (simp add: numeral_eq_Suc byte_bits_def upt_rec)
  have outer: "k \<le> 6 \<Longrightarrow> length (out k) = 7 \<and> bits_of (out k) = map ?c [0..<8 * k] @ replicate (56 - 8 * k) False" for k
  proof (induction k)
    case (Suc k)
    have "out (Suc k) = ?inner k 8 (out k)" by (simp add: out_def)
    then show ?case using inner [of k "out k" 8] Suc by (simp add: add.commute)
  qed (simp add: out_def z)
  have o: "length (out 6) = 7" "bits_of (out 6) = map ?c [0..<48] @ replicate 8 False" using outer [of 6] by simp_all
  have r: "ambe49_bytes_from_bits ?b = (if ?c 48 then (out 6)[6 := 0x80] else out 6)"
    using c [of 48] by (simp add: ambe49_bytes_from_bits_def out_def)
  show "length (ambe49_bytes_from_bits ?b) = 7" using o(1) by (simp add: r)
  have bs: "bs = map ?c [0..<48] @ [?c 48]"
  proof (rule nth_equalityI)
    fix i assume "i < length bs"
    then have "i < 48 \<or> i = 48" using assms by linarith
    then show "bs ! i = (map ?c [0..<48] @ [?c 48]) ! i" using assms by (auto simp: nth_append)
  qed (simp add: assms)
  have "bits_of ((out 6)[6 := 0x80]) = map ?c [0..<48] @ byte_bits 0x80"
    using o by (simp add: bits_of_update memcpy_def)
  then have "bits_of (ambe49_bytes_from_bits ?b) = map ?c [0..<48] @ ?c 48 # replicate 7 False"
    using o(2) by (simp add: r byte_bits_def upt_rec numeral_eq_Suc)
  then show "bits_of (ambe49_bytes_from_bits ?b) = bs @ replicate 7 False" by (subst bs) simp
qed

section \<open>The interleavings\<close>

abbreviation (input) M49 :: "nat \<Rightarrow> nat" where "M49 \<equiv> \<lambda>i. INTERLEAVE49_MATRIX ! i"

lemma gather_map: "\<forall>i < n. p i < length xs \<Longrightarrow> gather p n (map h xs) = map h (gather p n xs)"
  by (simp add: gather_def)

lemma M49_less: "\<forall>i < 49. M49 i < 49"
  using il49.perm_bound by blast

lemma scatter_flags:
  assumes "length b = 49"
  shows "fold (\<lambda>i out. out[M49 i := map flag b ! i]) [0..<49] (replicate 49 0) = map flag (scatter M49 49 b (replicate 49 False))"
proof -
  have s: "gather M49 49 (scatter M49 49 (map flag b) (replicate 49 0)) = map flag b"
    using assms by (intro il49.gather_scatter) simp_all
  have "gather M49 49 (map flag (scatter M49 49 b (replicate 49 False))) = map flag b"
    using assms M49_less by (subst gather_map) (simp_all add: il49.gather_scatter)
  with s have "scatter M49 49 (map flag b) (replicate 49 0) = map flag (scatter M49 49 b (replicate 49 False))"
    by - (rule il49.gather_inject [of "scatter M49 49 (map flag b) (replicate 49 0)"
          "map flag (scatter M49 49 b (replicate 49 False))"], simp_all only: length_map length_scatter length_replicate)
  then show ?thesis by (simp add: scatter_def)
qed

lemma fold_set_all: "length xs = n \<Longrightarrow> fold (\<lambda>i out. out[i := f i]) [0..<n] xs = map f [0..<n]"
proof -
  have "k \<le> length xs \<Longrightarrow> fold (\<lambda>i out. out[i := f i]) [0..<k] xs = map f [0..<k] @ drop k xs" for k
  proof (induction k)
    case (Suc k)
    have "drop k xs = xs ! k # drop (Suc k) xs" using Suc.prems by (simp add: Cons_nth_drop_Suc)
    then show ?case using Suc by (simp add: list_update_append)
  qed simp
  then show "length xs = n \<Longrightarrow> fold (\<lambda>i out. out[i := f i]) [0..<n] xs = map f [0..<n]" by simp
qed

lemma gather_flags:
  assumes "length b = 49"
  shows "fold (\<lambda>i out. out[i := map flag b ! M49 i]) [0..<49] (replicate 49 0) = map flag (gather M49 49 b)"
  using assms M49_less by (simp add: fold_set_all gather_def)

lemma il49_bits:
  assumes "length f = 7"
  shows "length (ambe49_interleave f) = 7" "length (ambe49_deinterleave f) = 7"
    "bits_of (ambe49_interleave f) = scatter M49 49 (take 49 (bits_of f)) (replicate 49 False) @ replicate 7 False"
    "bits_of (ambe49_deinterleave f) = gather M49 49 (take 49 (bits_of f)) @ replicate 7 False"
proof -
  let ?b = "take 49 (bits_of f)"
  have b: "length ?b = 49" using assms by simp
  have e: "ambe49_interleave f = ambe49_bytes_from_bits (map flag (scatter M49 49 ?b (replicate 49 False)))"
    "ambe49_deinterleave f = ambe49_bytes_from_bits (map flag (gather M49 49 ?b))"
    unfolding ambe49_interleave_def ambe49_deinterleave_def Let_def frame_bits [OF assms] scatter_flags [OF b] gather_flags [OF b]
    by (rule refl)+
  show "length (ambe49_interleave f) = 7" "length (ambe49_deinterleave f) = 7"
    "bits_of (ambe49_interleave f) = scatter M49 49 ?b (replicate 49 False) @ replicate 7 False"
    "bits_of (ambe49_deinterleave f) = gather M49 49 ?b @ replicate 7 False"
    unfolding e by (simp_all add: bytes_from_bits)
qed

lemma masked_frame:
  assumes "length f = 7" "length g = 7" "bits_of g = take 49 (bits_of f) @ replicate 7 False"
  shows "g = f[6 := f ! 6 AND 0x80]"
proof -
  have "byte_bits (f ! 6 AND 0x80) = bit (f ! 6) 7 # replicate 7 False"
    by (simp add: byte_bits_def upt_rec bit_and_iff numeral_eq_Suc)
  moreover obtain a0 a1 a2 a3 a4 a5 a6 where "f = [a0, a1, a2, a3, a4, a5, a6]"
    using assms(1) by (auto simp: numeral_eq_Suc length_Suc_conv)
  moreover have "take 1 (byte_bits (f ! 6)) = [bit (f ! 6) 7]" by (simp add: byte_bits_def upt_rec)
  ultimately have "bits_of (f[6 := f ! 6 AND 0x80]) = take 49 (bits_of f) @ replicate 7 False" by simp
  then have "bits_of g = bits_of (f[6 := f ! 6 AND 0x80])" using assms(3) by simp
  then show ?thesis using assms(1,2) by (subst (asm) bits_of_inject) simp_all
qed

lemma interleavings_inverse:
  assumes "length f = 7"
  shows "ambe49_deinterleave (ambe49_interleave f) = f[6 := f ! 6 AND 0x80]"
    "ambe49_interleave (ambe49_deinterleave f) = f[6 := f ! 6 AND 0x80]"
proof -
  note i = il49_bits [OF assms]
  have b: "length (take 49 (bits_of f)) = 49" using assms by simp
  show "ambe49_deinterleave (ambe49_interleave f) = f[6 := f ! 6 AND 0x80]"
    using il49_bits [OF i(1)] i(3) b
    by (intro masked_frame [OF assms]) (simp_all add: il49.gather_scatter)
  show "ambe49_interleave (ambe49_deinterleave f) = f[6 := f ! 6 AND 0x80]"
    using il49_bits [OF i(2)] i(4) b
    by (intro masked_frame [OF assms]) (simp_all add: il49.scatter_gather)
qed

section \<open>Exchanges\<close>

text \<open>The loop that empties the socket ends exactly when a read finds nothing.\<close>

lemma drain_returns: "stale k = [] \<Longrightarrow> i \<le> k \<Longrightarrow> voc_drain stale i = Some ()"
proof (induction "k - i" arbitrary: i)
  case 0
  then have "i = k" by simp
  then show ?case using 0 by (subst voc_drain.simps) simp
next
  case (Suc d)
  then show ?case using Suc.hyps(1) [of "i + 1"] by (subst voc_drain.simps) simp
qed

lemma drain_stops:
  assumes "voc_drain stale i = Some u"
  shows "\<exists>k. stale k = []"
proof (rule voc_drain.raw_induct [where P = "\<lambda>stale i u. \<exists>k. stale k = []", OF _ assms])
  fix f stale i u
  assume ih: "\<And>stale i u. f stale i = Some u \<Longrightarrow> \<exists>k. stale k = []"
    and step: "(if stale i \<noteq> [] then f stale (i + 1) else Some ()) = Some u"
  show "\<exists>k. stale k = []" using ih [of stale "i + 1" u] step by (cases "stale i = []") auto
qed

text \<open>A server that does not send without end, and one that does.\<close>

definition quiet_server :: "server \<Rightarrow> bool" where
  "quiet_server srv \<longleftrightarrow> (\<forall>cs. \<exists>k. srv_stale srv cs k = [])"

definition floods :: "server \<Rightarrow> voc_globals \<Rightarrow> bool" where
  "floods srv g \<longleftrightarrow> (\<forall>k. srv_stale srv (v_calls g) k \<noteq> [])"

lemma exchange_once_returns:
  assumes "srv_stale srv (v_calls g) k = []"
  shows "\<exists>r. voc_exchange_once srv req len t g = Some r"
proof -
  have "voc_drain (srv_stale srv (v_calls g)) 0 = Some ()" using assms by (intro drain_returns [of _ k]) simp_all
  then show ?thesis unfolding voc_exchange_once_def Let_def by (simp only: bind.bind_lunit) (rule exI, rule refl)
qed

lemma exchange_once_blocked: "floods srv g \<Longrightarrow> voc_exchange_once srv req len t g = None"
  using drain_stops [of "srv_stale srv (v_calls g)" 0]
  by (cases "voc_drain (srv_stale srv (v_calls g)) 0") (auto simp: floods_def voc_exchange_once_def)

lemma once_quiet:
  assumes "quiet_server srv"
  shows "\<exists>n rsp g'. voc_exchange_once srv req len t g = Some (n, rsp, g')"
proof -
  obtain k where "srv_stale srv (v_calls g) k = []" using assms by (auto simp: quiet_server_def)
  from exchange_once_returns [OF this] show ?thesis by auto
qed

lemma recover_quiet: "quiet_server srv \<Longrightarrow> \<exists>r g'. voc_recover_rate srv g = Some (r, g')"
  using once_quiet [of srv DV3K_RATET_DMR 64 300 g] by (auto simp: voc_recover_rate_def)

lemma exchange_quiet:
  assumes "quiet_server srv"
  shows "\<exists>n rsp g'. voc_exchange srv req len g = Some (n, rsp, g')"
proof -
  let ?t = "if 2 \<le> g_consec_fail g then 120 else 400"
  obtain n1 rsp1 g1 where 1: "voc_exchange_once srv req len ?t g = Some (n1, rsp1, g1)" using once_quiet [OF assms] by blast
  obtain r g2 where 2: "voc_recover_rate srv (g1\<lparr>g_consec_fail := g_consec_fail g1 + 1\<rparr>) = Some (r, g2)"
    using recover_quiet [OF assms] by blast
  obtain n3 rsp3 g3 where 3: "voc_exchange_once srv req len 400 g2 = Some (n3, rsp3, g3)" using once_quiet [OF assms] by blast
  show ?thesis unfolding voc_exchange_def Let_def 1 by (simp add: 2 3)
qed

text \<open>What one exchange leaves alone, and what it adds to the record of calls.\<close>

lemma exchange_once_calls:
  assumes "voc_exchange_once srv req k t g = Some (n, rsp, g')"
  shows "v_calls g' = v_calls g @ [(req, t)]" "g_consec_fail g' = g_consec_fail g" "n = -1 \<or> n = 0 \<or> 4 \<le> n"
    "0 < n \<Longrightarrow> n = int (length rsp) \<and> rsp ! 0 = DV3K_START \<and> length rsp \<le> k
      \<and> (\<exists>p. srv_reply srv (v_calls g) req = Packet p \<and> rsp = take k p)"
  using assms by (auto simp: voc_exchange_once_def Let_def Option.bind_eq_Some_conv split: reply.splits if_splits)

lemma recover_calls:
  assumes "voc_recover_rate srv g = Some (r, g')"
  shows "v_calls g' = v_calls g @ [(DV3K_RATET_DMR, 300)]" "g_consec_fail g' = g_consec_fail g" "r = 0 \<or> r = -1"
proof -
  obtain n rsp where 1: "voc_exchange_once srv DV3K_RATET_DMR 64 300 g = Some (n, rsp, g')" "r = (if 0 < n then 0 else - 1)"
    using assms by (auto simp: voc_recover_rate_def Option.bind_eq_Some_conv)
  show "v_calls g' = v_calls g @ [(DV3K_RATET_DMR, 300)]" "g_consec_fail g' = g_consec_fail g" "r = 0 \<or> r = -1"
    using exchange_once_calls(1,2) [OF 1(1)] 1(2) by simp_all
qed

definition waited :: "calls \<Rightarrow> nat" where
  "waited cs = sum_list (map snd cs)"

lemma waited_simps [simp]: "waited [] = 0" "waited (c # cs) = snd c + waited cs" "waited (cs @ ds) = waited cs + waited ds"
  by (simp_all add: waited_def)

text \<open>The protocol of an exchange after \<open>f\<close> failures in a row: one request; after the third failure the
  rate is set again, and when the server takes that, the request is repeated.\<close>

definition exchange_log :: "bytes \<Rightarrow> int \<Rightarrow> calls \<Rightarrow> bool" where
  "exchange_log req f cs \<longleftrightarrow>
     (if f < 2 then cs = [(req, 400)]
      else cs = [(req, 120)] \<or> cs = [(req, 120), (DV3K_RATET_DMR, 300)]
        \<or> cs = [(req, 120), (DV3K_RATET_DMR, 300), (req, 400)])"

lemma exchange_log_bounds: "exchange_log req f cs \<Longrightarrow> length cs \<le> 3 \<and> waited cs \<le> 820"
  by (auto simp: exchange_log_def split: if_splits)

definition exchange_result :: "nat \<Rightarrow> int \<Rightarrow> int \<Rightarrow> bytes \<Rightarrow> int \<Rightarrow> bool" where
  "exchange_result k f n rsp f' \<longleftrightarrow>
     (if 0 < n then 4 \<le> n \<and> n = int (length rsp) \<and> rsp ! 0 = DV3K_START \<and> length rsp \<le> k \<and> f' = 0
      else (n = 0 \<or> n = -1) \<and> f' = f + 1)"

lemma exchange_protocol:
  assumes "voc_exchange srv req k g = Some (n, rsp, g')"
  shows "\<exists>cs. v_calls g' = v_calls g @ cs \<and> exchange_log req (g_consec_fail g) cs"
    "exchange_result k (g_consec_fail g) n rsp (g_consec_fail g')"
proof -
  let ?t = "if 2 \<le> g_consec_fail g then 120 else 400"
  obtain n1 rsp1 g1 where 1: "voc_exchange_once srv req k ?t g = Some (n1, rsp1, g1)"
    using assms by (auto simp: voc_exchange_def Let_def Option.bind_eq_Some_conv)
  note c1 = exchange_once_calls [OF 1]
  define gf where "gf = g1\<lparr>g_consec_fail := g_consec_fail g1 + 1\<rparr>"
  have gf: "v_calls gf = v_calls g @ [(req, ?t)]" "g_consec_fail gf = g_consec_fail g + 1"
    using c1(1,2) by (simp_all add: gf_def)
  have unfolded: "Some (n, rsp, g') =
     (if 0 < n1 then Some (n1, rsp1, g1\<lparr>g_consec_fail := 0\<rparr>)
      else if 3 \<le> g_consec_fail gf
        then Option.bind (voc_recover_rate srv gf) (\<lambda>(r, g2).
          Option.bind (if r = 0 then voc_exchange_once srv req k 400 g2 else Some (n1, rsp1, g2)) (\<lambda>(n3, rsp3, g3).
            Some (if 0 < n3 then (n3, rsp3, g3\<lparr>g_consec_fail := 0\<rparr>) else (n3, rsp3, g3))))
        else Some (n1, rsp1, gf))"
    using assms unfolding voc_exchange_def Let_def 1 bind.bind_lunit prod.case gf_def by (rule sym)
  consider (first) "0 < n1" | (few) "\<not> 0 < n1" "g_consec_fail g < 2"
    | (more) r g2 where "\<not> 0 < n1" "\<not> g_consec_fail g < 2" "voc_recover_rate srv gf = Some (r, g2)"
    using unfolded gf(2) by (cases "voc_recover_rate srv gf") (auto split: if_splits)
  then have "(\<exists>cs. v_calls g' = v_calls g @ cs \<and> exchange_log req (g_consec_fail g) cs)
    \<and> exchange_result k (g_consec_fail g) n rsp (g_consec_fail g')"
  proof cases
    case first
    then have "n = n1" "rsp = rsp1" "g' = g1\<lparr>g_consec_fail := 0\<rparr>" using unfolded by simp_all
    then show ?thesis using first c1 by (auto simp: exchange_log_def exchange_result_def)
  next
    case few
    then have "n = n1" "rsp = rsp1" "g' = gf" using unfolded gf by simp_all
    then show ?thesis using few c1(3) gf by (auto simp: exchange_log_def exchange_result_def)
  next
    case (more r g2)
    note c2 = recover_calls [OF more(3)]
    show ?thesis
    proof (cases "r = 0")
      case False
      then have "n = n1" "rsp = rsp1" "g' = g2" using unfolded more gf by simp_all
      then show ?thesis using more c1(3) c2 gf by (auto simp: exchange_log_def exchange_result_def)
    next
      case True
      then obtain n3 rsp3 g3 where 3: "voc_exchange_once srv req k 400 g2 = Some (n3, rsp3, g3)"
        using unfolded more gf by (cases "voc_exchange_once srv req k 400 g2") auto
      note c3 = exchange_once_calls [OF 3]
      have "n = n3" "rsp = rsp3" "g' = (if 0 < n3 then g3\<lparr>g_consec_fail := 0\<rparr> else g3)"
        using unfolded more gf True 3 by (simp_all split: if_splits)
      then show ?thesis using more c2 c3 gf by (auto simp: exchange_log_def exchange_result_def)
    qed
  qed
  then show "\<exists>cs. v_calls g' = v_calls g @ cs \<and> exchange_log req (g_consec_fail g) cs"
    "exchange_result k (g_consec_fail g) n rsp (g_consec_fail g')" by blast+
qed

section \<open>Frames across the wire\<close>

definition enc_failed :: "voc_globals \<Rightarrow> voc_globals" where
  "enc_failed g = g\<lparr>g_enc_fail := g_enc_fail g + 1\<rparr>"

lemma enc_failed_same [simp]: "v_calls (enc_failed g) = v_calls g" "g_consec_fail (enc_failed g) = g_consec_fail g"
  by (simp_all add: enc_failed_def)

definition ambe_answer :: "int \<Rightarrow> bytes \<Rightarrow> bool" where
  "ambe_answer n rsp \<longleftrightarrow> 6 \<le> n \<and> rsp ! 3 = DV3K_TYPE_AMBE \<and> rsp ! 4 = DV3K_AMBE_FIELD"

text \<open>The two rounds of the encoder.\<close>

lemma encode_round:
  assumes "voc_exchange srv req 64 g = Some (n, rsp, g')"
  shows "vocoder_encode_loop srv req i (Suc k) x g =
    (if \<not> ambe_answer n rsp then Some (None, enc_failed g')
     else if rsp ! 5 = 49 then Some (Some (n, rsp), g')
     else if i \<noteq> 0 then Some (None, enc_failed g')
     else Option.bind (voc_recover_rate srv (enc_failed g'))
       (\<lambda>(r, g''). if r = 0 then vocoder_encode_loop srv req (i + 1) k (n, rsp) g'' else Some (None, g'')))"
  using assms by (auto simp: enc_failed_def ambe_answer_def Let_def)

lemma encode_rounds:
  assumes "vocoder_encode_loop srv req 0 2 x g = Some (res, g')"
  shows "\<exists>cs. v_calls g' = v_calls g @ cs \<and> length cs \<le> 5 \<and> waited cs \<le> 1520"
    "res = Some (n, rsp) \<Longrightarrow> 6 \<le> n \<and> n = int (length rsp) \<and> rsp ! 5 = 49"
proof -
  obtain n1 rsp1 g1 where 1: "voc_exchange srv req 64 g = Some (n1, rsp1, g1)"
    using assms by (auto simp: numeral_2_eq_2 Option.bind_eq_Some_conv)
  note e1 = exchange_protocol [OF 1] and run = assms [unfolded numeral_2_eq_2 encode_round [OF 1]]
  obtain c1 where c1: "v_calls g1 = v_calls g @ c1" "length c1 \<le> 3" "waited c1 \<le> 820"
    using e1(1) exchange_log_bounds by blast
  have one: "\<exists>cs. v_calls g' = v_calls g @ cs \<and> length cs \<le> 5 \<and> waited cs \<le> 1520" if "v_calls g' = v_calls g1"
    using that c1 by (intro exI [of _ c1]) simp
  have "(\<exists>cs. v_calls g' = v_calls g @ cs \<and> length cs \<le> 5 \<and> waited cs \<le> 1520)
    \<and> (\<forall>n rsp. res = Some (n, rsp) \<longrightarrow> 6 \<le> n \<and> n = int (length rsp) \<and> rsp ! 5 = 49)"
  proof (cases "ambe_answer n1 rsp1 \<and> rsp1 ! 5 \<noteq> 49")
    case False
    then have "v_calls g' = v_calls g1" "res = None \<or> res = Some (n1, rsp1) \<and> ambe_answer n1 rsp1 \<and> rsp1 ! 5 = 49"
      using run by (auto split: if_splits)
    then show ?thesis using one e1(2) by (auto simp: ambe_answer_def exchange_result_def split: if_splits)
  next
    case True
    then obtain r g2 where 2: "voc_recover_rate srv (enc_failed g1) = Some (r, g2)"
      using run by (cases "voc_recover_rate srv (enc_failed g1)") auto
    note e2 = recover_calls [OF 2]
    have c2: "v_calls g2 = v_calls g @ c1 @ [(DV3K_RATET_DMR, 300)]" using c1(1) e2(1) by simp
    show ?thesis
    proof (cases "r = 0")
      case False
      then have "res = None" "g' = g2" using run True 2 by simp_all
      then show ?thesis using c1 c2 by (auto intro: exI [of _ "c1 @ [(DV3K_RATET_DMR, 300)]"])
    next
      case r: True
      have second: "vocoder_encode_loop srv req 1 (Suc 0) (n1, rsp1) g2 = Some (res, g')" using run True 2 r by simp
      then obtain n3 rsp3 g3 where 3: "voc_exchange srv req 64 g2 = Some (n3, rsp3, g3)"
        by (auto simp: Option.bind_eq_Some_conv)
      note e3 = exchange_protocol [OF 3]
      obtain c3 where c3: "v_calls g3 = v_calls g2 @ c3" "exchange_log req (g_consec_fail g2) c3" using e3(1) by blast
      have "g_consec_fail g2 = 0" using e1(2) e2(2) True by (auto simp: exchange_result_def ambe_answer_def split: if_splits)
      then have "c3 = [(req, 400)]" using c3(2) by (simp add: exchange_log_def)
      moreover have "v_calls g' = v_calls g3" "res = None \<or> res = Some (n3, rsp3) \<and> ambe_answer n3 rsp3 \<and> rsp3 ! 5 = 49"
        using second unfolding encode_round [OF 3] by (auto split: if_splits)
      ultimately show ?thesis using c1 c2 c3(1) e3(2)
        by (intro conjI exI [of _ "c1 @ [(DV3K_RATET_DMR, 300), (req, 400)]"])
          (auto simp: ambe_answer_def exchange_result_def split: if_splits)
    qed
  qed
  then show "\<exists>cs. v_calls g' = v_calls g @ cs \<and> length cs \<le> 5 \<and> waited cs \<le> 1520"
    "res = Some (n, rsp) \<Longrightarrow> 6 \<le> n \<and> n = int (length rsp) \<and> rsp ! 5 = 49" by blast+
qed

lemma encode_loop_quiet:
  assumes "quiet_server srv"
  shows "\<exists>res g'. vocoder_encode_loop srv req i k x g = Some (res, g')"
proof (induction k arbitrary: i x g)
  case (Suc k)
  obtain n rsp g1 where 1: "voc_exchange srv req 64 g = Some (n, rsp, g1)" using exchange_quiet [OF assms] by blast
  obtain r g2 where 2: "voc_recover_rate srv (enc_failed g1) = Some (r, g2)" using recover_quiet [OF assms] by blast
  show ?case unfolding encode_round [OF 1] 2 using Suc.IH [of "i + 1" "(n, rsp)" g2] by simp blast
qed simp

lemma length_updates [simp]: "length (fold (\<lambda>i xs. xs[i := f i]) js xs) = length xs"
  by (induction js arbitrary: xs) simp_all

lemma encode_total:
  assumes "length ambe = 7" "vocoder_encode srv v pcm ambe g = Some (re, ambe', ge)"
  shows "\<exists>cs. v_calls ge = v_calls g @ cs \<and> length cs \<le> 5 \<and> waited cs \<le> 1520"
    "re = 0 \<or> re = -1 \<and> ambe' = ambe" "length ambe' = 7"
proof -
  have len: "length (ambe49_deinterleave (memcpy ambe 0 w)) = 7" if "length w = 7" for w
    using assms(1) that by (intro il49_bits(2)) simp
  have "(\<exists>cs. v_calls ge = v_calls g @ cs \<and> length cs \<le> 5 \<and> waited cs \<le> 1520)
    \<and> (re = 0 \<or> re = -1 \<and> ambe' = ambe) \<and> length ambe' = 7"
  proof (cases "voc_ready v")
    case False
    then show ?thesis using assms by (auto simp: vocoder_encode_def)
  next
    case True
    obtain res g1 where 1: "vocoder_encode_loop srv (encode_request pcm) 0 2 (0, []) g = Some (res, g1)"
      using assms(2) True by (auto simp: vocoder_encode_def Option.bind_eq_Some_conv)
    obtain cs where cs: "v_calls g1 = v_calls g @ cs" "length cs \<le> 5" "waited cs \<le> 1520" using encode_rounds(1) [OF 1] by blast
    show ?thesis
    proof (cases res)
      case None
      then show ?thesis using True assms 1 cs by (auto simp: vocoder_encode_def)
    next
      case (Some x)
      obtain n rsp where x: "x = (n, rsp)" by (rule prod.exhaust)
      have n: "6 \<le> n" "n = int (length rsp)" "rsp ! 5 = 49" using encode_rounds(2) [OF 1] Some x by simp_all
      show ?thesis
      proof (cases "n < 13")
        case True
        then show ?thesis using \<open>voc_ready v\<close> assms 1 cs Some n x by (auto simp: vocoder_encode_def Let_def)
      next
        case False
        then have "length ambe' = 7" "re = 0" "v_calls ge = v_calls g1"
          using True assms 1 Some n x len [of "sub_buf rsp 6 7"] by (auto simp: vocoder_encode_def Let_def)
        then show ?thesis using cs by auto
      qed
    qed
  qed
  then show "\<exists>cs. v_calls ge = v_calls g @ cs \<and> length cs \<le> 5 \<and> waited cs \<le> 1520"
    "re = 0 \<or> re = -1 \<and> ambe' = ambe" "length ambe' = 7" by blast+
qed

lemma decode_total:
  assumes "vocoder_decode srv v ambe pcm g = Some (rd, pcm', gd)"
  shows "\<exists>cs. v_calls gd = v_calls g @ cs \<and> length cs \<le> 3 \<and> waited cs \<le> 820"
    "rd = 0 \<or> rd = -1 \<and> pcm' = pcm" "length pcm' = length pcm"
proof -
  have "(\<exists>cs. v_calls gd = v_calls g @ cs \<and> length cs \<le> 3 \<and> waited cs \<le> 820)
    \<and> (rd = 0 \<or> rd = -1 \<and> pcm' = pcm) \<and> length pcm' = length pcm"
  proof (cases "voc_ready v")
    case False
    then show ?thesis using assms by (simp add: vocoder_decode_def)
  next
    case True
    then obtain n rsp g1 where 1: "voc_exchange srv (decode_request ambe) 334 g = Some (n, rsp, g1)"
      using assms by (auto simp: vocoder_decode_def Option.bind_eq_Some_conv)
    obtain cs where cs: "v_calls g1 = v_calls g @ cs" "length cs \<le> 3" "waited cs \<le> 820"
      using exchange_protocol(1) [OF 1] exchange_log_bounds by blast
    have "v_calls gd = v_calls g1 \<and> (rd = 0 \<or> rd = -1 \<and> pcm' = pcm) \<and> length pcm' = length pcm"
      using assms 1 True by (auto simp: vocoder_decode_def Let_def split: if_splits)
    then show ?thesis using cs by auto
  qed
  then show "\<exists>cs. v_calls gd = v_calls g @ cs \<and> length cs \<le> 3 \<and> waited cs \<le> 820"
    "rd = 0 \<or> rd = -1 \<and> pcm' = pcm" "length pcm' = length pcm" by blast+
qed

lemma calls_return:
  assumes "quiet_server srv"
  shows "vocoder_encode srv v pcm ambe g \<noteq> None" "vocoder_decode srv v ambe pcm' g \<noteq> None"
proof -
  obtain res g1 where 1: "vocoder_encode_loop srv (encode_request pcm) 0 2 (0, []) g = Some (res, g1)"
    using encode_loop_quiet [OF assms] by blast
  show "vocoder_encode srv v pcm ambe g \<noteq> None"
    unfolding vocoder_encode_def 1 bind.bind_lunit prod.case by (cases "voc_ready v") (simp_all only: if_True if_False option.distinct not_True_eq_False not_False_eq_True)
  obtain n rsp g2 where 2: "voc_exchange srv (decode_request ambe) 334 g = Some (n, rsp, g2)"
    using exchange_quiet [OF assms] by blast
  show "vocoder_decode srv v ambe pcm' g \<noteq> None"
    unfolding vocoder_decode_def 2 bind.bind_lunit prod.case by (cases "voc_ready v") (simp_all only: if_True if_False option.distinct not_True_eq_False not_False_eq_True)
qed

lemma calls_blocked:
  assumes "floods srv g" "voc_ready v"
  shows "vocoder_encode srv v pcm ambe g = None" "vocoder_decode srv v ambe pcm' g = None"
  using assms by (simp_all add: vocoder_encode_def vocoder_decode_def numeral_2_eq_2 voc_exchange_def exchange_once_blocked)

text \<open>C33: The calls of the vocoder are bounded unless datagrams arrive without end. When every emptying of the
  socket comes to an end, encoding and decoding return, whatever the server answers: encoding makes at most
  five exchanges and waits at most 1520 milliseconds for answers, decoding at most three and 820; the result is
  0 or -1, a failed call leaves the caller's frame and samples as they were, and the sizes of both never
  change. When the datagrams before the first request never end, neither call of an open vocoder returns:
  the loop that empties the socket has no bound.\<close>
theorem vocoder_calls_bounded:
  assumes "length ambe = 7" "length pcm = 160"
  shows "(quiet_server srv \<longrightarrow> vocoder_encode srv v pcm ambe g \<noteq> None \<and> vocoder_decode srv v ambe pcm g \<noteq> None)
    \<and> (\<forall>re ambe' ge. vocoder_encode srv v pcm ambe g = Some (re, ambe', ge) \<longrightarrow>
         (\<exists>cs. v_calls ge = v_calls g @ cs \<and> length cs \<le> 5 \<and> waited cs \<le> 1520) \<and> (re = 0 \<or> re = -1 \<and> ambe' = ambe) \<and> length ambe' = 7)
    \<and> (\<forall>rd pcm' gd. vocoder_decode srv v ambe pcm g = Some (rd, pcm', gd) \<longrightarrow>
         (\<exists>cs. v_calls gd = v_calls g @ cs \<and> length cs \<le> 3 \<and> waited cs \<le> 820) \<and> (rd = 0 \<or> rd = -1 \<and> pcm' = pcm) \<and> length pcm' = 160)
    \<and> (floods srv g \<longrightarrow> voc_ready v \<longrightarrow> vocoder_encode srv v pcm ambe g = None \<and> vocoder_decode srv v ambe pcm g = None)"
proof (intro conjI allI impI)
  fix re ambe' ge assume "vocoder_encode srv v pcm ambe g = Some (re, ambe', ge)"
  note e = encode_total [OF assms(1) this]
  show "\<exists>cs. v_calls ge = v_calls g @ cs \<and> length cs \<le> 5 \<and> waited cs \<le> 1520" "re = 0 \<or> re = -1 \<and> ambe' = ambe" "length ambe' = 7"
    using e by blast+
next
  fix rd pcm' gd assume "vocoder_decode srv v ambe pcm g = Some (rd, pcm', gd)"
  note d = decode_total [OF this]
  show "\<exists>cs. v_calls gd = v_calls g @ cs \<and> length cs \<le> 3 \<and> waited cs \<le> 820" "rd = 0 \<or> rd = -1 \<and> pcm' = pcm" "length pcm' = 160"
    using d assms(2) by simp_all
qed (simp_all add: calls_return calls_blocked)

definition voc_start :: voc_globals where
  "voc_start = \<lparr>g_enc_ok = 0, g_enc_fail = 0, g_dec_ok = 0, g_dec_fail = 0, g_consec_fail = 0, v_calls = []\<rparr>"

text \<open>A server that never answers, and a vocoder that is open.\<close>

definition silent_server :: server where
  "silent_server = \<lparr>srv_stale = (\<lambda>_ _. []), srv_reply = (\<lambda>_ _. NoReply)\<rparr>"

definition voc_sample :: vocoder where
  "voc_sample = \<lparr>voc_sock = 3, voc_peer = 0, voc_host = [], voc_port = 2460, voc_ready = True\<rparr>"

theorem vocoder_calls_bounded_witness:
  "(\<exists>re ambe' ge. vocoder_encode silent_server voc_sample (replicate 160 0) (replicate 7 0) voc_start = Some (re, ambe', ge)
      \<and> length (v_calls ge) \<le> 5 \<and> waited (v_calls ge) \<le> 1520)
    \<and> vocoder_encode (silent_server\<lparr>srv_stale := \<lambda>_ _. [0]\<rparr>) voc_sample (replicate 160 0) (replicate 7 0) voc_start = None"
proof -
  have q: "quiet_server silent_server" "floods (silent_server\<lparr>srv_stale := \<lambda>_ _. [0]\<rparr>) voc_start" "voc_ready voc_sample" "v_calls voc_start = []"
    by (simp_all add: quiet_server_def floods_def silent_server_def voc_sample_def voc_start_def)
  have l: "length (replicate 7 (0 :: u8)) = 7" "length (replicate 160 (0 :: u16)) = 160" by simp_all
  note b = vocoder_calls_bounded [OF l]
  obtain re ambe' ge where e: "vocoder_encode silent_server voc_sample (replicate 160 0) (replicate 7 0) voc_start = Some (re, ambe', ge)"
    using b [of silent_server voc_sample voc_start] q(1) by (cases "vocoder_encode silent_server voc_sample (replicate 160 0) (replicate 7 0) voc_start") auto
  then show ?thesis
    using b [of silent_server voc_sample voc_start] b [of "silent_server\<lparr>srv_stale := \<lambda>_ _. [0]\<rparr>" voc_sample voc_start] q(2-4) by auto
qed

text \<open>C32: A voice frame crosses the wire unchanged: a server that answers a request to encode, once the socket
  is empty, with the frame as a request to decode carries it, in the interleaved order of the wire, gives the caller the frame
  itself, all 49 bits of it; the result is a success and counts as one.\<close>
theorem vocoder_frame_crosses:
  assumes "voc_ready v" "length raw = 7" "length ambe = 7"
    and empty: "srv_stale srv (v_calls g) k = []"
    and answer: "srv_reply srv (v_calls g) (encode_request pcm) = Packet ([DV3K_START, h1, h2, DV3K_TYPE_AMBE, DV3K_AMBE_FIELD, 49]
      @ sub_buf (decode_request raw) 6 7 @ rest)"
  shows "\<exists>g'. vocoder_encode srv v pcm ambe g = Some (0, raw[6 := raw ! 6 AND 0x80], g')
    \<and> v_calls g' = v_calls g @ [(encode_request pcm, if 2 \<le> g_consec_fail g then 120 else 400)]
    \<and> g_consec_fail g' = 0 \<and> g_enc_ok g' = g_enc_ok g + 1"
proof -
  let ?t = "if 2 \<le> g_consec_fail g then 120 else 400"
  let ?head = "[DV3K_START, h1, h2, DV3K_TYPE_AMBE, DV3K_AMBE_FIELD, 49]"
  have il: "length (ambe49_interleave raw) = 7" by (rule il49_bits [OF assms(2)])
  have wire: "sub_buf (decode_request raw) 6 7 = ambe49_interleave raw"
    using assms(2) il by (simp add: decode_request_def sub_buf_def)
  define rsp where "rsp = take 64 (?head @ ambe49_interleave raw @ rest)"
  define g1 where "g1 = g\<lparr>v_calls := v_calls g @ [(encode_request pcm, ?t)], g_consec_fail := 0\<rparr>"
  have r: "rsp = ?head @ ambe49_interleave raw @ take 51 rest" using il by (simp add: rsp_def)
  have len: "13 \<le> length rsp" "rsp \<noteq> []" using il by (simp_all add: r)
  have once: "voc_exchange_once srv (encode_request pcm) 64 ?t g
      = Some (int (length rsp), rsp, g\<lparr>v_calls := v_calls g @ [(encode_request pcm, ?t)]\<rparr>)"
    using answer len drain_returns [of "srv_stale srv (v_calls g)" k 0] empty by (simp add: voc_exchange_once_def wire rsp_def [symmetric] Let_def) (simp add: r il)
  have ex: "voc_exchange srv (encode_request pcm) 64 g = Some (int (length rsp), rsp, g1)"
    unfolding voc_exchange_def once Let_def using \<open>rsp \<noteq> []\<close> by (simp add: g1_def)
  have aa: "ambe_answer (int (length rsp)) rsp" "rsp ! 5 = 49" using len by (simp_all add: ambe_answer_def r)
  have loop: "vocoder_encode_loop srv (encode_request pcm) 0 2 (0, []) g = Some (Some (int (length rsp), rsp), g1)"
    unfolding numeral_2_eq_2 encode_round [OF ex] using aa by simp
  have "sub_buf rsp 6 7 = ambe49_interleave raw" using il by (simp add: r sub_buf_def)
  moreover have "memcpy ambe 0 (ambe49_interleave raw) = ambe49_interleave raw"
    using il assms(3) by (intro memcpy_whole) simp
  moreover have "memcpy (ambe49_interleave raw) 0 (raw[6 := raw ! 6 AND 0x80]) = raw[6 := raw ! 6 AND 0x80]"
    using assms(2) il by (intro memcpy_whole) simp
  ultimately have "vocoder_encode srv v pcm ambe g = Some (0, raw[6 := raw ! 6 AND 0x80], g1\<lparr>g_enc_ok := g_enc_ok g1 + 1\<rparr>)"
    unfolding vocoder_encode_def loop Let_def using assms(1) len aa(2)
    by (simp add: interleavings_inverse(1) [OF assms(2)])
  then show ?thesis by (simp add: g1_def)
qed

theorem vocoder_frame_crosses_witness:
  "\<exists>g'. vocoder_encode (silent_server\<lparr>srv_reply := \<lambda>_ _. Packet ([0x61, 0, 9, 1, 1, 49] @ sub_buf (decode_request [1, 2, 3, 4, 5, 6, 0x80]) 6 7)\<rparr>)
      voc_sample (replicate 160 0) (replicate 7 0) voc_start = Some (0, [1, 2, 3, 4, 5, 6, 0x80], g')"
  using vocoder_frame_crosses [of voc_sample "[1, 2, 3, 4, 5, 6, 0x80]" "replicate 7 0"
      "silent_server\<lparr>srv_reply := \<lambda>_ _. Packet ([0x61, 0, 9, 1, 1, 49] @ sub_buf (decode_request [1, 2, 3, 4, 5, 6, 0x80]) 6 7)\<rparr>"
      voc_start 0 "replicate 160 0" 0 9 "[]"]
  by (auto simp: silent_server_def voc_sample_def)

end
