(* ===== verification/Aliases.thy ===== *)
theory Aliases
  imports C_Strings
begin

text \<open>
  The subscriber tables of \<open>src/aliases.c\<close>: two open-addressing tables of one capacity, \<open>id_tab\<close> from
  DMR id to callsign and \<open>cs_tab\<close> from callsign to the primary id, with their insertion, growth and
  lookup. A null table pointer is the vacant list (the code never allocates a table without slots).
  Whether \<open>calloc\<close> finds memory for two tables of n slots is the argument \<open>alloc n\<close>. A probe loop
  \<open>for (;;)\<close> is a partial function: None is a loop that does not end. Character classes are those of
  the C locale, which the program does not change.
\<close>

section \<open>Characters and keys\<close>

definition isspace :: "u8 \<Rightarrow> bool" where
  "isspace c \<longleftrightarrow> c = 0x20 \<or> (9 \<le> c \<and> c \<le> 13)"

definition hash_str :: "bytes \<Rightarrow> u32" where
  "hash_str s = foldl (\<lambda>h c. (push_bit 5 h + h) + ucast c) 5381 s"

definition hash_id :: "int \<Rightarrow> u32" where
  "hash_id i = word_of_int i * 2654435761"

definition normalize_callsign_key :: "bytes \<Rightarrow> nat \<Rightarrow> bytes" where
  "normalize_callsign_key src dstlen =
     (let src = dropWhile isspace src;
          dst = List.map toupper (take (dstlen - 1) (takeWhile (\<lambda>c. c \<noteq> 0 \<and> c \<noteq> of_char CHR ''-'' \<and> c \<noteq> of_char CHR ''/'') src))
      in rev (dropWhile isspace (rev dst)))"

section \<open>The tables\<close>

record alias_id_slot =
  is_id :: int
  is_callsign :: bytes

record alias_cs_slot =
  cs_callsign :: bytes
  cs_id :: int

record aliases =
  id_tab :: "alias_id_slot list"
  cs_tab :: "alias_cs_slot list"
  cap :: nat
  count :: nat

definition ALIAS_MIN_CAP :: nat where "ALIAS_MIN_CAP = 1024"
definition ALIAS_LOAD_NUM :: nat where "ALIAS_LOAD_NUM = 7"
definition ALIAS_LOAD_DEN :: nat where "ALIAS_LOAD_DEN = 10"

definition id_zero :: alias_id_slot where "id_zero = \<lparr>is_id = 0, is_callsign = replicate 11 0\<rparr>"
definition cs_zero :: alias_cs_slot where "cs_zero = \<lparr>cs_callsign = replicate 11 0, cs_id = 0\<rparr>"

definition id_empty :: "alias_id_slot \<Rightarrow> bool" where "id_empty s \<longleftrightarrow> is_id s = 0"
definition cs_empty :: "alias_cs_slot \<Rightarrow> bool" where "cs_empty s \<longleftrightarrow> cs_callsign s ! 0 = 0"

text \<open>The table of \<open>calloc(1, sizeof *a)\<close>.\<close>

definition aliases_new :: aliases where
  "aliases_new = \<lparr>id_tab = [], cs_tab = [], cap = 0, count = 0\<rparr>"

text \<open>\<open>next_pow2\<close>: the doubling loop; it ends after at most n rounds.\<close>

fun double_until :: "nat \<Rightarrow> nat \<Rightarrow> nat \<Rightarrow> nat" where
  "double_until 0 c n = c"
| "double_until (Suc k) c n = (if c < n then double_until k (2 * c) n else c)"

definition next_pow2 :: "nat \<Rightarrow> nat" where
  "next_pow2 n = (if n < ALIAS_MIN_CAP then ALIAS_MIN_CAP else double_until n ALIAS_MIN_CAP n)"

section \<open>Probing\<close>

text \<open>The endless loop that leaves at the first slot where \<open>stop\<close> holds.\<close>

partial_function (option) probe :: "('s \<Rightarrow> bool) \<Rightarrow> 's list \<Rightarrow> u32 \<Rightarrow> u32 \<Rightarrow> u32 option" where
  [code]: "probe stop tab msk h = (if stop (tab ! unat h) then Some h else probe stop tab msk ((h + 1) AND msk))"

text \<open>The bounded loop of the lookups.\<close>

fun probe_n :: "('s \<Rightarrow> bool) \<Rightarrow> 's list \<Rightarrow> u32 \<Rightarrow> nat \<Rightarrow> u32 \<Rightarrow> u32 option" where
  "probe_n stop tab msk 0 h = None"
| "probe_n stop tab msk (Suc n) h =
     (if stop (tab ! unat h) then Some h else probe_n stop tab msk n ((h + 1) AND msk))"

section \<open>Growth\<close>

definition rehash_step :: "('s \<Rightarrow> bool) \<Rightarrow> ('s \<Rightarrow> u32) \<Rightarrow> u32 \<Rightarrow> 's \<Rightarrow> 's list \<Rightarrow> 's list option" where
  "rehash_step vacant hash msk slot ntab =
     (if vacant slot then Some ntab
      else Option.bind (probe vacant ntab msk (hash slot AND msk)) (\<lambda>h. Some (ntab[unat h := slot])))"

fun rehash_table :: "('s \<Rightarrow> bool) \<Rightarrow> ('s \<Rightarrow> u32) \<Rightarrow> u32 \<Rightarrow> 's list \<Rightarrow> 's list \<Rightarrow> 's list option" where
  "rehash_table vacant hash msk [] ntab = Some ntab"
| "rehash_table vacant hash msk (slot # tab) ntab =
     Option.bind (rehash_step vacant hash msk slot ntab) (rehash_table vacant hash msk tab)"

definition id_hash :: "alias_id_slot \<Rightarrow> u32" where "id_hash s = hash_id (is_id s)"
definition cs_hash :: "alias_cs_slot \<Rightarrow> u32" where "cs_hash s = hash_str (c_str (cs_callsign s))"

text \<open>The result says whether the tables have the new capacity.\<close>

definition alias_rehash :: "(nat \<Rightarrow> bool) \<Rightarrow> nat \<Rightarrow> aliases \<Rightarrow> (bool \<times> aliases) option" where
  "alias_rehash alloc new_cap a =
     (if new_cap < ALIAS_MIN_CAP \<or> new_cap AND (new_cap - 1) \<noteq> 0 then Some (False, a)
      else if \<not> alloc new_cap then Some (False, a)
      else let msk = of_nat (new_cap - 1)
           in Option.bind (rehash_table id_empty id_hash msk (id_tab a) (replicate new_cap id_zero)) (\<lambda>nid.
              Option.bind (rehash_table cs_empty cs_hash msk (cs_tab a) (replicate new_cap cs_zero)) (\<lambda>ncs.
              Some (True, a\<lparr>id_tab := nid, cs_tab := ncs, cap := new_cap\<rparr>))))"

definition alias_ensure_cap :: "(nat \<Rightarrow> bool) \<Rightarrow> aliases \<Rightarrow> (bool \<times> aliases) option" where
  "alias_ensure_cap alloc a =
     (if cap a = 0 then alias_rehash alloc ALIAS_MIN_CAP a
      else let need = count a + 1
           in if need * ALIAS_LOAD_DEN < cap a * ALIAS_LOAD_NUM then Some (True, a)
              else alias_rehash alloc (next_pow2 (cap a + 1)) a)"

section \<open>Insertion\<close>

definition set_callsign :: "bytes \<Rightarrow> bytes \<Rightarrow> bytes" where
  "set_callsign old key = (strncpy old key 10)[10 := 0]"

definition alias_put_id :: "(nat \<Rightarrow> bool) \<Rightarrow> int \<Rightarrow> bytes \<Rightarrow> aliases \<Rightarrow> (bool \<times> aliases) option" where
  "alias_put_id alloc i key a =
     Option.bind (alias_ensure_cap alloc a) (\<lambda>(ok, a).
       if \<not> ok then Some (False, a)
       else let msk = of_nat (cap a - 1)
            in Option.bind (probe (\<lambda>s. id_empty s \<or> is_id s = i) (id_tab a) msk (hash_id i AND msk)) (\<lambda>h.
                 let s = id_tab a ! unat h
                 in if id_empty s
                    then Some (True, a\<lparr>id_tab := (id_tab a)[unat h := s\<lparr>is_id := i, is_callsign := set_callsign (is_callsign s) key\<rparr>],
                                      count := count a + 1\<rparr>)
                    else Some (False, a\<lparr>id_tab := (id_tab a)[unat h := s\<lparr>is_callsign := set_callsign (is_callsign s) key\<rparr>]\<rparr>)))"

text \<open>What becomes of the slot where the search stops.\<close>

definition cs_write :: "int \<Rightarrow> bytes \<Rightarrow> bool \<Rightarrow> alias_cs_slot \<Rightarrow> alias_cs_slot" where
  "cs_write i key pref s =
     (if cs_empty s then s\<lparr>cs_callsign := set_callsign (cs_callsign s) key, cs_id := i\<rparr>
      else if pref then s\<lparr>cs_id := i\<rparr>
      else s)"

definition alias_put_cs :: "int \<Rightarrow> bytes \<Rightarrow> bool \<Rightarrow> aliases \<Rightarrow> aliases option" where
  "alias_put_cs i key pref a =
     (if cs_tab a = [] \<or> cap a = 0 then Some a
      else let msk = of_nat (cap a - 1)
           in Option.bind (probe (\<lambda>s. cs_empty s \<or> c_str (cs_callsign s) = key) (cs_tab a) msk (hash_str key AND msk)) (\<lambda>h.
                Some (a\<lparr>cs_tab := (cs_tab a)[unat h := cs_write i key pref (cs_tab a ! unat h)]\<rparr>)))"

definition put_alias :: "(nat \<Rightarrow> bool) \<Rightarrow> bool \<Rightarrow> int \<Rightarrow> bytes \<Rightarrow> aliases \<Rightarrow> aliases option" where
  "put_alias alloc pref i callsign a =
     (if i \<le> 0 \<or> callsign = [] then Some a
      else let key = normalize_callsign_key callsign 16
           in if key = [] then Some a
              else Option.bind (alias_put_id alloc i key a) (\<lambda>(_, a). alias_put_cs i key pref a))"

definition insert_alias :: "(nat \<Rightarrow> bool) \<Rightarrow> int \<Rightarrow> bytes \<Rightarrow> aliases \<Rightarrow> aliases option" where
  "insert_alias alloc i callsign a = put_alias alloc False i callsign a"

definition upsert_alias :: "(nat \<Rightarrow> bool) \<Rightarrow> int \<Rightarrow> bytes \<Rightarrow> aliases \<Rightarrow> aliases option" where
  "upsert_alias alloc i callsign a = put_alias alloc True i callsign a"

section \<open>The rows of a subscriber file\<close>

text \<open>
  What the JSON library found for the members \<open>id\<close> and \<open>callsign\<close> of an element of \<open>results\<close>: None
  for a missing member or, for the callsign, one that is not a string.
\<close>

datatype json_id = Uint nat | Sint int | Other

type_synonym json_row = "json_id option \<times> bytes option"

definition row_id :: "json_id \<Rightarrow> int option" where
  "row_id v = (case v of Uint n \<Rightarrow> Some (sint (word_of_nat n :: u32)) | Sint z \<Rightarrow> Some (sint (word_of_int z :: u32)) | Other \<Rightarrow> None)"

definition parse_row :: "(nat \<Rightarrow> bool) \<Rightarrow> bool \<Rightarrow> json_row \<Rightarrow> int \<times> aliases \<Rightarrow> (int \<times> aliases) option" where
  "parse_row alloc local_override = (\<lambda>(idv, csv) (loaded, a).
     case (idv, csv) of
       (Some v, Some cs) \<Rightarrow>
         (case row_id v of
            None \<Rightarrow> Some (loaded, a)
          | Some i \<Rightarrow> map_option (Pair (loaded + 1))
              (if local_override then upsert_alias alloc i cs a else insert_alias alloc i cs a))
     | _ \<Rightarrow> Some (loaded, a))"

fun parse_rows :: "(nat \<Rightarrow> bool) \<Rightarrow> bool \<Rightarrow> json_row list \<Rightarrow> int \<times> aliases \<Rightarrow> (int \<times> aliases) option" where
  "parse_rows alloc local_override [] st = Some st"
| "parse_rows alloc local_override (row # rows) st =
     Option.bind (parse_row alloc local_override row st) (parse_rows alloc local_override rows)"

text \<open>The file is unreadable, not JSON or without a \<open>results\<close> array where \<open>results\<close> is None.\<close>

definition parse_subscriber_json :: "(nat \<Rightarrow> bool) \<Rightarrow> bool \<Rightarrow> json_row list option \<Rightarrow> aliases \<Rightarrow> (int \<times> aliases) option" where
  "parse_subscriber_json alloc local_override results a =
     (case results of
        None \<Rightarrow> Some (- 1, a)
      | Some rows \<Rightarrow> map_option (\<lambda>(loaded, a). (if 0 < loaded then 0 else - 1, a))
          (parse_rows alloc local_override rows (0, a)))"

section \<open>Lookup\<close>

definition alias_lookup_id :: "aliases \<Rightarrow> bytes \<Rightarrow> int" where
  "alias_lookup_id a callsign =
     (if cs_tab a = [] \<or> cap a = 0 \<or> callsign = [] then 0
      else let key = normalize_callsign_key callsign 16
           in if key = [] then 0
              else let msk = of_nat (cap a - 1)
                   in case probe_n (\<lambda>s. cs_empty s \<or> c_str (cs_callsign s) = key) (cs_tab a) msk (cap a) (hash_str key AND msk) of
                        None \<Rightarrow> 0
                      | Some h \<Rightarrow> if cs_empty (cs_tab a ! unat h) then 0 else cs_id (cs_tab a ! unat h))"

text \<open>\<open>out\<close> is filled with blanks before the search.\<close>

definition alias_lookup_callsign :: "aliases \<Rightarrow> int \<Rightarrow> bytes \<Rightarrow> bool \<times> bytes" where
  "alias_lookup_callsign a dmrid buf =
     (if id_tab a = [] \<or> cap a = 0 \<or> dmrid \<le> 0 then (False, buf)
      else let buf = memset buf 0 0x20 10;
               msk = of_nat (cap a - 1)
           in case probe_n (\<lambda>s. id_empty s \<or> is_id s = dmrid) (id_tab a) msk (cap a) (hash_id dmrid AND msk) of
                None \<Rightarrow> (False, buf)
              | Some h \<Rightarrow>
                  if id_empty (id_tab a ! unat h) then (False, buf)
                  else (True, memcpy buf 0 (List.map toupper (take 10 (c_str (is_callsign (id_tab a ! unat h)))))))"

end
