(* ===== verification/Open_Table.thy ===== *)
theory Open_Table
  imports Aliases
begin

text \<open>
  Linear probing, the interface that both subscriber tables implement. A table of \<open>2^b\<close> slots is well
  formed when every occupied slot can be reached from the home of its key without passing a vacant
  slot and no key occurs twice. Then the probe loops find the slot of a key or the vacant slot where
  it belongs, a store there updates the table as a map from keys to slots, and rehashing a table into
  a larger one keeps the map.
\<close>

section \<open>Indices\<close>

lemma unat_step:
  fixes h :: u32
  assumes "b \<le> 32"
  shows "unat (h AND of_nat (2 ^ b - 1)) = unat h mod 2 ^ b"
    and "unat ((h + 1) AND of_nat (2 ^ b - 1)) = (unat h + 1) mod 2 ^ b"
proof -
  have m: "(of_nat (2 ^ b - 1) :: u32) = mask b"
    by (simp add: mask_eq_exp_minus_1 of_nat_diff)
  have u: "unat (x AND mask b) = unat x mod 2 ^ b" for x :: u32
    by (simp only: take_bit_eq_mask [symmetric] unsigned_take_bit_eq) (simp add: take_bit_eq_mod)
  show "unat (h AND of_nat (2 ^ b - 1)) = unat h mod 2 ^ b" using u [of h] m by simp
  have d: "(2 :: nat) ^ b dvd 2 ^ 32" by (rule le_imp_power_dvd [OF assms])
  have "unat (h + 1) mod 2 ^ b = (unat h + 1) mod 2 ^ 32 mod 2 ^ b"
    by (simp add: unat_word_ariths)
  also have "\<dots> = (unat h + 1) mod 2 ^ b" by (rule mod_mod_cancel [OF d])
  finally show "unat ((h + 1) AND of_nat (2 ^ b - 1)) = (unat h + 1) mod 2 ^ b" using u [of "h + 1"] m by simp
qed

section \<open>The probe loops\<close>

text \<open>The first stop on the walk from slot i, at distance j.\<close>

definition first_stop :: "('s \<Rightarrow> bool) \<Rightarrow> 's list \<Rightarrow> nat \<Rightarrow> nat \<Rightarrow> bool" where
  "first_stop stop tab i j \<longleftrightarrow> stop (tab ! ((i + j) mod length tab)) \<and>
     (\<forall>k<j. \<not> stop (tab ! ((i + k) mod length tab)))"

lemma first_stop_unique: "first_stop stop tab i j \<Longrightarrow> first_stop stop tab i k \<Longrightarrow> j = k"
  unfolding first_stop_def by (metis linorder_neqE_nat)

lemma first_stop_ex:
  assumes "n < length tab" "stop (tab ! n)" "i < length tab"
  shows "\<exists>j<length tab. first_stop stop tab i j"
proof -
  let ?P = "\<lambda>j. stop (tab ! ((i + j) mod length tab))"
  have "(i + (n + length tab - i) mod length tab) mod length tab = (i + (n + length tab - i)) mod length tab"
    by (simp add: mod_add_right_eq)
  also have "\<dots> = n" using assms(1,3) by simp
  finally have P: "?P ((n + length tab - i) mod length tab)" using assms(2) by simp
  define m where "m = (LEAST j. ?P j)"
  have "?P m" unfolding m_def by (rule LeastI [of ?P, OF P])
  moreover have "m \<le> (n + length tab - i) mod length tab" unfolding m_def by (rule Least_le [of ?P, OF P])
  moreover have "\<forall>k<m. \<not> ?P k" unfolding m_def by (blast dest: not_less_Least)
  moreover have "(n + length tab - i) mod length tab < length tab" by (rule mod_less_divisor) (use assms(1) in linarith)
  ultimately show ?thesis unfolding first_stop_def by (intro exI [of _ m]) simp
qed

lemma first_stop_Suc:
  assumes "\<not> stop (tab ! i)" "i < length tab"
  shows "first_stop stop tab i (Suc j) \<longleftrightarrow> first_stop stop tab ((i + 1) mod length tab) j"
proof -
  have e: "((i + 1) mod length tab + k) mod length tab = (i + Suc k) mod length tab" for k
    by (simp add: mod_add_left_eq)
  show ?thesis unfolding first_stop_def e All_less_Suc2 using assms by simp
qed

lemma first_stop_0: "i < length tab \<Longrightarrow> first_stop stop tab i 0 \<longleftrightarrow> stop (tab ! i)"
  by (simp add: first_stop_def)

lemma probe_n_first:
  assumes "length tab = 2 ^ b" "b \<le> 32" "unat h < 2 ^ b" "first_stop stop tab (unat h) j" "j < n"
  shows "\<exists>g. probe_n stop tab (of_nat (2 ^ b - 1)) n h = Some g \<and> unat g = (unat h + j) mod 2 ^ b"
  using assms(3-5)
proof (induction n arbitrary: h j)
  case (Suc n)
  show ?case
  proof (cases "stop (tab ! unat h)")
    case True
    then have "first_stop stop tab (unat h) 0" using Suc.prems(1) assms(1) by (simp add: first_stop_def)
    then have "j = 0" using Suc.prems(2) by (blast intro: first_stop_unique)
    then show ?thesis using True Suc.prems(1) by simp
  next
    case False
    then obtain k where k: "j = Suc k" using Suc.prems assms(1) by (cases j) (auto simp: first_stop_def)
    let ?h = "(h + 1) AND of_nat (2 ^ b - 1)"
    have u: "unat ?h = (unat h + 1) mod 2 ^ b" by (rule unat_step(2) [OF assms(2)])
    have "first_stop stop tab (unat ?h) k"
      using Suc.prems(2) first_stop_Suc [of stop tab "unat h" k] False Suc.prems(1) assms(1) u k by simp
    then obtain g where "probe_n stop tab (of_nat (2 ^ b - 1)) n ?h = Some g" "unat g = (unat ?h + k) mod 2 ^ b"
      using Suc.IH [of ?h k] Suc.prems(3) k u by auto
    then show ?thesis using False k u by (simp add: mod_add_left_eq)
  qed
qed simp

lemma probe_first:
  assumes "length tab = 2 ^ b" "b \<le> 32" "unat h < 2 ^ b" "first_stop stop tab (unat h) j"
  shows "\<exists>g. probe stop tab (of_nat (2 ^ b - 1)) h = Some g \<and> unat g = (unat h + j) mod 2 ^ b"
  using assms(3,4)
proof (induction j arbitrary: h)
  case 0
  then have "stop (tab ! unat h)" using assms(1) by (simp add: first_stop_def)
  then show ?case using 0(1) by (subst probe.simps) simp
next
  case (Suc j)
  have F: "\<not> stop (tab ! unat h)" using Suc.prems assms(1) by (auto simp: first_stop_def dest: spec [of _ 0])
  let ?h = "(h + 1) AND of_nat (2 ^ b - 1)"
  have u: "unat ?h = (unat h + 1) mod 2 ^ b" by (rule unat_step(2) [OF assms(2)])
  have "first_stop stop tab (unat ?h) j"
    using Suc.prems(2) first_stop_Suc [of stop tab "unat h" j] F Suc.prems(1) assms(1) u by simp
  then obtain g where "probe stop tab (of_nat (2 ^ b - 1)) ?h = Some g" "unat g = (unat ?h + j) mod 2 ^ b"
    using Suc.IH [of ?h] u by auto
  then show ?case using F u by (subst probe.simps) (simp add: mod_add_left_eq)
qed

lemma probe_n_Some:
  assumes "b \<le> 32" "probe_n stop tab (of_nat (2 ^ b - 1)) n h = Some g" "unat h < 2 ^ b"
  shows "stop (tab ! unat g) \<and> unat g < 2 ^ b"
  using assms(2,3)
proof (induction n arbitrary: h)
  case (Suc n)
  have "unat ((h + 1) AND of_nat (2 ^ b - 1)) < 2 ^ b" using unat_step(2) [OF assms(1), of h] by simp
  then show ?case using Suc by (auto split: if_splits)
qed simp

text \<open>On a table where no slot stops it, the endless loop does not return.\<close>

lemma probe_stops_somewhere:
  "probe stop tab msk h = Some g \<Longrightarrow> stop (tab ! unat g)"
proof (induction rule: probe.raw_induct [rotated 1, consumes 1])
  case (1 probe' stop tab msk h g)
  then show ?case by (auto split: if_splits)
qed

section \<open>Tables\<close>

definition home_slot :: "('k \<Rightarrow> u32) \<Rightarrow> 's list \<Rightarrow> 'k \<Rightarrow> nat" where
  "home_slot hash tab k = unat (hash k) mod length tab"

definition occupied :: "('s \<Rightarrow> bool) \<Rightarrow> 's list \<Rightarrow> nat" where
  "occupied vacant tab = length (filter (\<lambda>s. \<not> vacant s) tab)"

text \<open>The table as a map: the slot that holds a key.\<close>

definition entry :: "('s \<Rightarrow> bool) \<Rightarrow> ('s \<Rightarrow> 'k) \<Rightarrow> 's list \<Rightarrow> 'k \<Rightarrow> 's option" where
  "entry vacant key tab k = List.find (\<lambda>s. \<not> vacant s \<and> key s = k) tab"

definition pow2_size :: "'s list \<Rightarrow> bool" where
  "pow2_size tab \<longleftrightarrow> (\<exists>b\<le>32. length tab = 2 ^ b)"

text \<open>Well formed: the probe for the key of an occupied slot ends at that slot.\<close>

definition table_ok :: "('s \<Rightarrow> bool) \<Rightarrow> ('s \<Rightarrow> 'k) \<Rightarrow> ('k \<Rightarrow> u32) \<Rightarrow> 's list \<Rightarrow> bool" where
  "table_ok vacant key hash tab \<longleftrightarrow> pow2_size tab \<and>
     (\<forall>i<length tab. \<not> vacant (tab ! i) \<longrightarrow>
        (\<exists>j. i = (home_slot hash tab (key (tab ! i)) + j) mod length tab \<and>
             first_stop (\<lambda>s. vacant s \<or> key s = key (tab ! i)) tab (home_slot hash tab (key (tab ! i))) j))"

lemma pow2_size_pos: "pow2_size tab \<Longrightarrow> 0 < length tab"
  by (auto simp: pow2_size_def)

lemma table_ok_size: "table_ok vacant key hash tab \<Longrightarrow> pow2_size tab"
  by (simp add: table_ok_def)

lemma slot_less: "table_ok vacant key hash tab \<Longrightarrow> n mod length tab < length tab"
  by (rule mod_less_divisor) (auto dest: table_ok_size pow2_size_pos)

lemma home_slot_less: "pow2_size tab \<Longrightarrow> home_slot hash tab k < length tab"
  unfolding home_slot_def by (intro mod_less_divisor pow2_size_pos)

lemma vacant_slot: "occupied vacant tab < length tab \<Longrightarrow> \<exists>i<length tab. vacant (tab ! i)"
proof (rule ccontr)
  assume "occupied vacant tab < length tab" "\<not> (\<exists>i<length tab. vacant (tab ! i))"
  moreover from this have "filter (\<lambda>s. \<not> vacant s) tab = tab"
    by (auto simp: filter_id_conv in_set_conv_nth)
  ultimately show False by (simp add: occupied_def)
qed

lemma occupied_update:
  "p < length tab \<Longrightarrow> \<not> vacant s \<Longrightarrow>
   occupied vacant (tab[p := s]) = (if vacant (tab ! p) then occupied vacant tab + 1 else occupied vacant tab)"
proof (induction tab arbitrary: p)
  case (Cons t tab)
  then show ?case by (cases p) (auto simp: occupied_def)
qed simp

lemma occupied_le: "occupied vacant tab \<le> length tab"
  by (simp add: occupied_def)

lemma rehash_table_slots:
  "rehash_table vacant hs msk tab ntab = Some tab' \<Longrightarrow> set tab' \<subseteq> set tab \<union> set ntab"
proof (induction tab arbitrary: ntab)
  case (Cons s tab)
  then obtain tab1 where t: "rehash_step vacant hs msk s ntab = Some tab1" "rehash_table vacant hs msk tab tab1 = Some tab'"
    by (auto simp: bind_eq_Some_conv)
  have "set tab1 \<subseteq> insert s (set ntab)"
    using t(1) by (auto simp: rehash_step_def bind_eq_Some_conv dest: set_update_subset_insert [THEN subsetD] split: if_splits)
  then show ?case using Cons.IH [OF t(2)] by auto
qed simp

locale open_table =
  fixes vacant :: "'s \<Rightarrow> bool" and key :: "'s \<Rightarrow> 'k" and hash :: "'k \<Rightarrow> u32" and blank :: 's
  assumes vacant_blank: "vacant blank"
begin

abbreviation (input) stop_at :: "'k \<Rightarrow> 's \<Rightarrow> bool" where
  "stop_at k \<equiv> \<lambda>s. vacant s \<or> key s = k"

abbreviation (input) ok :: "'s list \<Rightarrow> bool" where
  "ok \<equiv> table_ok vacant key hash"

lemma blank_table_ok: "pow2_size (replicate n blank) \<Longrightarrow> ok (replicate n blank)"
  by (simp add: table_ok_def vacant_blank)

lemma blank_entry: "entry vacant key (replicate n blank) k = None"
  by (simp add: entry_def find_None_iff vacant_blank)

lemma blank_occupied: "occupied vacant (replicate n blank) = 0"
  by (simp add: occupied_def vacant_blank)

lemma probe_position:
  assumes "ok tab" "i < length tab" "\<not> vacant (tab ! i)"
    and "first_stop (stop_at (key (tab ! i))) tab (home_slot hash tab (key (tab ! i))) j"
  shows "i = (home_slot hash tab (key (tab ! i)) + j) mod length tab"
  using assms unfolding table_ok_def by (metis first_stop_unique)

lemma key_unique:
  assumes t: "ok tab" and i: "i < length tab" "\<not> vacant (tab ! i)"
    and j: "j < length tab" "\<not> vacant (tab ! j)" "key (tab ! i) = key (tab ! j)"
  shows "i = j"
proof -
  obtain m where m: "i = (home_slot hash tab (key (tab ! i)) + m) mod length tab"
      "first_stop (stop_at (key (tab ! i))) tab (home_slot hash tab (key (tab ! i))) m"
    using t i unfolding table_ok_def by blast
  with probe_position [OF t j(1,2), of m] j(3) show ?thesis by simp
qed

lemma entry_Some:
  assumes "ok tab"
  shows "entry vacant key tab k = Some s \<longleftrightarrow> (\<exists>i<length tab. tab ! i = s \<and> \<not> vacant s \<and> key s = k)"
proof
  assume "entry vacant key tab k = Some s"
  then show "\<exists>i<length tab. tab ! i = s \<and> \<not> vacant s \<and> key s = k"
    by (auto simp: entry_def find_Some_iff)
next
  assume "\<exists>i<length tab. tab ! i = s \<and> \<not> vacant s \<and> key s = k"
  then obtain i where i: "i < length tab" "tab ! i = s" "\<not> vacant s" "key s = k" by blast
  then obtain u where u: "entry vacant key tab k = Some u"
    by (cases "entry vacant key tab k") (auto simp: entry_def find_None_iff in_set_conv_nth)
  then obtain j where "j < length tab" "tab ! j = u" "\<not> vacant u" "key u = k"
    by (auto simp: entry_def find_Some_iff)
  then have "i = j" using i by (intro key_unique [OF assms]) auto
  then show "entry vacant key tab k = Some s" using u i(2) \<open>tab ! j = u\<close> by simp
qed

lemma entry_at_stop:
  assumes "ok tab" "first_stop (stop_at k) tab (home_slot hash tab k) j"
  shows "entry vacant key tab k =
    (if vacant (tab ! ((home_slot hash tab k + j) mod length tab)) then None
     else Some (tab ! ((home_slot hash tab k + j) mod length tab)))"
proof -
  let ?p = "(home_slot hash tab k + j) mod length tab"
  have p: "?p < length tab" by (rule slot_less [OF assms(1)])
  show ?thesis
  proof (cases "vacant (tab ! ?p)")
    case False
    then have "key (tab ! ?p) = k" using assms(2) by (simp add: first_stop_def)
    then have "entry vacant key tab k = Some (tab ! ?p)"
      unfolding entry_Some [OF assms(1)] using p False by (intro exI [of _ ?p]) simp
    then show ?thesis using False by simp
  next
    case True
    have "entry vacant key tab k \<noteq> Some s" for s
    proof
      assume "entry vacant key tab k = Some s"
      then obtain i where i: "i < length tab" "tab ! i = s" "\<not> vacant s" "key s = k"
        using entry_Some [OF assms(1)] by blast
      then have "i = ?p" using probe_position [OF assms(1) i(1), of j] assms(2) by simp
      then show False using True i by simp
    qed
    then show ?thesis using True by (cases "entry vacant key tab k") auto
  qed
qed

lemma store:
  assumes t: "ok tab" and fs: "first_stop (stop_at k) tab (home_slot hash tab k) j"
    and p: "p = (home_slot hash tab k + j) mod length tab" and s: "\<not> vacant s" "key s = k"
  shows "ok (tab[p := s])" "entry vacant key (tab[p := s]) = (entry vacant key tab)(k \<mapsto> s)"
proof -
  have pl: "p < length tab" unfolding p by (rule slot_less [OF t])
  have pk: "vacant (tab ! p) \<or> key (tab ! p) = k" using fs p by (simp add: first_stop_def)
  have h: "home_slot hash (tab[p := s]) = home_slot hash tab" by (intro ext) (simp add: home_slot_def)
  show ok: "ok (tab[p := s])"
    unfolding table_ok_def h length_list_update
  proof (intro conjI allI impI)
    show "pow2_size (tab[p := s])" using t by (simp add: table_ok_def pow2_size_def)
    fix i assume i: "i < length tab" "\<not> vacant (tab[p := s] ! i)"
    show "\<exists>j. i = (home_slot hash tab (key (tab[p := s] ! i)) + j) mod length tab \<and>
        first_stop (stop_at (key (tab[p := s] ! i))) (tab[p := s]) (home_slot hash tab (key (tab[p := s] ! i))) j"
    proof (cases "i = p")
      case True
      have "first_stop (stop_at k) (tab[p := s]) (home_slot hash tab k) j"
        unfolding first_stop_def length_list_update
      proof (intro conjI allI impI)
        show "stop_at k (tab[p := s] ! ((home_slot hash tab k + j) mod length tab))" using s pl p by simp
        fix m assume "m < j"
        then have "\<not> stop_at k (tab ! ((home_slot hash tab k + m) mod length tab))" using fs by (simp add: first_stop_def)
        moreover from this have "(home_slot hash tab k + m) mod length tab \<noteq> p" using pk by auto
        ultimately show "\<not> stop_at k (tab[p := s] ! ((home_slot hash tab k + m) mod length tab))" by simp
      qed
      then show ?thesis using True s pl p by auto
    next
      case False
      then have io: "\<not> vacant (tab ! i)" "tab[p := s] ! i = tab ! i" using i by auto
      obtain m where m: "i = (home_slot hash tab (key (tab ! i)) + m) mod length tab"
          "first_stop (stop_at (key (tab ! i))) tab (home_slot hash tab (key (tab ! i))) m"
        using t i(1) io(1) unfolding table_ok_def by blast
      have ne: "key (tab ! i) \<noteq> k"
        using probe_position [OF t i(1) io(1), of j] fs p False by auto
      have "first_stop (stop_at (key (tab ! i))) (tab[p := s]) (home_slot hash tab (key (tab ! i))) m"
        unfolding first_stop_def length_list_update
      proof (intro conjI allI impI)
        show "stop_at (key (tab ! i)) (tab[p := s] ! ((home_slot hash tab (key (tab ! i)) + m) mod length tab))"
          unfolding m(1) [symmetric] using False by simp
        fix m' assume "m' < m"
        then have "\<not> stop_at (key (tab ! i)) (tab ! ((home_slot hash tab (key (tab ! i)) + m') mod length tab))"
          using m(2) by (simp add: first_stop_def)
        then show "\<not> stop_at (key (tab ! i)) (tab[p := s] ! ((home_slot hash tab (key (tab ! i)) + m') mod length tab))"
          using ne s pl by (cases "(home_slot hash tab (key (tab ! i)) + m') mod length tab = p") auto
      qed
      then show ?thesis using m(1) unfolding io(2) by blast
    qed
  qed
  show "entry vacant key (tab[p := s]) = (entry vacant key tab)(k \<mapsto> s)"
  proof
    fix k'
    have iff: "entry vacant key (tab[p := s]) k' = Some u \<longleftrightarrow> ((entry vacant key tab)(k \<mapsto> s)) k' = Some u" for u
    proof (cases "k' = k")
      case True
      have "entry vacant key (tab[p := s]) k = Some s"
        unfolding entry_Some [OF ok] using pl s by (intro exI [of _ p]) simp
      then show ?thesis using True by simp
    next
      case False
      then have "(i < length tab \<and> tab[p := s] ! i = u \<and> \<not> vacant u \<and> key u = k') \<longleftrightarrow>
          (i < length tab \<and> tab ! i = u \<and> \<not> vacant u \<and> key u = k')" for i
        using pk s pl by (cases "i = p") auto
      then show ?thesis using False by (simp add: entry_Some [OF ok] entry_Some [OF t])
    qed
    show "entry vacant key (tab[p := s]) k' = ((entry vacant key tab)(k \<mapsto> s)) k'"
      using iff by (cases "entry vacant key (tab[p := s]) k'"; cases "((entry vacant key tab)(k \<mapsto> s)) k'") (metis option.simps(3))+
  qed
qed

text \<open>What the loops of the code find.\<close>

lemma home_unat:
  assumes "length tab = 2 ^ b" "b \<le> 32"
  shows "unat (hash k AND of_nat (length tab - 1)) = home_slot hash tab k"
  unfolding home_slot_def assms(1) by (rule unat_step(1) [OF assms(2)])

lemma lookup:
  assumes t: "ok tab" and n: "n = length tab"
  shows "(case probe_n (stop_at k) tab (of_nat (n - 1)) n (hash k AND of_nat (n - 1)) of
            None \<Rightarrow> None | Some g \<Rightarrow> if vacant (tab ! unat g) then None else Some (tab ! unat g))
         = entry vacant key tab k"
proof -
  obtain b where b: "b \<le> 32" "length tab = 2 ^ b" using t by (auto simp: table_ok_def pow2_size_def)
  have hs: "unat (hash k AND of_nat (2 ^ b - 1)) = home_slot hash tab k" using home_unat [OF b(2,1)] b(2) by simp
  have hl: "home_slot hash tab k < length tab" by (rule home_slot_less [OF table_ok_size [OF t]])
  show ?thesis
  proof (cases "\<exists>i<length tab. stop_at k (tab ! i)")
    case True
    then obtain j where j: "j < length tab" "first_stop (stop_at k) tab (home_slot hash tab k) j"
      using first_stop_ex [of _ tab "stop_at k" "home_slot hash tab k"] hl by blast
    obtain g where "probe_n (stop_at k) tab (of_nat (2 ^ b - 1)) (2 ^ b) (hash k AND of_nat (2 ^ b - 1)) = Some g"
        "unat g = (home_slot hash tab k + j) mod 2 ^ b"
      using probe_n_first [OF b(2,1), of "hash k AND of_nat (2 ^ b - 1)" "stop_at k" j "2 ^ b"] hs hl j b(2) by auto
    then show ?thesis using entry_at_stop [OF t j(2)] n b(2) by simp
  next
    case False
    have "entry vacant key tab k = None"
      using False entry_Some [OF t, of k] by (cases "entry vacant key tab k") (simp, metis)
    moreover have "probe_n (stop_at k) tab (of_nat (n - 1)) n (hash k AND of_nat (n - 1)) = None"
    proof (rule ccontr)
      assume "probe_n (stop_at k) tab (of_nat (n - 1)) n (hash k AND of_nat (n - 1)) \<noteq> None"
      then obtain g where "probe_n (stop_at k) tab (of_nat (n - 1)) n (hash k AND of_nat (n - 1)) = Some g" by blast
      then have "probe_n (stop_at k) tab (of_nat (2 ^ b - 1)) n (hash k AND of_nat (n - 1)) = Some g"
        using n b(2) by simp
      moreover have "unat (hash k AND of_nat (n - 1)) < 2 ^ b" using n b(2) hs hl by simp
      ultimately have "stop_at k (tab ! unat g) \<and> unat g < 2 ^ b" by (rule probe_n_Some [OF b(1)])
      then show False using False b(2) by auto
    qed
    ultimately show ?thesis by simp
  qed
qed

lemma find_slot:
  assumes t: "ok tab" and n: "n = length tab" and v: "\<exists>i<length tab. stop_at k (tab ! i)"
  shows "\<exists>g j. probe (stop_at k) tab (of_nat (n - 1)) (hash k AND of_nat (n - 1)) = Some g \<and>
    unat g = (home_slot hash tab k + j) mod length tab \<and> first_stop (stop_at k) tab (home_slot hash tab k) j"
proof -
  obtain b where b: "b \<le> 32" "length tab = 2 ^ b" using t by (auto simp: table_ok_def pow2_size_def)
  have hs: "unat (hash k AND of_nat (2 ^ b - 1)) = home_slot hash tab k" using home_unat [OF b(2,1)] b(2) by simp
  have hl: "home_slot hash tab k < length tab" by (rule home_slot_less [OF table_ok_size [OF t]])
  obtain j where j: "first_stop (stop_at k) tab (home_slot hash tab k) j"
    using v first_stop_ex [of _ tab "stop_at k" "home_slot hash tab k"] hl by blast
  obtain g where "probe (stop_at k) tab (of_nat (2 ^ b - 1)) (hash k AND of_nat (2 ^ b - 1)) = Some g"
      "unat g = (home_slot hash tab k + j) mod 2 ^ b"
    using probe_first [OF b(2,1), of "hash k AND of_nat (2 ^ b - 1)" "stop_at k" j] hs hl j b(2) by auto
  then show ?thesis using j n b(2) by auto
qed

lemma put:
  assumes t: "ok tab" and n: "n = length tab" and v: "\<exists>i<length tab. stop_at k (tab ! i)"
    and s: "\<And>old. old \<in> set tab \<Longrightarrow> stop_at k old \<Longrightarrow> \<not> vacant (f old) \<and> key (f old) = k"
  obtains g where "probe (stop_at k) tab (of_nat (n - 1)) (hash k AND of_nat (n - 1)) = Some g"
    "unat g < length tab" "ok (tab[unat g := f (tab ! unat g)])"
    "entry vacant key (tab[unat g := f (tab ! unat g)]) = (entry vacant key tab)(k \<mapsto> f (tab ! unat g))"
    "vacant (tab ! unat g) \<longleftrightarrow> entry vacant key tab k = None"
    "\<not> vacant (tab ! unat g) \<longrightarrow> entry vacant key tab k = Some (tab ! unat g)"
proof -
  obtain g j where g: "probe (stop_at k) tab (of_nat (n - 1)) (hash k AND of_nat (n - 1)) = Some g"
      "unat g = (home_slot hash tab k + j) mod length tab" "first_stop (stop_at k) tab (home_slot hash tab k) j"
    using find_slot [OF t n v] by blast
  have st: "stop_at k (tab ! unat g)" using g(2,3) by (simp add: first_stop_def)
  have l: "unat g < length tab" unfolding g(2) by (rule slot_less [OF t])
  note e = entry_at_stop [OF t g(3), folded g(2)]
  show thesis
  proof (rule that [OF g(1) l store [OF t g(3,2)]])
    show "\<not> vacant (f (tab ! unat g))" "key (f (tab ! unat g)) = k"
      "\<not> vacant (f (tab ! unat g))" "key (f (tab ! unat g)) = k" using s [OF nth_mem [OF l] st] by auto
    show "vacant (tab ! unat g) \<longleftrightarrow> entry vacant key tab k = None" using e by (simp split: if_splits)
    show "\<not> vacant (tab ! unat g) \<longrightarrow> entry vacant key tab k = Some (tab ! unat g)" using e by simp
  qed
qed

text \<open>Rehashing.\<close>

lemma rehash_slot:
  assumes t: "ok tab" and n: "n = length tab" and v: "occupied vacant tab < n"
    and s: "\<not> vacant s" "entry vacant key tab (key s) = None"
  obtains tab' where "rehash_step vacant (\<lambda>s. hash (key s)) (of_nat (n - 1)) s tab = Some tab'"
    "ok tab'" "length tab' = n" "entry vacant key tab' = (entry vacant key tab)(key s \<mapsto> s)"
    "occupied vacant tab' = occupied vacant tab + 1"
proof -
  let ?h = "home_slot hash tab (key s)"
  have same: "stop_at (key s) (tab ! i) \<longleftrightarrow> vacant (tab ! i)" if "i < length tab" for i
    using s(2) that by (auto simp: entry_def find_None_iff in_set_conv_nth)
  have fs: "first_stop (stop_at (key s)) tab i j \<longleftrightarrow> first_stop vacant tab i j" for i j
    unfolding first_stop_def by (simp add: same slot_less [OF t])
  obtain b where b: "b \<le> 32" "length tab = 2 ^ b" using t by (auto simp: table_ok_def pow2_size_def)
  have hs: "unat (hash (key s) AND of_nat (2 ^ b - 1)) = ?h" using home_unat [OF b(2,1)] b(2) by simp
  have hl: "?h < length tab" by (rule home_slot_less [OF table_ok_size [OF t]])
  obtain j where j: "first_stop vacant tab ?h j"
    using vacant_slot [of vacant tab] v n first_stop_ex [of _ tab vacant ?h] hl by blast
  obtain g where g: "probe vacant tab (of_nat (2 ^ b - 1)) (hash (key s) AND of_nat (2 ^ b - 1)) = Some g"
      "unat g = (?h + j) mod length tab"
    using probe_first [OF b(2,1), of "hash (key s) AND of_nat (2 ^ b - 1)" vacant j] hs hl j b(2) by auto
  have gl: "unat g < length tab" unfolding g(2) by (rule slot_less [OF t])
  have gv: "vacant (tab ! unat g)" using j g(2) by (simp add: first_stop_def)
  have st: "ok (tab[unat g := s])" "entry vacant key (tab[unat g := s]) = (entry vacant key tab)(key s \<mapsto> s)"
    using store [OF t, of "key s" j "unat g" s] fs j g(2) s(1) by auto
  have st': "rehash_step vacant (\<lambda>s. hash (key s)) (of_nat (n - 1)) s tab = Some (tab[unat g := s])"
    using g(1) n b(2) s(1) by (simp add: rehash_step_def)
  show thesis
    by (rule that [OF st' st(1) _ st(2)]) (use n gl gv s(1) in \<open>simp_all add: occupied_update\<close>)
qed

lemma rehash:
  assumes "ok ntab" "n = length ntab" "occupied vacant ntab + occupied vacant tab < n"
    and "distinct (List.map key (filter (\<lambda>s. \<not> vacant s) tab))"
    and "\<And>s. s \<in> set tab \<Longrightarrow> \<not> vacant s \<Longrightarrow> entry vacant key ntab (key s) = None"
  shows "\<exists>tab'. rehash_table vacant (\<lambda>s. hash (key s)) (of_nat (n - 1)) tab ntab = Some tab' \<and> ok tab' \<and>
    length tab' = n \<and> occupied vacant tab' = occupied vacant ntab + occupied vacant tab \<and>
    (\<forall>k. entry vacant key tab' k = (case entry vacant key tab k of None \<Rightarrow> entry vacant key ntab k | Some s \<Rightarrow> Some s))"
  using assms
proof (induction tab arbitrary: ntab)
  case Nil
  then show ?case by (simp add: occupied_def entry_def)
next
  case (Cons s tab)
  show ?case
  proof (cases "vacant s")
    case True
    then show ?thesis using Cons.IH [OF Cons.prems(1,2)] Cons.prems by (simp add: rehash_step_def occupied_def entry_def)
  next
    case False
    have e: "entry vacant key ntab (key s) = None" using Cons.prems(5) False by simp
    have o: "occupied vacant ntab < n" using Cons.prems(3) by linarith
    obtain tab1 where 1: "rehash_step vacant (\<lambda>s. hash (key s)) (of_nat (n - 1)) s ntab = Some tab1"
      "ok tab1" "length tab1 = n" "entry vacant key tab1 = (entry vacant key ntab)(key s \<mapsto> s)"
      "occupied vacant tab1 = occupied vacant ntab + 1"
      using rehash_slot [OF Cons.prems(1,2) o False e] by blast
    have "entry vacant key tab1 (key u) = None" if "u \<in> set tab" "\<not> vacant u" for u
      using Cons.prems(4,5) that False unfolding 1(4) by (auto simp: image_iff)
    then obtain tab' where t': "rehash_table vacant (\<lambda>s. hash (key s)) (of_nat (n - 1)) tab tab1 = Some tab'" "ok tab'"
      "length tab' = n" "occupied vacant tab' = occupied vacant tab1 + occupied vacant tab"
      "\<forall>k. entry vacant key tab' k = (case entry vacant key tab k of None \<Rightarrow> entry vacant key tab1 k | Some s \<Rightarrow> Some s)"
      using Cons.IH [OF 1(2) 1(3) [symmetric]] Cons.prems(3,4) 1(5) False by (auto simp: occupied_def)
    have "entry vacant key tab (key s) = None"
      using Cons.prems(4) False by (auto simp: entry_def find_None_iff image_iff)
    then have "entry vacant key tab' k = (case entry vacant key (s # tab) k of None \<Rightarrow> entry vacant key ntab k | Some s \<Rightarrow> Some s)" for k
    proof -
      have "entry vacant key (s # tab) k = (if key s = k then Some s else entry vacant key tab k)"
        using False by (simp add: entry_def)
      then show ?thesis using t'(5) \<open>entry vacant key tab (key s) = None\<close> 
        by (cases "entry vacant key tab k") (auto simp: 1(4))
    qed
    moreover have "occupied vacant (s # tab) = Suc (occupied vacant tab)" using False by (simp add: occupied_def)
    ultimately show ?thesis using t' 1(1,5) by simp
  qed
qed

lemma keys_distinct:
  assumes "\<And>i j. i < j \<Longrightarrow> j < length tab \<Longrightarrow> \<not> vacant (tab ! i) \<Longrightarrow> \<not> vacant (tab ! j) \<Longrightarrow> key (tab ! i) \<noteq> key (tab ! j)"
  shows "distinct (List.map key (filter (\<lambda>s. \<not> vacant s) tab))"
  using assms
proof (induction tab)
  case (Cons s tab)
  have "distinct (List.map key (filter (\<lambda>s. \<not> vacant s) tab))"
    by (rule Cons.IH) (use Cons.prems [of "Suc _" "Suc _"] in auto)
  moreover have "key s \<noteq> key u" if "u \<in> set tab" "\<not> vacant u" "\<not> vacant s" for u
    using that Cons.prems [of 0 "Suc _"] by (auto simp: in_set_conv_nth)
  ultimately show ?case by auto
qed simp

text \<open>A well-formed table moves into a blank table of more slots than it has entries.\<close>

lemma rehash_into_blank:
  assumes "ok tab" "pow2_size (replicate n blank)" "occupied vacant tab < n"
  shows "\<exists>tab'. rehash_table vacant (\<lambda>s. hash (key s)) (of_nat (n - 1)) tab (replicate n blank) = Some tab' \<and>
    ok tab' \<and> length tab' = n \<and> occupied vacant tab' = occupied vacant tab \<and>
    entry vacant key tab' = entry vacant key tab"
proof -
  have "key (tab ! i) \<noteq> key (tab ! j)" if "i < j" "j < length tab" "\<not> vacant (tab ! i)" "\<not> vacant (tab ! j)" for i j
    using key_unique [OF assms(1), of i j] that by auto
  then have "distinct (List.map key (filter (\<lambda>s. \<not> vacant s) tab))" by (rule keys_distinct)
  from rehash [of "replicate n blank" n, OF blank_table_ok [OF assms(2)] _ _ this] assms(3)
  have "\<exists>tab'. rehash_table vacant (\<lambda>s. hash (key s)) (of_nat (n - 1)) tab (replicate n blank) = Some tab' \<and> ok tab' \<and>
    length tab' = n \<and> occupied vacant tab' = occupied vacant (replicate n blank) + occupied vacant tab \<and>
    (\<forall>k. entry vacant key tab' k = (case entry vacant key tab k of None \<Rightarrow> entry vacant key (replicate n blank) k | Some s \<Rightarrow> Some s))"
    by (simp only: blank_occupied blank_entry length_replicate add_0_left simp_thms)
  then obtain tab' where "rehash_table vacant (\<lambda>s. hash (key s)) (of_nat (n - 1)) tab (replicate n blank) = Some tab'"
    "ok tab'" "length tab' = n" "occupied vacant tab' = occupied vacant tab"
    "\<forall>k. entry vacant key tab' k = (case entry vacant key tab k of None \<Rightarrow> entry vacant key (replicate n blank) k | Some s \<Rightarrow> Some s)"
    unfolding blank_occupied add_0_left by blast
  moreover from this(5) have "entry vacant key tab' = entry vacant key tab" 
    by (intro ext) (auto simp: blank_entry split: option.splits)
  ultimately show ?thesis by blast
qed

end

end
