(* ===== verification/Aliases_Props.thy ===== *)
theory Aliases_Props
  imports Open_Table
begin

text \<open>
  The subscriber tables are two finite maps. Both tables are open-addressing tables in the sense of
  \<open>Open_Table\<close>; insertion never loses or duplicates a key, growth keeps every entry, and the probe
  loops of the insertion end as long as a slot is vacant. The abstract state is a map from ids to
  callsigns and a map from callsigns to ids.
\<close>

section \<open>The two tables\<close>

definition cs_key :: "alias_cs_slot \<Rightarrow> bytes" where "cs_key s = c_str (cs_callsign s)"

interpretation idt: open_table id_empty is_id hash_id id_zero
  by unfold_locales (simp add: id_empty_def id_zero_def)

interpretation cst: open_table cs_empty cs_key hash_str cs_zero
  by unfold_locales (simp add: cs_empty_def cs_zero_def)

lemma hash_of_slots: "id_hash = (\<lambda>s. hash_id (is_id s))" "cs_hash = (\<lambda>s. hash_str (cs_key s))"
  by (simp_all add: fun_eq_iff id_hash_def cs_hash_def cs_key_def)

text \<open>Every table of the program.\<close>

definition slots_ok :: "aliases \<Rightarrow> bool" where
  "slots_ok a \<longleftrightarrow> (\<forall>s\<in>set (id_tab a). length (is_callsign s) = 11 \<and> is_callsign s ! 10 = 0 \<and> 0 \<le> is_id s \<and> is_id s < 2 ^ 31) \<and>
     (\<forall>s\<in>set (cs_tab a). length (cs_callsign s) = 11 \<and> cs_callsign s ! 10 = 0)"

definition tables_ok :: "aliases \<Rightarrow> bool" where
  "tables_ok a \<longleftrightarrow> count a = occupied id_empty (id_tab a) \<and> slots_ok a \<and>
     (if cap a = 0 then id_tab a = [] \<and> cs_tab a = []
      else length (id_tab a) = cap a \<and> length (cs_tab a) = cap a \<and> 1024 \<le> cap a \<and> 10 * count a < 7 * cap a \<and>
           table_ok id_empty is_id hash_id (id_tab a) \<and> table_ok cs_empty cs_key hash_str (cs_tab a))"

definition cs_used :: "aliases \<Rightarrow> nat" where
  "cs_used a = occupied cs_empty (cs_tab a)"

section \<open>The abstract state\<close>

definition ids_of :: "aliases \<Rightarrow> int \<Rightarrow> bytes option" where
  "ids_of a i = map_option (\<lambda>s. c_str (is_callsign s)) (entry id_empty is_id (id_tab a) i)"

definition css_of :: "aliases \<Rightarrow> bytes \<Rightarrow> int option" where
  "css_of a k = map_option cs_id (entry cs_empty cs_key (cs_tab a) k)"

type_synonym alias_maps = "(int \<Rightarrow> bytes option) \<times> (bytes \<Rightarrow> int option)"

definition put_maps :: "bool \<Rightarrow> int \<Rightarrow> bytes \<Rightarrow> alias_maps \<Rightarrow> alias_maps" where
  "put_maps pref i cs = (\<lambda>(ids, css).
     let key = normalize_callsign_key cs 16
     in if i \<le> 0 \<or> key = [] then (ids, css)
        else (ids(i \<mapsto> key), if pref \<or> css key = None then css(key \<mapsto> i) else css))"

section \<open>Capacities\<close>

lemma double_until_power:
  "a \<le> b + 1 \<Longrightarrow> b + 1 - a \<le> k \<Longrightarrow> double_until k (2 ^ a) (2 ^ b + 1) = 2 ^ (b + 1)"
proof (induction k arbitrary: a)
  case 0
  then have "a = b + 1" by simp
  then show ?case by simp
next
  case (Suc k)
  show ?case
  proof (cases "a = b + 1")
    case True
    have "\<not> (2 :: nat) ^ (b + 1) < 2 ^ b + 1" by simp
    then show ?thesis using True by simp
  next
    case False
    then have "(2 :: nat) ^ a \<le> 2 ^ b" using Suc.prems by (intro power_increasing) auto
    then have "(2 :: nat) ^ a < 2 ^ b + 1" by (simp only: Suc_eq_plus1 [symmetric] le_imp_less_Suc)
    moreover have "double_until k (2 ^ Suc a) (2 ^ b + 1) = 2 ^ (b + 1)"
      by (rule Suc.IH) (use Suc.prems False in auto)
    ultimately show ?thesis by simp
  qed
qed

lemma next_pow2_double:
  assumes "1024 \<le> c" "c = 2 ^ b"
  shows "next_pow2 (c + 1) = 2 * c"
proof -
  have b: "10 \<le> b"
  proof (rule ccontr)
    assume "\<not> 10 \<le> b"
    then have "(2 :: nat) ^ b \<le> 2 ^ 9" by (intro power_increasing) auto
    then show False using assms by simp
  qed
  have "b < 2 ^ b" by (rule less_exp)
  then have "double_until (c + 1) (2 ^ 10) (2 ^ b + 1) = 2 ^ (b + 1)" by (intro double_until_power) (use b assms in linarith)+
  then show ?thesis using assms by (simp add: next_pow2_def ALIAS_MIN_CAP_def)
qed

lemma pow2_test: "(2 :: nat) ^ b AND (2 ^ b - 1) = 0"
  by (simp only: mask_eq_exp_minus_1 [symmetric] take_bit_eq_mask [symmetric]) simp

text \<open>The ids of the table are distinct positive integers of 32 bits, so there are fewer than \<open>2^31\<close>.\<close>

lemma count_bound:
  assumes "tables_ok a" "cap a \<noteq> 0"
  shows "count a < 2 ^ 31"
proof -
  let ?ids = "List.map is_id (filter (\<lambda>s. \<not> id_empty s) (id_tab a))"
  have t: "table_ok id_empty is_id hash_id (id_tab a)" using assms by (simp add: tables_ok_def)
  have "is_id (id_tab a ! i) \<noteq> is_id (id_tab a ! j)"
    if "i < j" "j < length (id_tab a)" "\<not> id_empty (id_tab a ! i)" "\<not> id_empty (id_tab a ! j)" for i j
    using idt.key_unique [OF t, of i j] that by auto
  then have "distinct ?ids" by (rule idt.keys_distinct)
  moreover have "set ?ids \<subseteq> {1..<2 ^ 31}"
    using assms by (force simp: tables_ok_def slots_ok_def id_empty_def)
  ultimately have "length ?ids \<le> card {1..<2 ^ 31 :: int}"
    by (metis card_mono distinct_card finite_atLeastLessThan_int)
  then show ?thesis using assms by (simp add: tables_ok_def occupied_def)
qed

section \<open>Growth\<close>

lemma rehash_keeps:
  assumes a: "tables_ok a" and n: "n = 2 ^ b" "b \<le> 32" "1024 \<le> n" "alloc n"
    and room: "10 * count a < 7 * n" "cs_used a < n"
  obtains a' where "alias_rehash alloc n a = Some (True, a')" "tables_ok a'" "cap a' = n"
    "ids_of a' = ids_of a" "css_of a' = css_of a" "count a' = count a" "cs_used a' = cs_used a"
proof -
  have p: "pow2_size (replicate n x)" for x :: 'x using n by (auto simp: pow2_size_def)
  have "\<exists>nid. rehash_table id_empty id_hash (of_nat (n - 1)) (id_tab a) (replicate n id_zero) = Some nid \<and>
      table_ok id_empty is_id hash_id nid \<and> length nid = n \<and> occupied id_empty nid = occupied id_empty (id_tab a) \<and>
      entry id_empty is_id nid = entry id_empty is_id (id_tab a)"
  proof (cases "cap a = 0")
    case True
    then show ?thesis using a idt.blank_table_ok [OF p] by (simp add: tables_ok_def occupied_def id_empty_def id_zero_def entry_def fun_eq_iff find_None_iff)
  next
    case False
    then show ?thesis using a room idt.rehash_into_blank [OF _ p, of "id_tab a"] by (simp add: tables_ok_def hash_of_slots)
  qed
  then obtain nid where nid: "rehash_table id_empty id_hash (of_nat (n - 1)) (id_tab a) (replicate n id_zero) = Some nid"
      "table_ok id_empty is_id hash_id nid" "length nid = n" "occupied id_empty nid = occupied id_empty (id_tab a)"
      "entry id_empty is_id nid = entry id_empty is_id (id_tab a)" by blast
  have "\<exists>ncs. rehash_table cs_empty cs_hash (of_nat (n - 1)) (cs_tab a) (replicate n cs_zero) = Some ncs \<and>
      table_ok cs_empty cs_key hash_str ncs \<and> length ncs = n \<and> occupied cs_empty ncs = occupied cs_empty (cs_tab a) \<and>
      entry cs_empty cs_key ncs = entry cs_empty cs_key (cs_tab a)"
  proof (cases "cap a = 0")
    case True
    then show ?thesis using a cst.blank_table_ok [OF p] by (simp add: tables_ok_def occupied_def cs_empty_def cs_zero_def entry_def fun_eq_iff find_None_iff)
  next
    case False
    then show ?thesis using a room cst.rehash_into_blank [OF _ p, of "cs_tab a"] by (simp add: tables_ok_def hash_of_slots cs_used_def)
  qed
  then obtain ncs where ncs: "rehash_table cs_empty cs_hash (of_nat (n - 1)) (cs_tab a) (replicate n cs_zero) = Some ncs"
      "table_ok cs_empty cs_key hash_str ncs" "length ncs = n" "occupied cs_empty ncs = occupied cs_empty (cs_tab a)"
      "entry cs_empty cs_key ncs = entry cs_empty cs_key (cs_tab a)" by blast
  have "slots_ok a" using a by (simp add: tables_ok_def)
  then have so: "\<forall>s\<in>set nid. length (is_callsign s) = 11 \<and> is_callsign s ! 10 = 0 \<and> 0 \<le> is_id s \<and> is_id s < 2 ^ 31"
    "\<forall>s\<in>set ncs. length (cs_callsign s) = 11 \<and> cs_callsign s ! 10 = 0"
    using rehash_table_slots [OF nid(1)] rehash_table_slots [OF ncs(1)]
    by (auto simp: slots_ok_def id_zero_def cs_zero_def dest!: subsetD)
  let ?a = "a\<lparr>id_tab := nid, cs_tab := ncs, cap := n\<rparr>"
  show thesis
  proof (rule that [of ?a])
    show "alias_rehash alloc n a = Some (True, ?a)"
      using n nid(1) ncs(1) pow2_test [of b] by (simp add: alias_rehash_def ALIAS_MIN_CAP_def)
    show "tables_ok ?a" using a nid ncs so n(3) room by (simp add: tables_ok_def slots_ok_def)
  qed (use nid(5) ncs(4,5) in \<open>simp_all add: ids_of_def css_of_def cs_used_def fun_eq_iff\<close>)
qed

text \<open>Growth keeps both maps and makes room for one id.\<close>

lemma ensure_cap_keeps:
  assumes a: "tables_ok a" and alloc: "\<And>n. alloc n" and room: "cap a = 0 \<or> cs_used a < cap a"
  obtains a' where "alias_ensure_cap alloc a = Some (True, a')" "tables_ok a'" "10 * (count a' + 1) < 7 * cap a'"
    "cs_used a' < cap a'" "ids_of a' = ids_of a" "css_of a' = css_of a" "count a' = count a" "cs_used a' = cs_used a"
proof (cases "cap a = 0")
  case True
  then have "count a = 0" "cs_used a = 0" using a by (auto simp: tables_ok_def cs_used_def occupied_def)
  then obtain a' where "alias_rehash alloc 1024 a = Some (True, a')" "tables_ok a'" "cap a' = 1024"
    "ids_of a' = ids_of a" "css_of a' = css_of a" "count a' = count a" "cs_used a' = cs_used a"
    using rehash_keeps [OF a, of 1024 10 alloc] alloc by auto
  then show thesis using that [of a'] True \<open>count a = 0\<close> \<open>cs_used a = 0\<close>
    by (simp add: alias_ensure_cap_def ALIAS_MIN_CAP_def)
next
  case False
  note c = False
  have u: "cs_used a < cap a" using room c by simp
  show thesis
  proof (cases "(count a + 1) * ALIAS_LOAD_DEN < cap a * ALIAS_LOAD_NUM")
    case True
    then have "10 * (count a + 1) < 7 * cap a" by (simp add: ALIAS_LOAD_DEN_def ALIAS_LOAD_NUM_def)
    then show thesis using that [of a] a u c True by (simp add: alias_ensure_cap_def)
  next
    case False
    have "pow2_size (id_tab a)" "length (id_tab a) = cap a" "1024 \<le> cap a"
      using a c by (simp_all add: tables_ok_def table_ok_def)
    then obtain b where b: "cap a = 2 ^ b" "b \<le> 32" "1024 \<le> cap a" by (auto simp: pow2_size_def)
    have "cap a * 7 \<le> (count a + 1) * 10" using False by (simp add: ALIAS_LOAD_DEN_def ALIAS_LOAD_NUM_def)
    then have "cap a < 2 ^ 32" using count_bound [OF a c] by simp
    then have "b < 32" using b(1) by (metis power_less_imp_less_exp one_less_numeral_iff semiring_norm(76))
    then obtain a' where a': "alias_rehash alloc (2 * cap a) a = Some (True, a')" "tables_ok a'" "cap a' = 2 * cap a"
      "ids_of a' = ids_of a" "css_of a' = css_of a" "count a' = count a" "cs_used a' = cs_used a"
      using rehash_keeps [OF a, of "2 * cap a" "b + 1" alloc] b alloc u a c by (auto simp: tables_ok_def)
    moreover have "10 * count a < 7 * cap a" "1024 \<le> cap a" using a c by (simp_all add: tables_ok_def)
    ultimately show thesis using that [of a'] False c u next_pow2_double [OF b(3,1)] by (simp add: alias_ensure_cap_def)
  qed
qed

section \<open>Insertion\<close>

lemma c_str_set_callsign:
  assumes "length old = 11" "old ! 10 = 0" "0 \<notin> set key"
  shows "c_str (set_callsign old key) = take 10 key" "length (set_callsign old key) = 11" "set_callsign old key ! 10 = 0"
proof -
  have l: "length (strncpy old key 10) = 11" using assms(1) by simp
  have "strncpy old key 10 ! 10 = 0" using assms(1,2) by (simp add: strncpy_nth)
  then have e: "set_callsign old key = strncpy old key 10" unfolding set_callsign_def by (metis list_update_id)
  show "c_str (set_callsign old key) = take 10 key" unfolding e using assms by (intro c_str_strncpy) auto
  show "length (set_callsign old key) = 11" "set_callsign old key ! 10 = 0"
    using e l \<open>strncpy old key 10 ! 10 = 0\<close> by simp_all
qed

lemma put_id_in_place:
  assumes e: "alias_ensure_cap alloc a = Some (True, a1)" "tables_ok a1" "10 * (count a1 + 1) < 7 * cap a1"
    and i: "0 < i" "i < 2 ^ 31" and key: "0 \<notin> set key"
  obtains r a' where "alias_put_id alloc i key a = Some (r, a')" "tables_ok a'" "ids_of a' = (ids_of a1)(i \<mapsto> take 10 key)"
    "cs_tab a' = cs_tab a1" "cap a' = cap a1" "count a' = count a1 + of_bool (ids_of a1 i = None)"
proof -
  let ?t = "id_tab a1"
  have t: "table_ok id_empty is_id hash_id ?t" "length ?t = cap a1" "count a1 = occupied id_empty ?t" "slots_ok a1" "cap a1 \<noteq> 0"
    using e(2,3) by (auto simp: tables_ok_def)
  let ?f = "\<lambda>s. s\<lparr>is_id := i, is_callsign := set_callsign (is_callsign s) key\<rparr>"
  have v: "\<exists>j<length ?t. id_empty (?t ! j) \<or> is_id (?t ! j) = i" using vacant_slot [of id_empty ?t] t e(3) by auto
  obtain g where g: "probe (\<lambda>s. id_empty s \<or> is_id s = i) ?t (of_nat (cap a1 - 1)) (hash_id i AND of_nat (cap a1 - 1)) = Some g"
    "unat g < length ?t" "table_ok id_empty is_id hash_id (?t[unat g := ?f (?t ! unat g)])"
    "entry id_empty is_id (?t[unat g := ?f (?t ! unat g)]) = (entry id_empty is_id ?t)(i \<mapsto> ?f (?t ! unat g))"
    "id_empty (?t ! unat g) \<longleftrightarrow> entry id_empty is_id ?t i = None"
    "\<not> id_empty (?t ! unat g) \<longrightarrow> entry id_empty is_id ?t i = Some (?t ! unat g)"
    using idt.put [OF t(1) t(2) [symmetric] v, of ?f] i by (auto simp: id_empty_def)
  let ?s = "?t ! unat g"
  have sl: "length (is_callsign ?s) = 11" "is_callsign ?s ! 10 = 0" using t(4) g(2) by (auto simp: slots_ok_def)
  note cs = c_str_set_callsign [OF sl key]
  have same: "?s\<lparr>is_callsign := set_callsign (is_callsign ?s) key\<rparr> = ?f ?s" if "\<not> id_empty ?s"
  proof -
    have "is_id ?s = i" using g(6) that idt.entry_Some [OF t(1)] by auto
    then show ?thesis by simp
  qed
  let ?a = "a1\<lparr>id_tab := ?t[unat g := ?f ?s], count := count a1 + of_bool (id_empty ?s)\<rparr>"
  have put: "alias_put_id alloc i key a = Some (id_empty ?s, ?a)"
    using e(1) g(1) same by (simp add: alias_put_id_def Let_def)
  have none: "ids_of a1 i = None \<longleftrightarrow> id_empty ?s" unfolding ids_of_def g(5) by simp
  have occ: "occupied id_empty (?t[unat g := ?f ?s]) = count a1 + of_bool (id_empty ?s)"
    using g(2) i t(3) by (subst occupied_update) (auto simp: id_empty_def)
  have so: "slots_ok ?a"
    using t(4) cs(2,3) i unfolding slots_ok_def by (auto dest!: set_update_subset_insert [THEN subsetD])
  show thesis
  proof (rule that [OF put])
    show "tables_ok ?a" using e(2,3) g(3) occ so t by (simp add: tables_ok_def)
    show "ids_of ?a = (ids_of a1)(i \<mapsto> take 10 key)" using g(4) cs(1) by (simp add: ids_of_def fun_eq_iff)
    show "count ?a = count a1 + of_bool (ids_of a1 i = None)" using none by simp
  qed simp_all
qed

lemma put_id_refines:
  assumes a: "tables_ok a" and alloc: "\<And>n. alloc n" and room: "cap a = 0 \<or> cs_used a < cap a"
    and i: "0 < i" "i < 2 ^ 31" and key: "0 \<notin> set key"
  obtains r a' where "alias_put_id alloc i key a = Some (r, a')" "tables_ok a'" "ids_of a' = (ids_of a)(i \<mapsto> take 10 key)"
    "css_of a' = css_of a" "cs_used a' = cs_used a" "cs_used a' < cap a'" "count a' = count a + of_bool (ids_of a i = None)"
proof -
  obtain a1 where a1: "alias_ensure_cap alloc a = Some (True, a1)" "tables_ok a1" "10 * (count a1 + 1) < 7 * cap a1"
    "cs_used a1 < cap a1" "ids_of a1 = ids_of a" "css_of a1 = css_of a" "count a1 = count a" "cs_used a1 = cs_used a"
    by (rule ensure_cap_keeps [OF a alloc room])
  obtain r a' where a': "alias_put_id alloc i key a = Some (r, a')" "tables_ok a'" "ids_of a' = (ids_of a1)(i \<mapsto> take 10 key)"
    "cs_tab a' = cs_tab a1" "cap a' = cap a1" "count a' = count a1 + of_bool (ids_of a1 i = None)"
    by (rule put_id_in_place [OF a1(1-3) i key])
  have "css_of a' = css_of a1" "cs_used a' = cs_used a1" using a'(4) by (simp_all add: css_of_def cs_used_def fun_eq_iff)
  then show thesis using that [OF a'(1,2)] a' a1 by simp
qed

lemma put_cs_refines:
  assumes a: "tables_ok a" and room: "cs_used a < cap a" and key: "key \<noteq> []" "length key \<le> 10" "0 \<notin> set key"
  obtains a' where "alias_put_cs i key pref a = Some a'" "tables_ok a'" "ids_of a' = ids_of a" "count a' = count a"
    "css_of a' = (if pref \<or> css_of a key = None then (css_of a)(key \<mapsto> i) else css_of a)"
    "cs_used a' = cs_used a + of_bool (css_of a key = None)" "cap a' = cap a"
proof -
  let ?t = "cs_tab a"
  have c: "cap a \<noteq> 0" using room by simp
  have t: "table_ok cs_empty cs_key hash_str ?t" "length ?t = cap a" "slots_ok a"
    using a c by (auto simp: tables_ok_def)
  let ?f = "cs_write i key pref"
  have sl: "length (cs_callsign s) = 11" "cs_callsign s ! 10 = 0" if "s \<in> set ?t" for s
    using t(3) that by (auto simp: slots_ok_def)
  have v: "\<exists>j<length ?t. cs_empty (?t ! j) \<or> cs_key (?t ! j) = key"
    using vacant_slot [of cs_empty ?t] t(2) room by (auto simp: cs_used_def)
  have F: "\<not> cs_empty (?f s) \<and> cs_key (?f s) = key" if "s \<in> set ?t" "cs_empty s \<or> cs_key s = key" for s
  proof -
    note cs = c_str_set_callsign [OF sl [OF that(1)] key(3)]
    have k: "c_str (set_callsign (cs_callsign s) key) = key" using cs(1) key(2) by simp
    have "set_callsign (cs_callsign s) key ! 0 \<noteq> 0"
      using k key(1) cs(2) unfolding c_str_def by (cases "set_callsign (cs_callsign s) key") (auto split: if_splits)
    then show ?thesis using that(2) k by (auto simp: cs_write_def cs_empty_def cs_key_def)
  qed
  obtain g where g: "probe (\<lambda>s. cs_empty s \<or> cs_key s = key) ?t (of_nat (cap a - 1)) (hash_str key AND of_nat (cap a - 1)) = Some g"
    "unat g < length ?t" "table_ok cs_empty cs_key hash_str (?t[unat g := ?f (?t ! unat g)])"
    "entry cs_empty cs_key (?t[unat g := ?f (?t ! unat g)]) = (entry cs_empty cs_key ?t)(key \<mapsto> ?f (?t ! unat g))"
    "cs_empty (?t ! unat g) \<longleftrightarrow> entry cs_empty cs_key ?t key = None"
    "\<not> cs_empty (?t ! unat g) \<longrightarrow> entry cs_empty cs_key ?t key = Some (?t ! unat g)"
    
    by (rule cst.put [OF t(1) t(2) [symmetric] v, of ?f, OF F])
  let ?s = "?t ! unat g"
  let ?a = "a\<lparr>cs_tab := ?t[unat g := ?f ?s]\<rparr>"
  have put: "alias_put_cs i key pref a = Some ?a"
    using c t(2) g(1) by (auto simp: alias_put_cs_def Let_def cs_key_def cs_write_def)
  have none: "css_of a key = None \<longleftrightarrow> cs_empty ?s" unfolding css_of_def g(5) by simp
  have mem: "?s \<in> set ?t" using g(2) by simp
  have stop: "cs_empty ?s \<or> cs_key ?s = key" using g(6) cst.entry_Some [OF t(1)] by blast
  have fs: "\<not> cs_empty (?f ?s)" using F [OF mem stop] by blast
  have occ: "cs_used ?a = cs_used a + of_bool (css_of a key = None)"
    using occupied_update [of "unat g" ?t cs_empty "?f ?s", OF g(2) fs] none by (simp add: cs_used_def)
  have fl: "length (cs_callsign (?f ?s)) = 11 \<and> cs_callsign (?f ?s) ! 10 = 0"
    using sl [OF mem] c_str_set_callsign(2,3) [OF sl [OF mem] key(3)] by (auto simp: cs_write_def)
  have so: "slots_ok ?a"
    using t(3) fl unfolding slots_ok_def by (auto dest!: set_update_subset_insert [THEN subsetD] simp del: if_split)
  show thesis
  proof (rule that [OF put])
    show "tables_ok ?a" using a c g(3) so t by (simp add: tables_ok_def)
    show "ids_of ?a = ids_of a" "count ?a = count a" "cap ?a = cap a" by (simp_all add: ids_of_def fun_eq_iff)
    show "css_of ?a = (if pref \<or> css_of a key = None then (css_of a)(key \<mapsto> i) else css_of a)"
      using g(4,6) none by (auto simp: css_of_def fun_eq_iff cs_write_def)
  qed (rule occ)
qed

section \<open>One row\<close>

definition alias_maps :: "aliases \<Rightarrow> alias_maps" where
  "alias_maps a = (ids_of a, css_of a)"

text \<open>Callsigns whose key fits the table: its eleven bytes hold ten characters.\<close>

definition callsign_fits :: "bytes \<Rightarrow> bool" where
  "callsign_fits cs \<longleftrightarrow> 0 \<notin> set cs \<and> length (normalize_callsign_key cs 16) \<le> 10"

lemma toupper_zero [simp]: "toupper c = 0 \<longleftrightarrow> c = 0"
  by (auto simp: toupper_def word_le_nat_alt dest: arg_cong [of _ _ unat])

lemma normalize_no_zero: "0 \<notin> set cs \<Longrightarrow> 0 \<notin> set (normalize_callsign_key cs n)"
  unfolding normalize_callsign_key_def Let_def
  by (auto dest!: set_dropWhileD in_set_takeD set_takeWhileD)

lemma normalize_Nil [simp]: "normalize_callsign_key [] n = []"
  by (simp add: normalize_callsign_key_def)

text \<open>The table may be a little fuller than the count of ids says, by one for every repeated id.\<close>

definition slack :: "aliases \<Rightarrow> nat \<Rightarrow> bool" where
  "slack a e \<longleftrightarrow> cs_used a \<le> count a + e \<and> e \<le> 307"

lemma slack_room: "tables_ok a \<Longrightarrow> slack a e \<Longrightarrow> cap a = 0 \<or> cs_used a < cap a"
  by (auto simp: tables_ok_def slack_def split: if_splits)

lemma put_alias_step:
  assumes a: "tables_ok a" and alloc: "\<And>n. alloc n" and room: "cap a = 0 \<or> cs_used a < cap a"
    and i: "i < 2 ^ 31" and cs: "callsign_fits cs"
  obtains a' where "put_alias alloc pref i cs a = Some a'" "tables_ok a'"
    "alias_maps a' = put_maps pref i cs (alias_maps a)"
    "cs_used a' + count a \<le> cs_used a + count a' + of_bool (ids_of a i \<noteq> None)"
proof (cases "i \<le> 0 \<or> normalize_callsign_key cs 16 = []")
  case True
  then show thesis using that [of a] a by (auto simp: put_alias_def put_maps_def alias_maps_def Let_def)
next
  case False
  let ?k = "normalize_callsign_key cs 16"
  have k: "?k \<noteq> []" "length ?k \<le> 10" "0 \<notin> set ?k" "0 < i" "cs \<noteq> []"
    using False cs by (auto simp: callsign_fits_def normalize_no_zero)
  obtain r a1 where a1: "alias_put_id alloc i ?k a = Some (r, a1)" "tables_ok a1" "ids_of a1 = (ids_of a)(i \<mapsto> take 10 ?k)"
    "css_of a1 = css_of a" "cs_used a1 = cs_used a" "cs_used a1 < cap a1" "count a1 = count a + of_bool (ids_of a i = None)"
    by (rule put_id_refines [OF a alloc room k(4) i k(3)])
  obtain a2 where a2: "alias_put_cs i ?k pref a1 = Some a2" "tables_ok a2" "ids_of a2 = ids_of a1" "count a2 = count a1"
    "css_of a2 = (if pref \<or> css_of a1 ?k = None then (css_of a1)(?k \<mapsto> i) else css_of a1)"
    "cs_used a2 = cs_used a1 + of_bool (css_of a1 ?k = None)" "cap a2 = cap a1"
    by (rule put_cs_refines [OF a1(2,6) k(1,2,3)])
  show thesis
  proof (rule that)
    show "put_alias alloc pref i cs a = Some a2" using a1(1) a2(1) k by (simp add: put_alias_def Let_def)
    show "alias_maps a2 = put_maps pref i cs (alias_maps a)"
      using k by (simp add: put_maps_def alias_maps_def Let_def a2(3,5) a1(3,4))
    show "cs_used a2 + count a \<le> cs_used a + count a2 + of_bool (ids_of a i \<noteq> None)"
      using a2(4,6) a1(4,5,7) by (auto split: if_splits)
  qed (rule a2(2))
qed

section \<open>A file\<close>

text \<open>The rows the code uses, as pairs of id and callsign, and what they do to the maps.\<close>

definition used_row :: "json_row \<Rightarrow> (int \<times> bytes) option" where
  "used_row row = (case row of (Some v, Some cs) \<Rightarrow> map_option (\<lambda>i. (i, cs)) (row_id v) | _ \<Rightarrow> None)"

definition used_rows :: "json_row list \<Rightarrow> (int \<times> bytes) list" where
  "used_rows rows = List.map_filter used_row rows"

lemma used_rows_Cons [simp]:
  "used_rows (row # rows) = (case used_row row of None \<Rightarrow> used_rows rows | Some r \<Rightarrow> r # used_rows rows)"
  "used_rows [] = []"
  by (simp_all add: used_rows_def map_filter_simps split: option.splits)

lemma row_id_bound: "row_id v = Some i \<Longrightarrow> i < 2 ^ 31"
  using sint_lt [where 'a = 32] by (auto simp: row_id_def split: json_id.splits)

lemma parse_row_used:
  "parse_row alloc pref row (loaded, a) =
   (case used_row row of None \<Rightarrow> Some (loaded, a)
    | Some (i, cs) \<Rightarrow> map_option (Pair (loaded + 1)) (put_alias alloc pref i cs a))"
  by (auto simp: parse_row_def used_row_def upsert_alias_def insert_alias_def split: option.splits prod.splits)

fun repeats :: "int set \<Rightarrow> int list \<Rightarrow> nat" where
  "repeats seen [] = 0"
| "repeats seen (i # is) = of_bool (i \<in> seen) + repeats (insert i seen) is"

lemma repeats_mono: "A \<subseteq> B \<Longrightarrow> repeats A xs \<le> repeats B xs"
proof (induction xs arbitrary: A B)
  case (Cons x xs)
  have "repeats (insert x A) xs \<le> repeats (insert x B) xs" using Cons.prems by (intro Cons.IH) blast
  moreover have "of_bool (x \<in> A) \<le> (of_bool (x \<in> B) :: nat)" using Cons.prems by auto
  ultimately show ?case by simp
qed simp

lemma put_maps_dom: "dom (fst (put_maps pref i cs m)) \<subseteq> insert i (dom (fst m))"
  by (auto simp: put_maps_def Let_def split: prod.splits if_splits)

lemma load_rows:
  assumes alloc: "\<And>n. alloc n"
  shows "tables_ok a \<Longrightarrow> slack a e \<Longrightarrow>
    \<forall>(i, cs)\<in>set (used_rows rows). callsign_fits cs \<Longrightarrow>
    e + repeats (dom (ids_of a)) (List.map fst (used_rows rows)) \<le> 307 \<Longrightarrow>
    \<exists>n a'. parse_rows alloc pref rows (loaded, a) = Some (n, a') \<and> n = loaded + int (length (used_rows rows)) \<and>
      tables_ok a' \<and> alias_maps a' = fold (\<lambda>(i, cs). put_maps pref i cs) (used_rows rows) (alias_maps a) \<and>
      (\<exists>e'. slack a' e' \<and> e' \<le> e + repeats (dom (ids_of a)) (List.map fst (used_rows rows)))"
proof (induction rows arbitrary: a e loaded)
  case Nil
  then show ?case by auto
next
  case (Cons row rows)
  show ?case
  proof (cases "used_row row")
    case None
    then show ?thesis using Cons.IH [OF Cons.prems(1,2)] Cons.prems(3,4) by (simp add: parse_row_used)
  next
    case (Some r)
    obtain i cs where r: "r = (i, cs)" by (cases r)
    have cs: "callsign_fits cs" using Cons.prems(3) Some r by simp
    have il: "i < 2 ^ 31" using Some r by (auto simp: used_row_def dest!: row_id_bound split: option.splits prod.splits)
    obtain a1 where a1: "put_alias alloc pref i cs a = Some a1" "tables_ok a1"
      "alias_maps a1 = put_maps pref i cs (alias_maps a)"
      "cs_used a1 + count a \<le> cs_used a + count a1 + of_bool (ids_of a i \<noteq> None)"
      by (rule put_alias_step [OF Cons.prems(1) alloc slack_room [OF Cons.prems(1,2)] il cs])
    define e1 where "e1 = e + of_bool (ids_of a i \<noteq> None)"
    have dom: "dom (ids_of a1) \<subseteq> insert i (dom (ids_of a))"
      using put_maps_dom [of pref i cs "alias_maps a"] unfolding a1(3) [symmetric] by (simp add: alias_maps_def)
    have rep: "e1 + repeats (dom (ids_of a1)) (List.map fst (used_rows rows)) \<le>
        e + repeats (dom (ids_of a)) (List.map fst (used_rows (row # rows)))"
      using repeats_mono [OF dom, of "List.map fst (used_rows rows)"] Some r by (auto simp: e1_def domIff)
    have sl: "slack a1 e1" using Cons.prems(2,4) a1(4) rep by (auto simp: slack_def e1_def)
    have "e1 + repeats (dom (ids_of a1)) (List.map fst (used_rows rows)) \<le> 307" using rep Cons.prems(4) by linarith
    then obtain n a' e' where ih: "parse_rows alloc pref rows (loaded + 1, a1) = Some (n, a')"
      "n = loaded + 1 + int (length (used_rows rows))" "tables_ok a'"
      "alias_maps a' = fold (\<lambda>(i, cs). put_maps pref i cs) (used_rows rows) (alias_maps a1)"
      "slack a' e'" "e' \<le> e1 + repeats (dom (ids_of a1)) (List.map fst (used_rows rows))"
      using Cons.IH [OF a1(2) sl, of "loaded + 1"] Cons.prems(3) Some by auto
    have "parse_rows alloc pref (row # rows) (loaded, a) = Some (n, a')"
      using ih(1) a1(1) Some r by (simp add: parse_row_used)
    moreover have "n = loaded + int (length (used_rows (row # rows)))" using ih(2) Some by simp
    moreover have "alias_maps a' = fold (\<lambda>(i, cs). put_maps pref i cs) (used_rows (row # rows)) (alias_maps a)"
      using ih(4) a1(3) Some r by simp
    moreover have "e' \<le> e + repeats (dom (ids_of a)) (List.map fst (used_rows (row # rows)))" using ih(6) rep by linarith
    ultimately show ?thesis using ih(3,5) by blast
  qed
qed

section \<open>Lookups\<close>

lemma table_lengths:
  "tables_ok a \<Longrightarrow> cap a \<noteq> 0 \<Longrightarrow> length (id_tab a) = cap a \<and> length (cs_tab a) = cap a \<and> id_tab a \<noteq> [] \<and> cs_tab a \<noteq> []"
  by (auto simp: tables_ok_def)

lemma lookup_id_maps:
  assumes a: "tables_ok a"
  shows "alias_lookup_id a cs = (let key = normalize_callsign_key cs 16 in
    if key = [] then 0 else case css_of a key of None \<Rightarrow> 0 | Some i \<Rightarrow> i)"
proof (cases "cap a = 0")
  case True
  then show ?thesis using a by (simp add: tables_ok_def alias_lookup_id_def css_of_def entry_def Let_def)
next
  case False
  let ?k = "normalize_callsign_key cs 16"
  have t: "table_ok cs_empty cs_key hash_str (cs_tab a)" using a False by (simp add: tables_ok_def)
  have l: "cap a = length (cs_tab a)" "cs_tab a \<noteq> []" using table_lengths [OF a False] by auto
  have "alias_lookup_id a cs = (case (case probe_n (\<lambda>s. cs_empty s \<or> cs_key s = ?k) (cs_tab a) (of_nat (cap a - 1)) (cap a)
      (hash_str ?k AND of_nat (cap a - 1)) of None \<Rightarrow> None
      | Some g \<Rightarrow> if cs_empty (cs_tab a ! unat g) then None else Some (cs_tab a ! unat g)) of None \<Rightarrow> 0 | Some s \<Rightarrow> cs_id s)"
    if "?k \<noteq> []"
    using that False l(2) by (cases cs) (auto simp: alias_lookup_id_def Let_def cs_key_def split: option.splits)
  then have "alias_lookup_id a cs = (case entry cs_empty cs_key (cs_tab a) ?k of None \<Rightarrow> 0 | Some s \<Rightarrow> cs_id s)" if "?k \<noteq> []"
    unfolding cst.lookup [OF t l(1)] using that by simp
  then show ?thesis by (auto simp: css_of_def Let_def alias_lookup_id_def split: option.splits)
qed

lemma lookup_callsign_maps:
  assumes a: "tables_ok a" and buf: "length buf = 10"
  shows "alias_lookup_callsign a dmrid buf =
    (if cap a = 0 \<or> dmrid \<le> 0 then (False, buf)
     else case ids_of a dmrid of
            None \<Rightarrow> (False, replicate 10 0x20)
          | Some cs \<Rightarrow> (True, memcpy (replicate 10 0x20) 0 (List.map toupper (take 10 cs))))"
proof (cases "cap a = 0 \<or> dmrid \<le> 0")
  case True
  then show ?thesis by (auto simp: alias_lookup_callsign_def)
next
  case False
  then have F: "cap a \<noteq> 0" "\<not> dmrid \<le> 0" by auto
  have t: "table_ok id_empty is_id hash_id (id_tab a)" using a F by (simp add: tables_ok_def)
  have l: "cap a = length (id_tab a)" "id_tab a \<noteq> []" using table_lengths [OF a F(1)] by auto
  have b: "memset buf 0 0x20 10 = replicate 10 0x20" using buf by (simp add: memset_def)
  have "alias_lookup_callsign a dmrid buf = (case (case probe_n (\<lambda>s. id_empty s \<or> is_id s = dmrid) (id_tab a) (of_nat (cap a - 1)) (cap a)
      (hash_id dmrid AND of_nat (cap a - 1)) of None \<Rightarrow> None
      | Some g \<Rightarrow> if id_empty (id_tab a ! unat g) then None else Some (id_tab a ! unat g)) of
      None \<Rightarrow> (False, replicate 10 0x20)
    | Some s \<Rightarrow> (True, memcpy (replicate 10 0x20) 0 (List.map toupper (take 10 (c_str (is_callsign s))))))"
    using F l(2) b by (auto simp: alias_lookup_callsign_def Let_def split: option.splits)
  then show ?thesis unfolding idt.lookup [OF t l(1)] using False by (auto simp: ids_of_def split: option.splits)
qed

section \<open>What a file means\<close>

definition row_key :: "int \<times> bytes \<Rightarrow> bytes" where
  "row_key row = normalize_callsign_key (snd row) 16"

text \<open>A row that names a subscriber: a positive id and a callsign that is not blank.\<close>

definition names :: "int \<times> bytes \<Rightarrow> bool" where
  "names row \<longleftrightarrow> 0 < fst row \<and> row_key row \<noteq> []"

definition pad10 :: "bytes \<Rightarrow> bytes" where
  "pad10 cs = cs @ replicate (10 - length cs) 0x20"

lemma put_maps_row:
  "put_maps pref i cs (ids, css) =
     (if names (i, cs) then (ids(i \<mapsto> row_key (i, cs)),
        if pref \<or> css (row_key (i, cs)) = None then css(row_key (i, cs) \<mapsto> i) else css)
      else (ids, css))"
  by (auto simp: put_maps_def names_def row_key_def Let_def)

lemma fold_ids:
  "fst (fold (\<lambda>(i, cs). put_maps pref i cs) rows (ids, css)) i =
     (case List.find (\<lambda>row. names row \<and> fst row = i) (rev rows) of None \<Rightarrow> ids i | Some row \<Rightarrow> Some (row_key row))"
proof (induction rows arbitrary: ids css)
  case (Cons row rows)
  obtain j cs where row: "row = (j, cs)" by (cases row)
  have f: "List.find P (xs @ [x]) = (case List.find P xs of None \<Rightarrow> if P x then Some x else None | Some y \<Rightarrow> Some y)"
    for P and xs :: "(int \<times> bytes) list" and x
    by (induction xs) auto
  show ?case
    using Cons.IH by (auto simp: row put_maps_row f split: option.splits)
qed simp

lemma fold_css_first:
  "snd (fold (\<lambda>(i, cs). put_maps False i cs) rows (ids, css)) k =
     (case css k of Some i \<Rightarrow> Some i | None \<Rightarrow>
        map_option fst (List.find (\<lambda>row. names row \<and> row_key row = k) rows))"
proof (induction rows arbitrary: ids css)
  case (Cons row rows)
  obtain j cs where row: "row = (j, cs)" by (cases row)
  show ?case using Cons.IH by (auto simp: row put_maps_row split: option.splits)
qed (auto split: option.splits)

lemma fold_css_last:
  "snd (fold (\<lambda>(i, cs). put_maps True i cs) rows (ids, css)) k =
     (case List.find (\<lambda>row. names row \<and> row_key row = k) (rev rows) of None \<Rightarrow> css k | Some row \<Rightarrow> Some (fst row))"
proof (induction rows arbitrary: ids css)
  case (Cons row rows)
  obtain j cs where row: "row = (j, cs)" by (cases row)
  have f: "List.find P (xs @ [x]) = (case List.find P xs of None \<Rightarrow> if P x then Some x else None | Some y \<Rightarrow> Some y)"
    for P and xs :: "(int \<times> bytes) list" and x
    by (induction xs) auto
  show ?case using Cons.IH by (auto simp: row put_maps_row f split: option.splits)
qed simp

lemma toupper_idem [simp]: "toupper (toupper c) = toupper c"
proof -
  have "\<not> (0x61 \<le> c - 0x20 \<and> c - 0x20 \<le> 0x7A)" if "0x61 \<le> c" "c \<le> 0x7A"
    using that by (simp add: word_le_nat_alt unat_sub_if_size) 
  then show ?thesis by (auto simp: toupper_def)
qed

lemma normalize_upper: "List.map toupper (normalize_callsign_key cs n) = normalize_callsign_key cs n"
proof (rule map_idI)
  fix c assume "c \<in> set (normalize_callsign_key cs n)"
  then have "c \<in> range toupper"
    unfolding normalize_callsign_key_def Let_def by (auto dest!: set_dropWhileD)
  then show "toupper c = c" by auto
qed

lemma aliases_new_ok: "tables_ok aliases_new" "slack aliases_new 0" "alias_maps aliases_new = (\<lambda>_. None, \<lambda>_. None)"
  by (simp_all add: tables_ok_def slots_ok_def aliases_new_def slack_def cs_used_def occupied_def alias_maps_def ids_of_def css_of_def entry_def fun_eq_iff)

lemma parse_results:
  assumes "\<And>n. alloc n" "tables_ok a" "slack a e" "\<forall>(i, cs)\<in>set (used_rows rows). callsign_fits cs"
    and "dom (ids_of a) \<subseteq> seen" "e + repeats seen (List.map fst (used_rows rows)) \<le> 307"
  obtains a' e' where
    "parse_subscriber_json alloc pref (Some rows) a = Some (if used_rows rows = [] then - 1 else 0, a')" "tables_ok a'"
    "alias_maps a' = fold (\<lambda>(i, cs). put_maps pref i cs) (used_rows rows) (alias_maps a)"
    "slack a' e'" "e' \<le> e + repeats seen (List.map fst (used_rows rows))"
proof -
  note m = repeats_mono [OF assms(5), of "List.map fst (used_rows rows)"]
  obtain a' e' where "parse_rows alloc pref rows (0, a) = Some (int (length (used_rows rows)), a')" "tables_ok a'"
    "alias_maps a' = fold (\<lambda>(i, cs). put_maps pref i cs) (used_rows rows) (alias_maps a)"
    "slack a' e'" "e' \<le> e + repeats (dom (ids_of a)) (List.map fst (used_rows rows))"
    using load_rows [of alloc a e rows pref 0] assms m by auto
  then show thesis using that [of a' e'] m by (auto simp: parse_subscriber_json_def split: if_splits)
qed

lemma repeats_append: "repeats A (xs @ ys) = repeats A xs + repeats (A \<union> set xs) ys"
  by (induction xs arbitrary: A) auto

lemma find_mem: "List.find P xs = Some x \<Longrightarrow> x \<in> set xs \<and> P x"
  by (auto simp: find_Some_iff)

text \<open>
  C39: loading a subscriber file and then the local overlay into new tables ends, and the lookups answer what the
  two files say, on three conditions: no allocation fails, the callsign of every used row has no zero byte
  and a key of at most ten characters, and at most 307 used rows repeat an id that an earlier row has. A
  callsign then has the id of its last row in the overlay, failing that of its first row in the main file; an id
  has the callsign of its last row. Each of the last two conditions is needed: a longer key is lost
  (as the last section shows), and enough rows with one id and new callsigns fill the table.
\<close>

theorem subscriber_tables_loaded:
  assumes "\<And>n. alloc n" and fits: "\<forall>(i, cs)\<in>set (used_rows rows @ used_rows overlay). callsign_fits cs"
    and few: "repeats {} (List.map fst (used_rows rows @ used_rows overlay)) \<le> 307"
  shows "\<exists>r r' a1 a. parse_subscriber_json alloc False (Some rows) aliases_new = Some (r, a1) \<and>
    parse_subscriber_json alloc True (Some overlay) a1 = Some (r', a) \<and>
    (\<forall>cs. alias_lookup_id a cs =
       (case List.find (\<lambda>row. names row \<and> row_key row = normalize_callsign_key cs 16) (rev (used_rows overlay) @ used_rows rows) of
          None \<Rightarrow> 0 | Some row \<Rightarrow> fst row)) \<and>
    (\<forall>i. alias_lookup_callsign a i (replicate 10 0x20) =
       (case List.find (\<lambda>row. names row \<and> fst row = i) (rev (used_rows rows @ used_rows overlay)) of
          None \<Rightarrow> (False, replicate 10 0x20) | Some row \<Rightarrow> (True, pad10 (row_key row))))"
proof -
  let ?r = "used_rows rows" and ?o = "used_rows overlay"
  have few': "repeats {} (List.map fst ?r) + repeats (fst ` set ?r) (List.map fst ?o) \<le> 307"
    using few by (simp add: repeats_append)
  have d0: "dom (ids_of aliases_new) \<subseteq> {}" using aliases_new_ok(3) by (auto simp: alias_maps_def)
  obtain a1 e1 where a1: "parse_subscriber_json alloc False (Some rows) aliases_new = Some (if ?r = [] then - 1 else 0, a1)"
    "tables_ok a1" "alias_maps a1 = fold (\<lambda>(i, cs). put_maps False i cs) ?r (\<lambda>_. None, \<lambda>_. None)"
    "slack a1 e1" "e1 \<le> repeats {} (List.map fst ?r)"
    by (rule parse_results [where rows = rows and pref = False, OF assms(1) aliases_new_ok(1,2) _ d0])
      (use fits few' aliases_new_ok(3) in auto)
  have i1: "ids_of a1 i = (case List.find (\<lambda>row. names row \<and> fst row = i) (rev ?r) of None \<Rightarrow> None | Some row \<Rightarrow> Some (row_key row))"
    and c1: "css_of a1 k = map_option fst (List.find (\<lambda>row. names row \<and> row_key row = k) ?r)" for i k
    using arg_cong [OF a1(3), of "\<lambda>m. fst m i"] arg_cong [OF a1(3), of "\<lambda>m. snd m k"]
    by (simp_all add: alias_maps_def fold_ids fold_css_first)
  have d1: "dom (ids_of a1) \<subseteq> fst ` set ?r"
    by (force simp: i1 dest!: find_mem split: option.splits)
  obtain a e where a: "parse_subscriber_json alloc True (Some overlay) a1 = Some (if ?o = [] then - 1 else 0, a)"
    "tables_ok a" "alias_maps a = fold (\<lambda>(i, cs). put_maps True i cs) ?o (alias_maps a1)" "slack a e"
    by (rule parse_results [where rows = overlay and pref = True, OF assms(1) a1(2,4) _ d1]) (use fits few' a1(5) in auto)
  have ap: "List.find P (xs @ ys) = (case List.find P xs of None \<Rightarrow> List.find P ys | Some y \<Rightarrow> Some y)"
    for P and xs ys :: "(int \<times> bytes) list"
    by (induction xs) auto
  have ids: "ids_of a i = map_option row_key (List.find (\<lambda>row. names row \<and> fst row = i) (rev (?r @ ?o)))" for i
    using arg_cong [OF a(3), of "\<lambda>m. fst m i"] by (simp add: alias_maps_def fold_ids i1 ap split: option.splits)
  have css: "css_of a k = map_option fst (List.find (\<lambda>row. names row \<and> row_key row = k) (rev ?o @ ?r))" for k
    using arg_cong [OF a(3), of "\<lambda>m. snd m k"] by (simp add: alias_maps_def fold_css_last c1 ap split: option.splits)
  have "alias_lookup_id a cs = (case List.find (\<lambda>row. names row \<and> row_key row = normalize_callsign_key cs 16) (rev ?o @ ?r) of
      None \<Rightarrow> 0 | Some row \<Rightarrow> fst row)" for cs
  proof (cases "normalize_callsign_key cs 16 = []")
    case True
    then have "List.find (\<lambda>row. names row \<and> row_key row = normalize_callsign_key cs 16) (rev ?o @ ?r) = None"
      by (auto simp: find_None_iff names_def)
    then show ?thesis using True by (simp add: lookup_id_maps [OF a(2)])
  next
    case False
    then show ?thesis by (simp add: lookup_id_maps [OF a(2)] css split: option.splits)
  qed
  moreover have "alias_lookup_callsign a i (replicate 10 0x20) =
      (case List.find (\<lambda>row. names row \<and> fst row = i) (rev (?r @ ?o)) of
         None \<Rightarrow> (False, replicate 10 0x20) | Some row \<Rightarrow> (True, pad10 (row_key row)))" for i
  proof (cases "List.find (\<lambda>row. names row \<and> fst row = i) (rev (?r @ ?o))")
    case None
    then show ?thesis using ids [of i] by (simp add: lookup_callsign_maps [OF a(2)])
  next
    case (Some row)
    then have row: "row \<in> set (?r @ ?o)" "fst row = i" "names row"
      using find_mem [OF Some] by auto
    have "callsign_fits (snd row)" using fits row(1) by (cases row) auto
    then have l: "length (row_key row) \<le> 10" by (simp add: callsign_fits_def row_key_def)
    have "cap a \<noteq> 0"
    proof
      assume "cap a = 0"
      then have "ids_of a i = None" using a(2) by (simp add: tables_ok_def ids_of_def entry_def)
      then show False using ids [of i] Some by simp
    qed
    moreover have "\<not> i \<le> 0" using row by (simp add: names_def)
    moreover have "List.map toupper (row_key row) = row_key row" by (simp add: row_key_def normalize_upper)
    ultimately show ?thesis using Some ids [of i] l
      by (simp add: lookup_callsign_maps [OF a(2)] pad10_def memcpy_def)
  qed
  ultimately show ?thesis using a1(1) a(1) by blast
qed

lemma subscriber_tables_loaded_witness:
  "\<exists>r r' a1 a.
     parse_subscriber_json (\<lambda>_. True) False
       (Some [(Some (Uint 7300391), Some (ascii ''ce5rpy'')), (Some (Uint 7300392), Some (ascii ''CE5RPY-1''))]) aliases_new = Some (r, a1) \<and>
     parse_subscriber_json (\<lambda>_. True) True (Some [(Some (Sint 7301), Some (ascii ''HP3ICC''))]) a1 = Some (r', a) \<and>
     alias_lookup_id a (ascii ''CE5RPY/P'') = 7300391 \<and> alias_lookup_id a (ascii ''hp3icc'') = 7301 \<and>
     alias_lookup_callsign a 7300392 (replicate 10 0x20) = (True, ascii ''CE5RPY    '')"
proof -
  have u: "used_rows [(Some (Uint 7300391), Some (ascii ''ce5rpy'')), (Some (Uint 7300392), Some (ascii ''CE5RPY-1''))] =
      [(7300391, ascii ''ce5rpy''), (7300392, ascii ''CE5RPY-1'')]"
    "used_rows [(Some (Sint 7301), Some (ascii ''HP3ICC''))] = [(7301, ascii ''HP3ICC'')]"
    by (simp_all add: used_row_def row_id_def)
  have f: "\<forall>(i, cs)\<in>set ([(7300391 :: int, ascii ''ce5rpy''), (7300392, ascii ''CE5RPY-1'')] @ [(7301, ascii ''HP3ICC'')]). callsign_fits cs"
    by code_simp
  have p: "repeats {} (List.map fst ([(7300391 :: int, ascii ''ce5rpy''), (7300392, ascii ''CE5RPY-1'')] @ [(7301, ascii ''HP3ICC'')])) \<le> 307"
    by simp
  have g1: "List.find (\<lambda>row. names row \<and> row_key row = normalize_callsign_key (ascii ''CE5RPY/P'') 16)
      (rev [(7301, ascii ''HP3ICC'')] @ [(7300391, ascii ''ce5rpy''), (7300392, ascii ''CE5RPY-1'')]) = Some (7300391, ascii ''ce5rpy'')"
    by code_simp
  have g2: "List.find (\<lambda>row. names row \<and> row_key row = normalize_callsign_key (ascii ''hp3icc'') 16)
      (rev [(7301, ascii ''HP3ICC'')] @ [(7300391, ascii ''ce5rpy''), (7300392, ascii ''CE5RPY-1'')]) = Some (7301, ascii ''HP3ICC'')"
    by code_simp
  have g3: "List.find (\<lambda>row. names row \<and> fst row = 7300392)
      (rev ([(7300391, ascii ''ce5rpy''), (7300392, ascii ''CE5RPY-1'')] @ [(7301, ascii ''HP3ICC'')])) = Some (7300392, ascii ''CE5RPY-1'')"
    by code_simp
  have g4: "pad10 (row_key (7300392, ascii ''CE5RPY-1'')) = ascii ''CE5RPY    ''" by code_simp
  obtain r r' a1 a where a: "parse_subscriber_json (\<lambda>_. True) False
       (Some [(Some (Uint 7300391), Some (ascii ''ce5rpy'')), (Some (Uint 7300392), Some (ascii ''CE5RPY-1''))]) aliases_new = Some (r, a1)"
     "parse_subscriber_json (\<lambda>_. True) True (Some [(Some (Sint 7301), Some (ascii ''HP3ICC''))]) a1 = Some (r', a)"
     "\<forall>cs. alias_lookup_id a cs =
       (case List.find (\<lambda>row. names row \<and> row_key row = normalize_callsign_key cs 16)
          (rev [(7301, ascii ''HP3ICC'')] @ [(7300391, ascii ''ce5rpy''), (7300392, ascii ''CE5RPY-1'')]) of
          None \<Rightarrow> 0 | Some row \<Rightarrow> fst row)"
     "\<forall>i. alias_lookup_callsign a i (replicate 10 0x20) =
       (case List.find (\<lambda>row. names row \<and> fst row = i)
          (rev ([(7300391, ascii ''ce5rpy''), (7300392, ascii ''CE5RPY-1'')] @ [(7301, ascii ''HP3ICC'')])) of
          None \<Rightarrow> (False, replicate 10 0x20) | Some row \<Rightarrow> (True, pad10 (row_key row)))"
    using subscriber_tables_loaded [of "\<lambda>_. True", OF TrueI f [folded u] p [folded u]] unfolding u
    by (elim exE conjE) (rule that; assumption)
  have "alias_lookup_id a (ascii ''CE5RPY/P'') = 7300391"
    using spec [OF a(3), of "ascii ''CE5RPY/P''"] unfolding g1 by (simp only: option.case fst_conv)
  moreover have "alias_lookup_id a (ascii ''hp3icc'') = 7301"
    using spec [OF a(3), of "ascii ''hp3icc''"] unfolding g2 by (simp only: option.case fst_conv)
  moreover have "alias_lookup_callsign a 7300392 (replicate 10 0x20) = (True, ascii ''CE5RPY    '')"
    using spec [OF a(4), of 7300392] unfolding g3 by (simp only: option.case g4)
  ultimately show ?thesis using a(1,2) by blast
qed

section \<open>Callsigns that do not fit\<close>

lemma put_cs_shape:
  assumes "alias_put_cs i key pref a = Some a'" "slots_ok a" "0 \<notin> set key"
  shows "length (cs_tab a') = length (cs_tab a) \<and> cap a' = cap a \<and> id_tab a' = id_tab a \<and> slots_ok a'"
proof (cases "cs_tab a = [] \<or> cap a = 0")
  case True
  then show ?thesis using assms by (auto simp: alias_put_cs_def)
next
  case False
  obtain g :: u32 where "a\<lparr>cs_tab := (cs_tab a)[unat g := cs_write i key pref (cs_tab a ! unat g)]\<rparr> = a'"
    using assms(1) unfolding alias_put_cs_def Let_def if_not_P [OF False] bind_eq_Some_conv option.inject
    by blast
  note g = this [symmetric]
  have "length (cs_callsign (cs_write i key pref s)) = 11 \<and> cs_callsign (cs_write i key pref s) ! 10 = 0" if "s \<in> set (cs_tab a)" for s
  proof -
    have sl: "length (cs_callsign s) = 11" "cs_callsign s ! 10 = 0" using assms(2) that by (auto simp: slots_ok_def)
    then show ?thesis using c_str_set_callsign(2,3) [OF sl assms(3)] by (simp add: cs_write_def)
  qed
  moreover have "set (cs_tab a') \<subseteq> (if unat g < length (cs_tab a) then insert (cs_write i key pref (cs_tab a ! unat g)) (set (cs_tab a)) else set (cs_tab a))"
    by (simp add: g set_update_subset_insert list_update_beyond not_less)
  ultimately have "slots_ok a'" using assms(2) g by (auto simp: slots_ok_def dest!: subsetD split: if_splits)
  then show ?thesis using g by simp
qed

lemma long_key_not_found:
  assumes "slots_ok a" "length (cs_tab a) = 2 ^ b" "b \<le> 32" "cap a = 2 ^ b" "10 < length (normalize_callsign_key cs 16)"
  shows "alias_lookup_id a cs = 0"
proof (rule ccontr)
  let ?k = "normalize_callsign_key cs 16"
  assume ne: "alias_lookup_id a cs \<noteq> 0"
  then obtain g where g: "probe_n (\<lambda>s. cs_empty s \<or> c_str (cs_callsign s) = ?k) (cs_tab a) (of_nat (cap a - 1)) (cap a)
      (hash_str ?k AND of_nat (cap a - 1)) = Some g" "\<not> cs_empty (cs_tab a ! unat g)"
    by (auto simp: alias_lookup_id_def Let_def split: if_splits option.splits)
  have "unat (hash_str ?k AND of_nat (2 ^ b - 1)) < 2 ^ b" using unat_step(1) [OF assms(3), of "hash_str ?k"] by simp
  from probe_n_Some [OF assms(3) g(1) [unfolded assms(4)] this] g(2)
  have s: "unat g < 2 ^ b" "c_str (cs_callsign (cs_tab a ! unat g)) = ?k" by auto
  then have "cs_tab a ! unat g \<in> set (cs_tab a)" using assms(2) by simp
  then have "length (c_str (cs_callsign (cs_tab a ! unat g))) \<le> 10"
    using assms(1) by (intro c_str_room) (auto simp: slots_ok_def)
  then show False using s(2) assms(5) by simp
qed

text \<open>
  A row whose callsign has more than ten characters is stored, but the callsign is never found: the
  slot keeps ten characters and the search compares the whole key.
\<close>

theorem long_callsign_lost:
  assumes "\<And>n. alloc n" "tables_ok a" "cap a = 0 \<or> cs_used a < cap a" "0 < i" "i < 2 ^ 31" "0 \<notin> set cs"
    and "10 < length (normalize_callsign_key cs 16)"
  shows "\<exists>a'. put_alias alloc pref i cs a = Some a' \<and>
    ids_of a' i = Some (take 10 (normalize_callsign_key cs 16)) \<and> alias_lookup_id a' cs = 0"
proof -
  let ?k = "normalize_callsign_key cs 16"
  have k: "?k \<noteq> []" "0 \<notin> set ?k" "cs \<noteq> []" using assms(6,7) by (auto simp: normalize_no_zero)
  obtain r a1 where a1: "alias_put_id alloc i ?k a = Some (r, a1)" "tables_ok a1" "ids_of a1 = (ids_of a)(i \<mapsto> take 10 ?k)"
    "cs_used a1 < cap a1"
    by (rule put_id_refines [OF assms(2,1,3,4,5) k(2)])
  have c: "length (cs_tab a1) = cap a1" "table_ok cs_empty cs_key hash_str (cs_tab a1)" "slots_ok a1"
    using a1(2,4) by (auto simp: tables_ok_def)
  obtain b where b: "b \<le> 32" "cap a1 = 2 ^ b" using c(1) table_ok_size [OF c(2)] by (auto simp: pow2_size_def)
  have "\<exists>j<length (cs_tab a1). cs_empty (cs_tab a1 ! j) \<or> cs_key (cs_tab a1 ! j) = ?k"
    using vacant_slot [of cs_empty "cs_tab a1"] a1(4) c(1) by (auto simp: cs_used_def)
  then obtain g where g: "probe (\<lambda>s. cs_empty s \<or> c_str (cs_callsign s) = ?k) (cs_tab a1) (of_nat (cap a1 - 1)) (hash_str ?k AND of_nat (cap a1 - 1)) = Some g"
    using cst.find_slot [OF c(2) c(1) [symmetric]] unfolding cs_key_def by blast
  obtain a' where a': "alias_put_cs i ?k pref a1 = Some a'"
    unfolding alias_put_cs_def Let_def g using a1(4) c(1) by fastforce
  then have put: "put_alias alloc pref i cs a = Some a'" using assms(4) a1(1) k by (simp add: put_alias_def Let_def)
  note sh = put_cs_shape [OF a' c(3) k(2)]
  have "ids_of a' i = Some (take 10 ?k)" using sh a1(3) by (simp add: ids_of_def fun_eq_iff)
  moreover have "alias_lookup_id a' cs = 0"
    by (rule long_key_not_found [of a' b]) (use sh c b assms(7) in auto)
  ultimately show ?thesis using put by simp
qed

lemma long_callsign_lost_witness:
  "\<exists>a'. put_alias (\<lambda>_. True) False 7 (ascii ''REPETIDORA01'') aliases_new = Some a' \<and>
    ids_of a' 7 = Some (ascii ''REPETIDORA'') \<and> alias_lookup_id a' (ascii ''REPETIDORA01'') = 0"
proof -
  have k: "normalize_callsign_key (ascii ''REPETIDORA01'') 16 = ascii ''REPETIDORA01''" by code_simp
  have t: "take 10 (ascii ''REPETIDORA01'') = ascii ''REPETIDORA''" by simp
  have z: "0 \<notin> set (ascii ''REPETIDORA01'')" by code_simp
  show ?thesis
    using long_callsign_lost [of "\<lambda>_. True" aliases_new 7 "ascii ''REPETIDORA01''" False, OF TrueI aliases_new_ok(1) _ _ _ z]
    unfolding k t by (simp add: aliases_new_def)
qed

section \<open>A table without a vacant slot\<close>

lemma probe_range:
  assumes "b \<le> 32"
  shows "probe stop tab (of_nat (2 ^ b - 1)) h = Some g \<Longrightarrow> unat h < 2 ^ b \<Longrightarrow> unat g < 2 ^ b \<and> stop (tab ! unat g)"
proof -
  have "probe stop tab msk h = Some g \<Longrightarrow> msk = of_nat (2 ^ b - 1) \<Longrightarrow> unat h < 2 ^ b \<Longrightarrow> unat g < 2 ^ b \<and> stop (tab ! unat g)"
    for stop tab msk h g
  proof (induction rule: probe.raw_induct [rotated 1, consumes 1])
    case (1 probe' stop tab msk h g)
    have "unat ((h + 1) AND msk) < 2 ^ b" using unat_step(2) [OF assms, of h] 1(3) by simp
    then show ?case using 1(1) [of stop tab msk "(h + 1) AND msk" g] 1(2-) by (auto split: if_splits)
  qed
  then show "probe stop tab (of_nat (2 ^ b - 1)) h = Some g \<Longrightarrow> unat h < 2 ^ b \<Longrightarrow> unat g < 2 ^ b \<and> stop (tab ! unat g)" by blast
qed

lemma full_table_hangs:
  assumes "tables_ok a" "cap a \<noteq> 0" "cs_used a = cap a" "css_of a key = None"
  shows "alias_put_cs i key pref a = None"
proof -
  have t: "table_ok cs_empty cs_key hash_str (cs_tab a)" "length (cs_tab a) = cap a" using assms by (auto simp: tables_ok_def)
  obtain b where b: "b \<le> 32" "cap a = 2 ^ b" using t(2) table_ok_size [OF t(1)] by (auto simp: pow2_size_def)
  have "filter (\<lambda>s. \<not> cs_empty s) (cs_tab a) = cs_tab a"
    using assms(3) t(2) by (intro filter_True) (auto simp: cs_used_def occupied_def length_filter_conv_card dest: length_filter_less [of _ _ "\<lambda>s. \<not> cs_empty s"])
  then have occ: "\<not> cs_empty s" if "s \<in> set (cs_tab a)" for s using that by (metis filter_id_conv)
  have ns: "\<not> (cs_empty (cs_tab a ! j) \<or> c_str (cs_callsign (cs_tab a ! j)) = key)" if "j < cap a" for j
  proof -
    have "cs_tab a ! j \<in> set (cs_tab a)" using that t(2) by simp
    then show ?thesis using occ assms(4) by (auto simp: css_of_def entry_def find_None_iff cs_key_def)
  qed
  have "probe (\<lambda>s. cs_empty s \<or> c_str (cs_callsign s) = key) (cs_tab a) (of_nat (cap a - 1)) (hash_str key AND of_nat (cap a - 1)) = None"
  proof (rule ccontr)
    assume "\<not> ?thesis"
    then obtain g where g: "probe (\<lambda>s. cs_empty s \<or> c_str (cs_callsign s) = key) (cs_tab a) (of_nat (2 ^ b - 1)) (hash_str key AND of_nat (2 ^ b - 1)) = Some g"
      unfolding b(2) by blast
    have "unat (hash_str key AND of_nat (2 ^ b - 1)) < 2 ^ b" using unat_step(1) [OF b(1), of "hash_str key"] by simp
    from probe_range [OF b(1) g this] ns [of "unat g"] b(2) show False by simp
  qed
  then show ?thesis using assms(2) t(2) by (auto simp: alias_put_cs_def Let_def)
qed

lemma parse_rows_append:
  "parse_rows alloc pref (xs @ ys) st = Option.bind (parse_rows alloc pref xs st) (parse_rows alloc pref ys)"
  by (induction xs arbitrary: st) (auto simp: bind_assoc split: bind_splits)

section \<open>One id under many callsigns\<close>

text \<open>Callsigns of three letters; the id is 1 in every row.\<close>

definition call :: "nat \<Rightarrow> bytes" where
  "call n = [of_nat (65 + n div 256), of_nat (65 + n div 16 mod 16), of_nat (65 + n mod 16)]"

definition call_row :: "nat \<Rightarrow> json_row" where
  "call_row n = (Some (Uint 1), Some (call n))"

lemma call_letters:
  assumes "n < 4096" "c \<in> set (call n)"
  shows "\<exists>k<16. c = of_nat (65 + k)"
  using assms unfolding call_def by (auto intro: exI [of _ "n div 256"] exI [of _ "n div 16 mod 16"] exI [of _ "n mod 16"])

lemma letter_plain:
  "k < 16 \<Longrightarrow> let c = (of_nat (65 + k) :: u8) in \<not> isspace c \<and> toupper c = c \<and> c \<noteq> of_char CHR ''-'' \<and> c \<noteq> of_char CHR ''/'' \<and> c \<noteq> 0"
proof -
  have "\<forall>k\<in>set [0..<16]. let c = (of_nat (65 + k) :: u8) in \<not> isspace c \<and> toupper c = c \<and> c \<noteq> of_char CHR ''-'' \<and> c \<noteq> of_char CHR ''/'' \<and> c \<noteq> 0"
    by code_simp
  moreover assume "k < 16"
  then have "k \<in> set [0..<16]" by simp
  ultimately show "let c = (of_nat (65 + k) :: u8) in \<not> isspace c \<and> toupper c = c \<and> c \<noteq> of_char CHR ''-'' \<and> c \<noteq> of_char CHR ''/'' \<and> c \<noteq> 0"
    by (rule bspec)
qed

lemma call_plain:
  assumes "n < 4096" "c \<in> set (call n)"
  shows "\<not> isspace c \<and> toupper c = c \<and> c \<noteq> of_char CHR ''-'' \<and> c \<noteq> of_char CHR ''/'' \<and> c \<noteq> 0"
  using call_letters [OF assms] letter_plain by (auto simp: Let_def)

lemma call_key:
  assumes "n < 4096"
  shows "normalize_callsign_key (call n) 16 = call n" "callsign_fits (call n)"
proof -
  have "dropWhile isspace (call n) = call n" "dropWhile isspace (rev (call n)) = rev (call n)"
    using call_plain [OF assms] by (simp_all add: call_def)
  moreover have "takeWhile (\<lambda>c. c \<noteq> 0 \<and> c \<noteq> of_char CHR ''-'' \<and> c \<noteq> of_char CHR ''/'') (call n) = call n"
    using call_plain [OF assms] by (intro takeWhile_eq_all_conv [THEN iffD2]) blast
  moreover have "List.map toupper (call n) = call n" using call_plain [OF assms] by (intro map_idI) blast
  ultimately show k: "normalize_callsign_key (call n) 16 = call n"
    by (simp add: normalize_callsign_key_def Let_def) (simp add: call_def)
  show "callsign_fits (call n)" using k call_plain [OF assms] by (auto simp: callsign_fits_def call_def)
qed

lemma call_inj:
  assumes "m < 4096" "n < 4096" "call m = call n"
  shows "m = n"
proof -
  have w: "a = b" if "(of_nat a :: u8) = of_nat b" "a < 16" "b < 16" for a b
  proof -
    have u: "unat (of_nat k :: u8) = k" if "k < 16" for k by (rule of_nat_inverse [OF refl]) (use that in simp)
    then show ?thesis using arg_cong [OF that(1), of unat] that(2,3) by (simp only: u)
  qed
  have "(of_nat (m div 256) :: u8) = of_nat (n div 256)" "(of_nat (m div 16 mod 16) :: u8) = of_nat (n div 16 mod 16)"
    "(of_nat (m mod 16) :: u8) = of_nat (n mod 16)"
    using assms(3) unfolding call_def list.inject of_nat_add by simp_all
  then have "m div 256 = n div 256" "m div 16 mod 16 = n div 16 mod 16" "m mod 16 = n mod 16"
    using w assms(1,2) by auto
  moreover have "k div 256 = k div 16 div 16" for k :: nat by (simp only: div_mult2_eq [symmetric]) simp
  ultimately have d: "m div 16 div 16 = n div 16 div 16" "m div 16 mod 16 = n div 16 mod 16" "m mod 16 = n mod 16" by metis+
  have "m div 16 = n div 16" by (metis div_mult_mod_eq d(1,2))
  then show ?thesis by (metis div_mult_mod_eq d(3))
qed

text \<open>The state after n rows: one id and n callsigns, in the first table.\<close>

definition loaded :: "aliases \<Rightarrow> nat \<Rightarrow> bool" where
  "loaded a n \<longleftrightarrow> tables_ok a \<and> cap a = 1024 \<and> count a = 1 \<and> ids_of a 1 \<noteq> None \<and> cs_used a = n \<and>
     dom (css_of a) = call ` {..<n}"

lemma one_id_row:
  assumes e: "alias_ensure_cap alloc a = Some (True, a1)" "tables_ok a1" "cap a1 = 1024"
    and c: "count a1 + of_bool (ids_of a1 1 = None) = 1" and u: "cs_used a1 = n" "dom (css_of a1) = call ` {..<n}" "n \<le> 1024"
  shows "if n = 1024 then put_alias alloc pref 1 (call n) a = None
    else \<exists>a'. put_alias alloc pref 1 (call n) a = Some a' \<and> loaded a' (Suc n)"
proof -
  have n: "n < 4096" using u(3) by simp
  note key = call_key [OF n]
  have k: "call n \<noteq> []" "length (call n) \<le> 10" "0 \<notin> set (call n)"
    using call_plain [OF n, of 0] by (simp_all add: call_def del: of_nat_add) blast
  have "call n \<notin> call ` {..<n}" 
  proof
    assume "call n \<in> call ` {..<n}"
    then obtain m where "m < n" "call n = call m" by auto
    then show False using call_inj [of n m] n by simp
  qed
  then have new: "css_of a1 (call n) = None" unfolding u(2) [symmetric] by blast
  have l: "10 * (count a1 + 1) < 7 * cap a1" using c e(3) by (simp split: if_splits)
  have one: "(0 :: int) < 1" "(1 :: int) < 2 ^ 31" by simp_all
  obtain r a2 where a2: "alias_put_id alloc 1 (call n) a = Some (r, a2)" "tables_ok a2" "ids_of a2 = (ids_of a1)(1 \<mapsto> take 10 (call n))"
    "cs_tab a2 = cs_tab a1" "cap a2 = cap a1" "count a2 = count a1 + of_bool (ids_of a1 1 = None)"
    by (rule put_id_in_place [OF e(1,2) l one k(3)])
  have s: "css_of a2 = css_of a1" "cs_used a2 = cs_used a1" using a2(4) by (simp_all add: css_of_def cs_used_def fun_eq_iff)
  have put: "put_alias alloc pref 1 (call n) a = alias_put_cs 1 (call n) pref a2"
    using key(1) k(1) a2(1) by (simp add: put_alias_def Let_def)
  show ?thesis
  proof (cases "n = 1024")
    case True
    then show ?thesis unfolding put
      using full_table_hangs [OF a2(2), of "call n" 1 pref] a2(5) e(3) s u(1) new by simp
  next
    case False
    then have "cs_used a2 < cap a2" using s u e(3) a2(5) by simp
    from put_cs_refines [OF a2(2) this k, of 1 pref] obtain a' where a': "alias_put_cs 1 (call n) pref a2 = Some a'" "tables_ok a'"
      "ids_of a' = ids_of a2" "count a' = count a2" "css_of a' = (css_of a2)(call n \<mapsto> 1)" "cs_used a' = cs_used a2 + 1" "cap a' = cap a2"
      using new s by auto
    have "loaded a' (Suc n)"
      unfolding loaded_def using a' a2 s u e(3) c by (auto simp: lessThan_Suc)
    then show ?thesis using False a'(1) put by auto
  qed
qed

lemma load_calls: "Suc n \<le> 1024 \<Longrightarrow> \<exists>a. parse_rows (\<lambda>_. True) False (List.map call_row [0..<Suc n]) (0, aliases_new) = Some (int (Suc n), a) \<and> loaded a (Suc n)"
proof (induction n)
  case 0
  obtain a1 where a1: "alias_rehash (\<lambda>_. True) 1024 aliases_new = Some (True, a1)" "tables_ok a1" "cap a1 = 1024"
    "ids_of a1 = ids_of aliases_new" "css_of a1 = css_of aliases_new" "count a1 = count aliases_new" "cs_used a1 = cs_used aliases_new"
    by (rule rehash_keeps [OF aliases_new_ok(1), of 1024 10 "\<lambda>_. True"]) (simp_all add: aliases_new_def cs_used_def occupied_def)
  have n: "ids_of aliases_new = (\<lambda>_. None)" "css_of aliases_new = (\<lambda>_. None)" "count aliases_new = 0" "cs_used aliases_new = 0" "cap aliases_new = 0"
    using aliases_new_ok(3) by (simp_all add: alias_maps_def aliases_new_def cs_used_def occupied_def)
  have e: "alias_ensure_cap (\<lambda>_. True) aliases_new = Some (True, a1)"
    using a1(1) n(5) by (simp add: alias_ensure_cap_def ALIAS_MIN_CAP_def)
  obtain a' where "put_alias (\<lambda>_. True) False 1 (call 0) aliases_new = Some a'" "loaded a' 1"
    using one_id_row [OF e a1(2,3), of 0 False] a1 n by auto
  then show ?case by (auto simp: parse_row_used used_row_def call_row_def row_id_def)
next
  case (Suc n)
  then obtain a where a: "parse_rows (\<lambda>_. True) False (List.map call_row [0..<Suc n]) (0, aliases_new) = Some (int (Suc n), a)" "loaded a (Suc n)"
    by auto
  have e: "alias_ensure_cap (\<lambda>_. True) a = Some (True, a)"
    using a(2) by (simp add: loaded_def alias_ensure_cap_def ALIAS_LOAD_DEN_def ALIAS_LOAD_NUM_def)
  obtain a' where "put_alias (\<lambda>_. True) False 1 (call (Suc n)) a = Some a'" "loaded a' (Suc (Suc n))"
    using one_id_row [OF e, of "Suc n" False] a(2) Suc.prems by (auto simp: loaded_def)
  then have "parse_rows (\<lambda>_. True) False [call_row (Suc n)] (int (Suc n), a) = Some (int (Suc (Suc n)), a')"
    by (simp add: parse_row_used used_row_def call_row_def row_id_def)
  moreover have "List.map call_row [0..<Suc (Suc n)] = List.map call_row [0..<Suc n] @ [call_row (Suc n)]" by simp
  ultimately show ?case using \<open>loaded a' _\<close> by (simp only: parse_rows_append a(1) bind.bind_lunit) blast
qed

lemma load_calls_upto:
  assumes "0 < n" "n \<le> 1024"
  shows "\<exists>a. parse_rows (\<lambda>_. True) False (List.map call_row [0..<n]) (0, aliases_new) = Some (int n, a) \<and> loaded a n"
  using load_calls [of "n - 1"] assms by (simp only: Suc_diff_1)

lemma load_calls_full:
  assumes "n = 1024"
  shows "parse_rows (\<lambda>_. True) False (List.map call_row [0..<Suc n]) (0, aliases_new) = None"
proof -
  have n: "0 < n" "n \<le> 1024" using assms by simp_all
  obtain a where a: "parse_rows (\<lambda>_. True) False (List.map call_row [0..<n]) (0, aliases_new) = Some (int n, a)" "loaded a n"
    using load_calls_upto [OF n] by blast
  have e: "alias_ensure_cap (\<lambda>_. True) a = Some (True, a)"
    using a(2) by (simp add: loaded_def alias_ensure_cap_def ALIAS_LOAD_DEN_def ALIAS_LOAD_NUM_def)
  have "put_alias (\<lambda>_. True) False 1 (call n) a = None"
    using one_id_row [OF e, of n False] a(2) n(2) assms by (auto simp: loaded_def)
  then have "parse_rows (\<lambda>_. True) False [call_row n] (int n, a) = None"
    by (simp add: parse_row_used used_row_def call_row_def row_id_def)
  moreover have "List.map call_row [0..<Suc n] = List.map call_row [0..<n] @ [call_row n]" by simp
  ultimately show ?thesis by (simp only: parse_rows_append a(1) bind.bind_lunit)
qed

text \<open>
  C40: a subscriber file of 1025 rows with one id and 1025 callsigns is never loaded: growth counts ids,
  so the table of callsigns fills up and the search for a vacant slot does not end.
\<close>

theorem one_id_many_callsigns_hangs:
  "parse_subscriber_json (\<lambda>_. True) False (Some (List.map call_row [0..<1025])) aliases_new = None"
proof -
  have s: "(1025 :: nat) = Suc 1024" by simp
  show ?thesis unfolding s parse_subscriber_json_def option.case load_calls_full [OF refl] by (rule option.map(1))
qed

end
