(* ===== verification/El_Proxy.thy ===== *)
theory El_Proxy
  imports C_Strings
begin

text \<open>
  The client of an EchoLink proxy, \<open>src/el_proxy.c\<close>: one TCP connection that carries the UDP traffic of
  EchoLink and one directory connection in typed message blocks. One record holds \<open>el_proxy_t\<close>; a
  \<open>char\<close> array of it is the string it holds. The public operations hold the lock of the structure, so
  they are functions of the state; where an operation releases the lock to wait, what other threads do
  meanwhile is an argument. What the socket gives and takes is a list of events; the bytes written are a
  result. MD5 is a parameter, as are the result of the name resolution and of the system calls.
\<close>

section \<open>State\<close>

abbreviation (input) MSG_TCP_OPEN :: u8 where "MSG_TCP_OPEN \<equiv> 1"
abbreviation (input) MSG_TCP_DATA :: u8 where "MSG_TCP_DATA \<equiv> 2"
abbreviation (input) MSG_TCP_CLOSE :: u8 where "MSG_TCP_CLOSE \<equiv> 3"
abbreviation (input) MSG_TCP_STATUS :: u8 where "MSG_TCP_STATUS \<equiv> 4"
abbreviation (input) MSG_UDP_DATA :: u8 where "MSG_UDP_DATA \<equiv> 5"
abbreviation (input) MSG_UDP_CONTROL :: u8 where "MSG_UDP_CONTROL \<equiv> 6"
abbreviation (input) MSG_SYSTEM :: u8 where "MSG_SYSTEM \<equiv> 7"

datatype tcp_channel = TCP_DISC | TCP_CONNECTING | TCP_CONNECTED | TCP_DISCONNECTING

definition NONCE_SIZE :: nat where "NONCE_SIZE = 8"
definition RECONNECT_SEC :: int where "RECONNECT_SEC = 10"
definition EL_PROXY_DIR_RX_CAP :: nat where "EL_PROXY_DIR_RX_CAP = 1024 * 1024 + 16"
definition EL_PROXY_DEFAULT_PORT :: int where "EL_PROXY_DEFAULT_PORT = 8100"
definition RX_ACC_CAP :: nat where "RX_ACC_CAP = 65536"

abbreviation (input) MSG_HDR :: nat where "MSG_HDR \<equiv> 9"

record el_proxy =
  px_fd :: int
  px_ready :: bool
  px_host :: bytes
  px_port :: int
  px_callsign :: bytes
  px_password :: bytes
  rx_acc :: bytes
  rx_acc_len :: nat
  px_tcp :: tcp_channel
  dir_rx :: "bytes option"
  dir_rx_cap :: nat
  dir_rx_len :: nat
  dir_rx_r :: nat
  tcp_status :: u32
  tcp_status_pending :: bool
  next_reconnect :: int
  reconnect_pending :: bool

text \<open>A UDP packet that the proxy passes on: sender, control or data, contents.\<close>

type_synonym udp = "u32 \<times> bool \<times> bytes"

text \<open>
  What \<open>read\<close> finds: bytes that have arrived, an interruption, an error, the end of the connection. When
  the list ends nothing more is there.
\<close>

datatype read_event = Arrived bytes | Read_intr | Read_error | Read_end

text \<open>
  What \<open>write\<close> does: take so many bytes, be interrupted, find the buffer of the socket full (and \<open>poll\<close>
  says whether it drains in time), fail. When the list ends the socket takes everything.
\<close>

datatype write_event = Wrote nat | Write_intr | Write_full bool | Write_error

definition get_le32 :: "bytes \<Rightarrow> nat \<Rightarrow> u32" where
  "get_le32 b i = ucast (b ! i) OR push_bit 8 (ucast (b ! (i + 1))) OR push_bit 16 (ucast (b ! (i + 2)))
     OR push_bit 24 (ucast (b ! (i + 3)))"

definition put_le32 :: "u32 \<Rightarrow> bytes" where
  "put_le32 x = [ucast (x AND 0xFF), ucast (drop_bit 8 x AND 0xFF), ucast (drop_bit 16 x AND 0xFF),
     ucast (drop_bit 24 x AND 0xFF)]"

definition upper_password :: "nat \<Rightarrow> bytes \<Rightarrow> bytes" where
  "upper_password dstlen src = take (dstlen - 1) (List.map toupper (if src = [] then ascii ''PUBLIC'' else src))"

definition el_proxy_init :: el_proxy where
  "el_proxy_init =
     \<lparr>px_fd = - 1, px_ready = False, px_host = [], px_port = 0, px_callsign = [], px_password = [],
      rx_acc = replicate RX_ACC_CAP 0, rx_acc_len = 0, px_tcp = TCP_DISC, dir_rx = None, dir_rx_cap = 0,
      dir_rx_len = 0, dir_rx_r = 0, tcp_status = 0, tcp_status_pending = False, next_reconnect = 0,
      reconnect_pending = False\<rparr>"

text \<open>\<open>fresh\<close> is what \<open>malloc\<close> returns.\<close>

definition ensure_dir_rx :: "bytes option \<Rightarrow> el_proxy \<Rightarrow> bool \<times> el_proxy" where
  "ensure_dir_rx fresh px =
     (if dir_rx px \<noteq> None \<and> EL_PROXY_DIR_RX_CAP \<le> dir_rx_cap px then (True, px)
      else case fresh of
        None \<Rightarrow> (False, px\<lparr>dir_rx := None, dir_rx_cap := 0\<rparr>)
      | Some d \<Rightarrow> (True, px\<lparr>dir_rx := Some d, dir_rx_cap := EL_PROXY_DIR_RX_CAP, dir_rx_len := 0, dir_rx_r := 0\<rparr>))"

section \<open>Sending\<close>

text \<open>Whether all was written, the bytes written, the events left.\<close>

fun send_raw :: "write_event list \<Rightarrow> bytes \<Rightarrow> bool \<times> bytes \<times> write_event list" where
  "send_raw ws [] = (True, [], ws)"
| "send_raw [] data = (True, data, [])"
| "send_raw (Wrote n # ws) data =
     (if n = 0 then (False, [], ws)
      else let (ok, out, ws) = send_raw ws (drop n data) in (ok, take n data @ out, ws))"
| "send_raw (Write_intr # ws) data = send_raw ws data"
| "send_raw (Write_full drains # ws) data = (if drains then send_raw ws data else (False, [], ws))"
| "send_raw (Write_error # ws) data = (False, [], ws)"

definition msg_header :: "u8 \<Rightarrow> u32 \<Rightarrow> nat \<Rightarrow> bytes" where
  "msg_header typ remote len = [typ] @ put_le32 remote @ put_le32 (of_nat len)"

definition send_msg :: "write_event list \<Rightarrow> u8 \<Rightarrow> u32 \<Rightarrow> bytes \<Rightarrow> el_proxy \<Rightarrow> bool \<times> bytes \<times> write_event list" where
  "send_msg ws typ remote data px =
     (if px_fd px < 0 \<or> \<not> px_ready px then (False, [], ws)
      else let (ok, out, ws) = send_raw ws (msg_header typ remote (length data))
           in if \<not> ok then (False, out, ws)
              else if data \<noteq> []
              then let (ok, more, ws) = send_raw ws data in (ok, out @ more, ws)
              else (True, out, ws))"

definition mark_disconnected :: "int \<Rightarrow> el_proxy \<Rightarrow> el_proxy" where
  "mark_disconnected now px =
     px\<lparr>px_fd := - 1, px_ready := False, rx_acc_len := 0, px_tcp := TCP_DISC, dir_rx_len := 0, dir_rx_r := 0,
        tcp_status_pending := False, reconnect_pending := True, next_reconnect := now + RECONNECT_SEC\<rparr>"

section \<open>Receiving\<close>

definition dir_rx_append :: "int \<Rightarrow> bytes \<Rightarrow> el_proxy \<Rightarrow> el_proxy" where
  "dir_rx_append now data px =
     (if data = [] then px
      else if dir_rx_cap px = 0 then mark_disconnected now px
      else case dir_rx px of
        None \<Rightarrow> mark_disconnected now px
      | Some d \<Rightarrow>
          let used = dir_rx_len px - dir_rx_r px;
              (d, len, r) =
                (if 0 < dir_rx_r px \<and> 0 < used then (memcpy d 0 (sub_buf d (dir_rx_r px) used), used, 0)
                 else if 0 < dir_rx_r px then (d, 0, 0)
                 else (d, dir_rx_len px, dir_rx_r px));
              px = px\<lparr>dir_rx := Some d, dir_rx_len := len, dir_rx_r := r\<rparr>
          in if dir_rx_cap px - len < length data then mark_disconnected now px
             else px\<lparr>dir_rx := Some (memcpy d len data), dir_rx_len := len + length data\<rparr>)"

definition on_tcp_status :: "bytes \<Rightarrow> el_proxy \<Rightarrow> el_proxy" where
  "on_tcp_status data px =
     (if length data \<noteq> 4 then px
      else let px = px\<lparr>tcp_status := get_le32 data 0, tcp_status_pending := True\<rparr>
           in if px_tcp px \<noteq> TCP_CONNECTING then px
              else if tcp_status px = 0 then px\<lparr>px_tcp := TCP_CONNECTED, dir_rx_len := 0, dir_rx_r := 0\<rparr>
              else px\<lparr>px_tcp := TCP_DISC\<rparr>)"

text \<open>\<open>cb\<close> says whether there is a callback for UDP packets; the packets handed to it are returned.\<close>

definition handle_msg :: "int \<Rightarrow> bool \<Rightarrow> u8 \<Rightarrow> u32 \<Rightarrow> bytes \<Rightarrow> el_proxy \<Rightarrow> el_proxy \<times> udp list" where
  "handle_msg now cb typ remote data px =
     (if typ = MSG_TCP_DATA then (dir_rx_append now data px, [])
      else if typ = MSG_TCP_CLOSE then (px\<lparr>px_tcp := TCP_DISC, tcp_status_pending := False\<rparr>, [])
      else if typ = MSG_TCP_STATUS then (on_tcp_status data px, [])
      else if typ = MSG_UDP_DATA then (px, if cb \<and> data \<noteq> [] then [(remote, False, data)] else [])
      else if typ = MSG_UDP_CONTROL then (px, if cb \<and> data \<noteq> [] then [(remote, True, data)] else [])
      else if typ = MSG_SYSTEM then (if length data = 1 then mark_disconnected now px else px, [])
      else if typ = MSG_TCP_OPEN then (px, [])
      else (mark_disconnected now px, []))"

lemma append_acc_len:
  "px_ready (dir_rx_append now data px) \<Longrightarrow> rx_acc_len (dir_rx_append now data px) = rx_acc_len px"
  by (auto simp: dir_rx_append_def mark_disconnected_def Let_def split: option.splits prod.splits if_split_asm)

lemma handle_msg_acc_len:
  "px_ready (fst (handle_msg now cb typ remote data px)) \<Longrightarrow>
   rx_acc_len (fst (handle_msg now cb typ remote data px)) = rx_acc_len px"
  unfolding handle_msg_def
  by (simp add: append_acc_len mark_disconnected_def on_tcp_status_def Let_def split del: if_split split: if_split_asm)

function parse_acc :: "int \<Rightarrow> bool \<Rightarrow> el_proxy \<Rightarrow> el_proxy \<times> udp list" where
  "parse_acc now cb px =
     (if rx_acc_len px < MSG_HDR then (px, [])
      else let msg_len = unat (get_le32 (rx_acc px) 5)
           in if RX_ACC_CAP - MSG_HDR < msg_len then (mark_disconnected now px, [])
              else let total = MSG_HDR + msg_len
                   in if rx_acc_len px < total then (px, [])
                      else let (px, us) = handle_msg now cb (rx_acc px ! 0) (get_le32 (rx_acc px) 1)
                                 (sub_buf (rx_acc px) MSG_HDR msg_len) px
                           in if \<not> px_ready px then (px, us)
                              else let px = px\<lparr>rx_acc_len := rx_acc_len px - total\<rparr>;
                                       px = (if 0 < rx_acc_len px
                                             then px\<lparr>rx_acc := memcpy (rx_acc px) 0 (sub_buf (rx_acc px) total (rx_acc_len px))\<rparr>
                                             else px);
                                       (px, more) = parse_acc now cb px
                                   in (px, us @ more))"
  by pat_completeness auto

termination
  by (relation "measure (\<lambda>(now, cb, px). rx_acc_len px)") (auto dest!: arg_cong [where f = fst] simp: handle_msg_acc_len)

declare parse_acc.simps [simp del]

text \<open>\<open>Arrived\<close> bytes are read in as many pieces as the space that is left allows.\<close>

function drain_loop :: "int \<Rightarrow> bool \<Rightarrow> read_event list \<Rightarrow> el_proxy \<Rightarrow> el_proxy \<times> udp list" where
  "drain_loop now cb [] px = (if RX_ACC_CAP \<le> rx_acc_len px then (mark_disconnected now px, []) else (px, []))"
| "drain_loop now cb (ev # evs) px =
     (let space = RX_ACC_CAP - rx_acc_len px
      in if space = 0 then (mark_disconnected now px, [])
         else case ev of
           Read_intr \<Rightarrow> drain_loop now cb evs px
         | Read_error \<Rightarrow> (mark_disconnected now px, [])
         | Read_end \<Rightarrow> (mark_disconnected now px, [])
         | Arrived data \<Rightarrow>
             if data = [] then drain_loop now cb evs px
             else let got = take space data;
                      px = px\<lparr>rx_acc := memcpy (rx_acc px) (rx_acc_len px) got, rx_acc_len := rx_acc_len px + length got\<rparr>;
                      (px, us) = parse_acc now cb px
                  in if \<not> px_ready px then (px, us)
                     else let (px, more) = drain_loop now cb (Arrived (drop space data) # evs) px in (px, us @ more))"
  by pat_completeness auto

termination
  by (relation "measure (\<lambda>(now, cb, evs, px). length evs + sum_list (List.map (\<lambda>ev. case ev of Arrived d \<Rightarrow> length d | _ \<Rightarrow> 0) evs))")
    (auto simp: neq_Nil_conv split: read_event.splits)

declare drain_loop.simps [simp del]

definition drain :: "int \<Rightarrow> bool \<Rightarrow> read_event list \<Rightarrow> el_proxy \<Rightarrow> el_proxy \<times> udp list" where
  "drain now cb evs px = (if px_fd px < 0 \<or> \<not> px_ready px then (px, []) else drain_loop now cb evs px)"

section \<open>The connection\<close>

record connect_env =
  ce_malloc :: "bytes option"
  ce_addr :: "u32 option"
  ce_sock :: int
  ce_connects :: bool
  ce_nonce :: "bytes option"
  ce_writes :: "write_event list"
  ce_nonblock :: bool
  ce_md5 :: "bytes \<Rightarrow> bytes option"

definition AUTH_SIZE :: nat where "AUTH_SIZE = 32 + 1 + 16"

text \<open>The bytes written come back with the result; the socket is closed on every failure after its creation.\<close>

definition do_connect_auth :: "connect_env \<Rightarrow> el_proxy \<Rightarrow> bool \<times> el_proxy \<times> bytes" where
  "do_connect_auth e px =
     (let px = px\<lparr>px_fd := - 1, px_ready := False\<rparr>;
          (room, px) = ensure_dir_rx (ce_malloc e) px
      in if \<not> room \<or> ce_addr e = None \<or> ce_sock e < 0 \<or> \<not> ce_connects e then (False, px, [])
         else case ce_nonce e of
           None \<Rightarrow> (False, px, [])
         | Some nonce \<Rightarrow>
             if length nonce \<noteq> NONCE_SIZE then (False, px, [])
             else if AUTH_SIZE < length (px_callsign px) + 1 + 16 then (False, px, [])
             else case ce_md5 e (px_password px @ nonce) of
               None \<Rightarrow> (False, px, [])
             | Some digest \<Rightarrow>
                 let (ok, out, ws) = send_raw (ce_writes e) (px_callsign px @ [0x0A] @ digest)
                 in if \<not> ok \<or> \<not> ce_nonblock e then (False, px, out)
                    else (True, px\<lparr>px_fd := ce_sock e, px_ready := True, reconnect_pending := False, rx_acc_len := 0,
                        px_tcp := TCP_DISC, dir_rx_len := 0, dir_rx_r := 0\<rparr>, out))"

definition el_proxy_open :: "connect_env \<Rightarrow> int \<Rightarrow> bytes \<Rightarrow> int \<Rightarrow> bytes \<Rightarrow> bytes \<Rightarrow> el_proxy \<Rightarrow> int \<times> el_proxy \<times> bytes" where
  "el_proxy_open e now host port callsign password px =
     (if host = [] \<or> callsign = [] then (- 1, px, [])
      else let px = px\<lparr>px_fd := - 1, px_ready := False\<rparr>;
               (room, px) = ensure_dir_rx (ce_malloc e) px
           in if \<not> room then (- 1, px, [])
              else let px = px\<lparr>px_host := take 127 host, px_port := (if 0 < port then port else EL_PROXY_DEFAULT_PORT),
                         px_callsign := take 15 callsign, px_password := upper_password 64 password\<rparr>;
                       (ok, px, out) = do_connect_auth e px
                   in if ok then (0, px, out)
                      else (- 1, px\<lparr>reconnect_pending := True, next_reconnect := now + RECONNECT_SEC\<rparr>, out))"

definition el_proxy_close :: "el_proxy \<Rightarrow> el_proxy" where
  "el_proxy_close px =
     px\<lparr>px_fd := - 1, px_ready := False, reconnect_pending := False, rx_acc_len := 0, px_tcp := TCP_DISC,
        dir_rx_len := 0, dir_rx_r := 0\<rparr>"

text \<open>After the close and \<open>free\<close> the whole structure is overwritten.\<close>

definition el_proxy_clear :: "el_proxy \<Rightarrow> el_proxy" where
  "el_proxy_clear px = el_proxy_init"

definition el_proxy_ready :: "el_proxy \<Rightarrow> bool" where
  "el_proxy_ready px \<longleftrightarrow> px_ready px \<and> 0 \<le> px_fd px"

definition el_proxy_ensure :: "connect_env \<Rightarrow> int \<Rightarrow> el_proxy \<Rightarrow> int \<times> el_proxy \<times> bytes" where
  "el_proxy_ensure e now px =
     (if px_ready px \<and> 0 \<le> px_fd px then (0, px, [])
      else if reconnect_pending px \<and> now < next_reconnect px then (- 1, px, [])
      else let (ok, px, out) = do_connect_auth e px
           in if ok then (0, px, out)
              else (- 1, px\<lparr>reconnect_pending := True, next_reconnect := now + RECONNECT_SEC\<rparr>, out))"

definition el_proxy_poll :: "int \<Rightarrow> bool \<Rightarrow> read_event list \<Rightarrow> el_proxy \<Rightarrow> nat \<times> el_proxy \<times> udp list" where
  "el_proxy_poll now cb evs px = (let (px, us) = drain now cb evs px in (length us, px, us))"

definition send_or_drop :: "write_event list \<Rightarrow> int \<Rightarrow> u8 \<Rightarrow> u32 \<Rightarrow> bytes \<Rightarrow> el_proxy \<Rightarrow> int \<times> el_proxy \<times> bytes" where
  "send_or_drop ws now typ to data px =
     (let (ok, out, ws) = send_msg ws typ to data px
      in if ok then (0, px, out) else (- 1, mark_disconnected now px, out))"

definition el_proxy_udp_data :: "write_event list \<Rightarrow> int \<Rightarrow> u32 \<Rightarrow> bytes \<Rightarrow> el_proxy \<Rightarrow> int \<times> el_proxy \<times> bytes" where
  "el_proxy_udp_data ws now to data px = (if data = [] then (- 1, px, []) else send_or_drop ws now MSG_UDP_DATA to data px)"

definition el_proxy_udp_ctrl :: "write_event list \<Rightarrow> int \<Rightarrow> u32 \<Rightarrow> bytes \<Rightarrow> el_proxy \<Rightarrow> int \<times> el_proxy \<times> bytes" where
  "el_proxy_udp_ctrl ws now to data px = (if data = [] then (- 1, px, []) else send_or_drop ws now MSG_UDP_CONTROL to data px)"

section \<open>The directory connection\<close>

text \<open>
  One turn of a waiting loop: what the socket holds, the time, and what other threads do to the structure
  while the loop waits. None is a loop that still waits after the given turns.
\<close>

record turn =
  t_reads :: "read_event list"
  t_now :: int
  t_others :: "el_proxy \<Rightarrow> el_proxy"

definition deadline_after :: "int \<Rightarrow> int \<Rightarrow> int" where
  "deadline_after now timeout_ms = now + (if 0 < timeout_ms then (timeout_ms + 999) div 1000 else 20)"

fun open_wait :: "int \<Rightarrow> turn list \<Rightarrow> el_proxy \<Rightarrow> (int \<times> el_proxy) option" where
  "open_wait deadline ts px =
     (if \<not> (px_ready px \<and> px_tcp px = TCP_CONNECTING) then Some (if px_tcp px = TCP_CONNECTED then 0 else - 1, px)
      else case ts of
        [] \<Rightarrow> None
      | t # ts \<Rightarrow>
          let px = fst (drain (t_now t) False (t_reads t) px)
          in if px_tcp px = TCP_CONNECTED then Some (0, px)
             else if px_tcp px = TCP_DISC then Some (- 1, px)
             else if deadline \<le> t_now t then Some (- 1, px\<lparr>px_tcp := TCP_DISC\<rparr>)
             else open_wait deadline ts (t_others t px))"

declare open_wait.simps [simp del]

definition el_proxy_tcp_open :: "write_event list \<Rightarrow> int \<Rightarrow> u32 \<Rightarrow> int \<Rightarrow> turn list \<Rightarrow> el_proxy \<Rightarrow> (int \<times> el_proxy \<times> bytes) option" where
  "el_proxy_tcp_open ws now remote timeout_ms ts px =
     (if \<not> px_ready px then Some (- 1, px, [])
      else let (px, out, ws) =
             (if px_tcp px = TCP_CONNECTED \<or> px_tcp px = TCP_CONNECTING
              then let (ok, out, ws) = send_msg ws MSG_TCP_CLOSE 0 [] px in (px\<lparr>px_tcp := TCP_DISC\<rparr>, out, ws)
              else (px, [], ws));
             px = px\<lparr>dir_rx_len := 0, dir_rx_r := 0, tcp_status_pending := False, px_tcp := TCP_CONNECTING\<rparr>;
             (ok, more, ws) = send_msg ws MSG_TCP_OPEN remote [] px
         in if \<not> ok then Some (- 1, mark_disconnected now px, out @ more)
            else map_option (\<lambda>(rc, px). (rc, px, out @ more)) (open_wait (deadline_after now timeout_ms) ts px))"

definition el_proxy_tcp_write :: "write_event list \<Rightarrow> int \<Rightarrow> bytes \<Rightarrow> el_proxy \<Rightarrow> int \<times> el_proxy \<times> bytes" where
  "el_proxy_tcp_write ws now data px =
     (if data = [] then (- 1, px, [])
      else if \<not> px_ready px \<or> px_tcp px \<noteq> TCP_CONNECTED then (- 1, px, [])
      else send_or_drop ws now MSG_TCP_DATA 0 data px)"

text \<open>What the directory buffer holds goes to the caller, at most \<open>buflen\<close> bytes of it.\<close>

definition take_dir :: "nat \<Rightarrow> el_proxy \<Rightarrow> bytes \<times> el_proxy" where
  "take_dir buflen px =
     (let avail = dir_rx_len px - dir_rx_r px;
          n = (if avail < buflen then avail else buflen);
          got = sub_buf (case dir_rx px of Some d \<Rightarrow> d | None \<Rightarrow> []) (dir_rx_r px) n;
          px = px\<lparr>dir_rx_r := dir_rx_r px + n\<rparr>
      in (got, if dir_rx_len px \<le> dir_rx_r px then px\<lparr>dir_rx_r := 0, dir_rx_len := 0\<rparr> else px))"

fun read_wait :: "nat \<Rightarrow> int \<Rightarrow> turn list \<Rightarrow> el_proxy \<Rightarrow> (bytes \<times> el_proxy) option" where
  "read_wait buflen deadline [] px = None"
| "read_wait buflen deadline (t # ts) px =
     (let px = (if 0 \<le> px_fd px \<and> px_ready px then fst (drain (t_now t) False (t_reads t) px) else px)
      in if dir_rx_r px < dir_rx_len px then Some (take_dir buflen px)
         else if \<not> px_ready px \<or> px_tcp px \<noteq> TCP_CONNECTED then Some ([], px)
         else if deadline \<le> t_now t then Some ([], px)
         else read_wait buflen deadline ts (t_others t px))"

definition el_proxy_tcp_read :: "int \<Rightarrow> nat \<Rightarrow> int \<Rightarrow> turn list \<Rightarrow> el_proxy \<Rightarrow> (int \<times> bytes \<times> el_proxy) option" where
  "el_proxy_tcp_read now buflen timeout_ms ts px =
     (if buflen = 0 then Some (- 1, [], px)
      else map_option (\<lambda>(got, px). (int (length got), got, px)) (read_wait buflen (deadline_after now timeout_ms) ts px))"

definition el_proxy_tcp_close :: "write_event list \<Rightarrow> int \<Rightarrow> el_proxy \<Rightarrow> int \<times> el_proxy \<times> bytes" where
  "el_proxy_tcp_close ws now px =
     (let (rc, px, out) =
        (if px_ready px \<and> px_tcp px \<noteq> TCP_DISC
         then let px = px\<lparr>px_tcp := TCP_DISCONNECTING\<rparr>;
                  (ok, out, ws) = send_msg ws MSG_TCP_CLOSE 0 [] px
              in if ok then (0, px, out) else (- 1, mark_disconnected now px, out)
         else (0, px, []))
      in (rc, px\<lparr>px_tcp := TCP_DISC, dir_rx_len := 0, dir_rx_r := 0\<rparr>, out))"

end
