(* ===== verification/El_Proxy_Props.thy ===== *)
theory El_Proxy_Props
  imports El_Proxy "HOL-Library.Sublist"
begin

text \<open>
  What the proxy client makes of a TCP connection: a sequence of messages, whatever the pieces in which
  the bytes arrive and are taken, and inside it one directory connection whose bytes come out in order.
\<close>

section \<open>The stream as messages\<close>

type_synonym msg = "u8 \<times> u32 \<times> bytes"

definition encode_msg :: "msg \<Rightarrow> bytes" where
  "encode_msg m = (case m of (ty, remote, data) \<Rightarrow> msg_header ty remote (length data) @ data)"

definition msg_ok :: "msg \<Rightarrow> bool" where
  "msg_ok m \<longleftrightarrow> length (snd (snd m)) \<le> RX_ACC_CAP - MSG_HDR"

text \<open>The length of the first message of a stream, as its header says, and whether the header is refused.\<close>

definition frame_len :: "bytes \<Rightarrow> nat" where
  "frame_len xs = MSG_HDR + unat (get_le32 xs 5)"

definition oversize :: "bytes \<Rightarrow> bool" where
  "oversize xs \<longleftrightarrow> MSG_HDR \<le> length xs \<and> RX_ACC_CAP < frame_len xs"

definition partial :: "bytes \<Rightarrow> bool" where
  "partial xs \<longleftrightarrow> length xs < MSG_HDR \<or> \<not> oversize xs \<and> length xs < frame_len xs"

definition first_msg :: "bytes \<Rightarrow> msg" where
  "first_msg xs = (xs ! 0, get_le32 xs 1, sub_buf xs MSG_HDR (frame_len xs - MSG_HDR))"

function deframe :: "bytes \<Rightarrow> msg list \<times> bytes" where
  "deframe xs =
     (if partial xs \<or> oversize xs then ([], xs)
      else let (ms, rest) = deframe (drop (frame_len xs) xs) in (first_msg xs # ms, rest))"
  by pat_completeness auto

termination
  by (relation "measure length") (auto simp: partial_def frame_len_def)

declare deframe.simps [simp del]

fun handle_all :: "int \<Rightarrow> bool \<Rightarrow> msg list \<Rightarrow> el_proxy \<Rightarrow> el_proxy \<times> udp list" where
  "handle_all now cb [] px = (px, [])"
| "handle_all now cb ((ty, remote, data) # ms) px =
     (let (px, us) = handle_msg now cb ty remote data px
      in if \<not> px_ready px then (px, us) else let (px, more) = handle_all now cb ms px in (px, us @ more))"

text \<open>What a stream does to the client, the assembly buffer left aside.\<close>

definition receive :: "int \<Rightarrow> bool \<Rightarrow> bytes \<Rightarrow> el_proxy \<Rightarrow> el_proxy \<times> udp list" where
  "receive now cb xs px =
     (let (ms, rest) = deframe xs; (px, us) = handle_all now cb ms px
      in if px_ready px \<and> oversize rest then (mark_disconnected now px, us) else (px, us))"

definition core :: "el_proxy \<Rightarrow> el_proxy" where
  "core px = px\<lparr>rx_acc := [], rx_acc_len := 0\<rparr>"

definition acc_bytes :: "el_proxy \<Rightarrow> bytes" where
  "acc_bytes px = take (rx_acc_len px) (rx_acc px)"

lemma core_simps [simp]:
  "px_ready (core px) = px_ready px" "core (core px) = core px" "px_fd (core px) = px_fd px"
  "core (px\<lparr>rx_acc := a\<rparr>) = core px" "core (px\<lparr>rx_acc_len := n\<rparr>) = core px"
  "core (mark_disconnected now px) = mark_disconnected now (core px)"
  by (simp_all add: core_def mark_disconnected_def)

lemma append_core: "core (dir_rx_append now data px) = dir_rx_append now data (core px)"
  by (simp add: dir_rx_append_def core_def mark_disconnected_def Let_def split: option.splits prod.splits)

lemma handle_core:
  "core (fst (handle_msg now cb ty remote data px)) = fst (handle_msg now cb ty remote data (core px))"
  "snd (handle_msg now cb ty remote data (core px)) = snd (handle_msg now cb ty remote data px)"
  unfolding handle_msg_def
  by (simp_all add: append_core) (simp_all add: core_def on_tcp_status_def Let_def)

lemma handle_ready:
  "px_ready (fst (handle_msg now cb ty remote data (core px))) = px_ready (fst (handle_msg now cb ty remote data px))"
  by (metis core_simps(1) handle_core(1))

lemma append_acc: "rx_acc (dir_rx_append now data px) = rx_acc px"
  by (simp add: dir_rx_append_def mark_disconnected_def Let_def split: option.splits prod.splits)

lemma handle_acc: "rx_acc (fst (handle_msg now cb ty remote data px)) = rx_acc px"
  unfolding handle_msg_def
  by (simp add: append_acc mark_disconnected_def on_tcp_status_def Let_def)

lemma get_le32_take: "i + 3 < n \<Longrightarrow> get_le32 (take n b) i = get_le32 b i"
  by (simp add: get_le32_def)

lemma get_le32_append: "i + 3 < length b \<Longrightarrow> get_le32 (b @ c) i = get_le32 b i"
  by (simp add: get_le32_def nth_append)

lemma unpartial:
  assumes "\<not> partial xs" "\<not> oversize xs"
  shows "MSG_HDR \<le> length xs" "frame_len xs \<le> length xs" "frame_len xs \<le> RX_ACC_CAP"
  using assms by (auto simp: partial_def oversize_def)

lemma frame_append:
  assumes "MSG_HDR \<le> length xs"
  shows "frame_len (xs @ ys) = frame_len xs" "oversize (xs @ ys) = oversize xs"
  using assms by (simp_all add: frame_len_def oversize_def get_le32_append)

lemma deframe_append:
  "deframe (xs @ ys) = (let (m1, r1) = deframe xs; (m2, r2) = deframe (r1 @ ys) in (m1 @ m2, r2))"
proof (induction xs rule: deframe.induct)
  case (1 xs)
  show ?case
  proof (cases "partial xs \<or> oversize xs")
    case True
    then show ?thesis by (simp add: deframe.simps [of xs])
  next
    case False
    then have n: "MSG_HDR \<le> length xs" "frame_len xs \<le> length xs" using unpartial by blast+
    have f: "frame_len (xs @ ys) = frame_len xs" "\<not> oversize (xs @ ys)" using frame_append [OF n(1)] False by simp_all
    have "\<not> partial (xs @ ys)" using n f by (simp add: partial_def)
    moreover have "first_msg (xs @ ys) = first_msg xs"
      using n unfolding first_msg_def f(1) by (auto simp: get_le32_append nth_append sub_buf_def)
    ultimately show ?thesis
      using 1 [OF False] False f n
      by (simp add: deframe.simps [of "xs @ ys"] deframe.simps [of xs] split: prod.splits)
  qed
qed

lemma deframe_partial: "partial xs \<Longrightarrow> deframe xs = ([], xs)"
  by (simp add: deframe.simps)

lemma deframe_rest: "deframe xs = (ms, rest) \<Longrightarrow> partial rest \<or> oversize rest"
  by (induction xs arbitrary: ms rule: deframe.induct)
    (subst (asm) (2) deframe.simps, auto split: if_splits prod.splits)

lemma handle_all_append:
  "handle_all now cb (m1 @ m2) px =
     (let (q, us) = handle_all now cb m1 px
      in if px_ready q \<or> m1 = [] then let (q, more) = handle_all now cb m2 q in (q, us @ more) else (q, us))"
proof (induction m1 arbitrary: px)
  case (Cons m m1)
  then show ?case by (cases m) (auto simp: Let_def split: prod.splits)
qed simp

section \<open>The assembly buffer\<close>

definition acc_ok :: "el_proxy \<Rightarrow> bool" where
  "acc_ok px \<longleftrightarrow> length (rx_acc px) = RX_ACC_CAP \<and> rx_acc_len px \<le> RX_ACC_CAP"

lemma acc_frame:
  assumes "acc_ok px"
  shows "length (acc_bytes px) = rx_acc_len px"
    "MSG_HDR \<le> rx_acc_len px \<Longrightarrow> frame_len (acc_bytes px) = MSG_HDR + unat (get_le32 (rx_acc px) 5)"
  using assms by (simp_all add: acc_ok_def acc_bytes_def frame_len_def get_le32_take)

text \<open>Dropping the first message from the buffer.\<close>

definition advance :: "nat \<Rightarrow> el_proxy \<Rightarrow> el_proxy" where
  "advance k px =
     (let px = px\<lparr>rx_acc_len := rx_acc_len px - k\<rparr>
      in if 0 < rx_acc_len px then px\<lparr>rx_acc := memcpy (rx_acc px) 0 (sub_buf (rx_acc px) k (rx_acc_len px))\<rparr> else px)"

lemma advance_facts:
  assumes "acc_ok px" "k \<le> rx_acc_len px"
  shows "acc_ok (advance k px)" "acc_bytes (advance k px) = drop k (acc_bytes px)"
    "core (advance k px) = core px" "px_ready (advance k px) = px_ready px"
proof -
  have a: "length (rx_acc px) = RX_ACC_CAP" "rx_acc_len px \<le> RX_ACC_CAP" using assms(1) by (simp_all add: acc_ok_def)
  show "acc_ok (advance k px)" using a by (auto simp: advance_def acc_ok_def Let_def)
  have "drop k (take (rx_acc_len px) (rx_acc px)) = sub_buf (rx_acc px) k (rx_acc_len px - k)"
    by (simp add: sub_buf_def drop_take)
  moreover have "length (sub_buf (rx_acc px) k (rx_acc_len px - k)) = rx_acc_len px - k"
    using a assms(2) by simp
  ultimately show "acc_bytes (advance k px) = drop k (acc_bytes px)"
    using assms(2) by (auto simp: advance_def acc_bytes_def Let_def memcpy_def)
qed (simp_all add: advance_def Let_def)

lemma parse_acc_cases:
  assumes "acc_ok px"
  shows "partial (acc_bytes px) \<Longrightarrow> parse_acc now cb px = (px, [])"
    "oversize (acc_bytes px) \<Longrightarrow> parse_acc now cb px = (mark_disconnected now px, [])"
    "\<not> partial (acc_bytes px) \<Longrightarrow> \<not> oversize (acc_bytes px) \<Longrightarrow> first_msg (acc_bytes px) = (ty, remote, data) \<Longrightarrow>
      parse_acc now cb px =
        (let (q, us) = handle_msg now cb ty remote data px
         in if \<not> px_ready q then (q, us)
            else let (z, more) = parse_acc now cb (advance (frame_len (acc_bytes px)) q) in (z, us @ more))"
proof -
  note l = acc_frame [OF assms]
  have cap: "MSG_HDR \<le> RX_ACC_CAP" by (simp add: RX_ACC_CAP_def)
  show "parse_acc now cb px = (px, [])" if "partial (acc_bytes px)"
  proof (cases "rx_acc_len px < MSG_HDR")
    case False
    then have "frame_len (acc_bytes px) = MSG_HDR + unat (get_le32 (rx_acc px) 5)" using l by simp
    then show ?thesis using that False l(1) cap
      by (subst parse_acc.simps) (auto simp: partial_def oversize_def Let_def)
  qed (simp add: parse_acc.simps)
  show "parse_acc now cb px = (mark_disconnected now px, [])" if "oversize (acc_bytes px)"
  proof -
    have "\<not> rx_acc_len px < MSG_HDR" using that l(1) by (simp add: oversize_def)
    then have "frame_len (acc_bytes px) = MSG_HDR + unat (get_le32 (rx_acc px) 5)" "\<not> rx_acc_len px < MSG_HDR" using l by simp_all
    then show ?thesis using that l(1) cap by (subst parse_acc.simps) (auto simp: oversize_def Let_def)
  qed
  assume f: "\<not> partial (acc_bytes px)" "\<not> oversize (acc_bytes px)" "first_msg (acc_bytes px) = (ty, remote, data)"
  have n: "MSG_HDR \<le> rx_acc_len px" "frame_len (acc_bytes px) \<le> rx_acc_len px" "frame_len (acc_bytes px) \<le> RX_ACC_CAP"
    using unpartial [OF f(1,2)] l(1) by simp_all
  have fl: "frame_len (acc_bytes px) = MSG_HDR + unat (get_le32 (rx_acc px) 5)" using l(2) n(1) by simp
  have fits: "\<not> RX_ACC_CAP - MSG_HDR < unat (get_le32 (rx_acc px) 5)" using n(3) fl by simp
  have m: "ty = rx_acc px ! 0" "remote = get_le32 (rx_acc px) 1" "data = sub_buf (rx_acc px) MSG_HDR (unat (get_le32 (rx_acc px) 5))"
    using f(3) n fl by (auto simp: first_msg_def acc_bytes_def get_le32_take sub_buf_def take_drop min_def)
  show "parse_acc now cb px =
        (let (q, us) = handle_msg now cb ty remote data px
         in if \<not> px_ready q then (q, us)
            else let (z, more) = parse_acc now cb (advance (frame_len (acc_bytes px)) q) in (z, us @ more))"
    using n fl fits unfolding m
    by (subst parse_acc.simps) (simp add: Let_def advance_def split: prod.splits)
qed

text \<open>Parsing the buffer is receiving its bytes; an incomplete message stays.\<close>

lemma parse_acc_receives:
  assumes "acc_ok px" "px_ready px"
  shows "core (fst (parse_acc now cb px)) = fst (receive now cb (acc_bytes px) (core px)) \<and>
    snd (parse_acc now cb px) = snd (receive now cb (acc_bytes px) (core px)) \<and>
    (px_ready (fst (parse_acc now cb px)) \<longrightarrow> acc_ok (fst (parse_acc now cb px)) \<and>
       acc_bytes (fst (parse_acc now cb px)) = snd (deframe (acc_bytes px)))"
  using assms
proof (induction "rx_acc_len px" arbitrary: px rule: less_induct)
  case less
  show ?case
  proof (cases "partial (acc_bytes px) \<or> oversize (acc_bytes px)")
    case True
    then have d: "deframe (acc_bytes px) = ([], acc_bytes px)" by (simp add: deframe.simps)
    show ?thesis
    proof (cases "oversize (acc_bytes px)")
      case True
      have "\<not> px_ready (mark_disconnected now px)" by (simp add: mark_disconnected_def)
      then show ?thesis using True d less.prems(2) by (simp add: parse_acc_cases(2) [OF less.prems(1) True] receive_def)
    next
      case False
      then have "partial (acc_bytes px)" using True by simp
      then show ?thesis using False d less.prems by (simp add: parse_acc_cases(1) [OF less.prems(1)] receive_def)
    qed
  next
    case False
    obtain ty remote data where m: "first_msg (acc_bytes px) = (ty, remote, data)" by (rule prod_cases3)
    let ?n = "frame_len (acc_bytes px)"
    have n: "MSG_HDR \<le> rx_acc_len px" "?n \<le> rx_acc_len px" "0 < ?n"
      using unpartial [of "acc_bytes px"] False acc_frame(1) [OF less.prems(1)] by (auto simp: frame_len_def)
    obtain ms rest where r: "deframe (drop ?n (acc_bytes px)) = (ms, rest)" by (rule prod.exhaust)
    have d: "deframe (acc_bytes px) = ((ty, remote, data) # ms, rest)" using False r m by (simp add: deframe.simps [of "acc_bytes px"])
    obtain q us where q: "handle_msg now cb ty remote data px = (q, us)" by (rule prod.exhaust)
    have c: "handle_msg now cb ty remote data (core px) = (core q, us)"
      using handle_core [of now cb ty remote data px] q by (metis fst_conv prod.collapse snd_conv)
    note p = parse_acc_cases(3) [OF less.prems(1), of ty remote data now cb]
    show ?thesis
    proof (cases "px_ready q")
      case False
      then show ?thesis using \<open>\<not> (partial (acc_bytes px) \<or> oversize (acc_bytes px))\<close> p m q c d
        by (simp add: receive_def)
    next
      case True
      have same: "rx_acc_len q = rx_acc_len px" "rx_acc q = rx_acc px"
        using handle_msg_acc_len [of now cb ty remote data px] handle_acc [of now cb ty remote data px] q True by simp_all
      have ok: "acc_ok q" "acc_bytes q = acc_bytes px" using less.prems(1) same by (simp_all add: acc_ok_def acc_bytes_def)
      note a = advance_facts [OF ok(1), of ?n] 
      have shorter: "rx_acc_len (advance ?n q) < rx_acc_len px" using n same by (simp add: advance_def Let_def)
      have a': "acc_ok (advance ?n q)" "acc_bytes (advance ?n q) = drop ?n (acc_bytes px)" "core (advance ?n q) = core q" "px_ready (advance ?n q)"
        using a n(2) same ok True by simp_all
      note IH = less.hyps [OF shorter a'(1,4)]
      show ?thesis using \<open>\<not> (partial (acc_bytes px) \<or> oversize (acc_bytes px))\<close> p m q c d r True IH a'
        by (simp add: receive_def split: prod.splits)
    qed
  qed
qed

section \<open>Reading the connection\<close>

fun arrived :: "read_event list \<Rightarrow> bytes" where
  "arrived [] = []"
| "arrived (Arrived d # evs) = d @ arrived evs"
| "arrived (_ # evs) = arrived evs"

text \<open>No error and no end of the connection among the events.\<close>

definition quiet :: "read_event list \<Rightarrow> bool" where
  "quiet evs \<longleftrightarrow> Read_error \<notin> set evs \<and> Read_end \<notin> set evs"

lemma partial_room: "acc_ok px \<Longrightarrow> partial (acc_bytes px) \<Longrightarrow> rx_acc_len px < RX_ACC_CAP"
  using acc_frame(1) [of px] by (auto simp: partial_def oversize_def RX_ACC_CAP_def)

lemma receive_append:
  assumes "px_ready px"
  shows "receive now cb (xs @ ys) px =
    (let (q, us) = receive now cb xs px
     in if px_ready q then let (z, more) = receive now cb (snd (deframe xs) @ ys) q in (z, us @ more) else (q, us))"
proof -
  obtain m1 r1 where d1: "deframe xs = (m1, r1)" by (rule prod.exhaust)
  obtain m2 r2 where d2: "deframe (r1 @ ys) = (m2, r2)" by (rule prod.exhaust)
  have d: "deframe (xs @ ys) = (m1 @ m2, r2)" unfolding deframe_append [of xs ys] d1 by (simp add: d2)
  obtain q us where q: "handle_all now cb m1 px = (q, us)" by (rule prod.exhaust)
  have down: "\<not> px_ready (mark_disconnected now z)" for z by (simp add: mark_disconnected_def)
  show ?thesis
  proof (cases "px_ready q")
    case False
    then have "m1 \<noteq> []" using q assms by auto
    then show ?thesis using False q d d1 by (simp add: receive_def handle_all_append)
  next
    case True
    show ?thesis
    proof (cases "oversize r1")
      case True
      have "oversize (r1 @ ys)" using True frame_append(2) [of r1 ys] by (simp add: oversize_def)
      then have "m2 = []" "r2 = r1 @ ys" "oversize r2" using d2 by (simp_all add: deframe.simps)
      then show ?thesis using \<open>px_ready q\<close> True q d d1 down by (simp add: receive_def)
    next
      case False
      then show ?thesis using True q d d1 d2 down by (simp add: receive_def handle_all_append split: prod.splits)
    qed
  qed
qed

lemma fill_acc:
  assumes "acc_ok px" "length got \<le> RX_ACC_CAP - rx_acc_len px"
    and "px1 = px\<lparr>rx_acc := memcpy (rx_acc px) (rx_acc_len px) got, rx_acc_len := rx_acc_len px + length got\<rparr>"
  shows "acc_ok px1" "acc_bytes px1 = acc_bytes px @ got" "core px1 = core px" "px_ready px1 = px_ready px"
  using assms by (auto simp: acc_ok_def acc_bytes_def memcpy_def core_def)

text \<open>The result of reading: the stream is received, and an incomplete message is left in the buffer.\<close>

definition drained :: "int \<Rightarrow> bool \<Rightarrow> bytes \<Rightarrow> el_proxy \<Rightarrow> el_proxy \<times> udp list \<Rightarrow> bool" where
  "drained now cb bs px r \<longleftrightarrow> (core (fst r), snd r) = receive now cb bs (core px) \<and>
     (px_ready (fst r) \<longrightarrow> acc_ok (fst r) \<and> partial (acc_bytes (fst r)) \<and> acc_bytes (fst r) = snd (deframe bs))"

lemma drained_start:
  assumes "acc_ok px" "px_ready px" "partial (acc_bytes px)"
  shows "drained now cb (acc_bytes px) px (px, [])"
proof -
  have "\<not> oversize (acc_bytes px)" using assms(3) by (auto simp: partial_def oversize_def)
  then show ?thesis using assms by (simp add: drained_def receive_def deframe_partial)
qed

text \<open>One read that brings some bytes, and what follows.\<close>

lemma drained_read:
  assumes "acc_ok px1" "px_ready px1" "parse_acc now cb px1 = (q, us)"
  shows "\<not> px_ready q \<Longrightarrow> drained now cb (acc_bytes px1 @ later) px1 (q, us)"
    "px_ready q \<Longrightarrow> acc_ok q \<and> partial (acc_bytes q)"
    "px_ready q \<Longrightarrow> drained now cb (acc_bytes q @ later) q (z, vs) \<Longrightarrow> drained now cb (acc_bytes px1 @ later) px1 (z, us @ vs)"
proof -
  note p = parse_acc_receives [OF assms(1,2), of now cb, unfolded assms(3) fst_conv snd_conv]
  have rec: "receive now cb (acc_bytes px1) (core px1) = (core q, us)" using p by (simp add: prod_eq_iff)
  have rd: "px_ready (core px1)" using assms(2) by simp
  have app: "receive now cb (acc_bytes px1 @ later) (core px1) =
      (if px_ready q then let (z, vs) = receive now cb (snd (deframe (acc_bytes px1)) @ later) (core q) in (z, us @ vs) else (core q, us))"
    unfolding receive_append [OF rd] rec by simp
  show "drained now cb (acc_bytes px1 @ later) px1 (q, us)" if "\<not> px_ready q"
    using that app by (simp add: drained_def)
  assume q: "px_ready q"
  then have a: "acc_ok q" "acc_bytes q = snd (deframe (acc_bytes px1))" using p by simp_all
  have "px_ready (fst (receive now cb (acc_bytes px1) (core px1)))" using rec q by simp
  then have "\<not> oversize (snd (deframe (acc_bytes px1)))"
    by (auto simp: receive_def mark_disconnected_def split: prod.splits if_splits)
  then show "acc_ok q \<and> partial (acc_bytes q)" using a deframe_rest by (metis prod.collapse)
  assume d: "drained now cb (acc_bytes q @ later) q (z, vs)"
  have "snd (deframe (acc_bytes px1 @ later)) = snd (deframe (acc_bytes q @ later))"
    unfolding a(2) by (simp add: deframe_append [of "acc_bytes px1"] split: prod.splits)
  moreover have "receive now cb (acc_bytes px1 @ later) (core px1) = (core z, us @ vs)"
    using app q d unfolding drained_def a(2) [symmetric] by (auto split: prod.splits)
  ultimately show "drained now cb (acc_bytes px1 @ later) px1 (z, us @ vs)" using d by (auto simp: drained_def)
qed

lemma drained_core: "core px1 = core px \<Longrightarrow> drained now cb bs px1 r = drained now cb bs px r"
  by (simp add: drained_def)

text \<open>What is left to be read.\<close>

definition work :: "read_event list \<Rightarrow> nat" where
  "work evs = length evs + length (arrived evs)"

lemma drain_receives:
  assumes "acc_ok px" "px_ready px" "partial (acc_bytes px)" "quiet evs"
  shows "drained now cb (acc_bytes px @ arrived evs) px (drain_loop now cb evs px)"
  using assms
proof (induction "work evs" arbitrary: evs px rule: less_induct)
  case less
  have room: "\<not> RX_ACC_CAP \<le> rx_acc_len px" using partial_room [OF less.prems(1,3)] by simp
  then have sp: "RX_ACC_CAP - rx_acc_len px \<noteq> 0" by simp
  show ?case
  proof (cases evs)
    case Nil
    have "drain_loop now cb [] px = (px, [])" using room by (simp only: drain_loop.simps if_False)
    then show ?thesis using drained_start [OF less.prems(1-3)] by (simp add: Nil)
  next
    case (Cons ev evs')
    have qu: "quiet evs'" using less.prems(4) by (simp add: quiet_def Cons)
    have skip: ?thesis if "drain_loop now cb evs px = drain_loop now cb evs' px" "arrived evs = arrived evs'"
      unfolding that by (rule less.hyps [OF _ less.prems(1-3) qu]) (use that(2) in \<open>simp add: work_def Cons\<close>)
    show ?thesis
    proof (cases ev)
      case Read_intr
      show ?thesis by (rule skip) (use sp in \<open>simp_all add: Cons Read_intr drain_loop.simps(2)\<close>)
    next
      case (Arrived data)
      show ?thesis
      proof (cases "data = []")
        case True
        show ?thesis by (rule skip) (use sp in \<open>simp_all add: Cons Arrived True drain_loop.simps(2)\<close>)
      next
        case False
        define space where "space = RX_ACC_CAP - rx_acc_len px"
        let ?rest = "Arrived (drop space data) # evs'" and ?more = "drop space data @ arrived evs'"
        define px1 where "px1 = px\<lparr>rx_acc := memcpy (rx_acc px) (rx_acc_len px) (take space data),
          rx_acc_len := rx_acc_len px + length (take space data)\<rparr>"
        have "length (take space data) \<le> RX_ACC_CAP - rx_acc_len px" by (simp add: space_def)
        note f = fill_acc [OF less.prems(1) this px1_def]
        have rdy: "px_ready px1" using f(4) less.prems(2) by simp
        obtain q us where q: "parse_acc now cb px1 = (q, us)" by (rule prod.exhaust)
        obtain z vs where z: "drain_loop now cb ?rest q = (z, vs)" by (rule prod.exhaust)
        have step: "drain_loop now cb evs px = (if \<not> px_ready q then (q, us) else (z, us @ vs))"
          using sp False q z unfolding px1_def space_def Cons Arrived by (subst drain_loop.simps) (simp add: Let_def)
        have all: "acc_bytes px @ arrived evs = acc_bytes px1 @ ?more" using f(2) by (simp add: Arrived Cons)
        note r = drained_read [OF f(1) rdy q]
        have "drained now cb (acc_bytes px1 @ ?more) px1 (drain_loop now cb evs px)"
        proof (cases "px_ready q")
          case False
          then show ?thesis using r(1) by (simp only: step if_True simp_thms)
        next
          case True
          have "work ?rest < work evs" using sp \<open>data \<noteq> []\<close> length_greater_0_conv [of data]
            by (simp add: work_def Cons Arrived space_def del: length_greater_0_conv)
          moreover have "quiet ?rest" using qu by (simp add: quiet_def)
          ultimately have "drained now cb (acc_bytes q @ arrived ?rest) q (drain_loop now cb ?rest q)"
            using less.hyps r(2) [OF True] True by blast
          then have "drained now cb (acc_bytes q @ ?more) q (z, vs)" by (simp only: z arrived.simps)
          from r(3) [OF True this] show ?thesis using True by (simp only: step if_False simp_thms)
        qed
        then show ?thesis unfolding all drained_core [OF f(3)] .
      qed
    qed (use less.prems(4) in \<open>simp_all add: quiet_def Cons\<close>)
  qed
qed

section \<open>Messages that are written\<close>

lemma send_raw_writes: "send_raw ws data = (True, out, ws') \<Longrightarrow> out = data"
proof (induction ws data arbitrary: out ws' rule: send_raw.induct)
  case (3 n ws x xs)
  then show ?case by (cases "n = 0") (auto simp: Let_def split: prod.splits)
qed (auto split: if_splits)

lemma send_msg_writes: "send_msg ws ty remote data px = (True, out, ws') \<Longrightarrow> out = encode_msg (ty, remote, data)"
  unfolding send_msg_def encode_msg_def
  by (auto simp: Let_def split: if_splits prod.splits dest!: send_raw_writes)

lemma le32_round: "get_le32 (put_le32 x @ rest) 0 = x"
proof (rule bit_word_eqI)
  have ff: "(0xFF :: u32) = mask 8" by (simp add: mask_eq_exp_minus_1)
  fix n assume "n < LENGTH(32)"
  then have "n < 8 \<or> (8 \<le> n \<and> n < 16) \<or> (16 \<le> n \<and> n < 24) \<or> (24 \<le> n \<and> n < 32)" by simp arith
  then show "bit (get_le32 (put_le32 x @ rest) 0) n = bit x n"
    unfolding get_le32_def put_le32_def ff
    by (elim disjE; simp add: bit_or_iff bit_and_iff bit_push_bit_iff bit_drop_bit_eq bit_ucast_iff bit_mask_iff less_diff_conv2; arith?)
qed

lemma get_le32_drop: "i \<le> length b \<Longrightarrow> get_le32 b i = get_le32 (drop i b) 0"
  by (simp add: get_le32_def)

lemma encoded_first:
  assumes "msg_ok m"
  shows "\<not> partial (encode_msg m @ rest)" "\<not> oversize (encode_msg m @ rest)" "first_msg (encode_msg m @ rest) = m"
    "drop (frame_len (encode_msg m @ rest)) (encode_msg m @ rest) = rest"
proof -
  obtain ty remote data where m: "m = (ty, remote, data)" by (rule prod_cases3)
  let ?xs = "encode_msg m @ rest"
  have x: "?xs = ty # put_le32 remote @ put_le32 (of_nat (length data)) @ data @ rest"
    by (simp add: m encode_msg_def msg_header_def)
  have l4: "length (put_le32 y) = 4" for y by (simp add: put_le32_def)
  have d: "drop 1 ?xs = put_le32 remote @ put_le32 (of_nat (length data)) @ data @ rest"
    "drop 5 ?xs = put_le32 (of_nat (length data)) @ data @ rest" "drop 9 ?xs = data @ rest"
    unfolding x using l4 by simp_all
  have len: "length ?xs = 9 + length data + length rest" unfolding x using l4 by simp
  have small: "length data \<le> 65527" using assms by (simp add: m msg_ok_def RX_ACC_CAP_def)
  have g: "get_le32 ?xs 1 = remote" "get_le32 ?xs 5 = of_nat (length data)"
    using get_le32_drop [of 1 ?xs] get_le32_drop [of 5 ?xs] len le32_round d by simp_all
  have n: "frame_len ?xs = 9 + length data"
    unfolding frame_len_def g using small by (simp add: unat_of_nat take_bit_nat_eq_self)
  show "\<not> partial ?xs" "\<not> oversize ?xs"
    using n len small by (simp_all add: partial_def oversize_def RX_ACC_CAP_def)
  have "drop (frame_len ?xs) ?xs = drop (length data) (drop 9 ?xs)" by (simp only: n drop_drop add.commute)
  also have "\<dots> = rest" unfolding d(3) by simp
  finally show "drop (frame_len ?xs) ?xs = rest" .
  have "?xs ! 0 = ty" unfolding x by simp
  then show "first_msg ?xs = m" unfolding first_msg_def g n sub_buf_def d(3) by (simp add: m)
qed

lemma deframe_encoded:
  assumes "\<forall>m\<in>set ms. msg_ok m" "partial rest"
  shows "deframe (concat (List.map encode_msg ms) @ rest) = (ms, rest)"
  using assms(1)
proof (induction ms)
  case Nil
  then show ?case using assms(2) by (simp add: deframe_partial)
next
  case (Cons m ms)
  let ?xs = "encode_msg m @ concat (List.map encode_msg ms) @ rest"
  note e = encoded_first [of m "concat (List.map encode_msg ms) @ rest"]
  have "msg_ok m" "deframe (concat (List.map encode_msg ms) @ rest) = (ms, rest)" using Cons by simp_all
  then have "deframe ?xs = (m # ms, rest)" using e by (subst deframe.simps) simp
  then show ?case by simp
qed

lemma drain_messages:
  assumes "acc_ok px" "px_ready px" "0 \<le> px_fd px" "partial (acc_bytes px)" "quiet evs"
    and "acc_bytes px @ arrived evs = concat (List.map encode_msg ms) @ rest" "\<forall>m\<in>set ms. msg_ok m" "partial rest"
  shows "\<exists>q us. drain now cb evs px = (q, us) \<and> handle_all now cb ms (core px) = (core q, us)
    \<and> (px_ready q \<longrightarrow> acc_ok q \<and> acc_bytes q = rest)"
proof -
  obtain q us where q: "drain_loop now cb evs px = (q, us)" by (rule prod.exhaust)
  note d = drain_receives [OF assms(1,2,4,5), of now cb, unfolded assms(6) q]
  have "\<not> oversize rest" using assms(8) by (auto simp: partial_def oversize_def)
  then have "receive now cb (concat (List.map encode_msg ms) @ rest) (core px) = handle_all now cb ms (core px)"
    unfolding receive_def deframe_encoded [OF assms(7,8)] by (simp add: split_def)
  then have "handle_all now cb ms (core px) = (core q, us)" "px_ready q \<longrightarrow> acc_ok q \<and> acc_bytes q = rest"
    using d deframe_encoded [OF assms(7,8)] by (simp_all add: drained_def)
  then show ?thesis using q assms(2,3) by (simp add: drain_def)
qed

section \<open>The directory connection\<close>

definition dir_bytes :: "el_proxy \<Rightarrow> bytes" where
  "dir_bytes px = (case dir_rx px of Some d \<Rightarrow> sub_buf d (dir_rx_r px) (dir_rx_len px - dir_rx_r px) | None \<Rightarrow> [])"

definition dir_ok :: "el_proxy \<Rightarrow> bool" where
  "dir_ok px \<longleftrightarrow> (\<exists>d. dir_rx px = Some d \<and> length d = dir_rx_cap px) \<and> dir_rx_cap px = EL_PROXY_DIR_RX_CAP \<and>
     dir_rx_r px \<le> dir_rx_len px \<and> dir_rx_len px \<le> dir_rx_cap px"

lemma core_dir [simp]: "dir_ok (core px) = dir_ok px" "dir_bytes (core px) = dir_bytes px"
  by (cases "dir_rx px"; simp add: core_def dir_ok_def dir_bytes_def)+

lemma dir_append:
  assumes "dir_ok px" "length (dir_bytes px) + length data \<le> EL_PROXY_DIR_RX_CAP"
  shows "dir_ok (dir_rx_append now data px)" "dir_bytes (dir_rx_append now data px) = dir_bytes px @ data"
    "px_ready (dir_rx_append now data px) = px_ready px" "px_fd (dir_rx_append now data px) = px_fd px"
proof -
  obtain d where d: "dir_rx px = Some d" "length d = EL_PROXY_DIR_RX_CAP" "dir_rx_cap px = EL_PROXY_DIR_RX_CAP"
    "dir_rx_r px \<le> dir_rx_len px" "dir_rx_len px \<le> EL_PROXY_DIR_RX_CAP"
    using assms(1) by (auto simp: dir_ok_def)
  let ?used = "dir_rx_len px - dir_rx_r px"
  have u: "length (dir_bytes px) = ?used" using d by (simp add: dir_bytes_def)
  have cap: "EL_PROXY_DIR_RX_CAP \<noteq> 0" by (simp add: EL_PROXY_DIR_RX_CAP_def)
  define d1 where "d1 = (if 0 < dir_rx_r px \<and> 0 < ?used then memcpy d 0 (sub_buf d (dir_rx_r px) ?used) else d)"
  define l1 where "l1 = (if 0 < dir_rx_r px then ?used else dir_rx_len px)"
  have l: "l1 = ?used" by (simp add: l1_def)
  have "length (sub_buf d (dir_rx_r px) ?used) = ?used" using d by simp
  then have b: "length d1 = EL_PROXY_DIR_RX_CAP" "take l1 d1 = dir_bytes px"
    using d by (auto simp: d1_def l dir_bytes_def sub_buf_def memcpy_def)
  have fits: "length data \<le> EL_PROXY_DIR_RX_CAP - l1" "l1 \<le> EL_PROXY_DIR_RX_CAP" using assms(2) u l d(5) by simp_all
  have app: "dir_rx_append now data px = (if data = [] then px
      else px\<lparr>dir_rx := Some (memcpy d1 l1 data), dir_rx_len := l1 + length data, dir_rx_r := 0\<rparr>)"
    using d fits cap by (auto simp: dir_rx_append_def Let_def d1_def l1_def)
  have "take (l1 + length data) (memcpy d1 l1 data) = dir_bytes px @ data" "length (memcpy d1 l1 data) = EL_PROXY_DIR_RX_CAP"
    using b fits u l by (simp_all add: memcpy_def)
  then show "dir_ok (dir_rx_append now data px)" "dir_bytes (dir_rx_append now data px) = dir_bytes px @ data"
    "px_ready (dir_rx_append now data px) = px_ready px" "px_fd (dir_rx_append now data px) = px_fd px"
    using assms(1) d(3) fits unfolding app by (auto simp: dir_ok_def dir_bytes_def sub_buf_def)
qed

text \<open>The messages that belong to a connection that is up, and the directory data among them.\<close>

definition channel_msg :: "msg \<Rightarrow> bool" where
  "channel_msg m \<longleftrightarrow> fst m \<in> {MSG_TCP_DATA, MSG_TCP_CLOSE, MSG_UDP_DATA, MSG_UDP_CONTROL}"

definition dir_data :: "msg list \<Rightarrow> bytes" where
  "dir_data ms = concat (List.map (\<lambda>(ty, remote, data). if ty = MSG_TCP_DATA then data else []) ms)"

lemma handle_channel:
  assumes "dir_ok px" "channel_msg (ty, remote, data)" "length (dir_bytes px) + length (dir_data [(ty, remote, data)]) \<le> EL_PROXY_DIR_RX_CAP"
    and "handle_msg now cb ty remote data px = (q, us)"
  shows "dir_ok q" "dir_bytes q = dir_bytes px @ dir_data [(ty, remote, data)]" "px_ready q = px_ready px" "px_fd q = px_fd px"
  using assms dir_append [OF assms(1), of data now]
  by (auto simp: channel_msg_def handle_msg_def dir_data_def split: if_splits) (auto simp: dir_ok_def dir_bytes_def)

lemma handle_all_channel:
  assumes "dir_ok px" "px_ready px" "\<forall>m\<in>set ms. channel_msg m" "length (dir_bytes px) + length (dir_data ms) \<le> EL_PROXY_DIR_RX_CAP"
    and "handle_all now cb ms px = (q, us)"
  shows "dir_ok q \<and> dir_bytes q = dir_bytes px @ dir_data ms \<and> px_ready q \<and> px_fd q = px_fd px"
  using assms
proof (induction ms arbitrary: px us q)
  case Nil
  then show ?case by (simp add: dir_data_def)
next
  case (Cons m ms)
  obtain ty remote data where m: "m = (ty, remote, data)" by (rule prod_cases3)
  obtain p1 u1 where 1: "handle_msg now cb ty remote data px = (p1, u1)" by (rule prod.exhaust)
  obtain z u2 where 2: "handle_all now cb ms p1 = (z, u2)" by (rule prod.exhaust)
  have "dir_data (m # ms) = dir_data [m] @ dir_data ms" by (simp add: dir_data_def)
  note d = this [unfolded m]
  have c: "channel_msg (ty, remote, data)" "length (dir_bytes px) + length (dir_data [(ty, remote, data)]) \<le> EL_PROXY_DIR_RX_CAP"
    using Cons.prems(3,4) by (simp_all add: d m)
  note h = handle_channel [OF Cons.prems(1) c 1]
  have r: "px_ready p1" using h(3) Cons.prems(2) by simp
  have "q = z" using Cons.prems(5) r by (simp add: m 1 2)
  moreover have "dir_ok z \<and> dir_bytes z = dir_bytes p1 @ dir_data ms \<and> px_ready z \<and> px_fd z = px_fd p1"
    by (rule Cons.IH [OF h(1) r _ _ 2]) (use Cons.prems(3,4) h(2) in \<open>simp_all add: d m\<close>)
  ultimately show ?case using h(2,4) by (simp add: d m)
qed

lemma take_dir_bytes:
  assumes "dir_ok px"
  obtains px' where "take_dir n px = (take n (dir_bytes px), px')" "dir_ok px'" "dir_bytes px' = drop n (dir_bytes px)"
    "px_ready px' = px_ready px" "px_fd px' = px_fd px" "rx_acc px' = rx_acc px" "rx_acc_len px' = rx_acc_len px"
proof -
  obtain d where d: "dir_rx px = Some d" "length d = EL_PROXY_DIR_RX_CAP" "dir_rx_cap px = EL_PROXY_DIR_RX_CAP"
    "dir_rx_r px \<le> dir_rx_len px" "dir_rx_len px \<le> EL_PROXY_DIR_RX_CAP"
    using assms by (auto simp: dir_ok_def)
  let ?k = "min n (dir_rx_len px - dir_rx_r px)"
  let ?p = "px\<lparr>dir_rx_r := dir_rx_r px + ?k\<rparr>"
  let ?q = "if dir_rx_len ?p \<le> dir_rx_r ?p then ?p\<lparr>dir_rx_r := 0, dir_rx_len := 0\<rparr> else ?p"
  have b: "dir_bytes px = sub_buf d (dir_rx_r px) (dir_rx_len px - dir_rx_r px)" by (simp add: dir_bytes_def d(1))
  have t: "take_dir n px = (take n (dir_bytes px), ?q)"
    using d(1) unfolding b by (simp add: take_dir_def Let_def sub_buf_def min_def)
  show ?thesis
  proof (rule that [OF t])
    show "dir_ok ?q" using d by (auto simp: dir_ok_def min_def)
    have "drop n (dir_bytes px) = sub_buf d (dir_rx_r px + ?k) (dir_rx_len px - (dir_rx_r px + ?k))"
      unfolding b sub_buf_def by (cases "n \<le> dir_rx_len px - dir_rx_r px") (simp_all add: drop_take add.commute)
    then show "dir_bytes ?q = drop n (dir_bytes px)" using d by (auto simp: dir_bytes_def sub_buf_def min_def)
  qed simp_all
qed

lemma dir_bytes_empty: "dir_ok px \<Longrightarrow> dir_bytes px = [] \<longleftrightarrow> \<not> dir_rx_r px < dir_rx_len px"
  by (auto simp: dir_ok_def dir_bytes_def sub_buf_def)

section \<open>A concrete client\<close>

definition sample_proxy :: el_proxy where
  "sample_proxy = el_proxy_init\<lparr>px_fd := 3, px_ready := True, px_tcp := TCP_CONNECTED,
     dir_rx := Some (replicate EL_PROXY_DIR_RX_CAP 0), dir_rx_cap := EL_PROXY_DIR_RX_CAP\<rparr>"

lemma sample_proxy_ok:
  "acc_ok sample_proxy" "px_ready sample_proxy" "0 \<le> px_fd sample_proxy" "partial (acc_bytes sample_proxy)" "dir_ok sample_proxy"
  "acc_bytes sample_proxy = []" "dir_bytes sample_proxy = []"
  by (simp_all add: sample_proxy_def el_proxy_init_def acc_ok_def acc_bytes_def partial_def dir_ok_def dir_bytes_def sub_buf_def)

text \<open>A voice packet of three bytes, four bytes of directory data, and the start of a third message.\<close>

definition sample_msgs :: "msg list" where
  "sample_msgs = [(5, 7, [1, 2, 3]), (2, 0, [10, 20, 30, 40])]"

definition sample_reads :: "read_event list" where
  "sample_reads = [Arrived [5, 7, 0, 0], Read_intr, Arrived [0, 3, 0, 0, 0, 1, 2, 3, 2, 0, 0, 0, 0, 4], Arrived [0, 0, 0, 10, 20, 30, 40, 5]]"

lemma sample_stream:
  "quiet sample_reads" "arrived sample_reads = concat (List.map encode_msg sample_msgs) @ [5]"
  "\<forall>m\<in>set sample_msgs. msg_ok m \<and> channel_msg m" "partial [5 :: u8]" "dir_data sample_msgs = [10, 20, 30, 40]"
  by (simp_all add: quiet_def sample_reads_def sample_msgs_def encode_msg_def msg_header_def put_le32_def msg_ok_def channel_msg_def
      RX_ACC_CAP_def partial_def dir_data_def)

section \<open>Properties\<close>

text \<open>
  C34: the bytes of a proxy connection are a sequence of messages, whatever the pieces in which they come.
  When the bytes kept from earlier reads and those that now arrive, in any pieces and with any interruptions,
  are the encodings of messages that fit the buffer, followed by the beginning of a further one, draining
  the connection handles exactly these messages, each once and in order, until one of them ends the
  connection, and keeps that beginning for the next time. The encoding is the one in which
  \<open>send_msg\<close> writes, through any partial writes, a message that it reports as sent.
\<close>

theorem proxy_stream_any_pieces:
  assumes "acc_ok px" "px_ready px" "0 \<le> px_fd px" "partial (acc_bytes px)" "quiet evs"
    and "acc_bytes px @ arrived evs = concat (List.map encode_msg ms) @ rest" "\<forall>m\<in>set ms. msg_ok m" "partial rest"
  shows "(\<exists>q us. drain now cb evs px = (q, us) \<and> handle_all now cb ms (core px) = (core q, us)
      \<and> (px_ready q \<longrightarrow> acc_ok q \<and> acc_bytes q = rest))
    \<and> (\<forall>ws ty remote data out ws'. send_msg ws ty remote data px = (True, out, ws') \<longrightarrow> out = encode_msg (ty, remote, data))"
  using drain_messages [OF assms] send_msg_writes by blast

theorem proxy_stream_any_pieces_witness:
  "\<exists>q. drain 0 True sample_reads sample_proxy = (q, [(7, False, [1, 2, 3])]) \<and> dir_bytes q = [10, 20, 30, 40] \<and> acc_bytes q = [5]"
proof -
  note o = sample_proxy_ok and m = sample_stream
  have bytes: "acc_bytes sample_proxy @ arrived sample_reads = concat (List.map encode_msg sample_msgs) @ [5]" using o(6) m(2) by simp
  have ok: "\<forall>m\<in>set sample_msgs. msg_ok m" using m(3) by blast
  from proxy_stream_any_pieces [OF o(1-4) m(1) bytes ok m(4), of 0 True]
  obtain q us where q: "drain 0 True sample_reads sample_proxy = (q, us)" "handle_all 0 True sample_msgs (core sample_proxy) = (core q, us)"
    "px_ready q \<longrightarrow> acc_ok q \<and> acc_bytes q = [5]" by blast
  have "px_ready (core sample_proxy)" "dir_ok (core sample_proxy)" "dir_bytes (core sample_proxy) = []" using o by simp_all
  note h = handle_all_channel [OF this(2,1) _ _ q(2)]
  have "dir_bytes q = [10, 20, 30, 40] \<and> px_ready q"
    using h m(3,5) \<open>dir_bytes (core sample_proxy) = []\<close> by (simp add: EL_PROXY_DIR_RX_CAP_def)
  moreover have "us = [(7, False, [1, 2, 3])]"
    using q(2) \<open>px_ready (core sample_proxy)\<close>
    by (simp add: sample_msgs_def handle_msg_def Let_def split: prod.splits if_splits)
  ultimately show ?thesis using q(1,3) by blast
qed

text \<open>
  C35: the directory connection inside a proxy connection gives its bytes in order. When a read for at most
  \<open>buflen\<close> bytes finds, in its first turn, messages with directory data, UDP packets and closings of the
  directory connection, in any pieces, and the data fit the buffer with those that wait there, it returns the first bytes
  of what waited followed by what came, also when the directory connection was closed among them, and the rest
  waits for the next read. The connection to the proxy stays up. The UDP packets are taken from it and
  given to nobody.
\<close>

theorem proxy_directory_read:
  assumes "acc_ok px" "px_ready px" "0 \<le> px_fd px" "partial (acc_bytes px)" "dir_ok px" "quiet (t_reads t)"
    and "acc_bytes px @ arrived (t_reads t) = concat (List.map encode_msg ms) @ rest"
    and "\<forall>m\<in>set ms. msg_ok m \<and> channel_msg m" "partial rest"
    and "stream = dir_bytes px @ dir_data ms" "length stream \<le> EL_PROXY_DIR_RX_CAP" "stream \<noteq> []" "0 < buflen"
  shows "\<exists>px'. el_proxy_tcp_read now buflen timeout_ms (t # ts) px = Some (int (min (length stream) buflen), take buflen stream, px')
    \<and> dir_bytes px' = drop buflen stream \<and> acc_bytes px' = rest \<and> px_ready px' \<and> px_fd px' = px_fd px \<and> acc_ok px' \<and> dir_ok px'"
proof -
  have ok: "\<forall>m\<in>set ms. msg_ok m" "\<forall>m\<in>set ms. channel_msg m" using assms(8) by blast+
  obtain q us where q: "drain (t_now t) False (t_reads t) px = (q, us)" "handle_all (t_now t) False ms (core px) = (core q, us)"
    "px_ready q \<longrightarrow> acc_ok q \<and> acc_bytes q = rest"
    using drain_messages [OF assms(1-4,6,7) ok(1) assms(9)] by blast
  have "dir_ok (core px)" "px_ready (core px)" "length (dir_bytes (core px)) + length (dir_data ms) \<le> EL_PROXY_DIR_RX_CAP"
    using assms(2,5,10,11) by simp_all
  from handle_all_channel [OF this(1,2) ok(2) this(3) q(2)]
  have h: "dir_ok q" "dir_bytes q = stream" "px_ready q" "px_fd q = px_fd px" by (simp_all add: assms(10))
  obtain px' where p: "take_dir buflen q = (take buflen (dir_bytes q), px')" "dir_ok px'" "dir_bytes px' = drop buflen (dir_bytes q)"
    "px_ready px' = px_ready q" "px_fd px' = px_fd q" "rx_acc px' = rx_acc q" "rx_acc_len px' = rx_acc_len q"
    by (rule take_dir_bytes [OF h(1), of buflen])
  have "dir_rx_r q < dir_rx_len q" using dir_bytes_empty [OF h(1)] assms(12) by (simp add: h(2))
  then have "el_proxy_tcp_read now buflen timeout_ms (t # ts) px = Some (int (min (length stream) buflen), take buflen stream, px')"
    using assms(2,3,13) q(1) p(1) h(2) by (simp add: el_proxy_tcp_read_def)
  moreover have "acc_ok px'" "acc_bytes px' = rest" using q(3) h(3) p(6,7) by (simp_all add: acc_ok_def acc_bytes_def)
  ultimately show ?thesis using p(2-5) h by simp
qed

theorem proxy_directory_read_witness:
  "\<exists>px'. el_proxy_tcp_read 0 3 1000 [\<lparr>t_reads = sample_reads, t_now = 0, t_others = id\<rparr>] sample_proxy = Some (3, [10, 20, 30], px')
    \<and> dir_bytes px' = [40] \<and> acc_bytes px' = [5]"
proof -
  let ?t = "\<lparr>t_reads = sample_reads, t_now = 0, t_others = id\<rparr>"
  note o = sample_proxy_ok and m = sample_stream
  have t: "quiet (t_reads ?t)" "acc_bytes sample_proxy @ arrived (t_reads ?t) = concat (List.map encode_msg sample_msgs) @ [5]"
    using o(6) m(1,2) by simp_all
  have s: "[10, 20, 30, 40] = dir_bytes sample_proxy @ dir_data sample_msgs" "length [10, 20, 30, 40 :: u8] \<le> EL_PROXY_DIR_RX_CAP"
    "[10, 20, 30, 40 :: u8] \<noteq> []" "0 < (3 :: nat)"
    using o(7) m(5) by (simp_all add: EL_PROXY_DIR_RX_CAP_def)
  from proxy_directory_read [OF o(1-5) t m(3,4) s, of 0 1000 "[]"] show ?thesis by auto
qed

end
