(* ===== verification/Bridge.thy ===== *)
theory Bridge
  imports Peer_Dmr Peer_Ysf Talker_Alias Dmr_Codec Mode_Conv Ysf_Payload Aliases
    "HOL-Library.Signed_Division" "HOL-Library.Monad_Syntax"
begin

text \<open>
  The voice bridge of \<open>src/bridge.c\<close>: one record for \<open>ysf2dmr_bridge_t\<close> with the globals its callees
  keep (frame converter, link-control codec, FICH codec inside the YSF peer) and the datagrams sent so
  far. What an operation reads from outside is the record \<open>bridge_env\<close>: the clock, the values of
  \<open>rand\<close>, whether \<open>char\<close> is signed, what uninitialised local arrays hold, and (\<open>e_log_tx\<close>) whether
  \<open>dbg_periodic\<close> asks for the log line of a sent frame, because decoding the frame for that line overwrites the
  FICH globals. The clock is read once
  per operation. An \<open>int\<close> or pointer used as a truth value is a \<open>bool\<close>; log lines are left out otherwise. Words in
  packets have the little-endian order of the host. None stands for a call that does not return.
\<close>

section \<open>State\<close>

record timespec =
  tv_sec :: int
  tv_nsec :: int

record bridge_env =
  e_now :: timespec
  e_rand :: "nat \<Rightarrow> u32"
  e_schar :: bool
  e_junk9 :: bytes
  e_junk13 :: bytes
  e_junk32 :: bytes
  e_junk33 :: bytes
  e_junk55 :: bytes
  e_junk155 :: bytes
  e_log_tx :: bool
  e_header_in :: ysf_locals
  e_header_out1 :: ysf_locals
  e_header_out2 :: ysf_locals
  e_channel_out :: ysf_locals

record dmra =
  dr_rf :: int
  dr_blocks :: "bytes list"
  dr_have :: nat
  dr_text :: bytes

datatype wire = To_dmr bytes | To_ysf burst_event

record bridge =
  b_dmr :: dmr_peer
  b_ysf :: ysf_peer
  b_aliases :: "aliases option"
  b_default_ysf_dmrid :: int
  b_stream_id :: u32
  b_seq :: u8
  b_slot_bit :: u8
  b_ysf_fn :: u8
  b_ysf_cnt :: u8
  b_net_src :: bytes
  b_net_dst :: bytes
  b_ysf_rf_id :: int
  b_dmr_voice_frames :: nat
  b_dmr_tx_frames :: nat
  b_dmr_dmrd_other :: nat
  b_ysf_voice_frames :: nat
  b_call_active :: bool
  b_dmr_last_dtype :: u8
  b_dmra :: dmra
  b_last_dmr_tx :: timespec
  b_last_ysf_tx :: timespec
  b_dmr_was_connected :: bool
  b_clear_dynamic_tg :: bool
  ptt_active :: bool
  ptt_phase :: nat
  ptt_voice_frames :: nat
  ptt_tg :: int
  ptt_clearing :: bool
  ptt_start :: timespec
  b_conv :: mode_conv
  b_codec :: dmr_codec
  b_rands :: nat
  b_sent :: "wire list"

definition DMR_FRAME_MS :: int where "DMR_FRAME_MS = 55"
definition YSF_FRAME_MS :: int where "YSF_FRAME_MS = 90"
definition CONNECT_PTT_MS :: int where "CONNECT_PTT_MS = 500"
definition DMR_CLEAR_DYNAMIC_TG :: int where "DMR_CLEAR_DYNAMIC_TG = 4000"

abbreviation (input) YSF_DT_VD_MODE2 :: u8 where "YSF_DT_VD_MODE2 \<equiv> 2"
abbreviation (input) YSF_FI_HEADER :: u8 where "YSF_FI_HEADER \<equiv> 0"
abbreviation (input) YSF_FI_COMMUNICATIONS :: u8 where "YSF_FI_COMMUNICATIONS \<equiv> 1"
abbreviation (input) YSF_FI_TERMINATOR :: u8 where "YSF_FI_TERMINATOR \<equiv> 2"
abbreviation (input) YSF_FICH_FT :: u8 where "YSF_FICH_FT \<equiv> 6"
abbreviation (input) YSF_FICH_CM :: u8 where "YSF_FICH_CM \<equiv> 0"
abbreviation (input) DMRD_FT_DATA_SYNC :: u8 where "DMRD_FT_DATA_SYNC \<equiv> 2"
abbreviation (input) DMRD_FT_VOICE_SYNC :: u8 where "DMRD_FT_VOICE_SYNC \<equiv> 1"
abbreviation (input) DMRD_DTYPE_VHEAD :: u8 where "DMRD_DTYPE_VHEAD \<equiv> 1"
abbreviation (input) DMRD_DTYPE_VTERM :: u8 where "DMRD_DTYPE_VTERM \<equiv> 2"

definition YSF_DCH_DT1 :: bytes where "YSF_DCH_DT1 = [1, 34, 97, 95, 43, 3, 17, 0, 0, 0]"
definition YSF_DCH_DT2 :: bytes where "YSF_DCH_DT2 = [0, 0, 0, 0, 108, 32, 28, 32, 3, 8]"

definition MS_SOURCED_AUDIO_SYNC :: bytes where
  "MS_SOURCED_AUDIO_SYNC = [0x07, 0xF7, 0xD5, 0xDD, 0x57, 0xDF, 0xD0]"

definition DMR_SYNC_MASK :: bytes where
  "DMR_SYNC_MASK = [0x0F, 0xFF, 0xFF, 0xFF, 0xFF, 0xFF, 0xF0]"

definition DMR_SILENCE_DATA :: bytes where
  "DMR_SILENCE_DATA =
     [0xB9, 0xE8, 0x81, 0x52, 0x61, 0x73, 0x00, 0x2A, 0x6B, 0xB9, 0xE8,
      0x81, 0x52, 0x60, 0x00, 0x00, 0x00, 0x00, 0x00, 0x01, 0x73, 0x00,
      0x2A, 0x6B, 0xB9, 0xE8, 0x81, 0x52, 0x61, 0x73, 0x00, 0x2A, 0x6B]"

definition dmr_slot_bit_from_options :: "bytes \<Rightarrow> u8" where
  "dmr_slot_bit_from_options options = 0x80"

text \<open>The codec works on the buffer of the DMR peer.\<close>

definition codec_of :: "bridge \<Rightarrow> dmr_codec" where
  "codec_of b = (b_codec b)\<lparr>hbp_buf := g_buf (b_dmr b)\<rparr>"

definition put_codec :: "dmr_codec \<Rightarrow> bridge \<Rightarrow> bridge" where
  "put_codec c b = b\<lparr>b_codec := c, b_dmr := (b_dmr b)\<lparr>g_buf := hbp_buf c\<rparr>\<rparr>"

definition dmrid_of :: "bridge \<Rightarrow> int" where
  "dmrid_of b = sint (dp_dmrid (b_dmr b))"

section \<open>Time, streams and numbers\<close>

definition ms_since :: "bridge_env \<Rightarrow> timespec \<Rightarrow> int" where
  "ms_since e since =
     (tv_sec (e_now e) - tv_sec since) * 1000 + (tv_nsec (e_now e) - tv_nsec since) sdiv 1000000"

definition ms_elapsed :: "bridge_env \<Rightarrow> timespec \<Rightarrow> int \<Rightarrow> bool" where
  "ms_elapsed e since interval_ms \<longleftrightarrow> interval_ms \<le> ms_since e since"

definition new_stream_id :: "bridge_env \<Rightarrow> bridge \<Rightarrow> u32 \<times> bridge" where
  "new_stream_id e b = (e_rand e (b_rands b) OR 1, b\<lparr>b_rands := b_rands b + 1\<rparr>)"

definition bridge_tx_tg :: "bridge \<Rightarrow> int" where
  "bridge_tx_tg b = (if ptt_active b \<and> 0 < ptt_tg b then ptt_tg b else dp_tg (b_dmr b))"

definition dmrd_parse_b15 :: "u8 \<Rightarrow> u8 \<times> u8" where
  "dmrd_parse_b15 b15 = (drop_bit 4 b15 AND 0x03, b15 AND 0x0F)"

definition dmr_id_rf24 :: "int \<Rightarrow> int" where
  "dmr_id_rf24 dmrid = (if 99999999 < dmrid then dmrid sdiv 100 else dmrid)"

definition int_bytes3 :: "int \<Rightarrow> bytes" where
  "int_bytes3 i =
     (let x = word_of_int i :: u32
      in [ucast (drop_bit 16 x AND 0xFF), ucast (drop_bit 8 x AND 0xFF), ucast (drop_bit 0 x AND 0xFF)])"

definition dmr_id_to_bytes3 :: "int \<Rightarrow> bytes" where
  "dmr_id_to_bytes3 dmrid = int_bytes3 (dmr_id_rf24 dmrid)"

text \<open>A \<open>uint32_t\<close> stored in and read from a packet.\<close>

definition le_bytes :: "u32 \<Rightarrow> bytes" where
  "le_bytes x = [ucast x, ucast (drop_bit 8 x), ucast (drop_bit 16 x), ucast (drop_bit 24 x)]"

definition le_word :: "bytes \<Rightarrow> u32" where
  "le_word b = ucast (b ! 0) OR push_bit 8 (ucast (b ! 1)) OR push_bit 16 (ucast (b ! 2)) OR push_bit 24 (ucast (b ! 3))"

definition be24 :: "bytes \<Rightarrow> nat \<Rightarrow> int" where
  "be24 pkt i = uint (push_bit 16 (ucast (pkt ! i) :: u32) OR push_bit 8 (ucast (pkt ! (i + 1))) OR ucast (pkt ! (i + 2)))"

section \<open>Callsign fields\<close>

fun decimal :: "nat \<Rightarrow> bytes" where
  "decimal n = (if n < 10 then [of_nat (48 + n)] else decimal (n div 10) @ [of_nat (48 + n mod 10)])"

declare decimal.simps [simp del]

definition int_text :: "int \<Rightarrow> bytes" where
  "int_text i = (if i < 0 then of_char CHR ''-'' # decimal (nat (- i)) else decimal (nat i))"

definition blank10 :: bytes where "blank10 = replicate 10 0x20"

definition format_id_callsign10 :: "int \<Rightarrow> bytes" where
  "format_id_callsign10 i = memcpy blank10 0 (take 10 (int_text i))"

definition format_tg_dst10 :: "int \<Rightarrow> bytes" where
  "format_tg_dst10 tg = memcpy blank10 0 (take 10 (ascii ''TG '' @ int_text tg))"

definition digit :: "u8 \<Rightarrow> bool" where
  "digit c \<longleftrightarrow> 0x30 \<le> c \<and> c \<le> 0x39"

definition label_is_numeric_dmrid :: "bytes \<Rightarrow> bool" where
  "label_is_numeric_dmrid cs \<longleftrightarrow> (\<forall>c\<in>set (take 10 cs). c = 0x20 \<or> digit c) \<and> (\<exists>c\<in>set (take 10 cs). digit c)"

text \<open>\<open>atoi\<close> of a string of digits: the C library of the program converts to 64 bits and truncates.\<close>

definition atoi :: "bytes \<Rightarrow> int" where
  "atoi ds = sint (word_of_nat (foldl (\<lambda>v c. 10 * v + (unat c - 48)) 0 ds) :: u32)"

definition callsign10_to_dmrid :: "bytes \<Rightarrow> int" where
  "callsign10_to_dmrid cs = (if \<not> label_is_numeric_dmrid cs then 0 else atoi (filter digit (take 10 cs)))"

definition dbg_label10 :: "bytes \<Rightarrow> bytes" where
  "dbg_label10 raw = List.map (\<lambda>c. if 32 \<le> c \<and> c < 127 then c else of_char CHR ''.'') (take 10 raw)"

definition call_end :: "u8 \<Rightarrow> bool" where
  "call_end c \<longleftrightarrow> c = of_char CHR ''-'' \<or> c = of_char CHR ''/''"

definition ysf_callsign_base10 :: "bytes \<Rightarrow> bytes" where
  "ysf_callsign_base10 src10 =
     (let s = takeWhile (\<lambda>c. c \<noteq> 0x20 \<and> c \<noteq> 0 \<and> \<not> call_end c) (take 10 src10)
      in if s = [] then ascii ''N0CALL'' else List.map toupper s)"

definition ysf_callsign_base_src :: "bytes \<Rightarrow> bytes" where
  "ysf_callsign_base_src src = ysf_callsign_base10 (memcpy blank10 0 (take 10 src))"

definition format_ysf_callsign10 :: "bytes \<Rightarrow> bytes" where
  "format_ysf_callsign10 src =
     memcpy blank10 0 (List.map toupper (take 10 (filter (\<lambda>c. c \<noteq> 0x20 \<and> c \<noteq> 9) (takeWhile (\<lambda>c. \<not> call_end c) src))))"

section \<open>Frames of the YSF network\<close>

definition ysf_pkt_has_rf_sync :: "bytes \<Rightarrow> bool" where
  "ysf_pkt_has_rf_sync pkt155 \<longleftrightarrow> sub_buf pkt155 YSF_FICH_OFFSET_NET 5 = YSF_SYNC_WORD"

definition ysf_net_to_rf120 :: "bytes \<Rightarrow> bytes" where
  "ysf_net_to_rf120 pkt155 =
     (let rf120 = replicate 120 0;
          rf120 = memcpy rf120 0 YSF_SYNC_WORD
      in memcpy rf120 5 (sub_buf pkt155 YSF_FICH_OFFSET_NET 115))"

definition ysf_modeconv_chunk :: "bytes \<Rightarrow> bytes" where
  "ysf_modeconv_chunk pkt155 =
     (if ysf_pkt_has_rf_sync pkt155 then drop YSF_FICH_OFFSET_NET pkt155 else ysf_net_to_rf120 pkt155)"

section \<open>Who is talking\<close>

definition bridge_find_ysf_dmrid :: "bytes \<Rightarrow> bridge \<Rightarrow> int" where
  "bridge_find_ysf_dmrid base_cs b =
     (let i = (case b_aliases b of None \<Rightarrow> 0 | Some a \<Rightarrow> alias_lookup_id a base_cs)
      in if 0 < i then i else 0)"

definition bridge_assign_ysf_talker :: "bytes \<Rightarrow> bridge \<Rightarrow> bool \<times> bridge" where
  "bridge_assign_ysf_talker src b =
     (let base = ysf_callsign_base_src src;
          talker = format_ysf_callsign10 base;
          b = b\<lparr>b_net_src := talker\<rparr>;
          i = callsign10_to_dmrid talker;
          i = (if i \<le> 0 then bridge_find_ysf_dmrid base b else i)
      in if 0 < i then (True, b\<lparr>b_ysf_rf_id := i\<rparr>)
         else if 0 < dmrid_of b
         then (True, b\<lparr>b_net_src := take 10 (dp_callsign (b_dmr b)), b_ysf_rf_id := dmrid_of b\<rparr>)
         else (False, b))"

definition bridge_wire_src_fallback :: "bytes \<Rightarrow> bridge \<Rightarrow> bool \<times> bridge" where
  "bridge_wire_src_fallback pkt b = bridge_assign_ysf_talker (dbg_label10 (drop 14 pkt)) b"

text \<open>The two readings of the frame are tried in turn.\<close>

fun try_headers :: "bridge_env \<Rightarrow> bytes list \<Rightarrow> bridge \<Rightarrow> (bool \<times> bridge) option" where
  "try_headers e [] b = Some (False, b)"
| "try_headers e (rf # tries) b = do {
     (ok, csd_src, csd_dst, rf) \<leftarrow> ysf_payload_process_header (e_header_in e) (take 120 rf);
     if \<not> ok then try_headers e tries b
     else let (found, b) = bridge_assign_ysf_talker (c_str csd_src) b
          in if found then Some (True, b) else try_headers e tries b
   }"

definition bridge_resolve_ysf_header :: "bridge_env \<Rightarrow> bytes \<Rightarrow> bridge \<Rightarrow> (bool \<times> bridge) option" where
  "bridge_resolve_ysf_header e pkt b = do {
     (found, b) \<leftarrow> try_headers e [ysf_modeconv_chunk pkt, drop YSF_FICH_OFFSET_NET pkt] b;
     Some (if found then (True, b) else bridge_wire_src_fallback pkt b)
   }"

definition bridge_ysf_talker_ready :: "bridge \<Rightarrow> bool" where
  "bridge_ysf_talker_ready b \<longleftrightarrow> 0 < b_ysf_rf_id b \<or> 0 < dmrid_of b"

text \<open>The ids that stand for the source of a DMR packet, in the order in which they are looked up.\<close>

definition lookup_ids :: "int \<Rightarrow> int list" where
  "lookup_ids rf =
     [rf] @ (if 9999999 < rf then [rf div 100] else []) @
     (if 10000 \<le> rf \<and> rf \<le> 99999 then List.map (\<lambda>i. rf * 100 + int i) [0..<100] else [])"

fun try_lookups :: "aliases \<Rightarrow> int list \<Rightarrow> bytes \<Rightarrow> bool \<times> bytes" where
  "try_lookups a [] buf = (False, buf)"
| "try_lookups a (i # ids) buf =
     (let (found, buf) = alias_lookup_callsign a i buf
      in if found then (True, buf) else try_lookups a ids buf)"

definition bridge_lookup_dmr_callsign :: "int \<Rightarrow> bytes \<Rightarrow> bridge \<Rightarrow> bool \<times> bytes" where
  "bridge_lookup_dmr_callsign rf buf b =
     (case b_aliases b of
        None \<Rightarrow> (False, buf)
      | Some a \<Rightarrow> if rf \<le> 0 then (False, buf) else try_lookups a (lookup_ids rf) buf)"

definition bridge_resolve_dmr_to_ysf_identity :: "int \<Rightarrow> int \<Rightarrow> bridge \<Rightarrow> bridge" where
  "bridge_resolve_dmr_to_ysf_identity rf dst b =
     (let (found, src) = bridge_lookup_dmr_callsign rf (b_net_src b) b;
          b = b\<lparr>b_net_src := if found then src else format_id_callsign10 rf\<rparr>
      in if 0 < dst then b\<lparr>b_net_dst := format_tg_dst10 dst\<rparr> else b)"

definition bridge_set_dmr_rx_identity :: "bytes \<Rightarrow> bridge \<Rightarrow> bridge" where
  "bridge_set_dmr_rx_identity pkt = bridge_resolve_dmr_to_ysf_identity (be24 pkt 5) (be24 pkt 8)"

definition dmra_zero :: dmra where
  "dmra_zero = \<lparr>dr_rf = 0, dr_blocks = replicate 4 (replicate 7 0), dr_have = 0, dr_text = replicate 32 0\<rparr>"

definition bridge_on_dmra :: "bridge_env \<Rightarrow> bytes \<Rightarrow> bridge \<Rightarrow> bridge option" where
  "bridge_on_dmra e pkt b =
     (case dmra_parse_packet pkt of
        None \<Rightarrow> Some b
      | Some (rf, block_id, payload7) \<Rightarrow>
          let d = (if dr_rf (b_dmra b) \<noteq> 0 \<and> dr_rf (b_dmra b) \<noteq> rf then dmra_zero else b_dmra b);
              d = d\<lparr>dr_rf := rf, dr_blocks := (dr_blocks d)[block_id := payload7],
                    dr_have := dr_have d OR push_bit block_id 1\<rparr>
          in do {
            (ok, decoded) \<leftarrow> dmra_decode_blocks (e_schar e) (dr_blocks d) (dr_have d) (e_junk32 e);
            Some (b\<lparr>b_dmra := if ok then d\<lparr>dr_text := (strncpy (dr_text d) (c_str decoded) 31)[31 := 0]\<rparr> else d\<rparr>)
          })"

section \<open>Calls\<close>

definition bridge_reset_call :: "bridge \<Rightarrow> bridge" where
  "bridge_reset_call b =
     b\<lparr>b_call_active := False, b_dmr_voice_frames := 0, b_dmr_tx_frames := 0, b_dmr_dmrd_other := 0,
       b_ysf_voice_frames := 0, b_ysf_rf_id := 0, b_ysf_cnt := 0, b_dmr_last_dtype := 0,
       b_dmra := dmra_zero, b_net_src := blank10, b_net_dst := blank10,
       b_conv := modeconv_reset (b_conv b)\<rparr>"

text \<open>\<open>bridge_init\<close>: the structure with its two peers is zeroed, the globals of the callees are not.\<close>

definition dmr_peer_zero :: "dmr_peer \<Rightarrow> dmr_peer" where
  "dmr_peer_zero p =
     p\<lparr>dp_sock := 0, dp_peer := 0, dp_callsign := replicate 10 0, dp_dmrid := 0, dp_tg := 0, dp_options := replicate 128 0,
       dp_password := replicate 64 0, dp_description := replicate 20 0, dp_location := replicate 21 0,
       dp_software_id := replicate 41 0, dp_package_id := replicate 41 0, dp_slots := 0, dp_status := DISCONNECTED,
       dp_login_phase := 0, dp_login_fail_until := 0, dp_buf := replicate 2048 0\<rparr>"

definition ysf_peer_zero :: "ysf_peer \<Rightarrow> ysf_peer" where
  "ysf_peer_zero p =
     p\<lparr>yp_sock := 0, yp_peer := 0, yp_callsign := replicate 10 0, yp_dgid := 0, yp_linked := False,
       yp_reconnect_pending := False, yp_last_rx := 0, yp_buf := replicate 2048 0\<rparr>"

definition bridge_init :: "bridge_env \<Rightarrow> bytes \<Rightarrow> aliases option \<Rightarrow> int \<Rightarrow> bool \<Rightarrow> bridge \<Rightarrow> bridge" where
  "bridge_init e dmr_options al default_ysf_dmrid clear_dynamic_tg b =
     \<lparr>b_dmr = dmr_peer_zero (b_dmr b), b_ysf = ysf_peer_zero (b_ysf b), b_aliases = al,
      b_default_ysf_dmrid = default_ysf_dmrid, b_stream_id = 0, b_seq = 0,
      b_slot_bit = dmr_slot_bit_from_options dmr_options, b_ysf_fn = 0, b_ysf_cnt = 0,
      b_net_src = blank10, b_net_dst = ascii ''ALL       '', b_ysf_rf_id = 0,
      b_dmr_voice_frames = 0, b_dmr_tx_frames = 0, b_dmr_dmrd_other = 0, b_ysf_voice_frames = 0,
      b_call_active = False, b_dmr_last_dtype = 0, b_dmra = dmra_zero,
      b_last_dmr_tx = e_now e, b_last_ysf_tx = e_now e,
      b_dmr_was_connected = False, b_clear_dynamic_tg = clear_dynamic_tg, ptt_active = False, ptt_phase = 0,
      ptt_voice_frames = 0, ptt_tg = 0, ptt_clearing = False, ptt_start = \<lparr>tv_sec = 0, tv_nsec = 0\<rparr>,
      b_conv = modeconv_init (b_conv b), b_codec = b_codec b, b_rands = b_rands b, b_sent = b_sent b\<rparr>"

section \<open>Sending DMR\<close>

definition tx_header :: "u8 \<Rightarrow> int \<Rightarrow> bridge \<Rightarrow> bytes" where
  "tx_header frame_type rf_id b =
     ascii ''DMRD'' @ [b_seq b] @ dmr_id_to_bytes3 rf_id @ int_bytes3 (bridge_tx_tg b) @
     be_bytes (dp_dmrid (b_dmr b)) @ [frame_type] @ le_bytes (b_stream_id b)"

definition set_audio_sync :: "bytes \<Rightarrow> bytes" where
  "set_audio_sync pkt =
     fold (\<lambda>i pkt. pkt[20 + 13 + i := (pkt ! (20 + 13 + i) AND NOT (DMR_SYNC_MASK ! i)) OR MS_SOURCED_AUDIO_SYNC ! i]) [0..<7] pkt"

text \<open>The payload of a packet; bytes 53 and 54 stay as they are.\<close>

definition fill_burst :: "u8 \<Rightarrow> bytes option \<Rightarrow> bytes \<Rightarrow> dmr_codec \<Rightarrow> (bytes \<times> dmr_codec) option" where
  "fill_burst frame_type voice33 pkt c =
     (if drop_bit 4 frame_type AND 0x03 = DMRD_FT_DATA_SYNC
      then do {
        c \<leftarrow> generate_header c;
        Some (memcpy pkt 20 (sub_buf (hbp_buf c) 20 33), c)
      }
      else case voice33 of
        None \<Rightarrow> Some (memset pkt 20 0 33, c)
      | Some v \<Rightarrow>
          let pkt = memcpy pkt 20 v
          in if drop_bit 4 frame_type AND 0x03 = DMRD_FT_VOICE_SYNC
             then Some (set_audio_sync pkt, encode_embedded_data c)
             else let c = c\<lparr>hbp_buf := memcpy (hbp_buf c) 20 (sub_buf pkt 20 33)\<rparr>;
                      (lcss, data) = get_embedded_data (drop 20 (hbp_buf c)) (unat (frame_type AND 0x0F)) c;
                      data = get_emb_data data (of_nat lcss);
                      c = c\<lparr>hbp_buf := take 20 (hbp_buf c) @ data\<rparr>
                  in Some (memcpy pkt 20 (sub_buf (hbp_buf c) 20 33), c))"

definition bridge_send_dmrd :: "bridge_env \<Rightarrow> u8 \<Rightarrow> bytes option \<Rightarrow> bridge \<Rightarrow> bridge option" where
  "bridge_send_dmrd e frame_type voice33 b =
     (let rf_id = (if 0 < b_ysf_rf_id b then b_ysf_rf_id b else dmrid_of b)
      in if rf_id \<le> 0 then Some b
         else let pkt = memcpy (e_junk55 e) 0 (tx_header frame_type rf_id b);
                  b = b\<lparr>b_seq := b_seq b + 1\<rparr>;
                  c = (codec_of b)\<lparr>tx_tgid := word_of_int (bridge_tx_tg b)\<rparr>;
                  c = c\<lparr>hbp_buf := memcpy (hbp_buf c) 0 pkt, rx_srcid := word_of_int (dmr_id_rf24 rf_id)\<rparr>
              in do {
                (pkt, c) \<leftarrow> fill_burst frame_type voice33 pkt c;
                let b = put_codec c b;
                Some (b\<lparr>b_sent := b_sent b @ List.map To_dmr (peer_dmr_send pkt), b_last_dmr_tx := e_now e\<rparr>)
              })"

primrec send_times :: "nat \<Rightarrow> (bridge \<Rightarrow> bridge option) \<Rightarrow> bridge \<Rightarrow> bridge option" where
  "send_times 0 f b = Some b"
| "send_times (Suc n) f b = Option.bind (f b) (send_times n f)"

section \<open>The key-up after a connection\<close>

definition VHEAD_B15 :: "bridge \<Rightarrow> u8" where
  "VHEAD_B15 b = b_slot_bit b OR push_bit 4 DMRD_FT_DATA_SYNC OR DMRD_DTYPE_VHEAD"

definition VTERM_B15 :: "bridge \<Rightarrow> u8" where
  "VTERM_B15 b = b_slot_bit b OR push_bit 4 DMRD_FT_DATA_SYNC OR DMRD_DTYPE_VTERM"

text \<open>Byte 15 of voice frame number n: the first of six carries the voice sync.\<close>

definition voice_b15 :: "bridge \<Rightarrow> nat \<Rightarrow> u8" where
  "voice_b15 b frames =
     (let n = of_nat (frames mod 6)
      in if n = 0 then b_slot_bit b OR push_bit 4 DMRD_FT_VOICE_SYNC else b_slot_bit b OR n)"

definition bridge_connect_ptt_begin_stream :: "bridge_env \<Rightarrow> int \<Rightarrow> bool \<Rightarrow> bridge \<Rightarrow> bridge" where
  "bridge_connect_ptt_begin_stream e tg clearing b =
     (let b = b\<lparr>ptt_active := True, ptt_phase := 0, ptt_voice_frames := 0, ptt_tg := tg, ptt_clearing := clearing\<rparr>;
          (sid, b) = new_stream_id e b
      in b\<lparr>b_stream_id := sid, b_seq := 0, ptt_start := e_now e, b_last_dmr_tx := (e_now e)\<lparr>tv_sec := 0\<rparr>\<rparr>)"

definition ptt_clear :: "bridge \<Rightarrow> bridge" where
  "ptt_clear b = b\<lparr>ptt_active := False, ptt_phase := 0, ptt_voice_frames := 0, ptt_tg := 0, ptt_clearing := False\<rparr>"

text \<open>Silence up to the end of the superframe.\<close>

partial_function (option) ptt_pad :: "bridge_env \<Rightarrow> bridge \<Rightarrow> bridge option" where
  [code]: "ptt_pad e b =
     (if ptt_voice_frames b mod 6 \<noteq> 0
      then Option.bind (bridge_send_dmrd e (b_slot_bit b OR of_nat (ptt_voice_frames b mod 6)) (Some DMR_SILENCE_DATA) b)
             (\<lambda>b. ptt_pad e (b\<lparr>ptt_voice_frames := ptt_voice_frames b + 1\<rparr>))
      else Some b)"

definition bridge_connect_ptt_finish :: "bridge_env \<Rightarrow> bridge \<Rightarrow> bridge option" where
  "bridge_connect_ptt_finish e b =
     (let was_clearing = ptt_clearing b
      in do {
        b \<leftarrow> ptt_pad e b;
        b \<leftarrow> bridge_send_dmrd e (VTERM_B15 b) (Some DMR_SILENCE_DATA) b;
        Some (if was_clearing \<and> 0 < dp_tg (b_dmr b)
              then bridge_connect_ptt_begin_stream e (dp_tg (b_dmr b)) False b
              else ptt_clear b)
      })"

definition bridge_abort_connect_ptt :: "bridge_env \<Rightarrow> bridge \<Rightarrow> bridge option" where
  "bridge_abort_connect_ptt e b =
     (if \<not> ptt_active b then Some b
      else if 0 < ptt_phase b then bridge_connect_ptt_finish e (b\<lparr>ptt_clearing := False\<rparr>)
      else Some (ptt_clear b))"

definition bridge_start_connect_ptt :: "bridge_env \<Rightarrow> bridge \<Rightarrow> bridge" where
  "bridge_start_connect_ptt e b =
     (if b_call_active b \<or> ptt_active b then b
      else if dp_tg (b_dmr b) \<le> 0 then b
      else if b_clear_dynamic_tg b then bridge_connect_ptt_begin_stream e DMR_CLEAR_DYNAMIC_TG True b
      else bridge_connect_ptt_begin_stream e (dp_tg (b_dmr b)) False b)"

definition bridge_emit_connect_ptt :: "bridge_env \<Rightarrow> bridge \<Rightarrow> bridge option" where
  "bridge_emit_connect_ptt e b =
     (if \<not> ptt_active b then Some b
      else if ptt_phase b = 0
      then do {
        b \<leftarrow> send_times 3 (\<lambda>b. bridge_send_dmrd e (VHEAD_B15 b) None b) b;
        Some (b\<lparr>ptt_phase := 1, ptt_start := e_now e\<rparr>)
      }
      else if CONNECT_PTT_MS \<le> ms_since e (ptt_start b) then bridge_connect_ptt_finish e b
      else do {
        b \<leftarrow> bridge_send_dmrd e (voice_b15 b (ptt_voice_frames b)) (Some DMR_SILENCE_DATA) b;
        Some (b\<lparr>ptt_voice_frames := ptt_voice_frames b + 1\<rparr>)
      })"

definition bridge_poll_connect_ptt :: "bridge_env \<Rightarrow> bridge \<Rightarrow> bridge option" where
  "bridge_poll_connect_ptt e b =
     (let connected = peer_dmr_connected (b_dmr b);
          b = (if connected \<and> \<not> b_dmr_was_connected b then bridge_start_connect_ptt e b else b);
          b = (if \<not> connected then ptt_clear b else b);
          b = b\<lparr>b_dmr_was_connected := connected\<rparr>
      in if ptt_active b \<and> ms_elapsed e (b_last_dmr_tx b) DMR_FRAME_MS then bridge_emit_connect_ptt e b else Some b)"

section \<open>Receiving DMR\<close>

definition is_dmrd :: "bytes \<Rightarrow> bool" where
  "is_dmrd pkt \<longleftrightarrow> length pkt = 55 \<and> take 4 pkt = ascii ''DMRD''"

definition dmrd_is_voice :: "bytes \<Rightarrow> bool" where
  "dmrd_is_voice pkt \<longleftrightarrow> is_dmrd pkt \<and> pkt ! 15 AND 0x40 = 0 \<and> fst (dmrd_parse_b15 (pkt ! 15)) \<le> 1"

definition dmrd_is_header :: "bytes \<Rightarrow> bool" where
  "dmrd_is_header pkt \<longleftrightarrow> is_dmrd pkt \<and> pkt ! 15 AND 0x40 = 0 \<and>
     dmrd_parse_b15 (pkt ! 15) = (DMRD_FT_DATA_SYNC, DMRD_DTYPE_VHEAD)"

definition dmrd_is_terminator :: "bytes \<Rightarrow> bool" where
  "dmrd_is_terminator pkt \<longleftrightarrow> is_dmrd pkt \<and> dmrd_parse_b15 (pkt ! 15) = (DMRD_FT_DATA_SYNC, DMRD_DTYPE_VTERM)"

definition dmrd_b15_dtype :: "bytes \<Rightarrow> u8" where
  "dmrd_b15_dtype pkt = snd (dmrd_parse_b15 (pkt ! 15))"

definition pkt_stream :: "bytes \<Rightarrow> u32" where
  "pkt_stream pkt = le_word (drop 16 pkt)"

definition bridge_begin_dmr_to_ysf :: "bridge_env \<Rightarrow> bytes \<Rightarrow> bridge \<Rightarrow> bridge" where
  "bridge_begin_dmr_to_ysf e pkt b =
     (let b = b\<lparr>b_call_active := True, b_stream_id := pkt_stream pkt\<rparr>;
          b = (if b_stream_id b = 0 then let (sid, b) = new_stream_id e b in b\<lparr>b_stream_id := sid\<rparr> else b);
          b = b\<lparr>b_seq := 0, b_dmr_voice_frames := 0, b_dmr_tx_frames := 0, b_dmr_dmrd_other := 0,
                b_ysf_fn := 0, b_ysf_cnt := 0, b_conv := modeconv_reset (b_conv b)\<rparr>
      in bridge_set_dmr_rx_identity pkt b)"

definition bridge_on_dmrd :: "bridge_env \<Rightarrow> bytes \<Rightarrow> bridge \<Rightarrow> bridge" where
  "bridge_on_dmrd e pkt b =
     (if \<not> is_dmrd pkt then b
      else if dmrd_is_header pkt
      then let stream = pkt_stream pkt;
               b = (if \<not> b_call_active b \<or> (stream \<noteq> 0 \<and> stream \<noteq> b_stream_id b)
                    then bridge_begin_dmr_to_ysf e pkt b
                    else bridge_set_dmr_rx_identity pkt b);
               b = (if DMRD_DTYPE_VHEAD \<noteq> b_dmr_last_dtype b then b\<lparr>b_conv := modeconv_put_dmr_header (b_conv b)\<rparr> else b)
           in b\<lparr>b_dmr_last_dtype := DMRD_DTYPE_VHEAD\<rparr>
      else if dmrd_is_terminator pkt
      then let b = (if b_call_active b then b\<lparr>b_conv := modeconv_put_dmr_eot (b_conv b)\<rparr> else b)
           in b\<lparr>b_dmr_last_dtype := DMRD_DTYPE_VTERM\<rparr>
      else if dmrd_is_voice pkt
      then let b = (if \<not> b_call_active b
                    then let b = (bridge_begin_dmr_to_ysf e pkt b)\<lparr>b_seq := pkt ! 4\<rparr>
                         in b\<lparr>b_conv := modeconv_put_dmr_header (b_conv b)\<rparr>
                    else b)
           in b\<lparr>b_conv := modeconv_put_dmr_voice (take 33 (drop 20 pkt)) (b_conv b),
                b_dmr_voice_frames := b_dmr_voice_frames b + 1, b_dmr_last_dtype := dmrd_b15_dtype pkt\<rparr>
      else if b_call_active b then b\<lparr>b_dmr_dmrd_other := b_dmr_dmrd_other b + 1\<rparr>
      else b)"

section \<open>From the converter to DMR\<close>

partial_function (option) eot_pad :: "bridge_env \<Rightarrow> bridge \<Rightarrow> bridge option" where
  [code]: "eot_pad e b =
     (if b_dmr_tx_frames b mod 6 \<noteq> 0
      then Option.bind (bridge_send_dmrd e (b_slot_bit b OR of_nat (b_dmr_tx_frames b mod 6)) (Some DMR_SILENCE_DATA) b)
             (\<lambda>b. eot_pad e (b\<lparr>b_dmr_tx_frames := b_dmr_tx_frames b + 1\<rparr>))
      else Some b)"

definition bridge_emit_dmr_from_conv :: "bridge_env \<Rightarrow> bridge \<Rightarrow> bridge option" where
  "bridge_emit_dmr_from_conv e b =
     (let (tag, voice, conv) = modeconv_get_dmr (e_junk9 e) (e_junk33 e) (b_conv b);
          b = b\<lparr>b_conv := conv\<rparr>
      in if tag = TAG_NODATA then Some b
         else if tag = TAG_HEADER then send_times 3 (\<lambda>b. bridge_send_dmrd e (VHEAD_B15 b) None b) b
         else if tag = TAG_EOT
         then do {
           b \<leftarrow> eot_pad e b;
           b \<leftarrow> bridge_send_dmrd e (VTERM_B15 b) (Some voice) b;
           Some (bridge_reset_call b)
         }
         else if tag = TAG_DATA
         then do {
           b \<leftarrow> bridge_send_dmrd e (voice_b15 b (b_dmr_tx_frames b)) (Some voice) b;
           Some (b\<lparr>b_dmr_tx_frames := b_dmr_tx_frames b + 1\<rparr>)
         }
         else Some b)"

section \<open>From the converter to YSF\<close>

definition radio_id_to_dch5 :: bytes where
  "radio_id_to_dch5 = replicate 5 (of_char CHR ''*'')"

definition bridge_fill_ysf_csd :: "bridge \<Rightarrow> bytes \<times> bytes" where
  "bridge_fill_ysf_csd b =
     (replicate 5 (of_char CHR ''*'') @ radio_id_to_dch5 @ b_net_src b, replicate 20 0x20)"

definition ysf_dch :: "u8 \<Rightarrow> bridge \<Rightarrow> bytes" where
  "ysf_dch fn b =
     (if fn = 0 then replicate 5 (of_char CHR ''*'') @ radio_id_to_dch5
      else if fn = 1 then b_net_src b
      else if fn = 2 then b_net_dst b
      else if fn = 5 then replicate 5 0x20 @ radio_id_to_dch5
      else if fn = 6 then YSF_DCH_DT1
      else if fn = 7 then YSF_DCH_DT2
      else replicate 10 0x20)"

definition bridge_apply_ysf_dch_slot :: "bridge_env \<Rightarrow> bytes \<Rightarrow> u8 \<Rightarrow> bridge \<Rightarrow> bytes" where
  "bridge_apply_ysf_dch_slot e payload fn b = ysf_payload_write_vd_mode2_dch (e_channel_out e) payload (ysf_dch fn b)"

definition bridge_fill_ysfd_headers :: "bytes \<Rightarrow> bridge \<Rightarrow> bytes" where
  "bridge_fill_ysfd_headers frame b =
     (let frame = memcpy frame 0 (ascii ''YSFD'');
          frame = memcpy frame 4 (take 10 (yp_callsign (b_ysf b)));
          frame = memcpy frame 14 (b_net_src b);
          frame = memcpy frame 24 (ascii ''ALL       '')
      in frame[34 := 0])"

text \<open>\<open>csds\<close> are the two header blocks where the code passes them.\<close>

definition bridge_send_ysfd :: "bridge_env \<Rightarrow> u8 \<Rightarrow> u8 \<Rightarrow> u8 \<Rightarrow> u8 \<Rightarrow> u8 \<Rightarrow> bytes \<Rightarrow> (bytes \<times> bytes) option \<Rightarrow> bridge \<Rightarrow> bridge option" where
  "bridge_send_ysfd e fi ft cm fich_fn net_cnt payload120 csds b =
     (let frame = (bridge_fill_ysfd_headers (e_junk155 e) b)[34 := net_cnt];
          (g, frame) =
            (if fi = YSF_FI_HEADER \<or> fi = YSF_FI_TERMINATOR
             then let frame = memset frame 35 0 120;
                      frame = memcpy frame 35 YSF_SYNC_WORD;
                      (g, fich) = ysf_fich_encode_outbound (drop 40 frame) fich_fn fi ft cm (yp_fich (b_ysf b));
                      frame = take 40 frame @ fich
                  in (g, case csds of
                           None \<Rightarrow> frame
                         | Some (csd1, csd2) \<Rightarrow>
                             take 35 frame @ ysf_payload_write_header (e_header_out1 e) (e_header_out2 e) (drop 35 frame) csd1 csd2)
             else let frame = memcpy frame 35 payload120;
                      frame = memcpy frame 35 YSF_SYNC_WORD;
                      frame = take 35 frame @ bridge_apply_ysf_dch_slot e (drop 35 frame) fich_fn b;
                      (g, fich) = ysf_fich_encode_outbound (drop 40 frame) fich_fn fi ft cm (yp_fich (b_ysf b))
                  in (g, take 40 frame @ fich))
      in do {
        (y, frame, sent) \<leftarrow> peer_ysf_send_ysfd frame 155 ((b_ysf b)\<lparr>yp_fich := g\<rparr>);
        let b = b\<lparr>b_ysf := y, b_sent := b_sent b @ List.map To_ysf sent, b_ysf_fn := b_ysf_fn b + 2, b_last_ysf_tx := e_now e\<rparr>;
        let log_tx = (fi = YSF_FI_HEADER \<or> fi = YSF_FI_TERMINATOR \<or> (fi = YSF_FI_COMMUNICATIONS \<and> fich_fn \<le> 1) \<or> e_log_tx e);
        if log_tx then do {
          (g, _) \<leftarrow> ysf_fich_decode_fields frame (yp_fich y);
          Some (b\<lparr>b_ysf := y\<lparr>yp_fich := g\<rparr>\<rparr>)
        } else Some b
      })"

definition bridge_emit_ysf_from_conv :: "bridge_env \<Rightarrow> bridge \<Rightarrow> (bool \<times> bridge) option" where
  "bridge_emit_ysf_from_conv e b =
     (let (tag, payload, conv) = modeconv_get_ysf (replicate 120 0) (b_conv b);
          b = b\<lparr>b_conv := conv\<rparr>
      in if tag = TAG_NODATA then Some (False, b)
         else if tag = TAG_HEADER
         then let b = b\<lparr>b_ysf_cnt := 0\<rparr>
              in do {
                b \<leftarrow> bridge_send_ysfd e YSF_FI_HEADER YSF_FICH_FT YSF_FICH_CM 0 0 [] (Some (bridge_fill_ysf_csd b)) b;
                Some (True, b\<lparr>b_ysf_cnt := 1\<rparr>)
              }
         else if tag = TAG_EOT
         then do {
           b \<leftarrow> bridge_send_ysfd e YSF_FI_TERMINATOR YSF_FICH_FT YSF_FICH_CM 0 (b_ysf_cnt b) [] (Some (bridge_fill_ysf_csd b)) b;
           Some (True, bridge_reset_call b)
         }
         else if tag = TAG_DATA
         then let fn = ucast ((ucast (b_ysf_cnt b) - 1 :: u32) mod (ucast YSF_FICH_FT + 1));
                  net = push_bit 1 (b_ysf_cnt b AND 0x7F)
              in do {
                b \<leftarrow> bridge_send_ysfd e YSF_FI_COMMUNICATIONS YSF_FICH_FT YSF_FICH_CM fn net payload None b;
                Some (True, b\<lparr>b_ysf_cnt := b_ysf_cnt b + 1\<rparr>)
              }
         else Some (False, b))"

section \<open>Receiving YSF\<close>

text \<open>The start of a call from the YSF side; a voice frame also restarts the count of voice frames.\<close>

definition start_ysf_call :: "bridge_env \<Rightarrow> bytes \<Rightarrow> bool \<Rightarrow> bridge \<Rightarrow> bridge option" where
  "start_ysf_call e pkt voice b = do {
     b \<leftarrow> bridge_abort_connect_ptt e b;
     let (sid, b) = new_stream_id e (b\<lparr>b_call_active := True\<rparr>);
     let b = b\<lparr>b_stream_id := sid, b_seq := 0, b_dmr_tx_frames := 0, b_dmr_voice_frames := 0\<rparr>;
     let b = (if voice then b\<lparr>b_ysf_voice_frames := 0\<rparr> else b);
     Some (b\<lparr>b_ysf_fn := pkt ! 48, b_conv := modeconv_reset (b_conv b)\<rparr>)
   }"

definition bridge_on_ysfd :: "bridge_env \<Rightarrow> bytes \<Rightarrow> bridge \<Rightarrow> bridge option" where
  "bridge_on_ysfd e pkt b =
     (if length pkt \<noteq> 155 \<or> take 4 pkt \<noteq> ascii ''YSFD'' then Some b
      else do {
        (g, f) \<leftarrow> ysf_fich_decode_fields pkt (yp_fich (b_ysf b));
        let b = b\<lparr>b_ysf := (b_ysf b)\<lparr>yp_fich := g\<rparr>\<rparr>;
        let rx_dgid = ysf_fich_get_dgid g;
        if 1 \<le> yp_dgid (b_ysf b) \<and> 1 \<le> rx_dgid \<and> rx_dgid \<noteq> yp_dgid (b_ysf b) then Some b
        else if f_fi f = YSF_FI_HEADER
        then do {
          (found, b) \<leftarrow> bridge_resolve_ysf_header e pkt b;
          if \<not> found \<or> \<not> bridge_ysf_talker_ready b then Some b
          else do {
            b \<leftarrow> (if \<not> b_call_active b then start_ysf_call e pkt False b else Some b);
            Some (b\<lparr>b_conv := modeconv_put_ysf_header (b_conv b)\<rparr>)
          }
        }
        else if f_fi f = YSF_FI_TERMINATOR
        then Some (if b_call_active b then b\<lparr>b_conv := modeconv_put_ysf_eot (b_conv b)\<rparr> else b)
        else if f_fi f = YSF_FI_COMMUNICATIONS
        then if \<not> bridge_ysf_talker_ready b then Some b
             else do {
               b \<leftarrow> (if \<not> b_call_active b then start_ysf_call e pkt True b else Some b);
               Some (b\<lparr>b_conv := modeconv_put_ysf_payload (e_junk13 e) (e_junk9 e) (ysf_modeconv_chunk pkt) (b_conv b),
                       b_ysf_voice_frames := b_ysf_voice_frames b + 1\<rparr>)
             }
        else Some b
      })"

section \<open>The tick\<close>

definition bridge_tick :: "bridge_env \<Rightarrow> bridge \<Rightarrow> bridge option" where
  "bridge_tick e b = do {
     b \<leftarrow> bridge_poll_connect_ptt e b;
     if \<not> peer_dmr_connected (b_dmr b) \<or> \<not> peer_ysf_linked (b_ysf b) then Some b
     else do {
       b \<leftarrow> (if \<not> ptt_active b \<and> ms_elapsed e (b_last_dmr_tx b) DMR_FRAME_MS then bridge_emit_dmr_from_conv e b else Some b);
       if ms_elapsed e (b_last_ysf_tx b) YSF_FRAME_MS then map_option snd (bridge_emit_ysf_from_conv e b) else Some b
     }
   }"

end
