(* ===== verification/Bridge_Tx.thy ===== *)
theory Bridge_Tx
  imports Bridge Dmr_Header Dmr_Embedded Mode_Conv_Props
begin

text \<open>
  What \<open>bridge_send_dmrd\<close> puts on the wire: the packet of a burst, the state it leaves, and what a
  receiver reads from the payload of a header, of a burst with voice sync and of a burst with a
  fragment of the embedded link control.
\<close>

section \<open>The voice of a burst\<close>

text \<open>Two bursts that differ at most in the 48 bits in the middle, which carry sync or signalling.\<close>

definition same_voice :: "bytes \<Rightarrow> bytes \<Rightarrow> bool" where
  "same_voice p q \<longleftrightarrow> length p = 33 \<and> length q = 33 \<and> (\<forall>i<264. i < 108 \<or> 156 \<le> i \<longrightarrow> bits_of p ! i = bits_of q ! i)"

lemma same_voice_refl: "length p = 33 \<Longrightarrow> same_voice p p"
  by (simp add: same_voice_def)

lemma same_voice_trans: "same_voice p q \<Longrightarrow> same_voice q r \<Longrightarrow> same_voice p r"
  by (auto simp: same_voice_def)

lemma same_voice_memcpy:
  assumes "length p = 33" "length q = 33" "bits_of p = memcpy (bits_of q) off xs" "108 \<le> off" "off + length xs \<le> 156"
  shows "same_voice p q"
  using assms by (auto simp: same_voice_def nth_memcpy)

lemma same_voice_fields:
  assumes "same_voice p q" "length tab = N" "N \<le> 32" "\<forall>x\<in>set tab. x < 72"
  shows "dmr_fields p tab N (2 ^ (N - Suc 0)) = dmr_fields q tab N (2 ^ (N - Suc 0))"
proof -
  have r: "READ_BIT p x = READ_BIT q x" if "x < 108 \<or> 156 \<le> x" "x < 264" for x
    using that assms(1) by (auto simp: READ_BIT_bits same_voice_def)
  have m: "map (\<lambda>x. READ_BIT p x) tab = map (\<lambda>x. READ_BIT q x) tab"
    "map (\<lambda>x. READ_BIT p (frame2_pos x)) tab = map (\<lambda>x. READ_BIT q (frame2_pos x)) tab"
    "map (\<lambda>x. READ_BIT p (x + 192)) tab = map (\<lambda>x. READ_BIT q (x + 192)) tab"
    using assms(4) by (auto intro!: r simp: Let_def)
  show ?thesis unfolding dmr_fields_bits [OF assms(2,3)] m by (rule refl)
qed

lemma same_voice_ambe: "same_voice p q \<Longrightarrow> dmr33ToAMBE p = dmr33ToAMBE q"
proof -
  assume s: "same_voice p q"
  have "dmr_fields p DMR_A_TABLE 24 0x800000 = dmr_fields q DMR_A_TABLE 24 0x800000"
    "dmr_fields p DMR_B_TABLE 23 0x400000 = dmr_fields q DMR_B_TABLE 23 0x400000"
    "dmr_fields p DMR_C_TABLE 25 0x1000000 = dmr_fields q DMR_C_TABLE 25 0x1000000"
    using same_voice_fields [OF s, of DMR_A_TABLE 24] same_voice_fields [OF s, of DMR_B_TABLE 23]
      same_voice_fields [OF s, of DMR_C_TABLE 25] dmr_tables by auto
  then show ?thesis by (simp add: dmr33ToAMBE_def)
qed


section \<open>The payload of a burst\<close>

definition codec_ok :: "dmr_codec \<Rightarrow> bool" where
  "codec_ok c \<longleftrightarrow> 55 \<le> length (hbp_buf c) \<and> length (emb_raw c) = 128 \<and> length (emb_data c) = 72"

text \<open>A header burst: its block code holds group, source and a masked parity, its middle the slot type and sync.\<close>

definition carries_header :: "bytes \<Rightarrow> bytes \<Rightarrow> bytes \<Rightarrow> bool" where
  "carries_header tg src p \<longleftrightarrow> (\<exists>p0 p1 p2 p3. rs129_parity ([0, 0, 0] @ tg @ src @ [0, 0, 0]) = Some [p0, p1, p2, p3] \<and>
     bptc_received p = bptc_matrix (bits_of ([0, 0, 0] @ tg @ src @ List.map ((XOR) 0x96) [p2, p1, p0])) \<and>
     sub_buf (bits_of p) 98 68 = header_middle)"

text \<open>A voice burst with the voice of v whose middle is sync, or signalling around the fragment f.\<close>

definition middle_sync :: "bytes \<Rightarrow> bool" where
  "middle_sync p \<longleftrightarrow> sub_buf (bits_of p) 108 48 = sub_buf (bits_of MS_SOURCED_AUDIO_SYNC) 4 48"

definition middle_fragment :: "nat \<Rightarrow> bits \<Rightarrow> bytes \<Rightarrow> bool" where
  "middle_fragment lcss f p \<longleftrightarrow> sub_buf (bits_of p) 116 32 = f \<and>
     (let w = ENCODING_TABLE_1676 ! (8 + lcss)
      in sub_buf (bits_of p) 108 8 = byte_bits (ucast (drop_bit 8 w)) \<and> sub_buf (bits_of p) 148 8 = byte_bits (ucast w))"

definition carries_sync :: "bytes \<Rightarrow> bytes \<Rightarrow> bool" where
  "carries_sync v p \<longleftrightarrow> same_voice p v \<and> middle_sync p"

definition carries_fragment :: "bytes \<Rightarrow> nat \<Rightarrow> bits \<Rightarrow> bytes \<Rightarrow> bool" where
  "carries_fragment v lcss f p \<longleftrightarrow> same_voice p v \<and> middle_fragment lcss f p"

definition fragment :: "bits \<Rightarrow> nat \<Rightarrow> bits" where
  "fragment raw n = (if 1 \<le> n \<and> n < 5 then sub_buf raw (32 * (n - 1)) 32 else replicate 32 False)"

definition lcss_of :: "nat \<Rightarrow> nat" where
  "lcss_of n = (if n = 1 then 1 else if n = 4 then 2 else if 1 \<le> n \<and> n < 5 then 3 else 0)"

lemma sub_buf_3: "k + 3 \<le> length xs \<Longrightarrow> sub_buf xs k 3 = [xs ! k, xs ! (k + 1), xs ! (k + 2)]"
  by (rule nth_equalityI) (auto simp: less_Suc_eq numeral_3_eq_3)

lemma generate_header_emb:
  "generate_header c = Some c' \<Longrightarrow> emb_raw c' = emb_raw c \<and> emb_data c' = emb_data c"
  by (auto simp: generate_header_def bptc_encode_def Let_def split: Option.bind_splits prod.splits)

lemma generate_header_burst:
  assumes "codec_ok c"
  obtains p c' where "generate_header c = Some c'" "sub_buf (hbp_buf c') 20 33 = p" "length p = 33" "codec_ok c'"
    "emb_raw c' = emb_raw c" "length (hbp_buf c') = length (hbp_buf c)"
    "carries_header (sub_buf (hbp_buf c) 8 3) (sub_buf (hbp_buf c) 5 3) p"
proof -
  have "53 \<le> length (hbp_buf c)" using assms by (simp add: codec_ok_def)
  from generate_header_facts [OF this] obtain p0 p1 p2 p3 c' where g: "generate_header c = Some c'"
    "rs129_parity (header_lc (hbp_buf c)) = Some [p0, p1, p2, p3]"
    "length (hbp_buf c') = length (hbp_buf c)"
    "bptc_received (sub_buf (hbp_buf c') 20 33)
       = bptc_matrix (bits_of (take 9 (header_lc (hbp_buf c)) @ List.map ((XOR) 0x96) [p2, p1, p0]))"
    "sub_buf (bits_of (sub_buf (hbp_buf c') 20 33)) 98 68 = header_middle" by blast
  have l: "header_lc (hbp_buf c) = [0, 0, 0] @ sub_buf (hbp_buf c) 8 3 @ sub_buf (hbp_buf c) 5 3 @ [0, 0, 0]"
    using assms by (simp add: header_lc_def codec_ok_def sub_buf_3)
  have t: "take 9 (header_lc (hbp_buf c)) = [0, 0, 0] @ sub_buf (hbp_buf c) 8 3 @ sub_buf (hbp_buf c) 5 3"
    using assms by (simp add: l codec_ok_def)
  have "carries_header (sub_buf (hbp_buf c) 8 3) (sub_buf (hbp_buf c) 5 3) (sub_buf (hbp_buf c') 20 33)"
    unfolding carries_header_def using g(2,4,5) unfolding t unfolding l by auto
  then show ?thesis
    using that [OF g(1) refl] generate_header_emb [OF g(1)] assms g(3) by (simp add: codec_ok_def)
qed

text \<open>Bytes 13 to 19 of a burst with its first and last nibble kept.\<close>

lemma write_middle:
  assumes "length v = 33" "length s = 7"
  shows "bits_of (memcpy v 13 (((v ! 13 AND 0xF0) OR (s ! 0 AND 0x0F)) # sub_buf s 1 5 @ [(v ! 19 AND 0x0F) OR (s ! 6 AND 0xF0)]))
    = memcpy (bits_of v) 108 (sub_buf (bits_of s) 4 48)"
proof -
  let ?m = "((v ! 13 AND 0xF0) OR (s ! 0 AND 0x0F)) # sub_buf s 1 5 @ [(v ! 19 AND 0x0F) OR (s ! 6 AND 0xF0)]"
  obtain s0 s1 s2 s3 s4 s5 s6 where s: "s = [s0, s1, s2, s3, s4, s5, s6]"
    using assms(2) by (auto simp: length_Suc_conv numeral_eq_Suc)
  have b: "bits_of ?m = sub_buf (bits_of v) 104 4 @ sub_buf (bits_of s) 4 48 @ sub_buf (bits_of v) 156 4"
    using assms(1) by (simp add: s sub_buf_def merge_nibbles byte_bits_nth drop_take min_def)
  have "bits_of (memcpy v 13 ?m) = memcpy (bits_of v) 104 (bits_of ?m)"
    using assms by (subst bits_of_memcpy) auto
  also have "\<dots> = memcpy (bits_of v) 108 (sub_buf (bits_of s) 4 48 @ sub_buf (bits_of v) 156 4)"
    unfolding b using memcpy_keep_front [of 104 4 "sub_buf (bits_of s) 4 48 @ sub_buf (bits_of v) 156 4" "bits_of v"] assms by simp
  also have "\<dots> = memcpy (bits_of v) 108 (sub_buf (bits_of s) 4 48)"
    using memcpy_keep_back [of 108 "sub_buf (bits_of s) 4 48" 4 "bits_of v"] assms by simp
  finally show ?thesis .
qed

lemma memcpy_inside:
  assumes "off + length v \<le> length q" "k < length v"
  shows "memcpy q off v ! (off + k) = v ! k" "(memcpy q off v)[off + k := x] = memcpy q off (v[k := x])"
  using assms by (auto intro!: nth_equalityI simp: nth_memcpy nth_list_update)

lemma update_seven:
  assumes "i + 7 \<le> length v"
  shows "v[i := a0, i + 1 := a1, i + 2 := a2, i + 3 := a3, i + 4 := a4, i + 5 := a5, i + 6 := a6]
    = memcpy v i [a0, a1, a2, a3, a4, a5, a6]"
  using assms by (intro nth_equalityI) (auto simp: nth_memcpy nth_list_update nth_Cons')

definition sync_burst :: "bytes \<Rightarrow> bytes" where
  "sync_burst v = memcpy v 13 (((v ! 13 AND 0xF0) OR (MS_SOURCED_AUDIO_SYNC ! 0 AND 0x0F)) # sub_buf MS_SOURCED_AUDIO_SYNC 1 5
     @ [(v ! 19 AND 0x0F) OR (MS_SOURCED_AUDIO_SYNC ! 6 AND 0xF0)])"

lemma set_audio_sync_burst:
  assumes "length v = 33" "length q = 55"
  shows "set_audio_sync (memcpy q 20 v) = memcpy q 20 (sync_burst v)"
proof -
  have m: "memcpy q 20 w ! n = w ! (n - 20)" "(memcpy q 20 w)[n := x] = memcpy q 20 (w[n - 20 := x])"
    if "length w = 33" "20 \<le> n" "n < 53" for w n x
    using memcpy_inside [of 20 w q "n - 20"] that assms(2) by simp_all
  have neg: "(- 16 :: u8) = 240" "(- 256 :: u8) = 0" "(- 241 :: u8) = 15" by simp_all
  have "set_audio_sync (memcpy q 20 v) = memcpy q 20 (v[13 := (v ! 13 AND 0xF0) OR 0x07, 13 + 1 := 0xF7, 13 + 2 := 0xD5,
    13 + 3 := 0xDD, 13 + 4 := 0x57, 13 + 5 := 0xDF, 13 + 6 := (v ! 19 AND 0x0F) OR 0xD0])"
    using assms(1) by (simp add: set_audio_sync_def upt_rec m neg DMR_SYNC_MASK_def MS_SOURCED_AUDIO_SYNC_def)
  also have "\<dots> = memcpy q 20 (sync_burst v)"
    using assms(1) by (subst update_seven) (simp_all add: sync_burst_def MS_SOURCED_AUDIO_SYNC_def sub_buf_def)
  finally show ?thesis .
qed

lemma sync_burst_carries:
  assumes "length v = 33"
  shows "length (sync_burst v) = 33" "carries_sync v (sync_burst v)"
proof -
  have l: "length MS_SOURCED_AUDIO_SYNC = 7" by (simp add: MS_SOURCED_AUDIO_SYNC_def)
  then show len: "length (sync_burst v) = 33" using assms by (simp add: sync_burst_def)
  have b: "bits_of (sync_burst v) = memcpy (bits_of v) 108 (sub_buf (bits_of MS_SOURCED_AUDIO_SYNC) 4 48)"
    unfolding sync_burst_def by (rule write_middle [OF assms l])
  have "same_voice (sync_burst v) v" by (rule same_voice_memcpy [OF len assms b]) (use l in simp_all)
  then show "carries_sync v (sync_burst v)" using assms l by (simp add: carries_sync_def middle_sync_def b)
qed

text \<open>The fifth burst after the one with sync carries an all-zero fragment.\<close>

lemma get_embedded_null:
  assumes "length data = 33" "\<not> (1 \<le> n \<and> n < 5)"
  shows "bits_of (snd (get_embedded_data data n s)) = memcpy (bits_of data) 116 (replicate 32 False)"
proof -
  have z: "byte_bits 0 = [False, False, False, False] @ [False, False, False, False]"
    by (simp add: byte_bits_def upt_rec)
  have "bits_of (data[14 := (data ! 14 AND 0xF0) OR (0 AND 0x0F), 15 := 0, 16 := 0, 17 := 0,
      18 := (data ! 18 AND 0x0F) OR (0 AND 0xF0)]) = memcpy (bits_of data) 116 (replicate 32 False)"
    by (rule write_fragment [OF assms(1) _ refl refl]) (simp_all add: z sub_buf_def numeral_eq_Suc)
  then show ?thesis using assms(2) by (auto simp: get_embedded_data_def Let_def)
qed

lemma get_embedded_fragment:
  assumes "length data = 33" "length (emb_raw s) = 128"
  shows "fst (get_embedded_data data n s) = lcss_of n"
    "bits_of (snd (get_embedded_data data n s)) = memcpy (bits_of data) 116 (fragment (emb_raw s) n)"
    "length (snd (get_embedded_data data n s)) = 33"
proof -
  show "fst (get_embedded_data data n s) = lcss_of n" by (auto simp: get_embedded_data_def lcss_of_def Let_def)
  have "n \<in> {1, 2, 3, 4}" if "1 \<le> n" "n < 5" using that by auto
  then show "bits_of (snd (get_embedded_data data n s)) = memcpy (bits_of data) 116 (fragment (emb_raw s) n)"
    using get_embedded_bits [OF assms] get_embedded_null [OF assms(1)] by (cases "1 \<le> n \<and> n < 5") (auto simp: fragment_def)
  show "length (snd (get_embedded_data data n s)) = 33" using assms(1) by (simp add: get_embedded_data_def Let_def)
qed

lemma fragment_burst:
  fixes n :: nat
  assumes "length v = 33" "length (emb_raw s) = 128"
  defines "p \<equiv> get_emb_data (snd (get_embedded_data v n s)) (of_nat (lcss_of n))"
  shows "length p = 33" "carries_fragment v (lcss_of n) (fragment (emb_raw s) n) p"
proof -
  let ?f = "fragment (emb_raw s) n" and ?q = "snd (get_embedded_data v n s)"
  define w where "w = ENCODING_TABLE_1676 ! (8 + lcss_of n)"
  define hi where "hi = byte_bits (ucast (drop_bit 8 w))"
  define lo where "lo = byte_bits (ucast w)"
  note g = get_embedded_fragment [OF assms(1,2), of n]
  have f: "length ?f = 32" using assms(2) by (auto simp: fragment_def)
  have idx: "unat (8 OR (of_nat (lcss_of n) AND 3) :: u8) = 8 + lcss_of n" by (simp add: lcss_of_def)
  note e = emb_word_placed [OF g(3), of "of_nat (lcss_of n)", unfolded idx, folded w_def p_def, unfolded Let_def, folded hi_def lo_def]
  show len: "length p = 33" using e by simp
  have b: "bits_of p = memcpy (memcpy (memcpy (bits_of v) 116 ?f) 108 hi) 148 lo" using e g(2) by simp
  have hl: "length hi = 8" "length lo = 8" by (simp_all add: hi_def lo_def)
  have "same_voice p v" using len assms(1) f hl by (auto simp: same_voice_def b nth_memcpy)
  moreover have "sub_buf (bits_of p) 116 32 = ?f" "sub_buf (bits_of p) 108 8 = hi" "sub_buf (bits_of p) 148 8 = lo"
    using assms(1) f hl by (simp_all add: b sub_buf_memcpy_other)
  ultimately show "carries_fragment v (lcss_of n) ?f p"
    by (simp add: carries_fragment_def middle_fragment_def w_def [symmetric] hi_def [symmetric] lo_def [symmetric] Let_def)
qed

section \<open>A packet\<close>

definition rf_id_of :: "bridge \<Rightarrow> int" where
  "rf_id_of b = (if 0 < b_ysf_rf_id b then b_ysf_rf_id b else dmrid_of b)"

definition frame_kind :: "u8 \<Rightarrow> u8" where
  "frame_kind ft = drop_bit 4 ft AND 0x03"

definition call_lc :: "bridge \<Rightarrow> bytes" where
  "call_lc b = [0, 0, 0] @ int_bytes3 (bridge_tx_tg b) @ dmr_id_to_bytes3 (rf_id_of b)"

text \<open>The matrix of the embedded link control in the order of its four fragments.\<close>

definition emb_of :: "bytes \<Rightarrow> bits" where
  "emb_of lc = gather emb_perm 128 (emb_rows (bits_of lc))"

definition tx_payload :: "u8 \<Rightarrow> bytes \<Rightarrow> bridge \<Rightarrow> bytes \<Rightarrow> bool" where
  "tx_payload ft v b p \<longleftrightarrow> length p = 33 \<and>
     (if frame_kind ft = DMRD_FT_DATA_SYNC then carries_header (int_bytes3 (bridge_tx_tg b)) (dmr_id_to_bytes3 (rf_id_of b)) p
      else if frame_kind ft = DMRD_FT_VOICE_SYNC then carries_sync v p
      else let n = unat (ft AND 0x0F) in carries_fragment v (lcss_of n) (fragment (emb_raw (b_codec b)) n) p)"

definition tx_emb :: "u8 \<Rightarrow> bridge \<Rightarrow> bits" where
  "tx_emb ft b = (if frame_kind ft = DMRD_FT_VOICE_SYNC then emb_of (call_lc b) else emb_raw (b_codec b))"

definition tx_packet :: "bridge_env \<Rightarrow> u8 \<Rightarrow> bridge \<Rightarrow> bytes \<Rightarrow> bytes" where
  "tx_packet e ft b p = tx_header ft (rf_id_of b) b @ p @ drop 53 (e_junk55 e)"

definition tx_ready :: "bridge_env \<Rightarrow> bridge \<Rightarrow> bool" where
  "tx_ready e b \<longleftrightarrow> length (e_junk55 e) = 55 \<and> codec_ok (codec_of b) \<and> 0 < rf_id_of b"

text \<open>The state after a packet: counted, sent, stamped; of the rest only the codec and its buffer change.\<close>

definition after_burst :: "bridge_env \<Rightarrow> bytes \<Rightarrow> dmr_codec \<Rightarrow> bridge \<Rightarrow> bridge" where
  "after_burst e pkt c b =
     (put_codec c b)\<lparr>b_seq := b_seq b + 1, b_sent := b_sent b @ [To_dmr pkt], b_last_dmr_tx := e_now e\<rparr>"

lemma length_int_bytes3 [simp]: "length (int_bytes3 i) = 3"
  by (simp add: int_bytes3_def Let_def)

lemma length_dmr_id_to_bytes3 [simp]: "length (dmr_id_to_bytes3 i) = 3"
  by (simp add: dmr_id_to_bytes3_def)

lemma length_tx_header [simp]: "length (tx_header ft rf b) = 20"
  by (simp add: tx_header_def ascii_def le_bytes_def)

lemma bridge_tx_tg_seq [simp]: "bridge_tx_tg (b\<lparr>b_seq := s\<rparr>) = bridge_tx_tg b"
  by (simp add: bridge_tx_tg_def)

lemma int_bytes3_ucast:
  "int_bytes3 i = [ucast (drop_bit 16 (word_of_int i :: u32)), ucast (drop_bit 8 (word_of_int i :: u32)), ucast (word_of_int i :: u32)]"
proof -
  have "(ucast (x AND 0xFF) :: u8) = ucast x" for x :: u32
    by (rule byte_eqI) (simp only: bit_ucast_iff bit_and_iff mask_bits, auto)
  then show ?thesis by (simp add: int_bytes3_def Let_def)
qed

lemma get_embedded_append:
  "length v = 33 \<Longrightarrow> get_embedded_data (v @ r) n s = (fst (get_embedded_data v n s), snd (get_embedded_data v n s) @ r)"
  by (simp add: get_embedded_data_def Let_def nth_append list_update_append)

lemma get_emb_append: "length v = 33 \<Longrightarrow> get_emb_data (v @ r) lcss = get_emb_data v lcss @ r"
  by (simp add: get_emb_data_def Let_def nth_append list_update_append)

lemma fill_burst_payload:
  assumes "codec_ok c" "length pkt = 55" "sub_buf (hbp_buf c) 5 3 = dmr_id_to_bytes3 rf" "sub_buf (hbp_buf c) 8 3 = int_bytes3 tg"
    and "length v = 33" "frame_kind ft = DMRD_FT_DATA_SYNC \<or> vo = Some v"
    and "tx_tgid c = word_of_int tg" "rx_srcid c = word_of_int (dmr_id_rf24 rf)"
  obtains p c' where "fill_burst ft vo pkt c = Some (memcpy pkt 20 p, c')" "length p = 33" "codec_ok c'"
    "length (hbp_buf c') = length (hbp_buf c)"
    "if frame_kind ft = DMRD_FT_DATA_SYNC then carries_header (int_bytes3 tg) (dmr_id_to_bytes3 rf) p
     else if frame_kind ft = DMRD_FT_VOICE_SYNC then carries_sync v p
     else let n = unat (ft AND 0x0F) in carries_fragment v (lcss_of n) (fragment (emb_raw c) n) p"
    "emb_raw c' = (if frame_kind ft = DMRD_FT_VOICE_SYNC then emb_of ([0, 0, 0] @ int_bytes3 tg @ dmr_id_to_bytes3 rf) else emb_raw c)"
proof -
  consider (data) "frame_kind ft = 2" | (sync) "frame_kind ft = 1" "vo = Some v"
    | (frag) "frame_kind ft \<noteq> 2" "frame_kind ft \<noteq> 1" "vo = Some v" using assms(6) by fastforce
  then show ?thesis
  proof cases
    case data
    obtain p c' where g: "generate_header c = Some c'" "sub_buf (hbp_buf c') 20 33 = p" "length p = 33" "codec_ok c'"
      "emb_raw c' = emb_raw c" "length (hbp_buf c') = length (hbp_buf c)"
      "carries_header (sub_buf (hbp_buf c) 8 3) (sub_buf (hbp_buf c) 5 3) p"
      by (rule generate_header_burst [OF assms(1)])
    show ?thesis
      by (rule that [of p c']) (use g assms(3,4) data in \<open>simp_all add: fill_burst_def frame_kind_def\<close>)
  next
    case sync
    let ?c = "encode_embedded_data c"
    have raw: "emb_raw ?c = emb_of (voice_lc c)"
      using encode_embedded_raw [of c] assms(1) by (simp add: codec_ok_def emb_of_def)
    have lc: "voice_lc c = [0, 0, 0] @ int_bytes3 tg @ dmr_id_to_bytes3 rf"
      by (simp add: voice_lc_def assms(7,8) int_bytes3_ucast dmr_id_to_bytes3_def)
    have "length (emb_of lc) = 128" for lc by (simp add: emb_of_def)
    moreover have "length (lc_get_data_bits c (emb_data c)) = 72"
      using lc_get_data_bits [of "emb_data c" c] assms(1) by (simp add: codec_ok_def voice_lc_def)
    moreover have "hbp_buf ?c = hbp_buf c" "emb_data ?c = lc_get_data_bits c (emb_data c)"
      by (simp_all add: encode_embedded_data_def Let_def split: prod.split)
    ultimately have ok: "codec_ok ?c" "hbp_buf ?c = hbp_buf c" using assms(1) by (simp_all add: codec_ok_def raw)
    show ?thesis
      by (rule that [of "sync_burst v" ?c])
        (use sync sync_burst_carries [OF assms(5)] set_audio_sync_burst [OF assms(5,2)] ok raw lc in
          \<open>simp_all add: fill_burst_def frame_kind_def Let_def\<close>)
  next
    case frag
    let ?n = "unat (ft AND 0x0F)" and ?c = "c\<lparr>hbp_buf := memcpy (hbp_buf c) 20 v\<rparr>"
    have l: "length (hbp_buf ?c) = length (hbp_buf c)" "length (emb_raw ?c) = 128" "55 \<le> length (hbp_buf c)"
      using assms(1,5) by (simp_all add: codec_ok_def)
    define p where "p = get_emb_data (snd (get_embedded_data v ?n ?c)) (of_nat (lcss_of ?n))"
    note fb = fragment_burst [OF assms(5) l(2), of ?n, folded p_def]
    have "emb_raw ?c = emb_raw c" by simp
    note g = get_embedded_fragment [OF assms(5) l(2), of ?n]
    let ?r = "drop 53 (hbp_buf c)" and ?h = "take 20 (hbp_buf c)"
    have d: "drop 20 (memcpy (hbp_buf c) 20 v) = v @ ?r" "take 20 (memcpy (hbp_buf c) 20 v) = ?h" using assms(5) l(3) by (simp_all add: memcpy_def)
    have e: "get_embedded_data (v @ ?r) ?n ?c = (lcss_of ?n, snd (get_embedded_data v ?n ?c) @ ?r)"
      using get_embedded_append [OF assms(5), of ?r ?n ?c] g(1) by (simp add: prod_eq_iff)
    have m: "get_emb_data (snd (get_embedded_data v ?n ?c) @ ?r) (of_nat (lcss_of ?n)) = p @ ?r"
      unfolding p_def by (rule get_emb_append [OF g(3)])
    let ?c' = "c\<lparr>hbp_buf := ?h @ p @ ?r\<rparr>"
    have s: "sub_buf (memcpy pkt 20 v) 20 33 = v" using assms(2,5) by simp
    have "fill_burst ft vo pkt c = Some (memcpy (memcpy pkt 20 v) 20 p, ?c')"
      using frag fb(1) l(3) unfolding fill_burst_def frame_kind_def [symmetric]
      by (simp add: Let_def s e m d) (simp add: sub_buf_def min_def)
    moreover have "memcpy (memcpy pkt 20 v) 20 p = memcpy pkt 20 p" using assms(2,5) fb(1) by simp
    ultimately show ?thesis
      by (intro that [of p ?c']) (use frag fb l assms(1) in \<open>simp_all add: codec_ok_def Let_def\<close>)
  qed
qed


text \<open>Sending a burst never fails, and sends exactly one packet.\<close>

lemma bridge_send_dmrd_burst:
  assumes "tx_ready e b" "length v = 33" "frame_kind ft = DMRD_FT_DATA_SYNC \<or> vo = Some v"
  obtains p c where "bridge_send_dmrd e ft vo b = Some (after_burst e (tx_packet e ft b p) c b)" "tx_payload ft v b p"
    "codec_ok c" "length (hbp_buf c) = length (g_buf (b_dmr b))" "emb_raw c = tx_emb ft b"
proof -
  have j: "length (e_junk55 e) = 55" and ok: "codec_ok (codec_of b)" and rf: "0 < rf_id_of b"
    using assms(1) by (simp_all add: tx_ready_def)
  define pkt where "pkt = memcpy (e_junk55 e) 0 (tx_header ft (rf_id_of b) b)"
  have pl: "length pkt = 55" using j by (simp add: pkt_def)
  have pkt: "pkt = tx_header ft (rf_id_of b) b @ drop 20 (e_junk55 e)" by (simp add: pkt_def memcpy_def)
  have hdr: "tx_header ft (rf_id_of b) (b\<lparr>b_seq := s\<rparr>) = tx_header ft (rf_id_of b) b" if "s = b_seq b" for s using that by simp
  let ?c = "(codec_of b)\<lparr>tx_tgid := word_of_int (bridge_tx_tg b), hbp_buf := memcpy (hbp_buf (codec_of b)) 0 pkt,
      rx_srcid := word_of_int (dmr_id_rf24 (rf_id_of b))\<rparr>"
  have lb: "length (hbp_buf (codec_of b)) = length (g_buf (b_dmr b))" by (simp add: codec_of_def)
  have c: "codec_ok ?c" using ok pl by (simp add: codec_ok_def)
  have "sub_buf (memcpy (hbp_buf (codec_of b)) 0 pkt) 5 3 = sub_buf pkt 5 3" "sub_buf (memcpy (hbp_buf (codec_of b)) 0 pkt) 8 3 = sub_buf pkt 8 3"
    using ok pl by (simp_all add: memcpy_def sub_buf_def codec_ok_def)
  moreover have "sub_buf pkt 5 3 = dmr_id_to_bytes3 (rf_id_of b)" "sub_buf pkt 8 3 = int_bytes3 (bridge_tx_tg b)"
    by (simp_all add: pkt tx_header_def sub_buf_def ascii_def)
  ultimately have ids: "sub_buf (hbp_buf ?c) 5 3 = dmr_id_to_bytes3 (rf_id_of b)" "sub_buf (hbp_buf ?c) 8 3 = int_bytes3 (bridge_tx_tg b)"
    by simp_all
  obtain p c' where f: "fill_burst ft vo pkt ?c = Some (memcpy pkt 20 p, c')" "length p = 33" "codec_ok c'"
    "length (hbp_buf c') = length (hbp_buf ?c)"
    "if frame_kind ft = DMRD_FT_DATA_SYNC then carries_header (int_bytes3 (bridge_tx_tg b)) (dmr_id_to_bytes3 (rf_id_of b)) p
     else if frame_kind ft = DMRD_FT_VOICE_SYNC then carries_sync v p
     else let n = unat (ft AND 0x0F) in carries_fragment v (lcss_of n) (fragment (emb_raw ?c) n) p"
    "emb_raw c' = (if frame_kind ft = DMRD_FT_VOICE_SYNC
       then emb_of ([0, 0, 0] @ int_bytes3 (bridge_tx_tg b) @ dmr_id_to_bytes3 (rf_id_of b)) else emb_raw ?c)"
    by (rule fill_burst_payload [OF c pl ids assms(2,3)]) simp_all
  have raw: "emb_raw ?c = emb_raw (b_codec b)" by (simp add: codec_of_def)
  have m: "memcpy pkt 20 p = tx_packet e ft b p"
    using f(2) by (simp add: pkt tx_packet_def memcpy_def)
  have s: "bridge_send_dmrd e ft vo b = Some (after_burst e (tx_packet e ft b p) c' b)"
    using rf f(1) unfolding bridge_send_dmrd_def Let_def rf_id_of_def [symmetric] pkt_def [symmetric]
    by (simp add: m peer_dmr_send_def after_burst_def put_codec_def codec_of_def)
  show ?thesis
  proof (rule that [OF s _ f(3)])
    show "tx_payload ft v b p" using f(2,5) unfolding raw by (simp add: tx_payload_def)
    show "length (hbp_buf c') = length (g_buf (b_dmr b))" using f(4) lb ok pl by (simp add: codec_ok_def)
    show "emb_raw c' = tx_emb ft b" using f(6) unfolding raw by (simp add: tx_emb_def call_lc_def)
  qed
qed

end
