(* ===== verification/Bridge_Stream.thy ===== *)
theory Bridge_Stream
  imports Bridge_Tx Peer_Dmr_Props Peer_Ysf_Props Ysf_Payload_Props
begin

text \<open>
  The DMR side of the bridge as streams of bursts: what a stream of packets is, and the runs of the
  bridge that send one: the key-up after a connection and a call from YSF.
\<close>

section \<open>Streams\<close>

datatype burst = Head | Term | Voice nat "bytes list"

record dmr_call =
  cl_tg :: int
  cl_rf :: int
  cl_repeater :: u32
  cl_stream :: u32

definition call_of :: "bridge \<Rightarrow> dmr_call" where
  "call_of b = \<lparr>cl_tg = bridge_tx_tg b, cl_rf = rf_id_of b, cl_repeater = dp_dmrid (b_dmr b), cl_stream = b_stream_id b\<rparr>"

text \<open>Byte 15: slot 2, frame kind, and the kind of header or the place in the superframe.\<close>

definition burst_b15 :: "burst \<Rightarrow> u8" where
  "burst_b15 x = (case x of Head \<Rightarrow> 0xA1 | Term \<Rightarrow> 0xA2 | Voice k fs \<Rightarrow> if k mod 6 = 0 then 0x90 else 0x80 OR of_nat (k mod 6))"

definition burst_packet :: "dmr_call \<Rightarrow> u8 \<Rightarrow> burst \<Rightarrow> bytes \<Rightarrow> bytes \<Rightarrow> bytes" where
  "burst_packet c s x p junk =
     ascii ''DMRD'' @ [s] @ dmr_id_to_bytes3 (cl_rf c) @ int_bytes3 (cl_tg c) @ be_bytes (cl_repeater c) @
     [burst_b15 x] @ le_bytes (cl_stream c) @ p @ junk"

definition lc_of :: "dmr_call \<Rightarrow> bytes" where
  "lc_of c = [0, 0, 0] @ int_bytes3 (cl_tg c) @ dmr_id_to_bytes3 (cl_rf c)"

text \<open>
  What the 33 bytes of a burst carry: a header the link control; a voice burst its three raw AMBE
  frames and in its middle the sync or the fragment of the link control that its place asks for.
\<close>

definition burst_carries :: "dmr_call \<Rightarrow> burst \<Rightarrow> bytes \<Rightarrow> bool" where
  "burst_carries c x p \<longleftrightarrow>
     (case x of
        Voice k fs \<Rightarrow> dmr33ToAMBE p = fs \<and>
          (let n = k mod 6
           in if n = 0 then middle_sync p else middle_fragment (lcss_of n) (fragment (emb_of (lc_of c)) n) p)
      | _ \<Rightarrow> carries_header (int_bytes3 (cl_tg c)) (dmr_id_to_bytes3 (cl_rf c)) p)"

fun stream_ok :: "dmr_call \<Rightarrow> u8 \<Rightarrow> burst list \<Rightarrow> bytes list \<Rightarrow> bool" where
  "stream_ok c s [] ps \<longleftrightarrow> ps = []"
| "stream_ok c s (x # xs) ps \<longleftrightarrow>
     (\<exists>p junk rest. ps = burst_packet c s x p junk # rest \<and> length p = 33 \<and> length junk = 2 \<and> burst_carries c x p \<and>
        stream_ok c (s + 1) xs rest)"

lemma stream_append:
  "stream_ok c s xs ps \<Longrightarrow> stream_ok c (s + of_nat (length xs)) ys qs \<Longrightarrow> stream_ok c s (xs @ ys) (ps @ qs)"
proof (induction xs arbitrary: s ps)
  case (Cons x xs)
  then obtain p junk rest where r: "ps = burst_packet c s x p junk # rest" "length p = 33" "length junk = 2"
    "burst_carries c x p" "stream_ok c (s + 1) xs rest" by auto
  have "stream_ok c (s + 1) (xs @ ys) (rest @ qs)"
    by (rule Cons.IH [OF r(5)]) (use Cons.prems(2) in \<open>simp add: add.assoc\<close>)
  then show ?case using r by auto
qed simp

section \<open>Sending a part of a stream\<close>

definition tx_ok :: "bridge \<Rightarrow> bool" where
  "tx_ok b \<longleftrightarrow> codec_ok (codec_of b) \<and> 0 < rf_id_of b \<and> b_slot_bit b = 0x80"

definition emb_set :: "bridge \<Rightarrow> bool" where
  "emb_set b \<longleftrightarrow> emb_raw (b_codec b) = emb_of (lc_of (call_of b))"

definition sends :: "burst list \<Rightarrow> bridge \<Rightarrow> bridge \<Rightarrow> bool" where
  "sends xs b b' \<longleftrightarrow> (\<exists>ps. b_sent b' = b_sent b @ List.map To_dmr ps \<and> stream_ok (call_of b) (b_seq b) xs ps) \<and>
     b_seq b' = b_seq b + of_nat (length xs) \<and> call_of b' = call_of b \<and> tx_ok b' \<and> (emb_set b \<longrightarrow> emb_set b')"

text \<open>What sending leaves as it is; the two frame counters are counted by the callers.\<close>

definition tx_core :: "bridge \<Rightarrow> bridge" where
  "tx_core b = b\<lparr>b_seq := 0, b_codec := \<lparr>hbp_buf = [], bptc_rawData = [], bptc_deInterData = [], emb_raw = [], emb_data = [],
       rx_srcid = 0, tx_tgid = 0\<rparr>, b_dmr := (b_dmr b)\<lparr>g_buf := replicate (length (g_buf (b_dmr b))) 0\<rparr>, b_sent := [],
     b_last_dmr_tx := \<lparr>tv_sec = 0, tv_nsec = 0\<rparr>, ptt_voice_frames := 0, b_dmr_tx_frames := 0\<rparr>"

lemma sends_refl: "tx_ok b \<Longrightarrow> sends [] b b"
  by (simp add: sends_def)

lemma sends_trans:
  assumes "sends xs b b1" "sends ys b1 b2"
  shows "sends (xs @ ys) b b2"
proof -
  obtain ps qs where "b_sent b1 = b_sent b @ List.map To_dmr ps" "stream_ok (call_of b) (b_seq b) xs ps"
    "b_sent b2 = b_sent b1 @ List.map To_dmr qs" "stream_ok (call_of b1) (b_seq b1) ys qs"
    using assms by (auto simp: sends_def)
  then have "b_sent b2 = b_sent b @ List.map To_dmr (ps @ qs)" "stream_ok (call_of b) (b_seq b) (xs @ ys) (ps @ qs)"
    using assms stream_append [of "call_of b" "b_seq b" xs ps ys qs] by (simp_all add: sends_def)
  then show ?thesis using assms by (auto simp: sends_def ac_simps)
qed

lemma sends_stream:
  "sends xs b b' \<Longrightarrow> \<exists>ps. b_sent b' = b_sent b @ List.map To_dmr ps \<and> stream_ok (call_of b) (b_seq b) xs ps"
  by (simp add: sends_def)

lemma tx_core_fields:
  assumes "tx_core b' = tx_core b"
  shows "b_conv b' = b_conv b" "b_call_active b' = b_call_active b" "ptt_active b' = ptt_active b" "ptt_phase b' = ptt_phase b"
    "ptt_tg b' = ptt_tg b" "ptt_clearing b' = ptt_clearing b" "ptt_start b' = ptt_start b" "b_stream_id b' = b_stream_id b"
    "b_slot_bit b' = b_slot_bit b" "b_ysf_rf_id b' = b_ysf_rf_id b" "b_rands b' = b_rands b" "b_ysf b' = b_ysf b"
    "length (g_buf (b_dmr b')) = length (g_buf (b_dmr b))" "dp_tg (b_dmr b') = dp_tg (b_dmr b)" "dp_dmrid (b_dmr b') = dp_dmrid (b_dmr b)"
proof -
  note eq = arg_cong [OF assms, of b_conv] arg_cong [OF assms, of b_call_active] arg_cong [OF assms, of ptt_active]
    arg_cong [OF assms, of ptt_phase] arg_cong [OF assms, of ptt_tg] arg_cong [OF assms, of ptt_clearing]
    arg_cong [OF assms, of ptt_start] arg_cong [OF assms, of b_stream_id] arg_cong [OF assms, of b_slot_bit]
    arg_cong [OF assms, of b_ysf_rf_id] arg_cong [OF assms, of b_rands] arg_cong [OF assms, of b_ysf]
    arg_cong [OF assms, of "\<lambda>b. length (g_buf (b_dmr b))"] arg_cong [OF assms, of "\<lambda>b. dp_tg (b_dmr b)"]
    arg_cong [OF assms, of "\<lambda>b. dp_dmrid (b_dmr b)"]
  show "b_conv b' = b_conv b" "b_call_active b' = b_call_active b" "ptt_active b' = ptt_active b" "ptt_phase b' = ptt_phase b"
    "ptt_tg b' = ptt_tg b" "ptt_clearing b' = ptt_clearing b" "ptt_start b' = ptt_start b" "b_stream_id b' = b_stream_id b"
    "b_slot_bit b' = b_slot_bit b" "b_ysf_rf_id b' = b_ysf_rf_id b" "b_rands b' = b_rands b" "b_ysf b' = b_ysf b"
    "length (g_buf (b_dmr b')) = length (g_buf (b_dmr b))" "dp_tg (b_dmr b') = dp_tg (b_dmr b)" "dp_dmrid (b_dmr b') = dp_dmrid (b_dmr b)"
    using eq by (simp_all add: tx_core_def)
qed

lemma tx_core_counts [simp]:
  "tx_core (b\<lparr>ptt_voice_frames := n\<rparr>) = tx_core b" "tx_core (b\<lparr>b_dmr_tx_frames := n\<rparr>) = tx_core b"
  by (simp_all add: tx_core_def)

definition counts :: "bridge \<Rightarrow> nat \<times> nat" where
  "counts b = (ptt_voice_frames b, b_dmr_tx_frames b)"

text \<open>The counters do not matter for what is sent.\<close>

lemma tx_ok_counts [simp]:
  "tx_ok (b\<lparr>ptt_voice_frames := n\<rparr>) = tx_ok b" "tx_ok (b\<lparr>b_dmr_tx_frames := n\<rparr>) = tx_ok b"
  "tx_ok (b\<lparr>b_conv := s\<rparr>) = tx_ok b" "emb_set (b\<lparr>b_conv := s\<rparr>) = emb_set b"
  "tx_ok (b\<lparr>ptt_phase := n\<rparr>) = tx_ok b" "tx_ok (b\<lparr>ptt_start := t\<rparr>) = tx_ok b"
  "emb_set (b\<lparr>ptt_voice_frames := n\<rparr>) = emb_set b" "emb_set (b\<lparr>b_dmr_tx_frames := n\<rparr>) = emb_set b"
  by (simp_all add: tx_ok_def emb_set_def call_of_def codec_of_def rf_id_of_def dmrid_of_def bridge_tx_tg_def)

lemma sends_counts [simp]:
  "sends xs (b\<lparr>ptt_voice_frames := n\<rparr>) b' = sends xs b b'" "sends xs b (b'\<lparr>ptt_voice_frames := n\<rparr>) = sends xs b b'"
  "sends xs (b\<lparr>b_conv := s\<rparr>) b' = sends xs b b'" "sends xs b (b'\<lparr>ptt_phase := n, ptt_start := t\<rparr>) = sends xs b b'"
  "sends xs (b\<lparr>b_dmr_tx_frames := n\<rparr>) b' = sends xs b b'" "sends xs b (b'\<lparr>b_dmr_tx_frames := n\<rparr>) = sends xs b b'"
  by (simp_all add: sends_def tx_ok_def emb_set_def call_of_def codec_of_def rf_id_of_def dmrid_of_def bridge_tx_tg_def)

section \<open>The bursts the bridge sends\<close>

lemma b15_kinds:
  assumes "b_slot_bit b = 0x80"
  shows "VHEAD_B15 b = 0xA1" "VTERM_B15 b = 0xA2" "voice_b15 b k = burst_b15 (Voice k fs)"
    "frame_kind 0xA1 = 2" "frame_kind 0xA2 = 2" "frame_kind (burst_b15 (Voice k fs)) = (if k mod 6 = 0 then 1 else 0)"
    "k mod 6 \<noteq> 0 \<Longrightarrow> unat (burst_b15 (Voice k fs) AND 0x0F) = k mod 6"
proof -
  have "k mod 6 < 6" by simp
  then consider "k mod 6 = 0" | "k mod 6 = 1" | "k mod 6 = 2" | "k mod 6 = 3" | "k mod 6 = 4" | "k mod 6 = 5" by linarith
  then show "frame_kind (burst_b15 (Voice k fs)) = (if k mod 6 = 0 then 1 else 0)"
    "k mod 6 \<noteq> 0 \<Longrightarrow> unat (burst_b15 (Voice k fs) AND 0x0F) = k mod 6"
    by (cases; simp add: burst_b15_def frame_kind_def)+
  have "(of_nat (k mod 6) :: u8) = 0 \<longleftrightarrow> k mod 6 = 0"
    using \<open>k mod 6 < 6\<close> by (auto simp: unat_eq_0 [symmetric] unat_of_nat)
  then show "voice_b15 b k = burst_b15 (Voice k fs)" using assms by (simp add: voice_b15_def burst_b15_def Let_def)
qed (use assms in \<open>simp_all add: VHEAD_B15_def VTERM_B15_def frame_kind_def\<close>)

lemma after_burst_sends:
  assumes "tx_ok b" "length (e_junk55 e) = 55" "length p = 33" "burst_carries (call_of b) x p" "codec_ok c"
    and "length (hbp_buf c) = length (g_buf (b_dmr b))" "emb_raw c = emb_raw (b_codec b) \<or> emb_raw c = emb_of (lc_of (call_of b))"
  shows "sends [x] b (after_burst e (tx_packet e (burst_b15 x) b p) c b)"
    "tx_core (after_burst e (tx_packet e (burst_b15 x) b p) c b) = tx_core b"
    "counts (after_burst e (tx_packet e (burst_b15 x) b p) c b) = counts b"
proof -
  let ?b = "after_burst e (tx_packet e (burst_b15 x) b p) c b"
  have call: "call_of ?b = call_of b"
    by (simp add: call_of_def after_burst_def put_codec_def bridge_tx_tg_def rf_id_of_def dmrid_of_def)
  have pkt: "tx_packet e (burst_b15 x) b p = burst_packet (call_of b) (b_seq b) x p (drop 53 (e_junk55 e))"
    by (simp add: tx_packet_def tx_header_def burst_packet_def call_of_def)
  have "stream_ok (call_of b) (b_seq b) [x] [tx_packet e (burst_b15 x) b p]"
    unfolding pkt stream_ok.simps using assms(2-4) by (intro exI [of _ p] exI [of _ "drop 53 (e_junk55 e)"] exI [of _ "[]"]) simp
  then have s: "\<exists>ps. b_sent ?b = b_sent b @ List.map To_dmr ps \<and> stream_ok (call_of b) (b_seq b) [x] ps"
    by (intro exI [of _ "[tx_packet e (burst_b15 x) b p]"]) (simp add: after_burst_def)
  have "codec_of ?b = c" by (simp add: after_burst_def put_codec_def codec_of_def)
  moreover have "rf_id_of ?b = rf_id_of b" "b_slot_bit ?b = b_slot_bit b"
    by (simp_all add: after_burst_def put_codec_def rf_id_of_def dmrid_of_def)
  ultimately have "tx_ok ?b" using assms(1,5) by (simp add: tx_ok_def)
  then show "sends [x] b ?b"
    using s call assms(7) unfolding sends_def emb_set_def by (auto simp: after_burst_def put_codec_def)
  show "tx_core ?b = tx_core b" using assms(6) by (simp add: tx_core_def after_burst_def put_codec_def)
  show "counts ?b = counts b" by (simp add: counts_def after_burst_def put_codec_def)
qed

lemma tx_ready_ok: "tx_ok b \<Longrightarrow> length (e_junk55 e) = 55 \<Longrightarrow> tx_ready e b"
  by (simp add: tx_ready_def tx_ok_def)

lemma send_header:
  assumes "tx_ok b" "length (e_junk55 e) = 55" "x = Head \<or> x = Term"
  obtains b' where "bridge_send_dmrd e (burst_b15 x) vo b = Some b'" "sends [x] b b'" "tx_core b' = tx_core b"
    "counts b' = counts b"
proof -
  have k: "frame_kind (burst_b15 x) = 2" using assms(3) by (auto simp: burst_b15_def frame_kind_def)
  obtain p c where s: "bridge_send_dmrd e (burst_b15 x) vo b = Some (after_burst e (tx_packet e (burst_b15 x) b p) c b)"
    "tx_payload (burst_b15 x) (replicate 33 0) b p" "codec_ok c" "length (hbp_buf c) = length (g_buf (b_dmr b))"
    "emb_raw c = tx_emb (burst_b15 x) b"
    by (rule bridge_send_dmrd_burst [OF tx_ready_ok [OF assms(1,2)], of "replicate 33 0" "burst_b15 x" vo]) (use k in auto)
  have p: "length p = 33" "burst_carries (call_of b) x p"
    using s(2) k assms(3) by (auto simp: tx_payload_def burst_carries_def call_of_def)
  have "emb_raw c = emb_raw (b_codec b)" using s(5) k by (simp add: tx_emb_def)
  with after_burst_sends [OF assms(1,2) p s(3,4)] that [OF s(1)] show ?thesis by blast
qed

lemma send_voice:
  assumes "tx_ok b" "length (e_junk55 e) = 55" "length v = 33" "k mod 6 = 0 \<or> emb_set b"
  obtains b' where "bridge_send_dmrd e (voice_b15 b k) (Some v) b = Some b'" "sends [Voice k (dmr33ToAMBE v)] b b'" "emb_set b'"
    "tx_core b' = tx_core b" "counts b' = counts b"
proof -
  let ?x = "Voice k (dmr33ToAMBE v)"
  have slot: "b_slot_bit b = 0x80" using assms(1) by (simp add: tx_ok_def)
  note k = b15_kinds(6,7) [OF slot, of k "dmr33ToAMBE v"]
  obtain p c where s: "bridge_send_dmrd e (burst_b15 ?x) (Some v) b = Some (after_burst e (tx_packet e (burst_b15 ?x) b p) c b)"
    "tx_payload (burst_b15 ?x) v b p" "codec_ok c" "length (hbp_buf c) = length (g_buf (b_dmr b))"
    "emb_raw c = tx_emb (burst_b15 ?x) b"
    by (rule bridge_send_dmrd_burst [OF tx_ready_ok [OF assms(1,2)] assms(3), of "burst_b15 ?x" "Some v"]) auto
  have lc: "call_lc b = lc_of (call_of b)" by (simp add: call_lc_def lc_of_def call_of_def)
  have l: "length p = 33" using s(2) by (simp add: tx_payload_def)
  have same: "same_voice p v"
    using s(2) k(1) by (auto simp: tx_payload_def carries_sync_def carries_fragment_def Let_def split: if_splits)
  have "burst_carries (call_of b) ?x p"
  proof (cases "k mod 6 = 0")
    case True
    then show ?thesis using s(2) k(1) same_voice_ambe [OF same] by (simp add: tx_payload_def burst_carries_def carries_sync_def)
  next
    case False
    then have "emb_raw (b_codec b) = emb_of (lc_of (call_of b))" using assms(4) by (simp add: emb_set_def)
    then show ?thesis using False s(2) k same_voice_ambe [OF same]
      by (simp add: tx_payload_def burst_carries_def carries_fragment_def Let_def)
  qed
  note x = this
  have raw: "emb_raw c = emb_of (lc_of (call_of b))"
    using s(5) k(1) assms(4) by (auto simp: tx_emb_def lc emb_set_def split: if_splits)
  note a = after_burst_sends [OF assms(1,2) l x s(3,4) disjI2 [OF raw]]
  have "emb_set (after_burst e (tx_packet e (burst_b15 ?x) b p) c b)"
    using a(1) raw by (simp add: sends_def emb_set_def) (simp add: after_burst_def put_codec_def)
  then show ?thesis using that [of "after_burst e (tx_packet e (burst_b15 ?x) b p) c b"] s(1) a b15_kinds(3) [OF slot] by simp
qed

section \<open>Padding a superframe\<close>

definition silence_ambe :: "bytes list" where
  "silence_ambe = dmr33ToAMBE DMR_SILENCE_DATA"

text \<open>Silent voice bursts from number m up to number n, and the number that completes the superframe.\<close>

definition silent :: "nat \<Rightarrow> nat \<Rightarrow> burst list" where
  "silent m n = List.map (\<lambda>k. Voice k silence_ambe) [m..<n]"

definition superframed :: "nat \<Rightarrow> nat" where
  "superframed n = n + (6 - n mod 6) mod 6"

lemma silent_Cons: "m < n \<Longrightarrow> silent m n = [Voice m silence_ambe] @ silent (Suc m) n"
  by (simp add: silent_def upt_rec [of m])

lemma silent_append: "m \<le> n \<Longrightarrow> n \<le> k \<Longrightarrow> silent m n @ silent n k = silent m k"
  using upt_add_eq_append [of m n "k - n"] by (simp add: silent_def flip: map_append)

lemma superframed_cases:
  obtains q where "n = 6 * q" "superframed n = n"
  | q r where "n = 6 * q + Suc r" "r < 5" "superframed n = 6 * q + 6"
proof (cases "n mod 6 = 0")
  case True
  then show thesis by (intro that(1) [of "n div 6"]) (auto simp: superframed_def)
next
  case False
  then obtain r where r: "n mod 6 = Suc r" by (cases "n mod 6") auto
  have l: "r < 5" using r mod_less_divisor [of 6 n] by simp
  have n: "n = 6 * (n div 6) + Suc r" using mult_div_mod_eq [of 6 n] r by simp
  have "superframed n = 6 * (n div 6) + 6" using n r l by (simp add: superframed_def)
  then show thesis using that(2) n l by blast
qed

lemma superframed_multiple: "superframed n mod 6 = 0" "n \<le> superframed n" "superframed n < n + 6"
  by (cases n rule: superframed_cases; simp)+

lemma superframed_Suc: "n mod 6 \<noteq> 0 \<Longrightarrow> superframed (Suc n) = superframed n \<and> n < superframed n"
proof (cases n rule: superframed_cases)
  case (2 q r)
  have "r = 4 \<or> Suc (Suc r) < 6" using 2(2) by arith
  then have "superframed (Suc n) = 6 * q + 6"
  proof
    assume "r = 4"
    then have "Suc n = 6 * (q + 1)" using 2 by simp
    then show ?thesis by (simp add: superframed_def)
  next
    assume r: "Suc (Suc r) < 6"
    have "Suc n = 6 * q + Suc (Suc r)" using 2 by simp
    then have "Suc n mod 6 = Suc (Suc r)" using r by (simp only: mod_mult_self4 mod_less)
    then show ?thesis using r 2(1) by (simp add: superframed_def)
  qed
  then show ?thesis using 2 by simp
qed simp

lemma length_silence_data [simp]: "length DMR_SILENCE_DATA = 33"
  by (simp add: DMR_SILENCE_DATA_def)

text \<open>The two padding loops count in different fields; the interface is what they share.\<close>

locale frame_counter =
  fixes pad :: "bridge_env \<Rightarrow> bridge \<Rightarrow> bridge option"
    and cnt :: "bridge \<Rightarrow> nat"
    and set_cnt :: "nat \<Rightarrow> bridge \<Rightarrow> bridge"
  assumes pad_step: "pad e b = (if cnt b mod 6 \<noteq> 0
      then Option.bind (bridge_send_dmrd e (b_slot_bit b OR of_nat (cnt b mod 6)) (Some DMR_SILENCE_DATA) b)
             (\<lambda>b. pad e (set_cnt (cnt b + 1) b))
      else Some b)"
    and cnt_set: "cnt (set_cnt n b) = n"
    and cnt_counts: "counts b' = counts b \<Longrightarrow> cnt b' = cnt b"
    and set_sends: "sends xs (set_cnt n b) b' = sends xs b b'" "sends xs b (set_cnt n b') = sends xs b b'"
    and set_core: "tx_core (set_cnt n b) = tx_core b"
    and set_ok: "tx_ok (set_cnt n b) = tx_ok b" "emb_set (set_cnt n b) = emb_set b"
begin

lemma pad_silence:
  assumes "tx_ok b" "length (e_junk55 e) = 55" "cnt b mod 6 = 0 \<or> emb_set b"
  shows "\<exists>b'. pad e b = Some b' \<and> sends (silent (cnt b) (superframed (cnt b))) b b' \<and> tx_core b' = tx_core b \<and>
    cnt b' = superframed (cnt b)"
  using assms
proof (induction "superframed (cnt b) - cnt b" arbitrary: b)
  case 0
  then have "cnt b mod 6 = 0" "superframed (cnt b) = cnt b"
    using superframed_multiple [of "cnt b"] by simp_all
  then show ?case using 0 by (subst pad_step) (simp add: silent_def sends_refl)
next
  case (Suc d)
  let ?n = "cnt b"
  have n: "?n mod 6 \<noteq> 0" using Suc.hyps(2) by (cases "?n mod 6 = 0") (simp_all add: superframed_def)
  have up: "superframed (Suc ?n) = superframed ?n" "?n < superframed ?n"
    using superframed_Suc [OF n] by simp_all
  have "emb_set b" using Suc.prems(3) n by simp
  obtain b1 where b1: "bridge_send_dmrd e (voice_b15 b ?n) (Some DMR_SILENCE_DATA) b = Some b1"
    "sends [Voice ?n silence_ambe] b b1" "emb_set b1" "tx_core b1 = tx_core b" "counts b1 = counts b"
    using send_voice [OF Suc.prems(1,2) length_silence_data, of ?n] \<open>emb_set b\<close> unfolding silence_ambe_def by blast
  have c1: "cnt b1 = ?n" by (rule cnt_counts [OF b1(5)])
  have "(of_nat (?n mod 6) :: u8) \<noteq> 0"
  proof -
    have "unat (of_nat (?n mod 6) :: u8) = ?n mod 6" by (simp add: unat_of_nat)
    then show ?thesis using n by auto
  qed
  then have v: "voice_b15 b ?n = b_slot_bit b OR of_nat (?n mod 6)" by (simp add: voice_b15_def Let_def)
  let ?b = "set_cnt (Suc ?n) b1"
  have "tx_ok b1" using b1(2) by (simp add: sends_def)
  then have "\<exists>b'. pad e ?b = Some b' \<and> sends (silent (cnt ?b) (superframed (cnt ?b))) ?b b' \<and> tx_core b' = tx_core ?b \<and>
      cnt b' = superframed (cnt ?b)"
    using Suc.hyps(2) Suc.prems(2) b1(3) up by (intro Suc.hyps(1)) (simp_all add: cnt_set set_ok)
  then obtain b' where b': "pad e ?b = Some b'" "sends (silent (Suc ?n) (superframed ?n)) b1 b'" "tx_core b' = tx_core b"
    "cnt b' = superframed ?n"
    by (auto simp: cnt_set set_sends set_core b1(4) up(1))
  have "pad e b = Some b'"
    by (subst pad_step) (use n v b1(1) b'(1) c1 in simp)
  moreover have "silent ?n (superframed ?n) = [Voice ?n silence_ambe] @ silent (Suc ?n) (superframed ?n)"
    by (rule silent_Cons [OF up(2)])
  ultimately show ?case using sends_trans [OF b1(2) b'(2)] b'(3,4) by auto
qed

end

interpretation ptt: frame_counter ptt_pad ptt_voice_frames "\<lambda>n b. b\<lparr>ptt_voice_frames := n\<rparr>"
  by unfold_locales (subst ptt_pad.simps, simp_all add: counts_def)

interpretation eot: frame_counter eot_pad b_dmr_tx_frames "\<lambda>n b. b\<lparr>b_dmr_tx_frames := n\<rparr>"
  by unfold_locales (subst eot_pad.simps, simp_all add: counts_def)

section \<open>Headers and the key-up\<close>

lemma send_heads:
  assumes "tx_ok b" "length (e_junk55 e) = 55"
  shows "\<exists>b'. send_times n (\<lambda>b. bridge_send_dmrd e (VHEAD_B15 b) vo b) b = Some b' \<and> sends (replicate n Head) b b' \<and>
    tx_core b' = tx_core b \<and> counts b' = counts b"
  using assms(1)
proof (induction n arbitrary: b)
  case 0
  then show ?case by (simp add: sends_refl)
next
  case (Suc n)
  have "b_slot_bit b = 0x80" using Suc.prems by (simp add: tx_ok_def)
  then have h: "VHEAD_B15 b = burst_b15 Head" by (simp add: b15_kinds burst_b15_def)
  obtain b1 where b1: "bridge_send_dmrd e (VHEAD_B15 b) vo b = Some b1" "sends [Head] b b1" "tx_core b1 = tx_core b" "counts b1 = counts b"
    using send_header [OF Suc.prems assms(2), of Head vo] unfolding h by blast
  have "tx_ok b1" using b1(2) by (simp add: sends_def)
  from Suc.IH [OF this] show ?case using b1 sends_trans [OF b1(2)] by auto
qed

lemma send_term:
  assumes "tx_ok b" "length (e_junk55 e) = 55"
  obtains b' where "bridge_send_dmrd e (VTERM_B15 b) vo b = Some b'" "sends [Term] b b'" "tx_core b' = tx_core b" "counts b' = counts b"
proof -
  have "b_slot_bit b = 0x80" using assms(1) by (simp add: tx_ok_def)
  then have "VTERM_B15 b = burst_b15 Term" by (simp add: b15_kinds burst_b15_def)
  then show ?thesis using send_header [OF assms, of Term vo] that by auto
qed

fun run :: "(bridge_env \<Rightarrow> bridge \<Rightarrow> bridge option) \<Rightarrow> bridge_env list \<Rightarrow> bridge \<Rightarrow> bridge option" where
  "run f [] b = Some b"
| "run f (e # es) b = Option.bind (f e b) (run f es)"

lemma run_append: "run f (es @ es') b = Option.bind (run f es b) (run f es')"
  by (induction es arbitrary: b) (auto split: Option.bind_split)

text \<open>The polls between the headers and the end of the key-up send one silent burst each.\<close>

lemma ptt_voice_polls:
  assumes "tx_ok b" "ptt_active b" "ptt_phase b = 1" "ptt_voice_frames b = n" "n mod 6 = 0 \<or> emb_set b"
    and "\<forall>e\<in>set es. length (e_junk55 e) = 55 \<and> ms_since e (ptt_start b) < CONNECT_PTT_MS"
  shows "\<exists>b'. run bridge_emit_connect_ptt es b = Some b' \<and> sends (silent n (n + length es)) b b' \<and> tx_core b' = tx_core b \<and>
    ptt_voice_frames b' = n + length es \<and> ((n + length es) mod 6 = 0 \<or> emb_set b')"
  using assms
proof (induction es arbitrary: b n)
  case Nil
  then show ?case by (simp add: sends_refl silent_def)
next
  case (Cons e es)
  have e: "length (e_junk55 e) = 55" "\<not> CONNECT_PTT_MS \<le> ms_since e (ptt_start b)" using Cons.prems(6) by auto
  obtain b1 where b1: "bridge_send_dmrd e (voice_b15 b n) (Some DMR_SILENCE_DATA) b = Some b1"
    "sends [Voice n silence_ambe] b b1" "emb_set b1" "tx_core b1 = tx_core b" "counts b1 = counts b"
    using send_voice [OF Cons.prems(1) e(1) length_silence_data Cons.prems(5)] unfolding silence_ambe_def by blast
  note c = tx_core_fields [OF b1(4)]
  let ?b = "b1\<lparr>ptt_voice_frames := Suc n\<rparr>"
  have ok: "tx_ok b1" using b1(2) by (simp add: sends_def)
  have n1: "ptt_voice_frames b1 = n" using b1(5) Cons.prems(4) by (simp add: counts_def)
  have step: "bridge_emit_connect_ptt e b = Some ?b"
    using Cons.prems(2-4) e(2) b1(1) n1 by (simp add: bridge_emit_connect_ptt_def)
  have "\<exists>b'. run bridge_emit_connect_ptt es ?b = Some b' \<and> sends (silent (Suc n) (Suc n + length es)) ?b b' \<and> tx_core b' = tx_core ?b \<and>
    ptt_voice_frames b' = Suc n + length es \<and> ((Suc n + length es) mod 6 = 0 \<or> emb_set b')"
    by (rule Cons.IH) (use Cons.prems ok b1(3) c in simp_all)
  then obtain b' where b': "run bridge_emit_connect_ptt es ?b = Some b'" "sends (silent (Suc n) (Suc n + length es)) b1 b'"
    "tx_core b' = tx_core b" "ptt_voice_frames b' = Suc n + length es" "(Suc n + length es) mod 6 = 0 \<or> emb_set b'"
    using b1(4) by auto
  have "silent n (n + length (e # es)) = [Voice n silence_ambe] @ silent (Suc n) (Suc n + length es)"
    using silent_Cons [of n "Suc n + length es"] by simp
  then show ?case using step b' sends_trans [OF b1(2) b'(2)] by auto
qed

lemma ptt_finish:
  assumes "tx_ok b" "length (e_junk55 e) = 55" "ptt_voice_frames b mod 6 = 0 \<or> emb_set b"
  obtains b1 where "sends (silent (ptt_voice_frames b) (superframed (ptt_voice_frames b)) @ [Term]) b b1" "tx_core b1 = tx_core b"
    "bridge_connect_ptt_finish e b = Some (if ptt_clearing b \<and> 0 < dp_tg (b_dmr b)
       then bridge_connect_ptt_begin_stream e (dp_tg (b_dmr b)) False b1 else ptt_clear b1)"
proof -
  obtain b0 where b0: "ptt_pad e b = Some b0" "sends (silent (ptt_voice_frames b) (superframed (ptt_voice_frames b))) b b0"
    "tx_core b0 = tx_core b" using ptt.pad_silence [OF assms] by blast
  have ok: "tx_ok b0" using b0(2) by (simp add: sends_def)
  obtain b1 where b1: "bridge_send_dmrd e (VTERM_B15 b0) (Some DMR_SILENCE_DATA) b0 = Some b1" "sends [Term] b0 b1" "tx_core b1 = tx_core b0"
    by (rule send_term [OF ok assms(2)])
  have tg: "dp_tg (b_dmr b1) = dp_tg (b_dmr b)" using tx_core_fields(14) [OF b0(3)] tx_core_fields(14) [OF b1(3)] by simp
  have "bridge_connect_ptt_finish e b = Some (if ptt_clearing b \<and> 0 < dp_tg (b_dmr b)
      then bridge_connect_ptt_begin_stream e (dp_tg (b_dmr b)) False b1 else ptt_clear b1)"
    by (simp add: bridge_connect_ptt_finish_def b0(1) b1(1) tg Let_def)
  then show ?thesis using that sends_trans [OF b0(2) b1(2)] b0(3) b1(3) by metis
qed

section \<open>A call from YSF\<close>

text \<open>The 49 bits of a raw frame: its last byte carries one.\<close>

definition ambe49 :: "bytes \<Rightarrow> bytes" where
  "ambe49 v = v[6 := v ! 6 AND 0x80]"

text \<open>The raw frame that a receiver reads from the nine bytes of a voice frame.\<close>

definition record_ambe :: "bytes \<Rightarrow> bytes" where
  "record_ambe r =
     (let a = msb_word (gather_bits DMR_A_TABLE (bits_of r)); b = msb_word (gather_bits DMR_B_TABLE (bits_of r));
          c = msb_word (gather_bits DMR_C_TABLE (bits_of r)); da = drop_bit 12 a
      in abcToAMBE7 da (drop_bit 11 (b XOR drop_bit 1 (PRNG_TABLE ! unat da))) c)"

lemma dmr_burst_ambe:
  assumes "length data = 33" "length v1 = 9" "length v2 = 9" "length v3 = 9"
  shows "length (dmr_burst data v1 v2 v3) = 33"
    "dmr33ToAMBE (dmr_burst data v1 v2 v3) = [record_ambe v1, record_ambe v2, record_ambe v3]"
proof -
  show "length (dmr_burst data v1 v2 v3) = 33" using assms by (simp add: dmr_burst_def Let_def)
  have r: "\<forall>p \<in> set DMR_A_TABLE. p < 72" "\<forall>p \<in> set DMR_B_TABLE. p < 72" "\<forall>p \<in> set DMR_C_TABLE. p < 72"
    using dmr_tables(5) by auto
  have masks: "(0x800000 :: u32) = 2 ^ (24 - Suc 0)" "(0x400000 :: u32) = 2 ^ (23 - Suc 0)" "(0x1000000 :: u32) = 2 ^ (25 - Suc 0)"
    by simp_all
  note f = dmr_fields_burst [OF assms]
  have "dmr_fields (dmr_burst data v1 v2 v3) DMR_A_TABLE 24 0x800000 = (msb_word (gather_bits DMR_A_TABLE (bits_of v1)),
      msb_word (gather_bits DMR_A_TABLE (bits_of v2)), msb_word (gather_bits DMR_A_TABLE (bits_of v3)))"
    "dmr_fields (dmr_burst data v1 v2 v3) DMR_B_TABLE 23 0x400000 = (msb_word (gather_bits DMR_B_TABLE (bits_of v1)),
      msb_word (gather_bits DMR_B_TABLE (bits_of v2)), msb_word (gather_bits DMR_B_TABLE (bits_of v3)))"
    "dmr_fields (dmr_burst data v1 v2 v3) DMR_C_TABLE 25 0x1000000 = (msb_word (gather_bits DMR_C_TABLE (bits_of v1)),
      msb_word (gather_bits DMR_C_TABLE (bits_of v2)), msb_word (gather_bits DMR_C_TABLE (bits_of v3)))"
    unfolding masks by (rule f; simp add: dmr_tables r)+
  then show "dmr33ToAMBE (dmr_burst data v1 v2 v3) = [record_ambe v1, record_ambe v2, record_ambe v3]"
    by (simp add: dmr33ToAMBE_def record_ambe_def Let_def)
qed

lemma record_ambe_frame:
  assumes "length jd = 9" "length v = 7"
  shows "record_ambe (snd (dmr_record jd v)) = ambe49 v"
proof -
  obtain a b c where r: "ambe_ok a b c" "abcToAMBE7 a b c = ambe49 v" "dmr_record jd v = (TAG_DATA, dmr_voice jd a b c)"
    "length (dmr_voice jd a b c) = 9" "gather_bits dmr_positions (bits_of (dmr_voice jd a b c)) = dmr_air a b c"
    using dmr_record_air [OF assms] unfolding ambe49_def by blast
  show ?thesis
    using dmr33_burst [OF length_replicate [of 33 0] r(4,4,4) r(1,1,1) r(5,5,5)] dmr_burst_ambe(2) [OF length_replicate [of 33 0] r(4,4,4)]
    by (simp add: r(2,3))
qed

lemma emit_header:
  assumes "tx_ok b" "length (e_junk55 e) = 55" "length (e_junk9 e) = 9" "length (e_junk33 e) = 33"
    and "conv_holds (b_conv b) yf ((TAG_HEADER, h) # df)"
  obtains b' where "bridge_emit_dmr_from_conv e b = Some b'" "sends [Head, Head, Head] b b'" "conv_holds (b_conv b') yf df"
    "b_dmr_tx_frames b' = b_dmr_tx_frames b" "tx_core b' = tx_core (b\<lparr>b_conv := b_conv b'\<rparr>)"
proof -
  have "read_dmr (e_junk33 e) ((TAG_HEADER, h) # df) = (TAG_HEADER, memcpy (e_junk33 e) 0 h, df)"
    by (simp add: read_dmr_def)
  from getDMR_reads [OF assms(5,4,3) this] obtain s' where
    s: "getDMR (e_junk9 e) (e_junk33 e) (b_conv b) = (TAG_HEADER, memcpy (e_junk33 e) 0 h, s')" "conv_holds s' yf df" by blast
  let ?b = "b\<lparr>b_conv := s'\<rparr>"
  have ok: "tx_ok ?b" using assms(1) by simp
  obtain b' where b': "send_times 3 (\<lambda>b. bridge_send_dmrd e (VHEAD_B15 b) None b) ?b = Some b'" "sends (replicate 3 Head) ?b b'"
    "tx_core b' = tx_core ?b" "counts b' = counts ?b"
    using send_heads [OF ok assms(2)] by blast
  have "bridge_emit_dmr_from_conv e b = Some b'"
    unfolding bridge_emit_dmr_from_conv_def modeconv_get_dmr_def s(1) using b'(1) by simp
  moreover have "sends [Head, Head, Head] b b'" using b'(2) by (simp add: numeral_3_eq_3)
  ultimately show ?thesis using that s(2) tx_core_fields(1) [OF b'(3)] b'(3,4) by (simp add: counts_def)
qed

lemma emit_voice:
  assumes "tx_ok b" "length (e_junk55 e) = 55" "length (e_junk9 e) = 9" "length (e_junk33 e) = 33"
    and "b_dmr_tx_frames b = n" "n mod 6 = 0 \<or> emb_set b"
    and "conv_holds (b_conv b) yf (List.map (Pair TAG_DATA) [v1, v2, v3] @ df)"
    and "length v1 = 9" "length v2 = 9" "length v3 = 9"
  obtains b' where "bridge_emit_dmr_from_conv e b = Some b'" "sends [Voice n [record_ambe v1, record_ambe v2, record_ambe v3]] b b'"
    "conv_holds (b_conv b') yf df" "b_dmr_tx_frames b' = Suc n" "emb_set b'" "tx_core b' = tx_core (b\<lparr>b_conv := b_conv b'\<rparr>)"
proof -
  let ?d = "dmr_burst (e_junk33 e) v1 v2 v3"
  note d = dmr_burst_ambe [OF assms(4,8-10)]
  have "read_dmr (e_junk33 e) (List.map (Pair TAG_DATA) [v1, v2, v3] @ df) = (TAG_DATA, ?d, df)"
    by (simp add: read_dmr_def)
  from getDMR_reads [OF assms(7,4,3) this] obtain s' where
    s: "getDMR (e_junk9 e) (e_junk33 e) (b_conv b) = (TAG_DATA, ?d, s')" "conv_holds s' yf df" by blast
  let ?b = "b\<lparr>b_conv := s'\<rparr>"
  have ok: "tx_ok ?b" and em: "n mod 6 = 0 \<or> emb_set ?b" using assms(1,6) by simp_all
  obtain b1 where b1: "bridge_send_dmrd e (voice_b15 ?b n) (Some ?d) ?b = Some b1" "sends [Voice n (dmr33ToAMBE ?d)] ?b b1" "emb_set b1"
    "tx_core b1 = tx_core ?b" "counts b1 = counts ?b"
    by (rule send_voice [OF ok assms(2) d(1) em])
  have n: "b_dmr_tx_frames b1 = n" using b1(5) assms(5) by (simp add: counts_def)
  have "bridge_emit_dmr_from_conv e b = Some (b1\<lparr>b_dmr_tx_frames := Suc n\<rparr>)"
    unfolding bridge_emit_dmr_from_conv_def modeconv_get_dmr_def s(1) using b1(1) n assms(5) by simp
  then show ?thesis
    by (rule that) (use b1(2-4) s(2) tx_core_fields(1) [OF b1(4)] in \<open>simp_all add: d(2)\<close>)
qed

lemma emit_eot:
  assumes "tx_ok b" "length (e_junk55 e) = 55" "length (e_junk9 e) = 9" "length (e_junk33 e) = 33"
    and "b_dmr_tx_frames b = n" "n mod 6 = 0 \<or> emb_set b" "conv_holds (b_conv b) yf ((TAG_EOT, h) # df)"
  obtains b1 where "bridge_emit_dmr_from_conv e b = Some (bridge_reset_call b1)" "sends (silent n (superframed n) @ [Term]) b b1"
proof -
  have "read_dmr (e_junk33 e) ((TAG_EOT, h) # df) = (TAG_EOT, memcpy (e_junk33 e) 0 h, df)"
    by (simp add: read_dmr_def)
  from getDMR_reads [OF assms(7,4,3) this] obtain s' where
    s: "getDMR (e_junk9 e) (e_junk33 e) (b_conv b) = (TAG_EOT, memcpy (e_junk33 e) 0 h, s')" by blast
  let ?b = "b\<lparr>b_conv := s'\<rparr>"
  obtain b0 where b0: "eot_pad e ?b = Some b0" "sends (silent n (superframed n)) ?b b0"
    using eot.pad_silence [of ?b e] assms(1,2,5,6) by auto
  have ok: "tx_ok b0" using b0(2) by (simp add: sends_def)
  obtain b1 where b1: "bridge_send_dmrd e (VTERM_B15 b0) (Some (memcpy (e_junk33 e) 0 h)) b0 = Some b1" "sends [Term] b0 b1"
    by (rule send_term [OF ok assms(2)])
  have "bridge_emit_dmr_from_conv e b = Some (bridge_reset_call b1)"
    unfolding bridge_emit_dmr_from_conv_def modeconv_get_dmr_def s(1) using b0(1) b1(1) by simp
  then show ?thesis by (rule that) (use sends_trans [OF b0(2) b1(2)] in simp)
qed

text \<open>Voice bursts of three raw frames each, numbered from n on.\<close>

fun voice_bursts :: "nat \<Rightarrow> bytes list \<Rightarrow> burst list" where
  "voice_bursts n (v1 # v2 # v3 # vs) = Voice n [v1, v2, v3] # voice_bursts (Suc n) vs"
| "voice_bursts n vs = []"

lemma emit_call:
  assumes "\<forall>e\<in>set es. length (e_junk55 e) = 55 \<and> length (e_junk9 e) = 9 \<and> length (e_junk33 e) = 33"
    and "length vs = 3 * k" "length es = Suc k" "\<forall>v\<in>set vs. length v = 9"
    and "tx_ok b" "b_dmr_tx_frames b = n" "n mod 6 = 0 \<or> emb_set b"
    and "conv_holds (b_conv b) yf (List.map (Pair TAG_DATA) vs @ [(TAG_EOT, h)])"
  shows "\<exists>b1. run bridge_emit_dmr_from_conv es b = Some (bridge_reset_call b1) \<and>
    sends (voice_bursts n (List.map record_ambe vs) @ silent (n + k) (superframed (n + k)) @ [Term]) b b1"
  using assms
proof (induction k arbitrary: vs es n b)
  case 0
  then obtain e where e: "es = [e]" by (cases es) auto
  have c: "conv_holds (b_conv b) yf ((TAG_EOT, h) # [])" using 0 by simp
  have j: "length (e_junk55 e) = 55" "length (e_junk9 e) = 9" "length (e_junk33 e) = 33" using 0(1) e by auto
  obtain b1 where "bridge_emit_dmr_from_conv e b = Some (bridge_reset_call b1)" "sends (silent n (superframed n) @ [Term]) b b1"
    by (rule emit_eot [OF 0(5) j 0(6,7) c])
  then show ?case using 0(2) by (auto simp: e)
next
  case (Suc k)
  obtain e es' where e: "es = e # es'" using Suc.prems(3) by (cases es) auto
  have "3 \<le> length vs" using Suc.prems(2) by simp
  then obtain v1 v2 v3 us where vs: "vs = v1 # v2 # v3 # us" by (auto simp: Suc_le_length_iff numeral_eq_Suc)
  have j: "length (e_junk55 e) = 55" "length (e_junk9 e) = 9" "length (e_junk33 e) = 33" using Suc.prems(1) e by auto
  have l: "length v1 = 9" "length v2 = 9" "length v3 = 9" using Suc.prems(4) by (auto simp: vs)
  have c: "conv_holds (b_conv b) yf (List.map (Pair TAG_DATA) [v1, v2, v3] @ (List.map (Pair TAG_DATA) us @ [(TAG_EOT, h)]))"
    using Suc.prems(8) by (simp add: vs)
  obtain b0 where b0: "bridge_emit_dmr_from_conv e b = Some b0" "sends [Voice n [record_ambe v1, record_ambe v2, record_ambe v3]] b b0"
    "conv_holds (b_conv b0) yf (List.map (Pair TAG_DATA) us @ [(TAG_EOT, h)])" "b_dmr_tx_frames b0 = Suc n" "emb_set b0"
    "tx_core b0 = tx_core (b\<lparr>b_conv := b_conv b0\<rparr>)"
    by (rule emit_voice [OF Suc.prems(5) j Suc.prems(6,7) c l])
  have "\<exists>b1. run bridge_emit_dmr_from_conv es' b0 = Some (bridge_reset_call b1) \<and>
    sends (voice_bursts (Suc n) (List.map record_ambe us) @ silent (Suc n + k) (superframed (Suc n + k)) @ [Term]) b0 b1"
    by (rule Suc.IH) (use Suc.prems b0 in \<open>simp_all add: e vs sends_def\<close>)
  then obtain b1 where b1: "run bridge_emit_dmr_from_conv es' b0 = Some (bridge_reset_call b1)"
    "sends (voice_bursts (Suc n) (List.map record_ambe us) @ silent (Suc n + k) (superframed (Suc n + k)) @ [Term]) b0 b1" by blast
  show ?case using b0(1) b1(1) sends_trans [OF b0(2) b1(2)] by (auto simp: e vs)
qed

section \<open>A concrete bridge\<close>

definition sample_env :: "int \<Rightarrow> bridge_env" where
  "sample_env sec = \<lparr>e_now = \<lparr>tv_sec = sec, tv_nsec = 0\<rparr>, e_rand = (\<lambda>_. 6), e_schar = True, e_junk9 = replicate 9 0,
     e_junk13 = replicate 13 0, e_junk32 = replicate 32 0, e_junk33 = replicate 33 0, e_junk55 = replicate 55 0,
     e_junk155 = replicate 155 0, e_log_tx = True, e_header_in = blank_locals 45 23, e_header_out1 = blank_locals 45 25,
     e_header_out2 = blank_locals 45 25, e_channel_out = blank_locals 25 13\<rparr>"

definition bridge_boot :: bridge where
  "bridge_boot = \<lparr>b_dmr = dmr_globals, b_ysf = ysf_opened, b_aliases = None, b_default_ysf_dmrid = 0, b_stream_id = 0, b_seq = 0,
     b_slot_bit = 0, b_ysf_fn = 0, b_ysf_cnt = 0, b_net_src = replicate 10 0, b_net_dst = replicate 10 0, b_ysf_rf_id = 0,
     b_dmr_voice_frames = 0, b_dmr_tx_frames = 0, b_dmr_dmrd_other = 0, b_ysf_voice_frames = 0, b_call_active = False,
     b_dmr_last_dtype = 0, b_dmra = dmra_zero, b_last_dmr_tx = \<lparr>tv_sec = 0, tv_nsec = 0\<rparr>,
     b_last_ysf_tx = \<lparr>tv_sec = 0, tv_nsec = 0\<rparr>, b_dmr_was_connected = False, b_clear_dynamic_tg = False, ptt_active = False,
     ptt_phase = 0, ptt_voice_frames = 0, ptt_tg = 0, ptt_clearing = False, ptt_start = \<lparr>tv_sec = 0, tv_nsec = 0\<rparr>,
     b_conv = CModeConv, b_codec = \<lparr>hbp_buf = [], bptc_rawData = replicate 196 False, bptc_deInterData = replicate 196 False,
       emb_raw = replicate 128 False, emb_data = replicate 72 False, rx_srcid = 0, tx_tgid = 0\<rparr>,
     b_rands = 0, b_sent = []\<rparr>"

text \<open>The bridge right after \<open>bridge_init\<close> with its two peers opened.\<close>

definition sample_bridge :: bridge where
  "sample_bridge = (bridge_init (sample_env 0) [] None 0 True bridge_boot)\<lparr>b_dmr := dmr_opened [], b_ysf := ysf_opened\<rparr>"

lemma sample_lengths:
  "length (e_junk55 (sample_env t)) = 55" "length (e_junk9 (sample_env t)) = 9" "length (e_junk33 (sample_env t)) = 33"
  by (simp_all add: sample_env_def)

lemma sample_ok: "tx_ok sample_bridge" "b_dmr_tx_frames sample_bridge = 0" "b_seq sample_bridge = 0" "b_sent sample_bridge = []"
  "dp_tg (b_dmr sample_bridge) = 4000" "b_clear_dynamic_tg sample_bridge" "\<not> b_call_active sample_bridge" "\<not> ptt_active sample_bridge"
  by (simp_all add: sample_bridge_def tx_ok_def codec_ok_def codec_of_def rf_id_of_def dmrid_of_def bridge_init_def bridge_boot_def
      dmr_opened_def peer_dmr_open_def dmr_globals_def dmr_slot_bit_from_options_def Let_def)

section \<open>Properties\<close>

text \<open>
  C37: the key-up after a connection. Three voice headers, one silent burst at each poll of the first half
  second, silence up to a full superframe and a terminator are sent as one stream to the group of
  the key-up; then, when this was the disconnect group, a second stream to the configured group is
  begun, and otherwise the key-up is over.
\<close>

theorem connect_key_up:
  assumes "tx_ok b" "ptt_active b" "ptt_phase b = 0" "ptt_voice_frames b = 0"
    and "length (e_junk55 e0) = 55" "length (e_junk55 e1) = 55"
    and "\<forall>e\<in>set es. length (e_junk55 e) = 55 \<and> ms_since e (e_now e0) < CONNECT_PTT_MS"
    and "CONNECT_PTT_MS \<le> ms_since e1 (e_now e0)"
  shows "\<exists>b' ps. run bridge_emit_connect_ptt (e0 # es @ [e1]) b = Some b' \<and> b_sent b' = b_sent b @ List.map To_dmr ps \<and>
    stream_ok (call_of b) (b_seq b) ([Head, Head, Head] @ silent 0 (superframed (length es)) @ [Term]) ps \<and>
    (if ptt_clearing b \<and> 0 < dp_tg (b_dmr b)
     then ptt_active b' \<and> ptt_phase b' = 0 \<and> ptt_voice_frames b' = 0 \<and> ptt_tg b' = dp_tg (b_dmr b) \<and> \<not> ptt_clearing b' \<and>
       b_seq b' = 0 \<and> b_stream_id b' = e_rand e1 (b_rands b) OR 1
     else \<not> ptt_active b' \<and> ptt_tg b' = 0)"
proof -
  obtain b0 where b0: "send_times 3 (\<lambda>b. bridge_send_dmrd e0 (VHEAD_B15 b) None b) b = Some b0" "sends (replicate 3 Head) b b0"
    "tx_core b0 = tx_core b" "counts b0 = counts b"
    using send_heads [OF assms(1,5)] by blast
  note c0 = tx_core_fields [OF b0(3)]
  let ?b0 = "b0\<lparr>ptt_phase := 1, ptt_start := e_now e0\<rparr>"
  have s0: "bridge_emit_connect_ptt e0 b = Some ?b0" using b0(1) assms(2,3) by (simp add: bridge_emit_connect_ptt_def)
  have ok0: "tx_ok ?b0" "sends (replicate 3 Head) b ?b0" using b0(2) by (simp_all, simp add: sends_def)
  have n0: "ptt_voice_frames ?b0 = 0" using b0(4) assms(4) by (simp add: counts_def)
  have "\<exists>b1. run bridge_emit_connect_ptt es ?b0 = Some b1 \<and> sends (silent 0 (0 + length es)) ?b0 b1 \<and> tx_core b1 = tx_core ?b0 \<and>
    ptt_voice_frames b1 = 0 + length es \<and> ((0 + length es) mod 6 = 0 \<or> emb_set b1)"
    by (rule ptt_voice_polls [OF ok0(1)]) (use n0 c0 assms in simp_all)
  then obtain b1 where b1: "run bridge_emit_connect_ptt es ?b0 = Some b1" "sends (silent 0 (length es)) ?b0 b1" "tx_core b1 = tx_core ?b0"
    "ptt_voice_frames b1 = length es" "length es mod 6 = 0 \<or> emb_set b1" by auto
  note c1 = tx_core_fields [OF b1(3)]
  have ok1: "tx_ok b1" using b1(2) by (simp add: sends_def)
  obtain b2 where b2: "sends (silent (length es) (superframed (length es)) @ [Term]) b1 b2" "tx_core b2 = tx_core b1"
    "bridge_connect_ptt_finish e1 b1 = Some (if ptt_clearing b1 \<and> 0 < dp_tg (b_dmr b1)
       then bridge_connect_ptt_begin_stream e1 (dp_tg (b_dmr b1)) False b2 else ptt_clear b2)"
    by (rule ptt_finish [OF ok1 assms(6)]) (use b1 in auto)
  note c2 = tx_core_fields [OF b2(2)]
  let ?b' = "if ptt_clearing b \<and> 0 < dp_tg (b_dmr b) then bridge_connect_ptt_begin_stream e1 (dp_tg (b_dmr b)) False b2 else ptt_clear b2"
  have s1: "bridge_emit_connect_ptt e1 b1 = Some ?b'"
    using b2(3) c0 c1 assms(2,8) by (simp add: bridge_emit_connect_ptt_def)
  have r: "run bridge_emit_connect_ptt (e0 # es @ [e1]) b = Some ?b'" by (simp add: s0 run_append b1(1) s1 del: One_nat_def)
  have "sends (replicate 3 Head @ silent 0 (length es) @ silent (length es) (superframed (length es)) @ [Term]) b b2"
    using sends_trans [OF ok0(2) sends_trans [OF b1(2) b2(1)]] by simp
  then have "sends ([Head, Head, Head] @ silent 0 (superframed (length es)) @ [Term]) b b2"
    using silent_append [of 0 "length es" "superframed (length es)"] superframed_multiple(2) [of "length es"]
    by (simp add: numeral_3_eq_3 flip: append_assoc)
  then obtain ps where "b_sent b2 = b_sent b @ List.map To_dmr ps"
    "stream_ok (call_of b) (b_seq b) ([Head, Head, Head] @ silent 0 (superframed (length es)) @ [Term]) ps"
    using sends_stream by blast
  moreover have "b_rands b2 = b_rands b" using c0 c1 c2 by simp
  ultimately show ?thesis
    by (intro exI [of _ ?b'] exI [of _ ps] conjI r)
      (auto simp: bridge_connect_ptt_begin_stream_def new_stream_id_def ptt_clear_def Let_def)
qed

lemma connect_key_up_witness:
  "\<exists>b' ps. run bridge_emit_connect_ptt [sample_env 0, sample_env 0, sample_env 1] (bridge_start_connect_ptt (sample_env 0) sample_bridge) = Some b' \<and>
    b_sent b' = List.map To_dmr ps \<and>
    stream_ok \<lparr>cl_tg = 4000, cl_rf = 730555, cl_repeater = 730555, cl_stream = 7\<rparr> 0 ([Head, Head, Head] @ silent 0 6 @ [Term]) ps \<and>
    ptt_active b' \<and> \<not> ptt_clearing b' \<and> ptt_tg b' = 4000 \<and> b_stream_id b' = 7"
proof -
  let ?b = "bridge_start_connect_ptt (sample_env 0) sample_bridge"
  have b: "?b = sample_bridge\<lparr>b_rands := 1, ptt_active := True, ptt_phase := 0, ptt_voice_frames := 0, ptt_tg := 4000,
      ptt_clearing := True, b_stream_id := 7, b_seq := 0, ptt_start := \<lparr>tv_sec = 0, tv_nsec = 0\<rparr>, b_last_dmr_tx := \<lparr>tv_sec = 0, tv_nsec = 0\<rparr>\<rparr>"
    using sample_ok(5-8) by (simp add: bridge_start_connect_ptt_def bridge_connect_ptt_begin_stream_def new_stream_id_def
        DMR_CLEAR_DYNAMIC_TG_def sample_env_def) (simp add: sample_bridge_def bridge_init_def bridge_boot_def)
  have same: "rf_id_of ?b = rf_id_of sample_bridge" "codec_of ?b = codec_of sample_bridge" "b_slot_bit ?b = b_slot_bit sample_bridge"
    by (simp_all add: b rf_id_of_def dmrid_of_def codec_of_def)
  have tx: "tx_ok ?b" using sample_ok(1) by (simp only: tx_ok_def same)
  have ok: "tx_ok ?b" "ptt_active ?b" "ptt_phase ?b = 0" "ptt_voice_frames ?b = 0" "ptt_clearing ?b" "dp_tg (b_dmr ?b) = 4000" "b_sent ?b = []" "b_seq ?b = 0"
    by (rule tx) (use sample_ok in \<open>simp_all add: b\<close>)
  have call: "call_of ?b = \<lparr>cl_tg = 4000, cl_rf = 730555, cl_repeater = 730555, cl_stream = 7\<rparr>"
    by (simp add: b call_of_def bridge_tx_tg_def rf_id_of_def dmrid_of_def)
      (simp add: sample_bridge_def bridge_init_def dmr_opened_def peer_dmr_open_def Let_def)
  have s: "superframed (length [sample_env 0]) = 6" by (simp add: superframed_def)
  have h: "\<forall>e\<in>set [sample_env 0]. length (e_junk55 e) = 55 \<and> ms_since e (e_now (sample_env 0)) < CONNECT_PTT_MS"
    "CONNECT_PTT_MS \<le> ms_since (sample_env 1) (e_now (sample_env 0))"
    by (simp_all add: ms_since_def CONNECT_PTT_MS_def sample_env_def)
  have sid: "e_rand (sample_env 1) n OR 1 = 7" for n by (simp add: sample_env_def)
  from connect_key_up [OF ok(1-4) sample_lengths(1) [of 0] sample_lengths(1) [of 1] h]
  show ?thesis unfolding s call ok(6-8) sid append.simps using ok(5) by (auto simp del: stream_ok.simps run.simps)
qed

end
