(* ===== verification/Bridge_Ysf.thy ===== *)
theory Bridge_Ysf
  imports Bridge_Stream
begin

text \<open>
  The YSF side of the bridge: what the frames carry that it sends for a call from DMR, and what a bridge
  at the other end reads from them.
\<close>

section \<open>The FICH of a frame on the air\<close>

text \<open>The decoder reads the first 25 bytes.\<close>

lemma fich_decode_front:
  assumes "25 \<le> length out" "fich_wf g" "fich_wf h" "take 25 inp = take 25 (snd (fich_encode out g))"
  shows "map_option m_fich (fich_decode inp h) = Some (addCCITT162 (m_fich g) 6)"
proof -
  let ?f = "addCCITT162 (m_fich g) 6" and ?o = "snd (fich_encode out g)"
  note e = fich_encode_bits [OF assms(1), of g]
  have "length (take 25 inp) = 25" using assms(1,4) e(2) by simp
  then have l: "25 \<le> length inp" by simp
  have front: "bits_of xs ! i = bits_of (take 25 xs) ! i" if "i < 200" "25 \<le> length xs" for xs i
    using arg_cong [OF append_take_drop_id [of 25 xs, symmetric], of bits_of] that
    by (simp only: bits_of_append nth_append) simp
  have "gather fich_perm 200 (bits_of inp) = gather fich_perm 200 (bits_of ?o)"
  proof (rule nth_equalityI)
    fix i assume "i < length (gather fich_perm 200 (bits_of inp))"
    then have i: "i < 200" by simp
    have "bits_of inp ! fich_perm i = bits_of ?o ! fich_perm i"
      using front [OF fich_il.perm_bound [OF i], of inp] front [OF fich_il.perm_bound [OF i], of ?o] l e(2) assms(1,4) by simp
    then show "gather fich_perm 200 (bits_of inp) ! i = gather fich_perm 200 (bits_of ?o) ! i" using i by simp
  qed simp
  also have "\<dots> = flatten_pairs (path_out 0 (fich_path ?f))"
    unfolding e(3) using assms(1) by (intro fich_il.gather_scatter) simp_all
  finally show ?thesis
    using viterbi_decode_code [of inp "m_vit h" ?f] assms l by (simp add: fich_decode_read fich_wf_def fich_read_code)
qed

definition air_fields :: "u8 \<Rightarrow> u8 \<Rightarrow> u8 \<Rightarrow> u8 \<Rightarrow> fich_fields" where
  "air_fields fi fn ft cm = \<lparr>f_fi = fi AND 3, f_fn = fn AND 7, f_ft = ft AND 7, f_cm = cm AND 3, f_dt = 2\<rparr>"

text \<open>What any receiver reads from the FICH of frame f.\<close>

definition announces :: "fich_fields \<Rightarrow> u8 \<Rightarrow> bytes \<Rightarrow> bool" where
  "announces fs dgid f \<longleftrightarrow> (\<forall>h. fich_wf h \<longrightarrow>
     (\<exists>h'. ysf_fich_decode_fields f h = Some (h', fs) \<and> ysf_fich_get_dgid h' = dgid \<and> fich_wf h'))"

lemma decode_at_sync:
  assumes "sub_buf f 35 5 = YSF_SYNC_WORD" "fich_decode (drop 40 f) h = Some h'"
  shows "ysf_fich_decode_fields f h = Some (h', fields_of (m_fich h'))"
proof -
  have "ysf_fich_guess_rx_offset f = 40" using assms(1) by (simp add: ysf_fich_guess_rx_offset_def)
  moreover have "x AND 3 \<le> 3" for x :: u8 by (metis word_and_le1)
  then have "f_fi (fields_of x) \<le> 3" for x by (simp add: fields_of_def)
  ultimately show ?thesis
    using assms(2) by (simp add: ysf_fich_decode_fields_def ysf_fich_decode_at_def)
qed

lemma ysfd_on_air:
  assumes "ysf_inv p" "length frame = 155" "sub_buf frame 35 5 = YSF_SYNC_WORD" "fich_wf g" "25 \<le> length out"
    and "take 25 (drop 40 frame) = take 25 (snd (ysf_fich_encode_outbound out fn fi ft cm g))"
  obtains p' f where "peer_ysf_send_ysfd frame 155 p = Some (p', f, [SendTo f])" "length f = 155"
    "take 40 f = take 40 frame" "drop 65 f = drop 65 frame" "ysf_inv p'" "p' = p\<lparr>yp_fich := yp_fich p'\<rparr>"
    "announces (air_fields fi fn ft cm) (yp_dgid p) f"
proof -
  let ?h = "header_bytes fi cm fn ft 0"
  have len: "length ?h = 6" by (simp add: header_bytes_def)
  have wf: "fich_wf (g\<lparr>m_fich := ?h\<rparr>)" using assms(4) len by (simp add: fich_wf_def)
  have inp: "take 25 (drop 40 frame) = take 25 (snd (fich_encode out (g\<lparr>m_fich := ?h\<rparr>)))"
    using assms(6) by (simp add: outbound_bytes(2))
  have dec: "\<exists>h'. fich_decode (drop 40 frame) h = Some h' \<and> m_fich h' = addCCITT162 ?h 6" if "fich_wf h" for h
    using fich_decode_front [OF assms(5) wf that inp] by auto
  have fs: "fields_of (addCCITT162 ?h 6) = air_fields fi fn ft cm"
    using len by (simp add: fields_of_crc fields_of_header air_fields_def)
  show ?thesis
  proof (cases "yp_dgid p = 0")
    case True
    have "announces (air_fields fi fn ft cm) (yp_dgid p) frame"
      unfolding announces_def
    proof (intro allI impI)
      fix h assume h: "fich_wf h"
      then obtain h' where h': "fich_decode (drop 40 frame) h = Some h'" "m_fich h' = addCCITT162 ?h 6" using dec by blast
      have "ysf_fich_get_dgid h' = 0" using h'(2) len by (simp add: ysf_fich_get_dgid_def addCCITT162_nth header_bytes_def)
      then show "\<exists>h'. ysf_fich_decode_fields frame h = Some (h', air_fields fi fn ft cm) \<and> ysf_fich_get_dgid h' = yp_dgid p \<and> fich_wf h'"
        using decode_at_sync [OF assms(3) h'(1)] h'(2) fs fich_decode_wf [OF h'(1)] h True by auto
    qed
    moreover have "peer_ysf_send_ysfd frame 155 p = Some (p, frame, [SendTo frame])"
      using True assms(2) by (simp add: peer_ysf_send_ysfd_def ysf_fich_rewrite_dgid_def peer_ysf_send_def)
    ultimately show ?thesis using that [of p frame] assms(1,2) by simp
  next
    case False
    then have d: "1 \<le> yp_dgid p" by (simp add: word_le_nat_alt unat_gt_0 Suc_le_eq)
    have pw: "fich_wf (yp_fich p)" using assms(1) by (simp add: ysf_inv_def)
    obtain g1 where g1: "fich_decode (drop 40 frame) (yp_fich p) = Some g1" "m_fich g1 = addCCITT162 ?h 6" using dec [OF pw] by blast
    have l: "65 \<le> length frame" using assms(2) by simp
    obtain g' f where f: "ysf_fich_rewrite_dgid frame (yp_dgid p) (yp_fich p) = Some (g', f)" "fich_wf g'" "length f = length frame"
      "take 40 f = take 40 frame" "drop 65 f = drop 65 frame"
      using rewrite_dgid_aux [OF pw pw l d g1(1)] by auto
    have "sub_buf (take 40 f) 35 5 = sub_buf (take 40 frame) 35 5" using f(4) by simp
    then have sync: "sub_buf f 35 5 = YSF_SYNC_WORD" using assms(3) by (simp add: sub_buf_def take_drop)
    have "announces (air_fields fi fn ft cm) (yp_dgid p) f"
      unfolding announces_def
    proof (intro allI impI)
      fix h assume h: "fich_wf h"
      obtain h' where h': "fich_decode (drop 40 f) h = Some h'" "fields_of (m_fich h') = (fields_of (m_fich g1))\<lparr>f_dt := 2\<rparr>"
        "ysf_fich_get_dgid h' = yp_dgid p"
        using rewrite_dgid_aux [OF pw h l d g1(1)] f(1) by auto
      have "fields_of (m_fich h') = air_fields fi fn ft cm" using h'(2) g1(2) fs by (simp add: air_fields_def)
      then show "\<exists>h'. ysf_fich_decode_fields f h = Some (h', air_fields fi fn ft cm) \<and> ysf_fich_get_dgid h' = yp_dgid p \<and> fich_wf h'"
        using decode_at_sync [OF sync h'(1)] h'(3) fich_decode_wf [OF h'(1)] h by auto
    qed
    moreover have "peer_ysf_send_ysfd frame 155 p = Some (p\<lparr>yp_fich := g'\<rparr>, f, [SendTo f])"
      using f(1,3) assms(2) by (simp add: peer_ysf_send_ysfd_def peer_ysf_send_def)
    ultimately show ?thesis
      using that [of "p\<lparr>yp_fich := g'\<rparr>" f] f assms(1,2) by (simp add: ysf_inv_def)
  qed
qed

section \<open>Frames of the bridge\<close>

definition ysf_head :: "bridge \<Rightarrow> u8 \<Rightarrow> bytes" where
  "ysf_head b cnt = ascii ''YSFD'' @ yp_callsign (b_ysf b) @ b_net_src b @ ascii ''ALL       '' @ [cnt]"

definition ysf_tx_ok :: "bridge \<Rightarrow> bool" where
  "ysf_tx_ok b \<longleftrightarrow> ysf_inv (b_ysf b) \<and> length (b_net_src b) = 10 \<and> length (b_net_dst b) = 10"

definition ysf_env_ok :: "bridge_env \<Rightarrow> bool" where
  "ysf_env_ok e \<longleftrightarrow> length (e_junk155 e) = 155 \<and> locals_ok 45 25 (e_header_out1 e) \<and> locals_ok 45 25 (e_header_out2 e) \<and>
     locals_ok 25 13 (e_channel_out e)"

lemma length_ysf_head: "ysf_tx_ok b \<Longrightarrow> length (ysf_head b cnt) = 35"
  by (simp add: ysf_head_def ysf_tx_ok_def ysf_inv_def)

lemma fill_headers:
  assumes "ysf_tx_ok b" "length junk = 155"
  shows "(bridge_fill_ysfd_headers junk b)[34 := cnt] = ysf_head b cnt @ drop 35 junk"
proof -
  have cs: "length (yp_callsign (b_ysf b)) = 10" "length (b_net_src b) = 10" using assms(1) by (simp_all add: ysf_tx_ok_def ysf_inv_def)
  let ?h = "ascii ''YSFD'' @ yp_callsign (b_ysf b) @ b_net_src b @ ascii ''ALL       ''"
  have h: "length ?h = 34" using cs by simp
  have m: "memcpy (memcpy (memcpy (memcpy junk 0 (ascii ''YSFD'')) 4 (yp_callsign (b_ysf b))) 14 (b_net_src b)) 24 (ascii ''ALL       '')
      = ?h @ drop 34 junk"
    using cs assms(2) by (simp add: memcpy_def)
  have "(bridge_fill_ysfd_headers junk b)[34 := cnt] = (?h @ drop 34 junk)[34 := cnt]"
    unfolding bridge_fill_ysfd_headers_def Let_def using m cs by simp
  moreover have "drop 34 junk = junk ! 34 # drop 35 junk" using Cons_nth_drop_Suc [of 34 junk] assms(2) by simp
  moreover have "(?h @ junk ! 34 # drop 35 junk)[34 := cnt] = ?h @ [cnt] @ drop 35 junk"
    using list_update_length [of ?h "junk ! 34" "drop 35 junk" cnt] unfolding h by simp
  ultimately show ?thesis by (simp only: ysf_head_def append_assoc)
qed

text \<open>An error-free header is read.\<close>

lemma process_header_exact:
  assumes "length csd1 = 20" "length csd2 = 20" "length rcv = 120" "locals_ok 45 23 l"
    "channel_block 9 30 rcv = csd_channel csd1" "channel_block 9 39 rcv = csd_channel csd2"
  shows "\<exists>out. ysf_payload_process_header l rcv = Some (True, drop 10 csd1 @ [0], take 10 csd1 @ [0], out)"
proof -
  have e: "block_errors (csd_channel csd1) (channel_block 9 30 rcv) \<le> 2" "block_errors (csd_channel csd2) (channel_block 9 39 rcv) \<le> 2"
    using assms(5,6) by (simp_all add: no_errors)
  obtain ok out p where p: "processHeaderData l rcv CYSFPayload = (ok, out, p)" "ok"
    "m_dest p = Some (take 10 csd1)" "m_source p = Some (drop 10 csd1)"
    using process_header_steps [OF assms(1-4) e] assms(5) by (auto simp: no_errors)
  have "ysf_payload_process_header l rcv = Some (True, drop 10 csd1 @ [0], take 10 csd1 @ [0], out)"
    using header_result [OF p(1), of "take 10 csd1" "drop 10 csd1"] p(2-4) assms(1) by simp
  then show ?thesis by blast
qed

lemma sub_buf_tail:
  assumes "drop 65 f = drop 30 p" "30 \<le> i"
  shows "sub_buf (drop 35 f) i n = sub_buf p i n"
proof -
  obtain k where i: "i = 30 + k" using assms(2) le_Suc_ex by blast
  have "drop i (drop 35 f) = drop k (drop 65 f)" "drop i p = drop k (drop 30 p)" by (simp_all add: i algebra_simps)
  then show ?thesis using assms(1) by (simp add: sub_buf_def)
qed

text \<open>The channels of a frame are those of its tail.\<close>

lemma channels_of_tail:
  assumes "drop 65 f = drop 30 p"
  shows "channel_block 9 30 (drop 35 f) = channel_block 9 30 p" "channel_block 9 39 (drop 35 f) = channel_block 9 39 p"
    "channel_block 5 30 (drop 35 f) = channel_block 5 30 p"
  unfolding channel_block_def by (rule arg_cong [where f = concat], rule map_cong [OF refl], rule sub_buf_tail [OF assms], simp)+

text \<open>The state of the peer after the log line of a sent frame, which decodes it once more.\<close>

lemma log_decode:
  assumes "announces fs dgid f" "ysf_inv y"
  obtains y' where "\<And>b :: bridge. (if lg then Option.bind (ysf_fich_decode_fields f (yp_fich y)) (\<lambda>(g, _). Some (b\<lparr>b_ysf := y\<lparr>yp_fich := g\<rparr>\<rparr>))
      else Some (b\<lparr>b_ysf := y\<rparr>)) = Some (b\<lparr>b_ysf := y'\<rparr>)"
    "ysf_inv y'" "yp_callsign y' = yp_callsign y" "yp_dgid y' = yp_dgid y"
proof -
  obtain h where h: "ysf_fich_decode_fields f (yp_fich y) = Some (h, fs)" "fich_wf h"
    using assms by (auto simp: announces_def ysf_inv_def)
  show ?thesis
    by (rule that [of "if lg then y\<lparr>yp_fich := h\<rparr> else y"]) (use h assms(2) in \<open>auto simp: ysf_inv_def\<close>)
qed

lemma send_header_frame:
  assumes "ysf_tx_ok b" "ysf_env_ok e" "fi = 0 \<or> fi = 2" "length csd1 = 20" "length csd2 = 20"
  obtains b' f where "bridge_send_ysfd e fi ft cm fn cnt pay (Some (csd1, csd2)) b = Some b'"
    "b_sent b' = b_sent b @ [To_ysf (SendTo f)]" "length f = 155" "take 40 f = ysf_head b cnt @ YSF_SYNC_WORD"
    "announces (air_fields fi fn ft cm) (yp_dgid (b_ysf b)) f" "channel_block 9 30 (drop 35 f) = csd_channel csd1"
    "channel_block 9 39 (drop 35 f) = csd_channel csd2" "ysf_tx_ok b'"
    "b' = b\<lparr>b_ysf := b_ysf b', b_sent := b_sent b', b_ysf_fn := b_ysf_fn b + 2, b_last_ysf_tx := e_now e\<rparr>"
    "yp_callsign (b_ysf b') = yp_callsign (b_ysf b)" "yp_dgid (b_ysf b') = yp_dgid (b_ysf b)"
proof -
  have j: "length (e_junk155 e) = 155" "locals_ok 45 25 (e_header_out1 e)" "locals_ok 45 25 (e_header_out2 e)"
    using assms(2) by (simp_all add: ysf_env_ok_def)
  have inv: "ysf_inv (b_ysf b)" using assms(1) by (simp add: ysf_tx_ok_def)
  have sync: "length YSF_SYNC_WORD = 5" by (simp add: YSF_SYNC_WORD_def)
  define hd35 where "hd35 = ysf_head b cnt"
  have h: "length hd35 = 35" using length_ysf_head [OF assms(1)] by (simp add: hd35_def)
  have f0: "(bridge_fill_ysfd_headers (e_junk155 e) b)[34 := cnt] = hd35 @ drop 35 (e_junk155 e)"
    unfolding hd35_def by (rule fill_headers [OF assms(1) j(1)])
  define z where "z = replicate 115 (0 :: u8)"
  have f1: "memcpy (memset (hd35 @ drop 35 (e_junk155 e)) 35 0 120) 35 YSF_SYNC_WORD = hd35 @ YSF_SYNC_WORD @ z"
  proof -
    have "replicate 120 (0 :: u8) = replicate 5 0 @ z" by (simp add: z_def flip: replicate_add)
    moreover have "length z = 115" by (simp add: z_def)
    ultimately show ?thesis using h sync j(1) by (simp add: memset_def memcpy_def)
  qed
  obtain g' fich where enc: "ysf_fich_encode_outbound z fn fi ft cm (yp_fich (b_ysf b)) = (g', fich)" by (rule prod.exhaust)
  have wf: "fich_wf (yp_fich (b_ysf b))" using inv by (simp add: ysf_inv_def)
  have wf': "fich_wf g'" using fich_wf_operations [OF wf, where out = z and fn = fn and fi = fi and ft = ft and cm = cm] enc by simp
  have lf: "length fich = 115" using outbound_bytes(2) [of z fn fi ft cm "yp_fich (b_ysf b)"] enc fich_encode_bits(2) [of z]
    by (simp add: z_def)
  define p0 where "p0 = YSF_SYNC_WORD @ fich"
  define p where "p = ysf_payload_write_header (e_header_out1 e) (e_header_out2 e) p0 csd1 csd2"
  have lp0: "length p0 = 120" using sync lf by (simp add: p0_def)
  note ch = header_channels [OF assms(4,5) lp0 j(2,3), folded p_def]
  have pw: "p = write_pieces 9 39 (csd_channel csd2) (write_pieces 9 30 (csd_channel csd1) p0)"
    by (simp add: p_def ysf_payload_write_header_def writeHeader_def writeDataFRModeData1_def writeDataFRModeData2_def
        write_block20_channel assms(4,5) j(2,3))
  let ?w = "write_pieces 9 30 (csd_channel csd1) p0"
  have "length ?w = 120" using lp0 by simp
  then have "sub_buf p 0 30 = sub_buf ?w 0 30" unfolding pw by (intro write_elsewhere) simp_all
  moreover have "sub_buf ?w 0 30 = sub_buf p0 0 30" using lp0 by (intro write_elsewhere) simp_all
  ultimately have keep: "sub_buf p 0 30 = sub_buf p0 0 30" by simp
  then have front: "take 30 p = YSF_SYNC_WORD @ take 25 fich" using sync by (simp add: sub_buf_def p0_def)
  define frame where "frame = hd35 @ p"
  have lfr: "length frame = 155" using h ch(1) by (simp add: frame_def)
  have "take 5 (take 30 p) = YSF_SYNC_WORD" "take 25 (drop 5 (take 30 p)) = take 25 fich"
    unfolding front using sync lf by simp_all
  then have t: "take 5 p = YSF_SYNC_WORD" "take 25 (drop 5 p) = take 25 fich" by (simp_all add: drop_take)
  have syncf: "sub_buf frame 35 5 = YSF_SYNC_WORD" using h t(1) by (simp add: frame_def sub_buf_def)
  have fichf: "take 25 (drop 40 frame) = take 25 (snd (ysf_fich_encode_outbound z fn fi ft cm (yp_fich (b_ysf b))))"
    using h t(2) enc by (simp add: frame_def)
  let ?y = "(b_ysf b)\<lparr>yp_fich := g'\<rparr>"
  have invy: "ysf_inv ?y" using inv wf' by (simp add: ysf_inv_def)
  have z25: "25 \<le> length z" by (simp add: z_def)
  obtain y' f where f: "peer_ysf_send_ysfd frame 155 ?y = Some (y', f, [SendTo f])" "length f = 155"
    "take 40 f = take 40 frame" "drop 65 f = drop 65 frame" "ysf_inv y'" "y' = ?y\<lparr>yp_fich := yp_fich y'\<rparr>"
    "announces (air_fields fi fn ft cm) (yp_dgid ?y) f"
    by (rule ysfd_on_air [OF invy lfr syncf wf z25 fichf])
  have tail: "drop 65 f = drop 30 p" using f(4) h by (simp add: frame_def)
  note c = channels_of_tail [OF tail]
  let ?log = "fi = 0 \<or> fi = 2 \<or> fi = 1 \<and> fn \<le> 1 \<or> e_log_tx e"
    and ?sent = "b\<lparr>b_sent := b_sent b @ [To_ysf (SendTo f)], b_ysf_fn := b_ysf_fn b + 2, b_last_ysf_tx := e_now e\<rparr>"
  obtain y2 where y2: "\<And>b :: bridge. (if ?log then Option.bind (ysf_fich_decode_fields f (yp_fich y')) (\<lambda>(g, _). Some (b\<lparr>b_ysf := y'\<lparr>yp_fich := g\<rparr>\<rparr>))
      else Some (b\<lparr>b_ysf := y'\<rparr>)) = Some (b\<lparr>b_ysf := y2\<rparr>)"
    "ysf_inv y2" "yp_callsign y2 = yp_callsign y'" "yp_dgid y2 = yp_dgid y'"
    using log_decode [OF f(7,5), of ?log] by blast
  let ?b' = "?sent\<lparr>b_ysf := y2\<rparr>"
  have d: "drop 40 (hd35 @ YSF_SYNC_WORD @ z) = z" "take 40 (hd35 @ YSF_SYNC_WORD @ z) = hd35 @ YSF_SYNC_WORD" using h sync by simp_all
  have d2: "drop 35 ((hd35 @ YSF_SYNC_WORD) @ fich) = p0" "take 35 ((hd35 @ YSF_SYNC_WORD) @ fich) = hd35" using h by (simp_all add: p0_def)
  have run: "bridge_send_ysfd e fi ft cm fn cnt pay (Some (csd1, csd2)) b = Some ?b'"
    unfolding bridge_send_ysfd_def f0 Let_def if_P [OF assms(3)] f1 d enc prod.case option.case d2 p_def [symmetric] frame_def [symmetric] f(1)
    using y2(1) [of ?sent] by (cases b) (simp split del: if_split cong: if_cong)
  have t40: "take 40 f = ysf_head b cnt @ YSF_SYNC_WORD" using f(3) h t(1) by (simp add: frame_def hd35_def)
  have y: "yp_callsign y' = yp_callsign (b_ysf b)" "yp_dgid y' = yp_dgid (b_ysf b)" by (subst f(6), simp)+
  note y = y2(3) [unfolded y(1)] y2(4) [unfolded y(2)]
  show ?thesis
    by (rule that [OF run _ f(2) t40]) (use f(7) y2(2) c ch(2,3) y assms(1) in \<open>simp_all add: ysf_tx_ok_def\<close>)
qed

lemma length_ysf_dch: "ysf_tx_ok b \<Longrightarrow> length (ysf_dch fn b) = 10"
  by (simp add: ysf_dch_def ysf_tx_ok_def radio_id_to_dch5_def YSF_DCH_DT1_def YSF_DCH_DT2_def)

lemma send_voice_frame:
  assumes "ysf_tx_ok b" "ysf_env_ok e" "fi \<noteq> 0" "fi \<noteq> 2" "length pay = 120"
  obtains b' f where "bridge_send_ysfd e fi ft cm fn cnt pay None b = Some b'"
    "b_sent b' = b_sent b @ [To_ysf (SendTo f)]" "length f = 155" "take 40 f = ysf_head b cnt @ YSF_SYNC_WORD"
    "announces (air_fields fi fn ft cm) (yp_dgid (b_ysf b)) f" "channel_block 5 30 (drop 35 f) = dch_channel (ysf_dch fn b)"
    "\<forall>j<5. sub_buf (drop 35 f) (35 + 18 * j) 13 = sub_buf pay (35 + 18 * j) 13" "ysf_tx_ok b'"
    "b' = b\<lparr>b_ysf := b_ysf b', b_sent := b_sent b', b_ysf_fn := b_ysf_fn b + 2, b_last_ysf_tx := e_now e\<rparr>"
    "yp_callsign (b_ysf b') = yp_callsign (b_ysf b)" "yp_dgid (b_ysf b') = yp_dgid (b_ysf b)"
proof -
  have j: "length (e_junk155 e) = 155" "locals_ok 25 13 (e_channel_out e)" using assms(2) by (simp_all add: ysf_env_ok_def)
  have inv: "ysf_inv (b_ysf b)" using assms(1) by (simp add: ysf_tx_ok_def)
  have sync: "length YSF_SYNC_WORD = 5" by (simp add: YSF_SYNC_WORD_def)
  have dch: "length (ysf_dch fn b) = 10" by (rule length_ysf_dch [OF assms(1)])
  define hd35 where "hd35 = ysf_head b cnt"
  have h: "length hd35 = 35" using length_ysf_head [OF assms(1)] by (simp add: hd35_def)
  have f0: "(bridge_fill_ysfd_headers (e_junk155 e) b)[34 := cnt] = hd35 @ drop 35 (e_junk155 e)"
    unfolding hd35_def by (rule fill_headers [OF assms(1) j(1)])
  define pay' where "pay' = memcpy pay 0 YSF_SYNC_WORD"
  have pl: "length pay' = 120" using assms(5) sync by (simp add: pay'_def)
  have f1: "memcpy (memcpy (hd35 @ drop 35 (e_junk155 e)) 35 pay) 35 YSF_SYNC_WORD = hd35 @ pay'"
    using h assms(5) j(1) by (simp add: memcpy_def pay'_def)
  define q where "q = bridge_apply_ysf_dch_slot e pay' fn b"
  have qw: "q = write_pieces 5 30 (dch_channel (ysf_dch fn b)) pay'"
    unfolding q_def bridge_apply_ysf_dch_slot_def by (rule write_dch_channel [OF dch j(2)])
  have lq: "length q = 120" using pl by (simp add: qw)
  have block: "channel_block 5 30 q = dch_channel (ysf_dch fn b)" unfolding qw using pl by (intro block_of_write) simp_all
  have voice: "sub_buf q (35 + 18 * i) 13 = sub_buf pay (35 + 18 * i) 13" if "i < 5" for i
  proof -
    have "sub_buf q (35 + 18 * i) 13 = sub_buf pay' (35 + 18 * i) 13"
      unfolding q_def bridge_apply_ysf_dch_slot_def by (rule write_dch_voice [OF dch pl j(2) that])
    also have "\<dots> = sub_buf pay (35 + 18 * i) 13"
      unfolding pay'_def using that assms(5) sync by (intro sub_buf_memcpy_other) simp_all
    finally show ?thesis .
  qed
  have "sub_buf q 0 5 = sub_buf pay' 0 5" unfolding qw using pl by (intro write_elsewhere) simp_all
  then have q5: "take 5 q = YSF_SYNC_WORD" using assms(5) sync by (simp add: pay'_def sub_buf_def memcpy_def)
  obtain g' fich where enc: "ysf_fich_encode_outbound (drop 5 q) fn fi ft cm (yp_fich (b_ysf b)) = (g', fich)" by (rule prod.exhaust)
  have wf: "fich_wf (yp_fich (b_ysf b))" using inv by (simp add: ysf_inv_def)
  have wf': "fich_wf g'" using fich_wf_operations [OF wf, where out = "drop 5 q" and fn = fn and fi = fi and ft = ft and cm = cm] enc by simp
  have lf: "length fich = 115" "drop 25 fich = drop 30 q"
    using outbound_bytes(2) [of "drop 5 q" fn fi ft cm "yp_fich (b_ysf b)"] enc fich_encode_bits(2) [of "drop 5 q"]
      fich_encode_tail [of "drop 5 q"] lq by simp_all
  define frame where "frame = hd35 @ YSF_SYNC_WORD @ fich"
  have lfr: "length frame = 155" using h sync lf by (simp add: frame_def)
  have syncf: "sub_buf frame 35 5 = YSF_SYNC_WORD" using h sync by (simp add: frame_def sub_buf_def)
  have fichf: "take 25 (drop 40 frame) = take 25 (snd (ysf_fich_encode_outbound (drop 5 q) fn fi ft cm (yp_fich (b_ysf b))))"
    using h sync enc by (simp add: frame_def)
  let ?y = "(b_ysf b)\<lparr>yp_fich := g'\<rparr>"
  have invy: "ysf_inv ?y" using inv wf' by (simp add: ysf_inv_def)
  have q25: "25 \<le> length (drop 5 q)" using lq by simp
  obtain y' f where f: "peer_ysf_send_ysfd frame 155 ?y = Some (y', f, [SendTo f])" "length f = 155"
    "take 40 f = take 40 frame" "drop 65 f = drop 65 frame" "ysf_inv y'" "y' = ?y\<lparr>yp_fich := yp_fich y'\<rparr>"
    "announces (air_fields fi fn ft cm) (yp_dgid ?y) f"
    by (rule ysfd_on_air [OF invy lfr syncf wf q25 fichf])
  have tail: "drop 65 f = drop 30 q" using f(4) h sync lf by (simp add: frame_def)
  note c = channels_of_tail(3) [OF tail]
  have v: "\<forall>i<5. sub_buf (drop 35 f) (35 + 18 * i) 13 = sub_buf pay (35 + 18 * i) 13"
    using sub_buf_tail [OF tail] voice by simp
  let ?log = "fi = 0 \<or> fi = 2 \<or> fi = 1 \<and> fn \<le> 1 \<or> e_log_tx e"
    and ?sent = "b\<lparr>b_sent := b_sent b @ [To_ysf (SendTo f)], b_ysf_fn := b_ysf_fn b + 2, b_last_ysf_tx := e_now e\<rparr>"
  obtain y2 where y2: "\<And>b :: bridge. (if ?log then Option.bind (ysf_fich_decode_fields f (yp_fich y')) (\<lambda>(g, _). Some (b\<lparr>b_ysf := y'\<lparr>yp_fich := g\<rparr>\<rparr>))
      else Some (b\<lparr>b_ysf := y'\<rparr>)) = Some (b\<lparr>b_ysf := y2\<rparr>)"
    "ysf_inv y2" "yp_callsign y2 = yp_callsign y'" "yp_dgid y2 = yp_dgid y'"
    using log_decode [OF f(7,5), of ?log] by blast
  let ?b' = "?sent\<lparr>b_ysf := y2\<rparr>"
  have d: "drop 35 (hd35 @ pay') = pay'" "take 35 (hd35 @ pay') = hd35" "drop 40 (hd35 @ q) = drop 5 q"
    "take 40 (hd35 @ q) = hd35 @ YSF_SYNC_WORD" using h q5 by simp_all
  have nfi: "\<not> (fi = 0 \<or> fi = 2)" using assms(3,4) by simp
  have run: "bridge_send_ysfd e fi ft cm fn cnt pay None b = Some ?b'"
    unfolding bridge_send_ysfd_def f0 Let_def if_not_P [OF nfi] f1 d q_def [symmetric] enc prod.case append_assoc frame_def [symmetric] f(1)
    using y2(1) [of ?sent] by (cases b) (simp split del: if_split cong: if_cong)
  have t40: "take 40 f = ysf_head b cnt @ YSF_SYNC_WORD" using f(3) h sync by (simp add: frame_def hd35_def)
  have y: "yp_callsign y' = yp_callsign (b_ysf b)" "yp_dgid y' = yp_dgid (b_ysf b)" by (subst f(6), simp)+
  note y = y2(3) [unfolded y(1)] y2(4) [unfolded y(2)]
  show ?thesis
    by (rule that [OF run _ f(2) t40]) (use f(7) y2(2) c block v y assms(1) in \<open>simp_all add: ysf_tx_ok_def\<close>)
qed

section \<open>What the bridge sends for its queue\<close>

datatype ysf_item = Y_head | Y_voice "bytes list" | Y_end

text \<open>The place of a voice frame in its cycle: seven frames, from a counter of eight bits that starts at 1.\<close>

definition frame_number :: "u8 \<Rightarrow> nat" where
  "frame_number cnt = (if cnt = 0 then 3 else (unat cnt - 1) mod 7)"

lemma frame_number_code: "ucast ((ucast (cnt :: u8) - 1 :: u32) mod (ucast (6 :: u8) + 1)) = (of_nat (frame_number cnt) :: u8)"
proof (cases "cnt = 0")
  case True
  then show ?thesis by (simp add: frame_number_def)
next
  case False
  then have c: "1 \<le> unat cnt" by (simp add: unat_gt_0 Suc_le_eq)
  have "unat cnt < 2 ^ 32" using unsigned_less [of cnt, where 'a = nat] by simp
  then have u: "unat (ucast cnt :: u32) = unat cnt"
    by (simp add: unsigned_ucast_eq take_bit_nat_eq_self)
  have "unat (ucast cnt - 1 :: u32) = unat cnt - 1"
    using c u by (subst unat_sub) (simp_all add: word_le_nat_alt)
  then have "unat ((ucast cnt - 1 :: u32) mod (ucast (6 :: u8) + 1)) = (unat cnt - 1) mod 7"
    by (simp add: unat_mod)
  then show ?thesis using False by (metis frame_number_def of_nat_unat)
qed

record ysf_talk =
  yt_callsign :: bytes
  yt_dgid :: u8
  yt_src :: bytes
  yt_dst :: bytes

definition talk_of :: "bridge \<Rightarrow> ysf_talk" where
  "talk_of b = \<lparr>yt_callsign = yp_callsign (b_ysf b), yt_dgid = yp_dgid (b_ysf b), yt_src = b_net_src b, yt_dst = b_net_dst b\<rparr>"

definition talk_head :: "ysf_talk \<Rightarrow> u8 \<Rightarrow> bytes" where
  "talk_head t cnt = ascii ''YSFD'' @ yt_callsign t @ yt_src t @ ascii ''ALL       '' @ [cnt] @ YSF_SYNC_WORD"

text \<open>The data channel of voice frame number n: the source, the destination, and constants.\<close>

definition talk_dch :: "ysf_talk \<Rightarrow> nat \<Rightarrow> bytes" where
  "talk_dch t n =
     (if n = 0 then replicate 10 (of_char CHR ''*'') else if n = 1 then yt_src t else if n = 2 then yt_dst t
      else if n = 5 then replicate 5 0x20 @ replicate 5 (of_char CHR ''*'') else if n = 6 then YSF_DCH_DT1 else replicate 10 0x20)"

text \<open>What a receiver reads: the names of a header, the data channel and the voice of a voice frame.\<close>

definition names_talker :: "ysf_talk \<Rightarrow> bytes \<Rightarrow> bool" where
  "names_talker t f \<longleftrightarrow> (\<forall>l. locals_ok 45 23 l \<longrightarrow>
     (\<exists>out. ysf_payload_process_header l (drop 35 f) = Some (True, yt_src t @ [0], replicate 10 (of_char CHR ''*'') @ [0], out)))"

definition holds_dch :: "bytes \<Rightarrow> bytes \<Rightarrow> bool" where
  "holds_dch d f \<longleftrightarrow> (\<forall>l dt. locals_ok 25 13 l \<longrightarrow> 10 \<le> length dt \<longrightarrow>
     (\<exists>dt'. readVDMode2Data l (drop 35 f) dt = (True, dt') \<and> take 10 dt' = d))"

definition holds_voice :: "bytes list \<Rightarrow> bytes \<Rightarrow> bool" where
  "holds_voice vs f \<longleftrightarrow> (\<forall>jv jd s. length jv = 13 \<longrightarrow> putYSF jv jd (drop 35 f) s = fold (putAMBE7 jd) vs s)"

definition frame_carries :: "ysf_talk \<Rightarrow> u8 \<Rightarrow> ysf_item \<Rightarrow> bytes \<Rightarrow> bool" where
  "frame_carries t cnt x f \<longleftrightarrow> length f = 155 \<and>
     (case x of
        Y_head \<Rightarrow> take 40 f = talk_head t 0 \<and> announces (air_fields 0 0 6 0) (yt_dgid t) f \<and> names_talker t f
      | Y_voice vs \<Rightarrow> take 40 f = talk_head t (push_bit 1 (cnt AND 0x7F)) \<and>
          announces (air_fields 1 (of_nat (frame_number cnt)) 6 0) (yt_dgid t) f \<and> holds_dch (talk_dch t (frame_number cnt)) f \<and> holds_voice vs f
      | Y_end \<Rightarrow> take 40 f = talk_head t cnt \<and> announces (air_fields 2 0 6 0) (yt_dgid t) f \<and> names_talker t f)"

definition next_cnt :: "ysf_item \<Rightarrow> u8 \<Rightarrow> u8" where
  "next_cnt x cnt = (case x of Y_head \<Rightarrow> 1 | Y_voice vs \<Rightarrow> cnt + 1 | Y_end \<Rightarrow> 0)"

fun ysf_stream_ok :: "ysf_talk \<Rightarrow> u8 \<Rightarrow> ysf_item list \<Rightarrow> bytes list \<Rightarrow> bool" where
  "ysf_stream_ok t cnt [] fs \<longleftrightarrow> fs = []"
| "ysf_stream_ok t cnt (x # xs) fs \<longleftrightarrow> (\<exists>f rest. fs = f # rest \<and> frame_carries t cnt x f \<and> ysf_stream_ok t (next_cnt x cnt) xs rest)"

lemma talk_head_eq: "ysf_head b cnt @ YSF_SYNC_WORD = talk_head (talk_of b) cnt"
  by (simp add: ysf_head_def talk_head_def talk_of_def)

lemma talk_dch_eq: "n < 7 \<Longrightarrow> ysf_dch (of_nat n) b = talk_dch (talk_of b) n"
proof -
  assume "n < 7"
  then have "n = 0 \<or> n = 1 \<or> n = 2 \<or> n = 3 \<or> n = 4 \<or> n = 5 \<or> n = 6" by arith
  moreover have "replicate 5 x @ replicate 5 x = replicate 10 x" for x :: u8 by (simp flip: replicate_add)
  ultimately show ?thesis by (elim disjE) (simp_all add: ysf_dch_def talk_dch_def talk_of_def radio_id_to_dch5_def)
qed

lemma frame_number_bound: "frame_number cnt < 7"
  by (simp add: frame_number_def)

lemma names_talker_csd:
  assumes "ysf_tx_ok b" "length f = 155" "bridge_fill_ysf_csd b = (csd1, csd2)"
    "channel_block 9 30 (drop 35 f) = csd_channel csd1" "channel_block 9 39 (drop 35 f) = csd_channel csd2"
  shows "names_talker (talk_of b) f" "length csd1 = 20" "length csd2 = 20"
proof -
  have c: "csd1 = replicate 10 (of_char CHR ''*'') @ b_net_src b" "csd2 = replicate 20 0x20"
    using assms(3) by (simp_all add: bridge_fill_ysf_csd_def radio_id_to_dch5_def flip: replicate_add append_assoc)
  have s: "length (b_net_src b) = 10" using assms(1) by (simp add: ysf_tx_ok_def)
  show l: "length csd1 = 20" "length csd2 = 20" by (simp_all add: c s)
  have "length (drop 35 f) = 120" using assms(2) by simp
  then show "names_talker (talk_of b) f"
    unfolding names_talker_def using process_header_exact [OF l _ _ assms(4,5)] by (simp add: c talk_of_def)
qed

text \<open>What sending a frame leaves as it is.\<close>

definition call_state :: "bridge \<Rightarrow> bool \<times> u32 \<times> u8 \<times> aliases option" where
  "call_state b = (b_call_active b, b_stream_id b, b_dmr_last_dtype b, b_aliases b)"

text \<open>The state after a frame, as far as it matters for the next.\<close>

lemma emit_ysf_header:
  assumes "ysf_tx_ok b" "ysf_env_ok e" "conv_holds (b_conv b) ((TAG_HEADER, h) # yf) df"
  obtains b' f where "bridge_emit_ysf_from_conv e b = Some (True, b')" "b_sent b' = b_sent b @ [To_ysf (SendTo f)]"
    "frame_carries (talk_of b) (b_ysf_cnt b) Y_head f" "b_ysf_cnt b' = 1" "talk_of b' = talk_of b" "ysf_tx_ok b'"
    "conv_holds (b_conv b') yf df" "call_state b' = call_state b"
proof -
  have "read_ysf (replicate 120 0) ((TAG_HEADER, h) # yf) = (TAG_HEADER, memcpy (replicate 120 0) 30 h, yf)"
    by (simp add: read_ysf_def)
  from getYSF_reads [OF assms(3) _ this] obtain s' where
    s: "getYSF (replicate 120 0) (b_conv b) = (TAG_HEADER, memcpy (replicate 120 0) 30 h, s')" "conv_holds s' yf df" by auto
  let ?b = "b\<lparr>b_conv := s', b_ysf_cnt := 0\<rparr>"
  have ok: "ysf_tx_ok ?b" using assms(1) by (simp add: ysf_tx_ok_def)
  obtain csd1 csd2 where csd: "bridge_fill_ysf_csd ?b = (csd1, csd2)" by (rule prod.exhaust)
  have l: "length csd1 = 20" "length csd2 = 20"
    using csd assms(1) by (auto simp: bridge_fill_ysf_csd_def radio_id_to_dch5_def ysf_tx_ok_def)
  obtain b' f where f: "bridge_send_ysfd e 0 6 0 0 0 [] (Some (csd1, csd2)) ?b = Some b'"
    "b_sent b' = b_sent ?b @ [To_ysf (SendTo f)]" "length f = 155" "take 40 f = ysf_head ?b 0 @ YSF_SYNC_WORD"
    "announces (air_fields 0 0 6 0) (yp_dgid (b_ysf ?b)) f" "channel_block 9 30 (drop 35 f) = csd_channel csd1"
    "channel_block 9 39 (drop 35 f) = csd_channel csd2" "ysf_tx_ok b'"
    "b' = ?b\<lparr>b_ysf := b_ysf b', b_sent := b_sent b', b_ysf_fn := b_ysf_fn ?b + 2, b_last_ysf_tx := e_now e\<rparr>"
    "yp_callsign (b_ysf b') = yp_callsign (b_ysf ?b)" "yp_dgid (b_ysf b') = yp_dgid (b_ysf ?b)"
    using send_header_frame [OF ok assms(2) disjI1 [OF refl] l] by metis
  have run: "bridge_emit_ysf_from_conv e b = Some (True, b'\<lparr>b_ysf_cnt := 1\<rparr>)"
    unfolding bridge_emit_ysf_from_conv_def modeconv_get_ysf_def s(1) using f(1) csd by simp
  have same: "b_net_src b' = b_net_src b" "b_net_dst b' = b_net_dst b" "b_conv b' = s'" "call_state b' = call_state b"
    by (subst f(9), simp add: call_state_def)+
  have t: "talk_of ?b = talk_of b" by (simp add: talk_of_def)
  show ?thesis
  proof (rule that [OF run, of f])
    show "frame_carries (talk_of b) (b_ysf_cnt b) Y_head f"
      using f(3-5) names_talker_csd(1) [OF ok f(3) csd f(6,7)] unfolding t talk_head_eq
      by (simp add: frame_carries_def) (simp add: talk_of_def)
  qed (use f(2,8,10,11) s(2) same in \<open>simp_all add: talk_of_def ysf_tx_ok_def call_state_def\<close>)
qed

lemma emit_ysf_end:
  assumes "ysf_tx_ok b" "ysf_env_ok e" "conv_holds (b_conv b) ((TAG_EOT, h) # yf) df"
  obtains b' f where "bridge_emit_ysf_from_conv e b = Some (True, bridge_reset_call b')" "b_sent b' = b_sent b @ [To_ysf (SendTo f)]"
    "frame_carries (talk_of b) (b_ysf_cnt b) Y_end f"
proof -
  have "read_ysf (replicate 120 0) ((TAG_EOT, h) # yf) = (TAG_EOT, memcpy (replicate 120 0) 30 h, yf)"
    by (simp add: read_ysf_def)
  from getYSF_reads [OF assms(3) _ this] obtain s' where
    s: "getYSF (replicate 120 0) (b_conv b) = (TAG_EOT, memcpy (replicate 120 0) 30 h, s')" by auto
  let ?b = "b\<lparr>b_conv := s'\<rparr>"
  have ok: "ysf_tx_ok ?b" using assms(1) by (simp add: ysf_tx_ok_def)
  obtain csd1 csd2 where csd: "bridge_fill_ysf_csd ?b = (csd1, csd2)" by (rule prod.exhaust)
  have l: "length csd1 = 20" "length csd2 = 20"
    using csd assms(1) by (auto simp: bridge_fill_ysf_csd_def radio_id_to_dch5_def ysf_tx_ok_def)
  obtain b' f where f: "bridge_send_ysfd e 2 6 0 0 (b_ysf_cnt b) [] (Some (csd1, csd2)) ?b = Some b'"
    "b_sent b' = b_sent ?b @ [To_ysf (SendTo f)]" "length f = 155" "take 40 f = ysf_head ?b (b_ysf_cnt b) @ YSF_SYNC_WORD"
    "announces (air_fields 2 0 6 0) (yp_dgid (b_ysf ?b)) f" "channel_block 9 30 (drop 35 f) = csd_channel csd1"
    "channel_block 9 39 (drop 35 f) = csd_channel csd2"
    using send_header_frame [OF ok assms(2) disjI2 [OF refl] l] by metis
  have run: "bridge_emit_ysf_from_conv e b = Some (True, bridge_reset_call b')"
    unfolding bridge_emit_ysf_from_conv_def modeconv_get_ysf_def s(1) using f(1) csd by simp
  have t: "talk_of ?b = talk_of b" by (simp add: talk_of_def)
  have "frame_carries (talk_of b) (b_ysf_cnt b) Y_end f"
    using f(3-5) names_talker_csd(1) [OF ok f(3) csd f(6,7)] unfolding t talk_head_eq
    by (simp add: frame_carries_def) (simp add: talk_of_def)
  then show ?thesis using that [OF run] f(2) by simp
qed

lemma emit_ysf_voice:
  assumes "ysf_tx_ok b" "ysf_env_ok e" "conv_holds (b_conv b) (List.map ysf_record vs @ yf) df"
    and "length vs = 5" "\<forall>v\<in>set vs. length v = 7"
  obtains b' f where "bridge_emit_ysf_from_conv e b = Some (True, b')" "b_sent b' = b_sent b @ [To_ysf (SendTo f)]"
    "frame_carries (talk_of b) (b_ysf_cnt b) (Y_voice vs) f" "b_ysf_cnt b' = b_ysf_cnt b + 1" "talk_of b' = talk_of b" "ysf_tx_ok b'"
    "conv_holds (b_conv b') yf df" "call_state b' = call_state b"
proof -
  let ?d = "ysf_frame (replicate 120 0) (List.map (\<lambda>v. snd (ysf_record v)) vs)" and ?n = "frame_number (b_ysf_cnt b)"
  let ?net = "push_bit 1 (b_ysf_cnt b AND 0x7F)"
  obtain v0 v1 v2 v3 v4 where vs: "vs = [v0, v1, v2, v3, v4]"
    using assms(4) by (auto simp: numeral_eq_Suc length_Suc_conv)
  have tags: "ysf_record v = (TAG_DATA, snd (ysf_record v))" for v by (simp add: ysf_record_def split_def Let_def)
  have "read_ysf (replicate 120 0) (List.map ysf_record vs @ yf) = (TAG_DATA, ?d, yf)"
    unfolding vs using tags by (simp add: read_ysf_def split: prod.splits) (metis prod.inject)
  from getYSF_reads [OF assms(3) _ this] obtain s' where
    s: "getYSF (replicate 120 0) (b_conv b) = (TAG_DATA, ?d, s')" "conv_holds s' yf df" by auto
  let ?b = "b\<lparr>b_conv := s'\<rparr>"
  have ok: "ysf_tx_ok ?b" using assms(1) by (simp add: ysf_tx_ok_def)
  have l: "length (List.map (\<lambda>v. snd (ysf_record v)) vs) = 5" "\<forall>v\<in>set (List.map (\<lambda>v. snd (ysf_record v)) vs). length v = 13"
    using assms(4) by auto
  have ld: "length ?d = 120" by (rule ysf_frame_channels(1) [OF _ l, of _ 0]) simp_all
  have n1: "(1 :: u8) \<noteq> 0" "(1 :: u8) \<noteq> 2" by simp_all
  obtain b' f where f: "bridge_send_ysfd e 1 6 0 (of_nat ?n) ?net ?d None ?b = Some b'"
    "b_sent b' = b_sent ?b @ [To_ysf (SendTo f)]" "length f = 155" "take 40 f = ysf_head ?b ?net @ YSF_SYNC_WORD"
    "announces (air_fields 1 (of_nat ?n) 6 0) (yp_dgid (b_ysf ?b)) f" "channel_block 5 30 (drop 35 f) = dch_channel (ysf_dch (of_nat ?n) ?b)"
    "\<forall>j<5. sub_buf (drop 35 f) (35 + 18 * j) 13 = sub_buf ?d (35 + 18 * j) 13" "ysf_tx_ok b'"
    "b' = ?b\<lparr>b_ysf := b_ysf b', b_sent := b_sent b', b_ysf_fn := b_ysf_fn ?b + 2, b_last_ysf_tx := e_now e\<rparr>"
    "yp_callsign (b_ysf b') = yp_callsign (b_ysf ?b)" "yp_dgid (b_ysf b') = yp_dgid (b_ysf ?b)"
    by (rule send_voice_frame [OF ok assms(2) n1 ld])
  have fn: "ucast ((ucast (b_ysf_cnt b) - 1 :: u32) mod (ucast (6 :: u8) + 1)) = (of_nat ?n :: u8)" by (rule frame_number_code)
  have c: "b_ysf_cnt b' = b_ysf_cnt b" by (subst f(9)) simp
  have run: "bridge_emit_ysf_from_conv e b = Some (True, b'\<lparr>b_ysf_cnt := b_ysf_cnt b + 1\<rparr>)"
    unfolding bridge_emit_ysf_from_conv_def modeconv_get_ysf_def s(1) using f(1) c unfolding fn [symmetric] by simp
  have same: "b_net_src b' = b_net_src b" "b_net_dst b' = b_net_dst b" "b_conv b' = s'" "call_state b' = call_state b"
    by (subst f(9), simp add: call_state_def)+
  have t: "talk_of ?b = talk_of b" by (simp add: talk_of_def)
  have l35: "length (drop 35 f) = 120" using f(3) by simp
  have dch: "holds_dch (talk_dch (talk_of b) ?n) f"
    unfolding holds_dch_def
  proof (intro allI impI)
    fix l dt assume l: "locals_ok 25 13 l" "10 \<le> length (dt :: bytes)"
    have e: "block_errors (dch_channel (ysf_dch (of_nat ?n) ?b)) (channel_block 5 30 (drop 35 f)) = 0" by (simp add: f(6) no_errors)
    then show "\<exists>dt'. readVDMode2Data l (drop 35 f) dt = (True, dt') \<and> take 10 dt' = talk_dch (talk_of b) ?n"
      using dch_received [OF length_ysf_dch [OF ok] l35 l(2,1), of "of_nat ?n"]
      by (auto simp: talk_dch_eq [OF frame_number_bound] t)
  qed
  have voice: "holds_voice vs f"
    unfolding holds_voice_def
  proof (intro allI impI)
    fix jv jd :: bytes and x assume jv: "length jv = 13"
    have "putYSF jv jd (drop 35 f) x = putYSF jv jd ?d x" by (rule putYSF_channels [OF l35 ld jv f(7)])
    also have "\<dots> = fold (putAMBE7 jd) vs x"
      unfolding putYSF_records putAMBE7_all payload_of_frame [OF length_replicate assms(4,5) jv] ..
    finally show "putYSF jv jd (drop 35 f) x = fold (putAMBE7 jd) vs x" .
  qed
  show ?thesis
  proof (rule that [OF run, of f])
    show "frame_carries (talk_of b) (b_ysf_cnt b) (Y_voice vs) f"
      using f(3-5) dch voice unfolding talk_head_eq t by (simp add: frame_carries_def) (simp add: talk_of_def)
  qed (use f(2,8,10,11) s(2) same in \<open>simp_all add: talk_of_def ysf_tx_ok_def call_state_def\<close>)
qed

fun voice_frames :: "bytes list \<Rightarrow> ysf_item list" where
  "voice_frames (v1 # v2 # v3 # v4 # v5 # vs) = Y_voice [v1, v2, v3, v4, v5] # voice_frames vs"
| "voice_frames vs = []"

abbreviation emit_ysf :: "bridge_env \<Rightarrow> bridge \<Rightarrow> bridge option" where
  "emit_ysf e b \<equiv> map_option snd (bridge_emit_ysf_from_conv e b)"

lemma emit_ysf_call:
  assumes "\<forall>e\<in>set es. ysf_env_ok e" "length vs = 5 * k" "length es = Suc k" "\<forall>v\<in>set vs. length v = 7" "ysf_tx_ok b"
    and "conv_holds (b_conv b) (List.map ysf_record vs @ (TAG_EOT, h) # yf) df"
  shows "\<exists>b1 fs. run emit_ysf es b = Some (bridge_reset_call b1) \<and> b_sent b1 = b_sent b @ List.map (\<lambda>f. To_ysf (SendTo f)) fs \<and>
    ysf_stream_ok (talk_of b) (b_ysf_cnt b) (voice_frames vs @ [Y_end]) fs"
  using assms
proof (induction k arbitrary: vs es b)
  case 0
  then obtain e where e: "es = [e]" by (cases es) auto
  have c: "conv_holds (b_conv b) ((TAG_EOT, h) # yf) df" and ok: "ysf_env_ok e" and v: "vs = []" using 0 e by auto
  obtain b1 f where "bridge_emit_ysf_from_conv e b = Some (True, bridge_reset_call b1)" "b_sent b1 = b_sent b @ [To_ysf (SendTo f)]"
    "frame_carries (talk_of b) (b_ysf_cnt b) Y_end f"
    by (rule emit_ysf_end [OF 0(5) ok c])
  then show ?case by (intro exI [of _ b1] exI [of _ "[f]"]) (simp add: e v)
next
  case (Suc k)
  obtain e es' where e: "es = e # es'" using Suc.prems(3) by (cases es) auto
  have "5 \<le> length vs" using Suc.prems(2) by simp
  then obtain v1 v2 v3 v4 v5 us where vs: "vs = v1 # v2 # v3 # v4 # v5 # us" by (auto simp: Suc_le_length_iff numeral_eq_Suc)
  let ?vs = "[v1, v2, v3, v4, v5]"
  have ok: "ysf_env_ok e" using Suc.prems(1) e by simp
  have c: "conv_holds (b_conv b) (List.map ysf_record ?vs @ (List.map ysf_record us @ (TAG_EOT, h) # yf)) df"
    using Suc.prems(6) by (simp add: vs)
  have l: "length ?vs = 5" "\<forall>v\<in>set ?vs. length v = 7" using Suc.prems(4) by (auto simp: vs)
  obtain b0 f where b0: "bridge_emit_ysf_from_conv e b = Some (True, b0)" "b_sent b0 = b_sent b @ [To_ysf (SendTo f)]"
    "frame_carries (talk_of b) (b_ysf_cnt b) (Y_voice ?vs) f" "b_ysf_cnt b0 = b_ysf_cnt b + 1" "talk_of b0 = talk_of b" "ysf_tx_ok b0"
    "conv_holds (b_conv b0) (List.map ysf_record us @ (TAG_EOT, h) # yf) df" "call_state b0 = call_state b"
    by (rule emit_ysf_voice [OF Suc.prems(5) ok c l])
  have "\<exists>b1 fs. run emit_ysf es' b0 = Some (bridge_reset_call b1) \<and> b_sent b1 = b_sent b0 @ List.map (\<lambda>f. To_ysf (SendTo f)) fs \<and>
    ysf_stream_ok (talk_of b0) (b_ysf_cnt b0) (voice_frames us @ [Y_end]) fs"
    by (rule Suc.IH) (use Suc.prems b0 in \<open>simp_all add: e vs\<close>)
  then obtain b1 fs where b1: "run emit_ysf es' b0 = Some (bridge_reset_call b1)"
    "b_sent b1 = b_sent b0 @ List.map (\<lambda>f. To_ysf (SendTo f)) fs"
    "ysf_stream_ok (talk_of b) (b_ysf_cnt b + 1) (voice_frames us @ [Y_end]) fs" using b0(4,5) by auto
  show ?case by (intro exI [of _ b1] exI [of _ "f # fs"]) (use b0(1-3) b1 in \<open>simp add: e vs next_cnt_def\<close>)
qed

text \<open>A queue that ends a call, with its header still there or already sent.\<close>

lemma emit_ysf_queue:
  assumes "ysf_tx_ok b" "\<forall>e\<in>set es. ysf_env_ok e" "length es = k + (if started then 1 else 2)"
    and "conv_holds (b_conv b) ((if started then [] else [(TAG_HEADER, h)]) @ List.map ysf_record vs @ (TAG_EOT, t) # yf) df"
    and "length vs = 5 * k" "\<forall>v\<in>set vs. length v = 7"
  shows "\<exists>b1 fs. run emit_ysf es b = Some (bridge_reset_call b1) \<and> b_sent b1 = b_sent b @ List.map (\<lambda>f. To_ysf (SendTo f)) fs \<and>
    ysf_stream_ok (talk_of b) (b_ysf_cnt b) ((if started then [] else [Y_head]) @ voice_frames vs @ [Y_end]) fs"
proof (cases started)
  case True
  then show ?thesis using emit_ysf_call [OF assms(2,5) _ assms(6,1)] assms(3,4) by simp
next
  case False
  obtain e es' where es: "es = e # es'" using assms(3) False by (cases es) auto
  have ok: "ysf_env_ok e" using assms(2) es by simp
  have c: "conv_holds (b_conv b) ((TAG_HEADER, h) # List.map ysf_record vs @ (TAG_EOT, t) # yf) df" using assms(4) False by simp
  obtain b0 f where b0: "bridge_emit_ysf_from_conv e b = Some (True, b0)" "b_sent b0 = b_sent b @ [To_ysf (SendTo f)]"
    "frame_carries (talk_of b) (b_ysf_cnt b) Y_head f" "b_ysf_cnt b0 = 1" "talk_of b0 = talk_of b" "ysf_tx_ok b0"
    "conv_holds (b_conv b0) (List.map ysf_record vs @ (TAG_EOT, t) # yf) df" "call_state b0 = call_state b"
    by (rule emit_ysf_header [OF assms(1) ok c])
  obtain b1 fs where b1: "run emit_ysf es' b0 = Some (bridge_reset_call b1)"
    "b_sent b1 = b_sent b0 @ List.map (\<lambda>f. To_ysf (SendTo f)) fs" "ysf_stream_ok (talk_of b0) (b_ysf_cnt b0) (voice_frames vs @ [Y_end]) fs"
    using emit_ysf_call [of es' vs k b0 t yf df] assms False b0(6,7) by (auto simp: es)
  show ?thesis
    by (intro exI [of _ b1] exI [of _ "f # fs"]) (use b0 b1 False in \<open>simp add: es next_cnt_def\<close>)
qed

section \<open>A concrete bridge\<close>

lemma sample_ysf_ok: "ysf_tx_ok sample_bridge" "ysf_env_ok (sample_env t)"
proof -
  have "ysf_inv ysf_opened" using fich_start_wf by (simp add: ysf_inv_def ysf_opened_def peer_ysf_open_def Let_def)
  then show "ysf_tx_ok sample_bridge" by (simp add: ysf_tx_ok_def sample_bridge_def bridge_init_def blank10_def)
  show "ysf_env_ok (sample_env t)" by (simp add: ysf_env_ok_def sample_env_def blank_ok)
qed

text \<open>A converter that holds a header, the raw frames vs and the end for the YSF side.\<close>

definition ysf_queued :: "bytes list \<Rightarrow> mode_conv" where
  "ysf_queued vs = fold (\<lambda>(t, b). put_ysf_record t b)
     ((TAG_HEADER, replicate 13 0) # List.map ysf_record vs @ [(TAG_EOT, replicate 13 0)]) CModeConv"

lemma ysf_queued_holds:
  assumes "length vs < 350"
  shows "conv_holds (ysf_queued vs) ((TAG_HEADER, replicate 13 0) # List.map ysf_record vs @ [(TAG_EOT, replicate 13 0)]) []"
proof -
  have "conv_holds (ysf_queued vs) ([] @ (TAG_HEADER, replicate 13 0) # List.map ysf_record vs @ [(TAG_EOT, replicate 13 0)]) []"
    unfolding ysf_queued_def using assms by (intro put_ysf_holds_all [OF conv_holds_new]) (auto simp: split_def)
  then show ?thesis by simp
qed

lemma sample_queued: "ysf_tx_ok (sample_bridge\<lparr>b_conv := s\<rparr>)" "talk_of (sample_bridge\<lparr>b_conv := s\<rparr>) = talk_of sample_bridge"
    "b_ysf_cnt (sample_bridge\<lparr>b_conv := s\<rparr>) = 0" "b_sent (sample_bridge\<lparr>b_conv := s\<rparr>) = []"
  using sample_ysf_ok(1) by (simp_all add: ysf_tx_ok_def talk_of_def) (simp_all add: sample_bridge_def bridge_init_def bridge_boot_def)

end
