(* ===== verification/Silence.thy ===== *)
theory Silence
  imports Bridge_Stream
begin

text \<open>
  The code has silence three times as a constant: a voice channel of the YSF side, a voice frame of the DMR
  side and a whole DMR burst. They are one sound.
\<close>

text \<open>The raw frame of silence.\<close>

definition silence_frame :: bytes where
  "silence_frame = [0xF8, 0x01, 0xA9, 0x9F, 0x8C, 0xE0, 0x80]"

lemma concat_nth_equal:
  "\<forall>p\<in>set ps. length p = n \<Longrightarrow> i < length ps \<Longrightarrow> j < n \<Longrightarrow> concat ps ! (n * i + j) = ps ! i ! j"
proof (induction ps arbitrary: i)
  case (Cons p ps)
  then show ?case by (cases i) (simp_all add: nth_append add.assoc)
qed simp

lemma prng_3968: "PRNG_TABLE ! 3968 = 0xB2BD95"
proof -
  have "\<forall>p\<in>set PRNG_TABLE_parts. length p = 128" "length PRNG_TABLE_parts = 32" using prng_parts by (auto simp: list_all_iff)  (simp add: PRNG_TABLE_parts_def)
  from concat_nth_equal [OF this(1), of 31 0] this(2)
  have "PRNG_TABLE ! 3968 = PRNG_TABLE_parts ! 31 ! 0" by (simp add: PRNG_TABLE_def)
  also have "\<dots> = PRNG_TABLE_31 ! 0" by (simp add: PRNG_TABLE_parts_def)
  also have "\<dots> = 0xB2BD95" by (simp add: PRNG_TABLE_31_def)
  finally show ?thesis .
qed

lemma silence_ysf: "ysf_record silence_frame = (TAG_DATA, YSF_SILENCE)"
proof -
  have a: "ambe7ToABC silence_frame = (0xF80, 0x1A9, 0x13F19C1)" by (simp add: ambe7ToABC_def silence_frame_def unsigned_ucast_eq)
  have b: "ysf_voice 0xF80 0x1A9 0x13F19C1 = YSF_SILENCE" by code_simp
  show ?thesis by (simp add: ysf_record_def a b)
qed

lemma silence_dmr: "record_ambe DMR_SILENCE = silence_frame"
proof -
  have a: "msb_word (gather_bits DMR_A_TABLE (bits_of DMR_SILENCE)) = 0xF80148" by code_simp
  have b: "msb_word (gather_bits DMR_B_TABLE (bits_of DMR_SILENCE)) = 0x54150D" by code_simp
  have c: "msb_word (gather_bits DMR_C_TABLE (bits_of DMR_SILENCE)) = 0x13F19C1" by code_simp
  show ?thesis unfolding record_ambe_def a b c Let_def by (simp add: prng_3968 abcToAMBE7_def silence_frame_def)
qed

lemma silence_burst: "silence_ambe = [silence_frame, silence_frame, silence_frame]"
proof -
  have "DMR_SILENCE_DATA = dmr_burst DMR_SILENCE_DATA DMR_SILENCE DMR_SILENCE DMR_SILENCE"
    by (simp add: dmr_burst_def DMR_SILENCE_DATA_def DMR_SILENCE_def memcpy_def sub_buf_def)
  then show ?thesis using dmr_burst_ambe(2) [of DMR_SILENCE_DATA DMR_SILENCE DMR_SILENCE DMR_SILENCE]
    by (simp add: silence_ambe_def silence_dmr)
qed

end
