(* ===== verification/Bridge_Call.thy ===== *)
theory Bridge_Call
  imports Bridge_Ysf Silence
begin

text \<open>
  Whole calls through the bridge: what it does with the frames of a call from YSF and with the packets of a
  call from DMR as they arrive, in any order with the polls that send the other side.
\<close>

section \<open>A call from YSF arrives\<close>

definition talker_id :: "bridge \<Rightarrow> bytes \<Rightarrow> int" where
  "talker_id b src =
     (let base = ysf_callsign_base_src src; i = callsign10_to_dmrid (format_ysf_callsign10 base);
          i = (if i \<le> 0 then bridge_find_ysf_dmrid base b else i)
      in if 0 < i then i else dmrid_of b)"

definition idle_ok :: "bridge \<Rightarrow> bool" where
  "idle_ok b \<longleftrightarrow> codec_ok (codec_of b) \<and> b_slot_bit b = 0x80 \<and> fich_wf (yp_fich (b_ysf b)) \<and> 0 < dmrid_of b \<and>
     \<not> b_call_active b \<and> \<not> ptt_active b"

definition hears :: "bridge \<Rightarrow> u8 \<Rightarrow> bool" where
  "hears b dgid \<longleftrightarrow> yp_dgid (b_ysf b) = 0 \<or> dgid = 0 \<or> dgid = yp_dgid (b_ysf b)"

lemma talker_id_positive: "0 < dmrid_of b \<Longrightarrow> 0 < talker_id b src"
  by (simp add: talker_id_def Let_def)

lemma assign_talker:
  assumes "0 < dmrid_of b"
  obtains cs where "bridge_assign_ysf_talker src b = (True, b\<lparr>b_net_src := cs, b_ysf_rf_id := talker_id b src\<rparr>)"
proof -
  have f: "bridge_find_ysf_dmrid base (b\<lparr>b_net_src := cs\<rparr>) = bridge_find_ysf_dmrid base b" for base cs
    by (simp add: bridge_find_ysf_dmrid_def)
  have d: "dmrid_of (b\<lparr>b_net_src := cs\<rparr>) = dmrid_of b" for cs by (simp add: dmrid_of_def)
  have "\<exists>cs. bridge_assign_ysf_talker src b = (True, b\<lparr>b_net_src := cs, b_ysf_rf_id := talker_id b src\<rparr>)"
    using assms by (auto simp: bridge_assign_ysf_talker_def talker_id_def Let_def f d intro: exI)
  then show ?thesis using that by blast
qed

lemma ysfd_prefix:
  assumes "take 40 f = talk_head t cnt"
  shows "take 4 f = ascii ''YSFD''"
    and "length (yt_callsign t) = 10 \<Longrightarrow> length (yt_src t) = 10 \<Longrightarrow> sub_buf f 35 5 = YSF_SYNC_WORD"
proof -
  have "take 4 (take 40 f) = ascii ''YSFD''" unfolding assms by (simp add: talk_head_def)
  then show "take 4 f = ascii ''YSFD''" by simp
  assume l: "length (yt_callsign t) = 10" "length (yt_src t) = 10"
  have "take 5 (drop 35 (take 40 f)) = YSF_SYNC_WORD" unfolding assms using l by (simp add: talk_head_def YSF_SYNC_WORD_def)
  then show "sub_buf f 35 5 = YSF_SYNC_WORD" by (simp add: sub_buf_def drop_take)
qed

text \<open>What the guards of \<open>bridge_on_ysfd\<close> see.\<close>

lemma on_ysfd_fields:
  assumes "length f = 155" "take 4 f = ascii ''YSFD''" "announces fs dgid f" "fich_wf (yp_fich (b_ysf b))" "hears b dgid"
  obtains g where "fich_wf g" "ysf_fich_decode_fields f (yp_fich (b_ysf b)) = Some (g, fs)" "ysf_fich_get_dgid g = dgid"
    "\<not> (1 \<le> yp_dgid (b_ysf b) \<and> 1 \<le> ysf_fich_get_dgid g \<and> ysf_fich_get_dgid g \<noteq> yp_dgid (b_ysf b))"
proof -
  obtain g where g: "ysf_fich_decode_fields f (yp_fich (b_ysf b)) = Some (g, fs)" "ysf_fich_get_dgid g = dgid" "fich_wf g"
    using assms(3,4) by (auto simp: announces_def)
  have "\<not> (1 \<le> (0 :: u8))" by simp
  then have "\<not> (1 \<le> yp_dgid (b_ysf b) \<and> 1 \<le> dgid \<and> dgid \<noteq> yp_dgid (b_ysf b))" using assms(5) by (auto simp: hears_def)
  then show ?thesis using that g by simp
qed

text \<open>
  A frame of a call on a YSF network, whoever sent it: it starts with YSFD, has the sync word in its place,
  its FICH says which part of the call it is, a header carries the name of the source, and a voice
  frame five raw voice frames. The callsigns and the counter before the sync word, the rest of the FICH, the
  data channels and the destination are free.
\<close>

definition ysf_kind :: "ysf_item \<Rightarrow> u8" where
  "ysf_kind x = (case x of Y_head \<Rightarrow> 0 | Y_voice vs \<Rightarrow> 1 | Y_end \<Rightarrow> 2)"

definition names_source :: "bytes \<Rightarrow> bytes \<Rightarrow> bool" where
  "names_source src f \<longleftrightarrow> (\<forall>l. locals_ok 45 23 l \<longrightarrow>
     (\<exists>dst out. ysf_payload_process_header l (drop 35 f) = Some (True, src @ [0], dst, out)))"

definition ysf_frame :: "u8 \<Rightarrow> bytes \<Rightarrow> ysf_item \<Rightarrow> bytes \<Rightarrow> bool" where
  "ysf_frame dgid src x f \<longleftrightarrow> length f = 155 \<and> take 4 f = ascii ''YSFD'' \<and> sub_buf f 35 5 = YSF_SYNC_WORD \<and>
     (\<exists>fs. announces fs dgid f \<and> f_fi fs = ysf_kind x) \<and>
     (case x of Y_head \<Rightarrow> names_source src f | Y_voice vs \<Rightarrow> holds_voice vs f | Y_end \<Rightarrow> True)"

text \<open>The frames that the bridge itself sends are such frames.\<close>

definition talk_ok :: "ysf_talk \<Rightarrow> bool" where
  "talk_ok t \<longleftrightarrow> length (yt_callsign t) = 10 \<and> length (yt_src t) = 10"

lemma chunk_of_frame: "sub_buf f 35 5 = YSF_SYNC_WORD \<Longrightarrow> ysf_modeconv_chunk f = drop 35 f"
  by (simp add: ysf_modeconv_chunk_def ysf_pkt_has_rf_sync_def)

lemma c_str_ending: "c_str (xs @ [0]) = c_str xs"
  by (induction xs) (auto simp: c_str_def)

lemma air_fi [simp]: "f_fi (air_fields fi fn ft cm) = fi AND 3"
  by (simp add: air_fields_def)

lemma talk_frame:
  assumes "frame_carries t cnt x f" "talk_ok t"
  shows "ysf_frame (yt_dgid t) (yt_src t) x f"
proof -
  obtain c fs where f: "length f = 155" "take 40 f = talk_head t c" "announces fs (yt_dgid t) f" "f_fi fs = ysf_kind x"
    using assms(1) by (cases x) (auto simp: frame_carries_def ysf_kind_def)
  have l: "length (yt_callsign t) = 10" "length (yt_src t) = 10" using assms(2) by (simp_all add: talk_ok_def)
  have "case x of Y_head \<Rightarrow> names_source (yt_src t) f | Y_voice vs \<Rightarrow> holds_voice vs f | Y_end \<Rightarrow> True"
    using assms(1) by (cases x) (auto simp: frame_carries_def names_talker_def names_source_def)
  then show ?thesis using f ysfd_prefix(1) [OF f(2)] ysfd_prefix(2) [OF f(2) l] unfolding ysf_frame_def by blast
qed

lemma talk_stream:
  "ysf_stream_ok t cnt xs fs \<Longrightarrow> talk_ok t \<Longrightarrow> list_all2 (ysf_frame (yt_dgid t) (yt_src t)) xs fs"
  by (induction xs arbitrary: cnt fs) (auto intro: talk_frame)

lemma receive_header:
  assumes "ysf_frame dgid src Y_head f" "idle_ok b" "hears b dgid" "locals_ok 45 23 (e_header_in e)"
  obtains b' where "bridge_on_ysfd e f b = Some b'" "tx_ok b'" "conv_holds (b_conv b') [] [(TAG_HEADER, replicate 9 0)]"
    "b_dmr_tx_frames b' = 0" "b_seq b' = 0" "b_call_active b'" "b_sent b' = b_sent b" "fich_wf (yp_fich (b_ysf b'))"
    "call_of b' = \<lparr>cl_tg = dp_tg (b_dmr b), cl_rf = talker_id b (c_str src), cl_repeater = dp_dmrid (b_dmr b), cl_stream = e_rand e (b_rands b) OR 1\<rparr>"
    "hears b' dgid" "0 < b_ysf_rf_id b'"
proof -
  obtain fs where f: "length f = 155" "take 4 f = ascii ''YSFD''" "announces fs dgid f" "f_fi fs = 0" "names_source src f"
    and sync: "sub_buf f 35 5 = YSF_SYNC_WORD"
    using assms(1) by (auto simp: ysf_frame_def ysf_kind_def)
  have b: "codec_ok (codec_of b)" "b_slot_bit b = 0x80" "fich_wf (yp_fich (b_ysf b))" "0 < dmrid_of b" "\<not> b_call_active b" "\<not> ptt_active b"
    using assms(2) by (simp_all add: idle_ok_def)
  obtain g where g: "fich_wf g" "ysf_fich_decode_fields f (yp_fich (b_ysf b)) = Some (g, fs)" "ysf_fich_get_dgid g = dgid"
    "\<not> (1 \<le> yp_dgid (b_ysf b) \<and> 1 \<le> ysf_fich_get_dgid g \<and> ysf_fich_get_dgid g \<noteq> yp_dgid (b_ysf b))"
    by (rule on_ysfd_fields [OF f(1-3) b(3) assms(3)])
  let ?b1 = "b\<lparr>b_ysf := (b_ysf b)\<lparr>yp_fich := g\<rparr>\<rparr>" and ?src = "c_str src"
  have same: "dmrid_of ?b1 = dmrid_of b" "bridge_find_ysf_dmrid c ?b1 = bridge_find_ysf_dmrid c b" for c
    by (simp_all add: dmrid_of_def bridge_find_ysf_dmrid_def)
  have d1: "0 < dmrid_of ?b1" "talker_id ?b1 ?src = talker_id b ?src" using b(4) by (simp_all only: talker_id_def same)
  obtain dst out where h: "ysf_payload_process_header (e_header_in e) (drop 35 f) = Some (True, src @ [0], dst, out)"
    using f(5) assms(4) by (auto simp: names_source_def)
  obtain cs where a: "bridge_assign_ysf_talker ?src ?b1 = (True, ?b1\<lparr>b_net_src := cs, b_ysf_rf_id := talker_id b ?src\<rparr>)"
    using assign_talker [OF d1(1)] d1(2) by metis
  let ?b2 = "?b1\<lparr>b_net_src := cs, b_ysf_rf_id := talker_id b ?src\<rparr>"
  have t120: "take 120 (drop 35 f) = drop 35 f" using f(1) by simp
  have res: "bridge_resolve_ysf_header e f ?b1 = Some (True, ?b2)"
    by (simp add: bridge_resolve_ysf_header_def chunk_of_frame [OF sync] t120 h c_str_ending a)
  have pos: "0 < talker_id b ?src" by (rule talker_id_positive [OF b(4)])
  have ready: "bridge_ysf_talker_ready ?b2" using pos by (simp add: bridge_ysf_talker_ready_def)
  let ?b3 = "?b2\<lparr>b_rands := b_rands b + 1, b_call_active := True, b_stream_id := e_rand e (b_rands b) OR 1, b_seq := 0, b_dmr_tx_frames := 0,
    b_dmr_voice_frames := 0, b_ysf_fn := f ! 48, b_conv := putYSFHeader CModeConv\<rparr>"
  have run: "bridge_on_ysfd e f b = Some ?b3"
    using f(1,2,4) g(2,4) res ready b(5,6)
    by (auto simp: bridge_on_ysfd_def Let_def start_ysf_call_def bridge_abort_connect_ptt_def new_stream_id_def modeconv_put_ysf_header_def modeconv_reset_def)
  have conv: "conv_holds (putYSFHeader CModeConv) [] [(TAG_HEADER, replicate 9 0)]"
    using put_dmr_holds [OF conv_holds_new, of "replicate 9 0" TAG_HEADER] by (simp add: putYSFHeader_def)
  have "tx_ok ?b3" using b(1,2) pos by (simp add: tx_ok_def codec_of_def rf_id_of_def)
  then show ?thesis
    by (rule that [OF run]) (use conv g(1) pos b(6) assms(3) in \<open>simp_all add: call_of_def bridge_tx_tg_def rf_id_of_def hears_def\<close>)
qed

text \<open>A frame of a running call changes the FICH globals, the converter and a counter, nothing else.\<close>

definition rx_kept :: "bridge \<Rightarrow> bridge \<Rightarrow> bool" where
  "rx_kept b b' \<longleftrightarrow> (\<exists>g c n. fich_wf g \<and> b' = b\<lparr>b_ysf := (b_ysf b)\<lparr>yp_fich := g\<rparr>, b_conv := c, b_ysf_voice_frames := n\<rparr>)"

lemma rx_kept_facts:
  assumes "rx_kept b b'"
  shows "sends xs b0 b' = sends xs b0 b" "emb_set b' = emb_set b" "b_dmr_tx_frames b' = b_dmr_tx_frames b"
    "b_call_active b' = b_call_active b" "b_ysf_rf_id b' = b_ysf_rf_id b" "hears b' d = hears b d" "fich_wf (yp_fich (b_ysf b'))"
proof -
  obtain g c n where b': "fich_wf g" "b' = b\<lparr>b_ysf := (b_ysf b)\<lparr>yp_fich := g\<rparr>, b_conv := c, b_ysf_voice_frames := n\<rparr>"
    using assms unfolding rx_kept_def by blast
  have call: "call_of b' = call_of b" by (simp add: b'(2) call_of_def rf_id_of_def dmrid_of_def bridge_tx_tg_def)
  have tx: "tx_ok b' = tx_ok b" by (simp add: b'(2) tx_ok_def codec_of_def rf_id_of_def dmrid_of_def)
  show em: "emb_set b' = emb_set b" unfolding emb_set_def call by (simp add: b'(2))
  have "b_sent b' = b_sent b" "b_seq b' = b_seq b" by (simp_all add: b'(2))
  then show "sends xs b0 b' = sends xs b0 b" by (simp only: sends_def call tx em)
qed (use assms in \<open>auto simp: rx_kept_def hears_def\<close>)

lemma receive_voice:
  assumes "ysf_frame dgid src (Y_voice vs) f" "length vs = 5" "\<forall>v\<in>set vs. length v = 7"
    and "b_call_active b" "0 < b_ysf_rf_id b" "fich_wf (yp_fich (b_ysf b))" "hears b dgid"
    and "length (e_junk13 e) = 13" "length (e_junk9 e) = 9" "conv_holds (b_conv b) yf df" "length df < 494"
  obtains b' rs where "bridge_on_ysfd e f b = Some b'" "rx_kept b b'" "conv_holds (b_conv b') yf (df @ List.map (Pair TAG_DATA) rs)"
    "List.map record_ambe rs = List.map ambe49 vs" "\<forall>r\<in>set rs. length r = 9"
proof -
  obtain fs where f: "length f = 155" "take 4 f = ascii ''YSFD''" "announces fs dgid f" "f_fi fs = 1" "holds_voice vs f"
    and sync: "sub_buf f 35 5 = YSF_SYNC_WORD"
    using assms(1) by (auto simp: ysf_frame_def ysf_kind_def)
  obtain g where g: "fich_wf g" "ysf_fich_decode_fields f (yp_fich (b_ysf b)) = Some (g, fs)"
    "ysf_fich_get_dgid g = dgid"
    "\<not> (1 \<le> yp_dgid (b_ysf b) \<and> 1 \<le> ysf_fich_get_dgid g \<and> ysf_fich_get_dgid g \<noteq> yp_dgid (b_ysf b))"
    by (rule on_ysfd_fields [OF f(1-3) assms(6,7)])
  let ?jd = "e_junk9 e" and ?rs = "List.map (\<lambda>v. snd (dmr_record (e_junk9 e) v)) vs"
  let ?b' = "b\<lparr>b_ysf := (b_ysf b)\<lparr>yp_fich := g\<rparr>, b_conv := fold (putAMBE7 ?jd) vs (b_conv b), b_ysf_voice_frames := b_ysf_voice_frames b + 1\<rparr>"
  have ready: "bridge_ysf_talker_ready (b\<lparr>b_ysf := (b_ysf b)\<lparr>yp_fich := g\<rparr>\<rparr>)" using assms(5) by (simp add: bridge_ysf_talker_ready_def)
  have put: "putYSF (e_junk13 e) ?jd (drop 35 f) (b_conv b) = fold (putAMBE7 ?jd) vs (b_conv b)"
    using f(5) assms(8) by (simp add: holds_voice_def)
  have run: "bridge_on_ysfd e f b = Some ?b'"
    using f(1,2,4) g(2,4) ready assms(4) by (auto simp: bridge_on_ysfd_def Let_def chunk_of_frame [OF sync] modeconv_put_ysf_payload_def put)
  have t: "dmr_record ?jd v = (TAG_DATA, snd (dmr_record ?jd v))" for v by (simp add: dmr_record_def split_def Let_def)
  have rec: "List.map (dmr_record ?jd) vs = List.map (Pair TAG_DATA) ?rs" using t by simp
  have l9: "\<forall>r\<in>set ?rs. length r = 9" using assms(9) by auto
  have "conv_holds (fold (putAMBE7 ?jd) vs (b_conv b)) yf (df @ List.map (dmr_record ?jd) vs)"
    unfolding putAMBE7_all using assms(2,9-11) by (intro put_dmr_holds_all) (auto simp: split_def)
  then have conv: "conv_holds (b_conv ?b') yf (df @ List.map (Pair TAG_DATA) ?rs)" unfolding rec by simp
  have "rx_kept b ?b'" using g(1) by (auto simp: rx_kept_def)
  moreover have "List.map record_ambe ?rs = List.map ambe49 vs" using assms(3,9) by (simp add: record_ambe_frame)
  ultimately show ?thesis using that [OF run _ conv] l9 by blast
qed

lemma receive_end:
  assumes "ysf_frame dgid src Y_end f" "b_call_active b" "fich_wf (yp_fich (b_ysf b))" "hears b dgid"
    and "conv_holds (b_conv b) yf df" "length df < 494"
  obtains b' where "bridge_on_ysfd e f b = Some b'" "rx_kept b b'"
    "conv_holds (b_conv b') yf (df @ replicate (3 - length df mod 3) (TAG_DATA, DMR_SILENCE) @ [(TAG_EOT, replicate 9 0)])"
proof -
  obtain fs where f: "length f = 155" "take 4 f = ascii ''YSFD''" "announces fs dgid f" "f_fi fs = 2"
    using assms(1) by (auto simp: ysf_frame_def ysf_kind_def)
  obtain g where g: "fich_wf g" "ysf_fich_decode_fields f (yp_fich (b_ysf b)) = Some (g, fs)" "ysf_fich_get_dgid g = dgid"
    "\<not> (1 \<le> yp_dgid (b_ysf b) \<and> 1 \<le> ysf_fich_get_dgid g \<and> ysf_fich_get_dgid g \<noteq> yp_dgid (b_ysf b))"
    by (rule on_ysfd_fields [OF f(1-3) assms(3,4)])
  let ?b' = "b\<lparr>b_ysf := (b_ysf b)\<lparr>yp_fich := g\<rparr>, b_conv := putYSFEOT (b_conv b)\<rparr>"
  have run: "bridge_on_ysfd e f b = Some ?b'"
    using f(1,2,4) g(2,4) assms(2) by (auto simp: bridge_on_ysfd_def Let_def modeconv_put_ysf_eot_def)
  have "?b' = b\<lparr>b_ysf := (b_ysf b)\<lparr>yp_fich := g\<rparr>, b_conv := putYSFEOT (b_conv b), b_ysf_voice_frames := b_ysf_voice_frames b\<rparr>" by simp
  then have kept: "rx_kept b ?b'" using g(1) unfolding rx_kept_def by blast
  have "conv_holds (putYSFEOT (b_conv b)) yf (df @ (replicate (3 - length df mod 3) (TAG_DATA, DMR_SILENCE) @ [(TAG_EOT, replicate 9 0)]))"
    unfolding putYSFEOT_records [OF assms(5)] using assms(5,6) by (intro put_dmr_holds_all) auto
  then show ?thesis using that [OF run kept] by simp
qed

section \<open>Any order of arrivals and polls\<close>

datatype rx_act = Frame bridge_env bytes | Poll bridge_env

definition act_env :: "rx_act \<Rightarrow> bridge_env" where
  "act_env a = (case a of Frame e f \<Rightarrow> e | Poll e \<Rightarrow> e)"

text \<open>The frames that arrive in a schedule, and a schedule played by the two handlers.\<close>

definition frames_of :: "rx_act list \<Rightarrow> bytes list" where
  "frames_of as = concat (List.map (\<lambda>a. case a of Frame e f \<Rightarrow> [f] | Poll e \<Rightarrow> []) as)"

lemma frames_of_simps [simp]:
  "frames_of [] = []" "frames_of (Frame e f # as) = f # frames_of as" "frames_of (Poll e # as) = frames_of as"
  by (simp_all add: frames_of_def)

fun play :: "(bridge_env \<Rightarrow> bytes \<Rightarrow> bridge \<Rightarrow> bridge option) \<Rightarrow> (bridge_env \<Rightarrow> bridge \<Rightarrow> bridge option) \<Rightarrow> rx_act list \<Rightarrow> bridge \<Rightarrow> bridge option" where
  "play arrive poll [] b = Some b"
| "play arrive poll (Frame e f # as) b = Option.bind (arrive e f b) (play arrive poll as)"
| "play arrive poll (Poll e # as) b = Option.bind (poll e b) (play arrive poll as)"

lemma play_append: "play f g (as @ as') b = Option.bind (play f g as b) (play f g as')"
  by (induction f g as b rule: play.induct) (auto split: Option.bind_split)

lemma play_polls: "play f g (List.map Poll es) b = run g es b"
  by (induction es arbitrary: b) (auto split: Option.bind_split)

definition dmr_env_ok :: "bridge_env \<Rightarrow> bool" where
  "dmr_env_ok e \<longleftrightarrow> length (e_junk55 e) = 55 \<and> length (e_junk9 e) = 9 \<and> length (e_junk33 e) = 33 \<and> length (e_junk13 e) = 13 \<and>
     locals_ok 45 23 (e_header_in e)"

text \<open>
  A call from YSF under way: the voice frames rs have arrived; the three headers are sent when \<open>started\<close>,
  and n bursts; the rest is queued.
\<close>

definition sent_bursts :: "bool \<Rightarrow> nat \<Rightarrow> bytes list \<Rightarrow> burst list" where
  "sent_bursts started n rs = (if started then [Head, Head, Head] @ voice_bursts 0 (List.map record_ambe (take (3 * n) rs)) else [])"

definition head_queue :: "bool \<Rightarrow> nat \<Rightarrow> (u8 \<times> bytes) list" where
  "head_queue started k = (if started then [] else [(TAG_HEADER, replicate k 0)])"

definition in_call :: "bridge \<Rightarrow> u8 \<Rightarrow> bytes list \<Rightarrow> bool \<Rightarrow> nat \<Rightarrow> bridge \<Rightarrow> bool" where
  "in_call b0 dgid rs started n b \<longleftrightarrow> sends (sent_bursts started n rs) b0 b \<and> (\<not> started \<longrightarrow> n = 0) \<and>
     3 * n \<le> length rs \<and> b_dmr_tx_frames b = n \<and> (n mod 6 = 0 \<or> emb_set b) \<and>
     conv_holds (b_conv b) [] (head_queue started 9 @ List.map (Pair TAG_DATA) (drop (3 * n) rs)) \<and> (\<forall>r\<in>set rs. length r = 9) \<and>
     b_call_active b \<and> 0 < b_ysf_rf_id b \<and> fich_wf (yp_fich (b_ysf b)) \<and> hears b dgid"

lemma voice_bursts_append: "length xs = 3 * k \<Longrightarrow> voice_bursts n (xs @ ys) = voice_bursts n xs @ voice_bursts (n + k) ys"
proof (induction k arbitrary: xs n)
  case (Suc k)
  then have "3 \<le> length xs" by simp
  then obtain a b c us where xs: "xs = a # b # c # us" by (auto simp: Suc_le_length_iff numeral_eq_Suc)
  then show ?case using Suc.IH [of us "Suc n"] Suc.prems by simp
qed simp

lemma three_more: "3 * Suc n = Suc (Suc (Suc (3 * n)))"
  by simp

lemma take_3: "3 * Suc n \<le> length xs \<Longrightarrow> take (3 * Suc n) xs = take (3 * n) xs @ [xs ! (3 * n), xs ! (3 * n + 1), xs ! (3 * n + 2)]"
  unfolding three_more by (simp add: take_Suc_conv_app_nth)

lemma drop_3: "3 * Suc n \<le> length xs \<Longrightarrow> drop (3 * n) xs = [xs ! (3 * n), xs ! (3 * n + 1), xs ! (3 * n + 2)] @ drop (3 * Suc n) xs"
  unfolding three_more by (simp add: Cons_nth_drop_Suc)

text \<open>A poll sends the headers, or a burst when three frames are there, and nothing otherwise.\<close>

lemma poll_head:
  assumes "in_call b0 d rs False n b" "dmr_env_ok e"
  shows "\<exists>b'. bridge_emit_dmr_from_conv e b = Some b' \<and> in_call b0 d rs True 0 b'"
proof -
  have e: "length (e_junk55 e) = 55" "length (e_junk9 e) = 9" "length (e_junk33 e) = 33" using assms(2) by (simp_all add: dmr_env_ok_def)
  have b: "sends [] b0 b" "b_dmr_tx_frames b = 0" "conv_holds (b_conv b) [] ((TAG_HEADER, replicate 9 0) # List.map (Pair TAG_DATA) rs)"
    "\<forall>r\<in>set rs. length r = 9" "b_call_active b" "0 < b_ysf_rf_id b" "fich_wf (yp_fich (b_ysf b))" "hears b d"
    using assms(1) by (auto simp: in_call_def sent_bursts_def head_queue_def)
  have tx: "tx_ok b" using b(1) by (simp add: sends_def)
  obtain b1 where b1: "bridge_emit_dmr_from_conv e b = Some b1" "sends [Head, Head, Head] b b1"
    "conv_holds (b_conv b1) [] (List.map (Pair TAG_DATA) rs)" "b_dmr_tx_frames b1 = b_dmr_tx_frames b" "tx_core b1 = tx_core (b\<lparr>b_conv := b_conv b1\<rparr>)"
    by (rule emit_header [OF tx e b(3)])
  have "in_call b0 d rs True 0 b1"
    using b b1(3,4) sends_trans [OF b(1) b1(2)] tx_core_fields(2,10,12) [OF b1(5)]
    by (simp add: in_call_def sent_bursts_def head_queue_def hears_def)
  then show ?thesis using b1(1) by blast
qed

lemma poll_call:
  assumes "in_call b0 d rs True n b" "dmr_env_ok e"
  shows "\<exists>b' n'. bridge_emit_dmr_from_conv e b = Some b' \<and> in_call b0 d rs True n' b'"
proof (cases "3 * Suc n \<le> length rs")
  case True
  let ?v1 = "rs ! (3 * n)" and ?v2 = "rs ! (3 * n + 1)" and ?v3 = "rs ! (3 * n + 2)" and ?h = "[Head, Head, Head]"
  have e: "length (e_junk55 e) = 55" "length (e_junk9 e) = 9" "length (e_junk33 e) = 33" using assms(2) by (simp_all add: dmr_env_ok_def)
  have b: "sends (?h @ voice_bursts 0 (List.map record_ambe (take (3 * n) rs))) b0 b" "b_dmr_tx_frames b = n" "n mod 6 = 0 \<or> emb_set b"
    "conv_holds (b_conv b) [] (List.map (Pair TAG_DATA) (drop (3 * n) rs))" "\<forall>r\<in>set rs. length r = 9"
    "b_call_active b" "0 < b_ysf_rf_id b" "fich_wf (yp_fich (b_ysf b))" "hears b d"
    using assms(1) by (simp_all add: in_call_def sent_bursts_def head_queue_def)
  have tx: "tx_ok b" using b(1) by (simp add: sends_def)
  have c: "conv_holds (b_conv b) [] (List.map (Pair TAG_DATA) [?v1, ?v2, ?v3] @ List.map (Pair TAG_DATA) (drop (3 * Suc n) rs))"
    using b(4) unfolding drop_3 [OF True] by simp
  have l: "length ?v1 = 9" "length ?v2 = 9" "length ?v3 = 9" using b(5) True by simp_all
  obtain b1 where b1: "bridge_emit_dmr_from_conv e b = Some b1" "sends [Voice n [record_ambe ?v1, record_ambe ?v2, record_ambe ?v3]] b b1"
    "conv_holds (b_conv b1) [] (List.map (Pair TAG_DATA) (drop (3 * Suc n) rs))" "b_dmr_tx_frames b1 = Suc n" "emb_set b1"
    "tx_core b1 = tx_core (b\<lparr>b_conv := b_conv b1\<rparr>)"
    by (rule emit_voice [OF tx e b(2,3) c l])
  note k = tx_core_fields(2,10,12) [OF b1(6)]
  have len: "length (List.map record_ambe (take (3 * n) rs)) = 3 * n" using True by simp
  have "voice_bursts 0 (List.map record_ambe (take (3 * Suc n) rs)) =
      voice_bursts 0 (List.map record_ambe (take (3 * n) rs)) @ [Voice n [record_ambe ?v1, record_ambe ?v2, record_ambe ?v3]]"
    unfolding take_3 [OF True] map_append voice_bursts_append [OF len] by simp
  then have "sends (?h @ voice_bursts 0 (List.map record_ambe (take (3 * Suc n) rs))) b0 b1"
    using sends_trans [OF b(1) b1(2)] by simp
  then have "in_call b0 d rs True (Suc n) b1"
    using True b(5-9) b1(3-5) k by (simp add: in_call_def sent_bursts_def head_queue_def hears_def)
  then show ?thesis using b1(1) by blast
next
  case False
  have e: "length (e_junk33 e) = 33" "length (e_junk9 e) = 9" using assms(2) by (simp_all add: dmr_env_ok_def)
  have c: "conv_holds (b_conv b) [] (List.map (Pair TAG_DATA) (drop (3 * n) rs))" using assms(1) by (simp add: in_call_def head_queue_def)
  have "read_dmr (e_junk33 e) (List.map (Pair TAG_DATA) (drop (3 * n) rs)) =
      (TAG_NODATA, e_junk33 e, List.map (Pair TAG_DATA) (drop (3 * n) rs))"
    using False by (cases "drop (3 * n) rs") (auto simp: read_dmr_def dest: arg_cong [where f = length])
  from getDMR_reads [OF c e this] obtain s' where s: "getDMR (e_junk9 e) (e_junk33 e) (b_conv b) = (TAG_NODATA, e_junk33 e, s')"
    "conv_holds s' [] (List.map (Pair TAG_DATA) (drop (3 * n) rs))" by blast
  have "bridge_emit_dmr_from_conv e b = Some (b\<lparr>b_conv := s'\<rparr>)"
    by (simp add: bridge_emit_dmr_from_conv_def modeconv_get_dmr_def s(1))
  moreover have "b\<lparr>b_conv := s'\<rparr> = b\<lparr>b_ysf := (b_ysf b)\<lparr>yp_fich := yp_fich (b_ysf b)\<rparr>, b_conv := s', b_ysf_voice_frames := b_ysf_voice_frames b\<rparr>"
    by simp
  then have kept: "rx_kept b (b\<lparr>b_conv := s'\<rparr>)" using assms(1) unfolding rx_kept_def in_call_def by blast
  have "in_call b0 d rs True n (b\<lparr>b_conv := s'\<rparr>)"
    using assms(1) s(2) rx_kept_facts [OF kept] by (simp add: in_call_def head_queue_def)
  ultimately show ?thesis by blast
qed

lemma poll_any:
  assumes "in_call b0 d rs started n b" "dmr_env_ok e"
  shows "\<exists>b' n'. bridge_emit_dmr_from_conv e b = Some b' \<and> in_call b0 d rs True n' b'"
  using poll_call [of b0 d rs n b e] poll_head [of b0 d rs n b e] assms by (cases started) auto

lemma arrive_call:
  assumes "in_call b0 dgid rs started n b" "dmr_env_ok e" "ysf_frame dgid src (Y_voice vs) f" "length vs = 5"
    and "\<forall>v\<in>set vs. length v = 7" "length rs < 480"
  obtains b' rs' where "bridge_on_ysfd e f b = Some b'" "in_call b0 dgid (rs @ rs') started n b'" "List.map record_ambe rs' = List.map ambe49 vs"
proof -
  have b: "b_call_active b" "0 < b_ysf_rf_id b" "fich_wf (yp_fich (b_ysf b))" "hears b dgid"
    and j: "length (e_junk13 e) = 13" "length (e_junk9 e) = 9"
    and c: "conv_holds (b_conv b) [] (head_queue started 9 @ List.map (Pair TAG_DATA) (drop (3 * n) rs))" and l: "3 * n \<le> length rs"
    using assms(1,2) by (simp_all add: in_call_def dmr_env_ok_def)
  have room: "length (head_queue started 9 @ List.map (Pair TAG_DATA) (drop (3 * n) rs)) < 494" using assms(6) by (auto simp: head_queue_def)
  obtain b' rs' where b': "bridge_on_ysfd e f b = Some b'" "rx_kept b b'"
    "conv_holds (b_conv b') [] ((head_queue started 9 @ List.map (Pair TAG_DATA) (drop (3 * n) rs)) @ List.map (Pair TAG_DATA) rs')"
    "List.map record_ambe rs' = List.map ambe49 vs" "\<forall>r\<in>set rs'. length r = 9"
    by (rule receive_voice [OF assms(3-5) b j c room])
  have same: "sent_bursts started n (rs @ rs') = sent_bursts started n rs" using l by (simp add: sent_bursts_def)
  have "in_call b0 dgid (rs @ rs') started n b'"
    using assms(1) b'(3,5) l rx_kept_facts [OF b'(2)] same by (simp add: in_call_def ball_Un)
  then show ?thesis using that b'(1,4) by blast
qed

lemma five_frames:
  assumes "length vs = 5 * k"
  obtains "vs = []" | v1 v2 v3 v4 v5 us where "vs = v1 # v2 # v3 # v4 # v5 # us"
proof (cases k)
  case 0
  then show ?thesis using assms that(1) by simp
next
  case (Suc m)
  then have "5 \<le> length vs" using assms by simp
  then show ?thesis using that(2) by (auto simp: Suc_le_length_iff numeral_eq_Suc)
qed

lemma play_call:
  assumes "in_call b0 dgid rs started n b" "list_all2 (ysf_frame dgid src) (voice_frames vs) (frames_of as)" "length vs = 5 * k"
    and "\<forall>v\<in>set vs. length v = 7" "\<forall>a\<in>set as. dmr_env_ok (act_env a)" "length rs + length vs \<le> 480"
  shows "\<exists>b' rs' n'. play bridge_on_ysfd bridge_emit_dmr_from_conv as b = Some b' \<and>
    in_call b0 dgid (rs @ rs') (started \<or> (\<exists>e. Poll e \<in> set as)) n' b' \<and> List.map record_ambe rs' = List.map ambe49 vs"
  using assms
proof (induction as arbitrary: b rs started n vs k)
  case Nil
  have "vs = []" using Nil.prems(2) by (cases rule: five_frames [OF Nil.prems(3)]) auto
  then show ?case using Nil.prems(1) by (intro exI [of _ b] exI [of _ "[]"] exI [of _ n]) simp
next
  case (Cons a as)
  show ?case
  proof (cases a)
    case (Poll e)
    have e: "dmr_env_ok e" using Cons.prems(5) by (simp add: Poll act_env_def)
    obtain b1 n1 where b1: "bridge_emit_dmr_from_conv e b = Some b1" "in_call b0 dgid rs True n1 b1"
      using poll_any [OF Cons.prems(1) e] by blast
    have s: "list_all2 (ysf_frame dgid src) (voice_frames vs) (frames_of as)" "\<forall>a\<in>set as. dmr_env_ok (act_env a)"
      using Cons.prems(2,5) by (simp_all add: Poll)
    have p: "(started \<or> (\<exists>e'. Poll e' \<in> set (a # as))) = True" "(True \<or> (\<exists>e. Poll e \<in> set as)) = True" by (auto simp: Poll)
    show ?thesis unfolding p(1) using Cons.IH [OF b1(2) s(1) Cons.prems(3,4) s(2) Cons.prems(6), unfolded p(2)] by (simp add: Poll b1(1))
  next
    case (Frame e f)
    have e: "dmr_env_ok e" using Cons.prems(5) by (simp add: Frame act_env_def)
    have "vs \<noteq> []" using Cons.prems(2) by (auto simp: Frame)
    then obtain v1 v2 v3 v4 v5 us where vs: "vs = v1 # v2 # v3 # v4 # v5 # us" by (cases rule: five_frames [OF Cons.prems(3)]) auto
    let ?v = "[v1, v2, v3, v4, v5]"
    have f: "ysf_frame dgid src (Y_voice ?v) f" "list_all2 (ysf_frame dgid src) (voice_frames us) (frames_of as)"
      using Cons.prems(2) by (simp_all add: vs Frame)
    have l: "length ?v = 5" "\<forall>v\<in>set ?v. length v = 7" "length rs < 480" using Cons.prems(4,6) by (auto simp: vs)
    obtain b1 rs1 where b1: "bridge_on_ysfd e f b = Some b1" "in_call b0 dgid (rs @ rs1) started n b1"
      "List.map record_ambe rs1 = List.map ambe49 ?v"
      by (rule arrive_call [OF Cons.prems(1) e f(1) l])
    have len: "length rs1 = 5" using arg_cong [OF b1(3), of length] by simp
    have us: "length us = 5 * (k - 1)" "\<forall>v\<in>set us. length v = 7" "\<forall>a\<in>set as. dmr_env_ok (act_env a)"
      "length (rs @ rs1) + length us \<le> 480" using Cons.prems(3-6) len by (auto simp: vs)
    obtain b' rs' n' where "play bridge_on_ysfd bridge_emit_dmr_from_conv as b1 = Some b'"
      "in_call b0 dgid ((rs @ rs1) @ rs') (started \<or> (\<exists>e. Poll e \<in> set as)) n' b'" "List.map record_ambe rs' = List.map ambe49 us"
      using Cons.IH [OF b1(2) f(2) us] by blast
    then show ?thesis using b1(1,3) by (intro exI [of _ b'] exI [of _ "rs1 @ rs'"] exI [of _ n']) (simp add: Frame vs)
  qed
qed

section \<open>A whole call\<close>

lemma list_all2_snoc: "list_all2 P (xs @ [x]) (ys @ [y]) \<longleftrightarrow> list_all2 P xs ys \<and> P x y"
proof (induction xs arbitrary: ys)
  case Nil
  show ?case by (cases ys) simp_all
next
  case (Cons a xs)
  show ?case using Cons.IH by (cases ys) simp_all
qed

text \<open>A poll of an idle bridge sends nothing.\<close>

lemma poll_idle:
  assumes "dmr_env_ok e" "b_conv b = CModeConv"
  shows "bridge_emit_dmr_from_conv e b = Some b"
proof -
  have "length (e_junk33 e) = 33" "length (e_junk9 e) = 9" using assms(1) by (simp_all add: dmr_env_ok_def)
  have "getDMR (e_junk9 e) (e_junk33 e) CModeConv = (TAG_NODATA, e_junk33 e, CModeConv)" by (simp add: getDMR_def CModeConv_def)
  then have "bridge_emit_dmr_from_conv e b = Some (b\<lparr>b_conv := CModeConv\<rparr>)"
    by (simp add: bridge_emit_dmr_from_conv_def modeconv_get_dmr_def assms(2))
  moreover have "b\<lparr>b_conv := CModeConv\<rparr> = b" using assms(2) by (cases b) simp
  ultimately show ?thesis by simp
qed

lemma run_idle:
  "\<forall>e\<in>set es. dmr_env_ok e \<Longrightarrow> b_conv b = CModeConv \<Longrightarrow> run bridge_emit_dmr_from_conv es b = Some b"
  by (induction es) (simp_all add: poll_idle)

text \<open>Raw frames with silence after them, at least one frame, up to a full superframe of 18.\<close>

definition padded :: "bytes list \<Rightarrow> bytes list" where
  "padded vs = vs @ replicate (3 * superframed (length vs div 3 + 1) - length vs) silence_frame"

lemma silent_frames: "m \<le> n \<Longrightarrow> silent m n = voice_bursts m (replicate (3 * (n - m)) silence_frame)"
proof (induction "n - m" arbitrary: m)
  case (Suc d)
  then have m: "m < n" "d = n - Suc m" by simp_all
  then have "3 * (n - m) = Suc (Suc (Suc (3 * (n - Suc m))))" by simp
  then show ?case using silent_Cons [OF m(1)] Suc.hyps(1) [OF m(2)] m(1) by (simp add: silence_burst)
qed (simp add: silent_def)

lemma padded_silent:
  "voice_bursts 0 (padded vs) = voice_bursts 0 (vs @ replicate (3 - length vs mod 3) silence_frame) @
     silent (length vs div 3 + 1) (superframed (length vs div 3 + 1))"
proof -
  let ?m = "length vs div 3 + 1" and ?r = "3 - length vs mod 3"
  have m: "?m \<le> superframed ?m" by (rule superframed_multiple)
  have n: "length vs + ?r = 3 * ?m" using mult_div_mod_eq [of 3 "length vs"] mod_less_divisor [of 3 "length vs"] by arith
  then have e: "3 * superframed ?m - length vs = ?r + 3 * (superframed ?m - ?m)" using m by arith
  have p: "padded vs = (vs @ replicate ?r silence_frame) @ replicate (3 * (superframed ?m - ?m)) silence_frame"
    by (simp only: padded_def e replicate_add append_assoc)
  have "length (vs @ replicate ?r silence_frame) = 3 * ?m" using n by simp
  then show ?thesis unfolding p silent_frames [OF m] by (subst voice_bursts_append) simp_all
qed

text \<open>The end of the call arrives; the polls that follow send what is left.\<close>

lemma finish_call:
  assumes "in_call b0 dgid rs True n b" "ysf_frame dgid src Y_end f" "length rs \<le> 480"
    and "\<forall>e\<in>set es. dmr_env_ok e" "length rs div 3 + 2 \<le> length es"
  obtains b1 where "play bridge_on_ysfd bridge_emit_dmr_from_conv (Frame e f # List.map Poll es) b = Some (bridge_reset_call b1)"
    "sends ([Head, Head, Head] @ voice_bursts 0 (padded (List.map record_ambe rs)) @ [Term]) b0 b1"
proof -
  have b: "sends ([Head, Head, Head] @ voice_bursts 0 (List.map record_ambe (take (3 * n) rs))) b0 b" "3 * n \<le> length rs"
    "b_dmr_tx_frames b = n" "n mod 6 = 0 \<or> emb_set b" "conv_holds (b_conv b) [] (List.map (Pair TAG_DATA) (drop (3 * n) rs))"
    "\<forall>r\<in>set rs. length r = 9" "b_call_active b" "fich_wf (yp_fich (b_ysf b))" "hears b dgid"
    using assms(1) by (simp_all add: in_call_def sent_bursts_def head_queue_def)
  obtain d where d: "length rs = 3 * n + d" using b(2) le_Suc_ex by blast
  let ?rest = "drop (3 * n) rs" and ?sil = "replicate (3 - length rs mod 3) DMR_SILENCE"
  have room: "length (List.map (Pair TAG_DATA) ?rest) < 494" using assms(3) by simp
  have pad: "length (List.map (Pair TAG_DATA) ?rest) mod 3 = length rs mod 3" by (simp add: d)
  obtain b1 where b1: "bridge_on_ysfd e f b = Some b1" "rx_kept b b1"
    "conv_holds (b_conv b1) [] (List.map (Pair TAG_DATA) ?rest @
       replicate (3 - length (List.map (Pair TAG_DATA) ?rest) mod 3) (TAG_DATA, DMR_SILENCE) @ [(TAG_EOT, replicate 9 0)])"
    by (rule receive_end [OF assms(2) b(7-9) b(5) room])
  note k = rx_kept_facts [OF b1(2)]
  have s: "sends ([Head, Head, Head] @ voice_bursts 0 (List.map record_ambe (take (3 * n) rs))) b0 b1"
    using b(1) unfolding k(1) [symmetric] .
  then have tx: "tx_ok b1" by (simp add: sends_def)
  have c: "conv_holds (b_conv b1) [] (List.map (Pair TAG_DATA) (?rest @ ?sil) @ [(TAG_EOT, replicate 9 0)])"
    using b1(3) unfolding pad by simp
  let ?j = "length rs div 3 + 1 - n"
  have len: "length (?rest @ ?sil) = 3 * ?j"
    using mult_div_mod_eq [of 3 d] mod_less_divisor [of 3 d] by (simp add: d) arith
  have m: "n + ?j = length rs div 3 + 1" using b(2) by simp
  let ?es = "take (Suc ?j) es" and ?es' = "drop (Suc ?j) es"
  have les: "length ?es = Suc ?j" using assms(5) by simp
  have env: "\<forall>e\<in>set ?es. length (e_junk55 e) = 55 \<and> length (e_junk9 e) = 9 \<and> length (e_junk33 e) = 33"
    using assms(4) by (auto simp: dmr_env_ok_def dest: in_set_takeD)
  have env': "\<forall>e\<in>set ?es'. dmr_env_ok e" using assms(4) by (auto dest: in_set_dropD)
  have l9: "\<forall>v\<in>set (?rest @ ?sil). length v = 9" using b(6) by (auto simp: DMR_SILENCE_def dest: in_set_dropD)
  have n: "b_dmr_tx_frames b1 = n" "n mod 6 = 0 \<or> emb_set b1" using b(3,4) k(2,3) by simp_all
  obtain b2 where b2: "run bridge_emit_dmr_from_conv ?es b1 = Some (bridge_reset_call b2)"
    "sends (voice_bursts n (List.map record_ambe (?rest @ ?sil)) @ silent (n + ?j) (superframed (n + ?j)) @ [Term]) b1 b2"
    using emit_call [OF env len les l9 tx n c] by blast
  have "run bridge_emit_dmr_from_conv (?es @ ?es') b1 = Some (bridge_reset_call b2)"
    unfolding run_append b2(1) bind.bind_lunit
    by (rule run_idle [OF env']) (simp add: bridge_reset_call_def modeconv_reset_def)
  then have run: "play bridge_on_ysfd bridge_emit_dmr_from_conv (Frame e f # List.map Poll es) b = Some (bridge_reset_call b2)"
    by (simp add: b1(1) play_polls)
  have rec: "List.map record_ambe rs @ replicate (3 - length rs mod 3) silence_frame =
      List.map record_ambe (take (3 * n) rs) @ List.map record_ambe (?rest @ ?sil)"
    unfolding map_append [symmetric] append_assoc [symmetric] append_take_drop_id by (simp add: silence_dmr)
  have "length (List.map record_ambe (take (3 * n) rs)) = 3 * n" using b(2) by simp
  note v = voice_bursts_append [OF this, of 0, unfolded add_0]
  show ?thesis by (rule that [OF run]) (use sends_trans [OF s b2(2)] in \<open>simp only: padded_silent length_map rec v m append_assoc\<close>)
qed

lemma ysf_call_through:
  assumes "idle_ok b" "hears b dgid"
    and "list_all2 (ysf_frame dgid src) (Y_head # voice_frames vs @ [Y_end]) (f0 # frames_of as @ [f1])"
    and "length vs = 5 * k" "length vs \<le> 480" "\<forall>v\<in>set vs. length v = 7" "\<exists>e. Poll e \<in> set as"
    and "\<forall>a\<in>set as. dmr_env_ok (act_env a)" "dmr_env_ok e0" "\<forall>e\<in>set es. dmr_env_ok e"
    and "length vs div 3 + 2 \<le> length es"
  shows "\<exists>b' ps. play bridge_on_ysfd bridge_emit_dmr_from_conv (Frame e0 f0 # as @ Frame e1 f1 # List.map Poll es) b = Some b' \<and>
    b_sent b' = b_sent b @ List.map To_dmr ps \<and>
    stream_ok \<lparr>cl_tg = dp_tg (b_dmr b), cl_rf = talker_id b (c_str src), cl_repeater = dp_dmrid (b_dmr b),
        cl_stream = e_rand e0 (b_rands b) OR 1\<rparr> 0
      ([Head, Head, Head] @ voice_bursts 0 (padded (List.map ambe49 vs)) @ [Term]) ps \<and>
    \<not> b_call_active b' \<and> b_conv b' = CModeConv"
proof -
  have f: "ysf_frame dgid src Y_head f0" "list_all2 (ysf_frame dgid src) (voice_frames vs) (frames_of as)" "ysf_frame dgid src Y_end f1"
    using assms(3) by (simp_all add: list_all2_snoc)
  have l: "locals_ok 45 23 (e_header_in e0)" using assms(9) by (simp add: dmr_env_ok_def)
  obtain b0 where b0: "bridge_on_ysfd e0 f0 b = Some b0" "tx_ok b0" "conv_holds (b_conv b0) [] [(TAG_HEADER, replicate 9 0)]"
    "b_dmr_tx_frames b0 = 0" "b_seq b0 = 0" "b_call_active b0" "b_sent b0 = b_sent b" "fich_wf (yp_fich (b_ysf b0))"
    "call_of b0 = \<lparr>cl_tg = dp_tg (b_dmr b), cl_rf = talker_id b (c_str src), cl_repeater = dp_dmrid (b_dmr b), cl_stream = e_rand e0 (b_rands b) OR 1\<rparr>"
    "hears b0 dgid" "0 < b_ysf_rf_id b0"
    by (rule receive_header [OF f(1) assms(1,2) l])
  have "sends [] b0 b0" using b0(2) by (simp add: sends_def)
  then have start: "in_call b0 dgid [] False 0 b0"
    using b0(3,4,6,8,10,11) by (simp add: in_call_def sent_bursts_def head_queue_def)
  have room: "length ([] :: bytes list) + length vs \<le> 480" using assms(5) by simp
  have polled: "(False \<or> (\<exists>e. Poll e \<in> set as)) = True" using assms(7) by simp
  obtain b2 rs n where b2: "play bridge_on_ysfd bridge_emit_dmr_from_conv as b0 = Some b2" "in_call b0 dgid rs True n b2"
    "List.map record_ambe rs = List.map ambe49 vs"
    using play_call [OF start f(2) assms(4,6,8) room, unfolded polled append_Nil] by blast
  have len: "length rs = length vs" using arg_cong [OF b2(3), of length] by simp
  have r: "length rs \<le> 480" "length rs div 3 + 2 \<le> length es" using assms(5,11) len by simp_all
  obtain b3 where b3: "play bridge_on_ysfd bridge_emit_dmr_from_conv (Frame e1 f1 # List.map Poll es) b2 = Some (bridge_reset_call b3)"
    "sends ([Head, Head, Head] @ voice_bursts 0 (padded (List.map record_ambe rs)) @ [Term]) b0 b3"
    by (rule finish_call [OF b2(2) f(3) r(1) assms(10) r(2)])
  obtain ps where ps: "b_sent b3 = b_sent b0 @ List.map To_dmr ps" "stream_ok (call_of b0) (b_seq b0)
      ([Head, Head, Head] @ voice_bursts 0 (padded (List.map ambe49 vs)) @ [Term]) ps"
    using sends_stream [OF b3(2)] unfolding b2(3) by blast
  have "play bridge_on_ysfd bridge_emit_dmr_from_conv (Frame e0 f0 # as @ Frame e1 f1 # List.map Poll es) b = Some (bridge_reset_call b3)"
    using b0(1) b2(1) b3(1) by (simp add: play_append)
  moreover have "b_sent (bridge_reset_call b3) = b_sent b @ List.map To_dmr ps" "\<not> b_call_active (bridge_reset_call b3)"
    "b_conv (bridge_reset_call b3) = CModeConv"
    using ps(1) b0(7) by (simp_all add: bridge_reset_call_def modeconv_reset_def)
  ultimately show ?thesis using ps(2) unfolding b0(5,9) by blast
qed

section \<open>A concrete call\<close>

text \<open>Every sequence of raw frames is carried by the frames of some call.\<close>

lemma frames_exist:
  assumes "length vs = 5 * k" "length vs < 350" "\<forall>v\<in>set vs. length v = 7"
  shows "\<exists>f0 fs. ysf_stream_ok (talk_of sample_bridge) 0 (Y_head # voice_frames vs @ [Y_end]) (f0 # fs)"
proof -
  let ?b = "sample_bridge\<lparr>b_conv := ysf_queued vs\<rparr>" and ?es = "replicate (k + 2) (sample_env 0)"
  note b = sample_queued [of "ysf_queued vs"]
  have c: "conv_holds (b_conv ?b) ((if False then [] else [(TAG_HEADER, replicate 13 0)]) @ List.map ysf_record vs @ [(TAG_EOT, replicate 13 0)]) []"
    using ysf_queued_holds [OF assms(2)] by simp
  have env: "\<forall>e\<in>set ?es. ysf_env_ok e" "length ?es = k + (if False then 1 else 2)" using sample_ysf_ok(2) by simp_all
  obtain fs where "ysf_stream_ok (talk_of ?b) (b_ysf_cnt ?b) ((if False then [] else [Y_head]) @ voice_frames vs @ [Y_end]) fs"
    using emit_ysf_queue [OF b(1) env c assms(1,3)] by blast
  then show ?thesis unfolding b(2,3) by auto
qed

lemma sample_idle: "idle_ok sample_bridge" "dmr_env_ok (sample_env t)" "talk_ok (talk_of sample_bridge)" "hears sample_bridge (yt_dgid (talk_of sample_bridge))"
proof -
  have y: "fich_wf (yp_fich ysf_opened)" "length (yp_callsign ysf_opened) = 10"
    using fich_start_wf by (simp_all add: ysf_opened_def peer_ysf_open_def Let_def)
  have b: "b_ysf sample_bridge = ysf_opened" "b_dmr sample_bridge = dmr_opened []" "length (b_net_src sample_bridge) = 10"
    by (simp_all add: sample_bridge_def bridge_init_def blank10_def)
  have "0 < dmrid_of sample_bridge" by (simp add: dmrid_of_def b(2)) (simp add: dmr_opened_def peer_dmr_open_def Let_def)
  then show "idle_ok sample_bridge" using sample_ok y(1) b(1) by (simp add: idle_ok_def tx_ok_def)
  show "dmr_env_ok (sample_env t)" by (simp add: dmr_env_ok_def sample_env_def blank_ok)
  show "talk_ok (talk_of sample_bridge)" using y(2) b by (simp add: talk_ok_def talk_of_def)
  show "hears sample_bridge (yt_dgid (talk_of sample_bridge))" by (simp add: hears_def talk_of_def)
qed

section \<open>Properties\<close>

text \<open>
  C2: a YSF call crosses the bridge. At an idle bridge with an id of its own arrive the frames of one call from
  YSF: a header that names the source, at most 96 voice frames (480 raw frames) and a terminator, in a group
  that the bridge hears; nothing else is asked of the frames (\<open>ysf_frame\<close>). The polls of the DMR side
  fall anywhere among them, at least one of them between the header and the terminator: a header that
  is still queued when the call ends is known to spoil the call (\<open>ModeConv.cpp\<close> line 819). After the
  terminator come polls enough to empty the queue. Then exactly one DMR stream is sent: three voice
  headers, the raw frames of the call in order, three to a burst, silence up to a full superframe and a
  terminator, all under the configured group, the id found for the source and one new stream number. No
  frame is lost, repeated or reordered, and the bridge is idle again.
\<close>

theorem ysf_call_crosses:
  assumes "idle_ok b" "hears b dgid"
    and "list_all2 (ysf_frame dgid src) (Y_head # voice_frames vs @ [Y_end]) (f0 # frames_of as @ [f1])"
    and "length vs = 5 * k" "length vs \<le> 480" "\<forall>v\<in>set vs. length v = 7" "\<exists>e. Poll e \<in> set as"
    and "\<forall>a\<in>set as. dmr_env_ok (act_env a)" "dmr_env_ok e0" "\<forall>e\<in>set es. dmr_env_ok e"
    and "length vs div 3 + 2 \<le> length es"
  shows "\<exists>b' ps. play bridge_on_ysfd bridge_emit_dmr_from_conv (Frame e0 f0 # as @ Frame e1 f1 # List.map Poll es) b = Some b' \<and>
    b_sent b' = b_sent b @ List.map To_dmr ps \<and>
    stream_ok \<lparr>cl_tg = dp_tg (b_dmr b), cl_rf = talker_id b (c_str src), cl_repeater = dp_dmrid (b_dmr b),
        cl_stream = e_rand e0 (b_rands b) OR 1\<rparr> 0
      ([Head, Head, Head] @ voice_bursts 0 (padded (List.map ambe49 vs)) @ [Term]) ps \<and>
    \<not> b_call_active b' \<and> b_conv b' = CModeConv"
  by (rule ysf_call_through [OF assms])

lemma ysf_call_crosses_witness:
  "\<exists>f0 f f1 b' ps. play bridge_on_ysfd bridge_emit_dmr_from_conv
      (Frame (sample_env 0) f0 # [Frame (sample_env 0) f, Poll (sample_env 0)] @
       Frame (sample_env 0) f1 # List.map Poll (replicate 3 (sample_env 0))) sample_bridge = Some b' \<and>
    b_sent b' = List.map To_dmr ps \<and>
    stream_ok \<lparr>cl_tg = 4000, cl_rf = talker_id sample_bridge (c_str (replicate 10 0x20)), cl_repeater = 730555, cl_stream = 7\<rparr> 0
      ([Head, Head, Head] @ voice_bursts 0 (replicate 5 [1, 2, 3, 4, 5, 6, 0x80] @ replicate 13 silence_frame) @ [Term]) ps \<and>
    \<not> b_call_active b'"
proof -
  let ?vs = "replicate 5 [1, 2, 3, 4, 5, 6, 0x80] :: bytes list" and ?t = "talk_of sample_bridge" and ?e = "sample_env 0"
  have l: "length ?vs = 5 * 1" "length ?vs \<le> 480" "length ?vs < 350" "\<forall>v\<in>set ?vs. length v = 7" by simp_all
  have v: "voice_frames ?vs = [Y_voice ?vs]" by (simp add: numeral_eq_Suc)
  obtain f0 fs where "ysf_stream_ok ?t 0 (Y_head # voice_frames ?vs @ [Y_end]) (f0 # fs)"
    using frames_exist [OF l(1,3,4)] by blast
  then obtain f f1 where s: "ysf_stream_ok ?t 0 (Y_head # voice_frames ?vs @ [Y_end]) (f0 # [f] @ [f1])" by (auto simp: v)
  let ?as = "[Frame ?e f, Poll ?e]"
  have s': "list_all2 (ysf_frame (yt_dgid ?t) (yt_src ?t)) (Y_head # voice_frames ?vs @ [Y_end]) (f0 # frames_of ?as @ [f1])"
    using talk_stream [OF s sample_idle(3)] by (simp only: frames_of_simps)
  have p: "\<exists>e. Poll e \<in> set ?as" by auto
  have env: "\<forall>a\<in>set ?as. dmr_env_ok (act_env a)" "\<forall>e\<in>set (replicate 3 ?e). dmr_env_ok e" using sample_idle(2) by (simp_all add: act_env_def)
  have n: "length ?vs div 3 + 2 \<le> length (replicate 3 ?e)" by simp
  have a: "List.map ambe49 ?vs = ?vs" "padded ?vs = ?vs @ replicate 13 silence_frame"
    by (simp_all add: ambe49_def padded_def superframed_def)
  have call: "dp_tg (b_dmr sample_bridge) = 4000" "dp_dmrid (b_dmr sample_bridge) = 730555" "e_rand ?e (b_rands sample_bridge) OR 1 = 7"
    "yt_src ?t = replicate 10 0x20" "b_sent sample_bridge = []"
    using sample_ok by (simp_all add: sample_env_def talk_of_def) (simp_all add: sample_bridge_def bridge_init_def dmr_opened_def peer_dmr_open_def Let_def blank10_def)
  from ysf_call_crosses [OF sample_idle(1,4) s' l(1,2,4) p env(1) sample_idle(2) env(2) n]
  obtain b' ps where r: "play bridge_on_ysfd bridge_emit_dmr_from_conv (Frame ?e f0 # ?as @ Frame ?e f1 # List.map Poll (replicate 3 ?e)) sample_bridge = Some b'"
    "b_sent b' = b_sent sample_bridge @ List.map To_dmr ps"
    "stream_ok \<lparr>cl_tg = dp_tg (b_dmr sample_bridge), cl_rf = talker_id sample_bridge (c_str (yt_src ?t)), cl_repeater = dp_dmrid (b_dmr sample_bridge),
        cl_stream = e_rand ?e (b_rands sample_bridge) OR 1\<rparr> 0
      ([Head, Head, Head] @ voice_bursts 0 (padded (List.map ambe49 ?vs)) @ [Term]) ps" "\<not> b_call_active b'" by blast
  show ?thesis
    by (intro exI [of _ f0] exI [of _ f] exI [of _ f1] exI [of _ b'] exI [of _ ps] conjI r(1,4)) (use r(2,3) in \<open>simp_all only: a call append.simps\<close>)
qed

end
