(* ===== verification/Bridge_Relay.thy ===== *)
theory Bridge_Relay
  imports Bridge_Call
begin

text \<open>
  A call from DMR arrives: its packets and the polls of the YSF side, in any order; and both directions in
  a row.
\<close>

section \<open>Who is talking\<close>

definition talker_name :: "bridge \<Rightarrow> int \<Rightarrow> bytes" where
  "talker_name b rf =
     (let (found, src) = bridge_lookup_dmr_callsign rf blank10 b in if found then src else format_id_callsign10 rf)"

text \<open>The lookups overwrite the whole field.\<close>

lemma lookup_buffer:
  assumes "length buf = 10" "length buf' = 10"
  shows "fst (alias_lookup_callsign a i buf) = fst (alias_lookup_callsign a i buf')"
    "fst (alias_lookup_callsign a i buf) \<Longrightarrow> snd (alias_lookup_callsign a i buf) = snd (alias_lookup_callsign a i buf')"
    "length (snd (alias_lookup_callsign a i buf)) = 10"
proof -
  have "memset b 0 0x20 10 = replicate 10 0x20" if "length b = 10" for b :: bytes using that by (simp add: memset_def)
  then show "fst (alias_lookup_callsign a i buf) = fst (alias_lookup_callsign a i buf')"
    "fst (alias_lookup_callsign a i buf) \<Longrightarrow> snd (alias_lookup_callsign a i buf) = snd (alias_lookup_callsign a i buf')"
    "length (snd (alias_lookup_callsign a i buf)) = 10"
    using assms by (auto simp: alias_lookup_callsign_def Let_def split: option.splits if_splits)
qed

lemma lookups_buffer:
  "length buf = 10 \<Longrightarrow> length buf' = 10 \<Longrightarrow> fst (try_lookups a ids buf) = fst (try_lookups a ids buf') \<and>
    (fst (try_lookups a ids buf) \<longrightarrow> snd (try_lookups a ids buf) = snd (try_lookups a ids buf')) \<and>
    length (snd (try_lookups a ids buf)) = 10"
proof (induction ids arbitrary: buf buf')
  case (Cons i ids)
  note l = lookup_buffer [OF Cons.prems, of a i] lookup_buffer(3) [OF Cons.prems(2,1), of a i]
  show ?case using Cons.IH [OF l(3,4)] l by (simp add: split_def Let_def)
qed simp

lemma length_callsign10 [simp]: "length (format_id_callsign10 i) = 10" "length (format_tg_dst10 i) = 10" "length blank10 = 10"
  by (simp_all add: format_id_callsign10_def format_tg_dst10_def blank10_def)

lemma lookup_names:
  assumes "length buf = 10" "length buf' = 10"
  shows "fst (bridge_lookup_dmr_callsign rf buf b) = fst (bridge_lookup_dmr_callsign rf buf' b)"
    "fst (bridge_lookup_dmr_callsign rf buf b) \<Longrightarrow>
      snd (bridge_lookup_dmr_callsign rf buf b) = snd (bridge_lookup_dmr_callsign rf buf' b)"
    "length (snd (bridge_lookup_dmr_callsign rf buf b)) = 10"
  using lookups_buffer [OF assms] assms by (auto simp: bridge_lookup_dmr_callsign_def split: option.splits)

lemma length_talker_name [simp]: "length (talker_name b rf) = 10"
  using lookup_names(3) [of blank10 blank10 rf b] by (simp add: talker_name_def split_def Let_def)

lemma identity_set:
  assumes "length (b_net_src b) = 10" "0 < dst"
  shows "bridge_resolve_dmr_to_ysf_identity rf dst b = b\<lparr>b_net_src := talker_name b rf, b_net_dst := format_tg_dst10 dst\<rparr>"
  using lookup_names [OF assms(1) length_callsign10(3), of rf b] assms(2)
  by (simp add: bridge_resolve_dmr_to_ysf_identity_def talker_name_def split_def Let_def)

section \<open>Packets\<close>

lemma bytes_of_id:
  assumes "0 \<le> i" "i < 2 ^ 24"
  shows "be24 (int_bytes3 i) 0 = i"
proof -
  let ?x = "word_of_int i :: u32"
  have ff: "(0xFF :: u32) = mask 8" by (simp add: mask_eq_exp_minus_1)
  have "push_bit 16 (ucast (ucast (drop_bit 16 ?x AND 0xFF) :: u8) :: u32) OR push_bit 8 (ucast (ucast (drop_bit 8 ?x AND 0xFF) :: u8)) OR
      ucast (ucast (drop_bit 0 ?x AND 0xFF) :: u8) = take_bit 24 ?x"
    (is "?l = _")
  proof (rule bit_word_eqI)
    fix n assume "n < LENGTH(32)"
    then have "n < 8 \<or> (8 \<le> n \<and> n < 16) \<or> (16 \<le> n \<and> n < 24) \<or> (24 \<le> n \<and> n < 32)" by simp arith
    then show "bit ?l n = bit (take_bit 24 ?x) n"
      unfolding ff
      by (elim disjE; simp only: bit_or_iff bit_and_iff bit_push_bit_iff bit_drop_bit_eq bit_ucast_iff bit_mask_iff bit_take_bit_iff o_apply; simp add: less_diff_conv2 conj_ac; arith?)
  qed
  moreover have "uint (take_bit 24 ?x) = i"
    using assms by (simp only: unsigned_take_bit_eq uint_word_of_int) (simp add: take_bit_eq_mod)
  ultimately show ?thesis by (simp add: be24_def int_bytes3_def Let_def)
qed

lemma le_word_bytes: "le_word (le_bytes x @ rest) = x"
proof (rule bit_word_eqI)
  fix n assume "n < LENGTH(32)"
  then have "n < 8 \<or> (8 \<le> n \<and> n < 16) \<or> (16 \<le> n \<and> n < 24) \<or> (24 \<le> n \<and> n < 32)" by simp arith
  then show "bit (le_word (le_bytes x @ rest)) n = bit x n"
    unfolding le_word_def le_bytes_def
    by (elim disjE; simp add: bit_or_iff bit_push_bit_iff bit_drop_bit_eq bit_ucast_iff less_diff_conv2; arith?)
qed

text \<open>
  A packet of a call on a DMR network, whoever sent it: 55 bytes that start with DMRD, the ids of talker
  and group, the kind of burst (the bits below the slot bit), and the number of the stream. The sequence
  number, the id of the repeater, the slot, the two bytes at the end and the burst itself are free, but for the
  raw frames of a voice burst: the payload of headers and terminators, the sync and the embedded
  signalling may be anything.
\<close>

definition dmr_packet :: "dmr_call \<Rightarrow> burst \<Rightarrow> bytes \<Rightarrow> bool" where
  "dmr_packet c x p \<longleftrightarrow> length p = 55 \<and> take 4 p = ascii ''DMRD'' \<and>
     sub_buf p 5 6 = dmr_id_to_bytes3 (cl_rf c) @ int_bytes3 (cl_tg c) \<and>
     p ! 15 AND 0x7F = burst_b15 x AND 0x7F \<and> sub_buf p 16 4 = le_bytes (cl_stream c)"

definition dmr_frame :: "dmr_call \<Rightarrow> burst \<Rightarrow> bytes \<Rightarrow> bool" where
  "dmr_frame c x p \<longleftrightarrow> dmr_packet c x p \<and> (case x of Voice k fs \<Rightarrow> dmr33ToAMBE (sub_buf p 20 33) = fs | _ \<Rightarrow> True)"

lemma frame_packet: "dmr_frame c x p \<Longrightarrow> dmr_packet c x p"
  by (simp add: dmr_frame_def)

text \<open>The packets that the bridge itself sends are such packets.\<close>

lemma burst_packet_parts:
  assumes "length p = 33" "length junk = 2"
  shows "dmr_packet c x (burst_packet c s x p junk)" "sub_buf (burst_packet c s x p junk) 20 33 = p"
    "burst_packet c s x p junk ! 15 = burst_b15 x"
  using assms
  by (simp_all add: dmr_packet_def burst_packet_def dmr_id_to_bytes3_def int_bytes3_def Let_def be_bytes_def le_bytes_def sub_buf_def)

lemma sent_bursts_ok:
  "stream_ok c s xs ps \<Longrightarrow> list_all2 (dmr_frame c) xs ps"
proof (induction xs arbitrary: s ps)
  case (Cons x xs)
  then obtain p junk rest where r: "ps = burst_packet c s x p junk # rest" "length p = 33" "length junk = 2"
    "burst_carries c x p" "stream_ok c (s + 1) xs rest" by auto
  have "dmr_frame c x (burst_packet c s x p junk)"
    using burst_packet_parts [OF r(2,3)] r(4) by (cases x) (simp_all add: dmr_frame_def burst_carries_def)
  then show ?case using Cons.IH [OF r(5)] r(1) by simp
qed simp

lemma packet_fields:
  assumes "dmr_packet c x p"
  shows "is_dmrd p" "pkt_stream p = cl_stream c"
    "be24 p 5 = be24 (dmr_id_to_bytes3 (cl_rf c)) 0" "be24 p 8 = be24 (int_bytes3 (cl_tg c)) 0"
proof -
  have l: "length p = 55" "take 4 p = ascii ''DMRD''" and ids: "sub_buf p 5 6 = dmr_id_to_bytes3 (cl_rf c) @ int_bytes3 (cl_tg c)"
    and st: "sub_buf p 16 4 = le_bytes (cl_stream c)" using assms by (simp_all add: dmr_packet_def)
  show "is_dmrd p" using l by (simp add: is_dmrd_def)
  have n: "p ! (5 + k) = (dmr_id_to_bytes3 (cl_rf c) @ int_bytes3 (cl_tg c)) ! k" if "k < 6" for k
    using that l(1) unfolding ids [symmetric] by (simp add: sub_buf_def)
  show "be24 p 5 = be24 (dmr_id_to_bytes3 (cl_rf c)) 0" "be24 p 8 = be24 (int_bytes3 (cl_tg c)) 0"
    using n [of 0] n [of 1] n [of 2] n [of 3] n [of 4] n [of 5]
    by (simp_all add: be24_def dmr_id_to_bytes3_def int_bytes3_def Let_def)
  have "drop 16 p = le_bytes (cl_stream c) @ drop 20 p"
    unfolding st [symmetric] sub_buf_def using append_take_drop_id [of 4 "drop 16 p"] by simp
  then show "pkt_stream p = cl_stream c" by (simp add: pkt_stream_def le_word_bytes)
qed

section \<open>Packets of a call\<close>

definition call_ok :: "dmr_call \<Rightarrow> bool" where
  "call_ok c \<longleftrightarrow> 0 < dmr_id_rf24 (cl_rf c) \<and> dmr_id_rf24 (cl_rf c) < 2 ^ 24 \<and> 0 < cl_tg c \<and> cl_tg c < 2 ^ 24 \<and> cl_stream c \<noteq> 0"

definition dmr_talk :: "bridge \<Rightarrow> dmr_call \<Rightarrow> ysf_talk" where
  "dmr_talk b c = \<lparr>yt_callsign = yp_callsign (b_ysf b), yt_dgid = yp_dgid (b_ysf b),
     yt_src = talker_name b (dmr_id_rf24 (cl_rf c)), yt_dst = format_tg_dst10 (cl_tg c)\<rparr>"

lemma rx_identity:
  assumes "call_ok c" "dmr_packet c x p" "length (b_net_src b) = 10"
  shows "bridge_set_dmr_rx_identity p b =
    b\<lparr>b_net_src := talker_name b (dmr_id_rf24 (cl_rf c)), b_net_dst := format_tg_dst10 (cl_tg c)\<rparr>"
  using assms(1) identity_set [OF assms(3)]
  by (simp add: bridge_set_dmr_rx_identity_def packet_fields [OF assms(2)] call_ok_def dmr_id_to_bytes3_def bytes_of_id)

lemma slot_bit_free:
  fixes a b :: u8
  assumes "a AND 0x7F = b AND 0x7F"
  shows "dmrd_parse_b15 a = dmrd_parse_b15 b" "a AND 0x40 = b AND 0x40"
proof -
  have m: "drop_bit 4 x AND 0x03 = drop_bit 4 (x AND 0x7F) AND 0x03" "x AND 0x0F = (x AND 0x7F) AND 0x0F"
    "x AND 0x40 = (x AND 0x7F) AND 0x40" for x :: u8
    by (simp_all add: drop_bit_and and.assoc)
  show "dmrd_parse_b15 a = dmrd_parse_b15 b" "a AND 0x40 = b AND 0x40"
    using m [of a] m [of b] assms by (simp_all only: dmrd_parse_b15_def)
qed

lemma kinds_of_packets:
  "dmr_packet c Head p \<Longrightarrow> dmrd_is_header p"
  "dmr_packet c Term p \<Longrightarrow> \<not> dmrd_is_header p" "dmr_packet c Term p \<Longrightarrow> dmrd_is_terminator p"
  "dmr_packet c (Voice k fs) p \<Longrightarrow> \<not> dmrd_is_header p" "dmr_packet c (Voice k fs) p \<Longrightarrow> \<not> dmrd_is_terminator p"
  "dmr_packet c (Voice k fs) p \<Longrightarrow> dmrd_is_voice p"
proof -
  have b: "dmrd_parse_b15 (p ! 15) = dmrd_parse_b15 (burst_b15 x)" "p ! 15 AND 0x40 = burst_b15 x AND 0x40" "is_dmrd p"
    if "dmr_packet c x p" for x
    using that slot_bit_free [of "p ! 15" "burst_b15 x"] packet_fields(1) [OF that] by (simp_all add: dmr_packet_def)
  note d = dmrd_is_header_def dmrd_is_terminator_def dmrd_is_voice_def
  show "dmr_packet c Head p \<Longrightarrow> dmrd_is_header p"
    using b [of Head] by (simp add: d dmrd_parse_b15_def burst_b15_def)
  show "dmr_packet c Term p \<Longrightarrow> \<not> dmrd_is_header p" "dmr_packet c Term p \<Longrightarrow> dmrd_is_terminator p"
    using b [of Term] by (simp_all add: d dmrd_parse_b15_def burst_b15_def)
  have "k mod 6 < 6" by simp
  then consider "k mod 6 = 0" | "k mod 6 = 1" | "k mod 6 = 2" | "k mod 6 = 3" | "k mod 6 = 4" | "k mod 6 = 5" by linarith
  then have "burst_b15 (Voice k fs) AND 0x40 = 0 \<and> fst (dmrd_parse_b15 (burst_b15 (Voice k fs))) \<le> 1 \<and>
      fst (dmrd_parse_b15 (burst_b15 (Voice k fs))) \<noteq> 2"
    by cases (simp_all add: burst_b15_def dmrd_parse_b15_def)
  then show "dmr_packet c (Voice k fs) p \<Longrightarrow> \<not> dmrd_is_header p" "dmr_packet c (Voice k fs) p \<Longrightarrow> \<not> dmrd_is_terminator p"
    "dmr_packet c (Voice k fs) p \<Longrightarrow> dmrd_is_voice p"
    using b [of "Voice k fs"] by (auto simp: d)
qed

text \<open>The part of a call that has been sent.\<close>

definition ysf_sends :: "ysf_item list \<Rightarrow> bridge \<Rightarrow> bridge \<Rightarrow> bool" where
  "ysf_sends xs b b' \<longleftrightarrow> (\<exists>fs. b_sent b' = b_sent b @ List.map (\<lambda>f. To_ysf (SendTo f)) fs \<and> ysf_stream_ok (talk_of b) (b_ysf_cnt b) xs fs) \<and>
     b_ysf_cnt b' = fold next_cnt xs (b_ysf_cnt b) \<and> talk_of b' = talk_of b"

lemma ysf_stream_append:
  "ysf_stream_ok t cnt xs fs \<Longrightarrow> ysf_stream_ok t (fold next_cnt xs cnt) ys gs \<Longrightarrow> ysf_stream_ok t cnt (xs @ ys) (fs @ gs)"
  by (induction xs arbitrary: cnt fs) auto

lemma ysf_sends_trans:
  assumes "ysf_sends xs b b1" "ysf_sends ys b1 b2"
  shows "ysf_sends (xs @ ys) b b2"
proof -
  obtain fs gs where "b_sent b1 = b_sent b @ List.map (\<lambda>f. To_ysf (SendTo f)) fs" "ysf_stream_ok (talk_of b) (b_ysf_cnt b) xs fs"
    "b_sent b2 = b_sent b1 @ List.map (\<lambda>f. To_ysf (SendTo f)) gs" "ysf_stream_ok (talk_of b) (fold next_cnt xs (b_ysf_cnt b)) ys gs"
    using assms unfolding ysf_sends_def by (elim conjE exE) simp
  then have s: "b_sent b2 = b_sent b @ List.map (\<lambda>f. To_ysf (SendTo f)) (fs @ gs)" "ysf_stream_ok (talk_of b) (b_ysf_cnt b) (xs @ ys) (fs @ gs)"
    using ysf_stream_append by simp_all
  show ?thesis using assms unfolding ysf_sends_def by (intro conjI exI [of _ "fs @ gs"] s) simp_all
qed

text \<open>What is sent so far of a call whose raw frames vs have arrived, n of its voice frames.\<close>

definition sent_items :: "bool \<Rightarrow> nat \<Rightarrow> bytes list \<Rightarrow> ysf_item list" where
  "sent_items started n vs = (if started then Y_head # voice_frames (take (5 * n) vs) else [])"

text \<open>
  A call from DMR under way: the raw frames vs have arrived, the header is sent when \<open>started\<close>, and n voice
  frames are; the rest is queued.
\<close>

definition out_call :: "bridge \<Rightarrow> dmr_call \<Rightarrow> bytes list \<Rightarrow> bool \<Rightarrow> nat \<Rightarrow> bridge \<Rightarrow> bool" where
  "out_call b0 c vs started n b \<longleftrightarrow> ysf_sends (sent_items started n vs) b0 b \<and> ysf_tx_ok b \<and> talk_of b = dmr_talk b c \<and>
     b_call_active b \<and> b_stream_id b = cl_stream c \<and> 5 * n \<le> length vs \<and> (\<not> started \<longrightarrow> n = 0) \<and> (\<forall>v\<in>set vs. length v = 7) \<and>
     conv_holds (b_conv b) ((if started then [] else [(TAG_HEADER, replicate 13 0)]) @ List.map ysf_record (drop (5 * n) vs)) []"

lemma out_call_kept:
  assumes "out_call b0 c vs started n b" "b' = b\<lparr>b_net_src := b_net_src b, b_dmr_last_dtype := l, b_dmr_voice_frames := m, b_conv := s\<rparr>"
    and "sent_items started n vs' = sent_items started n vs" "5 * n \<le> length vs'" "\<forall>v\<in>set vs'. length v = 7"
    and "conv_holds s ((if started then [] else [(TAG_HEADER, replicate 13 0)]) @ List.map ysf_record (drop (5 * n) vs')) []"
  shows "out_call b0 c vs' started n b'"
proof -
  have "talk_of b' = talk_of b" "dmr_talk b' c = dmr_talk b c" "ysf_tx_ok b' = ysf_tx_ok b" "b_sent b' = b_sent b" "b_ysf_cnt b' = b_ysf_cnt b"
    by (simp_all add: assms(2) talk_of_def dmr_talk_def talker_name_def bridge_lookup_dmr_callsign_def ysf_tx_ok_def)
  note same = this
  have kept: "ysf_sends xs b0 b' = ysf_sends xs b0 b" for xs by (simp only: ysf_sends_def same)
  have "b_call_active b' = b_call_active b" "b_stream_id b' = b_stream_id b" "b_conv b' = s" by (simp_all add: assms(2))
  then show ?thesis using assms(1,4-6) unfolding out_call_def assms(3) kept same by simp
qed

lemma begin_call:
  assumes "ysf_tx_ok b" "call_ok c" "dmr_packet c x p"
  shows "bridge_begin_dmr_to_ysf e p b = b\<lparr>b_call_active := True, b_stream_id := cl_stream c, b_seq := 0,
    b_dmr_voice_frames := 0, b_dmr_tx_frames := 0, b_dmr_dmrd_other := 0, b_ysf_fn := 0, b_ysf_cnt := 0, b_conv := CModeConv,
    b_net_src := talker_name b (dmr_id_rf24 (cl_rf c)), b_net_dst := format_tg_dst10 (cl_tg c)\<rparr>"
proof -
  have src: "length (b_net_src b) = 10" using assms(1) by (simp add: ysf_tx_ok_def)
  have name: "talker_name (b\<lparr>b_call_active := a, b_stream_id := i, b_seq := q, b_dmr_voice_frames := v, b_dmr_tx_frames := w, b_dmr_dmrd_other := x,
      b_ysf_fn := y, b_ysf_cnt := z, b_conv := m\<rparr>) rf = talker_name b rf" for a i q v w x y z m rf
    by (simp add: talker_name_def bridge_lookup_dmr_callsign_def)
  have nz: "cl_stream c \<noteq> 0" using assms(2) by (simp add: call_ok_def)
  show ?thesis
    using nz src by (simp add: bridge_begin_dmr_to_ysf_def packet_fields [OF assms(3)] modeconv_reset_def rx_identity [OF assms(2,3)] name)
qed

lemma first_head:
  assumes "ysf_tx_ok b" "\<not> b_call_active b" "b_dmr_last_dtype b \<noteq> DMRD_DTYPE_VHEAD" "call_ok c" "dmr_packet c Head p"
  obtains b0 where "bridge_on_dmrd e p b = b0" "out_call b0 c [] False 0 b0" "b_dmr_last_dtype b0 = DMRD_DTYPE_VHEAD"
    "b_sent b0 = b_sent b" "b_ysf_cnt b0 = 0" "talk_of b0 = dmr_talk b c"
proof -
  note f = packet_fields [OF assms(5)] kinds_of_packets(1) [OF assms(5)]
  let ?b0 = "b\<lparr>b_call_active := True, b_stream_id := cl_stream c, b_seq := 0, b_dmr_voice_frames := 0, b_dmr_tx_frames := 0, b_dmr_dmrd_other := 0,
      b_ysf_fn := 0, b_ysf_cnt := 0, b_conv := putDMRHeader CModeConv, b_net_src := talker_name b (dmr_id_rf24 (cl_rf c)),
      b_net_dst := format_tg_dst10 (cl_tg c), b_dmr_last_dtype := DMRD_DTYPE_VHEAD\<rparr>"
  note start = begin_call [OF assms(1,4,5), of e]
  have run: "bridge_on_dmrd e p b = ?b0"
    using assms(2,3) by (simp add: bridge_on_dmrd_def f start modeconv_put_dmr_header_def)
  have c: "conv_holds (putDMRHeader CModeConv) [(TAG_HEADER, replicate 13 0)] []"
    using put_ysf_holds [OF conv_holds_new, of "replicate 13 0" TAG_HEADER] by (simp add: putDMRHeader_def)
  have t: "talk_of ?b0 = dmr_talk b c" "dmr_talk ?b0 c = dmr_talk b c"
    by (simp_all add: talk_of_def dmr_talk_def talker_name_def bridge_lookup_dmr_callsign_def)
  have "ysf_tx_ok ?b0" using assms(1) by (simp add: ysf_tx_ok_def)
  then have "out_call ?b0 c [] False 0 ?b0" using c t by (simp add: out_call_def ysf_sends_def sent_items_def)
  then show ?thesis by (rule that [OF run]) (use t(1) in simp_all)
qed

lemma further_head:
  assumes "out_call b0 c vs started n b" "b_dmr_last_dtype b = DMRD_DTYPE_VHEAD" "call_ok c" "dmr_packet c Head p"
  shows "bridge_on_dmrd e p b = b"
proof -
  note f = packet_fields [OF assms(4)] kinds_of_packets(1) [OF assms(4)]
  have b: "b_call_active b" "b_stream_id b = cl_stream c" "talk_of b = dmr_talk b c" "length (b_net_src b) = 10"
    using assms(1) by (simp_all add: out_call_def ysf_tx_ok_def)
  have "b_net_src b = talker_name b (dmr_id_rf24 (cl_rf c))" "b_net_dst b = format_tg_dst10 (cl_tg c)"
    using b(3) by (simp_all add: talk_of_def dmr_talk_def)
  then have "bridge_set_dmr_rx_identity p b = b"
    unfolding rx_identity [OF assms(3,4) b(4)] by (cases b) simp
  then show ?thesis using assms(2) b(1,2) by (cases b) (simp add: bridge_on_dmrd_def f)
qed

lemma voice_arrives:
  assumes "out_call b0 c vs started n b" "dmr_frame c (Voice k fs) p" "length vs \<le> 340"
  shows "out_call b0 c (vs @ fs) started n (bridge_on_dmrd e p b)"
proof -
  let ?p = "take 33 (drop 20 p)" and ?q = "if started then [] else [(TAG_HEADER, replicate 13 0)]"
  have P: "dmr_packet c (Voice k fs) p" and a: "dmr33ToAMBE ?p = fs" using assms(2) by (simp_all add: dmr_frame_def sub_buf_def)
  note f = packet_fields [OF P] kinds_of_packets(4-6) [OF P]
  have b: "b_call_active b" "5 * n \<le> length vs" "\<forall>v\<in>set vs. length v = 7"
    "conv_holds (b_conv b) (?q @ List.map ysf_record (drop (5 * n) vs)) []" using assms(1) by (simp_all add: out_call_def)
  have fs: "\<forall>v\<in>set fs. length v = 7" "length fs = 3" using putDMR_frames(2,3) [of ?p] a by simp_all
  have run: "bridge_on_dmrd e p b = b\<lparr>b_net_src := b_net_src b, b_dmr_last_dtype := dmrd_b15_dtype p, b_dmr_voice_frames := b_dmr_voice_frames b + 1,
      b_conv := putDMR ?p (b_conv b)\<rparr>"
    using b(1) by (simp add: bridge_on_dmrd_def f modeconv_put_dmr_voice_def)
  have "conv_holds (putDMR ?p (b_conv b)) ((?q @ List.map ysf_record (drop (5 * n) vs)) @ List.map ysf_record fs) []"
    unfolding putDMR_records a using b(4) fs assms(3) by (intro put_ysf_holds_all) (auto simp: split_def)
  then have c: "conv_holds (putDMR ?p (b_conv b)) (?q @ List.map ysf_record (drop (5 * n) (vs @ fs))) []" using b(2) by simp
  show ?thesis
    by (rule out_call_kept [OF assms(1) run _ _ _ c]) (use b(2,3) fs(1) in \<open>auto simp: sent_items_def\<close>)
qed

lemma term_arrives:
  assumes "out_call b0 c vs started n b" "dmr_packet c Term p"
  shows "bridge_on_dmrd e p b = b\<lparr>b_conv := putDMREOT (b_conv b), b_dmr_last_dtype := DMRD_DTYPE_VTERM\<rparr>"
  using assms(1) kinds_of_packets(2,3) [OF assms(2)] packet_fields(1) [OF assms(2)]
  by (simp add: bridge_on_dmrd_def modeconv_put_dmr_eot_def out_call_def)

section \<open>Polls\<close>

lemma emit_ysf_wait:
  assumes "conv_holds (b_conv b) (List.map ysf_record vs) df" "length vs < 5"
  shows "\<exists>s. bridge_emit_ysf_from_conv e b = Some (False, b\<lparr>b_conv := s\<rparr>) \<and> conv_holds s (List.map ysf_record vs) df"
proof -
  have tag: "ysf_record v = (TAG_DATA, snd (ysf_record v))" for v by (simp add: ysf_record_def split_def Let_def)
  have "read_ysf (replicate 120 0) (List.map ysf_record vs) = (TAG_NODATA, replicate 120 0, List.map ysf_record vs)"
    using assms(2) tag by (cases vs) (auto simp: read_ysf_def split: prod.splits, metis prod.inject)
  from getYSF_reads [OF assms(1) _ this] obtain s where
    "getYSF (replicate 120 0) (b_conv b) = (TAG_NODATA, replicate 120 0, s)" "conv_holds s (List.map ysf_record vs) df" by auto
  then show ?thesis by (intro exI [of _ s]) (simp add: bridge_emit_ysf_from_conv_def modeconv_get_ysf_def)
qed

lemma voice_frames_append: "length xs = 5 * k \<Longrightarrow> voice_frames (xs @ ys) = voice_frames xs @ voice_frames ys"
proof (induction k arbitrary: xs)
  case (Suc k)
  then obtain v1 v2 v3 v4 v5 us where xs: "xs = v1 # v2 # v3 # v4 # v5 # us" by (cases rule: five_frames [OF Suc.prems]) auto
  then show ?case using Suc.IH [of us] Suc.prems by simp
qed simp

lemma call_state_talk: "call_state b' = call_state b \<Longrightarrow> talk_of b' = talk_of b \<Longrightarrow> dmr_talk b' c = dmr_talk b c"
  by (simp add: call_state_def talk_of_def dmr_talk_def talker_name_def bridge_lookup_dmr_callsign_def)

lemma poll_out:
  assumes "out_call b0 c vs started n b" "ysf_env_ok e"
  shows "\<exists>b' n'. emit_ysf e b = Some b' \<and> out_call b0 c vs True n' b' \<and> b_dmr_last_dtype b' = b_dmr_last_dtype b"
proof -
  have b: "ysf_sends (sent_items started n vs) b0 b" "ysf_tx_ok b" "talk_of b = dmr_talk b c" "b_call_active b" "b_stream_id b = cl_stream c"
    "5 * n \<le> length vs" "\<not> started \<longrightarrow> n = 0" "\<forall>v\<in>set vs. length v = 7"
    "conv_holds (b_conv b) ((if started then [] else [(TAG_HEADER, replicate 13 0)]) @ List.map ysf_record (drop (5 * n) vs)) []"
    using assms(1) by (simp_all add: out_call_def)
  consider "\<not> started" | "started" "5 * Suc n \<le> length vs" | "started" "length (drop (5 * n) vs) < 5" by fastforce
  then show ?thesis
  proof cases
    case 1
    have c: "conv_holds (b_conv b) ((TAG_HEADER, replicate 13 0) # List.map ysf_record vs) []" using b(7,9) 1 by simp
    obtain b1 f where b1: "bridge_emit_ysf_from_conv e b = Some (True, b1)" "b_sent b1 = b_sent b @ [To_ysf (SendTo f)]"
      "frame_carries (talk_of b) (b_ysf_cnt b) Y_head f" "b_ysf_cnt b1 = 1" "talk_of b1 = talk_of b" "ysf_tx_ok b1"
      "conv_holds (b_conv b1) (List.map ysf_record vs) []" "call_state b1 = call_state b"
      by (rule emit_ysf_header [OF b(2) assms(2) c])
    have "ysf_sends [Y_head] b b1" using b1(2-5) unfolding ysf_sends_def by (intro conjI exI [of _ "[f]"]) (simp_all add: next_cnt_def)
    then have "ysf_sends (sent_items True 0 vs) b0 b1" using ysf_sends_trans [OF b(1)] 1 by (simp add: sent_items_def)
    then have "out_call b0 c vs True 0 b1"
      using b b1(5-8) call_state_talk [OF b1(8,5), of c] by (simp add: out_call_def call_state_def)
    then show ?thesis using b1(1,8) by (intro exI [of _ b1] exI [of _ 0]) (simp add: call_state_def)
  next
    case 2
    let ?us = "take 5 (drop (5 * n) vs)"
    have u: "length ?us = 5" "\<forall>v\<in>set ?us. length v = 7" using 2(2) b(8) by (auto dest: in_set_takeD in_set_dropD)
    have d: "drop (5 * n) vs = ?us @ drop (5 * Suc n) vs" using append_take_drop_id [of 5 "drop (5 * n) vs"] by (simp add: add.commute)
    have c: "conv_holds (b_conv b) (List.map ysf_record ?us @ List.map ysf_record (drop (5 * Suc n) vs)) []"
      using b(9) 2(1) unfolding map_append [symmetric] d [symmetric] by simp
    obtain b1 f where b1: "bridge_emit_ysf_from_conv e b = Some (True, b1)" "b_sent b1 = b_sent b @ [To_ysf (SendTo f)]"
      "frame_carries (talk_of b) (b_ysf_cnt b) (Y_voice ?us) f" "b_ysf_cnt b1 = b_ysf_cnt b + 1" "talk_of b1 = talk_of b" "ysf_tx_ok b1"
      "conv_holds (b_conv b1) (List.map ysf_record (drop (5 * Suc n) vs)) []" "call_state b1 = call_state b"
      by (rule emit_ysf_voice [OF b(2) assms(2) c u])
    have s: "ysf_sends [Y_voice ?us] b b1" using b1(2-5) unfolding ysf_sends_def by (intro conjI exI [of _ "[f]"]) (simp_all add: next_cnt_def)
    have t: "take (5 * Suc n) vs = take (5 * n) vs @ ?us" by (simp only: mult_Suc_right add.commute [of 5] take_add)
    have "voice_frames ?us = [Y_voice ?us]" by (cases rule: five_frames [of ?us 1]) (use u(1) in auto)
    then have "sent_items True (Suc n) vs = sent_items started n vs @ [Y_voice ?us]"
      using 2 unfolding sent_items_def t by (subst voice_frames_append [of _ n]) auto
    then have "ysf_sends (sent_items True (Suc n) vs) b0 b1" using ysf_sends_trans [OF b(1) s] by simp
    then have "out_call b0 c vs True (Suc n) b1"
      using b 2 b1(5-8) call_state_talk [OF b1(8,5), of c] by (simp add: out_call_def call_state_def)
    then show ?thesis using b1(1,8) by (intro exI [of _ b1] exI [of _ "Suc n"]) (simp add: call_state_def)
  next
    case 3
    have c: "conv_holds (b_conv b) (List.map ysf_record (drop (5 * n) vs)) []" using b(9) 3(1) by simp
    obtain s where s: "bridge_emit_ysf_from_conv e b = Some (False, b\<lparr>b_conv := s\<rparr>)" "conv_holds s (List.map ysf_record (drop (5 * n) vs)) []"
      using emit_ysf_wait [OF c 3(2)] by blast
    have e: "b\<lparr>b_conv := s\<rparr> = b\<lparr>b_net_src := b_net_src b, b_dmr_last_dtype := b_dmr_last_dtype b, b_dmr_voice_frames := b_dmr_voice_frames b, b_conv := s\<rparr>"
      by simp
    have "out_call b0 c vs started n (b\<lparr>b_conv := s\<rparr>)"
      by (rule out_call_kept [OF assms(1) e refl b(6,8)]) (use s(2) 3(1) in simp)
    then show ?thesis using s(1) 3(1) by (intro exI [of _ "b\<lparr>b_conv := s\<rparr>"] exI [of _ n]) simp
  qed
qed

section \<open>Any order of arrivals and polls\<close>

abbreviation play_back :: "rx_act list \<Rightarrow> bridge \<Rightarrow> bridge option" where
  "play_back \<equiv> play (\<lambda>e p b. Some (bridge_on_dmrd e p b)) emit_ysf"

text \<open>A voice stream has three raw frames per burst.\<close>

lemma three_frames:
  assumes "length vs = 3 * k"
  obtains "vs = []" | v1 v2 v3 us where "vs = v1 # v2 # v3 # us"
proof (cases k)
  case 0
  then show ?thesis using assms that(1) by simp
next
  case (Suc m)
  then have "3 \<le> length vs" using assms by simp
  then show ?thesis using that(2) by (auto simp: Suc_le_length_iff numeral_eq_Suc)
qed

lemma play_out:
  assumes "out_call b0 c vs started n b" "list_all2 (dmr_frame c) (replicate h Head @ voice_bursts i us) (frames_of as)" "length us = 3 * k"
    and "0 < h \<longrightarrow> b_dmr_last_dtype b = DMRD_DTYPE_VHEAD" "call_ok c" "length vs + length us \<le> 340"
    and "\<forall>e. Poll e \<in> set as \<longrightarrow> ysf_env_ok e"
  shows "\<exists>b' n'. play_back as b = Some b' \<and> out_call b0 c (vs @ us) (started \<or> (\<exists>e. Poll e \<in> set as)) n' b'"
  using assms
proof (induction as arbitrary: b vs started n h i us k)
  case Nil
  have "voice_bursts i us = []" using Nil.prems(2) by simp
  then have "us = []" by (cases rule: three_frames [OF Nil.prems(3)]) auto
  then show ?case using Nil.prems(1) by auto
next
  case (Cons a as)
  show ?case
  proof (cases a)
    case (Poll e)
    have e: "ysf_env_ok e" using Cons.prems(7) by (simp add: Poll)
    obtain b1 n1 where b1: "emit_ysf e b = Some b1" "out_call b0 c vs True n1 b1" "b_dmr_last_dtype b1 = b_dmr_last_dtype b"
      using poll_out [OF Cons.prems(1) e] by blast
    have "\<exists>b' n'. play_back as b1 = Some b' \<and> out_call b0 c (vs @ us) (True \<or> (\<exists>e. Poll e \<in> set as)) n' b'"
      by (rule Cons.IH [OF b1(2) _ Cons.prems(3) _ Cons.prems(5,6)]) (use Cons.prems(2,4,7) b1(3) in \<open>auto simp: Poll\<close>)
    moreover have "(started \<or> (\<exists>e'. Poll e' \<in> set (Poll e # as))) = True" by auto
    ultimately show ?thesis by (simp only: Poll play.simps b1(1) bind.bind_lunit simp_thms)
  next
    case (Frame e f)
    have env: "\<forall>e. Poll e \<in> set as \<longrightarrow> ysf_env_ok e" using Cons.prems(7) by simp
    show ?thesis
    proof (cases h)
      case (Suc m)
      have f: "dmr_packet c Head f" "list_all2 (dmr_frame c) (replicate m Head @ voice_bursts i us) (frames_of as)"
        using Cons.prems(2) by (auto simp: Frame Suc intro: frame_packet)
      have l: "b_dmr_last_dtype b = DMRD_DTYPE_VHEAD" using Cons.prems(4) Suc by simp
      have "bridge_on_dmrd e f b = b" by (rule further_head [OF Cons.prems(1) l Cons.prems(5) f(1)])
      moreover have "\<exists>b' n'. play_back as b = Some b' \<and> out_call b0 c (vs @ us) (started \<or> (\<exists>e. Poll e \<in> set as)) n' b'"
        by (rule Cons.IH [OF Cons.prems(1) f(2) Cons.prems(3) _ Cons.prems(5,6) env]) (use l in simp)
      ultimately show ?thesis by (simp add: Frame)
    next
      case 0
      have "us \<noteq> []" using Cons.prems(2) by (auto simp: Frame 0)
      then obtain v1 v2 v3 ws where us: "us = v1 # v2 # v3 # ws" by (cases rule: three_frames [OF Cons.prems(3)]) auto
      have f: "dmr_frame c (Voice i [v1, v2, v3]) f" "list_all2 (dmr_frame c) (voice_bursts (Suc i) ws) (frames_of as)"
        using Cons.prems(2) by (simp_all add: Frame 0 us)
      have r: "length vs \<le> 340" using Cons.prems(6) by simp
      have b1: "out_call b0 c (vs @ [v1, v2, v3]) started n (bridge_on_dmrd e f b)"
        by (rule voice_arrives [OF Cons.prems(1) f(1) r])
      have ws: "list_all2 (dmr_frame c) (replicate 0 Head @ voice_bursts (Suc i) ws) (frames_of as)" "length ws = 3 * (k - 1)"
        "0 < (0 :: nat) \<longrightarrow> b_dmr_last_dtype (bridge_on_dmrd e f b) = DMRD_DTYPE_VHEAD" "length (vs @ [v1, v2, v3]) + length ws \<le> 340"
        using f(2) Cons.prems(3,6) by (simp_all add: us)
      have "\<exists>b' n'. play_back as (bridge_on_dmrd e f b) = Some b' \<and>
          out_call b0 c ((vs @ [v1, v2, v3]) @ ws) (started \<or> (\<exists>e. Poll e \<in> set as)) n' b'"
        by (rule Cons.IH [OF b1 ws(1-3) Cons.prems(5) ws(4) env])
      then show ?thesis by (simp add: Frame us)
    qed
  qed
qed

section \<open>The end of the call\<close>

text \<open>Raw frames with silence after them, at least one frame, up to a full voice frame of five.\<close>

definition filled :: "bytes list \<Rightarrow> bytes list" where
  "filled vs = vs @ replicate (5 - length vs mod 5) silence_frame"

lemma run_ysf_idle:
  assumes "b_conv b = CModeConv"
  shows "run emit_ysf es b = Some b"
proof -
  have "getYSF (replicate 120 0) CModeConv = (TAG_NODATA, replicate 120 0, CModeConv)" by (simp add: getYSF_def CModeConv_def)
  moreover have "b\<lparr>b_conv := CModeConv\<rparr> = b" using assms by (cases b) simp
  ultimately have "emit_ysf e b = Some b" for e using assms by (simp add: bridge_emit_ysf_from_conv_def modeconv_get_ysf_def)
  then show ?thesis by (induction es) (simp_all only: run.simps bind.bind_lunit)
qed

lemma finish_out:
  assumes "out_call b0 c vs True n b" "dmr_packet c Term p" "length vs \<le> 340"
    and "\<forall>e\<in>set es. ysf_env_ok e" "length vs div 5 + 2 \<le> length es"
  obtains b1 fs where "play_back (Frame e p # List.map Poll es) b = Some (bridge_reset_call b1)"
    "b_sent b1 = b_sent b0 @ List.map (\<lambda>f. To_ysf (SendTo f)) fs"
    "ysf_stream_ok (talk_of b0) (b_ysf_cnt b0) (Y_head # voice_frames (filled vs) @ [Y_end]) fs"
proof -
  have b: "ysf_sends (Y_head # voice_frames (take (5 * n) vs)) b0 b" "ysf_tx_ok b" "5 * n \<le> length vs" "\<forall>v\<in>set vs. length v = 7"
    "conv_holds (b_conv b) (List.map ysf_record (drop (5 * n) vs)) []"
    using assms(1) by (simp_all add: out_call_def sent_items_def)
  obtain d where d: "length vs = 5 * n + d" using b(3) le_Suc_ex by blast
  let ?us = "drop (5 * n) vs @ replicate (5 - length vs mod 5) silence_frame" and ?j = "length vs div 5 + 1 - n"
  let ?b = "b\<lparr>b_conv := putDMREOT (b_conv b), b_dmr_last_dtype := DMRD_DTYPE_VTERM\<rparr>"
  note run = term_arrives [OF assms(1,2)]
  have m: "length (List.map ysf_record (drop (5 * n) vs)) mod 5 = length vs mod 5" by (simp add: d)
  have "conv_holds (putDMREOT (b_conv b)) (List.map ysf_record (drop (5 * n) vs) @
      (replicate (5 - length vs mod 5) (TAG_DATA, YSF_SILENCE) @ [(TAG_EOT, replicate 13 0)])) []"
    unfolding putDMREOT_records [OF b(5)] m using b(5) assms(3) by (intro put_ysf_holds_all) auto
  then have c: "conv_holds (b_conv ?b) ((if True then [] else [(TAG_HEADER, replicate 13 0)]) @ List.map ysf_record ?us @ (TAG_EOT, replicate 13 0) # []) []"
    by (simp add: silence_ysf)
  have len: "length ?us = 5 * ?j" using mult_div_mod_eq [of 5 d] mod_less_divisor [of 5 d] by (simp add: d) arith
  have l7: "\<forall>v\<in>set ?us. length v = 7" using b(4) by (auto simp: silence_frame_def dest: in_set_dropD)
  let ?es = "take (Suc ?j) es" and ?es' = "drop (Suc ?j) es"
  have env: "\<forall>e\<in>set ?es. ysf_env_ok e" "length ?es = ?j + (if True then 1 else 2)"
    using assms(4,5) by (auto dest: in_set_takeD)
  have ok: "ysf_tx_ok ?b" using b(2) by (simp add: ysf_tx_ok_def)
  obtain b1 gs where b1: "run emit_ysf ?es ?b = Some (bridge_reset_call b1)" "b_sent b1 = b_sent ?b @ List.map (\<lambda>f. To_ysf (SendTo f)) gs"
    "ysf_stream_ok (talk_of ?b) (b_ysf_cnt ?b) ((if True then [] else [Y_head]) @ voice_frames ?us @ [Y_end]) gs"
    using emit_ysf_queue [OF ok env c len l7] by blast
  have "run emit_ysf (?es @ ?es') ?b = Some (bridge_reset_call b1)"
    unfolding run_append b1(1) bind.bind_lunit by (rule run_ysf_idle) (simp add: bridge_reset_call_def modeconv_reset_def)
  then have r: "play_back (Frame e p # List.map Poll es) b = Some (bridge_reset_call b1)"
    by (simp add: run play_polls)
  obtain fs where fs: "b_sent b = b_sent b0 @ List.map (\<lambda>f. To_ysf (SendTo f)) fs"
    "ysf_stream_ok (talk_of b0) (b_ysf_cnt b0) (Y_head # voice_frames (take (5 * n) vs)) fs"
    "b_ysf_cnt b = fold next_cnt (Y_head # voice_frames (take (5 * n) vs)) (b_ysf_cnt b0)" "talk_of b = talk_of b0"
    using b(1) unfolding ysf_sends_def by blast
  have "talk_of ?b = talk_of b" "b_ysf_cnt ?b = b_ysf_cnt b" by (simp_all add: talk_of_def)
  then have g: "ysf_stream_ok (talk_of b0) (fold next_cnt (Y_head # voice_frames (take (5 * n) vs)) (b_ysf_cnt b0)) (voice_frames ?us @ [Y_end]) gs"
    using b1(3) fs(3,4) by simp
  have "length (take (5 * n) vs) = 5 * n" using b(3) by simp
  from voice_frames_append [OF this, of ?us]
  have "voice_frames (filled vs) = voice_frames (take (5 * n) vs) @ voice_frames ?us" by (simp add: filled_def flip: append_assoc)
  then have "ysf_stream_ok (talk_of b0) (b_ysf_cnt b0) (Y_head # voice_frames (filled vs) @ [Y_end]) (fs @ gs)"
    using ysf_stream_append [OF fs(2) g] by simp
  then show ?thesis by (rule that [OF r, rotated]) (use b1(2) fs(1) in simp)
qed

lemma packets_split:
  "stream_ok c s (xs @ ys) ps \<Longrightarrow> \<exists>p1 p2 s'. ps = p1 @ p2 \<and> stream_ok c s xs p1 \<and> stream_ok c s' ys p2"
proof (induction xs arbitrary: s ps)
  case Nil
  then show ?case by (intro exI [of _ "[]"] exI [of _ ps] exI [of _ s]) simp
next
  case (Cons x xs)
  then obtain p junk rest where r: "ps = burst_packet c s x p junk # rest" "length p = 33" "length junk = 2" "burst_carries c x p"
    "stream_ok c (s + 1) (xs @ ys) rest" by auto
  from Cons.IH [OF r(5)] obtain p1 p2 s' where "rest = p1 @ p2" "stream_ok c (s + 1) xs p1" "stream_ok c s' ys p2" by blast
  then show ?case using r(1-4)
    by (intro exI [of _ "burst_packet c s x p junk # p1"] exI [of _ p2] exI [of _ s'] conjI) (simp, force, simp)
qed

lemma dmr_call_through:
  assumes "ysf_tx_ok b" "\<not> b_call_active b" "b_dmr_last_dtype b \<noteq> DMRD_DTYPE_VHEAD" "call_ok c"
    and "list_all2 (dmr_frame c) (Head # replicate h Head @ voice_bursts i vs @ [Term]) (p0 # frames_of as @ [p1])"
    and "length vs = 3 * k" "length vs \<le> 340" "\<exists>e. Poll e \<in> set as" "\<forall>e. Poll e \<in> set as \<longrightarrow> ysf_env_ok e"
    and "\<forall>e\<in>set es. ysf_env_ok e" "length vs div 5 + 2 \<le> length es"
  shows "\<exists>b' fs. play_back (Frame e0 p0 # as @ Frame e1 p1 # List.map Poll es) b = Some b' \<and>
    b_sent b' = b_sent b @ List.map (\<lambda>f. To_ysf (SendTo f)) fs \<and>
    ysf_stream_ok (dmr_talk b c) 0 (Y_head # voice_frames (filled vs) @ [Y_end]) fs \<and> \<not> b_call_active b' \<and> b_conv b' = CModeConv"
proof -
  have "list_all2 (dmr_frame c) ((replicate h Head @ voice_bursts i vs) @ [Term]) (frames_of as @ [p1])" using assms(5) by simp
  then have fs: "list_all2 (dmr_frame c) (replicate h Head @ voice_bursts i vs) (frames_of as)" and t: "dmr_packet c Term p1"
    unfolding list_all2_snoc by (auto intro: frame_packet)
  have f: "dmr_packet c Head p0" using assms(5) by (simp add: dmr_frame_def)
  obtain b0 where b0: "bridge_on_dmrd e0 p0 b = b0" "out_call b0 c [] False 0 b0" "b_dmr_last_dtype b0 = DMRD_DTYPE_VHEAD"
    "b_sent b0 = b_sent b" "b_ysf_cnt b0 = 0" "talk_of b0 = dmr_talk b c"
    by (rule first_head [OF assms(1-4) f, of e0]) blast
  obtain b1 n where b1: "play_back as b0 = Some b1" "out_call b0 c vs True n b1"
    using play_out [OF b0(2) fs assms(6) _ assms(4) _ assms(9)] b0(3) assms(7,8) by auto
  obtain b2 fs where b2: "play_back (Frame e1 p1 # List.map Poll es) b1 = Some (bridge_reset_call b2)"
    "b_sent b2 = b_sent b0 @ List.map (\<lambda>f. To_ysf (SendTo f)) fs"
    "ysf_stream_ok (talk_of b0) (b_ysf_cnt b0) (Y_head # voice_frames (filled vs) @ [Y_end]) fs"
    by (rule finish_out [OF b1(2) t assms(7,10,11)])
  have "play_back (Frame e0 p0 # as @ Frame e1 p1 # List.map Poll es) b = Some (bridge_reset_call b2)"
    using b0(1) b1(1) b2(1) by (simp add: play_append)
  then show ?thesis using b2(2,3) b0(4-6)
    by (intro exI [of _ "bridge_reset_call b2"] exI [of _ fs]) (simp add: bridge_reset_call_def modeconv_reset_def)
qed

section \<open>Two bridges in a row\<close>

lemma length_padded: "length (padded vs) = 3 * superframed (length vs div 3 + 1)" "length (padded vs) \<le> length vs + 18"
proof -
  have "length vs \<le> 3 * superframed (length vs div 3 + 1)"
    using superframed_multiple(2) [of "length vs div 3 + 1"] mult_div_mod_eq [of 3 "length vs"] mod_less_divisor [of 3 "length vs"] by arith
  then show l: "length (padded vs) = 3 * superframed (length vs div 3 + 1)" by (simp add: padded_def)
  show "length (padded vs) \<le> length vs + 18"
    unfolding l using superframed_multiple(3) [of "length vs div 3 + 1"] mult_div_mod_eq [of 3 "length vs"] by arith
qed

definition ysf_idle_ok :: "bridge \<Rightarrow> bool" where
  "ysf_idle_ok b \<longleftrightarrow> ysf_tx_ok b \<and> \<not> b_call_active b \<and> b_dmr_last_dtype b \<noteq> DMRD_DTYPE_VHEAD"

section \<open>A concrete relay\<close>

definition sample_frames :: "bytes list" where
  "sample_frames = replicate 5 [1, 2, 3, 4, 5, 6, 0x80]"

definition sample_call :: dmr_call where
  "sample_call = \<lparr>cl_tg = 4000, cl_rf = 730555, cl_repeater = 730555, cl_stream = 7\<rparr>"

lemma sample_call_ok: "call_ok sample_call" "ysf_idle_ok sample_bridge"
proof -
  show "call_ok sample_call" by (simp add: call_ok_def sample_call_def dmr_id_rf24_def)
  have "b_dmr_last_dtype sample_bridge = 0" by (simp add: sample_bridge_def bridge_init_def)
  then show "ysf_idle_ok sample_bridge" using sample_ysf_ok(1) sample_ok(7) by (simp add: ysf_idle_ok_def)
qed

lemma sample_talker: "talker_id sample_bridge (c_str (yt_src (talk_of sample_bridge))) = 730555"
proof -
  have b: "b_aliases sample_bridge = None" "dmrid_of sample_bridge = 730555" "b_net_src sample_bridge = blank10"
    by (simp_all add: sample_bridge_def bridge_init_def dmrid_of_def dmr_opened_def peer_dmr_open_def Let_def)
  have "callsign10_to_dmrid (format_ysf_callsign10 (ysf_callsign_base_src (c_str blank10))) \<le> 0" by code_simp
  then show ?thesis by (simp add: talker_id_def bridge_find_ysf_dmrid_def talk_of_def b Let_def)
qed

lemma sample_call_of:
  "sample_call = \<lparr>cl_tg = dp_tg (b_dmr sample_bridge), cl_rf = talker_id sample_bridge (c_str (yt_src (talk_of sample_bridge))),
     cl_repeater = dp_dmrid (b_dmr sample_bridge), cl_stream = e_rand (sample_env 0) (b_rands sample_bridge) OR 1\<rparr>"
proof -
  have "dp_dmrid (b_dmr sample_bridge) = 730555"
    by (simp add: sample_bridge_def bridge_init_def dmr_opened_def peer_dmr_open_def Let_def)
  then show ?thesis using sample_ok(5) by (simp add: sample_call_def sample_talker) (simp add: sample_env_def)
qed

lemma stream_ends:
  assumes "stream_ok c s (x # xs @ [y]) ps"
  obtains p0 mid p1 where "ps = p0 # mid @ [p1]"
proof -
  have "stream_ok c s ((x # xs) @ [y]) ps" using assms by (simp only: append_Cons)
  from packets_split [OF this]
  obtain p1 p2 s' where g: "ps = p1 @ p2" "stream_ok c s (x # xs) p1" "stream_ok c s' [y] p2" by blast
  then show ?thesis using that by auto
qed

lemma frames_of_frames: "frames_of (List.map (Frame e) ps) = ps"
  by (induction ps) simp_all

text \<open>A call that the sample bridge relays to DMR.\<close>

lemma sample_relay:
  "\<exists>f0 f f1 a' p0 mid p1. ysf_stream_ok (talk_of sample_bridge) 0 (Y_head # voice_frames sample_frames @ [Y_end]) (f0 # [f] @ [f1]) \<and>
    play bridge_on_ysfd bridge_emit_dmr_from_conv (Frame (sample_env 0) f0 # [Frame (sample_env 0) f, Poll (sample_env 0)] @
      Frame (sample_env 0) f1 # List.map Poll (replicate 3 (sample_env 0))) sample_bridge = Some a' \<and>
    b_sent a' = b_sent sample_bridge @ List.map To_dmr (p0 # mid @ [p1]) \<and>
    stream_ok sample_call 0 (Head # replicate 2 Head @ voice_bursts 0 (padded sample_frames) @ [Term]) (p0 # mid @ [p1])"
proof -
  let ?t = "talk_of sample_bridge" and ?e = "sample_env 0"
  have l: "length sample_frames = 5 * 1" "length sample_frames \<le> 480" "length sample_frames < 350" "\<forall>v\<in>set sample_frames. length v = 7"
    by (simp_all add: sample_frames_def)
  have v: "voice_frames sample_frames = [Y_voice sample_frames]" by (simp add: sample_frames_def numeral_eq_Suc)
  obtain f0 fs where "ysf_stream_ok ?t 0 (Y_head # voice_frames sample_frames @ [Y_end]) (f0 # fs)"
    using frames_exist [OF l(1,3,4)] by blast
  then obtain f f1 where s: "ysf_stream_ok ?t 0 (Y_head # voice_frames sample_frames @ [Y_end]) (f0 # [f] @ [f1])" by (auto simp: v)
  have s': "list_all2 (ysf_frame (yt_dgid ?t) (yt_src ?t)) (Y_head # voice_frames sample_frames @ [Y_end]) (f0 # frames_of [Frame ?e f, Poll ?e] @ [f1])"
    using talk_stream [OF s sample_idle(3)] by (simp only: frames_of_simps)
  have p: "\<exists>e. Poll e \<in> set [Frame ?e f, Poll ?e]" by auto
  have e: "dmr_env_ok ?e" by (rule sample_idle(2))
  have env: "\<forall>a\<in>set [Frame ?e f, Poll ?e]. dmr_env_ok (act_env a)" "\<forall>e\<in>set (replicate 3 ?e). dmr_env_ok e"
    "length sample_frames div 3 + 2 \<le> length (replicate 3 ?e)" using sample_idle(2) l(1) by (simp_all add: act_env_def)
  have a: "List.map ambe49 sample_frames = sample_frames" by (simp add: ambe49_def sample_frames_def)
  obtain a' ps where r: "play bridge_on_ysfd bridge_emit_dmr_from_conv (Frame ?e f0 # [Frame ?e f, Poll ?e] @ Frame ?e f1 # List.map Poll (replicate 3 ?e))
      sample_bridge = Some a'" "b_sent a' = b_sent sample_bridge @ List.map To_dmr ps"
    "stream_ok sample_call 0 ([Head, Head, Head] @ voice_bursts 0 (padded sample_frames) @ [Term]) ps"
    using ysf_call_through [OF sample_idle(1,4) s' l(1,2,4) p env(1) e env(2,3), of ?e] unfolding a sample_call_of [symmetric] by blast
  have t: "stream_ok sample_call 0 (Head # (replicate 2 Head @ voice_bursts 0 (padded sample_frames)) @ [Term]) ps"
    using r(3) by (simp add: numeral_2_eq_2 del: stream_ok.simps)
  obtain p0 mid p1 where "ps = p0 # mid @ [p1]" by (rule stream_ends [OF t])
  then show ?thesis using s r(1,2) t
    by (intro exI [of _ f0] exI [of _ f] exI [of _ f1] exI [of _ a'] exI [of _ p0] exI [of _ mid] exI [of _ p1] conjI) (simp_all only: append_assoc)
qed

section \<open>Properties\<close>

text \<open>
  C3: a DMR call crosses the bridge. At an idle bridge whose last packet from DMR did not have the data type of
  a header arrive the packets of one voice stream, with ids of 24 bits and a stream number other than 0: a
  header, any number of repeated headers, at most 340 raw frames in bursts of three, starting at any place of a superframe, and a terminator. Of the packets only the ids, the
  kind of burst, the stream number and the raw frames matter (\<open>dmr_frame\<close>). The polls of the YSF side
  fall anywhere among them, at least one of them between the first header and the terminator, because a header
  still queued when the call ends spoils it; after the terminator come polls enough to empty the queue. Then exactly one
  YSF call is sent: a header, the raw frames of the stream in order, five to a voice frame,
  with silence up to a full voice frame, and a terminator, under the callsign found for the id of the
  talker and the group of the call. No frame is lost, repeated or reordered, repeated headers add
  nothing, and the bridge is idle again.
\<close>

theorem dmr_call_crosses:
  assumes "ysf_idle_ok b" "call_ok c"
    and "list_all2 (dmr_frame c) (Head # replicate h Head @ voice_bursts i vs @ [Term]) (p0 # frames_of as @ [p1])"
    and "length vs = 3 * k" "length vs \<le> 340" "\<exists>e. Poll e \<in> set as" "\<forall>e. Poll e \<in> set as \<longrightarrow> ysf_env_ok e"
    and "\<forall>e\<in>set es. ysf_env_ok e" "length vs div 5 + 2 \<le> length es"
  shows "\<exists>b' fs. play (\<lambda>e p b. Some (bridge_on_dmrd e p b)) emit_ysf (Frame e0 p0 # as @ Frame e1 p1 # List.map Poll es) b = Some b' \<and>
    b_sent b' = b_sent b @ List.map (\<lambda>f. To_ysf (SendTo f)) fs \<and>
    ysf_stream_ok (dmr_talk b c) 0 (Y_head # voice_frames (filled vs) @ [Y_end]) fs \<and> \<not> b_call_active b' \<and> b_conv b' = CModeConv"
  using assms unfolding ysf_idle_ok_def by (intro dmr_call_through) auto

lemma dmr_call_crosses_witness:
  "\<exists>p0 mid p1 b' fs. stream_ok sample_call 0 (Head # replicate 2 Head @ voice_bursts 0 (padded sample_frames) @ [Term]) (p0 # mid @ [p1]) \<and>
    play (\<lambda>e p b. Some (bridge_on_dmrd e p b)) emit_ysf (Frame (sample_env 0) p0 # (List.map (Frame (sample_env 0)) mid @ [Poll (sample_env 0)]) @
      Frame (sample_env 0) p1 # List.map Poll (replicate 5 (sample_env 0))) sample_bridge = Some b' \<and>
    b_sent b' = List.map (\<lambda>f. To_ysf (SendTo f)) fs \<and>
    ysf_stream_ok (dmr_talk sample_bridge sample_call) 0
      (Y_head # voice_frames (sample_frames @ replicate 15 silence_frame) @ [Y_end]) fs \<and> \<not> b_call_active b'"
proof -
  let ?e = "sample_env 0"
  obtain p0 mid p1 where s: "stream_ok sample_call 0 (Head # replicate 2 Head @ voice_bursts 0 (padded sample_frames) @ [Term]) (p0 # mid @ [p1])"
    using sample_relay by blast
  let ?as = "List.map (Frame ?e) mid @ [Poll ?e]"
  have f: "frames_of ?as = mid" using frames_of_frames [of ?e mid] by (simp add: frames_of_def)
  have s': "list_all2 (dmr_frame sample_call) (Head # replicate 2 Head @ voice_bursts 0 (padded sample_frames) @ [Term]) (p0 # frames_of ?as @ [p1])"
    using sent_bursts_ok [OF s] by (simp only: f)
  have p: "padded sample_frames = sample_frames @ replicate 13 silence_frame" "length (padded sample_frames) = 3 * 6" "length (padded sample_frames) \<le> 340"
    by (simp_all add: padded_def sample_frames_def superframed_def)
  have fill: "filled (padded sample_frames) = sample_frames @ replicate 15 silence_frame"
    by (simp add: filled_def p(1)) (simp add: sample_frames_def flip: replicate_add)
  have env: "\<exists>e. Poll e \<in> set ?as" "\<forall>e. Poll e \<in> set ?as \<longrightarrow> ysf_env_ok e" "\<forall>e\<in>set (replicate 5 ?e). ysf_env_ok e"
    "length (padded sample_frames) div 5 + 2 \<le> length (replicate 5 ?e)"
    using sample_ysf_ok(2) p(2) by auto
  from dmr_call_crosses [OF sample_call_ok(2,1) s' p(2,3) env]
  obtain b' fs where r: "play (\<lambda>e p b. Some (bridge_on_dmrd e p b)) emit_ysf (Frame ?e p0 # ?as @ Frame ?e p1 # List.map Poll (replicate 5 ?e))
      sample_bridge = Some b'" "b_sent b' = b_sent sample_bridge @ List.map (\<lambda>f. To_ysf (SendTo f)) fs"
    "ysf_stream_ok (dmr_talk sample_bridge sample_call) 0 (Y_head # voice_frames (filled (padded sample_frames)) @ [Y_end]) fs" "\<not> b_call_active b'" by blast
  have "b_sent b' = List.map (\<lambda>f. To_ysf (SendTo f)) fs" using r(2) sample_ok(4) by simp
  then show ?thesis using s r(1,3,4) unfolding fill by blast
qed

text \<open>
  C1: two bridges in a row. A call from a YSF network, of at most 64 voice frames (320 raw frames), that one
  idle bridge turns into a DMR stream and a second idle bridge back into YSF arrives as one call with the same
  raw voice frames in the same order and silence after them, announced with the callsign that the
  second bridge has for the id under which the first one sent it. The frames of the call are those of any
  sender (\<open>ysf_frame\<close>); the id and the group have 24 bits, and the last packet that the second bridge had from DMR
  did not have the data type of a header. Each bridge may be polled anywhere among the arrivals, at least once between
  the header and the terminator that arrive at it, and often enough afterwards to empty its queue.
\<close>

theorem call_over_two_bridges:
  assumes "idle_ok a" "hears a dgid"
    and "list_all2 (ysf_frame dgid src) (Y_head # voice_frames vs @ [Y_end]) (f0 # frames_of as @ [f1])"
    and "length vs = 5 * k" "length vs \<le> 320" "\<forall>v\<in>set vs. length v = 7" "\<exists>e. Poll e \<in> set as"
    and "\<forall>x\<in>set as. dmr_env_ok (act_env x)" "dmr_env_ok e0" "\<forall>e\<in>set es. dmr_env_ok e"
    and "length vs div 3 + 2 \<le> length es"
    and "play bridge_on_ysfd bridge_emit_dmr_from_conv (Frame e0 f0 # as @ Frame e1 f1 # List.map Poll es) a = Some a'"
    and "b_sent a' = b_sent a @ List.map To_dmr (p0 # frames_of bs @ [p1])"
    and "c = \<lparr>cl_tg = dp_tg (b_dmr a), cl_rf = talker_id a (c_str src), cl_repeater = dp_dmrid (b_dmr a), cl_stream = e_rand e0 (b_rands a) OR 1\<rparr>"
    and "call_ok c" "ysf_idle_ok b"
    and "\<exists>e. Poll e \<in> set bs" "\<forall>e. Poll e \<in> set bs \<longrightarrow> ysf_env_ok e" "\<forall>e\<in>set ds. ysf_env_ok e"
    and "length vs div 5 + 6 \<le> length ds"
  shows "\<exists>b' fs. play (\<lambda>e p b. Some (bridge_on_dmrd e p b)) emit_ysf (Frame d0 p0 # bs @ Frame d1 p1 # List.map Poll ds) b = Some b' \<and>
    b_sent b' = b_sent b @ List.map (\<lambda>f. To_ysf (SendTo f)) fs \<and>
    ysf_stream_ok (dmr_talk b c) 0 (Y_head # voice_frames (filled (padded (List.map ambe49 vs))) @ [Y_end]) fs"
proof -
  have l: "length vs \<le> 480" using assms(5) by simp
  obtain x ps where x: "play bridge_on_ysfd bridge_emit_dmr_from_conv (Frame e0 f0 # as @ Frame e1 f1 # List.map Poll es) a = Some x"
    "b_sent x = b_sent a @ List.map To_dmr ps" "stream_ok c 0 ([Head, Head, Head] @ voice_bursts 0 (padded (List.map ambe49 vs)) @ [Term]) ps"
    using ysf_call_through [OF assms(1-4) l assms(6-11), of e1] unfolding assms(14) by blast
  have "x = a'" using x(1) unfolding assms(12) by (rule option.inject [THEN iffD1, symmetric])
  then have "List.map To_dmr ps = List.map To_dmr (p0 # frames_of bs @ [p1])" using assms(13) x(2) by simp
  moreover have "inj To_dmr" by (simp add: inj_def)
  ultimately have "ps = p0 # frames_of bs @ [p1]" by (simp only: inj_map_eq_map)
  then have "stream_ok c 0 (Head # replicate 2 Head @ voice_bursts 0 (padded (List.map ambe49 vs)) @ [Term]) (p0 # frames_of bs @ [p1])"
    using x(3) by (simp add: numeral_2_eq_2 del: stream_ok.simps)
  note s = sent_bursts_ok [OF this]
  have n: "length (padded (List.map ambe49 vs)) = 3 * superframed (length vs div 3 + 1)" "length (padded (List.map ambe49 vs)) \<le> 340"
    "length (padded (List.map ambe49 vs)) div 5 + 2 \<le> length ds"
    using length_padded [of "List.map ambe49 vs"] assms(5,20) by auto
  have b: "ysf_tx_ok b" "\<not> b_call_active b" "b_dmr_last_dtype b \<noteq> DMRD_DTYPE_VHEAD" using assms(16) by (simp_all add: ysf_idle_ok_def)
  show ?thesis using dmr_call_through [OF b assms(15) s n(1,2) assms(17-19) n(3), of d0 d1] by blast
qed

lemma call_over_two_bridges_witness:
  "\<exists>f0 f f1 a' p0 mid p1 b' fs. play bridge_on_ysfd bridge_emit_dmr_from_conv (Frame (sample_env 0) f0 # [Frame (sample_env 0) f, Poll (sample_env 0)] @
      Frame (sample_env 0) f1 # List.map Poll (replicate 3 (sample_env 0))) sample_bridge = Some a' \<and>
    b_sent a' = b_sent sample_bridge @ List.map To_dmr (p0 # mid @ [p1]) \<and>
    play (\<lambda>e p b. Some (bridge_on_dmrd e p b)) emit_ysf (Frame (sample_env 0) p0 # (List.map (Frame (sample_env 0)) mid @ [Poll (sample_env 0)]) @
      Frame (sample_env 0) p1 # List.map Poll (replicate 7 (sample_env 0))) sample_bridge = Some b' \<and>
    b_sent b' = b_sent sample_bridge @ List.map (\<lambda>f. To_ysf (SendTo f)) fs \<and>
    ysf_stream_ok (dmr_talk sample_bridge sample_call) 0 (Y_head # voice_frames (filled (padded (List.map ambe49 sample_frames))) @ [Y_end]) fs"
proof -
  let ?e = "sample_env 0" and ?t = "talk_of sample_bridge"
  obtain f0 f f1 a' p0 mid p1 where s: "ysf_stream_ok ?t 0 (Y_head # voice_frames sample_frames @ [Y_end]) (f0 # [f] @ [f1])"
    "play bridge_on_ysfd bridge_emit_dmr_from_conv (Frame ?e f0 # [Frame ?e f, Poll ?e] @ Frame ?e f1 # List.map Poll (replicate 3 ?e)) sample_bridge = Some a'"
    "b_sent a' = b_sent sample_bridge @ List.map To_dmr (p0 # mid @ [p1])"
    using sample_relay by blast
  let ?bs = "List.map (Frame ?e) mid @ [Poll ?e]"
  have f: "frames_of ?bs = mid" using frames_of_frames [of ?e mid] by (simp add: frames_of_def)
  have s1: "list_all2 (ysf_frame (yt_dgid ?t) (yt_src ?t)) (Y_head # voice_frames sample_frames @ [Y_end]) (f0 # frames_of [Frame ?e f, Poll ?e] @ [f1])"
    using talk_stream [OF s(1) sample_idle(3)] by (simp only: frames_of_simps)
  have p: "\<exists>e. Poll e \<in> set [Frame ?e f, Poll ?e]" by auto
  have s3: "b_sent a' = b_sent sample_bridge @ List.map To_dmr (p0 # frames_of ?bs @ [p1])" using s(3) by (simp only: f)
  have l: "length sample_frames = 5 * 1" "length sample_frames \<le> 320" "\<forall>v\<in>set sample_frames. length v = 7"
    by (simp_all add: sample_frames_def)
  have e: "dmr_env_ok ?e" by (rule sample_idle(2))
  have env: "\<forall>a\<in>set [Frame ?e f, Poll ?e]. dmr_env_ok (act_env a)" "\<forall>e\<in>set (replicate 3 ?e). dmr_env_ok e"
    "length sample_frames div 3 + 2 \<le> length (replicate 3 ?e)" using sample_idle(2) l(1) by (simp_all add: act_env_def)
  have out: "\<exists>e. Poll e \<in> set ?bs" "\<forall>e. Poll e \<in> set ?bs \<longrightarrow> ysf_env_ok e" "\<forall>e\<in>set (replicate 7 ?e). ysf_env_ok e"
    "length sample_frames div 5 + 6 \<le> length (replicate 7 ?e)"
    using sample_ysf_ok(2) l(1) by auto
  from call_over_two_bridges [OF sample_idle(1,4) s1 l p env(1) e env(2,3) s(2) s3 sample_call_of sample_call_ok out, of ?e ?e]
  show ?thesis using s(2,3) by blast
qed

text \<open>
  C38: a new stream may lose its header. When the terminator of a stream was lost after a voice burst of
  number 1 of a superframe, the header of the next stream is taken for a repeated one, because the burst number and
  the data type of a header are both 1: the call is begun anew, its converter is empty, and
  no header is queued for the YSF side.
\<close>

theorem new_stream_without_header:
  assumes "ysf_tx_ok b" "b_call_active b" "call_ok c" "cl_stream c \<noteq> b_stream_id b"
    and "k mod 6 = 1" "length p0 = 33" "length junk0 = 2" "length p = 33" "length junk = 2"
  shows "\<exists>b'. bridge_on_dmrd e (burst_packet c s Head p junk) (bridge_on_dmrd e0 (burst_packet c0 s0 (Voice k fs) p0 junk0) b) = b' \<and>
    b_call_active b' \<and> b_stream_id b' = cl_stream c \<and> conv_holds (b_conv b') [] []"
proof -
  note v' = burst_packet_parts(1) [OF assms(6,7), of c0 "Voice k fs" s0] and h' = burst_packet_parts(1) [OF assms(8,9), of c Head s]
  note v = packet_fields [OF v'] kinds_of_packets(4-6) [OF v'] burst_packet_parts(2) [OF assms(6,7), unfolded sub_buf_def] burst_packet_parts(3) [OF assms(6,7)]
    and h = packet_fields [OF h'] kinds_of_packets(1) [OF h']
  have d: "dmrd_b15_dtype (burst_packet c0 s0 (Voice k fs) p0 junk0) = DMRD_DTYPE_VHEAD"
    using assms(5) by (simp add: dmrd_b15_dtype_def v dmrd_parse_b15_def burst_b15_def)
  let ?b1 = "b\<lparr>b_conv := putDMR p0 (b_conv b), b_dmr_voice_frames := Suc (b_dmr_voice_frames b), b_dmr_last_dtype := DMRD_DTYPE_VHEAD\<rparr>"
  have b1: "bridge_on_dmrd e0 (burst_packet c0 s0 (Voice k fs) p0 junk0) b = ?b1"
    using assms(2) by (simp add: bridge_on_dmrd_def v d modeconv_put_dmr_voice_def)
  have ok: "ysf_tx_ok ?b1" using assms(1) by (simp add: ysf_tx_ok_def)
  have nz: "cl_stream c \<noteq> 0" using assms(3) by (simp add: call_ok_def)
  show ?thesis
    unfolding b1 using assms(2,4) nz conv_holds_new
    by (simp add: bridge_on_dmrd_def h begin_call [OF ok assms(3) h'])
qed

lemma new_stream_without_header_witness:
  "\<exists>b'. bridge_on_dmrd (sample_env 0) (burst_packet sample_call 0 Head (replicate 33 0) [0, 0])
      (bridge_on_dmrd (sample_env 0) (burst_packet sample_call 4 (Voice 1 []) (replicate 33 0) [0, 0]) (sample_bridge\<lparr>b_call_active := True\<rparr>)) = b' \<and>
    b_call_active b' \<and> b_stream_id b' = 7 \<and> conv_holds (b_conv b') [] []"
proof -
  have ok: "ysf_tx_ok (sample_bridge\<lparr>b_call_active := True\<rparr>)" using sample_ysf_ok(1) by (simp add: ysf_tx_ok_def)
  have "b_stream_id sample_bridge = 0" by (simp add: sample_bridge_def bridge_init_def)
  then have id: "cl_stream sample_call \<noteq> b_stream_id (sample_bridge\<lparr>b_call_active := True\<rparr>)" by (simp add: sample_call_def)
  have c: "cl_stream sample_call = 7" by (simp add: sample_call_def)
  show ?thesis
    using new_stream_without_header [OF ok _ sample_call_ok(1) id, of 1 "replicate 33 0" "[0, 0]" "replicate 33 0" "[0, 0]"
        "sample_env 0" 0 "sample_env 0" sample_call 4 "[]"] unfolding c by simp
qed

end
