(* ===== verification/Spec2Isabelle.thy ===== *)
theory Spec2Isabelle
  imports Ysf_Fich_Props Dmr_Header Dmr_Embedded Peer_Dmr_Props Peer_Ysf_Props Talker_Alias_Props Mode_Conv_Props Ysf_Payload_Props Vocoder_Props Aliases_Props El_Proxy_Props Bridge_Relay
begin

text \<open>
  Verification development of adn-bridge.

  The program. adn-bridge relays voice between amateur radio networks. One process runs one bridge,
  chosen by the mode in its configuration; \<open>src/ysf2dmrcon.c\<close> opens the peers and loops over a \<open>select\<close> with ticks.
  The bridge that this development verifies joins a YSF reflector and a DMR master (homebrew protocol):
  \<open>src/peer_ysf.c\<close> and \<open>src/peer_dmr.c\<close> keep the two network links, \<open>src/bridge.c\<close> decides who is talking,
  opens and closes calls and paces what is sent, and the codecs translate the frames: \<open>src/ysf_fich.c\<close> the
  frame information channel of YSF, \<open>src/mmdvm/YSFPayload.cpp\<close> its headers and data channels,
  \<open>src/hbp/dmr_hbp.c\<close> the headers and embedded signalling of DMR, \<open>src/mmdvm/ModeConv.cpp\<close> the voice itself,
  frame by frame between two circular buffers. \<open>src/aliases.c\<close> and \<open>src/talker_alias.c\<close> tell the bridge the
  callsign behind a DMR id. \<open>src/vocoder_remote.c\<close> is the client of a vocoder server and
  \<open>src/el_proxy.c\<close> that of a proxy, both for the EchoLink bridges.

  Conventions. A byte is \<open>8 word\<close>, an \<open>unsigned int\<close> \<open>32 word\<close>, with their wrap-around; where the code
  counts in \<open>int\<close> without reaching its bounds the model has \<open>nat\<close>. A C array is a list of its length, a
  struct a record, and a function that writes through pointers returns the changed values. What may go
  wrong is a value: \<open>None\<close> is a loop that does not end (\<open>partial_function (option)\<close>), so a theorem with
  \<open>Some\<close> on the right says that the code returns; in \<open>Talker_Alias\<close> and where \<open>rs129_gmult\<close> indexes its
  tables \<open>None\<close> is also a read outside an array. Elsewhere an index is list indexing, which does not show a
  read beyond a buffer: the theorems assume the lengths that the callers guarantee. The clock, \<open>rand\<close>,
  whether a periodic log line is due, and bytes of the stack that the code sends without having written them are
  arguments; datagrams are arguments of the receiving operations and results of the sending ones; the
  vocoder server and the readability of files are parameters.

  The theories, from the bottom, with the code they model.
  \<^item> \<open>Prelude\<close>: integer types, byte buffers, \<open>memcpy\<close> and its kind, bits of bytes.
    \<open>C_Strings\<close>: strings ended by a zero. \<open>Linear_Code\<close>: block codes as linear
    maps. \<open>Keepalive\<close>: the locale \<open>keepalive\<close> of a link that lives on recent traffic; both peers interpret it.
    \<open>Open_Table\<close>: the locale \<open>open_table\<close> of a probing hash table; both tables of \<open>aliases.c\<close> interpret it.
  \<^item> \<open>Ysf_Tables\<close>, \<open>Golay_Tables\<close>, \<open>Ysf_Golay\<close>, \<open>Ysf_Conv\<close>, \<open>Ysf_Crc\<close>, \<open>Ysf_Fich\<close>, with the properties in
    \<open>Ysf_Fich_Correct\<close>, \<open>Ysf_Fich_Errors\<close>, \<open>Ysf_Fich_Props\<close>: \<open>src/ysf_fich.c\<close>. The Golay decoder corrects three
    errors, the Viterbi decoder is a maximum likelihood decoder, the table-driven checksum is the polynomial
    remainder, \<open>fich_decode\<close> returns on every frame and repairs any two wrong bits,
    \<open>ysf_fich_rewrite_dgid\<close> sets the group, the data type and the VoIP flag and touches nothing outside the
    FICH block, and what the activation burst consists of.
  \<^item> \<open>Dmr_Tables\<close>, \<open>Dmr_Codec\<close>, \<open>Dmr_Codec_Correct\<close>, \<open>Dmr_Header\<close>, \<open>Dmr_Embedded\<close>, \<open>Sha256\<close>:
    \<open>src/hbp/dmr_hbp.c\<close>. The product code round trip, the voice header with its Reed-Solomon parity, the four
    fragments of the embedded link control, and \<open>sha256_generate\<close> as the function of FIPS 180-4.
  \<^item> \<open>Ring_Buffer\<close> (\<open>src/mmdvm/RingBuffer.h\<close>, a bounded queue), \<open>Cgolay_Tables\<close>, \<open>Cgolay\<close>
    (\<open>Golay24128.cpp\<close>, the same code as on the C side), \<open>Mode_Conv_Tables\<close>, \<open>Mode_Conv\<close>, \<open>Mode_Conv_Fields\<close>,
    \<open>Mode_Conv_Ysf\<close>, \<open>Mode_Conv_Queues\<close>, \<open>Mode_Conv_Props\<close> (\<open>ModeConv.cpp\<close> and \<open>modeconv_wrap.cpp\<close>): the
    converter refines two queues of tagged frames, and a raw voice frame comes out as it went in on
    either network.
  \<^item> \<open>Ysf_Payload\<close>, \<open>Ysf_Channel\<close>, \<open>Ysf_Payload_Blocks\<close>, \<open>Ysf_Payload_Props\<close>: \<open>YSFPayload.cpp\<close>,
    \<open>YSFConvolution.cpp\<close>, the checksum pair of \<open>CRC.cpp\<close> and \<open>ysfpayload_wrap.cpp\<close>.
  \<^item> \<open>Talker_Alias\<close>, \<open>Talker_Alias_Props\<close>: \<open>src/talker_alias.c\<close>. \<open>Aliases\<close>, \<open>Aliases_Props\<close>: the tables of
    \<open>src/aliases.c\<close>, shown to be the two maps that the rows of the files describe.
  \<^item> \<open>Peer_Dmr\<close>, \<open>Peer_Dmr_Props\<close>: \<open>src/peer_dmr.c\<close> and \<open>process_connect\<close>, which refine a login protocol
    (an inductive step relation). \<open>Peer_Ysf\<close>, \<open>Peer_Ysf_Props\<close>: \<open>src/peer_ysf.c\<close>.
  \<^item> \<open>Vocoder\<close>, \<open>Vocoder_Props\<close>: \<open>src/vocoder_remote.c\<close>, for any server, one that sends
    datagrams without end included.
  \<^item> \<open>El_Proxy\<close>, \<open>El_Proxy_Props\<close>: \<open>src/el_proxy.c\<close>, the client of an EchoLink proxy: the TCP stream as
    messages and the directory connection inside it.
  \<^item> \<open>Bridge\<close>: \<open>src/bridge.c\<close>. The record \<open>bridge\<close> is \<open>struct bridge\<close> with the two peers, the converter and
    the state of the two codecs inside; \<open>bridge_on_ysfd\<close>, \<open>bridge_on_dmrd\<close>, \<open>bridge_on_dmra\<close> and
    \<open>bridge_tick\<close> are its events. \<open>Bridge_Tx\<close>: the packets of \<open>bridge_send_dmrd\<close> and what they carry.
    \<open>Bridge_Stream\<close>: streams of DMR packets (\<open>stream_ok\<close>: header, voice bursts numbered modulo six, terminator)
    and the key-up after a connection. \<open>Silence\<close>: the silence constants are encodings of one raw frame. \<open>Bridge_Ysf\<close>: the
    frames of a YSF transmission. \<open>Bridge_Call\<close>, \<open>Bridge_Relay\<close>: whole calls in both directions, as any sender may send
    them (\<open>ysf_frame\<close>, \<open>dmr_frame\<close>), with polls among the arrivals, and a call over two bridges in a row.

  Bounds and fuel. The loops that pad a call with silence up to a whole superframe end because every turn
  adds a frame; the locale \<open>frame_counter\<close> of \<open>Bridge_Stream\<close> gives the number of turns. The theorems about
  whole calls bound the voice frames of a call (480 from YSF, 340 from DMR, 320 through both bridges),
  because the circular buffers of the converter hold 500 and 358 records and empty themselves on overflow;
  within the bounds no order of arrivals and polls can overflow them. Of the pace they assume one thing, that at
  least one poll falls between the header and the terminator of a call: a header that is still queued when
  the call ends spoils the fill (\<open>eot_lost_behind_header\<close>). After the terminator polls must follow until the queue is
  empty. A poll is one run of the emitting function that \<open>bridge_tick\<close> calls when the pace allows it. The calls of
  these theorems are unbroken: what a lost terminator does is shown apart at the end of \<open>Bridge_Relay\<close>.

  Not modelled.
  \<^item> \<open>src/peer_echolink.c\<close> and \<open>src/bridge_el.c\<close>: the EchoLink side is floating-point audio (gain, resampling),
    a GSM codec, threads around blocking directory queries and calls of the vendored codec; little of it
    is a function of its input that the logic could speak about.
  \<^item> \<open>src/config.c\<close>, \<open>src/ysf2dmrcon.c\<close>, \<open>src/log.c\<close>: parsing of the configuration file, arguments and
    signals, output of log lines.
  \<^item> The refresh of the subscriber files in \<open>src/aliases.c\<close>: HTTP, lock files, checksums and JSON through
    libraries; what is modelled begins with the text of the files.
  \<^item> \<open>src/vendor\<close>: third-party code.
\<close>

end
